(* ===== verification/Prelude.thy ===== *)
theory Prelude
  imports Main "HOL-Library.Multiset" "HOL-Library.List_Lexorder" "HOL-Library.Char_ord"
begin

text \<open>
  Vocabulary shared by every component of the development: names for the identifiers and
  instants the backend passes around, the JavaScript idioms its handlers use (truthiness,
  decimal rendering in template strings, lower-casing) and the list facts that the component
  theories need more than once.
\<close>

section \<open>Types\<close>

type_synonym objectId = string
  \<comment> \<open>the hexadecimal rendering of a MongoDB ObjectId, as \<open>_id.toString()\<close> returns it\<close>

type_synonym millis = int
  \<comment> \<open>an instant, as \<open>Date.getTime()\<close> returns it\<close>

named_theorems handler_defs \<open>definitions unfolded when a handler is executed symbolically\<close>
named_theorems frame \<open>which part of the state an operation leaves alone\<close>

section \<open>JavaScript idioms\<close>

text \<open>The truthiness test of an optional string: \<open>if (x)\<close> fails on \<open>undefined\<close> and on \<open>''''\<close>.\<close>

definition truthy :: "string option \<Rightarrow> bool" where
  "truthy x \<longleftrightarrow> (case x of None \<Rightarrow> False | Some s \<Rightarrow> s \<noteq> [])"

lemma truthy_simps [simp]: "truthy None = False" "truthy (Some s) = (s \<noteq> [])"
  by (simp_all add: truthy_def)

text \<open>\<open>x && x\<close>: the spread idiom \<open>...(x && { x })\<close> keeps a truthy string only.\<close>

definition keep_truthy :: "string option \<Rightarrow> string option" where
  "keep_truthy x = (if truthy x then x else None)"

lemma keep_truthy_simps [simp]:
  "keep_truthy None = None"
  "keep_truthy (Some s) = (if s = [] then None else Some s)"
  by (simp_all add: keep_truthy_def)

text \<open>\<open>x ?? d\<close>\<close>

definition nullish :: "'a option \<Rightarrow> 'a \<Rightarrow> 'a" where
  "nullish x d = (case x of None \<Rightarrow> d | Some v \<Rightarrow> v)"

lemma nullish_simps [simp]: "nullish None d = d" "nullish (Some v) d = v"
  by (simp_all add: nullish_def)

definition digit_char :: "nat \<Rightarrow> char" where
  "digit_char d = char_of (48 + d)"

fun nat_str :: "nat \<Rightarrow> string" where
  "nat_str n = (if n < 10 then [digit_char n] else nat_str (n div 10) @ [digit_char (n mod 10)])"

declare nat_str.simps [simp del]

definition int_str :: "int \<Rightarrow> string" where
  "int_str i = (if i < 0 then ''-'' @ nat_str (nat (- i)) else nat_str (nat i))"

text \<open>A number printed with leading zeros, as the date formatter does.\<close>

definition pad :: "nat \<Rightarrow> nat \<Rightarrow> string" where
  "pad w n = replicate (w - length (nat_str n)) (CHR ''0'') @ nat_str n"

definition to_lower :: "char \<Rightarrow> char" where
  "to_lower c = (let n = of_char c :: nat in if 65 \<le> n \<and> n \<le> 90 then char_of (n + 32) else c)"

definition toLowerCase :: "string \<Rightarrow> string" where
  "toLowerCase s = map to_lower s"

lemma to_lower_idem [simp]: "to_lower (to_lower c) = to_lower c"
proof -
  define n where "n = (of_char c :: nat)"
  have "n < 256" by (simp add: n_def)
  then show ?thesis
    by (auto simp: to_lower_def Let_def n_def[symmetric])
qed

lemma toLowerCase_idem [simp]: "toLowerCase (toLowerCase s) = toLowerCase s"
  by (simp add: toLowerCase_def)

definition startsWith :: "string \<Rightarrow> string \<Rightarrow> bool" where
  "startsWith s p \<longleftrightarrow> take (length p) s = p"

lemma startsWith_append [simp]: "startsWith (p @ s) p"
  by (simp add: startsWith_def)

lemma startsWith_decomp: "startsWith s p \<Longrightarrow> s = p @ drop (length p) s"
  unfolding startsWith_def by (metis append_take_drop_id)

fun join :: "string \<Rightarrow> string list \<Rightarrow> string" where
  "join sep [] = []"
| "join sep [x] = x"
| "join sep (x # y # ys) = x @ sep @ join sep (y # ys)"

section \<open>Lists\<close>

lemma find_Some_iff_ex: "List.find P xs \<noteq> None \<longleftrightarrow> (\<exists>x\<in>set xs. P x)"
  by (auto simp: find_None_iff)

lemma find_SomeD: "List.find P xs = Some x \<Longrightarrow> P x \<and> x \<in> set xs"
  by (auto simp: find_Some_iff)

lemma find_append:
  "List.find P (xs @ ys) = (case List.find P xs of None \<Rightarrow> List.find P ys | Some x \<Rightarrow> Some x)"
  by (induction xs) auto

text \<open>\<open>xs.slice(a, b)\<close>: negative positions count from the end, and both are clipped.\<close>

definition js_index :: "nat \<Rightarrow> int \<Rightarrow> nat" where
  "js_index len a = (if a < 0 then nat (int len + a) else min (nat a) len)"

definition js_slice :: "'a list \<Rightarrow> int \<Rightarrow> int \<Rightarrow> 'a list" where
  "js_slice xs a b = drop (js_index (length xs) a) (take (js_index (length xs) b) xs)"

lemma js_slice_prefix: "0 \<le> b \<Longrightarrow> js_slice xs 0 b = take (nat b) xs"
  by (simp add: js_slice_def js_index_def min_def)

lemma js_slice_all: "js_slice xs 0 (int (length xs)) = xs"
  by (simp add: js_slice_prefix)

text \<open>Listings sorted newest first: the items after the cursor are those with a smaller key.\<close>

definition desc_by :: "('a \<Rightarrow> 'k::linorder) \<Rightarrow> 'a list \<Rightarrow> 'a list" where
  "desc_by key xs = rev (sort_key key xs)"

lemma set_desc_by [simp]: "set (desc_by key xs) = set xs"
  by (simp add: desc_by_def)

lemma mset_desc_by [simp]: "mset (desc_by key xs) = mset xs"
  by (simp add: desc_by_def)

lemma length_desc_by [simp]: "length (desc_by key xs) = length xs"
  by (simp add: desc_by_def)

lemma filter_desc_by: "filter P (desc_by key xs) = desc_by key (filter P xs)"
  by (simp add: desc_by_def filter_sort flip: rev_filter)

lemma distinct_map_desc_by [simp]: "distinct (map f (desc_by key xs)) = distinct (map f xs)"
proof -
  have "mset (map f (desc_by key xs)) = mset (map f xs)" by simp
  then show ?thesis using mset_eq_imp_distinct_iff by blast
qed

lemma distinct_desc_by [simp]: "distinct (desc_by key xs) = distinct xs"
  using distinct_map_desc_by[of id key xs] by simp

lemma desc_by_sorted: "sorted_wrt (\<lambda>a b. key b \<le> key a) (desc_by key xs)"
proof -
  have "sorted_wrt (\<lambda>a b. key a \<le> key b) (sort_key key xs)"
    using sorted_sort_key[of key xs] by (simp add: sorted_wrt_map)
  then show ?thesis by (simp add: desc_by_def sorted_wrt_rev)
qed

lemma desc_by_suffix:
  assumes "desc_by key xs = ys @ d # zs" and "inj_on key (set xs)" and "distinct xs"
  shows "filter (\<lambda>x. key x < key d) (ys @ d # zs) = zs"
proof -
  have s: "sorted_wrt (\<lambda>a b. key b \<le> key a) (ys @ d # zs)"
    using desc_by_sorted[of key xs] assms(1) by simp
  have dist: "distinct (ys @ d # zs)"
    using assms(1,3) distinct_map_desc_by[of id key xs] by simp
  have sub: "set (ys @ d # zs) = set xs" using assms(1) by (metis set_desc_by)
  have "key d \<le> key y" if "y \<in> set ys" for y
    using s that by (auto simp: sorted_wrt_append)
  then have "filter (\<lambda>x. key x < key d) ys = []" by (auto simp: filter_empty_conv not_less)
  moreover have "key z < key d" if "z \<in> set zs" for z
  proof -
    have "key z \<le> key d" using s that by (auto simp: sorted_wrt_append)
    moreover have "z \<noteq> d" using dist that by auto
    then have "key z \<noteq> key d" using assms(2) that sub by (auto simp: inj_on_def)
    ultimately show ?thesis by simp
  qed
  then have "filter (\<lambda>x. key x < key d) zs = zs" by (simp add: filter_id_conv)
  ultimately show ?thesis by simp
qed

lemma find_map_upd:
  assumes "\<And>x. x \<in> set xs \<Longrightarrow> P (f x) = P x"
  shows "List.find P (map f xs) = map_option f (List.find P xs)"
  using assms by (induction xs) auto

lemma sort_key_map_pair:
  "sort_key fst (map (\<lambda>(k, v). (k, f v)) kvs) = map (\<lambda>(k, v). (k, f v)) (sort_key fst kvs)"
proof (induction kvs)
  case Nil
  then show ?case by simp
next
  case (Cons kv kvs)
  have ins: "insort_key fst (k, f v) (map (\<lambda>(k, v). (k, f v)) l)
      = map (\<lambda>(k, v). (k, f v)) (insort_key fst (k, v) l)" for k v l
    by (induction l) auto
  show ?case using Cons by (cases kv) (simp add: ins)
qed

lemma filter_map_pair:
  assumes "\<And>v. P (f v) = P v"
  shows "filter (\<lambda>(k, v). P v) (map (\<lambda>(k, v). (k, f v)) kvs)
    = map (\<lambda>(k, v). (k, f v)) (filter (\<lambda>(k, v). P v) kvs)"
  using assms by (induction kvs) auto

lemma sort_key_fst_perm:
  assumes "mset xs = mset ys" and "distinct (map fst xs)"
  shows "sort_key fst xs = sort_key fst ys"
proof (rule sort_key_inj_key_eq)
  show "mset xs = mset (sort_key fst ys)" using assms(1) by simp
  show "inj_on fst (set xs)" using assms(2) by (simp add: distinct_map)
  show "sorted (map fst (sort_key fst ys))" by simp
qed

end
