(* ===== verification/Json.thy ===== *)
theory Json
  imports Prelude
begin

text \<open>
  The deterministic serialization behind every data hash of the backend
  (\<open>src/src/shared/utils/crypto.ts\<close> and \<open>date.ts\<close>): JSON values, ISO-8601 rendering of dates,
  the key-sorting normalizer, \<open>JSON.stringify\<close> and \<open>generateDataHash\<close>, with SHA-256 a parameter.
  The lemmas show that the hash ignores the order in which an object's fields were written.
\<close>

section \<open>Values\<close>

text \<open>
  A JavaScript value as far as JSON sees it. A number is the text \<open>JSON.stringify\<close> prints for
  it. An object lists its own properties in enumeration order.
\<close>

datatype jval =
    JNull
  | JUndef
  | JBool bool
  | JNum string
  | JStr string
  | JDate millis
  | JArr "jval list"
  | JObj "(string \<times> jval) list"

section \<open>Dates\<close>

text \<open>
  \<open>Date.prototype.toISOString\<close> (proleptic Gregorian calendar, UTC). The civil date is computed
  from the day number by the era method: an era is 400 years of 146097 days, and years start in
  March.
\<close>

definition civil_from_days :: "int \<Rightarrow> int \<times> int \<times> int" where
  "civil_from_days d =
     (let z = d + 719468;
          era = z div 146097;
          doe = z mod 146097;
          yoe = (doe - doe div 1460 + doe div 36524 - doe div 146096) div 365;
          doy = doe - (365 * yoe + yoe div 4 - yoe div 100);
          mp = (5 * doy + 2) div 153;
          day = doy - (153 * mp + 2) div 5 + 1;
          month = (if mp < 10 then mp + 3 else mp - 9);
          year = yoe + era * 400 + (if month \<le> 2 then 1 else 0)
      in (year, month, day))"

definition iso_year :: "int \<Rightarrow> string" where
  "iso_year y = (if 0 \<le> y \<and> y \<le> 9999 then pad 4 (nat y)
     else if y < 0 then ''-'' @ pad 6 (nat (- y)) else ''+'' @ pad 6 (nat y))"

definition toISOString :: "millis \<Rightarrow> string" where
  "toISOString t =
     (let days = t div 86400000; ms = t mod 86400000; (y, m, d) = civil_from_days days
      in iso_year y @ ''-'' @ pad 2 (nat m) @ ''-'' @ pad 2 (nat d) @ ''T''
         @ pad 2 (nat (ms div 3600000)) @ '':''
         @ pad 2 (nat (ms div 60000 mod 60)) @ '':''
         @ pad 2 (nat (ms div 1000 mod 60)) @ ''.''
         @ pad 3 (nat (ms mod 1000)) @ ''Z'')"

text \<open>\<open>toISOStringOrNull\<close>: a date is rendered, a string passes through, anything missing is null.\<close>

fun toISOStringOrNull :: "jval \<Rightarrow> jval" where
  "toISOStringOrNull JNull = JNull"
| "toISOStringOrNull JUndef = JNull"
| "toISOStringOrNull (JDate t) = JStr (toISOString t)"
| "toISOStringOrNull v = v"

section \<open>Objects\<close>

text \<open>
  Own properties are enumerated with the array-index keys first, in numeric order, and the
  other keys in insertion order; building an object key by key therefore reorders it.
\<close>

definition is_digit :: "char \<Rightarrow> bool" where
  "is_digit c \<longleftrightarrow> (let n = of_char c :: nat in 48 \<le> n \<and> n \<le> 57)"

definition index_value :: "string \<Rightarrow> nat" where
  "index_value k = foldl (\<lambda>n c. 10 * n + (of_char c - 48)) 0 k"

definition is_index :: "string \<Rightarrow> bool" where
  "is_index k \<longleftrightarrow> k \<noteq> [] \<and> list_all is_digit k \<and> (k = ''0'' \<or> hd k \<noteq> CHR ''0'')
     \<and> index_value k < 4294967295"

definition own_order :: "(string \<times> 'a) list \<Rightarrow> (string \<times> 'a) list" where
  "own_order kvs = sort_key (\<lambda>kv. index_value (fst kv)) (filter (\<lambda>kv. is_index (fst kv)) kvs)
     @ filter (\<lambda>kv. \<not> is_index (fst kv)) kvs"

lemma set_own_order [simp]: "set (own_order kvs) = set kvs"
  by (auto simp: own_order_def)

lemma size_jobj_member: "(k, v) \<in> set kvs \<Longrightarrow> size v < Suc (size_list (size_prod (\<lambda>_. 0) size) kvs)"
  by (induction kvs) auto

lemma size_jarr_member: "v \<in> set xs \<Longrightarrow> size v < Suc (size_list size xs)"
  by (induction xs) auto

text \<open>\<open>normalizeForDeterministicJson\<close>\<close>

function normalize :: "jval \<Rightarrow> jval" where
  "normalize JNull = JNull"
| "normalize (JDate t) = JStr (toISOString t)"
| "normalize (JArr xs) = JArr (map normalize xs)"
| "normalize JUndef = JUndef"
| "normalize (JBool b) = JBool b"
| "normalize (JNum n) = JNum n"
| "normalize (JStr s) = JStr s"
| "normalize (JObj kvs) = JObj (own_order
     (map (\<lambda>(k, v). (k, normalize v)) (filter (\<lambda>(k, v). v \<noteq> JUndef) (sort_key fst kvs))))"
  by pat_completeness auto
termination
  by (relation "measure size") (auto simp: size_jobj_member size_jarr_member)


lemma own_order_map:
  "own_order (map (\<lambda>(k, v). (k, f v)) kvs) = map (\<lambda>(k, v). (k, f v)) (own_order kvs)"
proof -
  have ins: "insort_key (\<lambda>kv. index_value (fst kv)) (k, f v) (map (\<lambda>(k, v). (k, f v)) l)
      = map (\<lambda>(k, v). (k, f v)) (insort_key (\<lambda>kv. index_value (fst kv)) (k, v) l)" for k v l
    by (induction l) auto
  have srt: "sort_key (\<lambda>kv. index_value (fst kv)) (map (\<lambda>(k, v). (k, f v)) l)
      = map (\<lambda>(k, v). (k, f v)) (sort_key (\<lambda>kv. index_value (fst kv)) l)" for l
    by (induction l) (auto simp: ins)
  have flt: "filter (\<lambda>kv. P (fst kv)) (map (\<lambda>(k, v). (k, f v)) kvs)
      = map (\<lambda>(k, v). (k, f v)) (filter (\<lambda>kv. P (fst kv)) kvs)" for P
    by (induction kvs) auto
  show ?thesis
    by (simp add: own_order_def flt[of is_index] flt[of "\<lambda>k. \<not> is_index k"] srt)
qed

lemma normalize_undef [simp]: "normalize v = JUndef \<longleftrightarrow> v = JUndef"
  by (cases v) auto

text \<open>The normalizer on an object, with the normalized values taken first.\<close>

lemma normalize_obj:
  "normalize (JObj kvs) = JObj (own_order (filter (\<lambda>(k, v). v \<noteq> JUndef)
     (sort_key fst (map (\<lambda>(k, v). (k, normalize v)) kvs))))"
  by (simp add: sort_key_map_pair filter_map_pair own_order_map)

section \<open>Field order does not matter\<close>

text \<open>
  Two values are the same up to the order in which the fields of their objects (at any depth)
  were written. Keys of one object are distinct, as they are in JavaScript.
\<close>

inductive same_json :: "jval \<Rightarrow> jval \<Rightarrow> bool" where
  refl: "same_json v v"
| arr: "list_all2 same_json xs ys \<Longrightarrow> same_json (JArr xs) (JArr ys)"
| obj: "distinct (map fst kvs) \<Longrightarrow> mset kvs' = mset kvs
     \<Longrightarrow> list_all2 (\<lambda>kv lw. fst kv = fst lw \<and> same_json (snd kv) (snd lw)) kvs' lws
     \<Longrightarrow> same_json (JObj kvs) (JObj lws)"
monos list.rel_mono

inductive_cases same_json_objE: "same_json (JObj kvs) w"
inductive_cases same_json_arrE: "same_json (JArr xs) w"

lemma list_all2_map_pair_eq:
  "list_all2 (\<lambda>kv lw. fst kv = fst lw \<and> f (snd kv) = f (snd lw)) xs ys
     \<Longrightarrow> map (\<lambda>(k, v). (k, f v)) xs = map (\<lambda>(k, v). (k, f v)) ys"
  by (induction xs ys rule: list_all2_induct) auto

lemma list_all2_map_eq: "list_all2 (\<lambda>x y. f x = f y) xs ys \<Longrightarrow> map f xs = map f ys"
  by (induction xs ys rule: list_all2_induct) auto

lemma normalize_same: "same_json v w \<Longrightarrow> normalize v = normalize w"
proof (induction rule: same_json.induct)
  case (refl v)
  show ?case ..
next
  case (arr xs ys)
  then have "list_all2 (\<lambda>x y. normalize x = normalize y) xs ys"
    by (auto elim: list_all2_mono)
  then show ?case by (simp add: list_all2_map_eq)
next
  case (obj kvs kvs' lws)
  let ?n = "map (\<lambda>(k, v). (k, normalize v))"
  have "list_all2 (\<lambda>kv lw. fst kv = fst lw \<and> normalize (snd kv) = normalize (snd lw)) kvs' lws"
    using obj(3) by (rule list_all2_mono) auto
  then have eq: "?n kvs' = ?n lws" by (rule list_all2_map_pair_eq)
  have keys: "map fst (?n kvs) = map fst kvs" by (induction kvs) auto
  have dist: "distinct (map fst (?n kvs))" using obj.hyps(1) by (simp only: keys)
  have "mset (?n kvs) = mset (?n kvs')" using obj.hyps(2) by (simp add: mset_map)
  then have "sort_key fst (?n kvs) = sort_key fst (?n kvs')"
    using dist by (rule sort_key_fst_perm)
  then show ?case unfolding normalize_obj by (simp only: eq)
qed

section \<open>Serialization and the data hash\<close>

text \<open>\<open>JSON.stringify\<close> of a string: quotes, backslashes and control characters are escaped.\<close>

definition hex_digit :: "nat \<Rightarrow> char" where
  "hex_digit n = (if n < 10 then char_of (48 + n) else char_of (87 + n))"

definition escape_char :: "char \<Rightarrow> string" where
  "escape_char c = (let n = of_char c :: nat; bs = char_of (92::nat) in
     if n = 34 then [bs, c]
     else if n = 92 then [bs, c]
     else if n = 8 then [bs, CHR ''b'']
     else if n = 12 then [bs, CHR ''f'']
     else if n = 10 then [bs, CHR ''n'']
     else if n = 13 then [bs, CHR ''r'']
     else if n = 9 then [bs, CHR ''t'']
     else if n < 32 then bs # ''u00'' @ [hex_digit (n div 16), hex_digit (n mod 16)]
     else [c])"

definition quote :: "string \<Rightarrow> string" where
  "quote s = char_of (34::nat) # concat (map escape_char s) @ [char_of (34::nat)]"

function json_str :: "jval \<Rightarrow> string" where
  "json_str JNull = ''null''"
| "json_str JUndef = ''null''"
| "json_str (JBool b) = (if b then ''true'' else ''false'')"
| "json_str (JNum n) = n"
| "json_str (JStr s) = quote s"
| "json_str (JDate t) = quote (toISOString t)"
| "json_str (JArr xs) = ''['' @ join '','' (map json_str xs) @ '']''"
| "json_str (JObj kvs) = CHR ''{'' # join '',''
     (map (\<lambda>(k, v). quote k @ '':'' @ json_str v) (filter (\<lambda>(k, v). v \<noteq> JUndef) kvs)) @ ''}''"
  by pat_completeness auto
termination
  by (relation "measure size") (auto simp: size_jobj_member size_jarr_member)

text \<open>At the top level \<open>JSON.stringify(undefined)\<close> is \<open>undefined\<close>, not a string.\<close>

definition stringify :: "jval \<Rightarrow> string option" where
  "stringify v = (if v = JUndef then None else Some (json_str v))"

text \<open>The characters that the regular expression \<open>\s\<close> matches, among code units below 256.\<close>

definition is_space :: "char \<Rightarrow> bool" where
  "is_space c \<longleftrightarrow> (let n = of_char c :: nat in (9 \<le> n \<and> n \<le> 13) \<or> n = 32 \<or> n = 160)"

definition trim :: "string \<Rightarrow> string" where
  "trim s = rev (dropWhile is_space (rev (dropWhile is_space s)))"

definition strip_ws :: "string \<Rightarrow> string" where
  "strip_ws s = filter (\<lambda>c. \<not> is_space c) s"

text \<open>
  \<open>generateDataHash\<close>: \<open>None\<close> is the \<open>TypeError\<close> that \<open>serialized.replace\<close> raises when the
  payload is \<open>undefined\<close>. The digest is a parameter.
\<close>

definition generateDataHash :: "(string \<Rightarrow> string) \<Rightarrow> jval \<Rightarrow> string option" where
  "generateDataHash sha256 payload =
     (case stringify (normalize payload) of
        None \<Rightarrow> None
      | Some serialized \<Rightarrow> Some (sha256 (strip_ws serialized)))"

lemma generateDataHash_obj [simp]:
  "generateDataHash sha256 (JObj kvs) = Some (sha256 (strip_ws (json_str (normalize (JObj kvs)))))"
  by (simp add: generateDataHash_def stringify_def del: normalize.simps(8))

lemma generateDataHash_same:
  "same_json v w \<Longrightarrow> generateDataHash sha256 v = generateDataHash sha256 w"
  by (simp add: generateDataHash_def normalize_same)

section \<open>The canonical payload of a shipment event\<close>

record canonical_input =
  ci_shipmentId :: string
  ci_event :: string
  ci_actor :: "string option"
  ci_timestamp :: "jval option"
  ci_metadata :: "jval option"

definition opt_str :: "string option \<Rightarrow> jval" where
  "opt_str x = (case x of None \<Rightarrow> JNull | Some s \<Rightarrow> JStr s)"

definition undef_str :: "string option \<Rightarrow> jval" where
  "undef_str x = (case x of None \<Rightarrow> JUndef | Some s \<Rightarrow> JStr s)"

definition buildCanonicalShipmentPayload :: "canonical_input \<Rightarrow> jval" where
  "buildCanonicalShipmentPayload input = JObj
     [(''actor'', opt_str (ci_actor input)),
      (''event'', JStr (ci_event input)),
      (''metadata'', nullish (ci_metadata input) (JObj [])),
      (''shipmentId'', JStr (ci_shipmentId input)),
      (''timestamp'', (case ci_timestamp input of
          Some (JDate t) \<Rightarrow> JStr (toISOString t)
        | Some v \<Rightarrow> v
        | None \<Rightarrow> JStr (toISOString 0))),
      (''v'', JNum ''1'')]"

text \<open>\<open>serializeDates\<close> replaces every date of a tree by its ISO rendering, keeping everything else.\<close>

function serializeDates :: "jval \<Rightarrow> jval" where
  "serializeDates JNull = JNull"
| "serializeDates JUndef = JUndef"
| "serializeDates (JDate t) = JStr (toISOString t)"
| "serializeDates (JArr xs) = JArr (map serializeDates xs)"
| "serializeDates (JObj kvs) = JObj (own_order (map (\<lambda>(k, v). (k, serializeDates v)) kvs))"
| "serializeDates (JBool b) = JBool b"
| "serializeDates (JNum n) = JNum n"
| "serializeDates (JStr s) = JStr s"
  by pat_completeness auto
termination
  by (relation "measure size") (auto simp: size_jobj_member size_jarr_member)

function has_date :: "jval \<Rightarrow> bool" where
  "has_date (JDate t) = True"
| "has_date (JArr xs) = list_ex has_date xs"
| "has_date (JObj kvs) = list_ex (\<lambda>(k, v). has_date v) kvs"
| "has_date JNull = False"
| "has_date JUndef = False"
| "has_date (JBool b) = False"
| "has_date (JNum n) = False"
| "has_date (JStr s) = False"
  by pat_completeness auto
termination
  by (relation "measure size") (auto simp: size_jobj_member size_jarr_member)

lemma serializeDates_no_date: "\<not> has_date (serializeDates v)"
  by (induction v rule: serializeDates.induct) (auto simp: list_ex_iff)

end
