(* ===== verification/Errors.thy ===== *)
theory Errors
  imports Json
begin

text \<open>
  \<open>src/src/shared/http/errors.ts\<close> and \<open>errorMiddleware.ts\<close>: the registry of error codes, the
  \<open>AppError\<close> class and the middleware that turns whatever a handler throws into an HTTP response.
\<close>

section \<open>The registry\<close>

datatype (plugins only: size) error_key =
    UNAUTHORIZED | FORBIDDEN | NOT_FOUND | BAD_REQUEST | VALIDATION_ERROR | INTERNAL_ERROR
  | SHIPMENT_NOT_FOUND | SHIPMENT_INVALID_TRANSITION | PAYMENT_NOT_FOUND | SETTLEMENT_NOT_FOUND
  | SETTLEMENT_ALREADY_DISPUTED | ORGANIZATION_NOT_FOUND | TEMPLATE_NOT_FOUND | DUPLICATE_KEY
  | INVALID_RESET_TOKEN | INVALID_TRANSITION | STELLAR_CONFIG | STELLAR_INVALID_HASH
  | CHAIN_UNAUTHORIZED | CHAIN_INVALID_HASH | CHAIN_ALREADY_ANCHORED | CHAIN_ESCROW_EXISTS
  | CHAIN_ESCROW_NOT_FOUND | CHAIN_ESCROW_ALREADY_RELEASED | CHAIN_INVALID_AMOUNT
  | CHAIN_INVALID_PROOF | CHAIN_UNKNOWN | CHAIN_INVALID_EVENT | RATE_LIMIT_EXCEEDED
  | LEDGER_BLOCK_NOT_FOUND | FILE_TOO_LARGE | INVALID_MIME_TYPE | INVALID_DOCUMENT_TYPE
  | PHOTO_LIMIT_EXCEEDED | EVENTS_POLL_FAILED | TOKEN_REVOKED | NOTIFICATION_NOT_FOUND
  | TOTP_INVALID_CODE | TOTP_NOT_SETUP | TOTP_ALREADY_ENABLED | TOTP_NOT_ENABLED
  | TOTP_INVALID_BACKUP_CODE | TOTP_INVALID_SECRET_FORMAT | TOKEN_INVALID_IDENTIFIER
  | FILE_UPLOAD_FAILED | FILE_DELETE_FAILED

primrec ErrorCodes :: "error_key \<Rightarrow> string" where
  "ErrorCodes UNAUTHORIZED = ''ERR_AUTH_INVALID''"
| "ErrorCodes FORBIDDEN = ''ERR_PERMISSION_DENIED''"
| "ErrorCodes NOT_FOUND = ''ERR_NOT_FOUND''"
| "ErrorCodes BAD_REQUEST = ''ERR_BAD_REQUEST''"
| "ErrorCodes VALIDATION_ERROR = ''ERR_VALIDATION_FAILED''"
| "ErrorCodes INTERNAL_ERROR = ''ERR_INTERNAL_SERVER_ERROR''"
| "ErrorCodes SHIPMENT_NOT_FOUND = ''ERR_SHIPMENT_NOT_FOUND''"
| "ErrorCodes SHIPMENT_INVALID_TRANSITION = ''ERR_SHIPMENT_INVALID_TRANSITION''"
| "ErrorCodes PAYMENT_NOT_FOUND = ''ERR_PAYMENT_NOT_FOUND''"
| "ErrorCodes SETTLEMENT_NOT_FOUND = ''ERR_SETTLEMENT_NOT_FOUND''"
| "ErrorCodes SETTLEMENT_ALREADY_DISPUTED = ''ERR_SETTLEMENT_ALREADY_DISPUTED''"
| "ErrorCodes ORGANIZATION_NOT_FOUND = ''ERR_ORGANIZATION_NOT_FOUND''"
| "ErrorCodes TEMPLATE_NOT_FOUND = ''ERR_TEMPLATE_NOT_FOUND''"
| "ErrorCodes DUPLICATE_KEY = ''ERR_DUPLICATE_KEY''"
| "ErrorCodes INVALID_RESET_TOKEN = ''ERR_AUTH_INVALID_RESET_TOKEN''"
| "ErrorCodes INVALID_TRANSITION = ''ERR_SHIPMENT_INVALID_TRANSITION''"
| "ErrorCodes STELLAR_CONFIG = ''ERR_STELLAR_CONFIG''"
| "ErrorCodes STELLAR_INVALID_HASH = ''ERR_STELLAR_INVALID_HASH''"
| "ErrorCodes CHAIN_UNAUTHORIZED = ''ERR_CHAIN_UNAUTHORIZED''"
| "ErrorCodes CHAIN_INVALID_HASH = ''ERR_CHAIN_INVALID_HASH''"
| "ErrorCodes CHAIN_ALREADY_ANCHORED = ''ERR_CHAIN_ALREADY_ANCHORED''"
| "ErrorCodes CHAIN_ESCROW_EXISTS = ''ERR_CHAIN_ESCROW_EXISTS''"
| "ErrorCodes CHAIN_ESCROW_NOT_FOUND = ''ERR_CHAIN_ESCROW_NOT_FOUND''"
| "ErrorCodes CHAIN_ESCROW_ALREADY_RELEASED = ''ERR_CHAIN_ESCROW_ALREADY_RELEASED''"
| "ErrorCodes CHAIN_INVALID_AMOUNT = ''ERR_CHAIN_INVALID_AMOUNT''"
| "ErrorCodes CHAIN_INVALID_PROOF = ''ERR_CHAIN_INVALID_PROOF''"
| "ErrorCodes CHAIN_UNKNOWN = ''ERR_CHAIN_UNKNOWN''"
| "ErrorCodes CHAIN_INVALID_EVENT = ''ERR_CHAIN_INVALID_EVENT''"
| "ErrorCodes RATE_LIMIT_EXCEEDED = ''ERR_RATE_LIMIT_EXCEEDED''"
| "ErrorCodes LEDGER_BLOCK_NOT_FOUND = ''ERR_LEDGER_BLOCK_NOT_FOUND''"
| "ErrorCodes FILE_TOO_LARGE = ''ERR_FILE_TOO_LARGE''"
| "ErrorCodes INVALID_MIME_TYPE = ''ERR_INVALID_MIME_TYPE''"
| "ErrorCodes INVALID_DOCUMENT_TYPE = ''ERR_INVALID_DOCUMENT_TYPE''"
| "ErrorCodes PHOTO_LIMIT_EXCEEDED = ''ERR_PHOTO_LIMIT_EXCEEDED''"
| "ErrorCodes EVENTS_POLL_FAILED = ''ERR_EVENTS_POLL_FAILED''"
| "ErrorCodes TOKEN_REVOKED = ''ERR_AUTH_TOKEN_REVOKED''"
| "ErrorCodes NOTIFICATION_NOT_FOUND = ''ERR_NOTIFICATION_NOT_FOUND''"
| "ErrorCodes TOTP_INVALID_CODE = ''ERR_AUTH_2FA_INVALID_CODE''"
| "ErrorCodes TOTP_NOT_SETUP = ''ERR_AUTH_2FA_NOT_SETUP''"
| "ErrorCodes TOTP_ALREADY_ENABLED = ''ERR_AUTH_2FA_ALREADY_ENABLED''"
| "ErrorCodes TOTP_NOT_ENABLED = ''ERR_AUTH_2FA_NOT_ENABLED''"
| "ErrorCodes TOTP_INVALID_BACKUP_CODE = ''ERR_AUTH_2FA_INVALID_BACKUP_CODE''"
| "ErrorCodes TOTP_INVALID_SECRET_FORMAT = ''ERR_AUTH_2FA_INVALID_SECRET_FORMAT''"
| "ErrorCodes TOKEN_INVALID_IDENTIFIER = ''ERR_AUTH_INVALID_TOKEN_IDENTIFIER''"
| "ErrorCodes FILE_UPLOAD_FAILED = ''ERR_FILE_UPLOAD_FAILED''"
| "ErrorCodes FILE_DELETE_FAILED = ''ERR_FILE_DELETE_FAILED''"

section \<open>What a handler can throw\<close>

text \<open>\<open>class AppError\<close>\<close>

datatype app_error = AppError
  (statusCode: nat) (errMessage: string) (errCode: string) (errDetails: "jval option")

text \<open>
  Everything else that reaches the middleware, told apart exactly as it tells them apart. The
  value of \<open>DuplicateKey\<close> is the first key of \<open>keyValue\<close>, if any; of \<open>MongooseValidation\<close>, the
  messages of its \<open>errors\<close>.
\<close>

datatype exn =
    App app_error
  | JsonSyntax
  | MulterFileSize
  | PlainError string
  | EntityTooLarge
  | DuplicateKey "string option"
  | MongooseValidation "string list"

type_synonym 'a result = "exn + 'a"

definition throwApp :: "nat \<Rightarrow> string \<Rightarrow> string \<Rightarrow> 'a result" where
  "throwApp st msg cd = Inl (App (AppError st msg cd None))"

lemma throwApp_neq_Inr [simp]: "throwApp st msg cd \<noteq> Inr x" "Inr x \<noteq> throwApp st msg cd"
  by (simp_all add: throwApp_def)

lemma throwApp_eq_iff [simp]:
  "(throwApp a b c :: 'a result) = throwApp a' b' c' \<longleftrightarrow> a = a' \<and> b = b' \<and> c = c'"
  by (simp add: throwApp_def)

section \<open>The error middleware\<close>

record http_error =
  he_status :: nat
  he_message :: string
  he_code :: string
  he_details :: "jval option"

definition respond :: "nat \<Rightarrow> string \<Rightarrow> string \<Rightarrow> jval option \<Rightarrow> http_error" where
  "respond st msg cd det = \<lparr>he_status = st, he_message = msg, he_code = cd, he_details = det\<rparr>"

text \<open>
  The validator packs its issues into the message as JSON; \<open>parse\<close> is \<open>JSON.parse\<close> on such a
  message, reduced to the two fields the middleware reads (\<open>None\<close>: it throws).
\<close>

definition errorMiddleware ::
  "(string \<Rightarrow> (string option \<times> jval option) option) \<Rightarrow> exn \<Rightarrow> http_error" where
  "errorMiddleware parse err =
     (case err of
        JsonSyntax \<Rightarrow> respond 400 ''Invalid JSON payload'' (ErrorCodes BAD_REQUEST) None
      | MulterFileSize \<Rightarrow> respond 413 ''File too large'' (ErrorCodes FILE_TOO_LARGE) None
      | App e \<Rightarrow>
          (if errCode e = ErrorCodes VALIDATION_ERROR
           then (case parse (errMessage e) of
                   Some (m, d) \<Rightarrow> respond (statusCode e) (nullish m ''Validation error'') (errCode e)
                      (Some (nullish d (JArr [])))
                 | None \<Rightarrow> respond (statusCode e) (errMessage e) (errCode e) None)
           else respond (statusCode e) (errMessage e) (errCode e) (errDetails e))
      | PlainError m \<Rightarrow>
          (if m = ''Invalid MIME type''
           then respond 400 ''Unsupported file type'' (ErrorCodes INVALID_MIME_TYPE) None
           else if m = ''Not allowed by CORS''
           then respond 403 ''CORS origin denied'' (ErrorCodes FORBIDDEN) None
           else respond 500 ''Internal Server Error'' (ErrorCodes INTERNAL_ERROR) None)
      | EntityTooLarge \<Rightarrow> respond 413 ''Payload too large'' (ErrorCodes BAD_REQUEST) None
      | DuplicateKey k \<Rightarrow>
          respond 400 (''Duplicate value for '' @ nullish k ''field'' @ ''.'') (ErrorCodes DUPLICATE_KEY) None
      | MongooseValidation ms \<Rightarrow> respond 422 (join '', '' ms) (ErrorCodes VALIDATION_ERROR) None)"

text \<open>
  The middleware never changes the status or the code of an \<open>AppError\<close>, and a throw of anything
  it does not know is reported without its message.
\<close>

lemma errorMiddleware_app:
  "he_status (errorMiddleware parse (App e)) = statusCode e
   \<and> he_code (errorMiddleware parse (App e)) = errCode e"
  by (auto simp: errorMiddleware_def respond_def split: option.split)

lemma errorMiddleware_unknown:
  "m \<noteq> ''Invalid MIME type'' \<Longrightarrow> m \<noteq> ''Not allowed by CORS''
   \<Longrightarrow> errorMiddleware parse (PlainError m)
       = respond 500 ''Internal Server Error'' (ErrorCodes INTERNAL_ERROR) None"
  by (simp add: errorMiddleware_def)

end
