(* ===== verification/Shipment_Status.thy ===== *)
theory Shipment_Status
  imports Errors
begin

text \<open>
  The lifecycle of a shipment (\<open>src/src/shared/constants/shipments.ts\<close> and
  \<open>shipmentStateMachine.ts\<close>): the statuses, the table of allowed transitions and the guard that
  every status change goes through, with the graph-level facts that make the table a lifecycle:
  it has no cycle, two terminal statuses and no way into settlement but through delivery.
\<close>

section \<open>Statuses and milestone events\<close>

datatype shipmentStatus =
    CREATED | PICKUP_CONFIRMED | IN_TRANSIT | CUSTOMS_CLEARED | OUT_FOR_DELIVERY
  | DELIVERED | SETTLEMENT_INITIATED | SETTLEMENT_COMPLETED | CANCELLED

primrec status_str :: "shipmentStatus \<Rightarrow> string" where
  "status_str CREATED = ''CREATED''"
| "status_str PICKUP_CONFIRMED = ''PICKUP_CONFIRMED''"
| "status_str IN_TRANSIT = ''IN_TRANSIT''"
| "status_str CUSTOMS_CLEARED = ''CUSTOMS_CLEARED''"
| "status_str OUT_FOR_DELIVERY = ''OUT_FOR_DELIVERY''"
| "status_str DELIVERED = ''DELIVERED''"
| "status_str SETTLEMENT_INITIATED = ''SETTLEMENT_INITIATED''"
| "status_str SETTLEMENT_COMPLETED = ''SETTLEMENT_COMPLETED''"
| "status_str CANCELLED = ''CANCELLED''"

text \<open>Milestone events: every status, and the submission of a delivery proof.\<close>

datatype milestoneEvent = OfStatus shipmentStatus | PROOF_SUBMITTED

primrec event_str :: "milestoneEvent \<Rightarrow> string" where
  "event_str (OfStatus s) = status_str s"
| "event_str PROOF_SUBMITTED = ''PROOF_SUBMITTED''"

lemma status_str_inject [simp]: "status_str a = status_str b \<longleftrightarrow> a = b"
  by (cases a; cases b) simp_all

lemma event_str_inject: "event_str a = event_str b \<longleftrightarrow> a = b"
proof -
  have "status_str s \<noteq> ''PROOF_SUBMITTED''" for s by (cases s) simp_all
  from this this[symmetric] show ?thesis by (cases a; cases b) simp_all
qed

section \<open>The transition table\<close>

primrec ALLOWED_TRANSITIONS :: "shipmentStatus \<Rightarrow> shipmentStatus list" where
  "ALLOWED_TRANSITIONS CREATED = [PICKUP_CONFIRMED, IN_TRANSIT, CANCELLED]"
| "ALLOWED_TRANSITIONS PICKUP_CONFIRMED = [IN_TRANSIT, CANCELLED]"
| "ALLOWED_TRANSITIONS IN_TRANSIT = [CUSTOMS_CLEARED, OUT_FOR_DELIVERY, DELIVERED, CANCELLED]"
| "ALLOWED_TRANSITIONS CUSTOMS_CLEARED = [OUT_FOR_DELIVERY, DELIVERED, CANCELLED]"
| "ALLOWED_TRANSITIONS OUT_FOR_DELIVERY = [DELIVERED, CANCELLED]"
| "ALLOWED_TRANSITIONS DELIVERED = [SETTLEMENT_INITIATED]"
| "ALLOWED_TRANSITIONS SETTLEMENT_INITIATED = [SETTLEMENT_COMPLETED]"
| "ALLOWED_TRANSITIONS SETTLEMENT_COMPLETED = []"
| "ALLOWED_TRANSITIONS CANCELLED = []"

definition validateStatusTransition :: "shipmentStatus \<Rightarrow> shipmentStatus \<Rightarrow> unit result" where
  "validateStatusTransition currentStatus newStatus =
     (let allowedTransitions = ALLOWED_TRANSITIONS currentStatus
      in if newStatus \<notin> set allowedTransitions
         then Inl (App (AppError 400
                (''Invalid status transition from '' @ status_str currentStatus @ '' to '' @ status_str newStatus)
                ''ERR_SHIPMENT_INVALID_TRANSITION''
                (Some (JObj [(''allowedTransitions'',
                   JArr (map (\<lambda>s. JStr (status_str s)) allowedTransitions))]))))
         else Inr ())"

lemma validateStatusTransition_ok [simp]:
  "validateStatusTransition a b = Inr u \<longleftrightarrow> b \<in> set (ALLOWED_TRANSITIONS a)"
  by (simp add: validateStatusTransition_def Let_def)

section \<open>Lifecycles\<close>

text \<open>One accepted status change, and the histories it generates.\<close>

inductive transition :: "shipmentStatus \<Rightarrow> shipmentStatus \<Rightarrow> bool" where
  "validateStatusTransition a b = Inr () \<Longrightarrow> transition a b"

code_pred transition .

inductive_simps transition_iff: "transition a b"

fun lifecycle :: "shipmentStatus \<Rightarrow> shipmentStatus list \<Rightarrow> bool" where
  "lifecycle s [] = True"
| "lifecycle s (t # ts) = (transition s t \<and> lifecycle t ts)"

text \<open>A rank that every transition increases.\<close>

primrec rank :: "shipmentStatus \<Rightarrow> nat" where
  "rank CREATED = 0"
| "rank PICKUP_CONFIRMED = 1"
| "rank IN_TRANSIT = 2"
| "rank CUSTOMS_CLEARED = 3"
| "rank OUT_FOR_DELIVERY = 4"
| "rank DELIVERED = 5"
| "rank SETTLEMENT_INITIATED = 6"
| "rank SETTLEMENT_COMPLETED = 7"
| "rank CANCELLED = 8"

lemma transition_rank: "transition a b \<Longrightarrow> rank a < rank b"
  by (cases a) (auto simp: transition_iff)

lemma lifecycle_rank: "lifecycle s ts \<Longrightarrow> t \<in> set ts \<Longrightarrow> rank s < rank t"
proof (induction ts arbitrary: s)
  case (Cons u us)
  then show ?case by (auto dest: transition_rank less_trans)
qed simp

lemma lifecycle_distinct: "lifecycle s ts \<Longrightarrow> distinct (s # ts)"
proof (induction ts arbitrary: s)
  case (Cons t ts)
  then have "s \<notin> set (t # ts)" using lifecycle_rank by blast
  moreover have "distinct (t # ts)" using Cons.prems by (intro Cons.IH) simp
  ultimately show ?case by simp
qed simp

lemma lifecycle_append:
  "lifecycle s (ts @ us) \<longleftrightarrow> lifecycle s ts \<and> lifecycle (last (s # ts)) us"
  by (induction ts arbitrary: s) auto

definition terminal :: "shipmentStatus \<Rightarrow> bool" where
  "terminal s \<longleftrightarrow> ALLOWED_TRANSITIONS s = []"

lemma terminal_iff: "terminal s \<longleftrightarrow> s = SETTLEMENT_COMPLETED \<or> s = CANCELLED"
  by (cases s) (simp_all add: terminal_def)

lemma terminal_stuck: "terminal s \<Longrightarrow> \<not> transition s t"
  by (auto simp: terminal_def transition_iff)

lemma lifecycle_length: "lifecycle s ts \<Longrightarrow> rank s + length ts \<le> 8"
proof (induction ts arbitrary: s)
  case Nil
  show ?case by (cases s) simp_all
next
  case (Cons t ts)
  then have "rank s < rank t" and "rank t + length ts \<le> 8"
    by (auto dest: transition_rank)
  then show ?case by simp
qed

lemma settled_via_delivered:
  "lifecycle s ts \<Longrightarrow> rank s \<le> 5 \<Longrightarrow> s \<noteq> DELIVERED
   \<Longrightarrow> t \<in> set ts \<Longrightarrow> t = SETTLEMENT_INITIATED \<or> t = SETTLEMENT_COMPLETED
   \<Longrightarrow> DELIVERED \<in> set ts"
proof (induction ts arbitrary: s)
  case (Cons u us)
  have "u \<in> set (ALLOWED_TRANSITIONS s)" using Cons.prems by (simp add: transition_iff)
  then have u: "u = DELIVERED \<or> u = CANCELLED \<or> (rank u \<le> 5 \<and> u \<noteq> DELIVERED)"
    using Cons.prems(2,3) by (cases s) auto
  show ?case
  proof (cases "u = CANCELLED")
    case True
    then have "us = []" using Cons.prems(1) by (cases us) (auto simp: transition_iff)
    then show ?thesis using Cons.prems True by auto
  next
    case False
    then show ?thesis using u Cons.prems Cons.IH[of u] by auto
  qed
qed simp

text \<open>Once delivered, a shipment can no longer be cancelled.\<close>

lemma no_cancel_after_delivery:
  "lifecycle s ts \<Longrightarrow> rank s \<in> {5, 6, 7} \<Longrightarrow> CANCELLED \<notin> set ts"
proof (induction ts arbitrary: s)
  case (Cons u us)
  then have "u \<in> set (ALLOWED_TRANSITIONS s)" by (simp add: transition_iff)
  then have "u = SETTLEMENT_INITIATED \<or> u = SETTLEMENT_COMPLETED"
    using Cons.prems(2) by (cases s) auto
  then show ?case using Cons.prems Cons.IH[of u] by auto
qed simp

lemma delivered_not_cancelled:
  "lifecycle s ts \<Longrightarrow> DELIVERED \<in> set ts \<Longrightarrow> CANCELLED \<notin> set ts"
proof (induction ts arbitrary: s)
  case (Cons t ts)
  show ?case
  proof (cases "t = DELIVERED")
    case True
    then show ?thesis using Cons.prems no_cancel_after_delivery[of DELIVERED ts] by simp
  next
    case False
    moreover have "t \<noteq> CANCELLED"
    proof
      assume "t = CANCELLED"
      then show False using Cons.prems False by (cases ts) (auto simp: transition_iff)
    qed
    ultimately show ?thesis using Cons by auto
  qed
qed simp

end
