(* ===== verification/Pagination.thy ===== *)
theory Pagination
  imports Errors "HOL-Library.Product_Lexorder"
begin

text \<open>
  \<open>src/src/shared/utils/pagination.ts\<close>: cursor and offset pages, and the interface \<open>cursor_listing\<close>
  that every cursor-paginated endpoint of the backend promises. A client that follows
  \<open>nextCursor\<close> until it is null is the function \<open>walk\<close>; inside the locale it is shown to see the
  whole listing, in order and each item once, and to stop.
\<close>

section \<open>Pages\<close>

record 'a cursorPage =
  page_data :: "'a list"
  nextCursor :: "string option"
  hasMore :: bool

definition paginateCursor :: "('a \<Rightarrow> string) \<Rightarrow> 'a list \<Rightarrow> nat \<Rightarrow> 'a cursorPage" where
  "paginateCursor ident items limit =
     (let more = length items > limit;
          dat = (if more then take limit items else items);
          lst = (if dat = [] then None else Some (last dat))
      in \<lparr>page_data = dat,
          nextCursor = (if more then map_option ident lst else None),
          hasMore = more\<rparr>)"

record offsetMetaRec =
  om_page :: int
  om_limit :: int
  om_total :: int

definition offsetMeta :: "int \<Rightarrow> int \<Rightarrow> int \<Rightarrow> offsetMetaRec" where
  "offsetMeta page limit tot = \<lparr>om_page = page, om_limit = limit, om_total = tot\<rparr>"

definition cursorMeta :: "'a cursorPage \<Rightarrow> string option \<times> bool" where
  "cursorMeta p = (nextCursor p, hasMore p)"

definition offsetSkip :: "int \<Rightarrow> int \<Rightarrow> int" where
  "offsetSkip page limit = max 0 ((page - 1) * limit)"

text \<open>The page a 1-based page number selects from a listing.\<close>

definition offsetPage :: "'a list \<Rightarrow> int \<Rightarrow> int \<Rightarrow> 'a list" where
  "offsetPage xs page limit = take (nat limit) (drop (nat (offsetSkip page limit)) xs)"

lemma paginateCursor_data: "page_data (paginateCursor ident items l) = take l items"
  by (simp add: paginateCursor_def Let_def)

lemma paginateCursor_more: "hasMore (paginateCursor ident items l) \<longleftrightarrow> l < length items"
  by (simp add: paginateCursor_def Let_def)

lemma paginateCursor_next:
  "0 < l \<Longrightarrow> nextCursor (paginateCursor ident items l)
     = (if l < length items then Some (ident (items ! (l - 1))) else None)"
  by (auto simp: paginateCursor_def Let_def last_conv_nth)

lemmas paginateCursor_simps = paginateCursor_data paginateCursor_more paginateCursor_next

lemma offsetSkip_nat:
  "1 \<le> page \<Longrightarrow> 0 \<le> limit \<Longrightarrow> nat (offsetSkip page limit) = nat (page - 1) * nat limit"
  by (simp add: offsetSkip_def nat_mult_distrib max_def mult_less_0_iff)

text \<open>Consecutive offset pages tile the listing.\<close>

lemma offsetPages_concat:
  assumes "0 < limit"
  shows "concat (map (\<lambda>p. offsetPage xs (int p + 1) limit) [0..<n]) = take (n * nat limit) xs"
proof (induction n)
  case 0
  then show ?case by simp
next
  case (Suc n)
  have "nat (offsetSkip (int n + 1) limit) = n * nat limit"
    using assms by (simp add: offsetSkip_nat)
  then have "offsetPage xs (int n + 1) limit = take (nat limit) (drop (n * nat limit) xs)"
    by (simp add: offsetPage_def)
  then show ?case using Suc by (simp add: take_add add.commute[of "nat limit"])
qed

section \<open>Newest-first listings\<close>

text \<open>
  Listings sorted by creation time and then id, with a cursor that compares ids alone. The two
  orders agree when ids are handed out in the order of creation, which the driver's ids do to
  the second; the listing after an item is then what the cursor of that item selects.
\<close>

definition created_key :: "('a \<Rightarrow> millis) \<Rightarrow> ('a \<Rightarrow> objectId) \<Rightarrow> 'a \<Rightarrow> millis \<times> objectId" where
  "created_key created ident x = (created x, ident x)"

definition coherent :: "('a \<Rightarrow> millis) \<Rightarrow> ('a \<Rightarrow> objectId) \<Rightarrow> 'a list \<Rightarrow> bool" where
  "coherent created ident xs \<longleftrightarrow>
     (\<forall>a\<in>set xs. \<forall>b\<in>set xs. ident a < ident b \<longrightarrow> created a \<le> created b)"

lemma coherent_key_less:
  assumes "coherent created ident xs" "distinct (map ident xs)" "a \<in> set xs" "b \<in> set xs"
  shows "created_key created ident a < created_key created ident b \<longleftrightarrow> ident a < ident b"
proof -
  have ab: "ident a < ident b \<Longrightarrow> created a \<le> created b"
    and ba: "ident b < ident a \<Longrightarrow> created b \<le> created a"
    using assms(1,3,4) by (auto simp: coherent_def)
  have eq: "ident a = ident b \<Longrightarrow> a = b"
    using assms(2-4) by (auto simp: distinct_map inj_on_def)
  show ?thesis
    using ab ba eq
    by (cases "ident a" "ident b" rule: linorder_cases) (auto simp: created_key_def)
qed

lemma newest_first_suffix:
  assumes coh: "coherent created ident xs" and dist: "distinct (map ident xs)"
    and e: "desc_by (created_key created ident) (filter P xs) = ys @ d # zs"
    and Q: "\<And>x. Q x \<longleftrightarrow> P x \<and> ident x < ident d"
  shows "desc_by (created_key created ident) (filter Q xs) = zs"
proof -
  let ?k = "created_key created ident" and ?F = "filter P xs"
  have dF: "distinct ?F" using dist by (simp add: distinct_map)
  have inj: "inj_on ?k (set ?F)"
    using dist by (auto simp: distinct_map inj_on_def created_key_def)
  have mem: "set (ys @ d # zs) \<subseteq> set xs" using e by (metis filter_is_subset set_desc_by)
  have "filter (\<lambda>x. ident x < ident d) (ys @ d # zs) = filter (\<lambda>x. ?k x < ?k d) (ys @ d # zs)"
    using coherent_key_less[OF coh dist] mem by (intro filter_cong) auto
  then have "desc_by ?k (filter (\<lambda>x. ident x < ident d) ?F) = zs"
    using desc_by_suffix[OF e inj dF]
    by (simp only: filter_desc_by[of "\<lambda>x. ident x < ident d", symmetric] e)
  moreover have "filter (\<lambda>x. ident x < ident d) ?F = filter Q xs"
    unfolding filter_filter by (rule filter_cong) (auto simp: Q)
  ultimately show ?thesis by simp
qed

section \<open>Following the cursor\<close>

text \<open>The client's loop: \<open>None\<close> when the fuel runs out before a page without a cursor.\<close>

fun walk :: "nat \<Rightarrow> (string option \<Rightarrow> 'a cursorPage) \<Rightarrow> string option \<Rightarrow> 'a list option" where
  "walk 0 fetch c = None"
| "walk (Suc fuel) fetch c =
     (case nextCursor (fetch c) of
        None \<Rightarrow> Some (page_data (fetch c))
      | Some c' \<Rightarrow> map_option ((@) (page_data (fetch c))) (walk fuel fetch (Some c')))"

locale cursor_listing =
  fixes ident :: "'a \<Rightarrow> string"
    and ok :: "'s \<Rightarrow> bool"
    and listing :: "'s \<Rightarrow> 'a list"
    and limit :: "'s \<Rightarrow> nat"
    and fetch :: "'s \<Rightarrow> string option \<Rightarrow> 'a cursorPage"
  assumes ids: "ok s \<Longrightarrow> distinct (map ident (listing s))"
    and limit_pos: "ok s \<Longrightarrow> 0 < limit s"
    and fetch_first:
      "ok s \<Longrightarrow> fetch s None = paginateCursor ident (take (Suc (limit s)) (listing s)) (limit s)"
    and fetch_next:
      "ok s \<Longrightarrow> listing s = xs @ d # ys
       \<Longrightarrow> fetch s (Some (ident d)) = paginateCursor ident (take (Suc (limit s)) ys) (limit s)"
begin

lemma walk_suffix:
  assumes "ok s"
  shows "listing s = xs @ ys
    \<Longrightarrow> fetch s c = paginateCursor ident (take (Suc (limit s)) ys) (limit s)
    \<Longrightarrow> length ys < fuel \<Longrightarrow> walk fuel (fetch s) c = Some ys"
proof (induction fuel arbitrary: xs ys c)
  case 0
  then show ?case by simp
next
  case (Suc fuel)
  let ?l = "limit s"
  have l: "0 < ?l" using assms by (rule limit_pos)
  show ?case
  proof (cases "?l < length ys")
    case False
    then show ?thesis using Suc.prems l by (simp add: paginateCursor_simps)
  next
    case True
    define d where "d = ys ! (?l - 1)"
    have tk: "take ?l ys = take (?l - 1) ys @ [d]"
      using True l by (metis One_nat_def Suc_pred d_def less_imp_diff_less take_Suc_conv_app_nth)
    have "listing s = (xs @ take (?l - 1) ys) @ d # drop ?l ys"
      using Suc.prems(1) tk by (metis append.assoc append_Cons append_Nil append_take_drop_id)
    then have nxt: "fetch s (Some (ident d))
        = paginateCursor ident (take (Suc ?l) (drop ?l ys)) ?l"
      by (rule fetch_next[OF assms])
    have "listing s = (xs @ take ?l ys) @ drop ?l ys" using Suc.prems(1) by simp
    moreover have "length (drop ?l ys) < fuel" using Suc.prems(3) l True by simp
    ultimately have "walk fuel (fetch s) (Some (ident d)) = Some (drop ?l ys)"
      using nxt by (intro Suc.IH)
    moreover have "nextCursor (fetch s c) = Some (ident d)"
      using Suc.prems(2) True l by (simp add: paginateCursor_simps d_def)
    moreover have "page_data (fetch s c) = take ?l ys"
      using Suc.prems(2) by (simp add: paginateCursor_simps)
    ultimately show ?thesis by simp
  qed
qed

lemma walk_all: "ok s \<Longrightarrow> length (listing s) < fuel \<Longrightarrow> walk fuel (fetch s) None = Some (listing s)"
  using walk_suffix[of s "[]"] fetch_first by simp

lemma first_page_bound: "ok s \<Longrightarrow> length (page_data (fetch s None)) \<le> limit s"
  by (simp add: fetch_first paginateCursor_simps)

lemma walk_each_once:
  "ok s \<Longrightarrow> length (listing s) < fuel \<Longrightarrow> walk fuel (fetch s) None = Some zs
   \<Longrightarrow> distinct (map ident zs) \<and> set zs = set (listing s)"
  using walk_all[of s fuel] ids[of s] by auto

end

section \<open>The usual endpoint\<close>

text \<open>
  Most listings are one query: the documents that match, newest first, from the cursor on. A walk
  sees them all when ids and sort times are coherent, which makes the endpoint a \<open>cursor_listing\<close>;
  without that it only ever goes down in the ids.
\<close>

definition from_cursor :: "('a \<Rightarrow> objectId) \<Rightarrow> objectId option \<Rightarrow> 'a \<Rightarrow> bool" where
  "from_cursor ident c x \<longleftrightarrow> (case c of None \<Rightarrow> True | Some i \<Rightarrow> ident x < i)"

definition newestPage ::
  "('a \<Rightarrow> millis) \<Rightarrow> ('a \<Rightarrow> objectId) \<Rightarrow> ('a \<Rightarrow> bool) \<Rightarrow> objectId option \<Rightarrow> nat \<Rightarrow> 'a list \<Rightarrow> 'a cursorPage" where
  "newestPage created ident P c limit xs =
     paginateCursor ident (take (limit + 1) (desc_by (created_key created ident)
       (filter (\<lambda>x. P x \<and> from_cursor ident c x) xs))) limit"

definition newestMatches ::
  "('a \<Rightarrow> millis) \<Rightarrow> ('a \<Rightarrow> objectId) \<Rightarrow> ('a \<Rightarrow> bool) \<Rightarrow> 'a list \<Rightarrow> 'a list" where
  "newestMatches created ident P xs = desc_by (created_key created ident) (filter P xs)"

definition well_dated :: "('a \<Rightarrow> millis) \<Rightarrow> ('a \<Rightarrow> objectId) \<Rightarrow> 'a list \<Rightarrow> bool" where
  "well_dated created ident xs \<longleftrightarrow> distinct (map ident xs) \<and> coherent created ident xs
     \<and> (\<forall>x\<in>set xs. ident x \<noteq> [])"

locale newest_first =
  fixes created :: "'a \<Rightarrow> millis"
    and ident :: "'a \<Rightarrow> objectId"
    and matches :: "'s \<Rightarrow> 'a \<Rightarrow> bool"
    and docs :: "'s \<Rightarrow> 'a list"
    and limit :: "'s \<Rightarrow> nat"
    and fetch :: "'s \<Rightarrow> objectId option \<Rightarrow> 'a cursorPage"
  assumes fetch_spec: "c \<noteq> Some [] \<Longrightarrow> fetch s c = newestPage created ident (matches s) c (limit s) (docs s)"
begin

lemma page_below_cursor:
  assumes "x \<in> set (page_data (fetch s (Some c)))" and "c \<noteq> []"
  shows "ident x < c \<and> x \<in> set (docs s) \<and> matches s x"
  using assms by (auto simp: fetch_spec newestPage_def paginateCursor_data from_cursor_def dest!: in_set_takeD)

lemma next_in_page:
  assumes "nextCursor (fetch s c) = Some c'" and "c \<noteq> Some []"
  shows "c' \<in> ident ` set (page_data (fetch s c))"
  using assms by (auto simp: fetch_spec newestPage_def paginateCursor_def Let_def split: if_splits)

text \<open>Documents whose id is not below the cursor are never seen again.\<close>

lemma walk_below_cursor:
  assumes "\<And>x. x \<in> set (docs s) \<Longrightarrow> ident x \<noteq> []"
  shows "walk fuel (fetch s) (Some c) = Some zs \<Longrightarrow> c \<noteq> [] \<Longrightarrow> x \<in> set zs \<Longrightarrow> ident x < c"
proof (induction fuel arbitrary: c zs)
  case (Suc fuel)
  show ?case
  proof (cases "nextCursor (fetch s (Some c))")
    case None
    then show ?thesis using Suc.prems page_below_cursor by auto
  next
    case (Some c')
    then obtain d where d: "d \<in> set (page_data (fetch s (Some c)))" "c' = ident d"
      using next_in_page[OF Some] Suc.prems(2) by auto
    then have c': "c' < c" "c' \<noteq> []" using page_below_cursor[OF d(1) Suc.prems(2)] assms by auto
    from Suc.prems(1) Some obtain ys where ys: "walk fuel (fetch s) (Some c') = Some ys"
        "zs = page_data (fetch s (Some c)) @ ys" by auto
    from ys(2) Suc.prems(3) consider "x \<in> set (page_data (fetch s (Some c)))" | "x \<in> set ys" by auto
    then show ?thesis
      using Suc.IH[OF ys(1) c'(2)] c'(1) page_below_cursor[of x s c] Suc.prems(2) by cases fastforce+
  qed
qed simp

end

sublocale newest_first \<subseteq> cursor_listing ident
  "\<lambda>s. well_dated created ident (docs s) \<and> 0 < limit s"
  "\<lambda>s. newestMatches created ident (matches s) (docs s)" limit fetch
proof unfold_locales
  fix s assume ok: "well_dated created ident (docs s) \<and> 0 < limit s"
  then show "distinct (map ident (newestMatches created ident (matches s) (docs s)))"
    by (auto simp: well_dated_def newestMatches_def distinct_map inj_on_def)
  show "0 < limit s" using ok by (simp add: well_dated_def)
  show "fetch s None = paginateCursor ident (take (Suc (limit s)) (newestMatches created ident (matches s) (docs s))) (limit s)"
    by (simp add: fetch_spec newestPage_def newestMatches_def from_cursor_def)
  fix xs d ys assume l: "newestMatches created ident (matches s) (docs s) = xs @ d # ys"
  then have "d \<in> set (newestMatches created ident (matches s) (docs s))" by simp
  then have "ident d \<noteq> []" using ok by (auto simp: newestMatches_def well_dated_def)
  moreover have "desc_by (created_key created ident)
      (filter (\<lambda>x. matches s x \<and> from_cursor ident (Some (ident d)) x) (docs s)) = ys"
    by (rule newest_first_suffix[OF _ _ l[unfolded newestMatches_def]])
      (use ok in \<open>auto simp: well_dated_def from_cursor_def\<close>)
  ultimately show "fetch s (Some (ident d)) = paginateCursor ident (take (Suc (limit s)) ys) (limit s)"
    by (simp add: fetch_spec newestPage_def)
qed

end
