(* ===== verification/Collection.thy ===== *)
theory Collection
  imports Errors
begin

text \<open>
  The persistent collections as the services see them: a list of documents in insertion order.
  The \<open>pre\<close> hooks of \<open>softDeletePlugin.ts\<close> (repeated in the models) add \<open>deletedAt: null\<close> to every
  \<open>find\<close>, \<open>findOne\<close>, \<open>findOneAndUpdate\<close> and \<open>countDocuments\<close>, and so to \<open>findById\<close> and
  \<open>findByIdAndUpdate\<close> which are built on them; \<open>updateMany\<close> and \<open>updateOne\<close> have no such hook. The
  interface \<open>soft_collection\<close> states what the services rely on, and is interpreted by each model.
\<close>

section \<open>Queries with the soft-delete hook\<close>

definition findOne :: "('d \<Rightarrow> bool) \<Rightarrow> ('d \<Rightarrow> bool) \<Rightarrow> 'd list \<Rightarrow> 'd option" where
  "findOne alive P xs = List.find (\<lambda>d. P d \<and> alive d) xs"

definition findAll :: "('d \<Rightarrow> bool) \<Rightarrow> ('d \<Rightarrow> bool) \<Rightarrow> 'd list \<Rightarrow> 'd list" where
  "findAll alive P xs = filter (\<lambda>d. P d \<and> alive d) xs"

definition countDocuments :: "('d \<Rightarrow> bool) \<Rightarrow> ('d \<Rightarrow> bool) \<Rightarrow> 'd list \<Rightarrow> nat" where
  "countDocuments alive P xs = length (findAll alive P xs)"

text \<open>\<open>findOneAndUpdate(P, f, { new: true })\<close>: the first match is updated and returned.\<close>

fun update_first :: "('d \<Rightarrow> bool) \<Rightarrow> ('d \<Rightarrow> 'd) \<Rightarrow> 'd list \<Rightarrow> 'd option \<times> 'd list" where
  "update_first P f [] = (None, [])"
| "update_first P f (x # xs) =
     (if P x then (Some (f x), f x # xs)
      else (fst (update_first P f xs), x # snd (update_first P f xs)))"

definition findOneAndUpdate ::
  "('d \<Rightarrow> bool) \<Rightarrow> ('d \<Rightarrow> bool) \<Rightarrow> ('d \<Rightarrow> 'd) \<Rightarrow> 'd list \<Rightarrow> 'd option \<times> 'd list" where
  "findOneAndUpdate alive P f xs = update_first (\<lambda>d. P d \<and> alive d) f xs"

definition updateMany :: "('d \<Rightarrow> bool) \<Rightarrow> ('d \<Rightarrow> 'd) \<Rightarrow> 'd list \<Rightarrow> 'd list" where
  "updateMany P f xs = map (\<lambda>d. if P d then f d else d) xs"

lemma update_first_none: "List.find P xs = None \<Longrightarrow> update_first P f xs = (None, xs)"
  by (induction xs) (auto split: if_splits)

lemma update_first_some: "List.find P xs = Some d \<Longrightarrow> fst (update_first P f xs) = Some (f d)"
  by (induction xs) (auto split: if_splits)

lemma update_first_fst: "fst (update_first P f xs) = map_option f (List.find P xs)"
  by (induction xs) auto

lemma update_first_keys:
  "(\<And>d. key (f d) = key d) \<Longrightarrow> map key (snd (update_first P f xs)) = map key xs"
  by (induction xs) auto

lemma update_first_find_other:
  assumes "\<And>d. P d \<Longrightarrow> \<not> Q d" and "\<And>d. P d \<Longrightarrow> \<not> Q (f d)"
  shows "List.find Q (snd (update_first P f xs)) = List.find Q xs"
  using assms by (induction xs) auto

lemma update_first_set:
  "x \<in> set (snd (update_first P f xs)) \<Longrightarrow> x \<in> set xs \<or> (\<exists>d\<in>set xs. P d \<and> x = f d)"
  by (induction xs) (auto split: if_splits)

lemma update_first_length [simp]: "length (snd (update_first P f xs)) = length xs"
  by (induction xs) auto

lemma update_first_all:
  "(\<And>d. d \<in> set xs \<Longrightarrow> Q d) \<Longrightarrow> (\<And>d. d \<in> set xs \<Longrightarrow> P d \<Longrightarrow> Q (f d))
   \<Longrightarrow> x \<in> set (snd (update_first P f xs)) \<Longrightarrow> Q x"
  using update_first_set by metis

lemma update_first_missed: "fst (update_first P f xs) = None \<Longrightarrow> snd (update_first P f xs) = xs"
  by (induction xs) (auto split: if_splits)

lemma update_first_keeps: "x \<in> set xs \<Longrightarrow> \<not> P x \<Longrightarrow> x \<in> set (snd (update_first P f xs))"
  by (induction xs) auto

lemma update_first_hit:
  "fst (update_first P f xs) = Some y \<Longrightarrow> y \<in> set (snd (update_first P f xs)) \<and> (\<exists>x\<in>set xs. P x \<and> y = f x)"
  by (induction xs) (auto split: if_splits)

section \<open>The interface of a soft-deleting collection\<close>

locale soft_collection =
  fixes key :: "'d \<Rightarrow> objectId"
    and alive :: "'d \<Rightarrow> bool"
    and findById :: "objectId \<Rightarrow> 'd list \<Rightarrow> 'd option"
    and findByIdAndUpdate :: "objectId \<Rightarrow> ('d \<Rightarrow> 'd) \<Rightarrow> 'd list \<Rightarrow> 'd option \<times> 'd list"
  assumes find_spec: "findById i xs = List.find (\<lambda>d. key d = i \<and> alive d) xs"
    and update_spec: "findByIdAndUpdate i f xs = update_first (\<lambda>d. key d = i \<and> alive d) f xs"
begin

lemma find_sound: "findById i xs = Some d \<Longrightarrow> d \<in> set xs \<and> key d = i \<and> alive d"
  by (auto simp: find_spec dest: find_SomeD)

lemma find_complete:
  "distinct (map key xs) \<Longrightarrow> d \<in> set xs \<Longrightarrow> alive d \<Longrightarrow> findById (key d) xs = Some d"
proof (induction xs)
  case (Cons x xs)
  then show ?case by (cases "x = d") (auto simp: find_spec image_iff)
qed simp

lemma update_missing: "findById i xs = None \<Longrightarrow> findByIdAndUpdate i f xs = (None, xs)"
  by (simp add: find_spec update_spec update_first_none)

lemma update_result: "fst (findByIdAndUpdate i f xs) = map_option f (findById i xs)"
  by (simp add: find_spec update_spec update_first_fst)

lemma update_ids: "(\<And>d. key (f d) = key d) \<Longrightarrow> map key (snd (findByIdAndUpdate i f xs)) = map key xs"
  by (simp add: update_spec update_first_keys)

lemma read_own_write:
  "findById i xs = Some d \<Longrightarrow> key (f d) = key d \<Longrightarrow> alive (f d)
   \<Longrightarrow> findById i (snd (findByIdAndUpdate i f xs)) = Some (f d)"
  unfolding find_spec update_spec by (induction xs) (auto split: if_splits)

lemma write_frame:
  assumes "\<And>d. key (f d) = key d" and "j \<noteq> i"
  shows "findById j (snd (findByIdAndUpdate i f xs)) = findById j xs"
  unfolding find_spec update_spec using assms by (intro update_first_find_other) auto

lemma read_after:
  assumes "distinct (map key xs)" and "\<And>d. key (f d) = key d" and "findById i xs = Some d"
  shows "findById i (snd (findByIdAndUpdate i f xs)) = (if alive (f d) then Some (f d) else None)"
  using assms(1,3)
proof (induction xs)
  case (Cons x xs)
  show ?case
  proof (cases "key x = i \<and> alive x")
    case True
    then have "\<forall>d\<in>set xs. key d \<noteq> i" using Cons.prems by (auto simp: image_iff)
    then show ?thesis using True Cons.prems assms(2) by (auto simp: find_spec update_spec find_None_iff)
  next
    case False
    then show ?thesis using Cons by (auto simp: find_spec update_spec)
  qed
qed (simp add: find_spec)

lemma deleted_is_gone:
  assumes "distinct (map key xs)" and "\<And>d. key (f d) = key d" and "\<And>d. \<not> alive (f d)"
  shows "findById i (snd (findByIdAndUpdate i f xs)) = None"
  using assms(1)
proof (induction xs)
  case Nil
  then show ?case by (simp add: find_spec update_spec)
next
  case (Cons x xs)
  show ?case
  proof (cases "key x = i \<and> alive x")
    case True
    then have "\<forall>d\<in>set xs. key d \<noteq> i" using Cons.prems by (auto simp: image_iff)
    then show ?thesis using True assms(3) by (auto simp: find_spec update_spec find_None_iff)
  next
    case False
    then show ?thesis using Cons by (auto simp: find_spec update_spec)
  qed
qed

end

end
