(* ===== verification/Ledger.thy ===== *)
theory Ledger
  imports Shipment_Status Pagination Collection
begin

text \<open>
  The ledger module (\<open>src/src/modules/ledger\<close>): the document type, the repository and the
  service. Ledger blocks are append-only; they are listed newest first with a cursor on \<open>_id\<close>.
  \<open>oid\<close> is the driver's \<open>new Types.ObjectId(s)\<close> (it throws on anything but an id's rendering).
\<close>

section \<open>Documents and input\<close>

record ledgerBlock =
  lb_id :: objectId
  lb_blockNumber :: int
  lb_timestamp :: millis
  lb_shipmentId :: objectId
  lb_shipmentReference :: "string option"
  lb_milestoneEvent :: milestoneEvent
  lb_dataHash :: "string option"
  lb_canonicalPayload :: "jval option"
  lb_transactionHash :: "string option"
  lb_ledger :: int
  lb_verified :: bool
  lb_actor :: "string option"
  lb_metadata :: "(string \<times> jval) list option"
  lb_deletedAt :: "millis option"
  lb_createdAt :: millis

record ledgerBlockInput =
  li_shipmentId :: string
  li_milestoneEvent :: "milestoneEvent option"
  li_eventType :: "milestoneEvent option"
  li_blockNumber :: "int option"
  li_timestamp :: "millis option"
  li_shipmentReference :: "string option"
  li_dataHash :: "string option"
  li_canonicalPayload :: "jval option"
  li_transactionHash :: "string option"
  li_ledger :: "int option"
  li_verified :: "bool option"
  li_actor :: "string option"
  li_metadata :: "(string \<times> jval) list option"

definition blockAlive :: "ledgerBlock \<Rightarrow> bool" where
  "blockAlive b \<longleftrightarrow> lb_deletedAt b = None"

section \<open>Repository\<close>

text \<open>
  \<open>fresh\<close> is the \<open>_id\<close> the driver generates, \<open>now\<close> the reading of \<open>new Date()\<close> and
  \<open>created\<close> the one of the \<open>timestamps\<close> option.
\<close>

definition createLedgerBlock ::
  "(string \<Rightarrow> objectId result) \<Rightarrow> objectId \<Rightarrow> millis \<Rightarrow> millis \<Rightarrow> ledgerBlockInput
   \<Rightarrow> ledgerBlock list \<Rightarrow> ledgerBlock result \<times> ledgerBlock list" where
  "createLedgerBlock oid fresh now created input blocks =
     (case (case li_milestoneEvent input of Some e \<Rightarrow> Some e | None \<Rightarrow> li_eventType input) of
        None \<Rightarrow> (throwApp 400 ''milestoneEvent or eventType is required'' (ErrorCodes BAD_REQUEST), blocks)
      | Some milestoneEvent \<Rightarrow>
          (case oid (li_shipmentId input) of
             Inl e \<Rightarrow> (Inl e, blocks)
           | Inr sid \<Rightarrow>
               (let b = \<lparr>lb_id = fresh,
                         lb_blockNumber = nullish (li_blockNumber input) 0,
                         lb_timestamp = nullish (li_timestamp input) now,
                         lb_shipmentId = sid,
                         lb_shipmentReference = li_shipmentReference input,
                         lb_milestoneEvent = milestoneEvent,
                         lb_dataHash = keep_truthy (li_dataHash input),
                         lb_canonicalPayload = li_canonicalPayload input,
                         lb_transactionHash = keep_truthy (li_transactionHash input),
                         lb_ledger = nullish (li_ledger input) (nullish (li_blockNumber input) 0),
                         lb_verified = nullish (li_verified input) False,
                         lb_actor = keep_truthy (li_actor input),
                         lb_metadata = li_metadata input,
                         lb_deletedAt = None,
                         lb_createdAt = created\<rparr>
                in (Inr b, blocks @ [b]))))"

record ledgerFilters =
  lf_shipmentId :: "string option"
  lf_milestoneEvent :: "milestoneEvent option"
  lf_limit :: "nat option"

record ledgerBlocksPage =
  lp_page :: "ledgerBlock cursorPage"
  lp_total :: nat

definition newestFirst :: "ledgerBlock list \<Rightarrow> ledgerBlock list" where
  "newestFirst xs = desc_by (created_key lb_createdAt lb_id) xs"

definition matches_shipment :: "objectId option \<Rightarrow> ledgerBlock \<Rightarrow> bool" where
  "matches_shipment sid b \<longleftrightarrow> (case sid of None \<Rightarrow> True | Some i \<Rightarrow> lb_shipmentId b = i)"

definition matches_event :: "milestoneEvent option \<Rightarrow> ledgerBlock \<Rightarrow> bool" where
  "matches_event ev b \<longleftrightarrow> (case ev of None \<Rightarrow> True | Some e \<Rightarrow> lb_milestoneEvent b = e)"

definition before_cursor :: "objectId option \<Rightarrow> ledgerBlock \<Rightarrow> bool" where
  "before_cursor c b \<longleftrightarrow> (case c of None \<Rightarrow> True | Some i \<Rightarrow> lb_id b < i)"

text \<open>\<open>x ? new ObjectId(x) : absent\<close>\<close>

definition optionalId :: "(string \<Rightarrow> objectId result) \<Rightarrow> string option \<Rightarrow> objectId option result" where
  "optionalId oid x = (case keep_truthy x of
     None \<Rightarrow> Inr None
   | Some s \<Rightarrow> (case oid s of Inl e \<Rightarrow> Inl e | Inr i \<Rightarrow> Inr (Some i)))"

definition getLedgerBlocks ::
  "(string \<Rightarrow> objectId result) \<Rightarrow> ledgerFilters \<Rightarrow> string option \<Rightarrow> ledgerBlock list
   \<Rightarrow> ledgerBlocksPage result" where
  "getLedgerBlocks oid f cursor blocks =
     (let limit = nullish (lf_limit f) 20 in
      case optionalId oid (lf_shipmentId f) of Inl e \<Rightarrow> Inl e | Inr sid \<Rightarrow>
      (case optionalId oid cursor of Inl e \<Rightarrow> Inl e | Inr c \<Rightarrow>
        (let query = (\<lambda>b. matches_shipment sid b \<and> matches_event (lf_milestoneEvent f) b
                         \<and> before_cursor c b);
             dat = take (limit + 1) (newestFirst (findAll blockAlive query blocks));
             tot = countDocuments blockAlive
                     (\<lambda>b. matches_shipment sid b \<and> matches_event (lf_milestoneEvent f) b) blocks
         in Inr \<lparr>lp_page = paginateCursor lb_id dat limit, lp_total = tot\<rparr>)))"

definition getLedgerBlockById :: "objectId \<Rightarrow> ledgerBlock list \<Rightarrow> ledgerBlock option" where
  "getLedgerBlockById i blocks = findOne blockAlive (\<lambda>b. lb_id b = i) blocks"

section \<open>Service\<close>

definition getLedgerBlockByIdService :: "objectId \<Rightarrow> ledgerBlock list \<Rightarrow> ledgerBlock result" where
  "getLedgerBlockByIdService i blocks =
     (case getLedgerBlockById i blocks of
        None \<Rightarrow> throwApp 404 ''Ledger block not found'' (ErrorCodes LEDGER_BLOCK_NOT_FOUND)
      | Some b \<Rightarrow> Inr b)"

record ledgerVerification =
  lv_canonicalPayload :: "jval option"
  lv_dataHash :: "string option"
  lv_txHash :: "string option"
  lv_transactionHash :: "string option"
  lv_ledger :: int

definition getLedgerBlockVerificationService ::
  "objectId \<Rightarrow> ledgerBlock list \<Rightarrow> ledgerVerification result" where
  "getLedgerBlockVerificationService i blocks =
     (case getLedgerBlockByIdService i blocks of
        Inl e \<Rightarrow> Inl e
      | Inr b \<Rightarrow> Inr \<lparr>lv_canonicalPayload = lb_canonicalPayload b, lv_dataHash = lb_dataHash b,
                     lv_txHash = lb_transactionHash b, lv_transactionHash = lb_transactionHash b,
                     lv_ledger = lb_ledger b\<rparr>)"

section \<open>Reading by id\<close>

text \<open>No operation of the module updates a block, so the update of the interface is the driver's.\<close>

interpretation ledger: soft_collection lb_id blockAlive getLedgerBlockById
  "\<lambda>i. findOneAndUpdate blockAlive (\<lambda>b. lb_id b = i)"
  by unfold_locales (simp_all add: getLedgerBlockById_def findOne_def findOneAndUpdate_def)

lemma createLedgerBlock_cases:
  "createLedgerBlock oid fresh now created input blocks = (r, blocks') \<Longrightarrow>
     (\<exists>e. r = Inl e \<and> blocks' = blocks) \<or> (\<exists>b. r = Inr b \<and> lb_id b = fresh \<and> blocks' = blocks @ [b])"
  by (auto simp: createLedgerBlock_def Let_def throwApp_def split: option.splits sum.splits)

text \<open>A created block is found again under its id, and every other block is left alone.\<close>

lemma createLedgerBlock_read_back:
  assumes "createLedgerBlock oid fresh now created input blocks = (Inr b, blocks')"
    and "fresh \<notin> lb_id ` set blocks"
  shows "getLedgerBlockByIdService fresh blocks' = Inr b"
    and "i \<noteq> fresh \<Longrightarrow> getLedgerBlockById i blocks' = getLedgerBlockById i blocks"
proof -
  have b: "lb_id b = fresh" "blocks' = blocks @ [b]"
    using createLedgerBlock_cases[OF assms(1)] by auto
  have "blockAlive b"
    using assms(1)
    by (auto simp: createLedgerBlock_def Let_def blockAlive_def throwApp_def split: option.splits sum.splits)
  moreover have "List.find (\<lambda>x. lb_id x = fresh \<and> blockAlive x) blocks = None"
    using assms(2) by (auto simp: find_None_iff)
  ultimately show "getLedgerBlockByIdService fresh blocks' = Inr b"
    using b by (simp add: getLedgerBlockByIdService_def ledger.find_spec find_append)
  show "getLedgerBlockById i blocks' = getLedgerBlockById i blocks" if "i \<noteq> fresh"
    using b that by (simp add: ledger.find_spec find_append split: option.split)
qed

section \<open>Following the cursor\<close>

record ledgerQuery =
  lq_oid :: "string \<Rightarrow> objectId result"
  lq_filters :: ledgerFilters
  lq_blocks :: "ledgerBlock list"

definition ledger_query_ok :: "ledgerQuery \<Rightarrow> bool" where
  "ledger_query_ok q \<longleftrightarrow> distinct (map lb_id (lq_blocks q)) \<and> coherent lb_createdAt lb_id (lq_blocks q)
     \<and> 0 < nullish (lf_limit (lq_filters q)) 20
     \<and> (\<exists>i. optionalId (lq_oid q) (lf_shipmentId (lq_filters q)) = Inr i)
     \<and> (\<forall>b\<in>set (lq_blocks q). lb_id b \<noteq> [] \<and> lq_oid q (lb_id b) = Inr (lb_id b))"

definition queriedShipment :: "ledgerQuery \<Rightarrow> objectId option" where
  "queriedShipment q = (case optionalId (lq_oid q) (lf_shipmentId (lq_filters q)) of
     Inl e \<Rightarrow> None | Inr i \<Rightarrow> i)"

definition ledgerListing :: "ledgerQuery \<Rightarrow> ledgerBlock list" where
  "ledgerListing q = newestFirst (findAll blockAlive
     (\<lambda>b. matches_shipment (queriedShipment q) b \<and> matches_event (lf_milestoneEvent (lq_filters q)) b)
     (lq_blocks q))"

definition ledgerFetch :: "ledgerQuery \<Rightarrow> string option \<Rightarrow> ledgerBlock cursorPage" where
  "ledgerFetch q c = (case getLedgerBlocks (lq_oid q) (lq_filters q) c (lq_blocks q) of
     Inl e \<Rightarrow> paginateCursor lb_id [] 0 | Inr p \<Rightarrow> lp_page p)"

lemma ledgerListing_suffix:
  assumes ok: "ledger_query_ok q" and l: "ledgerListing q = xs @ d # ys"
  shows "newestFirst (findAll blockAlive
     (\<lambda>b. matches_shipment (queriedShipment q) b \<and> matches_event (lf_milestoneEvent (lq_filters q)) b
        \<and> before_cursor (Some (lb_id d)) b) (lq_blocks q)) = ys"
proof -
  have "coherent lb_createdAt lb_id (lq_blocks q)" "distinct (map lb_id (lq_blocks q))"
    using ok by (auto simp: ledger_query_ok_def)
  then show ?thesis
    unfolding newestFirst_def findAll_def
    by (rule newest_first_suffix[OF _ _ l[unfolded ledgerListing_def newestFirst_def findAll_def]])
      (auto simp: before_cursor_def)
qed

interpretation ledger_pages: cursor_listing lb_id ledger_query_ok ledgerListing
  "\<lambda>q. nullish (lf_limit (lq_filters q)) 20" ledgerFetch
proof unfold_locales
  fix q xs d ys
  assume ok: "ledger_query_ok q"
  then obtain i where i: "optionalId (lq_oid q) (lf_shipmentId (lq_filters q)) = Inr i"
    by (auto simp: ledger_query_ok_def)
  then have qi: "queriedShipment q = i" by (simp add: queriedShipment_def)
  show "distinct (map lb_id (ledgerListing q))"
    using ok by (simp add: ledgerListing_def newestFirst_def findAll_def ledger_query_ok_def
        distinct_map inj_on_def)
  show "0 < nullish (lf_limit (lq_filters q)) 20" using ok by (simp add: ledger_query_ok_def)
  show "ledgerFetch q None = paginateCursor lb_id
     (take (Suc (nullish (lf_limit (lq_filters q)) 20)) (ledgerListing q))
     (nullish (lf_limit (lq_filters q)) 20)"
    using i qi by (simp add: ledgerFetch_def getLedgerBlocks_def ledgerListing_def optionalId_def
        before_cursor_def Let_def)
  assume l: "ledgerListing q = xs @ d # ys"
  then have "d \<in> set (ledgerListing q)" by simp
  then have d: "lb_id d \<noteq> []" "lq_oid q (lb_id d) = Inr (lb_id d)"
    using ok by (auto simp: ledgerListing_def newestFirst_def findAll_def ledger_query_ok_def)
  then have "optionalId (lq_oid q) (Some (lb_id d)) = Inr (Some (lb_id d))"
    by (simp add: optionalId_def)
  then show "ledgerFetch q (Some (lb_id d)) = paginateCursor lb_id
     (take (Suc (nullish (lf_limit (lq_filters q)) 20)) ys) (nullish (lf_limit (lq_filters q)) 20)"
    using i qi ledgerListing_suffix[OF ok l]
    by (simp add: ledgerFetch_def getLedgerBlocks_def Let_def)
qed

end
