(* ===== verification/Effects.thy ===== *)
theory Effects
  imports Shipment_Status Complex_Main
begin

text \<open>
  What the services leave behind besides documents: audit entries
  (\<open>src/src/shared/utils/auditLog.ts\<close>) and the socket events of \<open>src/src/infra/socket/io.ts\<close>, with
  the payload types of \<open>socketEvents.ts\<close>. Amounts and sensor readings are rationals.
\<close>

section \<open>Audit log\<close>

datatype auditAction =
    SHIPMENT_STATUS_CHANGED | SHIPMENT_CREATED | PROOF_UPLOADED | TELEMETRY_ANCHORED
  | SETTLEMENT_RELEASED | ANOMALY_DETECTED | USER_INVITED | DISPUTE_OPENED
  | RBAC_ROLE_MODIFIED | API_KEY_GENERATED

record auditParams =
  ap_userId :: string
  ap_action :: auditAction
  ap_resource :: "string option"
  ap_resourceId :: string
  ap_timestamp :: millis
  ap_metadata :: "(string \<times> jval) list"

definition inferResource :: "auditAction \<Rightarrow> string" where
  "inferResource action =
     (if action = SHIPMENT_STATUS_CHANGED \<or> action = SHIPMENT_CREATED \<or> action = PROOF_UPLOADED
         \<or> action = DISPUTE_OPENED then ''SHIPMENT''
      else if action = TELEMETRY_ANCHORED then ''TELEMETRY''
      else if action = SETTLEMENT_RELEASED then ''PAYMENT''
      else if action = ANOMALY_DETECTED then ''ANOMALY''
      else if action = USER_INVITED then ''USER''
      else if action = API_KEY_GENERATED then ''API_KEY''
      else ''USER'')"

text \<open>
  Every entry is logged; it is persisted when the user id is an ObjectId (\<open>isValidObjectId\<close> is the
  driver's) and the insertion, which nobody waits for, succeeds (\<open>up\<close>).
\<close>

record auditStore =
  as_logged :: "auditParams list"
  as_persisted :: "auditParams list"

definition auditLog :: "(string \<Rightarrow> bool) \<Rightarrow> bool \<Rightarrow> auditParams \<Rightarrow> auditStore \<Rightarrow> auditStore" where
  "auditLog isValidObjectId up params st =
     (let entry = params\<lparr>ap_resource := Some (nullish (ap_resource params) (inferResource (ap_action params)))\<rparr>;
          st' = st\<lparr>as_logged := as_logged st @ [entry]\<rparr>
      in if \<not> isValidObjectId (ap_userId params) then st'
         else if up then st'\<lparr>as_persisted := as_persisted st' @ [entry]\<rparr> else st')"

text \<open>The persisted entries are those of the log that belong to a real user.\<close>

lemma auditLog_persisted:
  assumes "as_persisted st = filter (\<lambda>p. isv (ap_userId p)) (as_logged st)"
  shows "as_persisted (auditLog isv True p st) = filter (\<lambda>p. isv (ap_userId p)) (as_logged (auditLog isv True p st))"
  using assms by (simp add: auditLog_def Let_def)

section \<open>Socket events\<close>

record statusMilestone =
  sm_name :: string
  sm_timestamp :: string
  sm_description :: "string option"
  sm_userId :: "string option"
  sm_walletAddress :: "string option"

record statusUpdatePayload =
  su_shipmentId :: string
  su_status :: shipmentStatus
  su_milestones :: "statusMilestone list"
  su_updatedAt :: "string option"

record settlementStatusPayload =
  ss_paymentId :: string
  ss_shipmentId :: string
  ss_oldStatus :: string
  ss_newStatus :: string
  ss_amount :: rat
  ss_txHash :: "string option"
  ss_timestamp :: string

record telemetryUpdatePayload =
  tu_telemetryId :: string
  tu_shipmentId :: string
  tu_sensorId :: string
  tu_latitude :: rat
  tu_longitude :: rat
  tu_timestamp :: string

record anomalyAlertPayload =
  aa_anomalyId :: string
  aa_shipmentId :: string
  aa_type :: string
  aa_severity :: string
  aa_message :: string

datatype socketEvent =
    StatusUpdate statusUpdatePayload
  | SettlementStatus settlementStatusPayload
  | LocationUpdate telemetryUpdatePayload
  | AnomalyAlert anomalyAlertPayload

primrec socket_event_name :: "socketEvent \<Rightarrow> string" where
  "socket_event_name (StatusUpdate p) = ''shipment:status''"
| "socket_event_name (SettlementStatus p) = ''settlement:status''"
| "socket_event_name (LocationUpdate p) = ''location:update''"
| "socket_event_name (AnomalyAlert p) = ''anomaly:detected''"

definition shipmentRoomName :: "string \<Rightarrow> string" where
  "shipmentRoomName shipmentId = ''shipment_'' @ shipmentId"

lemma shipmentRoomName_inject [simp]: "shipmentRoomName a = shipmentRoomName b \<longleftrightarrow> a = b"
  by (simp add: shipmentRoomName_def)

text \<open>
  \<open>getIO().to(room).emit(...)\<close>: it throws before \<open>initSocketIO\<close> has run (\<open>ready = False\<close>). An emitted
  event is recorded with the shipment it is for; the room is \<open>shipmentRoomName\<close> of it and the SSE
  fan-out of the same event starts from it too.
\<close>

definition emitToShipment ::
  "bool \<Rightarrow> string \<Rightarrow> socketEvent \<Rightarrow> (string \<times> socketEvent) list
   \<Rightarrow> unit result \<times> (string \<times> socketEvent) list" where
  "emitToShipment ready shipmentId ev sent =
     (if ready then (Inr (), sent @ [(shipmentId, ev)])
      else (Inl (PlainError ''Socket.io not initialized''), sent))"

lemma emitToShipment_ready [simp]: "emitToShipment True sid ev sent = (Inr (), sent @ [(sid, ev)])"
  by (simp add: emitToShipment_def)

end
