(* ===== verification/Redis.thy ===== *)
theory Redis
  imports Errors "HOL-Library.AList"
begin

text \<open>
  The store behind the caches, the token blocklist, the sessions and the recent-events list: the
  in-process Redis of \<open>src/src/infra/redis/connection.ts\<close>, command by command, over its two
  insertion-ordered maps \<open>memStrings\<close> and \<open>memLists\<close>. Each command takes the reading of
  \<open>Date.now()\<close> it makes. The interface \<open>expiring_store\<close> states what the clients of the string
  commands rely on; a client's lemmas are proved from it.
\<close>

section \<open>Strings\<close>

type_synonym memEntry = "string \<times> millis option"
  \<comment> \<open>value and expireAt\<close>

record redis =
  memStrings :: "(string \<times> memEntry) list"
  memLists :: "(string \<times> string list) list"

definition emptyRedis :: redis where
  "emptyRedis = \<lparr>memStrings = [], memLists = []\<rparr>"

definition memIsExpired :: "millis \<Rightarrow> millis option \<Rightarrow> bool" where
  "memIsExpired now expireAt \<longleftrightarrow> (case expireAt of None \<Rightarrow> False | Some t \<Rightarrow> now \<ge> t)"

definition memGetEntry :: "millis \<Rightarrow> string \<Rightarrow> redis \<Rightarrow> memEntry option \<times> redis" where
  "memGetEntry now key r =
     (case map_of (memStrings r) key of
        None \<Rightarrow> (None, r)
      | Some (v, ex) \<Rightarrow>
          (if memIsExpired now ex then (None, r\<lparr>memStrings := AList.delete key (memStrings r)\<rparr>)
           else (Some (v, ex), r)))"

definition redis_get :: "millis \<Rightarrow> string \<Rightarrow> redis \<Rightarrow> string option \<times> redis" where
  "redis_get now key r = (let (e, r') = memGetEntry now key r in (map_option fst e, r'))"

text \<open>\<open>set(key, value, 'PX', ms)\<close>; \<open>'EX'\<close> and \<open>setex\<close> count in seconds.\<close>

definition redis_set :: "millis \<Rightarrow> string \<Rightarrow> string \<Rightarrow> int option \<Rightarrow> redis \<Rightarrow> redis" where
  "redis_set now key v px r =
     r\<lparr>memStrings := AList.update key (v, map_option (\<lambda>ms. now + ms) px) (memStrings r)\<rparr>"

definition redis_setex :: "millis \<Rightarrow> string \<Rightarrow> int \<Rightarrow> string \<Rightarrow> redis \<Rightarrow> redis" where
  "redis_setex now key seconds v r = redis_set now key v (Some (seconds * 1000)) r"

definition redis_del :: "string list \<Rightarrow> redis \<Rightarrow> nat \<times> redis" where
  "redis_del keys r =
     fold (\<lambda>key (n, r).
       (n + (if map_of (memStrings r) key \<noteq> None then 1 else 0)
          + (if map_of (memLists r) key \<noteq> None then 1 else 0),
        r\<lparr>memStrings := AList.delete key (memStrings r), memLists := AList.delete key (memLists r)\<rparr>))
       keys (0, r)"

definition redis_pttl :: "millis \<Rightarrow> string \<Rightarrow> redis \<Rightarrow> int \<times> redis" where
  "redis_pttl now key r =
     (case map_of (memStrings r) key of
        None \<Rightarrow> (-2, r)
      | Some (v, None) \<Rightarrow> (-1, r)
      | Some (v, Some t) \<Rightarrow>
          (if t - now \<le> 0 then (-2, r\<lparr>memStrings := AList.delete key (memStrings r)\<rparr>)
           else (t - now, r)))"

text \<open>\<open>Math.ceil(ms / 1000)\<close>\<close>

definition redis_ttl :: "millis \<Rightarrow> string \<Rightarrow> redis \<Rightarrow> int \<times> redis" where
  "redis_ttl now key r =
     (let (ms, r') = redis_pttl now key r
      in (if ms = -2 then -2 else if ms = -1 then -1 else - ((- ms) div 1000), r'))"

definition redis_expire :: "millis \<Rightarrow> string \<Rightarrow> int \<Rightarrow> redis \<Rightarrow> nat \<times> redis" where
  "redis_expire now key seconds r =
     (case memGetEntry now key r of
        (None, r') \<Rightarrow> (0, r')
      | (Some (v, ex), r') \<Rightarrow>
          (1, r'\<lparr>memStrings := AList.update key (v, Some (now + seconds * 1000)) (memStrings r')\<rparr>))"

section \<open>Lists\<close>

definition mem_list :: "string \<Rightarrow> redis \<Rightarrow> string list" where
  "mem_list key r = (case map_of (memLists r) key of None \<Rightarrow> [] | Some l \<Rightarrow> l)"

definition put_list :: "string \<Rightarrow> string list \<Rightarrow> redis \<Rightarrow> redis" where
  "put_list key l r = r\<lparr>memLists := AList.update key l (memLists r)\<rparr>"

definition redis_lpush :: "string \<Rightarrow> string list \<Rightarrow> redis \<Rightarrow> nat \<times> redis" where
  "redis_lpush key vals r =
     (let l = rev vals @ mem_list key r in (length l, put_list key l r))"

definition redis_ltrim :: "string \<Rightarrow> int \<Rightarrow> int \<Rightarrow> redis \<Rightarrow> redis" where
  "redis_ltrim key start stop r = put_list key (js_slice (mem_list key r) start (stop + 1)) r"

definition redis_lindex :: "string \<Rightarrow> int \<Rightarrow> redis \<Rightarrow> string option" where
  "redis_lindex key index r =
     (let l = mem_list key r; at = (if index < 0 then int (length l) + index else index)
      in if 0 \<le> at \<and> at < int (length l) then Some (l ! nat at) else None)"

definition redis_rpop :: "string \<Rightarrow> redis \<Rightarrow> string option \<times> redis" where
  "redis_rpop key r =
     (let l = mem_list key r
      in (if l = [] then None else Some (last l), put_list key (butlast l) r))"

definition redis_lrange :: "string \<Rightarrow> int \<Rightarrow> int \<Rightarrow> redis \<Rightarrow> string list" where
  "redis_lrange key start stop r =
     (let l = mem_list key r; len = int (length l);
          e = (if stop < 0 then len + stop + 1 else stop + 1)
      in js_slice l (if start < 0 then len + start else start) e)"

lemma mem_list_put [simp]:
  "mem_list k (put_list key l r) = (if k = key then l else mem_list k r)"
  by (simp add: mem_list_def put_list_def update_conv')

lemma put_list_strings [simp]: "memStrings (put_list key l r) = memStrings r"
  by (simp add: put_list_def)

lemma put_list_put [simp]: "put_list k b (put_list k a r) = put_list k b r"
  by (simp add: put_list_def)

lemma redis_lrange_all: "redis_lrange key 0 (-1) r = mem_list key r"
  by (simp add: redis_lrange_def Let_def js_slice_all)

lemma redis_lindex_last:
  "redis_lindex key (-1) r = (if mem_list key r = [] then None else Some (last (mem_list key r)))"
proof -
  have "nat (int n - 1) = n - 1" for n by arith
  then show ?thesis by (auto simp: redis_lindex_def Let_def last_conv_nth)
qed

section \<open>Keys by pattern\<close>

text \<open>\<open>matchGlob\<close>: \<open>*\<close> stands for any text without a line terminator, every other character for itself.\<close>

definition line_terminator :: "char \<Rightarrow> bool" where
  "line_terminator c \<longleftrightarrow> c = CHR 0x0A \<or> c = CHR 0x0D"

fun matchGlob :: "string \<Rightarrow> string \<Rightarrow> bool" where
  "matchGlob [] [] = True"
| "matchGlob (k # ks) [] = False"
| "matchGlob [] (p # ps) = (p = CHR ''*'' \<and> matchGlob [] ps)"
| "matchGlob (k # ks) (p # ps) =
     (if p = CHR ''*''
      then matchGlob (k # ks) ps \<or> (\<not> line_terminator k \<and> matchGlob ks (p # ps))
      else k = p \<and> matchGlob ks ps)"

definition redis_scan :: "string \<Rightarrow> redis \<Rightarrow> string list" where
  "redis_scan pat r = filter (\<lambda>k. matchGlob k pat) (map fst (memStrings r) @ map fst (memLists r))"

lemma matchGlob_prefix:
  assumes "list_all (\<lambda>c. c \<noteq> CHR ''*'') p" and "list_all (\<lambda>c. \<not> line_terminator c) s"
  shows "matchGlob (p @ s) (p @ ''*'')"
proof -
  have s: "matchGlob s ''*''" using assms(2) by (induction s) auto
  show ?thesis using assms(1) s by (induction p) auto
qed

lemma matchGlob_prefixD:
  assumes "list_all (\<lambda>c. c \<noteq> CHR ''*'') p"
  shows "matchGlob k (p @ ''*'') \<Longrightarrow> startsWith k p"
  using assms
proof (induction p arbitrary: k)
  case Nil
  then show ?case by (simp add: startsWith_def)
next
  case (Cons c p)
  then show ?case by (cases k) (auto simp: startsWith_def)
qed

section \<open>The interface of an expiring store\<close>

text \<open>\<open>value_at\<close> is what a read at an instant returns.\<close>

locale expiring_store =
  fixes value_at :: "'s \<Rightarrow> millis \<Rightarrow> string \<Rightarrow> string option"
    and set_px :: "millis \<Rightarrow> string \<Rightarrow> string \<Rightarrow> int \<Rightarrow> 's \<Rightarrow> 's"
    and del :: "string \<Rightarrow> 's \<Rightarrow> 's"
  assumes set_same: "value_at (set_px now k v ms s) t k = (if t < now + ms then Some v else None)"
    and set_other: "k' \<noteq> k \<Longrightarrow> value_at (set_px now k v ms s) t k' = value_at s t k'"
    and del_same: "value_at (del k s) t k = None"
    and del_other: "k' \<noteq> k \<Longrightarrow> value_at (del k s) t k' = value_at s t k'"
    and expires: "value_at s t k = None \<Longrightarrow> t \<le> t' \<Longrightarrow> value_at s t' k = None"
begin

lemma set_live: "t < now + ms \<Longrightarrow> value_at (set_px now k v ms s) t k = Some v"
  by (simp add: set_same)

lemma set_dead: "now + ms \<le> t \<Longrightarrow> value_at (set_px now k v ms s) t k = None"
  by (simp add: set_same)

lemma still_live: "value_at s t' k = Some v \<Longrightarrow> t \<le> t' \<Longrightarrow> value_at s t k \<noteq> None"
  using expires by fastforce

lemma set_commute_value:
  "k \<noteq> k' \<Longrightarrow> value_at (set_px n k v ms (set_px n' k' v' ms' s)) t j
     = value_at (set_px n' k' v' ms' (set_px n k v ms s)) t j"
  by (cases "j = k"; cases "j = k'") (simp_all add: set_same set_other)

lemma del_idem_value: "value_at (del k (del k s)) t j = value_at (del k s) t j"
  by (cases "j = k") (simp_all add: del_same del_other)

end

definition redis_value :: "redis \<Rightarrow> millis \<Rightarrow> string \<Rightarrow> string option" where
  "redis_value r now key = fst (redis_get now key r)"

lemma redis_value_conv:
  "redis_value r now key = (case map_of (memStrings r) key of None \<Rightarrow> None
     | Some (v, ex) \<Rightarrow> if memIsExpired now ex then None else Some v)"
  by (auto simp: redis_value_def redis_get_def memGetEntry_def split: option.split)

interpretation redis_store: expiring_store redis_value
  "\<lambda>now k v ms. redis_set now k v (Some ms)" "\<lambda>k r. snd (redis_del [k] r)"
  by unfold_locales
    (auto simp: redis_value_conv redis_set_def redis_del_def memIsExpired_def update_conv'
      delete_conv' split: option.splits if_splits)

text \<open>Reading an expired key removes it, which no later read can tell.\<close>

lemma redis_get_value:
  "redis_value (snd (redis_get now key r)) t k = (if k = key \<and> memIsExpired now
      (case map_of (memStrings r) key of None \<Rightarrow> None | Some e \<Rightarrow> snd e) then None else redis_value r t k)"
  by (auto simp: redis_value_conv redis_get_def memGetEntry_def delete_conv' memIsExpired_def
      split: option.splits prod.splits)

lemma redis_get_later: "now \<le> t \<Longrightarrow> redis_value (snd (redis_get now key r)) t k = redis_value r t k"
  unfolding redis_get_value
  by (cases "map_of (memStrings r) key") (auto simp: redis_value_conv memIsExpired_def split: option.splits)

lemma redis_pttl_live:
  "redis_value r now key \<noteq> None \<longleftrightarrow> fst (redis_pttl now key r) \<noteq> -2"
  by (cases "map_of (memStrings r) key")
    (auto simp: redis_value_conv redis_pttl_def memIsExpired_def split: option.splits prod.splits)

lemma redis_ttl_live:
  "redis_value r now key \<noteq> None \<longleftrightarrow> fst (redis_ttl now key r) \<noteq> -2"
proof -
  obtain ms r' where p: "redis_pttl now key r = (ms, r')" by (cases "redis_pttl now key r")
  have "ms = -2 \<or> ms = -1 \<or> 0 < ms"
    using p by (auto simp: redis_pttl_def split: option.splits prod.splits if_splits)
  moreover have "0 < - ((- ms) div 1000)" if "0 < ms"
    using that by (simp add: neg_imp_zdiv_neg_iff)
  ultimately have "(if ms = -2 then -2 else if ms = -1 then -1 else - ((- ms) div 1000)) \<noteq> -2 \<longleftrightarrow> ms \<noteq> -2"
    by fastforce
  then show ?thesis unfolding redis_pttl_live p redis_ttl_def by (simp add: p)
qed

end
