(* ===== verification/Caches.thy ===== *)
theory Caches
  imports Redis
begin

text \<open>
  The three result caches over Redis: shipment ETAs (\<open>shipmentsEta.cache.ts\<close>), settlement
  summaries (\<open>settlements.cache.ts\<close>) and analytics (\<open>analytics.cache.ts\<close>). Each keeps a
  process-wide flag \<open>redisUnavailable\<close>: after one failure it answers every read with a miss and
  stops touching Redis. The interface \<open>result_cache\<close> states the contract the three share.
\<close>

section \<open>Access to Redis\<close>

text \<open>
  One cache call: whether \<open>getRedisClient()\<close> returns, whether the command resolves, and the
  reading of the clock. \<open>enc\<close> and \<open>dec\<close> are \<open>JSON.stringify\<close> and \<open>JSON.parse\<close> on the payload
  (\<open>None\<close>: it throws).
\<close>

record conn =
  cn_client :: bool
  cn_cmd :: bool
  cn_now :: millis

type_synonym cacheState = "bool \<times> redis"
  \<comment> \<open>redisUnavailable and the store\<close>

definition getCacheClient :: "conn \<Rightarrow> bool \<Rightarrow> bool \<times> bool" where
  "getCacheClient cn redisUnavailable =
     (if redisUnavailable then (False, True)
      else if cn_client cn then (True, False) else (False, True))"

definition cacheRead ::
  "(string \<Rightarrow> 'v option) \<Rightarrow> conn \<Rightarrow> string \<Rightarrow> cacheState \<Rightarrow> 'v option \<times> cacheState" where
  "cacheRead dec cn key cs =
     (let (unav, r) = cs; (client, unav') = getCacheClient cn unav
      in if \<not> client then (None, unav', r)
         else if \<not> cn_cmd cn then (None, True, r)
         else let (v, r') = redis_get (cn_now cn) key r
              in if \<not> truthy v then (None, unav', r')
                 else case dec (the v) of None \<Rightarrow> (None, True, r') | Some p \<Rightarrow> (Some p, unav', r'))"

definition cacheWrite ::
  "('v \<Rightarrow> string) \<Rightarrow> int \<Rightarrow> conn \<Rightarrow> string \<Rightarrow> 'v \<Rightarrow> cacheState \<Rightarrow> cacheState" where
  "cacheWrite enc ttl cn key payload cs =
     (let (unav, r) = cs; (client, unav') = getCacheClient cn unav
      in if \<not> client then (unav', r)
         else if \<not> cn_cmd cn then (True, r)
         else (unav', redis_set (cn_now cn) key (enc payload) (Some (ttl * 1000)) r))"

definition cacheDelete :: "conn \<Rightarrow> string \<Rightarrow> cacheState \<Rightarrow> cacheState" where
  "cacheDelete cn key cs =
     (let (unav, r) = cs; (client, unav') = getCacheClient cn unav
      in if \<not> client then (unav', r)
         else if \<not> cn_cmd cn then (True, r)
         else (unav', snd (redis_del [key] r)))"

section \<open>Shipment ETAs\<close>

definition SHIPMENT_ETA_CACHE_TTL_SECONDS :: int where
  "SHIPMENT_ETA_CACHE_TTL_SECONDS = 300"

definition shipmentEtaCacheKey :: "string \<Rightarrow> string" where
  "shipmentEtaCacheKey shipmentId = ''shipments:eta:'' @ shipmentId"

definition readShipmentEtaCache ::
  "(string \<Rightarrow> 'v option) \<Rightarrow> conn \<Rightarrow> string \<Rightarrow> cacheState \<Rightarrow> 'v option \<times> cacheState" where
  "readShipmentEtaCache dec cn shipmentId cs = cacheRead dec cn (shipmentEtaCacheKey shipmentId) cs"

definition writeShipmentEtaCache ::
  "('v \<Rightarrow> string) \<Rightarrow> conn \<Rightarrow> string \<Rightarrow> 'v \<Rightarrow> cacheState \<Rightarrow> cacheState" where
  "writeShipmentEtaCache enc cn shipmentId payload cs =
     cacheWrite enc SHIPMENT_ETA_CACHE_TTL_SECONDS cn (shipmentEtaCacheKey shipmentId) payload cs"

definition invalidateShipmentEtaCache :: "conn \<Rightarrow> string \<Rightarrow> cacheState \<Rightarrow> cacheState" where
  "invalidateShipmentEtaCache cn shipmentId cs = cacheDelete cn (shipmentEtaCacheKey shipmentId) cs"

section \<open>Settlement summaries\<close>

definition CACHE_TTL_SECONDS :: int where
  "CACHE_TTL_SECONDS = 300"

definition settlementSummaryCacheKey :: "string \<Rightarrow> string \<Rightarrow> string" where
  "settlementSummaryCacheKey organizationId period =
     ''settlements:summary:'' @ organizationId @ '':'' @ period"

definition readSummaryCache ::
  "(string \<Rightarrow> 'v option) \<Rightarrow> conn \<Rightarrow> string \<Rightarrow> cacheState \<Rightarrow> 'v option \<times> cacheState" where
  "readSummaryCache dec cn key cs = cacheRead dec cn key cs"

definition writeSummaryCache ::
  "('v \<Rightarrow> string) \<Rightarrow> conn \<Rightarrow> string \<Rightarrow> 'v \<Rightarrow> cacheState \<Rightarrow> cacheState" where
  "writeSummaryCache enc cn key payload cs = cacheWrite enc CACHE_TTL_SECONDS cn key payload cs"

section \<open>Analytics\<close>

definition ANALYTICS_CACHE_PREFIX :: string where
  "ANALYTICS_CACHE_PREFIX = ''analytics:performance:''"

definition ANALYTICS_CACHE_TTL_SECONDS :: int where
  "ANALYTICS_CACHE_TTL_SECONDS = 300"

definition analyticsPerformanceCacheKey :: "string \<Rightarrow> string \<Rightarrow> string \<Rightarrow> string" where
  "analyticsPerformanceCacheKey startDateIso endDateIso granularity =
     ANALYTICS_CACHE_PREFIX @ startDateIso @ '':'' @ endDateIso @ '':'' @ granularity"

definition analyticsSummaryCacheKey :: "string option \<Rightarrow> string" where
  "analyticsSummaryCacheKey organizationId =
     ''analytics:summary:'' @ (if truthy organizationId then the organizationId else ''global'')"

definition readAnalyticsPerformanceCache ::
  "(string \<Rightarrow> 'v option) \<Rightarrow> conn \<Rightarrow> string \<Rightarrow> cacheState \<Rightarrow> 'v option \<times> cacheState" where
  "readAnalyticsPerformanceCache dec cn key cs = cacheRead dec cn key cs"

definition readAnalyticsSummaryCache ::
  "(string \<Rightarrow> 'v option) \<Rightarrow> conn \<Rightarrow> string \<Rightarrow> cacheState \<Rightarrow> 'v option \<times> cacheState" where
  "readAnalyticsSummaryCache dec cn key cs = cacheRead dec cn key cs"

definition writeAnalyticsPerformanceCache ::
  "('v \<Rightarrow> string) \<Rightarrow> conn \<Rightarrow> string \<Rightarrow> 'v \<Rightarrow> cacheState \<Rightarrow> cacheState" where
  "writeAnalyticsPerformanceCache enc cn key payload cs =
     cacheWrite enc ANALYTICS_CACHE_TTL_SECONDS cn key payload cs"

definition writeAnalyticsSummaryCache ::
  "('v \<Rightarrow> string) \<Rightarrow> conn \<Rightarrow> string \<Rightarrow> 'v \<Rightarrow> cacheState \<Rightarrow> cacheState" where
  "writeAnalyticsSummaryCache enc cn key payload cs =
     cacheWrite enc ANALYTICS_CACHE_TTL_SECONDS cn key payload cs"

definition invalidateAnalyticsSummaryCache :: "conn \<Rightarrow> string option \<Rightarrow> cacheState \<Rightarrow> cacheState" where
  "invalidateAnalyticsSummaryCache cn organizationId cs =
     cacheDelete cn (analyticsSummaryCacheKey organizationId) cs"

text \<open>
  The scan loop: the in-process store answers every scan with cursor \<open>'0'\<close>, so the body runs once.
\<close>

definition invalidateAnalyticsPerformanceCache :: "conn \<Rightarrow> cacheState \<Rightarrow> cacheState" where
  "invalidateAnalyticsPerformanceCache cn cs =
     (let (unav, r) = cs; (client, unav') = getCacheClient cn unav
      in if \<not> client then (unav', r)
         else if \<not> cn_cmd cn then (True, r)
         else let keys = redis_scan (ANALYTICS_CACHE_PREFIX @ ''*'') r
              in (unav', if keys \<noteq> [] then snd (redis_del keys r) else r))"

section \<open>The contract\<close>

definition up :: "conn \<Rightarrow> bool" where
  "up cn \<longleftrightarrow> cn_client cn \<and> cn_cmd cn"

lemma cacheRead_fst:
  "fst (cacheRead dec cn key (unav, r)) =
     (if unav \<or> \<not> up cn then None
      else case redis_value r (cn_now cn) key of
          None \<Rightarrow> None | Some v \<Rightarrow> if v = [] then None else dec v)"
  by (auto simp: cacheRead_def getCacheClient_def up_def Let_def redis_value_def case_prod_beta
      split: option.splits)

lemma cacheWrite_conv:
  "cacheWrite enc ttl cn key p (unav, r) =
     (unav \<or> \<not> up cn,
      if unav \<or> \<not> up cn then r else redis_set (cn_now cn) key (enc p) (Some (ttl * 1000)) r)"
  by (auto simp: cacheWrite_def getCacheClient_def up_def Let_def)

lemma cacheDelete_conv:
  "cacheDelete cn key (unav, r) =
     (unav \<or> \<not> up cn, if unav \<or> \<not> up cn then r else snd (redis_del [key] r))"
  by (auto simp: cacheDelete_def getCacheClient_def up_def Let_def)

lemmas cache_simps = cacheRead_fst cacheWrite_conv cacheDelete_conv

locale result_cache =
  fixes rd :: "(string \<Rightarrow> 'v option) \<Rightarrow> conn \<Rightarrow> 'k \<Rightarrow> cacheState \<Rightarrow> 'v option \<times> cacheState"
    and wr :: "('v \<Rightarrow> string) \<Rightarrow> conn \<Rightarrow> 'k \<Rightarrow> 'v \<Rightarrow> cacheState \<Rightarrow> cacheState"
    and keystr :: "'k \<Rightarrow> string"
  assumes rd_spec: "rd dec cn k cs = cacheRead dec cn (keystr k) cs"
    and wr_spec: "wr enc cn k p cs = cacheWrite enc 300 cn (keystr k) p cs"
begin

lemma write_read:
  "up cn \<Longrightarrow> up cn' \<Longrightarrow> cn_now cn' < cn_now cn + 300000 \<Longrightarrow> enc p \<noteq> [] \<Longrightarrow> dec (enc p) = Some p
   \<Longrightarrow> fst (rd dec cn' k (wr enc cn k p (False, r))) = Some p"
  by (simp add: rd_spec wr_spec cache_simps redis_store.set_same)

lemma write_stale:
  "up cn \<Longrightarrow> cn_now cn + 300000 \<le> cn_now cn'
   \<Longrightarrow> fst (rd dec cn' k (wr enc cn k p (False, r))) = None"
  by (simp add: rd_spec wr_spec cache_simps redis_store.set_same)

text \<open>A write never makes another key read anything but what it read before, or a miss.\<close>

lemma write_other:
  "keystr k' \<noteq> keystr k
   \<Longrightarrow> fst (rd dec cn' k' (wr enc cn k p (unav, r))) \<in> {None, fst (rd dec cn' k' (unav, r))}"
  by (simp add: rd_spec wr_spec cache_simps redis_store.set_other)

text \<open>After an invalidation no read hits: the entry is gone, or the whole cache is switched off.\<close>

lemma invalidated: "fst (rd dec cn' k (cacheDelete cn (keystr k) cs)) = None"
  by (cases cs) (simp add: rd_spec cache_simps redis_store.del_same)

lemma fails_open:
  "rd dec cn k (True, r) = (None, True, r)" "wr enc cn k p (True, r) = (True, r)"
  by (simp_all add: rd_spec wr_spec cacheRead_def cacheWrite_def getCacheClient_def)

end

interpretation eta_cache: result_cache readShipmentEtaCache writeShipmentEtaCache shipmentEtaCacheKey
  by unfold_locales
    (simp_all add: readShipmentEtaCache_def writeShipmentEtaCache_def SHIPMENT_ETA_CACHE_TTL_SECONDS_def)

interpretation summary_cache: result_cache readSummaryCache writeSummaryCache "\<lambda>k. k"
  by unfold_locales (simp_all add: readSummaryCache_def writeSummaryCache_def CACHE_TTL_SECONDS_def)

interpretation performance_cache: result_cache readAnalyticsPerformanceCache
  writeAnalyticsPerformanceCache "\<lambda>k. k"
  by unfold_locales
    (simp_all add: readAnalyticsPerformanceCache_def writeAnalyticsPerformanceCache_def
      ANALYTICS_CACHE_TTL_SECONDS_def)

interpretation analytics_summary_cache: result_cache readAnalyticsSummaryCache
  writeAnalyticsSummaryCache "\<lambda>k. k"
  by unfold_locales
    (simp_all add: readAnalyticsSummaryCache_def writeAnalyticsSummaryCache_def
      ANALYTICS_CACHE_TTL_SECONDS_def)

lemma shipmentEtaCacheKey_inject [simp]: "shipmentEtaCacheKey a = shipmentEtaCacheKey b \<longleftrightarrow> a = b"
  by (simp add: shipmentEtaCacheKey_def)

section \<open>Invalidation by pattern\<close>

lemma redis_del_strings: "map_of (memStrings (snd (redis_del keys r))) k
   = (if k \<in> set keys then None else map_of (memStrings r) k)"
proof -
  have "map_of (memStrings (snd (fold (\<lambda>key (n, r).
       (n + (if map_of (memStrings r) key \<noteq> None then 1 else 0)
          + (if map_of (memLists r) key \<noteq> None then 1 else 0),
        r\<lparr>memStrings := AList.delete key (memStrings r), memLists := AList.delete key (memLists r)\<rparr>))
       keys (m, r)))) k = (if k \<in> set keys then None else map_of (memStrings r) k)" for m :: nat
    by (induction keys arbitrary: m r) (auto simp: delete_conv')
  then show ?thesis by (simp add: redis_del_def)
qed

text \<open>
  Invalidation removes every performance entry and nothing else: keys are matched with the
  prefix, and a key under the prefix without a line terminator is always matched.
\<close>

lemma invalidate_performance_value:
  assumes "up cn"
  shows "redis_value (snd (invalidateAnalyticsPerformanceCache cn (False, r))) t k
    = (if k \<in> set (redis_scan (ANALYTICS_CACHE_PREFIX @ ''*'') r) then None else redis_value r t k)"
  using assms
  by (auto simp: invalidateAnalyticsPerformanceCache_def getCacheClient_def up_def Let_def
      redis_value_conv redis_del_strings)

lemma prefix_plain: "list_all (\<lambda>c. c \<noteq> CHR ''*'') ANALYTICS_CACHE_PREFIX"
  by (simp add: ANALYTICS_CACHE_PREFIX_def)

lemma invalidate_performance_hit:
  assumes "up cn" and "list_all (\<lambda>c. \<not> line_terminator c) s"
  shows "redis_value (snd (invalidateAnalyticsPerformanceCache cn (False, r))) t (ANALYTICS_CACHE_PREFIX @ s) = None"
proof (cases "map_of (memStrings r) (ANALYTICS_CACHE_PREFIX @ s)")
  case None
  then show ?thesis
    unfolding invalidate_performance_value[OF assms(1)] by (simp add: redis_value_conv)
next
  case (Some e)
  then have "ANALYTICS_CACHE_PREFIX @ s \<in> fst ` set (memStrings r)"
    by (metis map_of_eq_None_iff option.distinct(1))
  then have "ANALYTICS_CACHE_PREFIX @ s \<in> set (redis_scan (ANALYTICS_CACHE_PREFIX @ ''*'') r)"
    using matchGlob_prefix[OF prefix_plain assms(2)] by (simp add: redis_scan_def)
  then show ?thesis by (simp add: invalidate_performance_value[OF assms(1)])
qed

lemma invalidate_performance_miss:
  assumes "up cn" and "\<not> startsWith k ANALYTICS_CACHE_PREFIX"
  shows "redis_value (snd (invalidateAnalyticsPerformanceCache cn (False, r))) t k = redis_value r t k"
  using assms matchGlob_prefixD[OF prefix_plain]
  by (auto simp: invalidate_performance_value redis_scan_def)

text \<open>
  The settlement-summary cache answers exactly what was written for five minutes and nothing
  afterwards, as long as the store is reachable and the encoding reads back.
\<close>

lemma summary_cache_expires:
  assumes "up cn" and "up cn'" and "enc p \<noteq> []" and "dec (enc p) = Some p"
  shows "fst (readSummaryCache dec cn' k (writeSummaryCache enc cn k p (False, r)))
    = (if cn_now cn' < cn_now cn + 300000 then Some p else None)"
proof (cases "cn_now cn' < cn_now cn + 300000")
  case True
  with summary_cache.write_read[where dec = dec and enc = enc and p = p, OF assms(1,2) True assms(3,4)] show ?thesis by simp
next
  case False
  then have le: "cn_now cn + 300000 \<le> cn_now cn'" by simp
  from summary_cache.write_stale[OF assms(1) le] False show ?thesis by simp
qed

end
