(* ===== verification/Payments.thy ===== *)
theory Payments
  imports Ledger Effects Caches
begin

text \<open>
  The payments module (\<open>src/src/modules/payments\<close>) and the Stellar settlement webhook
  (\<open>src/src/modules/webhooks/stellar.webhook.service.ts\<close>): documents, repository, services,
  the settlement summary and its sparkline. \<open>oid\<close> is the driver's \<open>new Types.ObjectId\<close>.
\<close>

section \<open>Documents\<close>

datatype paymentStatus = PENDING | ESCROWED | RELEASED | FAILED | DISPUTED

primrec payment_status_str :: "paymentStatus \<Rightarrow> string" where
  "payment_status_str PENDING = ''Pending''"
| "payment_status_str ESCROWED = ''Escrowed''"
| "payment_status_str RELEASED = ''Released''"
| "payment_status_str FAILED = ''Failed''"
| "payment_status_str DISPUTED = ''Disputed''"

datatype token = XLMN | USDC | OtherToken

record escrowRelease =
  er_conditionDescription :: "string option"
  er_releasedAt :: "millis option"
  er_releasedBy :: "string option"
  er_disputedAt :: "millis option"
  er_disputeReason :: "string option"
  er_additionalNotes :: "string option"

record payment =
  pm_id :: objectId
  pm_shipmentId :: objectId
  pm_organizationId :: objectId
  pm_amount :: rat
  pm_tokenType :: "token option"
  pm_token :: token
  pm_payerAddress :: "string option"
  pm_payeeAddress :: "string option"
  pm_status :: paymentStatus
  pm_stellarTxHash :: "string option"
  pm_escrowRelease :: "escrowRelease option"
  pm_createdAt :: millis
  pm_updatedAt :: millis
  pm_deletedAt :: "millis option"

definition paymentAlive :: "payment \<Rightarrow> bool" where
  "paymentAlive p \<longleftrightarrow> pm_deletedAt p = None"

section \<open>Repository\<close>

record paymentInput =
  pi_shipmentId :: string
  pi_organizationId :: string
  pi_amount :: rat
  pi_token :: "token option"
  pi_tokenType :: "token option"
  pi_payerAddress :: "string option"
  pi_payeeAddress :: "string option"
  pi_status :: "paymentStatus option"

text \<open>\<open>PaymentModel.create\<close> runs the schema's validators: a positive amount and a present token.\<close>

definition createPayment ::
  "(string \<Rightarrow> objectId result) \<Rightarrow> objectId \<Rightarrow> millis \<Rightarrow> paymentInput \<Rightarrow> payment list
   \<Rightarrow> payment result \<times> payment list" where
  "createPayment oid fresh now input ps =
     (case oid (pi_shipmentId input) of Inl e \<Rightarrow> (Inl e, ps) | Inr sid \<Rightarrow>
     (case oid (pi_organizationId input) of Inl e \<Rightarrow> (Inl e, ps) | Inr org \<Rightarrow>
       (let issues = (if pi_amount input > 0 then [] else [''Amount must be positive''])
                   @ (if pi_token input = None then [''Path `token` is required.''] else [])
        in if issues \<noteq> [] then (Inl (MongooseValidation issues), ps)
           else let p = \<lparr>pm_id = fresh, pm_shipmentId = sid, pm_organizationId = org,
                         pm_amount = pi_amount input,
                         pm_tokenType = (case pi_tokenType input of Some t \<Rightarrow> Some t | None \<Rightarrow> pi_token input),
                         pm_token = the (pi_token input),
                         pm_payerAddress = pi_payerAddress input,
                         pm_payeeAddress = pi_payeeAddress input,
                         pm_status = nullish (pi_status input) PENDING,
                         pm_stellarTxHash = None, pm_escrowRelease = None,
                         pm_createdAt = now, pm_updatedAt = now, pm_deletedAt = None\<rparr>
                in (Inr p, ps @ [p]))))"

definition getPaymentById :: "objectId \<Rightarrow> payment list \<Rightarrow> payment option" where
  "getPaymentById i ps = findOne paymentAlive (\<lambda>p. pm_id p = i) ps"

definition findPaymentAndUpdate ::
  "objectId \<Rightarrow> (payment \<Rightarrow> payment) \<Rightarrow> payment list \<Rightarrow> payment option \<times> payment list" where
  "findPaymentAndUpdate i f ps = findOneAndUpdate paymentAlive (\<lambda>p. pm_id p = i) f ps"

definition updatePaymentStatus ::
  "millis \<Rightarrow> objectId \<Rightarrow> paymentStatus \<Rightarrow> string option \<Rightarrow> payment list
   \<Rightarrow> payment option \<times> payment list" where
  "updatePaymentStatus now i status stellarTxHash ps =
     findPaymentAndUpdate i
       (\<lambda>p. p\<lparr>pm_status := status,
              pm_stellarTxHash := (if truthy stellarTxHash then stellarTxHash else pm_stellarTxHash p),
              pm_updatedAt := now\<rparr>) ps"

definition getPaymentByShipmentId ::
  "(string \<Rightarrow> objectId result) \<Rightarrow> string \<Rightarrow> payment list \<Rightarrow> payment option result" where
  "getPaymentByShipmentId oid shipmentId ps =
     (case oid shipmentId of Inl e \<Rightarrow> Inl e
      | Inr sid \<Rightarrow> Inr (findOne paymentAlive (\<lambda>p. pm_shipmentId p = sid) ps))"

definition deletePayment :: "millis \<Rightarrow> objectId \<Rightarrow> payment list \<Rightarrow> payment option \<times> payment list" where
  "deletePayment now i ps =
     findPaymentAndUpdate i (\<lambda>p. p\<lparr>pm_deletedAt := Some now, pm_updatedAt := now\<rparr>) ps"

definition no_escrow :: escrowRelease where
  "no_escrow = \<lparr>er_conditionDescription = None, er_releasedAt = None, er_releasedBy = None,
     er_disputedAt = None, er_disputeReason = None, er_additionalNotes = None\<rparr>"

definition disputePayment ::
  "millis \<Rightarrow> objectId \<Rightarrow> string \<Rightarrow> string option \<Rightarrow> payment list
   \<Rightarrow> payment option \<times> payment list" where
  "disputePayment now i disputeReason additionalNotes ps =
     findPaymentAndUpdate i
       (\<lambda>p. let e = nullish (pm_escrowRelease p) no_escrow
             in p\<lparr>pm_status := DISPUTED,
                  pm_escrowRelease := Some (e\<lparr>er_disputedAt := Some now,
                     er_disputeReason := Some disputeReason,
                     er_additionalNotes := (if truthy additionalNotes then additionalNotes
                                            else er_additionalNotes e)\<rparr>),
                  pm_updatedAt := now\<rparr>) ps"

interpretation payments: soft_collection pm_id paymentAlive getPaymentById findPaymentAndUpdate
  by unfold_locales
    (simp_all add: getPaymentById_def findOne_def findPaymentAndUpdate_def findOneAndUpdate_def)

section \<open>Listing\<close>

datatype paymentSort = SortAmount | SortStatus | SortCreatedAt

record paymentFilters =
  pf_status :: "paymentStatus option"
  pf_shipmentId :: "string option"
  pf_sortBy :: "paymentSort option"
  pf_ascending :: bool
  pf_limit :: "nat option"

record paymentsPage =
  pp_page :: "payment cursorPage"
  pp_total :: nat

definition directed :: "bool \<Rightarrow> ('a \<Rightarrow> 'k::linorder) \<Rightarrow> 'a list \<Rightarrow> 'a list" where
  "directed asc key xs = (if asc then sort_key key xs else desc_by key xs)"

definition sortPayments :: "paymentSort \<Rightarrow> bool \<Rightarrow> payment list \<Rightarrow> payment list" where
  "sortPayments by asc ps = (case by of
     SortAmount \<Rightarrow> directed asc (\<lambda>p. (pm_amount p, pm_id p)) ps
   | SortStatus \<Rightarrow> directed asc (\<lambda>p. (payment_status_str (pm_status p), pm_id p)) ps
   | SortCreatedAt \<Rightarrow> directed asc (created_key pm_createdAt pm_id) ps)"

definition payment_matches :: "objectId \<Rightarrow> paymentStatus option \<Rightarrow> objectId option \<Rightarrow> payment \<Rightarrow> bool" where
  "payment_matches org st sid p \<longleftrightarrow> pm_organizationId p = org
     \<and> (case st of None \<Rightarrow> True | Some s \<Rightarrow> pm_status p = s)
     \<and> (case sid of None \<Rightarrow> True | Some i \<Rightarrow> pm_shipmentId p = i)"

text \<open>The tail of the cursor branch; the id of the last shown item is read even if there is none.\<close>

definition payments_cursor_page :: "nat \<Rightarrow> payment list \<Rightarrow> payment cursorPage result" where
  "payments_cursor_page limit dat =
     (let more = length dat > limit;
          shown = (if more then butlast dat else dat)
      in if more \<and> shown = [] then Inl (PlainError ''Cannot read properties of undefined'')
         else Inr \<lparr>page_data = shown,
                  nextCursor = (if more then Some (pm_id (last shown)) else None),
                  hasMore = more\<rparr>)"

text \<open>Page mode when a page is given, cursor mode otherwise.\<close>

definition getPaymentsByOrganization ::
  "(string \<Rightarrow> objectId result) \<Rightarrow> string \<Rightarrow> paymentFilters \<Rightarrow> int option \<Rightarrow> string option
   \<Rightarrow> payment list \<Rightarrow> paymentsPage result" where
  "getPaymentsByOrganization oid organizationId f page cursor ps =
     (let limit = nullish (pf_limit f) 20; by = nullish (pf_sortBy f) SortCreatedAt in
      case oid organizationId of Inl e \<Rightarrow> Inl e | Inr org \<Rightarrow>
      (case optionalId oid (pf_shipmentId f) of Inl e \<Rightarrow> Inl e | Inr sid \<Rightarrow>
        (let query = payment_matches org (pf_status f) sid;
             tot = countDocuments paymentAlive query ps
         in case page of
              Some pg \<Rightarrow>
                (let skip = nat (max 0 ((pg - 1) * int limit));
                     dat = take limit (drop skip (sortPayments by (pf_ascending f)
                             (findAll paymentAlive query ps)))
                 in Inr \<lparr>pp_page = \<lparr>page_data = dat, nextCursor = None,
                                  hasMore = skip + length dat < tot\<rparr>, pp_total = tot\<rparr>)
            | None \<Rightarrow>
                (case optionalId oid cursor of Inl e \<Rightarrow> Inl e | Inr c \<Rightarrow>
                  (let dat = take (limit + 1) (sortPayments by (pf_ascending f)
                               (findAll paymentAlive
                                 (\<lambda>p. query p \<and> (case c of None \<Rightarrow> True | Some i \<Rightarrow> pm_id p < i)) ps))
                   in map_sum id (\<lambda>pg. \<lparr>pp_page = pg, pp_total = tot\<rparr>)
                        (payments_cursor_page limit dat))))))"

section \<open>Services\<close>

record paySystem =
  ps_payments :: "payment list"
  ps_blocks :: "ledgerBlock list"
  ps_sent :: "(string \<times> socketEvent) list"
  ps_audit :: auditStore

record payEnv =
  pe_oid :: "string \<Rightarrow> objectId result"
  pe_fresh :: objectId
  pe_updateNow :: millis
  pe_eventNow :: millis
  pe_auditNow :: millis
  pe_socketReady :: bool
  pe_isValidObjectId :: "string \<Rightarrow> bool"
  pe_auditUp :: bool
  pe_stellarNetwork :: string

definition getStellarExplorerUrl :: "string \<Rightarrow> string \<Rightarrow> string" where
  "getStellarExplorerUrl stellarNetwork txHash =
     (let network = (if stellarNetwork = ''public'' then ''public'' else ''testnet'')
      in ''https://stellar.expert/explorer/'' @ network @ ''/tx/'' @ txHash)"

record augmentedPayment =
  ag_payment :: payment
  ag_explorerUrl :: "string option"

definition augmentPayment :: "string \<Rightarrow> payment \<Rightarrow> augmentedPayment" where
  "augmentPayment network p = \<lparr>ag_payment = p,
     ag_explorerUrl = map_option (getStellarExplorerUrl network) (keep_truthy (pm_stellarTxHash p))\<rparr>"

definition createPaymentService ::
  "payEnv \<Rightarrow> paymentInput \<Rightarrow> paySystem \<Rightarrow> augmentedPayment result \<times> paySystem" where
  "createPaymentService env input s =
     (let token = (case pi_token input of Some t \<Rightarrow> Some t | None \<Rightarrow> pi_tokenType input);
          (r, ps') = createPayment (pe_oid env) (pe_fresh env) (pe_updateNow env)
                       (input\<lparr>pi_token := token, pi_tokenType := token,
                              pi_status := Some (nullish (pi_status input) PENDING)\<rparr>) (ps_payments s)
      in (map_sum id (augmentPayment (pe_stellarNetwork env)) r, s\<lparr>ps_payments := ps'\<rparr>))"

definition getPaymentByIdService :: "payEnv \<Rightarrow> objectId \<Rightarrow> paySystem \<Rightarrow> augmentedPayment result" where
  "getPaymentByIdService env i s =
     (case getPaymentById i (ps_payments s) of
        None \<Rightarrow> throwApp 404 ''Settlement not found'' (ErrorCodes PAYMENT_NOT_FOUND)
      | Some p \<Rightarrow> Inr (augmentPayment (pe_stellarNetwork env) p))"

definition settlementPayload :: "payEnv \<Rightarrow> paymentStatus \<Rightarrow> payment \<Rightarrow> settlementStatusPayload" where
  "settlementPayload env oldStatus updated =
     \<lparr>ss_paymentId = pm_id updated, ss_shipmentId = pm_shipmentId updated,
      ss_oldStatus = payment_status_str oldStatus, ss_newStatus = payment_status_str (pm_status updated),
      ss_amount = pm_amount updated, ss_txHash = keep_truthy (pm_stellarTxHash updated),
      ss_timestamp = toISOString (pe_eventNow env)\<rparr>"

text \<open>\<open>emitPaymentStatusChange\<close> throws before the sockets are up, after the document has changed.\<close>

definition announce ::
  "payEnv \<Rightarrow> paymentStatus \<Rightarrow> payment \<Rightarrow> paySystem \<Rightarrow> augmentedPayment result \<times> paySystem" where
  "announce env oldStatus updated s =
     (let (r, sent) = emitToShipment (pe_socketReady env) (pm_shipmentId updated)
                        (SettlementStatus (settlementPayload env oldStatus updated)) (ps_sent s)
      in (case r of Inl e \<Rightarrow> Inl e | Inr u \<Rightarrow> Inr (augmentPayment (pe_stellarNetwork env) updated),
          s\<lparr>ps_sent := sent\<rparr>))"

definition updatePaymentStatusService ::
  "payEnv \<Rightarrow> objectId \<Rightarrow> paymentStatus \<Rightarrow> string option \<Rightarrow> paySystem
   \<Rightarrow> augmentedPayment result \<times> paySystem" where
  "updatePaymentStatusService env i status stellarTxHash s =
     (case getPaymentById i (ps_payments s) of
        None \<Rightarrow> (throwApp 404 ''Settlement not found'' (ErrorCodes PAYMENT_NOT_FOUND), s)
      | Some p \<Rightarrow>
          (case updatePaymentStatus (pe_updateNow env) i status stellarTxHash (ps_payments s) of
             (None, ps') \<Rightarrow> (throwApp 500 ''Failed to update payment status'' (ErrorCodes INTERNAL_ERROR),
                            s\<lparr>ps_payments := ps'\<rparr>)
           | (Some updated, ps') \<Rightarrow> announce env (pm_status p) updated (s\<lparr>ps_payments := ps'\<rparr>)))"

definition releasePaymentService ::
  "payEnv \<Rightarrow> objectId \<Rightarrow> string \<Rightarrow> string option \<Rightarrow> paySystem
   \<Rightarrow> augmentedPayment result \<times> paySystem" where
  "releasePaymentService env paymentId stellarTxHash actorUserId s =
     (case updatePaymentStatusService env paymentId RELEASED (Some stellarTxHash) s of
        (Inl e, s') \<Rightarrow> (Inl e, s')
      | (Inr updated, s') \<Rightarrow>
          (Inr updated, s'\<lparr>ps_audit := auditLog (pe_isValidObjectId env) (pe_auditUp env)
             \<lparr>ap_userId = nullish actorUserId ''system'', ap_action = SETTLEMENT_RELEASED,
              ap_resource = None, ap_resourceId = paymentId, ap_timestamp = pe_auditNow env,
              ap_metadata = [(''stellarTxHash'', JStr stellarTxHash)]\<rparr> (ps_audit s')\<rparr>))"

definition disputeSettlementService ::
  "payEnv \<Rightarrow> objectId \<Rightarrow> string \<Rightarrow> string option \<Rightarrow> paySystem
   \<Rightarrow> augmentedPayment result \<times> paySystem" where
  "disputeSettlementService env i reason notes s =
     (case getPaymentById i (ps_payments s) of
        None \<Rightarrow> (throwApp 404 ''Settlement not found'' (ErrorCodes PAYMENT_NOT_FOUND), s)
      | Some p \<Rightarrow>
          (case disputePayment (pe_updateNow env) i reason notes (ps_payments s) of
             (None, ps') \<Rightarrow> (throwApp 500 ''Failed to dispute settlement'' (ErrorCodes INTERNAL_ERROR),
                            s\<lparr>ps_payments := ps'\<rparr>)
           | (Some updated, ps') \<Rightarrow> announce env (pm_status p) updated (s\<lparr>ps_payments := ps'\<rparr>)))"

definition getPaymentsService ::
  "payEnv \<Rightarrow> string \<Rightarrow> paymentFilters \<Rightarrow> int option \<Rightarrow> string option \<Rightarrow> paySystem
   \<Rightarrow> (augmentedPayment list \<times> nat \<times> bool \<times> string option) result" where
  "getPaymentsService env organizationId f page cursor s =
     map_sum id (\<lambda>r. (map (augmentPayment (pe_stellarNetwork env)) (page_data (pp_page r)), pp_total r,
                     hasMore (pp_page r), nextCursor (pp_page r)))
       (getPaymentsByOrganization (pe_oid env) organizationId f page cursor (ps_payments s))"

section \<open>Settlement summary\<close>

record settlementTotals =
  totalReleased :: rat
  totalInEscrow :: rat
  totalPending :: rat

text \<open>The \<open>aggregate\<close> pipelines: \<open>$match\<close> (with the soft-delete stage in front), then \<open>$group\<close>.\<close>

definition inPeriod :: "objectId \<Rightarrow> millis \<Rightarrow> payment \<Rightarrow> bool" where
  "inPeriod org since p \<longleftrightarrow> paymentAlive p \<and> pm_organizationId p = org \<and> since \<le> pm_createdAt p"

definition amountIf :: "paymentStatus \<Rightarrow> payment \<Rightarrow> rat" where
  "amountIf st p = (if pm_status p = st then pm_amount p else 0)"

definition aggregateSettlementSummary ::
  "(string \<Rightarrow> objectId result) \<Rightarrow> string \<Rightarrow> millis \<Rightarrow> payment list \<Rightarrow> settlementTotals result" where
  "aggregateSettlementSummary oid organizationId since ps =
     (case oid organizationId of Inl e \<Rightarrow> Inl e | Inr org \<Rightarrow>
       (let matched = filter (inPeriod org since) ps
        in Inr (if matched = [] then \<lparr>totalReleased = 0, totalInEscrow = 0, totalPending = 0\<rparr>
                else \<lparr>totalReleased = sum_list (map (amountIf RELEASED) matched),
                      totalInEscrow = sum_list (map (amountIf ESCROWED) matched),
                      totalPending = sum_list (map (amountIf PENDING) matched)\<rparr>)))"

definition day_key :: "millis \<Rightarrow> string" where
  "day_key t = take 10 (toISOString t)"

definition group_by_day :: "payment list \<Rightarrow> (string \<times> rat) list" where
  "group_by_day ps = map (\<lambda>k. (k, sum_list (map pm_amount (filter (\<lambda>p. day_key (pm_createdAt p) = k) ps))))
     (remdups (map (\<lambda>p. day_key (pm_createdAt p)) ps))"

definition MS_PER_DAY :: int where
  "MS_PER_DAY = 86400000"

definition buildSettlementSparkline ::
  "(string \<Rightarrow> objectId result) \<Rightarrow> string \<Rightarrow> millis \<Rightarrow> nat \<Rightarrow> payment list \<Rightarrow> rat list result" where
  "buildSettlementSparkline oid organizationId since days ps =
     (case oid organizationId of Inl e \<Rightarrow> Inl e | Inr org \<Rightarrow>
       (let rows = group_by_day (filter (\<lambda>p. inPeriod org since p \<and> pm_status p = RELEASED) ps)
        in Inr (map (\<lambda>i. nullish (map_of rows (day_key (since + int i * MS_PER_DAY))) 0) [0..<days])))"

record settlementSummary =
  sm_totals :: settlementTotals
  sm_sparkline :: "rat list"
  sm_period :: string

definition PERIOD_DAYS :: "string \<Rightarrow> nat option" where
  "PERIOD_DAYS period =
     (if period = ''week'' then Some 7 else if period = ''month'' then Some 30
      else if period = ''quarter'' then Some 90 else None)"

text \<open>\<open>setUTCDate(getUTCDate() - days + 1)\<close>, then midnight.\<close>

definition periodStart :: "millis \<Rightarrow> nat \<Rightarrow> millis" where
  "periodStart now days = (now div MS_PER_DAY - int days + 1) * MS_PER_DAY"

definition getSettlementSummaryService ::
  "(string \<Rightarrow> objectId result) \<Rightarrow> (settlementSummary \<Rightarrow> string) \<Rightarrow> (string \<Rightarrow> settlementSummary option)
   \<Rightarrow> conn \<Rightarrow> conn \<Rightarrow> millis \<Rightarrow> string \<Rightarrow> string \<Rightarrow> payment list \<Rightarrow> cacheState
   \<Rightarrow> settlementSummary result \<times> cacheState" where
  "getSettlementSummaryService oid enc dec cnR cnW now organizationId period ps cs =
     (case PERIOD_DAYS period of
        None \<Rightarrow> (throwApp 400 ''Invalid period. Must be one of: week, month, quarter.'' (ErrorCodes BAD_REQUEST), cs)
      | Some days \<Rightarrow>
          (let key = settlementSummaryCacheKey organizationId period in
           case readSummaryCache dec cnR key cs of
             (Some hit, cs') \<Rightarrow> (Inr hit, cs')
           | (None, cs') \<Rightarrow>
               (let since = periodStart now days in
                case aggregateSettlementSummary oid organizationId since ps of Inl e \<Rightarrow> (Inl e, cs') | Inr totals \<Rightarrow>
                (case buildSettlementSparkline oid organizationId since days ps of Inl e \<Rightarrow> (Inl e, cs')
                 | Inr sparkline \<Rightarrow>
                    (let r = \<lparr>sm_totals = totals, sm_sparkline = sparkline, sm_period = period\<rparr>
                     in (Inr r, writeSummaryCache enc cnW key r cs'))))))"

section \<open>The settlement webhook\<close>

datatype webhookType = Release | Escrow | Failed

record webhookResult =
  wr_event :: string
  wr_paymentId :: string
  wr_status :: paymentStatus
  wr_transactionHash :: "string option"

text \<open>\<open>blockNow\<close> and \<open>blockUp\<close>: the clock of the ledger block, and whether its insertion succeeds.\<close>

definition handleReleaseEvent ::
  "payEnv \<Rightarrow> millis \<Rightarrow> bool \<Rightarrow> objectId \<Rightarrow> string \<Rightarrow> paySystem \<Rightarrow> webhookResult result \<times> paySystem" where
  "handleReleaseEvent env blockNow blockUp paymentId transactionHash s =
     (case updatePaymentStatusService env paymentId RELEASED (Some transactionHash) s of
        (Inl e, s') \<Rightarrow> (Inl e, s')
      | (Inr u, s') \<Rightarrow>
          (Inr \<lparr>wr_event = ''release'', wr_paymentId = paymentId, wr_status = RELEASED,
                wr_transactionHash = Some transactionHash\<rparr>,
           (case getPaymentById paymentId (ps_payments s') of
              None \<Rightarrow> s'
            | Some p \<Rightarrow>
                (if \<not> blockUp then s'
                 else s'\<lparr>ps_blocks := snd (createLedgerBlock (pe_oid env) (pe_fresh env) blockNow blockNow
                    \<lparr>li_shipmentId = pm_shipmentId p, li_milestoneEvent = None,
                     li_eventType = Some (OfStatus SETTLEMENT_COMPLETED), li_blockNumber = None,
                     li_timestamp = None, li_shipmentReference = None, li_dataHash = None,
                     li_canonicalPayload = None, li_transactionHash = Some transactionHash,
                     li_ledger = None, li_verified = None, li_actor = None,
                     li_metadata = Some [(''paymentId'', JStr paymentId)]\<rparr> (ps_blocks s'))\<rparr>))))"

definition handleEscrowEvent ::
  "payEnv \<Rightarrow> objectId \<Rightarrow> string \<Rightarrow> paySystem \<Rightarrow> webhookResult result \<times> paySystem" where
  "handleEscrowEvent env paymentId transactionHash s =
     (case updatePaymentStatusService env paymentId ESCROWED (Some transactionHash) s of
        (Inl e, s') \<Rightarrow> (Inl e, s')
      | (Inr u, s') \<Rightarrow> (Inr \<lparr>wr_event = ''escrow'', wr_paymentId = paymentId, wr_status = ESCROWED,
                           wr_transactionHash = Some transactionHash\<rparr>, s'))"

definition handleFailedEvent ::
  "payEnv \<Rightarrow> objectId \<Rightarrow> paySystem \<Rightarrow> webhookResult result \<times> paySystem" where
  "handleFailedEvent env paymentId s =
     (case updatePaymentStatusService env paymentId FAILED None s of
        (Inl e, s') \<Rightarrow> (Inl e, s')
      | (Inr u, s') \<Rightarrow> (Inr \<lparr>wr_event = ''failed'', wr_paymentId = paymentId, wr_status = FAILED,
                           wr_transactionHash = None\<rparr>, s'))"

text \<open>The \<open>default\<close> branch of the switch is for types the payload schema has already rejected.\<close>

definition handleStellarWebhookEvent ::
  "payEnv \<Rightarrow> millis \<Rightarrow> bool \<Rightarrow> webhookType \<Rightarrow> objectId \<Rightarrow> string \<Rightarrow> paySystem
   \<Rightarrow> webhookResult result \<times> paySystem" where
  "handleStellarWebhookEvent env blockNow blockUp ty paymentId transactionHash s =
     (case ty of
        Release \<Rightarrow> handleReleaseEvent env blockNow blockUp paymentId transactionHash s
      | Escrow \<Rightarrow> handleEscrowEvent env paymentId transactionHash s
      | Failed \<Rightarrow> handleFailedEvent env paymentId s)"

section \<open>Effects of the operations\<close>

lemma updatePaymentStatus_hit:
  "getPaymentById i ps = Some p \<Longrightarrow>
   fst (updatePaymentStatus now i st h ps) = Some (p\<lparr>pm_status := st,
     pm_stellarTxHash := (if truthy h then h else pm_stellarTxHash p), pm_updatedAt := now\<rparr>)"
  by (simp add: updatePaymentStatus_def payments.update_result)

lemma updatePaymentStatus_miss:
  "getPaymentById i ps = None \<Longrightarrow> updatePaymentStatus now i st h ps = (None, ps)"
  by (simp add: updatePaymentStatus_def payments.update_missing)

lemma updatePaymentStatus_read:
  "getPaymentById i ps = Some p \<Longrightarrow>
   getPaymentById i (snd (updatePaymentStatus now i st h ps)) = Some (p\<lparr>pm_status := st,
     pm_stellarTxHash := (if truthy h then h else pm_stellarTxHash p), pm_updatedAt := now\<rparr>)"
  by (auto simp: updatePaymentStatus_def paymentAlive_def dest: payments.find_sound
      intro!: payments.read_own_write[THEN trans])

lemma updatePaymentStatus_frame [frame]:
  "j \<noteq> i \<Longrightarrow> getPaymentById j (snd (updatePaymentStatus now i st h ps)) = getPaymentById j ps"
  by (simp add: updatePaymentStatus_def payments.write_frame)

lemma disputePayment_hit:
  "getPaymentById i ps = Some p \<Longrightarrow> \<exists>p'. fst (disputePayment now i r n ps) = Some p'
     \<and> pm_id p' = pm_id p \<and> pm_status p' = DISPUTED \<and> pm_amount p' = pm_amount p
     \<and> (\<exists>e. pm_escrowRelease p' = Some e \<and> er_disputeReason e = Some r \<and> er_disputedAt e = Some now)"
  by (simp add: disputePayment_def payments.update_result Let_def)

lemma disputePayment_frame [frame]:
  "j \<noteq> i \<Longrightarrow> getPaymentById j (snd (disputePayment now i r n ps)) = getPaymentById j ps"
  by (simp add: disputePayment_def payments.write_frame Let_def)

lemma deletePayment_gone:
  "distinct (map pm_id ps) \<Longrightarrow> getPaymentById i (snd (deletePayment now i ps)) = None"
  by (simp add: deletePayment_def payments.deleted_is_gone paymentAlive_def)

text \<open>A well-formed collection: ids are unique and amounts positive. Every operation keeps it.\<close>

definition wf_payments :: "payment list \<Rightarrow> bool" where
  "wf_payments ps \<longleftrightarrow> distinct (map pm_id ps) \<and> (\<forall>p\<in>set ps. 0 < pm_amount p)"

lemma findPaymentAndUpdate_wf:
  assumes "wf_payments ps" and "\<And>p. pm_id (f p) = pm_id p" and "\<And>p. pm_amount (f p) = pm_amount p"
  shows "wf_payments (snd (findPaymentAndUpdate i f ps))"
proof -
  have "map pm_id (snd (findPaymentAndUpdate i f ps)) = map pm_id ps"
    using assms(2) by (rule payments.update_ids)
  moreover have "0 < pm_amount p" if "p \<in> set (snd (findPaymentAndUpdate i f ps))" for p
    using that assms(1,3)
    by (auto simp: findPaymentAndUpdate_def findOneAndUpdate_def wf_payments_def dest!: update_first_set)
  ultimately show ?thesis using assms(1) by (simp add: wf_payments_def)
qed

lemma updatePaymentStatus_wf: "wf_payments ps \<Longrightarrow> wf_payments (snd (updatePaymentStatus now i st h ps))"
  unfolding updatePaymentStatus_def by (rule findPaymentAndUpdate_wf) simp_all

lemma disputePayment_wf: "wf_payments ps \<Longrightarrow> wf_payments (snd (disputePayment now i r n ps))"
  unfolding disputePayment_def by (rule findPaymentAndUpdate_wf) (simp_all add: Let_def)

lemma deletePayment_wf: "wf_payments ps \<Longrightarrow> wf_payments (snd (deletePayment now i ps))"
  unfolding deletePayment_def by (rule findPaymentAndUpdate_wf) simp_all

lemma createPayment_wf:
  "wf_payments ps \<Longrightarrow> fresh \<notin> pm_id ` set ps \<Longrightarrow> wf_payments (snd (createPayment oid fresh now input ps))"
  by (auto simp: createPayment_def wf_payments_def Let_def split: sum.splits)

text \<open>What a status change does, in one statement.\<close>

lemma updatePaymentStatusService_ok:
  assumes "getPaymentById i (ps_payments s) = Some p"
  shows "\<exists>p' s'. snd (updatePaymentStatusService env i st h s) = s'
     \<and> ps_payments s' = snd (updatePaymentStatus (pe_updateNow env) i st h (ps_payments s))
     \<and> getPaymentById i (ps_payments s') = Some p' \<and> pm_status p' = st
     \<and> pm_shipmentId p' = pm_shipmentId p \<and> pm_amount p' = pm_amount p
     \<and> ps_blocks s' = ps_blocks s \<and> ps_audit s' = ps_audit s
     \<and> (pe_socketReady env \<longrightarrow> ps_sent s' = ps_sent s @
          [(pm_shipmentId p, SettlementStatus (settlementPayload env (pm_status p) p'))]
        \<and> fst (updatePaymentStatusService env i st h s) = Inr (augmentPayment (pe_stellarNetwork env) p'))"
proof -
  obtain p' ps' where u: "updatePaymentStatus (pe_updateNow env) i st h (ps_payments s) = (Some p', ps')"
    using updatePaymentStatus_hit[OF assms, of "pe_updateNow env" st h] by (metis prod.collapse)
  have p': "getPaymentById i ps' = Some p'" "pm_status p' = st" "pm_shipmentId p' = pm_shipmentId p"
    "pm_amount p' = pm_amount p"
    using updatePaymentStatus_read[OF assms, of "pe_updateNow env" st h]
      updatePaymentStatus_hit[OF assms, of "pe_updateNow env" st h] u by auto
  show ?thesis
    using assms u p'
    by (auto simp: updatePaymentStatusService_def announce_def emitToShipment_def)
qed

lemma updatePaymentStatusService_missing:
  "getPaymentById i (ps_payments s) = None \<Longrightarrow>
   updatePaymentStatusService env i st h s = (throwApp 404 ''Settlement not found'' (ErrorCodes PAYMENT_NOT_FOUND), s)"
  by (simp add: updatePaymentStatusService_def)

lemma announce_payments [simp]: "ps_payments (snd (announce env old p s)) = ps_payments s"
  by (simp add: announce_def case_prod_beta)

lemma announce_blocks [simp]: "ps_blocks (snd (announce env old p s)) = ps_blocks s"
  by (simp add: announce_def case_prod_beta)

lemma updatePaymentStatusService_payments:
  "ps_payments (snd (updatePaymentStatusService env i st h s))
     = snd (updatePaymentStatus (pe_updateNow env) i st h (ps_payments s))"
proof (cases "getPaymentById i (ps_payments s)")
  case None
  then show ?thesis by (simp add: updatePaymentStatusService_def updatePaymentStatus_miss)
next
  case (Some p)
  then show ?thesis
    by (auto simp: updatePaymentStatusService_def split: prod.split option.split)
qed

lemma updatePaymentStatusService_blocks [simp]:
  "ps_blocks (snd (updatePaymentStatusService env i st h s)) = ps_blocks s"
  by (auto simp: updatePaymentStatusService_def split: prod.split option.split)

text \<open>A webhook changes exactly the payment it names, whatever its type.\<close>

definition webhookStatus :: "webhookType \<Rightarrow> paymentStatus" where
  "webhookStatus ty = (case ty of Release \<Rightarrow> RELEASED | Escrow \<Rightarrow> ESCROWED | Failed \<Rightarrow> FAILED)"

definition webhookHash :: "webhookType \<Rightarrow> string \<Rightarrow> string option" where
  "webhookHash ty h = (case ty of Failed \<Rightarrow> None | Release \<Rightarrow> Some h | Escrow \<Rightarrow> Some h)"

lemma webhook_payments:
  "ps_payments (snd (handleStellarWebhookEvent env bn bu ty i h s))
     = snd (updatePaymentStatus (pe_updateNow env) i (webhookStatus ty) (webhookHash ty h) (ps_payments s))"
  by (cases ty)
    (auto simp: handleStellarWebhookEvent_def handleReleaseEvent_def handleEscrowEvent_def
      handleFailedEvent_def webhookStatus_def webhookHash_def
      simp flip: updatePaymentStatusService_payments split: prod.split sum.split option.split)

lemma webhook_wf:
  "wf_payments (ps_payments s) \<Longrightarrow> wf_payments (ps_payments (snd (handleStellarWebhookEvent env bn bu ty i h s)))"
  by (simp add: webhook_payments updatePaymentStatus_wf)

text \<open>Only a release writes to the ledger, and then one block that cites its transaction.\<close>

lemma webhook_blocks:
  assumes "getPaymentById i (ps_payments s) = Some p" and "pe_socketReady env"
    and "pe_oid env (pm_shipmentId p) = Inr (pm_shipmentId p)" and "h \<noteq> []" and "bu"
  shows "ps_blocks (snd (handleStellarWebhookEvent env bn bu Release i h s))
     = ps_blocks s @ [\<lparr>lb_id = pe_fresh env, lb_blockNumber = 0, lb_timestamp = bn,
         lb_shipmentId = pm_shipmentId p, lb_shipmentReference = None,
         lb_milestoneEvent = OfStatus SETTLEMENT_COMPLETED, lb_dataHash = None,
         lb_canonicalPayload = None, lb_transactionHash = Some h, lb_ledger = 0,
         lb_verified = False, lb_actor = None, lb_metadata = Some [(''paymentId'', JStr i)],
         lb_deletedAt = None, lb_createdAt = bn\<rparr>]"
proof -
  obtain p' s' where s': "snd (updatePaymentStatusService env i RELEASED (Some h) s) = s'"
    and p': "getPaymentById i (ps_payments s') = Some p'" "pm_shipmentId p' = pm_shipmentId p"
    and b: "ps_blocks s' = ps_blocks s"
    and r: "fst (updatePaymentStatusService env i RELEASED (Some h) s)
        = Inr (augmentPayment (pe_stellarNetwork env) p')"
    using updatePaymentStatusService_ok[OF assms(1), of env RELEASED "Some h"] assms(2) by auto
  have "updatePaymentStatusService env i RELEASED (Some h) s
      = (Inr (augmentPayment (pe_stellarNetwork env) p'), s')"
    using s' r by (metis prod.collapse)
  then show ?thesis
    using p' b assms(3-5)
    by (simp add: handleStellarWebhookEvent_def handleReleaseEvent_def createLedgerBlock_def Let_def)
qed

lemma webhook_no_block:
  "ty \<noteq> Release \<Longrightarrow> ps_blocks (snd (handleStellarWebhookEvent env bn bu ty i h s)) = ps_blocks s"
proof -
  have "ps_blocks s' = ps_blocks s" if "updatePaymentStatusService env i st h' s = (r, s')" for st h' r s'
    using that updatePaymentStatusService_blocks[of env i st h' s] by simp
  then show "ty \<noteq> Release \<Longrightarrow> ps_blocks (snd (handleStellarWebhookEvent env bn bu ty i h s)) = ps_blocks s"
    by (cases ty) (auto simp: handleStellarWebhookEvent_def handleEscrowEvent_def
        handleFailedEvent_def split: prod.split sum.split)
qed

section \<open>The sparkline\<close>

lemma map_of_group_by_day:
  "nullish (map_of (group_by_day ps) k) 0
     = sum_list (map pm_amount (filter (\<lambda>p. day_key (pm_createdAt p) = k) ps))"
proof (cases "k \<in> set (map (\<lambda>p. day_key (pm_createdAt p)) ps)")
  case True
  then have "k \<in> set (remdups (map (\<lambda>p. day_key (pm_createdAt p)) ps))" by simp
  then have "map_of (group_by_day ps) k
      = Some (sum_list (map pm_amount (filter (\<lambda>p. day_key (pm_createdAt p) = k) ps)))"
    unfolding group_by_day_def by (simp only: map_of_map_restrict restrict_map_def) simp
  then show ?thesis by simp
next
  case False
  then have "map_of (group_by_day ps) k = None"
    by (auto simp: group_by_day_def map_of_eq_None_iff)
  moreover have "filter (\<lambda>p. day_key (pm_createdAt p) = k) ps = []"
    using False by (auto simp: filter_empty_conv)
  ultimately show ?thesis by simp
qed

lemma sum_by_key:
  fixes amt :: "'a \<Rightarrow> 'b::comm_monoid_add"
  assumes "distinct ks" and "\<And>p. p \<in> set ps \<Longrightarrow> key p \<in> set ks"
  shows "sum_list (map (\<lambda>k. sum_list (map amt (filter (\<lambda>p. key p = k) ps))) ks) = sum_list (map amt ps)"
  using assms(2)
proof (induction ps)
  case Nil
  show ?case by (induction ks) simp_all
next
  case (Cons p ps)
  have one: "sum_list (map (\<lambda>k. if key p = k then amt p else 0) ks) = amt p"
    using assms(1) Cons.prems[of p]
  proof (induction ks)
    case (Cons k ks)
    have "sum_list (map (\<lambda>k. if key p = k then amt p else 0) ks) = 0" if "key p \<notin> set ks"
      using that by (induction ks) auto
    then show ?case using Cons by auto
  qed simp
  have "sum_list (map (\<lambda>k. sum_list (map amt (filter (\<lambda>q. key q = k) (p # ps)))) ks)
      = sum_list (map (\<lambda>k. (if key p = k then amt p else 0)
          + sum_list (map amt (filter (\<lambda>q. key q = k) ps))) ks)"
    by (intro arg_cong[of _ _ sum_list] map_cong) auto
  also have "\<dots> = amt p + sum_list (map amt ps)"
    using Cons one by (simp add: sum_list_addf)
  finally show ?case by simp
qed

lemma pad_length: "w \<le> length (pad w n)"
  by (simp add: pad_def)

lemma day_key_day:
  assumes "t div MS_PER_DAY = t' div MS_PER_DAY"
  shows "day_key t = day_key t'"
proof -
  obtain y m d where c: "civil_from_days (t div 86400000) = (y, m, d)" by (cases "civil_from_days (t div 86400000)")
  define date where "date = iso_year y @ ''-'' @ pad 2 (nat m) @ ''-'' @ pad 2 (nat d)"
  have "4 \<le> length (iso_year y)"
    using pad_length[of 4 "nat y"] pad_length[of 6 "nat (- y)"] pad_length[of 6 "nat y"]
    by (auto simp: iso_year_def)
  then have len: "10 \<le> length date"
    using pad_length[of 2 "nat m"] pad_length[of 2 "nat d"] by (simp add: date_def)
  have "\<exists>r. toISOString u = date @ r" if "u div 86400000 = t div 86400000" for u
    using that c by (auto simp: toISOString_def Let_def date_def)
  then have "day_key u = take 10 date" if "u div 86400000 = t div 86400000" for u
    using that len by (fastforce simp: day_key_def)
  then show ?thesis using assms by (simp add: MS_PER_DAY_def)
qed

definition sparkline_keys :: "millis \<Rightarrow> nat \<Rightarrow> string list" where
  "sparkline_keys since days = map (\<lambda>i. day_key (since + int i * MS_PER_DAY)) [0..<days]"

lemma created_in_sparkline:
  assumes "since mod MS_PER_DAY = 0" "since \<le> t" "t < since + int days * MS_PER_DAY"
  shows "day_key t \<in> set (sparkline_keys since days)"
proof -
  define i where "i = nat ((t - since) div MS_PER_DAY)"
  have d: "since = since div MS_PER_DAY * MS_PER_DAY" using assms(1) by auto
  have "(t - since) div MS_PER_DAY < int days" "0 \<le> (t - since) div MS_PER_DAY"
    using assms by (auto simp: MS_PER_DAY_def)
  moreover have "t div MS_PER_DAY = (since + int i * MS_PER_DAY) div MS_PER_DAY"
    using calculation d by (simp add: i_def MS_PER_DAY_def)
  ultimately have "i < days" "day_key t = day_key (since + int i * MS_PER_DAY)"
    by (auto simp: i_def intro: day_key_day)
  then show ?thesis by (auto simp: sparkline_keys_def)
qed

lemma sparkline_total:
  assumes "aggregateSettlementSummary oid org since ps = Inr totals"
    and "buildSettlementSparkline oid org since days ps = Inr line"
    and "since mod MS_PER_DAY = 0" and "distinct (sparkline_keys since days)"
    and "\<And>p. p \<in> set ps \<Longrightarrow> pm_createdAt p < since + int days * MS_PER_DAY"
  shows "sum_list line = totalReleased totals"
proof -
  obtain o' where o': "oid org = Inr o'"
    using assms(1) by (auto simp: aggregateSettlementSummary_def split: sum.splits)
  define qs where "qs = filter (\<lambda>p. inPeriod o' since p \<and> pm_status p = RELEASED) ps"
  have "line = map (\<lambda>k. sum_list (map pm_amount (filter (\<lambda>p. day_key (pm_createdAt p) = k) qs)))
      (sparkline_keys since days)"
    using assms(2) o'
    by (auto simp: buildSettlementSparkline_def Let_def qs_def[symmetric] map_of_group_by_day sparkline_keys_def)
  moreover have "day_key (pm_createdAt p) \<in> set (sparkline_keys since days)" if "p \<in> set qs" for p
    using that assms(3,5) by (intro created_in_sparkline) (auto simp: qs_def inPeriod_def)
  ultimately have "sum_list line = sum_list (map pm_amount qs)"
    using sum_by_key[OF assms(4), of qs "\<lambda>p. day_key (pm_createdAt p)" pm_amount] by simp
  also have "\<dots> = sum_list (map (amountIf RELEASED) (filter (inPeriod o' since) ps))"
    unfolding qs_def by (induction ps) (auto simp: amountIf_def)
  also have "\<dots> = totalReleased totals"
    using assms(1) o' by (auto simp: aggregateSettlementSummary_def Let_def)
  finally show ?thesis .
qed

section \<open>Following the cursor\<close>

record paymentsQuery =
  pq_oid :: "string \<Rightarrow> objectId result"
  pq_organizationId :: string
  pq_filters :: paymentFilters
  pq_payments :: "payment list"

definition payments_query_ok :: "paymentsQuery \<Rightarrow> bool" where
  "payments_query_ok q \<longleftrightarrow> distinct (map pm_id (pq_payments q))
     \<and> coherent pm_createdAt pm_id (pq_payments q)
     \<and> 0 < nullish (pf_limit (pq_filters q)) 20
     \<and> nullish (pf_sortBy (pq_filters q)) SortCreatedAt = SortCreatedAt
     \<and> (\<exists>org. pq_oid q (pq_organizationId q) = Inr org)
     \<and> (\<exists>sid. optionalId (pq_oid q) (pf_shipmentId (pq_filters q)) = Inr sid)
     \<and> (\<forall>p\<in>set (pq_payments q). pm_id p \<noteq> [] \<and> pq_oid q (pm_id p) = Inr (pm_id p))"

definition queriedPayments :: "paymentsQuery \<Rightarrow> payment \<Rightarrow> bool" where
  "queriedPayments q p \<longleftrightarrow> paymentAlive p \<and>
     (case (pq_oid q (pq_organizationId q), optionalId (pq_oid q) (pf_shipmentId (pq_filters q))) of
        (Inr org, Inr sid) \<Rightarrow> payment_matches org (pf_status (pq_filters q)) sid p
      | _ \<Rightarrow> False)"

definition paymentsListing :: "bool \<Rightarrow> paymentsQuery \<Rightarrow> payment list" where
  "paymentsListing asc q = directed asc (created_key pm_createdAt pm_id)
     (filter (queriedPayments q) (pq_payments q))"

definition paymentsFetch :: "bool \<Rightarrow> paymentsQuery \<Rightarrow> string option \<Rightarrow> payment cursorPage" where
  "paymentsFetch asc q c =
     (case getPaymentsByOrganization (pq_oid q) (pq_organizationId q)
             ((pq_filters q)\<lparr>pf_ascending := asc\<rparr>) None c (pq_payments q) of
        Inl e \<Rightarrow> paginateCursor pm_id [] 0 | Inr p \<Rightarrow> pp_page p)"

text \<open>The hand-written page of the repository is the one \<open>paginateCursor\<close> builds.\<close>

lemma cursorPage_paginate:
  assumes "0 < limit" and len: "length xs \<le> Suc limit"
  shows "payments_cursor_page limit xs = Inr (paginateCursor pm_id xs limit)"
proof (cases "limit < length xs")
  case True
  then have "length xs - 1 = limit" using len by simp
  then have "butlast xs = take limit xs" by (simp add: butlast_conv_take)
  moreover have "take limit xs \<noteq> []" using True assms(1) by auto
  ultimately show ?thesis using True by (simp add: payments_cursor_page_def paginateCursor_def Let_def)
next
  case False
  then show ?thesis by (simp add: payments_cursor_page_def paginateCursor_def Let_def)
qed

lemma paymentsFetch_conv:
  assumes ok: "payments_query_ok q"
    and c: "case c of None \<Rightarrow> True | Some i \<Rightarrow> i \<noteq> [] \<and> pq_oid q i = Inr i"
  shows "paymentsFetch asc q c = paginateCursor pm_id
     (take (Suc (nullish (pf_limit (pq_filters q)) 20))
        (directed asc (created_key pm_createdAt pm_id)
          (filter (\<lambda>p. queriedPayments q p \<and> (case c of None \<Rightarrow> True | Some i \<Rightarrow> pm_id p < i)) (pq_payments q))))
     (nullish (pf_limit (pq_filters q)) 20)"
proof -
  let ?l = "nullish (pf_limit (pq_filters q)) 20"
  obtain org sid where os: "pq_oid q (pq_organizationId q) = Inr org"
    "optionalId (pq_oid q) (pf_shipmentId (pq_filters q)) = Inr sid"
    and l: "0 < ?l" and sb: "nullish (pf_sortBy (pq_filters q)) SortCreatedAt = SortCreatedAt"
    using ok by (auto simp: payments_query_ok_def)
  have oc: "optionalId (pq_oid q) c = Inr c"
    using c by (auto simp: optionalId_def split: option.splits)
  have f: "findAll paymentAlive (\<lambda>p. payment_matches org (pf_status (pq_filters q)) sid p
        \<and> (case c of None \<Rightarrow> True | Some i \<Rightarrow> pm_id p < i)) (pq_payments q)
      = filter (\<lambda>p. queriedPayments q p \<and> (case c of None \<Rightarrow> True | Some i \<Rightarrow> pm_id p < i)) (pq_payments q)"
    unfolding findAll_def using os by (intro filter_cong) (auto simp: queriedPayments_def)
  define xs where "xs = take (Suc ?l) (directed asc (created_key pm_createdAt pm_id)
          (filter (\<lambda>p. queriedPayments q p \<and> (case c of None \<Rightarrow> True | Some i \<Rightarrow> pm_id p < i)) (pq_payments q)))"
  have len: "length xs \<le> Suc ?l" by (simp add: xs_def)
  have "getPaymentsByOrganization (pq_oid q) (pq_organizationId q)
      ((pq_filters q)\<lparr>pf_ascending := asc\<rparr>) None c (pq_payments q)
    = Inr \<lparr>pp_page = paginateCursor pm_id xs ?l,
          pp_total = countDocuments paymentAlive (payment_matches org (pf_status (pq_filters q)) sid) (pq_payments q)\<rparr>"
    using os oc sb cursorPage_paginate[OF l len]
    by (simp add: getPaymentsByOrganization_def Let_def f sortPayments_def xs_def)
  then show ?thesis by (simp add: paymentsFetch_def xs_def)
qed

interpretation payment_pages: cursor_listing pm_id payments_query_ok "paymentsListing False"
  "\<lambda>q. nullish (pf_limit (pq_filters q)) 20" "paymentsFetch False"
proof unfold_locales
  fix q xs d ys
  assume ok: "payments_query_ok q"
  have dist: "distinct (map pm_id (pq_payments q))" and coh: "coherent pm_createdAt pm_id (pq_payments q)"
    using ok by (auto simp: payments_query_ok_def)
  show "distinct (map pm_id (paymentsListing False q))"
    using dist by (simp add: paymentsListing_def directed_def distinct_map inj_on_def)
  show "0 < nullish (pf_limit (pq_filters q)) 20" using ok by (simp add: payments_query_ok_def)
  show "paymentsFetch False q None = paginateCursor pm_id
     (take (Suc (nullish (pf_limit (pq_filters q)) 20)) (paymentsListing False q))
     (nullish (pf_limit (pq_filters q)) 20)"
    by (simp add: paymentsFetch_conv[OF ok] paymentsListing_def)
  assume l: "paymentsListing False q = xs @ d # ys"
  have "d \<in> set (paymentsListing False q)" using l by simp
  then have d: "pm_id d \<noteq> []" "pq_oid q (pm_id d) = Inr (pm_id d)"
    using ok by (auto simp: paymentsListing_def directed_def payments_query_ok_def)
  have "directed False (created_key pm_createdAt pm_id)
      (filter (\<lambda>p. queriedPayments q p \<and> pm_id p < pm_id d) (pq_payments q)) = ys"
    unfolding directed_def if_False
    by (rule newest_first_suffix[OF coh dist l[unfolded paymentsListing_def directed_def if_False]]) simp
  then show "paymentsFetch False q (Some (pm_id d)) = paginateCursor pm_id
     (take (Suc (nullish (pf_limit (pq_filters q)) 20)) ys) (nullish (pf_limit (pq_filters q)) 20)"
    using d by (simp add: paymentsFetch_conv[OF ok])
qed

text \<open>
  With \<open>sortOrder=asc\<close> the cursor still selects the smaller ids, so the page after the first one
  holds nothing but payments the first page already showed.
\<close>

lemma sort_key_prefix:
  assumes "sort_key key xs = ys @ d # zs" and "inj_on key (set xs)" and "distinct xs"
  shows "filter (\<lambda>x. key x < key d) (sort_key key xs) = ys"
proof -
  have e: "desc_by key xs = rev zs @ d # rev ys" using assms(1) by (simp add: desc_by_def)
  have s: "sorted_wrt (\<lambda>a b. key b \<le> key a) (rev zs @ d # rev ys)"
    using desc_by_sorted[of key xs] e by simp
  have "filter (\<lambda>x. key x < key d) (desc_by key xs) = rev ys"
    using desc_by_suffix[OF e assms(2,3)] e by simp
  then show ?thesis by (simp add: desc_by_def flip: rev_filter)
qed

lemma ascending_cursor_goes_back:
  assumes ok: "payments_query_ok q" and n: "nextCursor (paymentsFetch True q None) = Some c"
  shows "set (page_data (paymentsFetch True q (Some c))) \<subseteq> set (page_data (paymentsFetch True q None))"
proof -
  let ?l = "nullish (pf_limit (pq_filters q)) 20" and ?k = "created_key pm_createdAt pm_id"
  let ?F = "filter (queriedPayments q) (pq_payments q)"
  define L where "L = sort_key ?k ?F"
  have dist: "distinct (map pm_id (pq_payments q))" and coh: "coherent pm_createdAt pm_id (pq_payments q)"
    and l: "0 < ?l"
    using ok by (auto simp: payments_query_ok_def)
  have first: "paymentsFetch True q None = paginateCursor pm_id (take (Suc ?l) L) ?l"
    by (simp add: paymentsFetch_conv[OF ok] directed_def L_def)
  then have m: "?l < length L" and c: "c = pm_id (L ! (?l - 1))"
    using n l by (auto simp: paginateCursor_simps split: if_splits)
  define d where "d = L ! (?l - 1)"
  have "d \<in> set L" using m l by (simp add: d_def)
  then have dq: "d \<in> set (pq_payments q)" by (simp add: L_def)
  then have oid: "c \<noteq> []" "pq_oid q c = Inr c"
    using ok c by (auto simp: payments_query_ok_def d_def)
  have "take ?l L = take (?l - 1) L @ [d]"
    using m l by (metis One_nat_def Suc_pred d_def less_imp_diff_less take_Suc_conv_app_nth)
  then have split: "L = take (?l - 1) L @ d # drop ?l L"
    by (metis append.assoc append_Cons append_Nil append_take_drop_id)
  have inj: "inj_on ?k (set ?F)" "distinct ?F"
    using dist by (auto simp: distinct_map inj_on_def created_key_def)
  have "filter (\<lambda>x. pm_id x < pm_id d) L = filter (\<lambda>x. ?k x < ?k d) L"
    using coherent_key_less[OF coh dist] dq by (intro filter_cong) (auto simp: L_def)
  also have "\<dots> = take (?l - 1) L"
    unfolding L_def by (rule sort_key_prefix[OF _ inj]) (use split in \<open>simp add: L_def\<close>)
  finally have f: "filter (\<lambda>x. pm_id x < pm_id d) L = take (?l - 1) L" .
  have "sort_key ?k (filter (\<lambda>p. queriedPayments q p \<and> pm_id p < c) (pq_payments q))
      = filter (\<lambda>x. pm_id x < pm_id d) L"
    unfolding L_def filter_sort filter_filter using c d_def L_def by simp
  then have second: "paymentsFetch True q (Some c)
      = paginateCursor pm_id (take (Suc ?l) (take (?l - 1) L)) ?l"
    using oid f by (simp add: paymentsFetch_conv[OF ok] directed_def)
  have "set (take (?l - 1) L) \<subseteq> set (take ?l L)"
    by (rule set_take_subset_set_take) simp
  then show ?thesis
    unfolding first second paginateCursor_data by (auto dest: in_set_takeD)
qed

end
