(* ===== verification/Chain.thy ===== *)
theory Chain
  imports Errors
begin

text \<open>
  The chain port of the backend (\<open>src/src/services/chain\<close> and \<open>src/src/shared/types/chain.ts\<close>): the
  validators of the Soroban primitives, the contract-error taxonomy, the event parser at the
  indexer's ingress, and the two adapters behind the \<open>ChainAdapter\<close> port. Horizon, the Soroban
  RPC server and the Stellar SDK are parameters: what each call returned, attempt by attempt.
\<close>

section \<open>Soroban primitives\<close>

definition is_upper :: "char \<Rightarrow> bool" where
  "is_upper c \<longleftrightarrow> (let n = of_char c :: nat in 65 \<le> n \<and> n \<le> 90)"

definition is_lower :: "char \<Rightarrow> bool" where
  "is_lower c \<longleftrightarrow> (let n = of_char c :: nat in 97 \<le> n \<and> n \<le> 122)"

definition is_lower_hex :: "char \<Rightarrow> bool" where
  "is_lower_hex c \<longleftrightarrow> (let n = of_char c :: nat in (48 \<le> n \<and> n \<le> 57) \<or> (97 \<le> n \<and> n \<le> 102))"

definition SymbolSchema :: "string \<Rightarrow> bool" where
  "SymbolSchema s \<longleftrightarrow> 1 \<le> length s \<and> length s \<le> 32
     \<and> list_all (\<lambda>c. is_upper c \<or> is_lower c \<or> is_digit c \<or> c = CHR ''_'') s"

definition Bytes32HexSchema :: "string \<Rightarrow> bool" where
  "Bytes32HexSchema s \<longleftrightarrow> length s = 64 \<and> list_all is_lower_hex s"

definition TxHashSchema :: "string \<Rightarrow> bool" where
  "TxHashSchema s \<longleftrightarrow> length s = 64 \<and> list_all is_lower_hex s"

definition is_base32 :: "char \<Rightarrow> bool" where
  "is_base32 c \<longleftrightarrow> is_upper c \<or> (let n = of_char c :: nat in 50 \<le> n \<and> n \<le> 55)"

definition AddressSchema :: "string \<Rightarrow> bool" where
  "AddressSchema s \<longleftrightarrow> (case s of [] \<Rightarrow> False
     | c # cs \<Rightarrow> (c = CHR ''G'' \<or> c = CHR ''C'') \<and> length cs = 55 \<and> list_all is_base32 cs)"

definition ContractAddressSchema :: "string \<Rightarrow> bool" where
  "ContractAddressSchema s \<longleftrightarrow> (case s of [] \<Rightarrow> False
     | c # cs \<Rightarrow> c = CHR ''C'' \<and> length cs = 55 \<and> list_all is_base32 cs)"

definition positive_int_text :: "string \<Rightarrow> bool" where
  "positive_int_text s \<longleftrightarrow> (case s of [] \<Rightarrow> False
     | c # cs \<Rightarrow> is_digit c \<and> c \<noteq> CHR ''0'' \<and> list_all is_digit cs)"

definition I128_MAX :: int where
  "I128_MAX = 2 ^ 127 - 1"

definition PositiveI128Schema :: "string \<Rightarrow> bool" where
  "PositiveI128Schema s \<longleftrightarrow> positive_int_text s \<and> int (index_value s) \<le> I128_MAX"

definition U32_MAX :: nat where
  "U32_MAX = 0xffffffff"

text \<open>A number is given by its JSON text; \<open>u32_of\<close> reads the texts of the integers in range.\<close>

definition u32_of :: "string \<Rightarrow> nat option" where
  "u32_of t = (if t \<noteq> [] \<and> list_all is_digit t \<and> (t = ''0'' \<or> hd t \<noteq> CHR ''0'')
      \<and> index_value t \<le> U32_MAX then Some (index_value t) else None)"

lemma contract_is_address: "ContractAddressSchema s \<Longrightarrow> AddressSchema s"
  by (auto simp: ContractAddressSchema_def AddressSchema_def split: list.splits)

lemma zero_char: "char_of (48::nat) = CHR ''0''"
  by (simp add: char_of_def bit_0)

lemma positive_i128_bounds:
  assumes "PositiveI128Schema s"
  shows "0 < int (index_value s) \<and> int (index_value s) \<le> I128_MAX"
proof -
  have mono: "n \<le> foldl (\<lambda>n c. 10 * n + (of_char c - 48)) n cs" for n :: nat and cs :: string
  proof (induction cs arbitrary: n)
    case (Cons c cs)
    have "n \<le> 10 * n + (of_char c - 48)" by simp
    also have "\<dots> \<le> foldl (\<lambda>n c. 10 * n + (of_char c - 48)) (10 * n + (of_char c - 48)) cs"
      by (rule Cons.IH)
    finally show ?case by simp
  qed simp
  obtain c cs where s: "s = c # cs" and c: "is_digit c" "c \<noteq> CHR ''0''"
    using assms by (auto simp: PositiveI128Schema_def positive_int_text_def split: list.splits)
  have "of_char c \<noteq> (48::nat)"
  proof
    assume "of_char c = (48::nat)"
    then have "c = char_of (48::nat)" by (metis char_of_char)
    then have "c = CHR ''0''" by (simp only: zero_char)
    with c(2) show False ..
  qed
  then have "0 < of_char c - (48::nat)" using c(1) by (auto simp: is_digit_def Let_def)
  then have "0 < index_value s"
    using mono[of "of_char c - 48" cs] by (simp add: index_value_def s)
  then show ?thesis using assms by (simp add: PositiveI128Schema_def)
qed

section \<open>Contract functions\<close>

datatype chainFunction = Fn_anchor | Fn_init_escrow | Fn_release_escrow

datatype chainAuth = Auth_actor | Auth_payer | Auth_admin

primrec CHAIN_FUNCTION_AUTH :: "chainFunction \<Rightarrow> chainAuth" where
  "CHAIN_FUNCTION_AUTH Fn_anchor = Auth_actor"
| "CHAIN_FUNCTION_AUTH Fn_init_escrow = Auth_payer"
| "CHAIN_FUNCTION_AUTH Fn_release_escrow = Auth_admin"

record anchorArgs =
  aa_shipment_id :: string
  aa_data_hash :: string
  aa_actor :: string

definition AnchorArgsSchema :: "anchorArgs \<Rightarrow> bool" where
  "AnchorArgsSchema a \<longleftrightarrow> SymbolSchema (aa_shipment_id a) \<and> Bytes32HexSchema (aa_data_hash a)
     \<and> AddressSchema (aa_actor a)"

record initEscrowArgs =
  ie_payment_id :: string
  ie_shipment_id :: string
  ie_payer :: string
  ie_payee :: string
  ie_token :: string
  ie_amount :: string

definition InitEscrowArgsSchema :: "initEscrowArgs \<Rightarrow> bool" where
  "InitEscrowArgsSchema a \<longleftrightarrow> SymbolSchema (ie_payment_id a) \<and> SymbolSchema (ie_shipment_id a)
     \<and> AddressSchema (ie_payer a) \<and> AddressSchema (ie_payee a)
     \<and> ContractAddressSchema (ie_token a) \<and> PositiveI128Schema (ie_amount a)
     \<and> ie_payer a \<noteq> ie_payee a"

record releaseEscrowArgs =
  re_payment_id :: string
  re_proof_hash :: string

definition ReleaseEscrowArgsSchema :: "releaseEscrowArgs \<Rightarrow> bool" where
  "ReleaseEscrowArgsSchema a \<longleftrightarrow> SymbolSchema (re_payment_id a) \<and> Bytes32HexSchema (re_proof_hash a)"

section \<open>Contract errors\<close>

datatype chainContractError =
    NotAuthorized | InvalidHash | AlreadyAnchored | EscrowExists | EscrowNotFound
  | EscrowAlreadyReleased | InvalidAmount | InvalidProof

primrec CHAIN_CONTRACT_ERRORS :: "chainContractError \<Rightarrow> nat" where
  "CHAIN_CONTRACT_ERRORS NotAuthorized = 1"
| "CHAIN_CONTRACT_ERRORS InvalidHash = 2"
| "CHAIN_CONTRACT_ERRORS AlreadyAnchored = 3"
| "CHAIN_CONTRACT_ERRORS EscrowExists = 4"
| "CHAIN_CONTRACT_ERRORS EscrowNotFound = 5"
| "CHAIN_CONTRACT_ERRORS EscrowAlreadyReleased = 6"
| "CHAIN_CONTRACT_ERRORS InvalidAmount = 7"
| "CHAIN_CONTRACT_ERRORS InvalidProof = 8"

primrec contractErrorName :: "chainContractError \<Rightarrow> string" where
  "contractErrorName NotAuthorized = ''NotAuthorized''"
| "contractErrorName InvalidHash = ''InvalidHash''"
| "contractErrorName AlreadyAnchored = ''AlreadyAnchored''"
| "contractErrorName EscrowExists = ''EscrowExists''"
| "contractErrorName EscrowNotFound = ''EscrowNotFound''"
| "contractErrorName EscrowAlreadyReleased = ''EscrowAlreadyReleased''"
| "contractErrorName InvalidAmount = ''InvalidAmount''"
| "contractErrorName InvalidProof = ''InvalidProof''"

primrec CHAIN_ERROR_MAP :: "chainContractError \<Rightarrow> error_key \<times> nat" where
  "CHAIN_ERROR_MAP NotAuthorized = (CHAIN_UNAUTHORIZED, 403)"
| "CHAIN_ERROR_MAP InvalidHash = (CHAIN_INVALID_HASH, 422)"
| "CHAIN_ERROR_MAP AlreadyAnchored = (CHAIN_ALREADY_ANCHORED, 409)"
| "CHAIN_ERROR_MAP EscrowExists = (CHAIN_ESCROW_EXISTS, 409)"
| "CHAIN_ERROR_MAP EscrowNotFound = (CHAIN_ESCROW_NOT_FOUND, 404)"
| "CHAIN_ERROR_MAP EscrowAlreadyReleased = (CHAIN_ESCROW_ALREADY_RELEASED, 409)"
| "CHAIN_ERROR_MAP InvalidAmount = (CHAIN_INVALID_AMOUNT, 422)"
| "CHAIN_ERROR_MAP InvalidProof = (CHAIN_INVALID_PROOF, 422)"

definition allContractErrors :: "chainContractError list" where
  "allContractErrors = [NotAuthorized, InvalidHash, AlreadyAnchored, EscrowExists, EscrowNotFound,
     EscrowAlreadyReleased, InvalidAmount, InvalidProof]"

definition errorNameByCode :: "nat \<Rightarrow> chainContractError option" where
  "errorNameByCode c = map_of (map (\<lambda>n. (CHAIN_CONTRACT_ERRORS n, n)) allContractErrors) c"

definition chainErrorToAppError :: "nat \<Rightarrow> app_error" where
  "chainErrorToAppError contractCode =
     (case errorNameByCode contractCode of
        None \<Rightarrow> AppError 502
          (''Unknown chain contract error '' @ nat_str contractCode @ '' (spec 1.0.0-draft)'')
          (ErrorCodes CHAIN_UNKNOWN) (Some (JObj [(''contractCode'', JNum (nat_str contractCode))]))
      | Some name \<Rightarrow> AppError (snd (CHAIN_ERROR_MAP name))
          (''Chain contract error: '' @ contractErrorName name)
          (ErrorCodes (fst (CHAIN_ERROR_MAP name)))
          (Some (JObj [(''contractCode'', JNum (nat_str contractCode))])))"

lemma errorNameByCode_roundtrip: "errorNameByCode (CHAIN_CONTRACT_ERRORS e) = Some e"
  by (cases e) (simp_all add: errorNameByCode_def allContractErrors_def)

lemma errorNameByCode_Some: "errorNameByCode c = Some e \<Longrightarrow> c = CHAIN_CONTRACT_ERRORS e"
  by (auto simp: errorNameByCode_def allContractErrors_def split: if_splits)

lemma errorNameByCode_None: "errorNameByCode c = None \<longleftrightarrow> c = 0 \<or> 8 < c"
proof
  assume "errorNameByCode c = None"
  then have "c \<notin> {1, 2, 3, 4, 5, 6, 7, 8}"
    by (auto simp: errorNameByCode_def allContractErrors_def split: if_splits)
  then show "c = 0 \<or> 8 < c" by auto
qed (auto simp: errorNameByCode_def allContractErrors_def)

definition is_chain_code :: "string \<Rightarrow> bool" where
  "is_chain_code c \<longleftrightarrow> startsWith c ''ERR_CHAIN_''"

lemma chainErrorToAppError_code: "is_chain_code (errCode (chainErrorToAppError c))"
proof (cases "errorNameByCode c")
  case None
  then show ?thesis by (simp add: chainErrorToAppError_def is_chain_code_def startsWith_def)
next
  case (Some e)
  then show ?thesis
    by (cases e) (simp_all add: chainErrorToAppError_def is_chain_code_def startsWith_def)
qed


section \<open>Events\<close>

record eventEnvelope =
  ev_id :: string
  ev_contract_id :: string
  ev_tx_hash :: string
  ev_ledger :: nat
  ev_closed_at :: string

datatype chainEvent =
    AnchorEvent eventEnvelope (ae_shipment: string) (ae_hash: string) (ae_at: nat)
  | EscrowInitEvent eventEnvelope (ei_payment: string) (ei_shipment: string) (ei_payer: string)
      (ei_payee: string) (ei_token: string) (ei_amount: string)
  | EscrowReleaseEvent eventEnvelope (er_payment: string) (er_proof: string) (er_payee: string)
      (er_amount: string)

fun event_envelope :: "chainEvent \<Rightarrow> eventEnvelope" where
  "event_envelope (AnchorEvent e _ _ _) = e"
| "event_envelope (EscrowInitEvent e _ _ _ _ _ _) = e"
| "event_envelope (EscrowReleaseEvent e _ _ _ _) = e"

text \<open>
  The strict object schema: exactly the eight declared keys. \<open>is_datetime\<close> is zod's
  \<open>z.string().datetime()\<close>.
\<close>

definition event_keys :: "string list" where
  "event_keys = [''id'', ''contract_id'', ''tx_hash'', ''ledger'', ''ledger_closed_at'', ''name'',
     ''topic'', ''data'']"

definition str_field :: "(string \<Rightarrow> bool) \<Rightarrow> string \<Rightarrow> (string \<times> jval) list \<Rightarrow> string option" where
  "str_field P k kvs = (case map_of kvs k of
     Some (JStr s) \<Rightarrow> (if P s then Some s else None) | _ \<Rightarrow> None)"

definition u32_field :: "string \<Rightarrow> (string \<times> jval) list \<Rightarrow> nat option" where
  "u32_field k kvs = (case map_of kvs k of Some (JNum t) \<Rightarrow> u32_of t | _ \<Rightarrow> None)"

definition parse_envelope :: "(string \<Rightarrow> bool) \<Rightarrow> (string \<times> jval) list \<Rightarrow> eventEnvelope option" where
  "parse_envelope is_datetime kvs =
     (case str_field (\<lambda>s. s \<noteq> []) ''id'' kvs of None \<Rightarrow> None | Some i \<Rightarrow>
      (case str_field ContractAddressSchema ''contract_id'' kvs of None \<Rightarrow> None | Some c \<Rightarrow>
       (case str_field TxHashSchema ''tx_hash'' kvs of None \<Rightarrow> None | Some h \<Rightarrow>
        (case u32_field ''ledger'' kvs of None \<Rightarrow> None | Some l \<Rightarrow>
         (case str_field is_datetime ''ledger_closed_at'' kvs of None \<Rightarrow> None | Some t \<Rightarrow>
            Some \<lparr>ev_id = i, ev_contract_id = c, ev_tx_hash = h, ev_ledger = l, ev_closed_at = t\<rparr>)))))"

definition parse_anchor :: "eventEnvelope \<Rightarrow> jval \<Rightarrow> jval \<Rightarrow> chainEvent option" where
  "parse_anchor env topic dat =
     (case topic of JArr [JStr n, JStr a] \<Rightarrow>
        (case dat of JArr [JStr h, JNum l] \<Rightarrow>
           (if n = ''anchor'' \<and> SymbolSchema a \<and> Bytes32HexSchema h
            then map_option (AnchorEvent env a h) (u32_of l) else None)
         | _ \<Rightarrow> None)
      | _ \<Rightarrow> None)"

definition parse_esc_init :: "eventEnvelope \<Rightarrow> jval \<Rightarrow> jval \<Rightarrow> chainEvent option" where
  "parse_esc_init env topic dat =
     (case topic of JArr [JStr n, JStr p] \<Rightarrow>
        (case dat of JArr [JStr s, JStr payer, JStr payee, JStr token, JStr amt] \<Rightarrow>
           (if n = ''esc_init'' \<and> SymbolSchema p \<and> SymbolSchema s \<and> AddressSchema payer
               \<and> AddressSchema payee \<and> ContractAddressSchema token \<and> PositiveI128Schema amt
            then Some (EscrowInitEvent env p s payer payee token amt) else None)
         | _ \<Rightarrow> None)
      | _ \<Rightarrow> None)"

definition parse_esc_rel :: "eventEnvelope \<Rightarrow> jval \<Rightarrow> jval \<Rightarrow> chainEvent option" where
  "parse_esc_rel env topic dat =
     (case topic of JArr [JStr n, JStr p] \<Rightarrow>
        (case dat of JArr [JStr h, JStr payee, JStr amt] \<Rightarrow>
           (if n = ''esc_rel'' \<and> SymbolSchema p \<and> Bytes32HexSchema h \<and> AddressSchema payee
               \<and> PositiveI128Schema amt
            then Some (EscrowReleaseEvent env p h payee amt) else None)
         | _ \<Rightarrow> None)
      | _ \<Rightarrow> None)"

definition parse_body :: "eventEnvelope \<Rightarrow> string \<Rightarrow> jval \<Rightarrow> jval \<Rightarrow> chainEvent option" where
  "parse_body env name topic dat =
     (if name = ''anchor'' then parse_anchor env topic dat
      else if name = ''esc_init'' then parse_esc_init env topic dat
      else if name = ''esc_rel'' then parse_esc_rel env topic dat
      else None)"

lemmas parse_body_defs = parse_body_def parse_anchor_def parse_esc_init_def parse_esc_rel_def

definition ChainEventSchema :: "(string \<Rightarrow> bool) \<Rightarrow> jval \<Rightarrow> chainEvent option" where
  "ChainEventSchema is_datetime raw =
     (case raw of
        JObj kvs \<Rightarrow>
          (if set (map fst kvs) \<subseteq> set event_keys then
             (case (str_field (\<lambda>_. True) ''name'' kvs, map_of kvs ''topic'', map_of kvs ''data'',
                    parse_envelope is_datetime kvs) of
                (Some n, Some topic, Some dat, Some env) \<Rightarrow> parse_body env n topic dat
              | _ \<Rightarrow> None)
           else None)
      | _ \<Rightarrow> None)"

definition parseChainEvent :: "(string \<Rightarrow> bool) \<Rightarrow> jval \<Rightarrow> chainEvent result" where
  "parseChainEvent is_datetime raw =
     (case ChainEventSchema is_datetime raw of
        None \<Rightarrow> throwApp 502 ''Chain event does not match spec 1.0.0-draft'' (ErrorCodes CHAIN_INVALID_EVENT)
      | Some e \<Rightarrow> Inr e)"

text \<open>What the spec asks of an event, and the wire form of one.\<close>

definition wf_envelope :: "(string \<Rightarrow> bool) \<Rightarrow> eventEnvelope \<Rightarrow> bool" where
  "wf_envelope is_datetime e \<longleftrightarrow> ev_id e \<noteq> [] \<and> ContractAddressSchema (ev_contract_id e)
     \<and> TxHashSchema (ev_tx_hash e) \<and> ev_ledger e \<le> U32_MAX \<and> is_datetime (ev_closed_at e)"

fun wf_body :: "chainEvent \<Rightarrow> bool" where
  "wf_body (AnchorEvent _ s h l) \<longleftrightarrow> SymbolSchema s \<and> Bytes32HexSchema h \<and> l \<le> U32_MAX"
| "wf_body (EscrowInitEvent _ p s payer payee token amt) \<longleftrightarrow> SymbolSchema p \<and> SymbolSchema s
     \<and> AddressSchema payer \<and> AddressSchema payee \<and> ContractAddressSchema token \<and> PositiveI128Schema amt"
| "wf_body (EscrowReleaseEvent _ p h payee amt) \<longleftrightarrow> SymbolSchema p \<and> Bytes32HexSchema h
     \<and> AddressSchema payee \<and> PositiveI128Schema amt"

definition wf_event :: "(string \<Rightarrow> bool) \<Rightarrow> chainEvent \<Rightarrow> bool" where
  "wf_event is_datetime e \<longleftrightarrow> wf_envelope is_datetime (event_envelope e) \<and> wf_body e"

fun event_name :: "chainEvent \<Rightarrow> string" where
  "event_name (AnchorEvent _ _ _ _) = ''anchor''"
| "event_name (EscrowInitEvent _ _ _ _ _ _ _) = ''esc_init''"
| "event_name (EscrowReleaseEvent _ _ _ _ _) = ''esc_rel''"

fun event_topic :: "chainEvent \<Rightarrow> jval" where
  "event_topic (AnchorEvent _ s _ _) = JArr [JStr ''anchor'', JStr s]"
| "event_topic (EscrowInitEvent _ p _ _ _ _ _) = JArr [JStr ''esc_init'', JStr p]"
| "event_topic (EscrowReleaseEvent _ p _ _ _) = JArr [JStr ''esc_rel'', JStr p]"

fun event_data :: "chainEvent \<Rightarrow> jval" where
  "event_data (AnchorEvent _ _ h l) = JArr [JStr h, JNum (nat_str l)]"
| "event_data (EscrowInitEvent _ _ s payer payee token amt) =
     JArr [JStr s, JStr payer, JStr payee, JStr token, JStr amt]"
| "event_data (EscrowReleaseEvent _ _ h payee amt) = JArr [JStr h, JStr payee, JStr amt]"

definition encodeChainEvent :: "chainEvent \<Rightarrow> jval" where
  "encodeChainEvent e = (let env = event_envelope e in JObj
     [(''id'', JStr (ev_id env)), (''contract_id'', JStr (ev_contract_id env)),
      (''tx_hash'', JStr (ev_tx_hash env)), (''ledger'', JNum (nat_str (ev_ledger env))),
      (''ledger_closed_at'', JStr (ev_closed_at env)), (''name'', JStr (event_name e)),
      (''topic'', event_topic e), (''data'', event_data e)])"

text \<open>Decimal texts of naturals read back.\<close>

lemma digit_char_digit: "d < 10 \<Longrightarrow> is_digit (digit_char d)"
  by (simp add: is_digit_def digit_char_def)

lemma of_char_digit_char: "d < 10 \<Longrightarrow> of_char (digit_char d) = (48 + d :: nat)"
  by (simp add: digit_char_def)

lemma index_value_snoc: "index_value (s @ [c]) = 10 * index_value s + (of_char c - 48)"
  by (simp add: index_value_def)

lemma index_value_nat_str [simp]: "index_value (nat_str n) = n"
proof (induction n rule: nat_str.induct)
  case (1 n)
  show ?case
  proof (cases "n < 10")
    case True
    then show ?thesis
      by (subst nat_str.simps) (simp add: index_value_def of_char_digit_char)
  next
    case False
    then show ?thesis using 1
      by (subst nat_str.simps) (simp add: index_value_snoc of_char_digit_char)
  qed
qed

lemma nat_str_digits [simp]: "list_all is_digit (nat_str n)"
proof (induction n rule: nat_str.induct)
  case (1 n)
  then show ?case by (subst nat_str.simps) (simp add: digit_char_digit)
qed

lemma nat_str_nonempty [simp]: "nat_str n \<noteq> []"
  by (subst nat_str.simps) simp

lemma nat_str_lead: "0 < n \<Longrightarrow> hd (nat_str n) \<noteq> CHR ''0''"
proof (induction n rule: nat_str.induct)
  case (1 n)
  show ?case
  proof (cases "n < 10")
    case True
    have "digit_char n \<noteq> CHR ''0''"
    proof
      assume "digit_char n = CHR ''0''"
      then have "of_char (digit_char n) = (48::nat)" by simp
      then show False using True "1.prems" by (simp add: of_char_digit_char)
    qed
    then show ?thesis using True by (subst nat_str.simps) simp
  next
    case False
    then show ?thesis using 1 by (subst nat_str.simps) simp
  qed
qed

lemma nat_str_zero: "nat_str 0 = ''0''"
  by (subst nat_str.simps) (simp add: digit_char_def zero_char)

lemma u32_of_nat_str: "n \<le> U32_MAX \<Longrightarrow> u32_of (nat_str n) = Some n"
proof -
  assume n: "n \<le> U32_MAX"
  have "nat_str n = ''0'' \<or> hd (nat_str n) \<noteq> CHR ''0''"
    using nat_str_lead[of n] nat_str_zero by (cases "n = 0") simp_all
  with n show ?thesis unfolding u32_of_def by simp
qed

lemma u32_of_bound: "u32_of t = Some n \<Longrightarrow> n \<le> U32_MAX"
  by (auto simp: u32_of_def split: if_splits)

lemma parse_encode:
  assumes "wf_event dt e"
  shows "parseChainEvent dt (encodeChainEvent e) = Inr e"
  using assms by (cases e)
    (simp_all add: parseChainEvent_def ChainEventSchema_def encodeChainEvent_def Let_def event_keys_def
      str_field_def u32_field_def parse_envelope_def u32_of_nat_str wf_event_def wf_envelope_def
      parse_body_defs)

lemma parse_envelope_wf: "parse_envelope dt kvs = Some env \<Longrightarrow> wf_envelope dt env"
  by (auto simp: parse_envelope_def wf_envelope_def str_field_def u32_field_def
      split: option.splits jval.splits if_splits dest: u32_of_bound)

lemma parse_body_wf: "parse_body env n t d = Some e \<Longrightarrow> event_envelope e = env \<and> wf_body e \<and> event_name e = n"
  by (auto simp: parse_body_defs split: if_splits jval.splits list.splits dest: u32_of_bound)

lemma parse_wf: "parseChainEvent dt raw = Inr e \<Longrightarrow> wf_event dt e"
  by (auto simp: parseChainEvent_def ChainEventSchema_def wf_event_def
      split: option.splits jval.splits if_splits dest: parse_body_wf parse_envelope_wf)


section \<open>The adapters behind the port\<close>

text \<open>
  What a rejected call carries, as far as the adapters look: whether it is an \<open>AppError\<close>, and
  whether Horizon reported \<open>tx_bad_seq\<close>.
\<close>

datatype chainFailure = ChainFailure (as_exn: exn) (bad_seq: bool)

definition isBadSequence :: "chainFailure \<Rightarrow> bool" where
  "isBadSequence err \<longleftrightarrow> bad_seq err"

record txReceipt =
  tx_hash :: string
  tx_ledger :: nat

record escrowResult =
  er_txHash :: string
  er_ledger :: nat
  er_simulated :: bool
  er_paymentId :: string

record anchorResult =
  an_txHash :: string
  an_ledger :: nat
  an_simulated :: bool

text \<open>
  The outside of the simulated adapter: the configured secret, whether the SDK accepts it, and
  what \<open>loadAccount\<close> and \<open>submitTransaction\<close> did at each attempt of the current submission.
\<close>

record horizonEnv =
  secretKey :: "string option"
  fromSecret :: "string \<Rightarrow> string option"
  loadAccount :: "nat \<Rightarrow> chainFailure option"
  submitTransaction :: "nat \<Rightarrow> string \<Rightarrow> string \<Rightarrow> chainFailure + txReceipt"

definition MAX_BAD_SEQ_RETRIES :: nat where
  "MAX_BAD_SEQ_RETRIES = 2"

text \<open>The retry loop inside \<open>submitManageData\<close>, with the number of transactions submitted.\<close>

function submit_loop :: "horizonEnv \<Rightarrow> string \<Rightarrow> string \<Rightarrow> nat \<Rightarrow> (chainFailure + txReceipt) \<times> nat" where
  "submit_loop h name hexValue attempt =
     (case loadAccount h attempt of
        Some err \<Rightarrow> (Inl err, 0)
      | None \<Rightarrow>
          (case submitTransaction h attempt name hexValue of
             Inr r \<Rightarrow> (Inr r, 1)
           | Inl err \<Rightarrow>
               (if isBadSequence err \<and> attempt < MAX_BAD_SEQ_RETRIES
                then (let (res, n) = submit_loop h name hexValue (Suc attempt) in (res, Suc n))
                else (Inl err, 1))))"
  by pat_completeness auto
termination
  by (relation "measure (\<lambda>(h, name, v, attempt). MAX_BAD_SEQ_RETRIES - attempt)") auto

declare submit_loop.simps [simp del]

definition chain_unknown :: exn where
  "chain_unknown = App (AppError 502 ''Simulated chain (Horizon) request failed''
     (ErrorCodes CHAIN_UNKNOWN) None)"

text \<open>\<open>wrap\<close>: chain errors pass, anything else becomes \<open>ERR_CHAIN_UNKNOWN\<close>.\<close>

definition wrap :: "chainFailure + 'a \<Rightarrow> 'a result" where
  "wrap r = (case r of
      Inr x \<Rightarrow> Inr x
    | Inl err \<Rightarrow> (case as_exn err of
         App e \<Rightarrow> (if is_chain_code (errCode e) then Inl (App e) else Inl chain_unknown)
       | _ \<Rightarrow> Inl chain_unknown))"

definition signer :: "horizonEnv \<Rightarrow> string result" where
  "signer h = (case secretKey h of
      None \<Rightarrow> throwApp 500 ''STELLAR_SECRET_KEY is not configured'' (ErrorCodes CHAIN_UNKNOWN)
    | Some k \<Rightarrow> (if k = [] then throwApp 500 ''STELLAR_SECRET_KEY is not configured'' (ErrorCodes CHAIN_UNKNOWN)
        else (case fromSecret h k of None \<Rightarrow> Inl (PlainError ''invalid encoded string'') | Some pk \<Rightarrow> Inr pk)))"

definition submitManageData :: "horizonEnv \<Rightarrow> string \<Rightarrow> string \<Rightarrow> txReceipt result" where
  "submitManageData h name hexValue =
     (case signer h of Inl e \<Rightarrow> Inl e | Inr pk \<Rightarrow> wrap (fst (submit_loop h name hexValue 0)))"

definition assertBytes32 :: "string \<Rightarrow> string \<Rightarrow> string \<Rightarrow> unit result" where
  "assertBytes32 v fld cd = (if Bytes32HexSchema v then Inr ()
     else throwApp 422 (fld @ '' must be 32 bytes of lowercase hex'') cd)"

definition simulated_anchorEvent :: "horizonEnv \<Rightarrow> anchorArgs \<Rightarrow> anchorResult result" where
  "simulated_anchorEvent h input =
     (case assertBytes32 (aa_data_hash input) ''data_hash'' (ErrorCodes CHAIN_INVALID_HASH) of
        Inl e \<Rightarrow> Inl e
      | Inr _ \<Rightarrow> (case submitManageData h (''telemetry:'' @ aa_shipment_id input) (aa_data_hash input) of
          Inl e \<Rightarrow> Inl e
        | Inr r \<Rightarrow> Inr \<lparr>an_txHash = tx_hash r, an_ledger = tx_ledger r, an_simulated = True\<rparr>))"

definition simulated_releaseEscrow :: "horizonEnv \<Rightarrow> releaseEscrowArgs \<Rightarrow> escrowResult result" where
  "simulated_releaseEscrow h input =
     (case assertBytes32 (re_proof_hash input) ''proof_hash'' (ErrorCodes CHAIN_INVALID_PROOF) of
        Inl e \<Rightarrow> Inl e
      | Inr _ \<Rightarrow> (case submitManageData h (''release:'' @ re_payment_id input) (re_proof_hash input) of
          Inl e \<Rightarrow> Inl e
        | Inr r \<Rightarrow> Inr \<lparr>er_txHash = tx_hash r, er_ledger = tx_ledger r, er_simulated = True,
                        er_paymentId = re_payment_id input\<rparr>))"

text \<open>The four ways an attempt can go.\<close>

lemma submit_load_failed:
  "loadAccount h a = Some err \<Longrightarrow> submit_loop h name v a = (Inl err, 0)"
  by (subst submit_loop.simps) simp

lemma submit_done:
  "loadAccount h a = None \<Longrightarrow> submitTransaction h a name v = Inr r \<Longrightarrow> submit_loop h name v a = (Inr r, 1)"
  by (subst submit_loop.simps) simp

lemma submit_retry:
  "loadAccount h a = None \<Longrightarrow> submitTransaction h a name v = Inl err \<Longrightarrow> isBadSequence err
   \<Longrightarrow> a < MAX_BAD_SEQ_RETRIES
   \<Longrightarrow> submit_loop h name v a
       = (fst (submit_loop h name v (Suc a)), Suc (snd (submit_loop h name v (Suc a))))"
  by (subst submit_loop.simps) (simp add: Let_def split: prod.splits)

lemma submit_give_up:
  "loadAccount h a = None \<Longrightarrow> submitTransaction h a name v = Inl err
   \<Longrightarrow> \<not> (isBadSequence err \<and> a < MAX_BAD_SEQ_RETRIES) \<Longrightarrow> submit_loop h name v a = (Inl err, 1)"
  by (subst submit_loop.simps) auto

lemmas submit_steps = submit_load_failed submit_done submit_retry submit_give_up

lemma submit_cases:
  obtains (load) err where "loadAccount h a = Some err"
  | (sent) r where "loadAccount h a = None" "submitTransaction h a name v = Inr r"
  | (retry) err where "loadAccount h a = None" "submitTransaction h a name v = Inl err"
      "isBadSequence err" "a < MAX_BAD_SEQ_RETRIES"
  | (give_up) err where "loadAccount h a = None" "submitTransaction h a name v = Inl err"
      "\<not> (isBadSequence err \<and> a < MAX_BAD_SEQ_RETRIES)"
  by (cases "loadAccount h a"; cases "submitTransaction h a name v") auto

lemma submit_loop_attempts:
  "a \<le> MAX_BAD_SEQ_RETRIES \<Longrightarrow> snd (submit_loop h name v a) + a \<le> Suc MAX_BAD_SEQ_RETRIES"
proof (induction "MAX_BAD_SEQ_RETRIES - a" arbitrary: a rule: less_induct)
  case less
  show ?case
  proof (cases rule: submit_cases[where h = h and a = a and name = name and v = v])
    case (retry err)
    then have "snd (submit_loop h name v (Suc a)) + Suc a \<le> Suc MAX_BAD_SEQ_RETRIES"
      by (intro less.hyps) auto
    with retry show ?thesis by (simp add: submit_steps)
  qed (use less.prems in \<open>simp_all add: submit_steps\<close>)
qed

text \<open>A submission that succeeds returns a receipt that Horizon itself returned for these bytes.\<close>

lemma submit_loop_receipt:
  "fst (submit_loop h name v a) = Inr r \<Longrightarrow> \<exists>i. a \<le> i \<and> submitTransaction h i name v = Inr r"
proof (induction "MAX_BAD_SEQ_RETRIES - a" arbitrary: a rule: less_induct)
  case less
  show ?case
  proof (cases rule: submit_cases[where h = h and a = a and name = name and v = v])
    case (retry err)
    then have "\<exists>i. Suc a \<le> i \<and> submitTransaction h i name v = Inr r"
      using less.prems by (intro less.hyps) (auto simp: submit_steps)
    then show ?thesis using Suc_leD by blast
  qed (use less.prems in \<open>auto simp: submit_steps\<close>)
qed

text \<open>A stale sequence that clears within the retries is not seen by the caller.\<close>

lemma submit_loop_recovers:
  "a \<le> k \<Longrightarrow> k \<le> MAX_BAD_SEQ_RETRIES
   \<Longrightarrow> (\<And>i. a \<le> i \<Longrightarrow> i \<le> k \<Longrightarrow> loadAccount h i = None)
   \<Longrightarrow> (\<And>i. a \<le> i \<Longrightarrow> i < k \<Longrightarrow> \<exists>err. submitTransaction h i name v = Inl err \<and> isBadSequence err)
   \<Longrightarrow> submitTransaction h k name v = Inr r
   \<Longrightarrow> submit_loop h name v a = (Inr r, Suc (k - a))"
proof (induction "k - a" arbitrary: a rule: less_induct)
  case less
  show ?case
  proof (cases "a = k")
    case True
    then show ?thesis using less.prems by (simp add: submit_steps)
  next
    case False
    then have a: "a < k" using less.prems(1) by simp
    then obtain err where err: "submitTransaction h a name v = Inl err" "isBadSequence err"
      using less.prems(4) by blast
    have "submit_loop h name v (Suc a) = (Inr r, Suc (k - Suc a))"
      using a less.prems by (intro less.hyps) auto
    then show ?thesis using a err less.prems(2) less.prems(3)[of a] by (simp add: submit_steps Suc_diff_Suc)
  qed
qed

lemma wrap_error: "wrap r = Inl e \<Longrightarrow> \<exists>a. e = App a \<and> is_chain_code (errCode a)"
proof -
  assume w: "wrap r = Inl e"
  have "is_chain_code (ErrorCodes CHAIN_UNKNOWN)" by (simp add: is_chain_code_def startsWith_def)
  then show ?thesis using w
    by (auto simp: wrap_def chain_unknown_def split: sum.splits exn.splits if_splits) metis
qed

lemma wrap_ok [simp]: "wrap r = Inr x \<longleftrightarrow> r = Inr x"
  by (auto simp: wrap_def split: sum.splits exn.splits if_splits)

definition secret_usable :: "horizonEnv \<Rightarrow> bool" where
  "secret_usable h \<longleftrightarrow> (\<forall>k. secretKey h = Some k \<longrightarrow> k = [] \<or> fromSecret h k \<noteq> None)"

definition chain_error :: "exn \<Rightarrow> bool" where
  "chain_error e \<longleftrightarrow> (case e of App a \<Rightarrow> is_chain_code (errCode a) | _ \<Rightarrow> False)"

lemma submitManageData_error: "secret_usable h \<Longrightarrow> submitManageData h n v = Inl e \<Longrightarrow> chain_error e"
  by (auto simp: submitManageData_def signer_def chain_error_def secret_usable_def throwApp_def
      is_chain_code_def startsWith_def split: option.splits if_splits sum.splits exn.splits
      dest!: wrap_error)

lemma submitManageData_ok:
  "submitManageData h n v = Inr r \<Longrightarrow> \<exists>i. submitTransaction h i n v = Inr r"
  by (auto simp: submitManageData_def split: sum.splits dest: submit_loop_receipt)

lemma assertBytes32_error:
  "is_chain_code cd \<Longrightarrow> assertBytes32 v fld cd = Inl e \<Longrightarrow> chain_error e"
  by (auto simp: assertBytes32_def chain_error_def throwApp_def split: if_splits)

lemma assertBytes32_ok [simp]: "assertBytes32 v fld cd = Inr u \<longleftrightarrow> Bytes32HexSchema v"
  by (simp add: assertBytes32_def)


section \<open>The Soroban adapter\<close>

text \<open>
  The RPC server is a parameter: what each call of one invocation answered, or the rejection it
  produced (\<open>RpcThrows\<close>). \<open>soroClock 0\<close> is the instant polling starts and \<open>soroClock (Suc i)\<close> the one
  read after the \<open>i\<close>-th poll.
\<close>

datatype simulateResponse = SimThrows exn | SimContractError nat | SimError string | SimOk
datatype sendResponse = SendThrows exn | SendError | SendAccepted string
datatype pollResponse = PollThrows exn | PollSuccess nat | PollFailed | PollPending

record sorobanEnv =
  soroSecret :: "string option"
  soroFromSecret :: "string \<Rightarrow> string option"
  contractId :: string
  soroCall :: "string \<Rightarrow> exn option"
  soroAccount :: bool
  simulateTransaction :: simulateResponse
  sendTransaction :: sendResponse
  getTransaction :: "nat \<Rightarrow> pollResponse"
  soroClock :: "nat \<Rightarrow> millis"

definition soroban_signer :: "sorobanEnv \<Rightarrow> string result" where
  "soroban_signer h = (case soroSecret h of
      None \<Rightarrow> throwApp 500 ''STELLAR_SECRET_KEY is not configured'' (ErrorCodes CHAIN_UNKNOWN)
    | Some k \<Rightarrow> (if k = [] then throwApp 500 ''STELLAR_SECRET_KEY is not configured'' (ErrorCodes CHAIN_UNKNOWN)
        else (case soroFromSecret h k of None \<Rightarrow> Inl (PlainError ''invalid encoded string'') | Some pk \<Rightarrow> Inr pk)))"

text \<open>The polling loop; \<open>None\<close> when the fuel runs out.\<close>

fun poll_loop :: "nat \<Rightarrow> sorobanEnv \<Rightarrow> string \<Rightarrow> nat \<Rightarrow> txReceipt result option" where
  "poll_loop 0 h txHash i = None"
| "poll_loop (Suc fuel) h txHash i =
     (case getTransaction h i of
        PollThrows e \<Rightarrow> Some (Inl e)
      | PollSuccess l \<Rightarrow> Some (Inr \<lparr>tx_hash = txHash, tx_ledger = l\<rparr>)
      | PollFailed \<Rightarrow> Some (throwApp 400 ''Soroban transaction execution failed on-chain'' (ErrorCodes CHAIN_UNKNOWN))
      | PollPending \<Rightarrow>
          (if soroClock h (Suc i) - soroClock h 0 > 30000
           then Some (throwApp 504 ''Soroban transaction polling timed out'' (ErrorCodes CHAIN_UNKNOWN))
           else poll_loop fuel h txHash (Suc i)))"

definition invokePipeline :: "nat \<Rightarrow> sorobanEnv \<Rightarrow> txReceipt result option" where
  "invokePipeline fuel h =
     (case soroban_signer h of Inl e \<Rightarrow> Some (Inl e) | Inr pk \<Rightarrow>
      (if \<not> soroAccount h
       then Some (throwApp 502 ''Failed to load account from Soroban RPC'' (ErrorCodes CHAIN_UNKNOWN))
       else (case simulateTransaction h of
          SimThrows e \<Rightarrow> Some (Inl e)
        | SimContractError c \<Rightarrow> Some (Inl (App (chainErrorToAppError c)))
        | SimError m \<Rightarrow> Some (throwApp 400 (''Soroban simulation failed: '' @ m) (ErrorCodes CHAIN_UNKNOWN))
        | SimOk \<Rightarrow> (case sendTransaction h of
             SendThrows e \<Rightarrow> Some (Inl e)
           | SendError \<Rightarrow> Some (throwApp 400 ''Soroban sendTransaction failed'' (ErrorCodes CHAIN_UNKNOWN))
           | SendAccepted txHash \<Rightarrow> poll_loop fuel h txHash 0))))"

definition getContract :: "sorobanEnv \<Rightarrow> string result" where
  "getContract h = (if contractId h = []
     then throwApp 500 ''ESCROW_CONTRACT_ID is not configured'' (ErrorCodes CHAIN_UNKNOWN)
     else Inr (contractId h))"

definition soroban_releaseEscrow :: "nat \<Rightarrow> sorobanEnv \<Rightarrow> releaseEscrowArgs \<Rightarrow> escrowResult result option" where
  "soroban_releaseEscrow fuel h input =
     (if \<not> Bytes32HexSchema (re_proof_hash input)
      then Some (throwApp 422 ''proof_hash must be 32 bytes of lowercase hex'' (ErrorCodes CHAIN_INVALID_PROOF))
      else (case getContract h of Inl e \<Rightarrow> Some (Inl e) | Inr c \<Rightarrow>
       (case soroCall h (re_payment_id input) of Some e \<Rightarrow> Some (Inl e) | None \<Rightarrow>
        map_option (\<lambda>r. case r of Inl e \<Rightarrow> Inl e
          | Inr r \<Rightarrow> Inr \<lparr>er_txHash = tx_hash r, er_ledger = tx_ledger r, er_simulated = False,
                         er_paymentId = re_payment_id input\<rparr>)
          (invokePipeline fuel h))))"

definition soroban_anchorEvent :: "nat \<Rightarrow> sorobanEnv \<Rightarrow> anchorArgs \<Rightarrow> anchorResult result option" where
  "soroban_anchorEvent fuel h input =
     (if \<not> Bytes32HexSchema (aa_data_hash input)
      then Some (throwApp 422 ''data_hash must be 32 bytes of lowercase hex'' (ErrorCodes CHAIN_INVALID_HASH))
      else (case getContract h of Inl e \<Rightarrow> Some (Inl e) | Inr c \<Rightarrow>
       (case soroCall h (aa_shipment_id input) of Some e \<Rightarrow> Some (Inl e) | None \<Rightarrow>
        map_option (\<lambda>r. case r of Inl e \<Rightarrow> Inl e
          | Inr r \<Rightarrow> Inr \<lparr>an_txHash = tx_hash r, an_ledger = tx_ledger r, an_simulated = False\<rparr>)
          (invokePipeline fuel h))))"

text \<open>
  One second of sleep between polls bounds their number: the loop returns within 32 of them.
\<close>

definition clock_sleeps :: "sorobanEnv \<Rightarrow> bool" where
  "clock_sleeps h \<longleftrightarrow> soroClock h 0 \<le> soroClock h 1
     \<and> (\<forall>i. soroClock h (Suc i) + 1000 \<le> soroClock h (Suc (Suc i)))"

lemma clock_elapsed: "clock_sleeps h \<Longrightarrow> soroClock h 0 + 1000 * int i \<le> soroClock h (Suc i)"
proof (induction i)
  case 0
  then show ?case by (simp add: clock_sleeps_def)
next
  case (Suc i)
  then have "soroClock h (Suc i) + 1000 \<le> soroClock h (Suc (Suc i))"
    unfolding clock_sleeps_def by blast
  with Suc show ?case by simp
qed

lemma poll_loop_returns:
  assumes "clock_sleeps h"
  shows "i \<le> 31 \<Longrightarrow> 32 - i \<le> fuel \<Longrightarrow> poll_loop fuel h txHash i \<noteq> None"
proof (induction fuel arbitrary: i)
  case 0
  then show ?case by simp
next
  case (Suc fuel)
  show ?case
  proof (cases "i = 31")
    case True
    then have "soroClock h (Suc i) - soroClock h 0 > 30000"
      using clock_elapsed[OF assms, of i] by simp
    then show ?thesis by (auto split: pollResponse.split)
  next
    case False
    then have "poll_loop fuel h txHash (Suc i) \<noteq> None"
      using Suc.prems by (intro Suc.IH) auto
    then show ?thesis by (auto split: pollResponse.split)
  qed
qed

lemma invokePipeline_returns: "clock_sleeps h \<Longrightarrow> 32 \<le> fuel \<Longrightarrow> invokePipeline fuel h \<noteq> None"
  using poll_loop_returns[of h 0 fuel]
  by (auto simp: invokePipeline_def split: sum.splits simulateResponse.splits sendResponse.splits)

text \<open>A receipt is only ever produced by a confirmed transaction.\<close>

lemma poll_loop_confirmed:
  "poll_loop fuel h txHash i = Some (Inr r) \<Longrightarrow> \<exists>j. getTransaction h j = PollSuccess (tx_ledger r)"
  by (induction fuel arbitrary: i) (auto split: pollResponse.splits if_splits)

section \<open>The port\<close>

text \<open>
  What a domain module may rely on when it releases an escrow: nothing but a well-formed proof
  hash is ever accepted, a confirmed receipt is for the payment that was asked for, and \<open>simulated\<close>
  says which adapter produced it. \<open>None\<close> is a call that never resolves.
\<close>

locale chain_adapter =
  fixes release :: "releaseEscrowArgs \<Rightarrow> escrowResult result option"
    and simulated :: bool
  assumes proof_checked: "release input = Some (Inr r) \<Longrightarrow> Bytes32HexSchema (re_proof_hash input)"
    and for_payment: "release input = Some (Inr r) \<Longrightarrow> er_paymentId r = re_payment_id input"
    and labelled: "release input = Some (Inr r) \<Longrightarrow> er_simulated r = simulated"
    and bad_proof_rejected: "\<not> Bytes32HexSchema (re_proof_hash input) \<Longrightarrow>
      release input = Some (throwApp 422 ''proof_hash must be 32 bytes of lowercase hex''
        (ErrorCodes CHAIN_INVALID_PROOF))"
begin

lemma receipt_is_faithful:
  "release input = Some (Inr r) \<Longrightarrow>
     Bytes32HexSchema (re_proof_hash input) \<and> er_paymentId r = re_payment_id input
     \<and> er_simulated r = simulated"
  using proof_checked for_payment labelled by blast

end

interpretation simulated_adapter: chain_adapter "\<lambda>input. Some (simulated_releaseEscrow h input)" True
  for h
  by unfold_locales
    (auto simp: simulated_releaseEscrow_def assertBytes32_def throwApp_def split: sum.splits if_splits)

lemma soroban_release_cases:
  "soroban_releaseEscrow fuel h input = Some (Inr r) \<Longrightarrow>
     Bytes32HexSchema (re_proof_hash input)
     \<and> (\<exists>t. invokePipeline fuel h = Some (Inr t)
          \<and> r = \<lparr>er_txHash = tx_hash t, er_ledger = tx_ledger t, er_simulated = False,
                 er_paymentId = re_payment_id input\<rparr>)"
  apply (auto simp: soroban_releaseEscrow_def split: sum.splits if_splits option.splits)
  subgoal for c z by (cases z) auto
  done

interpretation soroban_adapter: chain_adapter "soroban_releaseEscrow fuel h" False for fuel h
  by unfold_locales
    (auto dest!: soroban_release_cases, simp add: soroban_releaseEscrow_def)

lemma simulated_release_error:
  "secret_usable h \<Longrightarrow> simulated_releaseEscrow h input = Inl e \<Longrightarrow> chain_error e"
  by (auto simp: simulated_releaseEscrow_def is_chain_code_def startsWith_def split: sum.splits
      dest: submitManageData_error assertBytes32_error[rotated])

text \<open>
  The simulated adapter submits at most three times, gets through when a stale sequence number clears
  up within two retries, and reports every failure, given a usable key, under a chain code.
\<close>

lemma simulated_submission_is_bounded:
  assumes "k \<le> MAX_BAD_SEQ_RETRIES" and "\<And>i. i \<le> k \<Longrightarrow> loadAccount h i = None"
    and "\<And>i. i < k \<Longrightarrow> \<exists>err. submitTransaction h i name v = Inl err \<and> isBadSequence err"
    and "submitTransaction h k name v = Inr r" and "secret_usable h"
  shows "submit_loop h name v 0 = (Inr r, Suc k) \<and> Suc k \<le> 3
     \<and> (\<forall>e. simulated_releaseEscrow h input = Inl e \<longrightarrow> chain_error e)"
proof -
  have "submit_loop h name v 0 = (Inr r, Suc (k - 0))"
    by (rule submit_loop_recovers) (use assms in auto)
  then show ?thesis using assms(1,5) simulated_release_error by (simp add: MAX_BAD_SEQ_RETRIES_def)
qed

end
