(* ===== verification/Storage.thy ===== *)
theory Storage
  imports Errors
begin

text \<open>
  File uploads (\<open>src/src/services/storage\<close>): the keys under which files are stored, the choice of
  an adapter and the translation of its failures. The adapters' own network calls are the
  parameter \<open>put\<close>; \<open>uuid\<close> is the value of \<open>randomUUID()\<close>.
\<close>

section \<open>Keys\<close>

definition is_alnum :: "char \<Rightarrow> bool" where
  "is_alnum c \<longleftrightarrow> (let n = of_char c :: nat in
     (48 \<le> n \<and> n \<le> 57) \<or> (65 \<le> n \<and> n \<le> 90) \<or> (97 \<le> n \<and> n \<le> 122))"

text \<open>\<open>/\.([a-zA-Z0-9]+)$/\<close> matches, if at all, from the last dot on.\<close>

definition getExtension :: "string \<Rightarrow> string" where
  "getExtension filename =
     (let ext = rev (takeWhile (\<lambda>c. c \<noteq> CHR ''.'') (rev filename))
      in if CHR ''.'' \<in> set filename \<and> ext \<noteq> [] \<and> list_all is_alnum ext
         then CHR ''.'' # toLowerCase ext else [])"

definition generateProofKey :: "string \<Rightarrow> string \<Rightarrow> string \<Rightarrow> string" where
  "generateProofKey uuid shipmentId originalFilename =
     ''shipments/'' @ shipmentId @ ''/proofs/'' @ uuid @ getExtension originalFilename"

definition generateDocumentKey :: "string \<Rightarrow> string \<Rightarrow> string \<Rightarrow> string \<Rightarrow> string" where
  "generateDocumentKey uuid shipmentId docType originalFilename =
     ''shipments/'' @ shipmentId @ ''/documents/'' @ docType @ ''/'' @ uuid @ getExtension originalFilename"

definition generatePhotoKey :: "string \<Rightarrow> string \<Rightarrow> string \<Rightarrow> string" where
  "generatePhotoKey uuid shipmentId originalFilename =
     ''shipments/'' @ shipmentId @ ''/photos/'' @ uuid @ getExtension originalFilename"

definition generateDisputeEvidenceKey :: "string \<Rightarrow> string \<Rightarrow> string \<Rightarrow> string \<Rightarrow> string" where
  "generateDisputeEvidenceKey uuid shipmentId disputeId originalFilename =
     ''shipments/'' @ shipmentId @ ''/disputes/'' @ disputeId @ ''/'' @ uuid @ getExtension originalFilename"

lemma getExtension_chars:
  "c \<in> set (getExtension f) \<Longrightarrow> c = CHR ''.'' \<or> (\<exists>d. is_alnum d \<and> c = to_lower d)"
  by (auto simp: getExtension_def Let_def toLowerCase_def list_all_iff split: if_splits)

lemma to_lower_alnum: "is_alnum d \<Longrightarrow> is_alnum (to_lower d)"
proof -
  assume d: "is_alnum d"
  have "(of_char d :: nat) < 256" by simp
  with d show "is_alnum (to_lower d)" by (auto simp: is_alnum_def to_lower_def Let_def)
qed

text \<open>An extension never adds a path separator, so a key stays in the directory it was built for.\<close>

lemma getExtension_no_slash: "CHR ''/'' \<notin> set (getExtension f)"
proof
  assume "CHR ''/'' \<in> set (getExtension f)"
  then obtain d where "is_alnum d" "CHR ''/'' = to_lower d" by (auto dest: getExtension_chars)
  then have "is_alnum (CHR ''/'')" using to_lower_alnum by metis
  then show False by (simp add: is_alnum_def)
qed

lemma key_uuid_inject:
  fixes u v :: string
  assumes "length u = length v" and "p @ u @ x = p @ v @ y"
  shows "u = v"
  using assms by simp

section \<open>Adapters\<close>

datatype storageFailure = StorageError string nat | OtherFailure

datatype storageProvider = MockProvider | S3Provider | R2Provider | CloudinaryProvider

record storageEnv =
  st_provider :: "string option"
  st_bucket :: "string option"
  st_accessKey :: "string option"
  st_secretKey :: "string option"
  st_cloudName :: "string option"
  st_apiKey :: "string option"
  st_apiSecret :: "string option"

definition createS3Adapter :: "storageEnv \<Rightarrow> storageProvider \<Rightarrow> storageFailure + storageProvider" where
  "createS3Adapter env provider =
     (if \<not> truthy (st_bucket env) \<or> \<not> truthy (st_accessKey env) \<or> \<not> truthy (st_secretKey env)
      then Inl (StorageError ''S3 storage requires S3_BUCKET, S3_ACCESS_KEY, and S3_SECRET_KEY env vars'' 400)
      else Inr provider)"

definition createCloudinaryAdapter :: "storageEnv \<Rightarrow> storageFailure + storageProvider" where
  "createCloudinaryAdapter env =
     (if \<not> truthy (st_cloudName env) \<or> \<not> truthy (st_apiKey env) \<or> \<not> truthy (st_apiSecret env)
      then Inl (StorageError ''Cloudinary storage requires CLOUDINARY_CLOUD_NAME, CLOUDINARY_API_KEY, and CLOUDINARY_API_SECRET env vars'' 400)
      else Inr CloudinaryProvider)"

definition getStorageAdapter ::
  "storageEnv \<Rightarrow> storageProvider option \<Rightarrow> (storageFailure + storageProvider) \<times> storageProvider option" where
  "getStorageAdapter env inst =
     (case inst of Some a \<Rightarrow> (Inr a, inst)
      | None \<Rightarrow>
          (let provider = (if truthy (st_provider env) then the (st_provider env) else ''mock'');
               r = (if provider = ''mock'' then Inr MockProvider
                    else if provider = ''s3'' then createS3Adapter env S3Provider
                    else if provider = ''r2'' then createS3Adapter env R2Provider
                    else if provider = ''cloudinary'' then createCloudinaryAdapter env
                    else Inl (StorageError (''Unknown STORAGE_PROVIDER: '' @ provider @
                           ''. Expected: mock, s3, r2, or cloudinary'') 400))
           in (r, case r of Inl e \<Rightarrow> None | Inr a \<Rightarrow> Some a)))"

definition mock_upload :: "millis \<Rightarrow> string \<Rightarrow> string" where
  "mock_upload now key = ''https://mock-storage.local/'' @ key @ ''?mock=1&ts='' @ int_str now"

section \<open>Upload\<close>

record storage_state =
  ss_instance :: "storageProvider option"
  ss_objects :: "string list"

text \<open>
  \<open>put\<close> is the adapter's \<open>uploadFile\<close>: the URL of the stored object or a failure. Stored objects
  are recorded by key.
\<close>

definition uploadFileToStorage ::
  "storageEnv \<Rightarrow> (storageProvider \<Rightarrow> string \<Rightarrow> string \<Rightarrow> storageFailure + string) \<Rightarrow> string \<Rightarrow> string
   \<Rightarrow> storage_state \<Rightarrow> string result \<times> storage_state" where
  "uploadFileToStorage env put mimeType key s =
     (let (a, inst) = getStorageAdapter env (ss_instance s);
          s' = s\<lparr>ss_instance := inst\<rparr>
      in case (case a of Inl e \<Rightarrow> Inl e | Inr p \<Rightarrow> put p mimeType key) of
           Inr url \<Rightarrow> (Inr url, s'\<lparr>ss_objects := ss_objects s' @ [key]\<rparr>)
         | Inl (StorageError m st) \<Rightarrow>
             (throwApp (if st = 0 then 503 else st) ''Storage service unavailable. Please try again later.'' ''STORAGE_ERROR'', s')
         | Inl OtherFailure \<Rightarrow>
             (throwApp 503 ''File upload failed. Please try again later.'' ''STORAGE_ERROR'', s'))"

text \<open>A failed upload stores nothing and is always reported under one code.\<close>

lemma upload_failed:
  "uploadFileToStorage env put mime key s = (Inl e, s') \<Longrightarrow>
     ss_objects s' = ss_objects s \<and> (\<exists>a. e = App a \<and> errCode a = ''STORAGE_ERROR'')"
  by (auto simp: uploadFileToStorage_def Let_def throwApp_def case_prod_beta
      split: sum.splits storageFailure.splits)

lemma upload_stored:
  "uploadFileToStorage env put mime key s = (Inr url, s') \<Longrightarrow> ss_objects s' = ss_objects s @ [key]"
  by (auto simp: uploadFileToStorage_def Let_def case_prod_beta
      split: sum.splits storageFailure.splits)

end
