(* ===== verification/Sensor_Docs.thy ===== *)
theory Sensor_Docs
  imports Pagination Collection Complex_Main
begin

text \<open>
  The telemetry and anomaly documents (\<open>telemetry.model.ts\<close>, \<open>anomaly.model.ts\<close> and
  \<open>src/src/shared/types\<close>). Sensor readings are rationals.
\<close>

datatype anchorStatus = PENDING_ANCHOR | ANCHORED | ANCHOR_FAILED | VERIFIED

datatype telemetryAnomaly = TEMPERATURE_BREACH | HUMIDITY_BREACH | SHOCK_EVENT | GPS_LOST | BATTERY_LOW_READING

record telemetryDoc =
  te_id :: objectId
  te_sensorId :: "string option"
  te_shipmentId :: objectId
  te_temperature :: rat
  te_humidity :: rat
  te_latitude :: rat
  te_longitude :: rat
  te_batteryLevel :: rat
  te_timestamp :: millis
  te_dataHash :: string
  te_stellarTxHash :: "string option"
  te_anchorStatus :: anchorStatus
  te_anchorError :: "string option"
  te_verified :: bool
  te_shockMagnitude :: "rat option"
  te_isAnomaly :: bool
  te_anomalyType :: "telemetryAnomaly option"
  te_rawPayload :: jval
  te_deletedAt :: "millis option"
  te_createdAt :: millis

datatype anomalySeverity = LOW | MEDIUM | HIGH

datatype anomalyType =
    TEMPERATURE_EXCEEDED | TEMPERATURE_BELOW_MIN | HUMIDITY_EXCEEDED | HUMIDITY_BELOW_MIN | BATTERY_LOW

primrec severity_str :: "anomalySeverity \<Rightarrow> string" where
  "severity_str LOW = ''LOW''"
| "severity_str MEDIUM = ''MEDIUM''"
| "severity_str HIGH = ''HIGH''"

primrec anomaly_type_str :: "anomalyType \<Rightarrow> string" where
  "anomaly_type_str TEMPERATURE_EXCEEDED = ''TEMPERATURE_EXCEEDED''"
| "anomaly_type_str TEMPERATURE_BELOW_MIN = ''TEMPERATURE_BELOW_MIN''"
| "anomaly_type_str HUMIDITY_EXCEEDED = ''HUMIDITY_EXCEEDED''"
| "anomaly_type_str HUMIDITY_BELOW_MIN = ''HUMIDITY_BELOW_MIN''"
| "anomaly_type_str BATTERY_LOW = ''BATTERY_LOW''"

record anomalyDoc =
  am_id :: objectId
  am_shipmentId :: objectId
  am_type :: anomalyType
  am_severity :: anomalySeverity
  am_message :: string
  am_timestamp :: millis
  am_resolved :: bool
  am_resolvedAt :: "millis option"
  am_resolvedBy :: "string option"
  am_resolutionNote :: "string option"
  am_deletedAt :: "millis option"
  am_createdAt :: millis

definition telemetryAlive :: "telemetryDoc \<Rightarrow> bool" where
  "telemetryAlive t \<longleftrightarrow> te_deletedAt t = None"

definition anomalyAlive :: "anomalyDoc \<Rightarrow> bool" where
  "anomalyAlive a \<longleftrightarrow> am_deletedAt a = None"

end
