(* ===== verification/Shipments_Model.thy ===== *)
theory Shipments_Model
  imports Payments Chain Storage Sensor_Docs
begin

text \<open>
  The shipment document (\<open>src/src/modules/shipments/shipments.model.ts\<close>), the state the shipment
  services work on, and the environment they run in: clock readings, generated ids, the chain
  adapter, object storage and the availability of Redis, sockets and the ledger collection.
\<close>

section \<open>The document\<close>

record milestone =
  ms_name :: string
  ms_timestamp :: millis
  ms_description :: "string option"
  ms_userId :: "string option"
  ms_walletAddress :: "string option"

datatype disputeType = WRONG_GOODS | DAMAGED | NOT_DELIVERED | PAYMENT_DISAGREEMENT | OTHER_DISPUTE

datatype disputeStatus = D_PENDING | D_ESCROWED | D_RELEASED | D_DISPUTED | D_FAILED

record dispute =
  dp_referenceNumber :: string
  dp_status :: disputeStatus
  dp_type :: disputeType
  dp_description :: string
  dp_evidenceUrl :: "string option"
  dp_createdAt :: millis
  dp_updatedAt :: millis

datatype documentType =
  BILL_OF_LADING | CUSTOMS_DECLARATION | INSURANCE_CERTIFICATE | PACKING_LIST | INVOICE | OTHER_DOCUMENT

record shipmentDocument =
  sd_url :: string
  sd_fileName :: string
  sd_mimeType :: string
  sd_type :: documentType
  sd_size :: nat
  sd_uploadedBy :: "string option"
  sd_uploadedAt :: millis

record shipmentPhoto =
  sp_url :: string
  sp_fileName :: string
  sp_mimeType :: string
  sp_caption :: "string option"
  sp_size :: nat
  sp_uploadedBy :: "string option"
  sp_uploadedAt :: millis

record deliveryProof =
  pr_url :: "string option"
  pr_recipientSignatureName :: "string option"
  pr_notes :: "string option"
  pr_uploadedAt :: "millis option"

datatype priority = URGENT | STANDARD | ECONOMY

record shipment =
  sh_id :: objectId
  sh_trackingNumber :: string
  sh_origin :: string
  sh_destination :: string
  sh_enterpriseId :: objectId
  sh_logisticsId :: objectId
  sh_status :: shipmentStatus
  sh_priority :: priority
  sh_expectedDelivery :: "millis option"
  sh_milestones :: "milestone list"
  sh_offChainMetadata :: "jval option"
  sh_stellarTokenId :: "string option"
  sh_stellarTxHash :: "string option"
  sh_deliveryProof :: "deliveryProof option"
  sh_documents :: "shipmentDocument list"
  sh_photos :: "shipmentPhoto list"
  sh_disputes :: "dispute list"
  sh_createdAt :: millis
  sh_updatedAt :: millis
  sh_deletedAt :: "millis option"

definition shipmentAlive :: "shipment \<Rightarrow> bool" where
  "shipmentAlive sh \<longleftrightarrow> sh_deletedAt sh = None"

definition findShipmentById :: "objectId \<Rightarrow> shipment list \<Rightarrow> shipment option" where
  "findShipmentById i xs = findOne shipmentAlive (\<lambda>sh. sh_id sh = i) xs"

definition findShipmentAndUpdate ::
  "objectId \<Rightarrow> (shipment \<Rightarrow> shipment) \<Rightarrow> shipment list \<Rightarrow> shipment option \<times> shipment list" where
  "findShipmentAndUpdate i f xs = findOneAndUpdate shipmentAlive (\<lambda>sh. sh_id sh = i) f xs"

interpretation shipments: soft_collection sh_id shipmentAlive findShipmentById findShipmentAndUpdate
  by unfold_locales
    (simp_all add: findShipmentById_def findOne_def findShipmentAndUpdate_def findOneAndUpdate_def)

text \<open>\<open>document.save()\<close> of a loaded document writes the modified paths back under its id.\<close>

definition saveShipment :: "objectId \<Rightarrow> (shipment \<Rightarrow> shipment) \<Rightarrow> shipment list \<Rightarrow> shipment list" where
  "saveShipment i f xs = snd (findShipmentAndUpdate i f xs)"

section \<open>State and environment\<close>

record world =
  w_shipments :: "shipment list"
  w_payments :: "payment list"
  w_blocks :: "ledgerBlock list"
  w_telemetry :: "telemetryDoc list"
  w_anomalies :: "anomalyDoc list"
  w_sent :: "(string \<times> socketEvent) list"
  w_audit :: auditStore
  w_storage :: storage_state
  w_redis :: redis
  w_etaDown :: bool
  w_analyticsDown :: bool

text \<open>
  \<open>en_now i\<close> is the i-th reading of the clock a handler makes and \<open>en_fresh i\<close> the i-th generated
  id; \<open>en_wallet\<close> is the wallet address of a live user. \<open>en_ledgerUp i\<close> tells whether the i-th
  insertion into the ledger collection succeeds, \<open>en_paymentsUp\<close> the same for the payment lookup
  (0) and update (1), and \<open>en_updateUp\<close> for the status update of a shipment. \<open>en_random\<close> is the
  six-digit number that \<open>Math.floor(100000 + Math.random() * 900000)\<close> yields.
\<close>

record env =
  en_now :: "nat \<Rightarrow> millis"
  en_fresh :: "nat \<Rightarrow> objectId"
  en_uuid :: string
  en_random :: nat
  en_oid :: "string \<Rightarrow> objectId result"
  en_isValidObjectId :: "string \<Rightarrow> bool"
  en_auditUp :: bool
  en_wallet :: "string \<Rightarrow> string option"
  en_sha256 :: "string \<Rightarrow> string"
  en_release :: "releaseEscrowArgs \<Rightarrow> escrowResult result"
  en_ledgerUp :: "nat \<Rightarrow> bool"
  en_paymentsUp :: "nat \<Rightarrow> bool"
  en_updateUp :: "objectId \<Rightarrow> bool"
  en_socketReady :: bool
  en_storage :: storageEnv
  en_put :: "storageProvider \<Rightarrow> string \<Rightarrow> string \<Rightarrow> storageFailure + string"
  en_etaConn :: conn
  en_analyticsConn :: conn
  en_tokenize :: "string \<Rightarrow> (string \<times> string) result"

section \<open>Steps shared by the services\<close>

text \<open>\<open>auditLog\<close> on the world.\<close>

definition audit :: "env \<Rightarrow> string \<Rightarrow> auditAction \<Rightarrow> string \<Rightarrow> millis \<Rightarrow> (string \<times> jval) list \<Rightarrow> world \<Rightarrow> world" where
  "audit env userId action resourceId now meta w =
     w\<lparr>w_audit := auditLog (en_isValidObjectId env) (en_auditUp env)
        \<lparr>ap_userId = userId, ap_action = action, ap_resource = None, ap_resourceId = resourceId,
         ap_timestamp = now, ap_metadata = meta\<rparr> (w_audit w)\<rparr>"

definition dropAnalytics :: "env \<Rightarrow> world \<Rightarrow> world" where
  "dropAnalytics env w =
     (let (d, r) = invalidateAnalyticsPerformanceCache (en_analyticsConn env) (w_analyticsDown w, w_redis w)
      in w\<lparr>w_analyticsDown := d, w_redis := r\<rparr>)"

definition dropEta :: "env \<Rightarrow> objectId \<Rightarrow> world \<Rightarrow> world" where
  "dropEta env i w =
     (let (d, r) = invalidateShipmentEtaCache (en_etaConn env) i (w_etaDown w, w_redis w)
      in w\<lparr>w_etaDown := d, w_redis := r\<rparr>)"

text \<open>
  A ledger block written inside \<open>try ... catch (warn)\<close>: a failed insertion, or a rejected input,
  leaves the ledger as it was and is not reported. \<open>k\<close> numbers the block within the handler.
\<close>

definition tryBlock :: "env \<Rightarrow> nat \<Rightarrow> millis \<Rightarrow> ledgerBlockInput \<Rightarrow> world \<Rightarrow> world" where
  "tryBlock env k now input w =
     (if \<not> en_ledgerUp env k then w
      else w\<lparr>w_blocks := snd (createLedgerBlock (en_oid env) (en_fresh env k) now now input (w_blocks w))\<rparr>)"

lemma dropAnalytics_frame [simp, frame]:
  "w_shipments (dropAnalytics env w) = w_shipments w" "w_payments (dropAnalytics env w) = w_payments w"
  "w_blocks (dropAnalytics env w) = w_blocks w" "w_sent (dropAnalytics env w) = w_sent w"
  "w_audit (dropAnalytics env w) = w_audit w" "w_storage (dropAnalytics env w) = w_storage w"
  "w_telemetry (dropAnalytics env w) = w_telemetry w" "w_anomalies (dropAnalytics env w) = w_anomalies w"
  "w_etaDown (dropAnalytics env w) = w_etaDown w"
  by (simp_all add: dropAnalytics_def case_prod_beta)

lemma dropEta_frame [simp, frame]:
  "w_shipments (dropEta env i w) = w_shipments w" "w_payments (dropEta env i w) = w_payments w"
  "w_blocks (dropEta env i w) = w_blocks w" "w_sent (dropEta env i w) = w_sent w"
  "w_audit (dropEta env i w) = w_audit w" "w_storage (dropEta env i w) = w_storage w"
  "w_telemetry (dropEta env i w) = w_telemetry w" "w_anomalies (dropEta env i w) = w_anomalies w"
  "w_analyticsDown (dropEta env i w) = w_analyticsDown w"
  by (simp_all add: dropEta_def case_prod_beta)

lemma audit_frame [simp, frame]:
  "w_shipments (audit env u a r n m w) = w_shipments w" "w_payments (audit env u a r n m w) = w_payments w"
  "w_blocks (audit env u a r n m w) = w_blocks w" "w_sent (audit env u a r n m w) = w_sent w"
  "w_storage (audit env u a r n m w) = w_storage w" "w_redis (audit env u a r n m w) = w_redis w"
  "w_telemetry (audit env u a r n m w) = w_telemetry w" "w_anomalies (audit env u a r n m w) = w_anomalies w"
  "w_etaDown (audit env u a r n m w) = w_etaDown w" "w_analyticsDown (audit env u a r n m w) = w_analyticsDown w"
  by (simp_all add: audit_def)

lemma tryBlock_frame [simp, frame]:
  "w_shipments (tryBlock env k n input w) = w_shipments w" "w_payments (tryBlock env k n input w) = w_payments w"
  "w_sent (tryBlock env k n input w) = w_sent w" "w_audit (tryBlock env k n input w) = w_audit w"
  "w_storage (tryBlock env k n input w) = w_storage w" "w_redis (tryBlock env k n input w) = w_redis w"
  "w_telemetry (tryBlock env k n input w) = w_telemetry w" "w_anomalies (tryBlock env k n input w) = w_anomalies w"
  "w_etaDown (tryBlock env k n input w) = w_etaDown w" "w_analyticsDown (tryBlock env k n input w) = w_analyticsDown w"
  by (simp_all add: tryBlock_def)

text \<open>The ledger only ever grows.\<close>

lemma tryBlock_grows: "\<exists>bs. w_blocks (tryBlock env k n input w) = w_blocks w @ bs \<and> length bs \<le> 1"
proof (cases "createLedgerBlock (en_oid env) (en_fresh env k) n n input (w_blocks w)")
  case (Pair r bs)
  then show ?thesis using createLedgerBlock_cases[OF Pair] by (auto simp: tryBlock_def)
qed

end
