(* ===== verification/Shipment_Updates.thy ===== *)
theory Shipment_Updates
  imports Shipments_Model
begin

text \<open>
  The status changes of \<open>src/src/modules/shipments/shipments.service.ts\<close>: the single update with
  its ledger block, escrow release, audit entry and socket event, and the bulk update. Each
  handler is the whole handler; its steps are named after what they write.
\<close>

section \<open>Pieces of the handlers\<close>

record actor =
  ac_userId :: "string option"

definition statusMilestone :: "env \<Rightarrow> millis \<Rightarrow> actor \<Rightarrow> shipmentStatus \<Rightarrow> milestone" where
  "statusMilestone env now ac status =
     (let uid = keep_truthy (ac_userId ac)
      in \<lparr>ms_name = status_str status, ms_timestamp = now,
          ms_description = Some (''Status changed to '' @ status_str status),
          ms_userId = uid,
          ms_walletAddress = (case uid of None \<Rightarrow> None | Some u \<Rightarrow> keep_truthy (en_wallet env u))\<rparr>)"

text \<open>\<open>releaseEscrowOnDelivery\<close>: the proof hash commits to the shipment, the payment and the proof.\<close>

definition escrowProofHash :: "env \<Rightarrow> shipment \<Rightarrow> string \<Rightarrow> string" where
  "escrowProofHash env sh paymentId = the (generateDataHash (en_sha256 env) (JObj
     [(''shipmentId'', JStr (sh_id sh)), (''paymentId'', JStr paymentId),
      (''deliveryProofUrl'', (case sh_deliveryProof sh of None \<Rightarrow> JNull | Some p \<Rightarrow> opt_str (pr_url p)))]))"

definition releaseEscrowOnDelivery :: "env \<Rightarrow> shipment \<Rightarrow> string \<Rightarrow> escrowResult result" where
  "releaseEscrowOnDelivery env sh paymentId =
     en_release env \<lparr>re_payment_id = paymentId, re_proof_hash = escrowProofHash env sh paymentId\<rparr>"

definition milestonePayload :: "milestone \<Rightarrow> statusMilestone" where
  "milestonePayload m = \<lparr>sm_name = ms_name m, sm_timestamp = toISOString (ms_timestamp m),
     sm_description = ms_description m, sm_userId = ms_userId m, sm_walletAddress = ms_walletAddress m\<rparr>"

definition statusPayload :: "shipment \<Rightarrow> statusUpdatePayload" where
  "statusPayload sh = \<lparr>su_shipmentId = sh_id sh, su_status = sh_status sh,
     su_milestones = map milestonePayload (sh_milestones sh),
     su_updatedAt = Some (toISOString (sh_updatedAt sh))\<rparr>"

definition canonicalOf :: "string \<Rightarrow> milestoneEvent \<Rightarrow> string option \<Rightarrow> millis \<Rightarrow> (string \<times> jval) list \<Rightarrow> jval" where
  "canonicalOf shipmentId ev actorId now meta = buildCanonicalShipmentPayload
     \<lparr>ci_shipmentId = shipmentId, ci_event = event_str ev, ci_actor = actorId,
      ci_timestamp = Some (JDate now), ci_metadata = Some (JObj meta)\<rparr>"

text \<open>The ledger input that the three writers of shipment blocks build.\<close>

definition blockInput ::
  "env \<Rightarrow> string \<Rightarrow> milestoneEvent \<Rightarrow> string option \<Rightarrow> string option \<Rightarrow> jval \<Rightarrow> (string \<times> jval) list
   \<Rightarrow> ledgerBlockInput" where
  "blockInput env shipmentId ev actorId txHash canonical meta =
     \<lparr>li_shipmentId = shipmentId, li_milestoneEvent = None, li_eventType = Some ev,
      li_blockNumber = None, li_timestamp = None, li_shipmentReference = None,
      li_dataHash = generateDataHash (en_sha256 env) canonical, li_canonicalPayload = None,
      li_transactionHash = txHash, li_ledger = None, li_verified = None, li_actor = actorId,
      li_metadata = Some meta\<rparr>"

definition statusBlock :: "env \<Rightarrow> objectId \<Rightarrow> shipmentStatus \<Rightarrow> shipmentStatus \<Rightarrow> actor \<Rightarrow> world \<Rightarrow> world" where
  "statusBlock env i status previousStatus ac w =
     (let canonical = canonicalOf i (OfStatus status) (ac_userId ac) (en_now env 2)
                        [(''previousStatus'', JStr (status_str previousStatus))]
      in tryBlock env 0 (en_now env 3)
           (blockInput env i (OfStatus status) (ac_userId ac) None canonical
             [(''previousStatus'', JStr (status_str previousStatus)), (''simulated'', JBool True),
              (''canonical'', canonical)]) w)"

definition settlementBlock :: "env \<Rightarrow> objectId \<Rightarrow> string \<Rightarrow> escrowResult \<Rightarrow> actor \<Rightarrow> world \<Rightarrow> world" where
  "settlementBlock env i paymentId released ac w =
     (let canonical = canonicalOf i (OfStatus SETTLEMENT_INITIATED) (ac_userId ac) (en_now env 5)
                        [(''paymentId'', JStr paymentId)]
      in tryBlock env 1 (en_now env 6)
           (blockInput env i (OfStatus SETTLEMENT_INITIATED) (ac_userId ac) (Some (er_txHash released)) canonical
             [(''paymentId'', JStr paymentId), (''canonical'', canonical),
              (''simulated'', JBool (er_simulated released))]) w)"

text \<open>
  The escrow release on delivery, shared by both updates up to the settlement block. A failure
  anywhere is swallowed: the first component is the receipt of a release whose payment was
  looked up, released and updated.
\<close>

definition tryRelease :: "env \<Rightarrow> shipment \<Rightarrow> world \<Rightarrow> (escrowResult \<times> payment) option \<times> bool option \<times> world" where
  "tryRelease env sh w =
     (if \<not> en_paymentsUp env 0 then (None, None, w)
      else case getPaymentByShipmentId (en_oid env) (sh_id sh) (w_payments w) of
          Inl e \<Rightarrow> (None, None, w)
        | Inr None \<Rightarrow> (None, None, w)
        | Inr (Some p) \<Rightarrow>
            (case releaseEscrowOnDelivery env sh (pm_id p) of
               Inl e \<Rightarrow> (None, None, w)
             | Inr released \<Rightarrow>
                 (if \<not> en_paymentsUp env 1 then (None, Some (er_simulated released), w)
                  else (Some (released, p), Some (er_simulated released),
                        w\<lparr>w_payments := snd (updatePaymentStatus (en_now env 4) (pm_id p) RELEASED
                                               (Some (er_txHash released)) (w_payments w))\<rparr>))))"

section \<open>The single update\<close>

record statusOutcome =
  so_shipment :: shipment
  so_simulated :: "bool option"

definition addMilestone :: "shipmentStatus \<Rightarrow> milestone \<Rightarrow> millis \<Rightarrow> shipment \<Rightarrow> shipment" where
  "addMilestone status m now sh =
     sh\<lparr>sh_status := status, sh_milestones := sh_milestones sh @ [m], sh_updatedAt := now\<rparr>"

definition deliverEscrow :: "env \<Rightarrow> objectId \<Rightarrow> shipment \<Rightarrow> actor \<Rightarrow> world \<Rightarrow> bool option \<times> world" where
  "deliverEscrow env i sh ac w =
     (case tryRelease env sh w of
        (None, simulated, w') \<Rightarrow> (simulated, w')
      | (Some (released, p), simulated, w') \<Rightarrow> (simulated, settlementBlock env i (pm_id p) released ac w'))"

definition updateShipmentStatusService ::
  "env \<Rightarrow> objectId \<Rightarrow> shipmentStatus \<Rightarrow> actor \<Rightarrow> world \<Rightarrow> statusOutcome option result \<times> world" where
  "updateShipmentStatusService env i status ac w =
     (case findShipmentById i (w_shipments w) of
        None \<Rightarrow> (Inr None, w)
      | Some sh \<Rightarrow>
          (if sh_status sh = status then (Inr (Some \<lparr>so_shipment = sh, so_simulated = None\<rparr>), w)
           else (case validateStatusTransition (sh_status sh) status of
              Inl e \<Rightarrow> (Inl e, w)
            | Inr u \<Rightarrow>
               (let previousStatus = sh_status sh;
                    upd = addMilestone status (statusMilestone env (en_now env 0) ac status) (en_now env 1);
                    sh' = upd sh;
                    w1 = w\<lparr>w_shipments := saveShipment i upd (w_shipments w)\<rparr>;
                    w2 = dropEta env i (dropAnalytics env w1);
                    w3 = statusBlock env i status previousStatus ac w2;
                    (simulated, w4) = (if status = DELIVERED then deliverEscrow env i sh' ac w3 else (None, w3));
                    w5 = (if truthy (ac_userId ac)
                          then audit env (the (ac_userId ac)) SHIPMENT_STATUS_CHANGED i (en_now env 7)
                                 [(''previousStatus'', JStr (status_str previousStatus)),
                                  (''newStatus'', JStr (status_str status))] w4
                          else w4);
                    (sent, evs) = emitToShipment (en_socketReady env) i (StatusUpdate (statusPayload sh')) (w_sent w5);
                    w6 = w5\<lparr>w_sent := evs\<rparr>
                in (case sent of
                      Inl e \<Rightarrow> (Inl e, w6)
                    | Inr u \<Rightarrow> (Inr (Some \<lparr>so_shipment = sh', so_simulated = simulated\<rparr>), w6))))))"

section \<open>The bulk update\<close>

datatype bulkReason = BR_NOT_FOUND | BR_WRONG_ORG | BR_INVALID_TRANSITION | BR_UPDATE_FAILED

record bulkResult =
  br_updated :: nat
  br_failed :: "(string \<times> bulkReason) list"

text \<open>
  One iteration for a shipment that was in the snapshot taken before the loop. The clock readings
  of an iteration are numbered within it. The socket emission is inside the \<open>try\<close>: when it throws,
  the update has already been stored.
\<close>

definition bulkStep ::
  "env \<Rightarrow> shipmentStatus \<Rightarrow> string \<Rightarrow> actor \<Rightarrow> shipment list \<Rightarrow> string
   \<Rightarrow> bulkResult \<times> world \<Rightarrow> bulkResult \<times> world" where
  "bulkStep env status organizationId ac snapshot i st =
     (let (r, w) = st; failAs = (\<lambda>reason. r\<lparr>br_failed := br_failed r @ [(i, reason)]\<rparr>) in
      case List.find (\<lambda>sh. sh_id sh = i) snapshot of
        None \<Rightarrow> (failAs BR_NOT_FOUND, w)
      | Some existing \<Rightarrow>
          (if sh_enterpriseId existing \<noteq> organizationId \<and> sh_logisticsId existing \<noteq> organizationId
           then (failAs BR_WRONG_ORG, w)
           else if status \<notin> set (ALLOWED_TRANSITIONS (sh_status existing))
           then (failAs BR_INVALID_TRANSITION, w)
           else
             (let previousStatus = sh_status existing;
                  upd = addMilestone status (statusMilestone env (en_now env 0) ac status) (en_now env 1)
              in if \<not> en_updateUp env i then (failAs BR_UPDATE_FAILED, w)
                 else case findShipmentAndUpdate i upd (w_shipments w) of
                   (None, xs) \<Rightarrow> (failAs BR_NOT_FOUND, w\<lparr>w_shipments := xs\<rparr>)
                 | (Some sh', xs) \<Rightarrow>
                     (let w1 = dropAnalytics env (w\<lparr>w_shipments := xs\<rparr>);
                          w2 = (if status = DELIVERED then snd (snd (tryRelease env sh' w1)) else w1);
                          w3 = (if truthy (ac_userId ac)
                                then audit env (the (ac_userId ac)) SHIPMENT_STATUS_CHANGED i (en_now env 7)
                                       [(''previousStatus'', JStr (status_str previousStatus)),
                                        (''newStatus'', JStr (status_str status))] w2
                                else w2);
                          (sent, evs) = emitToShipment (en_socketReady env) i (StatusUpdate (statusPayload sh')) (w_sent w3);
                          w4 = w3\<lparr>w_sent := evs\<rparr>
                      in case sent of
                           Inl e \<Rightarrow> (failAs BR_UPDATE_FAILED, w4)
                         | Inr u \<Rightarrow> (r\<lparr>br_updated := br_updated r + 1\<rparr>, w4)))))"

text \<open>\<open>en\<close> gives the environment of each iteration.\<close>

definition bulkUpdateShipmentStatusService ::
  "(nat \<Rightarrow> env) \<Rightarrow> string list \<Rightarrow> shipmentStatus \<Rightarrow> string \<Rightarrow> actor \<Rightarrow> world \<Rightarrow> bulkResult \<times> world" where
  "bulkUpdateShipmentStatusService en shipmentIds status organizationId ac w =
     (let snapshot = findAll shipmentAlive (\<lambda>sh. sh_id sh \<in> set shipmentIds) (w_shipments w)
      in fold (\<lambda>(k, i). bulkStep (en k) status organizationId ac snapshot i)
           (zip [0..<length shipmentIds] shipmentIds) (\<lparr>br_updated = 0, br_failed = []\<rparr>, w))"

section \<open>Histories\<close>

text \<open>
  A shipment is consistent when its milestones spell out a lifecycle from \<open>CREATED\<close> that ends in
  its status; a collection, when its ids are unique and every document is consistent.
\<close>

definition history :: "shipment \<Rightarrow> shipmentStatus list \<Rightarrow> bool" where
  "history sh hs \<longleftrightarrow> lifecycle CREATED hs \<and> map ms_name (sh_milestones sh) = map status_str hs
     \<and> sh_status sh = last (CREATED # hs)"

definition consistent :: "shipment \<Rightarrow> bool" where
  "consistent sh \<longleftrightarrow> (\<exists>hs. history sh hs)"

definition wf_shipments :: "shipment list \<Rightarrow> bool" where
  "wf_shipments xs \<longleftrightarrow> distinct (map sh_id xs) \<and> (\<forall>sh\<in>set xs. consistent sh)"

lemma addMilestone_simps [simp]:
  "sh_id (addMilestone st m n sh) = sh_id sh" "sh_status (addMilestone st m n sh) = st"
  "sh_milestones (addMilestone st m n sh) = sh_milestones sh @ [m]"
  "sh_deletedAt (addMilestone st m n sh) = sh_deletedAt sh"
  "sh_enterpriseId (addMilestone st m n sh) = sh_enterpriseId sh"
  "sh_logisticsId (addMilestone st m n sh) = sh_logisticsId sh"
  by (simp_all add: addMilestone_def)

lemma statusMilestone_name [simp]: "ms_name (statusMilestone env n ac st) = status_str st"
  by (simp add: statusMilestone_def Let_def)

lemma history_step:
  "history sh hs \<Longrightarrow> st \<in> set (ALLOWED_TRANSITIONS (sh_status sh)) \<Longrightarrow> ms_name m = status_str st
   \<Longrightarrow> history (addMilestone st m n sh) (hs @ [st])"
  by (auto simp: history_def lifecycle_append transition_iff)

lemma consistent_step:
  "consistent sh \<Longrightarrow> st \<in> set (ALLOWED_TRANSITIONS (sh_status sh)) \<Longrightarrow> ms_name m = status_str st
   \<Longrightarrow> consistent (addMilestone st m n sh)"
  using history_step by (fastforce simp: consistent_def)

lemma update_wf_shipments:
  assumes wf: "wf_shipments xs" and k: "\<And>sh. sh_id (f sh) = sh_id sh"
    and c: "\<And>sh. findShipmentById i xs = Some sh \<Longrightarrow> consistent (f sh)"
  shows "wf_shipments (snd (findShipmentAndUpdate i f xs))"
proof -
  have "map sh_id (snd (findShipmentAndUpdate i f xs)) = map sh_id xs"
    using k by (rule shipments.update_ids)
  moreover have "consistent x" if x: "x \<in> set (snd (findShipmentAndUpdate i f xs))" for x
  proof -
    have "x \<in> set xs \<or> (\<exists>d\<in>set xs. sh_id d = i \<and> shipmentAlive d \<and> x = f d)"
      using update_first_set[OF x[unfolded findShipmentAndUpdate_def findOneAndUpdate_def]] by auto
    then show ?thesis
    proof
      assume "\<exists>d\<in>set xs. sh_id d = i \<and> shipmentAlive d \<and> x = f d"
      then obtain d where d: "d \<in> set xs" "sh_id d = i" "shipmentAlive d" "x = f d" by blast
      then have "findShipmentById i xs = Some d"
        using shipments.find_complete wf by (auto simp: wf_shipments_def)
      then show ?thesis using c d(4) by simp
    qed (use wf in \<open>auto simp: wf_shipments_def\<close>)
  qed
  ultimately show ?thesis using wf by (simp add: wf_shipments_def)
qed

lemma consistent_terminal_length: "history sh hs \<Longrightarrow> length (sh_milestones sh) \<le> 8"
  using lifecycle_length[of CREATED hs] by (auto simp: history_def dest: arg_cong[of _ _ length])

section \<open>What the single update does\<close>

text \<open>The update takes effect exactly when the shipment is there and the transition is allowed.\<close>

definition applies :: "objectId \<Rightarrow> shipmentStatus \<Rightarrow> world \<Rightarrow> shipment option" where
  "applies i status w = (case findShipmentById i (w_shipments w) of None \<Rightarrow> None
     | Some sh \<Rightarrow> if status \<in> set (ALLOWED_TRANSITIONS (sh_status sh)) then Some sh else None)"

lemma self_not_allowed: "s \<notin> set (ALLOWED_TRANSITIONS s)"
  by (cases s) simp_all

lemma deliverEscrow_frame [simp]:
  "w_shipments (snd (deliverEscrow env i sh ac w)) = w_shipments w"
  "w_sent (snd (deliverEscrow env i sh ac w)) = w_sent w"
  "w_audit (snd (deliverEscrow env i sh ac w)) = w_audit w"
  "w_redis (snd (deliverEscrow env i sh ac w)) = w_redis w"
  "w_etaDown (snd (deliverEscrow env i sh ac w)) = w_etaDown w"
  by (auto simp: deliverEscrow_def tryRelease_def settlementBlock_def Let_def
      split: option.splits sum.splits prod.splits)

lemma statusBlock_frame [simp]:
  "w_shipments (statusBlock env i st p ac w) = w_shipments w" "w_payments (statusBlock env i st p ac w) = w_payments w"
  "w_sent (statusBlock env i st p ac w) = w_sent w" "w_audit (statusBlock env i st p ac w) = w_audit w"
  "w_redis (statusBlock env i st p ac w) = w_redis w" "w_etaDown (statusBlock env i st p ac w) = w_etaDown w"
  by (simp_all add: statusBlock_def Let_def)

lemma update_rejected:
  "applies i st w = None \<Longrightarrow> snd (updateShipmentStatusService env i st ac w) = w"
  by (auto simp: applies_def updateShipmentStatusService_def Let_def validateStatusTransition_def
      split: option.splits if_splits)

text \<open>The state after the writes that precede the escrow release.\<close>

definition storedUpdate :: "env \<Rightarrow> objectId \<Rightarrow> shipmentStatus \<Rightarrow> actor \<Rightarrow> shipment \<Rightarrow> world \<Rightarrow> world" where
  "storedUpdate env i status ac sh w = statusBlock env i status (sh_status sh) ac
     (dropEta env i (dropAnalytics env (w\<lparr>w_shipments := saveShipment i
        (addMilestone status (statusMilestone env (en_now env 0) ac status) (en_now env 1)) (w_shipments w)\<rparr>)))"

definition updatedDoc :: "env \<Rightarrow> shipmentStatus \<Rightarrow> actor \<Rightarrow> shipment \<Rightarrow> shipment" where
  "updatedDoc env status ac sh =
     addMilestone status (statusMilestone env (en_now env 0) ac status) (en_now env 1) sh"

definition afterEscrow :: "env \<Rightarrow> objectId \<Rightarrow> shipmentStatus \<Rightarrow> actor \<Rightarrow> shipment \<Rightarrow> world \<Rightarrow> bool option \<times> world" where
  "afterEscrow env i status ac sh w =
     (if status = DELIVERED
      then deliverEscrow env i (updatedDoc env status ac sh) ac (storedUpdate env i status ac sh w)
      else (None, storedUpdate env i status ac sh w))"

lemma update_applied:
  assumes "applies i st w = Some sh"
  shows "w_shipments (snd (updateShipmentStatusService env i st ac w))
       = saveShipment i (addMilestone st (statusMilestone env (en_now env 0) ac st) (en_now env 1)) (w_shipments w)"
    and "w_payments (snd (updateShipmentStatusService env i st ac w)) = w_payments (snd (afterEscrow env i st ac sh w))"
    and "w_blocks (snd (updateShipmentStatusService env i st ac w)) = w_blocks (snd (afterEscrow env i st ac sh w))"
    and "w_redis (snd (updateShipmentStatusService env i st ac w)) = w_redis (storedUpdate env i st ac sh w)"
    and "w_etaDown (snd (updateShipmentStatusService env i st ac w)) = w_etaDown (storedUpdate env i st ac sh w)"
    and "w_sent (snd (updateShipmentStatusService env i st ac w))
       = (if en_socketReady env then w_sent w @ [(i, StatusUpdate (statusPayload (updatedDoc env st ac sh)))]
          else w_sent w)"
    and "fst (updateShipmentStatusService env i st ac w)
       = (if en_socketReady env
          then Inr (Some \<lparr>so_shipment = updatedDoc env st ac sh,
                         so_simulated = fst (afterEscrow env i st ac sh w)\<rparr>)
          else Inl (PlainError ''Socket.io not initialized''))"
proof -
  have f: "findShipmentById i (w_shipments w) = Some sh" and t: "st \<in> set (ALLOWED_TRANSITIONS (sh_status sh))"
    using assms by (auto simp: applies_def split: option.splits if_splits)
  have ne: "sh_status sh \<noteq> st" using t self_not_allowed by metis
  have v: "validateStatusTransition (sh_status sh) st = Inr ()" using t by simp
  note u = updateShipmentStatusService_def[of env i st ac w, unfolded f option.case v sum.case Let_def]
  have [simp]: "w_shipments (snd (afterEscrow env i st ac sh w)) = w_shipments (storedUpdate env i st ac sh w)"
    "w_sent (snd (afterEscrow env i st ac sh w)) = w_sent w"
    "w_redis (snd (afterEscrow env i st ac sh w)) = w_redis (storedUpdate env i st ac sh w)"
    "w_etaDown (snd (afterEscrow env i st ac sh w)) = w_etaDown (storedUpdate env i st ac sh w)"
    by (simp_all add: afterEscrow_def storedUpdate_def)
  define w4 where "w4 = snd (afterEscrow env i st ac sh w)"
  define w5 where "w5 = (if truthy (ac_userId ac)
      then audit env (the (ac_userId ac)) SHIPMENT_STATUS_CHANGED i (en_now env 7)
             [(''previousStatus'', JStr (status_str (sh_status sh))), (''newStatus'', JStr (status_str st))] w4
      else w4)"
  have e: "updateShipmentStatusService env i st ac w =
      (let (sent, evs) = emitToShipment (en_socketReady env) i
             (StatusUpdate (statusPayload (updatedDoc env st ac sh))) (w_sent w5)
       in case sent of Inl e \<Rightarrow> (Inl e, w5\<lparr>w_sent := evs\<rparr>)
          | Inr u \<Rightarrow> (Inr (Some \<lparr>so_shipment = updatedDoc env st ac sh,
               so_simulated = fst (afterEscrow env i st ac sh w)\<rparr>), w5\<lparr>w_sent := evs\<rparr>))"
    unfolding u w5_def w4_def afterEscrow_def storedUpdate_def updatedDoc_def
    using ne by (simp add: case_prod_beta Let_def)
  have w5: "w_shipments w5 = w_shipments w4" "w_payments w5 = w_payments w4" "w_blocks w5 = w_blocks w4"
    "w_redis w5 = w_redis w4" "w_etaDown w5 = w_etaDown w4" "w_sent w5 = w_sent w4"
    by (simp_all add: w5_def)
  show "w_shipments (snd (updateShipmentStatusService env i st ac w))
       = saveShipment i (addMilestone st (statusMilestone env (en_now env 0) ac st) (en_now env 1)) (w_shipments w)"
    unfolding e by (simp add: emitToShipment_def w5 w4_def storedUpdate_def)
  show "w_payments (snd (updateShipmentStatusService env i st ac w)) = w_payments (snd (afterEscrow env i st ac sh w))"
    "w_blocks (snd (updateShipmentStatusService env i st ac w)) = w_blocks (snd (afterEscrow env i st ac sh w))"
    "w_redis (snd (updateShipmentStatusService env i st ac w)) = w_redis (storedUpdate env i st ac sh w)"
    "w_etaDown (snd (updateShipmentStatusService env i st ac w)) = w_etaDown (storedUpdate env i st ac sh w)"
    "w_sent (snd (updateShipmentStatusService env i st ac w))
       = (if en_socketReady env then w_sent w @ [(i, StatusUpdate (statusPayload (updatedDoc env st ac sh)))]
          else w_sent w)"
    "fst (updateShipmentStatusService env i st ac w)
       = (if en_socketReady env
          then Inr (Some \<lparr>so_shipment = updatedDoc env st ac sh,
                         so_simulated = fst (afterEscrow env i st ac sh w)\<rparr>)
          else Inl (PlainError ''Socket.io not initialized''))"
    unfolding e by (simp_all add: emitToShipment_def w5 w4_def)
qed

lemma applies_found:
  "applies i st w = Some sh \<Longrightarrow> findShipmentById i (w_shipments w) = Some sh
     \<and> st \<in> set (ALLOWED_TRANSITIONS (sh_status sh))"
  by (auto simp: applies_def split: option.splits if_splits)

lemma update_shipments:
  "w_shipments (snd (updateShipmentStatusService env i st ac w)) =
     (if applies i st w = None then w_shipments w
      else saveShipment i (addMilestone st (statusMilestone env (en_now env 0) ac st) (en_now env 1)) (w_shipments w))"
  using update_applied(1) update_rejected by fastforce

lemma update_keeps_wf:
  assumes "wf_shipments (w_shipments w)"
  shows "wf_shipments (w_shipments (snd (updateShipmentStatusService env i st ac w)))"
proof (cases "applies i st w")
  case None
  then show ?thesis using assms by (simp add: update_rejected)
next
  case (Some sh)
  have f: "findShipmentById i (w_shipments w) = Some sh" "st \<in> set (ALLOWED_TRANSITIONS (sh_status sh))"
    using applies_found[OF Some] by auto
  have "consistent sh" using f shipments.find_sound assms by (fastforce simp: wf_shipments_def)
  then show ?thesis
    unfolding update_applied(1)[OF Some] saveShipment_def using assms f
    by (intro update_wf_shipments) (auto intro: consistent_step)
qed

lemma update_other_shipments:
  "j \<noteq> i \<Longrightarrow> findShipmentById j (w_shipments (snd (updateShipmentStatusService env i st ac w)))
     = findShipmentById j (w_shipments w)"
  by (simp add: update_shipments saveShipment_def shipments.write_frame)

lemma update_reads_back:
  assumes "applies i st w = Some sh"
  shows "findShipmentById i (w_shipments (snd (updateShipmentStatusService env i st ac w)))
     = Some (updatedDoc env st ac sh)"
proof -
  have f: "findShipmentById i (w_shipments w) = Some sh" using applies_found[OF assms] by simp
  then have "shipmentAlive sh" using shipments.find_sound by blast
  then show ?thesis
    unfolding update_applied(1)[OF assms] saveShipment_def updatedDoc_def
    using f by (intro shipments.read_own_write) (simp_all add: shipmentAlive_def)
qed

text \<open>A successful update leaves no ETA to be read from the cache.\<close>

lemma update_drops_eta:
  assumes "applies i st w = Some sh"
  shows "fst (readShipmentEtaCache dec cn i
     (w_etaDown (snd (updateShipmentStatusService env i st ac w)),
      w_redis (snd (updateShipmentStatusService env i st ac w)))) = None"
proof -
  let ?w = "dropAnalytics env (w\<lparr>w_shipments := saveShipment i
        (addMilestone st (statusMilestone env (en_now env 0) ac st) (en_now env 1)) (w_shipments w)\<rparr>)"
  have "(w_etaDown (storedUpdate env i st ac sh w), w_redis (storedUpdate env i st ac sh w))
      = cacheDelete (en_etaConn env) (shipmentEtaCacheKey i) (w_etaDown ?w, w_redis ?w)"
    by (simp add: storedUpdate_def dropEta_def invalidateShipmentEtaCache_def case_prod_beta)
  then show ?thesis
    unfolding update_applied(4,5)[OF assms] by (simp only: eta_cache.invalidated)
qed

section \<open>Ledger blocks\<close>

text \<open>Every status change that is stored is recorded, with a hash that covers its canonical payload.\<close>

definition statusCanonical :: "env \<Rightarrow> objectId \<Rightarrow> shipmentStatus \<Rightarrow> shipmentStatus \<Rightarrow> actor \<Rightarrow> jval" where
  "statusCanonical env i st previousStatus ac = canonicalOf i (OfStatus st) (ac_userId ac) (en_now env 2)
     [(''previousStatus'', JStr (status_str previousStatus))]"

lemma canonical_hash: "generateDataHash f (canonicalOf i ev a n m)
    = Some (f (strip_ws (json_str (normalize (canonicalOf i ev a n m)))))"
  unfolding canonicalOf_def buildCanonicalShipmentPayload_def by (rule generateDataHash_obj)

lemma statusBlock_written:
  assumes "en_ledgerUp env 0" and "en_oid env i = Inr i"
  shows "\<exists>b. w_blocks (statusBlock env i st p ac w) = w_blocks w @ [b]
     \<and> lb_id b = en_fresh env 0 \<and> lb_shipmentId b = i \<and> lb_milestoneEvent b = OfStatus st
     \<and> lb_transactionHash b = None \<and> lb_canonicalPayload b = None \<and> lb_deletedAt b = None
     \<and> lb_dataHash b = keep_truthy (generateDataHash (en_sha256 env) (statusCanonical env i st p ac))
     \<and> (\<exists>m. lb_metadata b = Some m \<and> map_of m ''canonical'' = Some (statusCanonical env i st p ac))"
  using assms
  by (simp add: statusBlock_def tryBlock_def createLedgerBlock_def blockInput_def statusCanonical_def Let_def)

lemma deliverEscrow_blocks: "\<exists>bs. w_blocks (snd (deliverEscrow env i sh ac w)) = w_blocks w @ bs"
proof (cases "tryRelease env sh w")
  case (fields a b w')
  have w': "w_blocks w' = w_blocks w"
    using fields by (auto simp: tryRelease_def split: option.splits sum.splits if_splits)
  have "\<exists>bs. w_blocks (settlementBlock env i pid rel ac w') = w_blocks w' @ bs" for pid rel
    unfolding settlementBlock_def Let_def using tryBlock_grows by blast
  then show ?thesis using fields w' by (cases a) (auto simp: deliverEscrow_def)
qed

lemma afterEscrow_blocks:
  "\<exists>bs. w_blocks (snd (afterEscrow env i st ac sh w)) = w_blocks (storedUpdate env i st ac sh w) @ bs"
  using deliverEscrow_blocks by (auto simp: afterEscrow_def)

lemma update_ledger:
  assumes "applies i st w = Some sh" and "en_ledgerUp env 0" and "en_oid env i = Inr i"
  shows "\<exists>b bs. w_blocks (snd (updateShipmentStatusService env i st ac w)) = w_blocks w @ b # bs
     \<and> lb_id b = en_fresh env 0 \<and> lb_shipmentId b = i \<and> lb_milestoneEvent b = OfStatus st
     \<and> lb_transactionHash b = None \<and> lb_canonicalPayload b = None \<and> lb_deletedAt b = None
     \<and> lb_dataHash b = keep_truthy (generateDataHash (en_sha256 env) (statusCanonical env i st (sh_status sh) ac))
     \<and> (\<exists>m. lb_metadata b = Some m
          \<and> map_of m ''canonical'' = Some (statusCanonical env i st (sh_status sh) ac))"
proof -
  let ?w = "dropEta env i (dropAnalytics env (w\<lparr>w_shipments := saveShipment i
        (addMilestone st (statusMilestone env (en_now env 0) ac st) (en_now env 1)) (w_shipments w)\<rparr>))"
  obtain b where b: "w_blocks (storedUpdate env i st ac sh w) = w_blocks w @ [b]"
    "lb_id b = en_fresh env 0" "lb_shipmentId b = i" "lb_milestoneEvent b = OfStatus st"
    "lb_transactionHash b = None" "lb_canonicalPayload b = None" "lb_deletedAt b = None"
    "lb_dataHash b = keep_truthy (generateDataHash (en_sha256 env) (statusCanonical env i st (sh_status sh) ac))"
    "\<exists>m. lb_metadata b = Some m \<and> map_of m ''canonical'' = Some (statusCanonical env i st (sh_status sh) ac)"
    using statusBlock_written[OF assms(2,3), of st "sh_status sh" ac ?w] by (auto simp: storedUpdate_def)
  obtain bs where "w_blocks (snd (afterEscrow env i st ac sh w)) = w_blocks w @ b # bs"
    using afterEscrow_blocks[of env i st ac sh w] b(1) by auto
  then show ?thesis using b unfolding update_applied(3)[OF assms(1)] by blast
qed

lemma update_ledger_append_only:
  "\<exists>bs. w_blocks (snd (updateShipmentStatusService env i st ac w)) = w_blocks w @ bs"
proof (cases "applies i st w")
  case None
  then show ?thesis by (simp add: update_rejected)
next
  case (Some sh)
  have "\<exists>bs. w_blocks (statusBlock env i st p ac w') = w_blocks w' @ bs" for p w'
    unfolding statusBlock_def Let_def using tryBlock_grows by blast
  from this[of "sh_status sh" "dropEta env i (dropAnalytics env (w\<lparr>w_shipments := saveShipment i
        (addMilestone st (statusMilestone env (en_now env 0) ac st) (en_now env 1)) (w_shipments w)\<rparr>))"]
  have "\<exists>bs. w_blocks (storedUpdate env i st ac sh w) = w_blocks w @ bs"
    by (simp add: storedUpdate_def)
  then show ?thesis
    using afterEscrow_blocks[of env i st ac sh w] by (auto simp: update_applied(3)[OF Some])
qed

section \<open>Settlement on delivery\<close>

text \<open>
  The payment of a delivered shipment is released exactly when the chain adapter produced a
  receipt; it then carries the receipt's transaction. No other payment is touched.
\<close>

definition shipmentPayment :: "env \<Rightarrow> objectId \<Rightarrow> world \<Rightarrow> payment option" where
  "shipmentPayment env i w = (if en_paymentsUp env 0
     then (case getPaymentByShipmentId (en_oid env) i (w_payments w) of Inl e \<Rightarrow> None | Inr p \<Rightarrow> p) else None)"

lemma afterEscrow_payments:
  "w_payments (snd (afterEscrow env i st ac sh w)) =
     (if st = DELIVERED
      then (case shipmentPayment env (sh_id sh) w of None \<Rightarrow> w_payments w
        | Some p \<Rightarrow> (case releaseEscrowOnDelivery env (updatedDoc env st ac sh) (pm_id p) of
             Inl e \<Rightarrow> w_payments w
           | Inr released \<Rightarrow> if en_paymentsUp env 1
               then snd (updatePaymentStatus (en_now env 4) (pm_id p) RELEASED (Some (er_txHash released)) (w_payments w))
               else w_payments w))
      else w_payments w)"
  by (auto simp: afterEscrow_def deliverEscrow_def tryRelease_def storedUpdate_def shipmentPayment_def
      settlementBlock_def updatedDoc_def Let_def split: option.splits sum.splits)

lemma getPaymentByShipmentId_sound:
  "getPaymentByShipmentId oid i ps = Inr (Some p) \<Longrightarrow> p \<in> set ps \<and> paymentAlive p"
  by (auto simp: getPaymentByShipmentId_def findOne_def dest: find_SomeD split: sum.splits)

lemma delivery_releases:
  assumes "applies i DELIVERED w = Some sh" and "shipmentPayment env i w = Some p"
    and "wf_payments (w_payments w)" and "en_paymentsUp env 1"
    and "releaseEscrowOnDelivery env (updatedDoc env DELIVERED ac sh) (pm_id p) = Inr r" and "er_txHash r \<noteq> []"
  shows "\<exists>p'. getPaymentById (pm_id p) (w_payments (snd (updateShipmentStatusService env i DELIVERED ac w))) = Some p'
     \<and> pm_status p' = RELEASED \<and> pm_stellarTxHash p' = Some (er_txHash r)"
proof -
  have sid: "sh_id sh = i" using applies_found[OF assms(1)] shipments.find_sound by blast
  have "p \<in> set (w_payments w) \<and> paymentAlive p"
    using assms(2) getPaymentByShipmentId_sound
    by (auto simp: shipmentPayment_def split: if_splits sum.splits)
  then have "getPaymentById (pm_id p) (w_payments w) = Some p"
    using assms(3) payments.find_complete by (simp add: wf_payments_def)
  from updatePaymentStatus_read[OF this, of "en_now env 4" RELEASED "Some (er_txHash r)"] show ?thesis
    using assms sid by (simp add: update_applied(2)[OF assms(1)] afterEscrow_payments)
qed

lemma failed_release_keeps_payment:
  assumes "releaseEscrowOnDelivery env (updatedDoc env st ac sh) (pm_id p) = Inl e"
    and "applies i st w = Some sh" and "shipmentPayment env i w = Some p"
  shows "w_payments (snd (updateShipmentStatusService env i st ac w)) = w_payments w"
proof -
  have sid: "sh_id sh = i" using applies_found[OF assms(2)] shipments.find_sound by blast
  then show ?thesis unfolding update_applied(2)[OF assms(2)] using assms(1,3)
    by (cases "st = DELIVERED") (simp_all add: afterEscrow_payments)
qed

lemma undelivered_keeps_payments:
  "st \<noteq> DELIVERED \<Longrightarrow> w_payments (snd (updateShipmentStatusService env i st ac w)) = w_payments w"
  by (cases "applies i st w") (simp_all add: update_rejected update_applied(2) afterEscrow_payments)

lemma update_keeps_wf_payments:
  assumes "wf_payments (w_payments w)"
  shows "wf_payments (w_payments (snd (updateShipmentStatusService env i st ac w)))"
  using assms
  by (cases "applies i st w")
    (auto simp: update_rejected update_applied(2) afterEscrow_payments updatePaymentStatus_wf
      split: option.splits sum.splits)

section \<open>The bulk update\<close>

lemma bulkStep_counts:
  "br_updated (fst (bulkStep env st org ac snap i (r, w))) + length (br_failed (fst (bulkStep env st org ac snap i (r, w))))
     = br_updated r + length (br_failed r) + 1"
  by (auto simp: bulkStep_def Let_def split: option.splits prod.splits sum.splits)

lemma tryRelease_shipments [simp]: "w_shipments (snd (snd (tryRelease env sh w))) = w_shipments w"
  by (auto simp: tryRelease_def split: option.splits sum.splits)

text \<open>The documents after a step: at most the named one changes, and only as the snapshot allows.\<close>

definition bulkAccepts :: "shipmentStatus \<Rightarrow> string \<Rightarrow> shipment list \<Rightarrow> string \<Rightarrow> bool" where
  "bulkAccepts st org snap i \<longleftrightarrow> (\<exists>sh. List.find (\<lambda>sh. sh_id sh = i) snap = Some sh
     \<and> (sh_enterpriseId sh = org \<or> sh_logisticsId sh = org) \<and> st \<in> set (ALLOWED_TRANSITIONS (sh_status sh)))"

lemma bulkStep_shipments:
  "w_shipments (snd (bulkStep env st org ac snap i (r, w))) =
     (if bulkAccepts st org snap i \<and> en_updateUp env i
      then snd (findShipmentAndUpdate i
             (addMilestone st (statusMilestone env (en_now env 0) ac st) (en_now env 1)) (w_shipments w))
      else w_shipments w)"
  by (auto simp: bulkStep_def bulkAccepts_def Let_def emitToShipment_def split: option.splits prod.splits)

lemma bulkStep_other:
  "j \<noteq> i \<Longrightarrow> findShipmentById j (w_shipments (snd (bulkStep env st org ac snap i (r, w))))
     = findShipmentById j (w_shipments w)"
  by (simp add: bulkStep_shipments shipments.write_frame)

lemma bulk_fold_counts:
  "br_updated (fst (fold (\<lambda>(k, i). bulkStep (en k) st org ac snap i) kis (r, w)))
     + length (br_failed (fst (fold (\<lambda>(k, i). bulkStep (en k) st org ac snap i) kis (r, w))))
     = br_updated r + length (br_failed r) + length kis"
proof (induction kis arbitrary: r w)
  case (Cons ki kis)
  obtain k i where ki: "ki = (k, i)" by (cases ki)
  obtain r' w' where b: "bulkStep (en k) st org ac snap i (r, w) = (r', w')"
    by (cases "bulkStep (en k) st org ac snap i (r, w)")
  then have "br_updated r' + length (br_failed r') = br_updated r + length (br_failed r) + 1"
    using bulkStep_counts[of "en k" st org ac snap i r w] by simp
  then show ?case using Cons[of r' w'] b ki by simp
qed simp

text \<open>Every id of the request is accounted for once, as updated or as failed.\<close>

lemma bulk_counts:
  "br_updated (fst (bulkUpdateShipmentStatusService en ids st org ac w))
     + length (br_failed (fst (bulkUpdateShipmentStatusService en ids st org ac w))) = length ids"
  by (simp add: bulkUpdateShipmentStatusService_def Let_def bulk_fold_counts)

lemma bulk_fold_other:
  "j \<notin> snd ` set kis \<or> \<not> bulkAccepts st org snap j \<Longrightarrow>
   findShipmentById j (w_shipments (snd (fold (\<lambda>(k, i). bulkStep (en k) st org ac snap i) kis (r, w))))
     = findShipmentById j (w_shipments w)"
proof (induction kis arbitrary: r w)
  case (Cons ki kis)
  obtain k i where ki: "ki = (k, i)" by (cases ki)
  obtain r' w' where b: "bulkStep (en k) st org ac snap i (r, w) = (r', w')"
    by (cases "bulkStep (en k) st org ac snap i (r, w)")
  have "findShipmentById j (w_shipments w') = findShipmentById j (w_shipments w)"
    using Cons.prems ki b bulkStep_other[of j i "en k" st org ac snap r w]
      bulkStep_shipments[of "en k" st org ac snap i r w]
    by (cases "j = i") (auto split: if_splits)
  then show ?case using Cons.IH[of r' w'] Cons.prems b ki by auto
qed simp

lemma find_snapshot:
  assumes "distinct (map sh_id xs)" and "j \<in> ids"
  shows "List.find (\<lambda>sh. sh_id sh = j) (findAll shipmentAlive (\<lambda>sh. sh_id sh \<in> ids) xs) = findShipmentById j xs"
  using assms unfolding shipments.find_spec findAll_def by (induction xs) auto

text \<open>
  A shipment that is not in the request, or that belongs to neither of the caller's sides, is left
  as it is.
\<close>

lemma bulk_other_orgs:
  assumes "findShipmentById j (w_shipments w) = Some sh" and "distinct (map sh_id (w_shipments w))"
    and "sh_enterpriseId sh \<noteq> org" and "sh_logisticsId sh \<noteq> org"
  shows "findShipmentById j (w_shipments (snd (bulkUpdateShipmentStatusService en ids st org ac w))) = Some sh"
proof -
  let ?snap = "findAll shipmentAlive (\<lambda>sh. sh_id sh \<in> set ids) (w_shipments w)"
  have "\<not> bulkAccepts st org ?snap j \<or> j \<notin> set ids"
    using assms find_snapshot[OF assms(2), of j "set ids"] by (auto simp: bulkAccepts_def)
  then have "j \<notin> snd ` set (zip [0..<length ids] ids) \<or> \<not> bulkAccepts st org ?snap j"
    by (auto dest: set_zip_rightD)
  from bulk_fold_other[OF this] show ?thesis
    using assms(1) by (simp add: bulkUpdateShipmentStatusService_def Let_def)
qed

text \<open>With distinct ids the snapshot is still current when a shipment's turn comes.\<close>

lemma bulk_fold_wf:
  assumes "distinct (map snd kis)" and "wf_shipments (w_shipments w)"
    and "\<And>i. i \<in> snd ` set kis \<Longrightarrow> List.find (\<lambda>sh. sh_id sh = i) snap = findShipmentById i (w_shipments w)"
  shows "wf_shipments (w_shipments (snd (fold (\<lambda>(k, i). bulkStep (en k) st org ac snap i) kis (r, w))))"
  using assms
proof (induction kis arbitrary: r w)
  case (Cons ki kis)
  obtain k i where ki: "ki = (k, i)" by (cases ki)
  obtain r' w' where b: "bulkStep (en k) st org ac snap i (r, w) = (r', w')"
    by (cases "bulkStep (en k) st org ac snap i (r, w)")
  have w': "w_shipments w' = w_shipments (snd (bulkStep (en k) st org ac snap i (r, w)))" using b by simp
  have cur: "List.find (\<lambda>sh. sh_id sh = i) snap = findShipmentById i (w_shipments w)"
    using Cons.prems(3) ki by auto
  have "wf_shipments (w_shipments w')"
  proof (cases "bulkAccepts st org snap i")
    case True
    have "consistent (addMilestone st (statusMilestone (en k) (en_now (en k) 0) ac st) (en_now (en k) 1) sh)"
      if sh: "findShipmentById i (w_shipments w) = Some sh" for sh
    proof -
      have "st \<in> set (ALLOWED_TRANSITIONS (sh_status sh))" using True cur sh by (auto simp: bulkAccepts_def)
      moreover have "consistent sh"
        using shipments.find_sound[OF sh] Cons.prems(2) by (auto simp: wf_shipments_def)
      ultimately show ?thesis by (simp add: consistent_step)
    qed
    then show ?thesis
      unfolding w' bulkStep_shipments using Cons.prems(2) by (auto intro!: update_wf_shipments)
  next
    case False
    then show ?thesis unfolding w' bulkStep_shipments using Cons.prems(2) by simp
  qed
  moreover have "List.find (\<lambda>sh. sh_id sh = j) snap = findShipmentById j (w_shipments w')"
    if "j \<in> snd ` set kis" for j
  proof -
    have "j \<noteq> i" using that Cons.prems(1) ki by auto
    then show ?thesis unfolding w' using Cons.prems(3) that bulkStep_other by auto
  qed
  ultimately show ?case using Cons.IH[of w' r'] Cons.prems(1) b ki by simp
qed simp

lemma bulk_keeps_wf:
  assumes "distinct ids" and "wf_shipments (w_shipments w)"
  shows "wf_shipments (w_shipments (snd (bulkUpdateShipmentStatusService en ids st org ac w)))"
proof -
  have d: "distinct (map snd (zip [0..<length ids] ids))" using assms(1) by simp
  have "List.find (\<lambda>sh. sh_id sh = i) (findAll shipmentAlive (\<lambda>sh. sh_id sh \<in> set ids) (w_shipments w))
      = findShipmentById i (w_shipments w)" if "i \<in> snd ` set (zip [0..<length ids] ids)" for i
    using that assms(2) by (intro find_snapshot) (auto simp: wf_shipments_def dest: set_zip_rightD)
  from bulk_fold_wf[OF d assms(2) this] show ?thesis
    by (simp add: bulkUpdateShipmentStatusService_def Let_def)
qed

text \<open>
  A repeated id is checked twice against the same snapshot: the same status is stored, and its
  milestone pushed, twice, so the document leaves the lifecycle.
\<close>

lemma bulkStep_accepts:
  assumes "bulkAccepts st org snap i" and "en_updateUp env i" and "findShipmentById i (w_shipments w) = Some sh"
  shows "findShipmentById i (w_shipments (snd (bulkStep env st org ac snap i (r, w))))
    = Some (updatedDoc env st ac sh)"
proof -
  have "shipmentAlive sh" using shipments.find_sound[OF assms(3)] by simp
  then have "findShipmentById i (snd (findShipmentAndUpdate i
       (addMilestone st (statusMilestone env (en_now env 0) ac st) (en_now env 1)) (w_shipments w)))
     = Some (addMilestone st (statusMilestone env (en_now env 0) ac st) (en_now env 1) sh)"
    using assms(3) by (intro shipments.read_own_write) (simp_all add: shipmentAlive_def)
  then show ?thesis using assms(1,2) by (simp add: bulkStep_shipments updatedDoc_def)
qed

lemma bulk_repeated_id:
  assumes sh: "findShipmentById i (w_shipments w) = Some sh" and d: "distinct (map sh_id (w_shipments w))"
    and own: "sh_enterpriseId sh = org" and t: "st \<in> set (ALLOWED_TRANSITIONS (sh_status sh))"
    and up: "\<And>k. en_updateUp (en k) i"
  shows "findShipmentById i (w_shipments (snd (bulkUpdateShipmentStatusService en [i, i] st org ac w)))
    = Some (updatedDoc (en 1) st ac (updatedDoc (en 0) st ac sh))"
proof -
  let ?snap = "findAll shipmentAlive (\<lambda>sh. sh_id sh \<in> {i}) (w_shipments w)"
  have acc: "bulkAccepts st org ?snap i"
    using find_snapshot[OF d, of i "{i}"] sh own t by (simp add: bulkAccepts_def)
  define r0 :: bulkResult where "r0 = \<lparr>br_updated = 0, br_failed = []\<rparr>"
  obtain r1 w1 where b1: "bulkStep (en 0) st org ac ?snap i (r0, w) = (r1, w1)"
    by (cases "bulkStep (en 0) st org ac ?snap i (r0, w)")
  have "findShipmentById i (w_shipments w1) = Some (updatedDoc (en 0) st ac sh)"
    using bulkStep_accepts[OF acc up sh, of 0 ac r0] b1 by simp
  from bulkStep_accepts[OF acc up this, of 1 ac r1]
  have "findShipmentById i (w_shipments (snd (bulkStep (en 1) st org ac ?snap i (r1, w1))))
      = Some (updatedDoc (en 1) st ac (updatedDoc (en 0) st ac sh))" .
  moreover have "[0..<2] = [0::nat, 1]" by (simp add: upt_rec)
  ultimately show ?thesis
    using b1 by (simp add: bulkUpdateShipmentStatusService_def Let_def r0_def numeral_2_eq_2)
qed

lemma repeated_inconsistent:
  "\<not> consistent (updatedDoc e1 st ac (updatedDoc e0 st ac sh))"
proof
  assume "consistent (updatedDoc e1 st ac (updatedDoc e0 st ac sh))"
  then obtain hs where l: "lifecycle CREATED hs"
    and m: "map ms_name (sh_milestones sh) @ [status_str st, status_str st] = map status_str hs"
    by (auto simp: consistent_def history_def updatedDoc_def)
  have "distinct (map status_str hs)"
    using lifecycle_distinct[OF l] by (simp add: distinct_map inj_on_def)
  then show False using m by (metis distinct_append distinct_length_2_or_more)
qed

text \<open>
  What a consistent history can look like: no status occurs twice, settlement comes after
  delivery, a delivered shipment is never cancelled, and there are at most eight milestones.
\<close>

lemma history_shape:
  assumes "history sh hs"
  shows "distinct (CREATED # hs) \<and> length (sh_milestones sh) \<le> 8
     \<and> (SETTLEMENT_INITIATED \<in> set hs \<or> SETTLEMENT_COMPLETED \<in> set hs \<longrightarrow> DELIVERED \<in> set hs)
     \<and> (DELIVERED \<in> set hs \<longrightarrow> CANCELLED \<notin> set hs)"
proof -
  have l: "lifecycle CREATED hs" using assms by (simp add: history_def)
  show ?thesis
    using lifecycle_distinct[OF l] consistent_terminal_length[OF assms] settled_via_delivered[OF l]
      delivered_not_cancelled[OF l] by auto
qed

end
