(* ===== verification/Shipment_Services.thy ===== *)
theory Shipment_Services
  imports Shipment_Updates
begin

text \<open>
  The other services of \<open>src/src/modules/shipments\<close>: creation, metadata, proof of delivery,
  disputes, documents, photos, deletion and the access check of \<open>getShipmentByIdService\<close> with
  \<open>isAuthorizedForShipment\<close> (\<open>src/src/infra/socket/shipmentRooms.ts\<close>), with the file guards of
  the controller.
\<close>

section \<open>Access\<close>

datatype userRole = SUPER_ADMIN | ADMIN | MANAGER | DRIVER | VIEWER | CUSTOMER

definition isAuthorizedForShipment :: "string \<Rightarrow> string option \<Rightarrow> shipment list \<Rightarrow> bool" where
  "isAuthorizedForShipment shipmentId organizationId xs =
     (if shipmentId = [] \<or> \<not> truthy organizationId then False
      else case findShipmentById shipmentId xs of
          None \<Rightarrow> False
        | Some sh \<Rightarrow> sh_enterpriseId sh = the organizationId \<or> sh_logisticsId sh = the organizationId)"

record accessContext =
  cx_organizationId :: "string option"
  cx_role :: "userRole option"

definition getShipmentByIdService :: "string \<Rightarrow> accessContext \<Rightarrow> shipment list \<Rightarrow> shipment result" where
  "getShipmentByIdService i cx xs =
     (case findShipmentById i xs of
        None \<Rightarrow> throwApp 404 ''Shipment not found'' (ErrorCodes SHIPMENT_NOT_FOUND)
      | Some sh \<Rightarrow>
          (if cx_role cx = Some SUPER_ADMIN then Inr sh
           else if \<not> truthy (cx_organizationId cx)
           then throwApp 403 ''Forbidden: insufficient access to shipment'' (ErrorCodes FORBIDDEN)
           else if \<not> isAuthorizedForShipment i (cx_organizationId cx) xs
           then throwApp 403 ''Forbidden: insufficient access to shipment'' (ErrorCodes FORBIDDEN)
           else Inr sh))"

lemma getShipmentById_access:
  assumes "getShipmentByIdService i cx xs = Inr sh" and "i \<noteq> []"
  shows "findShipmentById i xs = Some sh
    \<and> (cx_role cx = Some SUPER_ADMIN
       \<or> cx_organizationId cx = Some (sh_enterpriseId sh) \<or> cx_organizationId cx = Some (sh_logisticsId sh))"
  using assms
  by (cases "cx_organizationId cx")
    (auto simp: getShipmentByIdService_def isAuthorizedForShipment_def split: option.splits if_splits)

lemma getShipmentById_grants_admin:
  "findShipmentById i xs = Some sh \<Longrightarrow> cx_role cx = Some SUPER_ADMIN \<Longrightarrow> getShipmentByIdService i cx xs = Inr sh"
  by (simp add: getShipmentByIdService_def)

lemma getShipmentById_grants_side:
  "findShipmentById i xs = Some sh \<Longrightarrow> i \<noteq> [] \<Longrightarrow> org \<noteq> [] \<Longrightarrow> cx_organizationId cx = Some org
   \<Longrightarrow> sh_enterpriseId sh = org \<or> sh_logisticsId sh = org \<Longrightarrow> getShipmentByIdService i cx xs = Inr sh"
  by (simp add: getShipmentByIdService_def isAuthorizedForShipment_def)

section \<open>Creation\<close>

record createInput =
  cr_trackingNumber :: "string option"
  cr_origin :: string
  cr_destination :: string
  cr_enterpriseId :: string
  cr_logisticsId :: string
  cr_offChainMetadata :: "jval option"
  cr_actorUserId :: "string option"

text \<open>
  \<open>issues\<close> are the messages of the schema validation the driver runs on the new document (empty:
  it is valid). The unique index on \<open>trackingNumber\<close> also covers soft-deleted documents.
\<close>

definition newShipment :: "env \<Rightarrow> createInput \<Rightarrow> string \<Rightarrow> shipment" where
  "newShipment env input trackingNumber =
     \<lparr>sh_id = en_fresh env 0, sh_trackingNumber = trackingNumber, sh_origin = cr_origin input,
      sh_destination = cr_destination input, sh_enterpriseId = cr_enterpriseId input,
      sh_logisticsId = cr_logisticsId input, sh_status = CREATED, sh_priority = STANDARD,
      sh_expectedDelivery = None, sh_milestones = [], sh_offChainMetadata = cr_offChainMetadata input,
      sh_stellarTokenId = None, sh_stellarTxHash = None, sh_deliveryProof = None,
      sh_documents = [], sh_photos = [], sh_disputes = [],
      sh_createdAt = en_now env 0, sh_updatedAt = en_now env 0, sh_deletedAt = None\<rparr>"

definition createShipmentService ::
  "env \<Rightarrow> string list \<Rightarrow> createInput \<Rightarrow> world \<Rightarrow> shipment result \<times> world" where
  "createShipmentService env issues input w =
     (let trackingNumber = (if truthy (cr_trackingNumber input) then the (cr_trackingNumber input)
                            else ''NVN-'' @ nat_str (en_random env));
          sh = newShipment env input trackingNumber
      in if issues \<noteq> [] then (Inl (MongooseValidation issues), w)
         else if trackingNumber \<in> sh_trackingNumber ` set (w_shipments w)
         then (Inl (DuplicateKey (Some ''trackingNumber'')), w)
         else
           (let sh' = (case en_tokenize env (sh_id sh) of
                  Inl e \<Rightarrow> sh
                | Inr (tokenId, txHash) \<Rightarrow> sh\<lparr>sh_stellarTokenId := Some tokenId,
                       sh_stellarTxHash := Some txHash, sh_updatedAt := en_now env 1\<rparr>);
                w1 = w\<lparr>w_shipments := w_shipments w @ [sh']\<rparr>
            in (Inr sh', audit env (nullish (cr_actorUserId input) ''system'') SHIPMENT_CREATED (sh_id sh')
                  (en_now env 2)
                  [(''trackingNumber'', JStr (sh_trackingNumber sh')), (''origin'', JStr (sh_origin sh')),
                   (''destination'', JStr (sh_destination sh'))] w1)))"

definition patchShipmentService :: "env \<Rightarrow> objectId \<Rightarrow> jval option \<Rightarrow> world \<Rightarrow> shipment option \<times> world" where
  "patchShipmentService env i offChainMetadata w =
     (let (r, xs) = findShipmentAndUpdate i
            (\<lambda>sh. sh\<lparr>sh_offChainMetadata := (case offChainMetadata of None \<Rightarrow> sh_offChainMetadata sh | m \<Rightarrow> m),
                    sh_updatedAt := en_now env 0\<rparr>) (w_shipments w)
      in (r, w\<lparr>w_shipments := xs\<rparr>))"

text \<open>The new document is consistent, so creation keeps the collection well-formed.\<close>

lemma fresh_consistent: "sh_status sh = CREATED \<Longrightarrow> sh_milestones sh = [] \<Longrightarrow> consistent sh"
  by (auto simp: consistent_def history_def intro!: exI[of _ "[]"])

lemma createShipment_wf:
  assumes "wf_shipments (w_shipments w)" and "en_fresh env 0 \<notin> sh_id ` set (w_shipments w)"
  shows "wf_shipments (w_shipments (snd (createShipmentService env issues input w)))"
  using assms
  by (auto simp: createShipmentService_def Let_def wf_shipments_def newShipment_def
      intro!: fresh_consistent split: sum.splits)

lemma createShipment_tracking_unique:
  assumes "distinct (map sh_trackingNumber (w_shipments w))"
  shows "distinct (map sh_trackingNumber (w_shipments (snd (createShipmentService env issues input w))))"
  using assms by (auto simp: createShipmentService_def Let_def newShipment_def split: sum.splits)

section \<open>Uploads\<close>

record uploadedFile =
  uf_originalname :: string
  uf_mimetype :: string
  uf_size :: nat

text \<open>
  Key, upload and failure, as every upload handler starts. A failed upload is already an
  \<open>AppError\<close> and passes through.
\<close>

definition storeFile :: "env \<Rightarrow> uploadedFile \<Rightarrow> string \<Rightarrow> world \<Rightarrow> string result \<times> world" where
  "storeFile env file key w =
     (let (r, st) = uploadFileToStorage (en_storage env) (en_put env) (uf_mimetype file) key (w_storage w)
      in (r, w\<lparr>w_storage := st\<rparr>))"

definition shipmentNotFound :: "'a result" where
  "shipmentNotFound = throwApp 404 ''Shipment not found'' (ErrorCodes SHIPMENT_NOT_FOUND)"

record proofInput =
  px_recipientSignatureName :: "string option"
  px_notes :: "string option"
  px_actorUserId :: "string option"

definition proofBlock :: "env \<Rightarrow> objectId \<Rightarrow> shipment \<Rightarrow> string \<Rightarrow> proofInput \<Rightarrow> world \<Rightarrow> world" where
  "proofBlock env i sh proofUrl px w =
     (let canonical = canonicalOf i PROOF_SUBMITTED (px_actorUserId px) (en_now env 1)
            [(''proofUrl'', JStr proofUrl), (''recipientSignatureName'', undef_str (px_recipientSignatureName px))]
      in tryBlock env 0 (en_now env 2)
           \<lparr>li_shipmentId = i, li_milestoneEvent = Some PROOF_SUBMITTED, li_eventType = None,
            li_blockNumber = None, li_timestamp = None,
            li_shipmentReference = Some (sh_trackingNumber sh),
            li_dataHash = generateDataHash (en_sha256 env) canonical, li_canonicalPayload = None,
            li_transactionHash = sh_stellarTxHash sh, li_ledger = None, li_verified = None,
            li_actor = None,
            li_metadata = Some [(''proofUrl'', JStr proofUrl),
              (''recipientSignatureName'', undef_str (px_recipientSignatureName px)),
              (''canonical'', canonical)]\<rparr> w)"

definition uploadShipmentProofService ::
  "env \<Rightarrow> objectId \<Rightarrow> uploadedFile \<Rightarrow> proofInput \<Rightarrow> world \<Rightarrow> shipment result \<times> world" where
  "uploadShipmentProofService env i file px w =
     (case storeFile env file (generateProofKey (en_uuid env) i (uf_originalname file)) w of
        (Inl e, w1) \<Rightarrow> (Inl e, w1)
      | (Inr proofUrl, w1) \<Rightarrow>
          (case findShipmentAndUpdate i
                (\<lambda>sh. sh\<lparr>sh_deliveryProof := Some \<lparr>pr_url = Some proofUrl,
                            pr_recipientSignatureName = px_recipientSignatureName px,
                            pr_notes = px_notes px, pr_uploadedAt = Some (en_now env 0)\<rparr>,
                        sh_updatedAt := en_now env 0\<rparr>) (w_shipments w1) of
             (None, xs) \<Rightarrow> (shipmentNotFound, w1\<lparr>w_shipments := xs\<rparr>)
           | (Some sh, xs) \<Rightarrow>
               (let w2 = proofBlock env i sh proofUrl px (w1\<lparr>w_shipments := xs\<rparr>);
                    w3 = (if truthy (px_actorUserId px)
                          then audit env (the (px_actorUserId px)) PROOF_UPLOADED i (en_now env 3)
                                 [(''proofUrl'', JStr proofUrl),
                                  (''recipientSignatureName'', undef_str (px_recipientSignatureName px))] w2
                          else w2)
                in (Inr sh, w3))))"

record disputeInput =
  di_type :: disputeType
  di_description :: string
  di_actorUserId :: "string option"

primrec dispute_type_str :: "disputeType \<Rightarrow> string" where
  "dispute_type_str WRONG_GOODS = ''WRONG_GOODS''"
| "dispute_type_str DAMAGED = ''DAMAGED''"
| "dispute_type_str NOT_DELIVERED = ''NOT_DELIVERED''"
| "dispute_type_str PAYMENT_DISAGREEMENT = ''PAYMENT_DISAGREEMENT''"
| "dispute_type_str OTHER_DISPUTE = ''OTHER''"

definition createDisputeService ::
  "env \<Rightarrow> objectId \<Rightarrow> uploadedFile option \<Rightarrow> disputeInput \<Rightarrow> world \<Rightarrow> dispute result \<times> world" where
  "createDisputeService env i file d w =
     (case (case file of
              None \<Rightarrow> (Inr None, w)
            | Some f \<Rightarrow>
                (let (r, w1) = storeFile env f (generateDisputeEvidenceKey (en_uuid env) i
                       (''dispute-'' @ int_str (en_now env 0)) (uf_originalname f)) w
                 in (map_sum id Some r, w1))) of
        (Inl e, w1) \<Rightarrow> (Inl e, w1)
      | (Inr evidenceUrl, w1) \<Rightarrow>
          (case findShipmentById i (w_shipments w1) of
             None \<Rightarrow> (shipmentNotFound, w1)
           | Some sh \<Rightarrow>
               (let referenceNumber = ''DSP-'' @ nat_str (en_random env);
                    dsp = \<lparr>dp_referenceNumber = referenceNumber, dp_status = D_PENDING,
                           dp_type = di_type d, dp_description = di_description d,
                           dp_evidenceUrl = evidenceUrl, dp_createdAt = en_now env 1,
                           dp_updatedAt = en_now env 1\<rparr>;
                    upd = (\<lambda>sh. sh\<lparr>sh_disputes := sh_disputes sh @ [dsp], sh_updatedAt := en_now env 2\<rparr>);
                    w2 = w1\<lparr>w_shipments := saveShipment i upd (w_shipments w1)\<rparr>;
                    w3 = (if truthy (di_actorUserId d)
                          then audit env (the (di_actorUserId d)) DISPUTE_OPENED i (en_now env 3)
                                 [(''type'', JStr (dispute_type_str (di_type d))),
                                  (''referenceNumber'', JStr referenceNumber)] w2
                          else w2)
                in (Inr dsp, w3))))"

primrec document_type_str :: "documentType \<Rightarrow> string" where
  "document_type_str BILL_OF_LADING = ''BILL_OF_LADING''"
| "document_type_str CUSTOMS_DECLARATION = ''CUSTOMS_DECLARATION''"
| "document_type_str INSURANCE_CERTIFICATE = ''INSURANCE_CERTIFICATE''"
| "document_type_str PACKING_LIST = ''PACKING_LIST''"
| "document_type_str INVOICE = ''INVOICE''"
| "document_type_str OTHER_DOCUMENT = ''OTHER''"

definition uploadShipmentDocumentService ::
  "env \<Rightarrow> objectId \<Rightarrow> uploadedFile \<Rightarrow> documentType \<Rightarrow> string option \<Rightarrow> world
   \<Rightarrow> shipmentDocument result \<times> world" where
  "uploadShipmentDocumentService env i file docType userId w =
     (case storeFile env file (generateDocumentKey (en_uuid env) i (document_type_str docType) (uf_originalname file)) w of
        (Inl e, w1) \<Rightarrow> (Inl e, w1)
      | (Inr fileUrl, w1) \<Rightarrow>
          (case findShipmentById i (w_shipments w1) of
             None \<Rightarrow> (shipmentNotFound, w1)
           | Some sh \<Rightarrow>
               (let doc = \<lparr>sd_url = fileUrl, sd_fileName = uf_originalname file,
                           sd_mimeType = uf_mimetype file, sd_type = docType, sd_size = uf_size file,
                           sd_uploadedBy = userId, sd_uploadedAt = en_now env 0\<rparr>
                in (Inr doc, w1\<lparr>w_shipments := saveShipment i
                      (\<lambda>sh. sh\<lparr>sh_documents := sh_documents sh @ [doc], sh_updatedAt := en_now env 1\<rparr>)
                      (w_shipments w1)\<rparr>))))"

definition MAX_PHOTOS_PER_SHIPMENT :: nat where
  "MAX_PHOTOS_PER_SHIPMENT = 10"

definition uploadShipmentPhotoService ::
  "env \<Rightarrow> objectId \<Rightarrow> uploadedFile \<Rightarrow> string option \<Rightarrow> string option \<Rightarrow> world
   \<Rightarrow> shipmentPhoto result \<times> world" where
  "uploadShipmentPhotoService env i file caption userId w =
     (case storeFile env file (generatePhotoKey (en_uuid env) i (uf_originalname file)) w of
        (Inl e, w1) \<Rightarrow> (Inl e, w1)
      | (Inr fileUrl, w1) \<Rightarrow>
          (case findShipmentById i (w_shipments w1) of
             None \<Rightarrow> (shipmentNotFound, w1)
           | Some sh \<Rightarrow>
               (if MAX_PHOTOS_PER_SHIPMENT \<le> length (sh_photos sh)
                then (throwApp 400 (''Maximum '' @ nat_str MAX_PHOTOS_PER_SHIPMENT @ '' photos per shipment'')
                        (ErrorCodes PHOTO_LIMIT_EXCEEDED), w1)
                else
                  (let photo = \<lparr>sp_url = fileUrl, sp_fileName = uf_originalname file,
                         sp_mimeType = uf_mimetype file, sp_caption = caption, sp_size = uf_size file,
                         sp_uploadedBy = userId, sp_uploadedAt = en_now env 0\<rparr>
                   in (Inr photo, w1\<lparr>w_shipments := saveShipment i
                         (\<lambda>sh. sh\<lparr>sh_photos := sh_photos sh @ [photo], sh_updatedAt := en_now env 1\<rparr>)
                         (w_shipments w1)\<rparr>)))))"

section \<open>The file guards of the controller\<close>

definition DOCUMENT_MIME_TYPES :: "string list" where
  "DOCUMENT_MIME_TYPES = [''application/pdf'', ''image/jpeg'', ''image/png'', ''image/webp'']"

definition DOCUMENT_MAX_SIZE :: nat where
  "DOCUMENT_MAX_SIZE = 10 * 1024 * 1024"

definition PHOTO_MIME_TYPES :: "string list" where
  "PHOTO_MIME_TYPES = [''image/jpeg'', ''image/png'', ''image/webp'', ''image/heic'', ''image/heif'']"

definition PHOTO_MAX_SIZE :: nat where
  "PHOTO_MAX_SIZE = 5 * 1024 * 1024"

definition guardFile :: "string list \<Rightarrow> nat \<Rightarrow> uploadedFile option \<Rightarrow> uploadedFile result" where
  "guardFile mimeTypes maxSize file =
     (case file of
        None \<Rightarrow> throwApp 400 ''No file uploaded'' (ErrorCodes BAD_REQUEST)
      | Some f \<Rightarrow>
          (if uf_mimetype f \<notin> set mimeTypes
           then throwApp 415 (''Invalid MIME type. Allowed: '' @ join '', '' mimeTypes) (ErrorCodes INVALID_MIME_TYPE)
           else if maxSize < uf_size f
           then throwApp 413 (''File too large. Maximum size is '' @ nat_str (maxSize div (1024 * 1024)) @ ''MB'')
                  (ErrorCodes FILE_TOO_LARGE)
           else Inr f))"

definition uploadShipmentDocument ::
  "env \<Rightarrow> objectId \<Rightarrow> uploadedFile option \<Rightarrow> documentType \<Rightarrow> string option \<Rightarrow> world
   \<Rightarrow> shipmentDocument result \<times> world" where
  "uploadShipmentDocument env i file docType userId w =
     (case guardFile DOCUMENT_MIME_TYPES DOCUMENT_MAX_SIZE file of
        Inl e \<Rightarrow> (Inl e, w) | Inr f \<Rightarrow> uploadShipmentDocumentService env i f docType userId w)"

definition uploadShipmentPhoto ::
  "env \<Rightarrow> objectId \<Rightarrow> uploadedFile option \<Rightarrow> string option \<Rightarrow> string option \<Rightarrow> world
   \<Rightarrow> shipmentPhoto result \<times> world" where
  "uploadShipmentPhoto env i file caption userId w =
     (case guardFile PHOTO_MIME_TYPES PHOTO_MAX_SIZE file of
        Inl e \<Rightarrow> (Inl e, w) | Inr f \<Rightarrow> uploadShipmentPhotoService env i f caption userId w)"

definition uploadShipmentProof ::
  "env \<Rightarrow> objectId \<Rightarrow> uploadedFile option \<Rightarrow> proofInput \<Rightarrow> world \<Rightarrow> shipment result \<times> world" where
  "uploadShipmentProof env i file px w =
     (case file of None \<Rightarrow> (throwApp 400 ''No file uploaded'' (ErrorCodes BAD_REQUEST), w)
      | Some f \<Rightarrow> uploadShipmentProofService env i f px w)"

section \<open>Deletion\<close>

text \<open>\<open>updateMany\<close> has no soft-delete hook: rows that are already deleted get the new marker too.\<close>

definition deleteShipmentService :: "env \<Rightarrow> objectId \<Rightarrow> world \<Rightarrow> shipment option \<times> world" where
  "deleteShipmentService env i w =
     (case findShipmentAndUpdate i (\<lambda>sh. sh\<lparr>sh_deletedAt := Some (en_now env 0), sh_updatedAt := en_now env 0\<rparr>)
             (w_shipments w) of
        (None, xs) \<Rightarrow> (None, w\<lparr>w_shipments := xs\<rparr>)
      | (Some sh, xs) \<Rightarrow>
          (Some sh, w\<lparr>w_shipments := xs,
             w_anomalies := updateMany (\<lambda>a. am_shipmentId a = i)
               (\<lambda>a. a\<lparr>am_deletedAt := Some (en_now env 1)\<rparr>) (w_anomalies w),
             w_telemetry := updateMany (\<lambda>t. te_shipmentId t = i)
               (\<lambda>t. t\<lparr>te_deletedAt := Some (en_now env 2)\<rparr>) (w_telemetry w)\<rparr>))"

section \<open>What the services keep\<close>

text \<open>An update that leaves status and milestones alone keeps every document consistent.\<close>

lemma quiet_update_wf:
  assumes "wf_shipments xs" and "\<And>sh. sh_id (f sh) = sh_id sh"
    and "\<And>sh. sh_status (f sh) = sh_status sh" and "\<And>sh. sh_milestones (f sh) = sh_milestones sh"
  shows "wf_shipments (snd (findShipmentAndUpdate i f xs))"
proof (rule update_wf_shipments[OF assms(1,2)])
  fix sh assume "findShipmentById i xs = Some sh"
  then have "consistent sh" using assms(1) shipments.find_sound by (fastforce simp: wf_shipments_def)
  then show "consistent (f sh)" using assms(3,4) by (simp add: consistent_def history_def)
qed

lemma storeFile_shipments [simp]: "w_shipments (snd (storeFile env file key w)) = w_shipments w"
  by (simp add: storeFile_def case_prod_beta)

lemma storeFile_case: "storeFile env file key w = (r, w1) \<Longrightarrow> w_shipments w1 = w_shipments w"
  using storeFile_shipments[of env "file" key w] by simp

lemma proofBlock_shipments [simp]: "w_shipments (proofBlock env i sh u px w) = w_shipments w"
  by (simp add: proofBlock_def Let_def)

lemma uploadProof_shipments:
  "wf_shipments (w_shipments w) \<Longrightarrow> wf_shipments (w_shipments (snd (uploadShipmentProofService env i file px w)))"
proof -
  assume wf: "wf_shipments (w_shipments w)"
  have "wf_shipments xs" if "findShipmentAndUpdate i f (w_shipments w) = (r, xs)"
    "\<And>sh. sh_id (f sh) = sh_id sh" "\<And>sh. sh_status (f sh) = sh_status sh"
    "\<And>sh. sh_milestones (f sh) = sh_milestones sh" for f r xs
    using quiet_update_wf[OF wf that(2-4), of i] that(1) by simp
  then show ?thesis
    using wf by (fastforce simp: uploadShipmentProofService_def Let_def
        dest: storeFile_case split: prod.split sum.split option.split)
qed

lemma createDispute_wf:
  "wf_shipments (w_shipments w) \<Longrightarrow> wf_shipments (w_shipments (snd (createDisputeService env i file d w)))"
  by (auto simp: createDisputeService_def Let_def saveShipment_def case_prod_beta
      intro!: quiet_update_wf split: sum.split option.split)

lemma uploadDocument_wf:
  "wf_shipments (w_shipments w) \<Longrightarrow> wf_shipments (w_shipments (snd (uploadShipmentDocument env i file ty u w)))"
  by (auto simp: uploadShipmentDocument_def uploadShipmentDocumentService_def Let_def saveShipment_def
      intro!: quiet_update_wf dest: storeFile_case split: prod.split sum.split option.split)

lemma uploadPhoto_wf:
  "wf_shipments (w_shipments w) \<Longrightarrow> wf_shipments (w_shipments (snd (uploadShipmentPhoto env i file c u w)))"
  by (auto simp: uploadShipmentPhoto_def uploadShipmentPhotoService_def Let_def saveShipment_def
      intro!: quiet_update_wf dest: storeFile_case split: prod.split sum.split option.split)

lemma patchShipment_wf:
  "wf_shipments (w_shipments w) \<Longrightarrow> wf_shipments (w_shipments (snd (patchShipmentService env i m w)))"
  by (auto simp: patchShipmentService_def case_prod_beta intro!: quiet_update_wf)

lemma deleteShipment_shipments:
  "w_shipments (snd (deleteShipmentService env i w)) = snd (findShipmentAndUpdate i
     (\<lambda>sh. sh\<lparr>sh_deletedAt := Some (en_now env 0), sh_updatedAt := en_now env 0\<rparr>) (w_shipments w))"
  by (auto simp: deleteShipmentService_def split: prod.split option.split)

lemma deleteShipment_wf:
  "wf_shipments (w_shipments w) \<Longrightarrow> wf_shipments (w_shipments (snd (deleteShipmentService env i w)))"
  by (auto simp: deleteShipment_shipments intro!: quiet_update_wf)

section \<open>Photos\<close>

text \<open>No sequence of uploads takes a shipment beyond the limit.\<close>

definition photos_bounded :: "shipment list \<Rightarrow> bool" where
  "photos_bounded xs \<longleftrightarrow> (\<forall>sh\<in>set xs. length (sh_photos sh) \<le> MAX_PHOTOS_PER_SHIPMENT)"

lemma saveShipment_photos:
  assumes "photos_bounded xs"
    and "\<And>sh. sh \<in> set xs \<Longrightarrow> sh_id sh = i \<Longrightarrow> shipmentAlive sh \<Longrightarrow> length (sh_photos (f sh)) \<le> MAX_PHOTOS_PER_SHIPMENT"
  shows "photos_bounded (saveShipment i f xs)"
  using assms unfolding photos_bounded_def saveShipment_def findShipmentAndUpdate_def findOneAndUpdate_def
  by (blast dest: update_first_set)

lemma uploadPhoto_bounded:
  assumes "photos_bounded (w_shipments w)" and "distinct (map sh_id (w_shipments w))"
  shows "photos_bounded (w_shipments (snd (uploadShipmentPhotoService env i file c u w)))"
proof (cases "storeFile env file (generatePhotoKey (en_uuid env) i (uf_originalname file)) w")
  case (Pair r w1)
  have w1: "w_shipments w1 = w_shipments w" using storeFile_case[OF Pair] .
  have "length (sh_photos sh) < MAX_PHOTOS_PER_SHIPMENT"
    if "findShipmentById i (w_shipments w) = Some d" "length (sh_photos d) < MAX_PHOTOS_PER_SHIPMENT"
      "sh \<in> set (w_shipments w)" "sh_id sh = i" "shipmentAlive sh" for sh d
    using that shipments.find_complete[OF assms(2), of sh] by simp
  then have "photos_bounded (saveShipment i (\<lambda>sh. sh\<lparr>sh_photos := sh_photos sh @ [p], sh_updatedAt := n\<rparr>) (w_shipments w))"
    if "findShipmentById i (w_shipments w) = Some d" "length (sh_photos d) < MAX_PHOTOS_PER_SHIPMENT" for p n d
    using that assms(1) by (intro saveShipment_photos) (auto simp: Suc_le_eq)
  then show ?thesis
    using assms(1) Pair w1
    by (auto simp: uploadShipmentPhotoService_def Let_def not_le split: sum.split option.split)
qed

text \<open>The limit is checked after the upload: the rejected photo stays in the object store.\<close>

lemma photo_limit_orphan:
  assumes "storeFile env file (generatePhotoKey (en_uuid env) i (uf_originalname file)) w = (Inr url, w1)"
    and "findShipmentById i (w_shipments w) = Some sh" and "MAX_PHOTOS_PER_SHIPMENT \<le> length (sh_photos sh)"
  shows "fst (uploadShipmentPhotoService env i file c u w)
      = throwApp 400 ''Maximum 10 photos per shipment'' (ErrorCodes PHOTO_LIMIT_EXCEEDED)
    \<and> w_shipments (snd (uploadShipmentPhotoService env i file c u w)) = w_shipments w
    \<and> ss_objects (w_storage (snd (uploadShipmentPhotoService env i file c u w)))
      = ss_objects (w_storage w) @ [generatePhotoKey (en_uuid env) i (uf_originalname file)]"
proof -
  have "nat_str MAX_PHOTOS_PER_SHIPMENT = ''10''"
    by (simp add: MAX_PHOTOS_PER_SHIPMENT_def nat_str.simps digit_char_def char_of_def bit_0)
  moreover have "ss_objects (w_storage w1)
      = ss_objects (w_storage w) @ [generatePhotoKey (en_uuid env) i (uf_originalname file)]"
    using assms(1) upload_stored by (fastforce simp: storeFile_def split: prod.splits)
  ultimately show ?thesis
    using assms storeFile_case[OF assms(1)] by (simp add: uploadShipmentPhotoService_def)
qed

text \<open>What the guards let through.\<close>

lemma guardFile_ok:
  "guardFile ms mx file = Inr f \<longleftrightarrow> file = Some f \<and> uf_mimetype f \<in> set ms \<and> uf_size f \<le> mx"
  by (auto simp: guardFile_def split: option.splits if_splits)

section \<open>Deletion\<close>

text \<open>A deleted shipment is gone for every read, with all its telemetry and anomalies.\<close>

lemma deleteShipment_gone:
  assumes "distinct (map sh_id (w_shipments w))"
  shows "findShipmentById i (w_shipments (snd (deleteShipmentService env i w))) = None"
  unfolding deleteShipment_shipments
  by (rule shipments.deleted_is_gone[OF assms]) (simp_all add: shipmentAlive_def)

lemma deleteShipment_cascade:
  assumes "findShipmentById i (w_shipments w) = Some sh"
  shows "findAll anomalyAlive (\<lambda>a. am_shipmentId a = i) (w_anomalies (snd (deleteShipmentService env i w))) = []"
    and "findAll telemetryAlive (\<lambda>t. te_shipmentId t = i) (w_telemetry (snd (deleteShipmentService env i w))) = []"
    and "j \<noteq> i \<Longrightarrow> findAll anomalyAlive (\<lambda>a. am_shipmentId a = j) (w_anomalies (snd (deleteShipmentService env i w)))
      = findAll anomalyAlive (\<lambda>a. am_shipmentId a = j) (w_anomalies w)"
    and "j \<noteq> i \<Longrightarrow> findAll telemetryAlive (\<lambda>t. te_shipmentId t = j) (w_telemetry (snd (deleteShipmentService env i w)))
      = findAll telemetryAlive (\<lambda>t. te_shipmentId t = j) (w_telemetry w)"
proof -
  let ?f = "\<lambda>sh. sh\<lparr>sh_deletedAt := Some (en_now env 0), sh_updatedAt := en_now env 0\<rparr>"
  obtain sh' xs where f: "findShipmentAndUpdate i ?f (w_shipments w) = (Some sh', xs)"
    using shipments.update_result[of i ?f "w_shipments w"] assms
    by (cases "findShipmentAndUpdate i ?f (w_shipments w)") auto
  have e: "w_anomalies (snd (deleteShipmentService env i w)) = updateMany (\<lambda>a. am_shipmentId a = i)
        (\<lambda>a. a\<lparr>am_deletedAt := Some (en_now env 1)\<rparr>) (w_anomalies w)"
    "w_telemetry (snd (deleteShipmentService env i w)) = updateMany (\<lambda>t. te_shipmentId t = i)
        (\<lambda>t. t\<lparr>te_deletedAt := Some (en_now env 2)\<rparr>) (w_telemetry w)"
    unfolding deleteShipmentService_def f by simp_all
  have gone: "filter P (map (\<lambda>d. if Q d then g d else d) xs) = []"
    if "\<And>d. Q d \<Longrightarrow> \<not> P (g d)" "\<And>d. \<not> Q d \<Longrightarrow> \<not> P d" for P Q and g :: "'d \<Rightarrow> 'd" and xs
    using that by (induction xs) auto
  show "findAll anomalyAlive (\<lambda>a. am_shipmentId a = i) (w_anomalies (snd (deleteShipmentService env i w))) = []"
    "findAll telemetryAlive (\<lambda>t. te_shipmentId t = i) (w_telemetry (snd (deleteShipmentService env i w))) = []"
    unfolding e findAll_def updateMany_def
    by (rule gone; simp add: anomalyAlive_def telemetryAlive_def)+
  have kept: "filter P (map (\<lambda>d. if Q d then g d else d) xs) = filter P xs"
    if "\<And>d. Q d \<Longrightarrow> \<not> P d" "\<And>d. Q d \<Longrightarrow> \<not> P (g d)" for P Q and g :: "'d \<Rightarrow> 'd" and xs
    using that by (induction xs) auto
  show "j \<noteq> i \<Longrightarrow> findAll anomalyAlive (\<lambda>a. am_shipmentId a = j) (w_anomalies (snd (deleteShipmentService env i w)))
      = findAll anomalyAlive (\<lambda>a. am_shipmentId a = j) (w_anomalies w)"
    "j \<noteq> i \<Longrightarrow> findAll telemetryAlive (\<lambda>t. te_shipmentId t = j) (w_telemetry (snd (deleteShipmentService env i w)))
      = findAll telemetryAlive (\<lambda>t. te_shipmentId t = j) (w_telemetry w)"
    unfolding e findAll_def updateMany_def by (rule kept; simp)+
qed

text \<open>Nothing is deleted for an id that is not there.\<close>

lemma deleteShipment_missing:
  "findShipmentById i (w_shipments w) = None \<Longrightarrow> deleteShipmentService env i w = (None, w)"
  by (simp add: deleteShipmentService_def shipments.update_missing)

section \<open>The proof block\<close>

text \<open>
  The block of a proof upload commits to the proof's URL in its hash, but the transaction it cites
  is the one that tokenized the shipment when it was created.
\<close>

lemma proofBlock_written:
  assumes "en_ledgerUp env 0" and "en_oid env i = Inr i"
  shows "\<exists>b. w_blocks (proofBlock env i sh url px w) = w_blocks w @ [b]
     \<and> lb_milestoneEvent b = PROOF_SUBMITTED \<and> lb_shipmentId b = i
     \<and> lb_transactionHash b = keep_truthy (sh_stellarTxHash sh) \<and> lb_canonicalPayload b = None
     \<and> lb_dataHash b = keep_truthy (generateDataHash (en_sha256 env)
          (canonicalOf i PROOF_SUBMITTED (px_actorUserId px) (en_now env 1)
            [(''proofUrl'', JStr url), (''recipientSignatureName'', undef_str (px_recipientSignatureName px))]))"
  using assms by (simp add: proofBlock_def tryBlock_def createLedgerBlock_def Let_def)

text \<open>Read access is exact: the super administrator, and the two organizations on the shipment.\<close>

lemma shipment_access:
  assumes "i \<noteq> []"
  shows "getShipmentByIdService i cx xs = Inr sh \<longleftrightarrow> findShipmentById i xs = Some sh
     \<and> (cx_role cx = Some SUPER_ADMIN
        \<or> (\<exists>org. cx_organizationId cx = Some org \<and> org \<noteq> [] \<and> (sh_enterpriseId sh = org \<or> sh_logisticsId sh = org)))"
  using assms
  by (cases "cx_organizationId cx")
    (auto simp: getShipmentByIdService_def isAuthorizedForShipment_def throwApp_def split: option.splits if_splits)

text \<open>A deletion hides the shipment with its readings and anomalies, and nothing of another.\<close>

lemma deletion_cascades:
  assumes "findShipmentById i (w_shipments w) = Some sh" and "distinct (map sh_id (w_shipments w))" and "j \<noteq> i"
    and "w' = snd (deleteShipmentService env i w)"
  shows "findShipmentById i (w_shipments w') = None
     \<and> findAll anomalyAlive (\<lambda>a. am_shipmentId a = i) (w_anomalies w') = []
     \<and> findAll telemetryAlive (\<lambda>t. te_shipmentId t = i) (w_telemetry w') = []
     \<and> findAll anomalyAlive (\<lambda>a. am_shipmentId a = j) (w_anomalies w') = findAll anomalyAlive (\<lambda>a. am_shipmentId a = j) (w_anomalies w)
     \<and> findAll telemetryAlive (\<lambda>t. te_shipmentId t = j) (w_telemetry w') = findAll telemetryAlive (\<lambda>t. te_shipmentId t = j) (w_telemetry w)"
  unfolding assms(4)
  using deleteShipment_gone[OF assms(2)] deleteShipment_cascade(1,2)[OF assms(1)]
    deleteShipment_cascade(3,4)[OF assms(1,3)] by simp

end
