(* ===== verification/Shipment_System.thy ===== *)
theory Shipment_System
  imports Shipment_Services
begin

text \<open>
  The shipment services together. \<open>evolve\<close> is the abstract specification of a collection of
  shipments: a new document enters at \<open>CREATED\<close>, and one live document at a time changes, either
  without touching its status and milestones or along one allowed transition that it records as a
  milestone. Every operation of the component refines a sequence of such changes, so what holds
  for \<open>evolve\<close> holds for every interleaving of the operations.
\<close>

section \<open>The abstract collection\<close>

definition sameIdentity :: "shipment \<Rightarrow> shipment \<Rightarrow> bool" where
  "sameIdentity sh sh' \<longleftrightarrow> sh_id sh' = sh_id sh \<and> sh_trackingNumber sh' = sh_trackingNumber sh
     \<and> sh_enterpriseId sh' = sh_enterpriseId sh \<and> sh_logisticsId sh' = sh_logisticsId sh"

definition docStep :: "shipment \<Rightarrow> shipment \<Rightarrow> bool" where
  "docStep sh sh' \<longleftrightarrow>
     (length (sh_photos sh') \<le> length (sh_photos sh) \<or> length (sh_photos sh') \<le> MAX_PHOTOS_PER_SHIPMENT)
     \<and> (sh_status sh' = sh_status sh \<and> sh_milestones sh' = sh_milestones sh
        \<or> sh_status sh' \<in> set (ALLOWED_TRANSITIONS (sh_status sh))
          \<and> (\<exists>m. sh_milestones sh' = sh_milestones sh @ [m] \<and> ms_name m = status_str (sh_status sh')))"

inductive evolve :: "shipment list \<Rightarrow> shipment list \<Rightarrow> bool" where
  evolve_create: "sh_status x = CREATED \<Longrightarrow> sh_milestones x = [] \<Longrightarrow> sh_photos x = []
    \<Longrightarrow> sh_id x \<notin> sh_id ` set xs \<Longrightarrow> sh_trackingNumber x \<notin> sh_trackingNumber ` set xs
    \<Longrightarrow> evolve xs (xs @ [x])"
| evolve_update: "(\<And>sh. sameIdentity sh (f sh)) \<Longrightarrow> (\<And>sh. findShipmentById i xs = Some sh \<Longrightarrow> docStep sh (f sh))
    \<Longrightarrow> evolve xs (snd (findShipmentAndUpdate i f xs))"

definition shipments_ok :: "shipment list \<Rightarrow> bool" where
  "shipments_ok xs \<longleftrightarrow> wf_shipments xs \<and> distinct (map sh_trackingNumber xs) \<and> photos_bounded xs"

lemma docStep_consistent: "docStep sh sh' \<Longrightarrow> consistent sh \<Longrightarrow> consistent sh'"
proof -
  assume d: "docStep sh sh'" and c: "consistent sh"
  then obtain hs where h: "history sh hs" by (auto simp: consistent_def)
  have "history sh' hs \<or> history sh' (hs @ [sh_status sh'])"
    using d h by (auto simp: docStep_def history_def lifecycle_append transition_iff)
  then show ?thesis by (auto simp: consistent_def)
qed

lemma updated_member:
  assumes "x \<in> set (snd (findShipmentAndUpdate i f xs))" and "distinct (map sh_id xs)"
  shows "x \<in> set xs \<or> (\<exists>sh. findShipmentById i xs = Some sh \<and> x = f sh)"
  using update_first_set[OF assms(1)[unfolded findShipmentAndUpdate_def findOneAndUpdate_def]]
    shipments.find_complete[OF assms(2)] by auto

lemma evolve_ok:
  assumes "evolve xs ys" and "shipments_ok xs"
  shows "shipments_ok ys"
  using assms
proof induction
  case (evolve_create x xs)
  then show ?case
    by (auto simp: shipments_ok_def wf_shipments_def photos_bounded_def intro: fresh_consistent)
next
  case (evolve_update f i xs)
  let ?ys = "snd (findShipmentAndUpdate i f xs)"
  have keys: "map sh_id ?ys = map sh_id xs" "map sh_trackingNumber ?ys = map sh_trackingNumber xs"
    using evolve_update(1) unfolding findShipmentAndUpdate_def findOneAndUpdate_def sameIdentity_def
    by (simp_all add: update_first_keys)
  have "consistent x \<and> length (sh_photos x) \<le> MAX_PHOTOS_PER_SHIPMENT" if "x \<in> set ?ys" for x
    using updated_member[OF that] evolve_update(2,3) shipments.find_sound docStep_consistent
    by (fastforce simp: shipments_ok_def wf_shipments_def photos_bounded_def docStep_def)
  then show ?case
    using evolve_update(3) keys by (simp add: shipments_ok_def wf_shipments_def photos_bounded_def)
qed

text \<open>One change moves a live document along the lifecycle or leaves its status alone.\<close>

lemma evolve_status:
  assumes "evolve xs ys" and "shipments_ok xs"
    and "findShipmentById i xs = Some sh" and "findShipmentById i ys = Some sh'"
  shows "sh_status sh' = sh_status sh \<or> transition (sh_status sh) (sh_status sh')"
  using assms
proof induction
  case (evolve_create x xs)
  then have "findShipmentById i (xs @ [x]) = Some sh"
    by (simp add: findShipmentById_def findOne_def find_append)
  then show ?case using evolve_create by simp
next
  case (evolve_update f j xs)
  have k: "sh_id (f s) = sh_id s" for s using evolve_update(1) by (simp add: sameIdentity_def)
  show ?case
  proof (cases "i = j")
    case False
    then show ?thesis using shipments.write_frame[of f i j xs] k evolve_update by simp
  next
    case True
    have "distinct (map sh_id xs)" using evolve_update(3) by (simp add: shipments_ok_def wf_shipments_def)
    have "sh' = f sh"
      using shipments.read_after[OF \<open>distinct _\<close> k, of j sh] evolve_update True by (simp split: if_splits)
    then show ?thesis
      using evolve_update(2)[of sh] evolve_update(4) \<open>i = j\<close> by (auto simp: docStep_def transition_iff)
  qed
qed

text \<open>An id that is gone stays gone.\<close>

definition tombstone :: "objectId \<Rightarrow> shipment list \<Rightarrow> bool" where
  "tombstone i xs \<longleftrightarrow> i \<in> sh_id ` set xs \<and> findShipmentById i xs = None"

lemma evolve_tombstone:
  assumes "evolve xs ys" and "tombstone i xs"
  shows "tombstone i ys"
  using assms
proof induction
  case (evolve_create x xs)
  then show ?case by (auto simp: tombstone_def findShipmentById_def findOne_def find_append)
next
  case (evolve_update f j xs)
  have k: "sh_id (f s) = sh_id s" for s using evolve_update(1) by (simp add: sameIdentity_def)
  have "sh_id ` set (snd (findShipmentAndUpdate j f xs)) = sh_id ` set xs"
    using shipments.update_ids[of f j xs, OF k] by (metis set_map)
  moreover have "findShipmentById i (snd (findShipmentAndUpdate j f xs)) = None"
    using shipments.write_frame[of f i j xs] shipments.update_missing[of j xs f] k evolve_update(3)
    by (cases "i = j") (simp_all add: tombstone_def)
  ultimately show ?case using evolve_update(3) by (simp add: tombstone_def)
qed

section \<open>Any number of changes\<close>

lemma evolves_ok: "evolve\<^sup>*\<^sup>* xs ys \<Longrightarrow> shipments_ok xs \<Longrightarrow> shipments_ok ys"
  by (induction rule: rtranclp_induct) (auto intro: evolve_ok)

lemma evolves_tombstone: "evolve\<^sup>*\<^sup>* xs ys \<Longrightarrow> tombstone i xs \<Longrightarrow> tombstone i ys"
  by (induction rule: rtranclp_induct) (auto intro: evolve_tombstone)

lemma evolve_ids: "evolve xs ys \<Longrightarrow> sh_id ` set xs \<subseteq> sh_id ` set ys"
proof (induction rule: evolve.induct)
  case (evolve_update f j xs)
  then have "map sh_id (snd (findShipmentAndUpdate j f xs)) = map sh_id xs"
    by (intro shipments.update_ids) (simp add: sameIdentity_def)
  then show ?case by (metis set_map order_refl)
qed auto

lemma evolves_ids: "evolve\<^sup>*\<^sup>* xs ys \<Longrightarrow> sh_id ` set xs \<subseteq> sh_id ` set ys"
proof (induction rule: rtranclp_induct)
  case (step ys zs)
  from step.IH evolve_ids[OF step.hyps(2)] show ?case by (rule subset_trans)
qed simp

lemma evolves_status:
  assumes "evolve\<^sup>*\<^sup>* xs ys" and "shipments_ok xs"
    and "findShipmentById i xs = Some sh" and "findShipmentById i ys = Some sh'"
  shows "transition\<^sup>*\<^sup>* (sh_status sh) (sh_status sh')"
  using assms(1,4)
proof (induction arbitrary: sh' rule: rtranclp_induct)
  case base
  then show ?case using assms(3) by simp
next
  case (step ys zs)
  have ok: "shipments_ok ys" using evolves_ok step.hyps(1) assms(2) by blast
  have "\<not> tombstone i ys"
  proof
    assume "tombstone i ys"
    from evolve_tombstone[OF step.hyps(2) this] step.prems show False by (simp add: tombstone_def)
  qed
  moreover have "i \<in> sh_id ` set ys"
    using evolves_ids[OF step.hyps(1)] shipments.find_sound[OF assms(3)] by auto
  ultimately have "findShipmentById i ys \<noteq> None" unfolding tombstone_def by blast
  then obtain s where s: "findShipmentById i ys = Some s" by blast
  then have "transition\<^sup>*\<^sup>* (sh_status sh) (sh_status s)" by (rule step.IH)
  moreover have "sh_status sh' = sh_status s \<or> transition (sh_status s) (sh_status sh')"
    using evolve_status[OF step.hyps(2) ok s step.prems] .
  ultimately show ?case by auto
qed

lemma evolve_quiet:
  assumes "\<And>sh. sameIdentity sh (f sh)" and "\<And>sh. sh_status (f sh) = sh_status sh"
    and "\<And>sh. sh_milestones (f sh) = sh_milestones sh" and "\<And>sh. sh_photos (f sh) = sh_photos sh"
  shows "evolve\<^sup>*\<^sup>* xs (snd (findShipmentAndUpdate i f xs))"
  using assms by (intro r_into_rtranclp evolve_update) (simp_all add: docStep_def)

lemma evolve_photos:
  assumes "\<And>sh. sameIdentity sh (f sh)" and "\<And>sh. sh_status (f sh) = sh_status sh"
    and "\<And>sh. sh_milestones (f sh) = sh_milestones sh"
    and "\<And>sh. findShipmentById i xs = Some sh \<Longrightarrow> length (sh_photos (f sh)) \<le> MAX_PHOTOS_PER_SHIPMENT"
  shows "evolve\<^sup>*\<^sup>* xs (snd (findShipmentAndUpdate i f xs))"
  using assms by (intro r_into_rtranclp evolve_update) (simp_all add: docStep_def)

section \<open>Every operation refines the abstract collection\<close>

named_theorems refines \<open>each operation is a sequence of abstract changes\<close>

lemma create_refines [refines]:
  assumes "en_fresh env 0 \<notin> sh_id ` set (w_shipments w)"
  shows "evolve\<^sup>*\<^sup>* (w_shipments w) (w_shipments (snd (createShipmentService env issues input w)))"
  using assms
  by (auto simp: createShipmentService_def Let_def newShipment_def
      intro!: r_into_rtranclp evolve_create split: sum.splits)

lemma addMilestone_frame [simp]:
  "sameIdentity sh (addMilestone st m n sh)" "sh_photos (addMilestone st m n sh) = sh_photos sh"
  by (simp_all add: addMilestone_def sameIdentity_def)

lemma milestone_evolves:
  assumes "\<And>sh. findShipmentById i xs = Some sh \<Longrightarrow> st \<in> set (ALLOWED_TRANSITIONS (sh_status sh))"
    and "ms_name m = status_str st"
  shows "evolve\<^sup>*\<^sup>* xs (snd (findShipmentAndUpdate i (addMilestone st m n) xs))"
  using assms by (intro r_into_rtranclp evolve_update) (simp_all add: docStep_def)

lemma update_refines [refines]:
  "evolve\<^sup>*\<^sup>* (w_shipments w) (w_shipments (snd (updateShipmentStatusService env i st ac w)))"
proof (cases "applies i st w")
  case (Some sh)
  then show ?thesis
    using applies_found[OF Some] by (auto simp: update_shipments saveShipment_def intro!: milestone_evolves)
qed (simp add: update_rejected)

lemma bulk_fold_refines:
  assumes "distinct (map snd kis)"
    and "\<And>i. i \<in> snd ` set kis \<Longrightarrow> List.find (\<lambda>sh. sh_id sh = i) snap = findShipmentById i (w_shipments w)"
  shows "evolve\<^sup>*\<^sup>* (w_shipments w)
    (w_shipments (snd (fold (\<lambda>(k, i). bulkStep (en k) st org ac snap i) kis (r, w))))"
  using assms
proof (induction kis arbitrary: r w)
  case (Cons ki kis)
  obtain k i where ki: "ki = (k, i)" by (cases ki)
  obtain r' w' where b: "bulkStep (en k) st org ac snap i (r, w) = (r', w')"
    by (cases "bulkStep (en k) st org ac snap i (r, w)")
  have w': "w_shipments w' = w_shipments (snd (bulkStep (en k) st org ac snap i (r, w)))" using b by simp
  have cur: "List.find (\<lambda>sh. sh_id sh = i) snap = findShipmentById i (w_shipments w)"
    using Cons.prems(2) ki by auto
  have "evolve\<^sup>*\<^sup>* (w_shipments w) (w_shipments w')"
    unfolding w' bulkStep_shipments using cur by (auto simp: bulkAccepts_def intro!: milestone_evolves)
  moreover have "List.find (\<lambda>sh. sh_id sh = j) snap = findShipmentById j (w_shipments w')"
    if "j \<in> snd ` set kis" for j
  proof -
    have "j \<noteq> i" using that Cons.prems(1) ki by auto
    then show ?thesis unfolding w' using Cons.prems(2) that bulkStep_other by auto
  qed
  ultimately show ?case using Cons.IH[of w' r'] Cons.prems(1) b ki by simp
qed simp

lemma bulk_refines [refines]:
  assumes "distinct ids" and "distinct (map sh_id (w_shipments w))"
  shows "evolve\<^sup>*\<^sup>* (w_shipments w)
    (w_shipments (snd (bulkUpdateShipmentStatusService en ids st org ac w)))"
proof -
  have d: "distinct (map snd (zip [0..<length ids] ids))" using assms(1) by simp
  have "List.find (\<lambda>sh. sh_id sh = i) (findAll shipmentAlive (\<lambda>sh. sh_id sh \<in> set ids) (w_shipments w))
      = findShipmentById i (w_shipments w)" if "i \<in> snd ` set (zip [0..<length ids] ids)" for i
    using that assms(2) by (intro find_snapshot) (auto dest: set_zip_rightD)
  from bulk_fold_refines[OF d this] show ?thesis
    by (simp add: bulkUpdateShipmentStatusService_def Let_def)
qed

lemma patch_refines [refines]:
  "evolve\<^sup>*\<^sup>* (w_shipments w) (w_shipments (snd (patchShipmentService env i m w)))"
  by (auto simp: patchShipmentService_def case_prod_beta sameIdentity_def intro!: evolve_quiet)

lemma proof_refines [refines]:
  "evolve\<^sup>*\<^sup>* (w_shipments w) (w_shipments (snd (uploadShipmentProofService env i file px w)))"
proof -
  have "evolve\<^sup>*\<^sup>* (w_shipments w) xs" if "findShipmentAndUpdate i f (w_shipments w) = (r, xs)"
    "\<And>sh. sameIdentity sh (f sh)" "\<And>sh. sh_status (f sh) = sh_status sh"
    "\<And>sh. sh_milestones (f sh) = sh_milestones sh" "\<And>sh. sh_photos (f sh) = sh_photos sh" for f r xs
    using evolve_quiet[OF that(2-5), of "w_shipments w" i] that(1) by simp
  then show ?thesis
    by (fastforce simp: uploadShipmentProofService_def Let_def sameIdentity_def
        dest: storeFile_case split: prod.split sum.split option.split)
qed

lemma dispute_refines [refines]:
  "evolve\<^sup>*\<^sup>* (w_shipments w) (w_shipments (snd (createDisputeService env i file d w)))"
  by (auto simp: createDisputeService_def Let_def saveShipment_def case_prod_beta sameIdentity_def
      intro!: evolve_quiet split: sum.split option.split)

lemma document_refines [refines]:
  "evolve\<^sup>*\<^sup>* (w_shipments w) (w_shipments (snd (uploadShipmentDocument env i file ty u w)))"
  by (auto simp: uploadShipmentDocument_def uploadShipmentDocumentService_def Let_def saveShipment_def
      sameIdentity_def intro!: evolve_quiet dest!: storeFile_case split: prod.split sum.split option.split)

lemma photo_refines [refines]:
  "evolve\<^sup>*\<^sup>* (w_shipments w) (w_shipments (snd (uploadShipmentPhoto env i file c u w)))"
  by (auto simp: uploadShipmentPhoto_def uploadShipmentPhotoService_def Let_def saveShipment_def
      sameIdentity_def intro!: evolve_photos
      dest!: storeFile_case split: prod.split sum.split option.split)

lemma delete_refines [refines]:
  "evolve\<^sup>*\<^sup>* (w_shipments w) (w_shipments (snd (deleteShipmentService env i w)))"
  by (auto simp: deleteShipment_shipments sameIdentity_def intro!: evolve_quiet)

section \<open>The component as a transition system\<close>

text \<open>
  One step is one call of one service, in any environment. Two calls are restricted: a new id is
  fresh, and a bulk update lists each id once (a repeated id is the subject of
  \<open>bulk_repeated_id\<close>).
\<close>

inductive shipment_step :: "world \<Rightarrow> world \<Rightarrow> bool" where
  step_create: "en_fresh env 0 \<notin> sh_id ` set (w_shipments w)
    \<Longrightarrow> shipment_step w (snd (createShipmentService env issues input w))"
| step_status: "shipment_step w (snd (updateShipmentStatusService env i st ac w))"
| step_bulk: "distinct ids \<Longrightarrow> shipment_step w (snd (bulkUpdateShipmentStatusService en ids st org ac w))"
| step_patch: "shipment_step w (snd (patchShipmentService env i m w))"
| step_proof: "shipment_step w (snd (uploadShipmentProofService env i file px w))"
| step_dispute: "shipment_step w (snd (createDisputeService env i ev d w))"
| step_document: "shipment_step w (snd (uploadShipmentDocument env i ev ty u w))"
| step_photo: "shipment_step w (snd (uploadShipmentPhoto env i ev c u w))"
| step_delete: "shipment_step w (snd (deleteShipmentService env i w))"

lemma shipment_step_refines:
  assumes "shipment_step w w'" and "shipments_ok (w_shipments w)"
  shows "evolve\<^sup>*\<^sup>* (w_shipments w) (w_shipments w')"
  using assms by induction (auto intro!: refines simp: shipments_ok_def wf_shipments_def)

lemma shipment_steps_refine:
  assumes "shipment_step\<^sup>*\<^sup>* w w'" and "shipments_ok (w_shipments w)"
  shows "evolve\<^sup>*\<^sup>* (w_shipments w) (w_shipments w')"
  using assms(1)
proof (induction rule: rtranclp_induct)
  case (step w1 w2)
  then have "shipments_ok (w_shipments w1)" using evolves_ok assms(2) by blast
  then show ?case using shipment_step_refines[OF step.hyps(2)] step.IH by simp
qed simp

section \<open>Ledger and payments under every step\<close>

lemma storeFile_frame [simp]:
  "w_blocks (snd (storeFile env file key w)) = w_blocks w"
  "w_payments (snd (storeFile env file key w)) = w_payments w"
  by (simp_all add: storeFile_def case_prod_beta)

lemma proofBlock_grows: "\<exists>bs. w_blocks (proofBlock env i sh u px w) = w_blocks w @ bs"
  unfolding proofBlock_def Let_def using tryBlock_grows by blast

lemma proofBlock_payments [simp]: "w_payments (proofBlock env i sh u px w) = w_payments w"
  by (simp add: proofBlock_def Let_def)

lemma bulkStep_blocks: "w_blocks (snd (bulkStep env st org ac snap i rw)) = w_blocks (snd rw)"
  by (cases rw) (auto simp: bulkStep_def Let_def tryRelease_def emitToShipment_def
      split: option.splits prod.splits sum.splits if_splits)

lemma bulk_fold_blocks:
  "w_blocks (snd (fold (\<lambda>(k, i). bulkStep (en k) st org ac snap i) kis rw)) = w_blocks (snd rw)"
  by (induction kis arbitrary: rw) (auto simp: bulkStep_blocks split: prod.split)

lemma tryRelease_wf:
  "wf_payments (w_payments w) \<Longrightarrow> wf_payments (w_payments (snd (snd (tryRelease env sh w))))"
  by (auto simp: tryRelease_def updatePaymentStatus_wf split: option.splits sum.splits)

lemma bulk_fold_payments:
  "wf_payments (w_payments (snd rw))
   \<Longrightarrow> wf_payments (w_payments (snd (fold (\<lambda>(k, i). bulkStep (en k) st org ac snap i) kis rw)))"
proof (induction kis arbitrary: rw)
  case (Cons ki kis)
  obtain r w where rw: "rw = (r, w)" by (cases rw)
  have "wf_payments (w_payments (snd (bulkStep (en (fst ki)) st org ac snap (snd ki) rw)))"
    using Cons.prems unfolding rw
    by (auto simp: bulkStep_def Let_def emitToShipment_def intro!: tryRelease_wf
        split: option.splits prod.splits sum.splits if_splits)
  then show ?case using Cons.IH by (simp add: case_prod_beta)
qed simp

lemma step_appends:
  assumes "shipment_step w w'"
  shows "\<exists>bs. w_blocks w' = w_blocks w @ bs"
  using assms
proof induction
  case (step_status w env i st ac)
  then show ?case by (rule update_ledger_append_only)
next
  case (step_proof w env i doc px)
  have grows: "\<exists>bs. w_blocks (proofBlock env i sh u px (w1\<lparr>w_shipments := xs\<rparr>)) = w_blocks w @ bs"
    if "w_blocks w1 = w_blocks w" for w1 sh u xs
    using proofBlock_grows[of env i sh u px "w1\<lparr>w_shipments := xs\<rparr>"] that by simp
  show ?case
    by (auto simp: uploadShipmentProofService_def Let_def case_prod_beta intro!: grows
        split: sum.split option.split)
qed (auto simp: createShipmentService_def bulkUpdateShipmentStatusService_def bulk_fold_blocks
    patchShipmentService_def createDisputeService_def uploadShipmentDocument_def uploadShipmentDocumentService_def
    uploadShipmentPhoto_def uploadShipmentPhotoService_def deleteShipmentService_def Let_def case_prod_beta
    split: sum.split option.split)

lemma step_wf_payments:
  assumes "shipment_step w w'" and "wf_payments (w_payments w)"
  shows "wf_payments (w_payments w')"
  using assms
proof induction
  case (step_status w env i st ac)
  then show ?case by (rule update_keeps_wf_payments)
next
  case (step_bulk ids w en st org ac)
  then show ?case unfolding bulkUpdateShipmentStatusService_def Let_def by (intro bulk_fold_payments) simp
qed (auto simp: createShipmentService_def
    patchShipmentService_def createDisputeService_def uploadShipmentDocument_def uploadShipmentDocumentService_def
    uploadShipmentPhoto_def uploadShipmentPhotoService_def deleteShipmentService_def uploadShipmentProofService_def
    Let_def case_prod_beta split: sum.split option.split)

lemma steps_append: "shipment_step\<^sup>*\<^sup>* w w' \<Longrightarrow> \<exists>bs. w_blocks w' = w_blocks w @ bs"
proof (induction rule: rtranclp_induct)
  case (step w1 w2)
  then show ?case using step_appends[OF step.hyps(2)] by auto
qed simp

lemma steps_wf_payments:
  "shipment_step\<^sup>*\<^sup>* w w' \<Longrightarrow> wf_payments (w_payments w) \<Longrightarrow> wf_payments (w_payments w')"
  by (induction rule: rtranclp_induct) (auto intro: step_wf_payments)

lemma one_step: "shipment_step w w' \<Longrightarrow> shipment_step\<^sup>*\<^sup>* w w'"
  by (rule r_into_rtranclp)

end
