(* ===== verification/Shipment_Lists.thy ===== *)
theory Shipment_Lists
  imports Shipment_Services "HOL-Library.Product_Lexorder"
begin

text \<open>
  The read side of \<open>src/src/modules/shipments/shipments.service.ts\<close>: the filtered listing with
  offset pages, the export with its limit and its CSV form, and the timeline with its cursor.
\<close>

section \<open>Filters\<close>

text \<open>
  The characters that \<open>/[.*+?^${}()|[\]\\]/g\<close> escapes, the escaping, and the case-insensitive
  search for a pattern that consists of literal and escaped characters only.
\<close>

definition regex_special :: "char \<Rightarrow> bool" where
  "regex_special c \<longleftrightarrow> c \<in> set ''.*+?^${}()|[]'' \<or> c = char_of (92::nat)"

definition escapeRegex :: "string \<Rightarrow> string" where
  "escapeRegex s = concat (map (\<lambda>c. if regex_special c then [char_of (92::nat), c] else [c]) s)"

fun regex_literal :: "string \<Rightarrow> string" where
  "regex_literal [] = []"
| "regex_literal [c] = [c]"
| "regex_literal (c # d # s) = (if c = char_of (92::nat) then d # regex_literal s else c # regex_literal (d # s))"

fun is_infix :: "string \<Rightarrow> string \<Rightarrow> bool" where
  "is_infix p [] = (p = [])"
| "is_infix p (c # s) = (take (length p) (c # s) = p \<or> is_infix p s)"

definition matchesRegexI :: "string \<Rightarrow> string \<Rightarrow> bool" where
  "matchesRegexI pat s = is_infix (toLowerCase (regex_literal pat)) (toLowerCase s)"

lemma regex_literal_escape: "regex_literal (escapeRegex s) = s"
proof (induction s)
  case Nil
  then show ?case by (simp add: escapeRegex_def)
next
  case (Cons c s)
  have plain: "regex_literal (c # t) = c # regex_literal t" if "c \<noteq> char_of (92::nat)" for t
    using that by (cases t) auto
  have "c \<noteq> char_of (92::nat)" if "\<not> regex_special c" using that by (auto simp: regex_special_def)
  then show ?case using Cons plain by (auto simp: escapeRegex_def)
qed

lemma escaped_match: "matchesRegexI (escapeRegex p) s = is_infix (toLowerCase p) (toLowerCase s)"
  by (simp add: matchesRegexI_def regex_literal_escape)

text \<open>
  The schema has no \<open>organizationId\<close> path, so no stored document has the field; the query keeps the
  condition (\<open>strictQuery\<close> is off by default in Mongoose 8).
\<close>

definition doc_organizationId :: "shipment \<Rightarrow> string option" where
  "doc_organizationId sh = None"

definition eqOpt :: "'a option \<Rightarrow> 'a option \<Rightarrow> bool" where
  "eqOpt cond field \<longleftrightarrow> cond = None \<or> cond = field"

definition inRange :: "millis option \<Rightarrow> millis option \<Rightarrow> millis \<Rightarrow> bool" where
  "inRange a b t \<longleftrightarrow> (case a of None \<Rightarrow> True | Some x \<Rightarrow> x \<le> t) \<and> (case b of None \<Rightarrow> True | Some y \<Rightarrow> t \<le> y)"

definition regexOpt :: "string option \<Rightarrow> string \<Rightarrow> bool" where
  "regexOpt cond field \<longleftrightarrow> (case keep_truthy cond of None \<Rightarrow> True | Some p \<Rightarrow> matchesRegexI (escapeRegex p) field)"

datatype shipmentSort = ByCreatedAt | ByPriority | ByExpectedDelivery

record listParams =
  lp_status :: "shipmentStatus list option"
  lp_priority :: "priority list option"
  lp_page_no :: int
  lp_limit :: int
  lp_origin :: "string option"
  lp_destination :: "string option"
  lp_trackingNumber :: "string option"
  lp_q :: "string option"
  lp_from :: "millis option"
  lp_to :: "millis option"
  lp_sortBy :: "shipmentSort option"
  lp_ascending :: bool
  lp_organizationId :: "string option"

text \<open>\<open>text\<close> is the service's full-text search.\<close>

definition listQuery :: "(string \<Rightarrow> shipment \<Rightarrow> bool) \<Rightarrow> listParams \<Rightarrow> shipment \<Rightarrow> bool" where
  "listQuery text p sh \<longleftrightarrow>
     eqOpt (keep_truthy (lp_organizationId p)) (doc_organizationId sh)
     \<and> (case lp_status p of None \<Rightarrow> True | Some ss \<Rightarrow> sh_status sh \<in> set ss)
     \<and> regexOpt (lp_trackingNumber p) (sh_trackingNumber sh)
     \<and> regexOpt (lp_origin p) (sh_origin sh) \<and> regexOpt (lp_destination p) (sh_destination sh)
     \<and> (case keep_truthy (lp_q p) of None \<Rightarrow> True | Some q \<Rightarrow> text q sh)
     \<and> inRange (lp_from p) (lp_to p) (sh_createdAt sh)
     \<and> (case lp_priority p of None \<Rightarrow> True | Some ps \<Rightarrow> sh_priority sh \<in> set ps)"

primrec priority_str :: "priority \<Rightarrow> string" where
  "priority_str URGENT = ''URGENT''"
| "priority_str STANDARD = ''STANDARD''"
| "priority_str ECONOMY = ''ECONOMY''"

definition date_rank :: "millis option \<Rightarrow> int \<times> int" where
  "date_rank d = (case d of None \<Rightarrow> (0, 0) | Some t \<Rightarrow> (1, t))"

text \<open>Without \<open>sortBy\<close> the direction applies to the tie-breaker only.\<close>

definition sortShipments :: "shipmentSort option \<Rightarrow> bool \<Rightarrow> shipment list \<Rightarrow> shipment list" where
  "sortShipments by asc xs = (case by of
     None \<Rightarrow> (if asc then sort_key (\<lambda>sh. (- sh_createdAt sh, sh_id sh)) xs
              else desc_by (created_key sh_createdAt sh_id) xs)
   | Some ByCreatedAt \<Rightarrow> directed asc (created_key sh_createdAt sh_id) xs
   | Some ByPriority \<Rightarrow> directed asc (\<lambda>sh. (priority_str (sh_priority sh), sh_id sh)) xs
   | Some ByExpectedDelivery \<Rightarrow> directed asc (\<lambda>sh. (date_rank (sh_expectedDelivery sh), sh_id sh)) xs)"

record listResult =
  lr_data :: "shipment list"
  lr_page :: int
  lr_limit :: int
  lr_total :: nat

definition getShipmentsService ::
  "(string \<Rightarrow> shipment \<Rightarrow> bool) \<Rightarrow> listParams \<Rightarrow> shipment list \<Rightarrow> listResult" where
  "getShipmentsService text p xs =
     (let query = listQuery text p
      in \<lparr>lr_data = offsetPage (sortShipments (lp_sortBy p) (lp_ascending p) (findAll shipmentAlive query xs))
                     (lp_page_no p) (lp_limit p),
          lr_page = lp_page_no p, lr_limit = lp_limit p,
          lr_total = countDocuments shipmentAlive query xs\<rparr>)"

lemma mset_directed [simp]: "mset (directed asc key xs) = mset xs"
  by (simp add: directed_def)

lemma mset_sortShipments [simp]: "mset (sortShipments by asc xs) = mset xs"
  by (auto simp: sortShipments_def split: option.split shipmentSort.split)

lemma length_sortShipments [simp]: "length (sortShipments by asc xs) = length xs"
  using mset_sortShipments mset_eq_length by blast

lemma set_sortShipments [simp]: "set (sortShipments by asc xs) = set xs"
  using mset_sortShipments mset_eq_setD by blast

text \<open>The pages tile the matching shipments: as many full pages as the total needs hold each once.\<close>

lemma list_pages_tile:
  assumes "0 < lp_limit p" and "lr_total (getShipmentsService text p xs) \<le> n * nat (lp_limit p)"
  shows "mset (concat (map (\<lambda>k. lr_data (getShipmentsService text (p\<lparr>lp_page_no := int k + 1\<rparr>) xs)) [0..<n]))
     = mset (findAll shipmentAlive (listQuery text p) xs)"
proof -
  let ?L = "sortShipments (lp_sortBy p) (lp_ascending p) (findAll shipmentAlive (listQuery text p) xs)"
  have q: "listQuery text (p\<lparr>lp_page_no := k\<rparr>) = listQuery text p" for k
    by (rule ext) (simp add: listQuery_def)
  have "concat (map (\<lambda>k. lr_data (getShipmentsService text (p\<lparr>lp_page_no := int k + 1\<rparr>) xs)) [0..<n])
      = take (n * nat (lp_limit p)) ?L"
    using offsetPages_concat[OF assms(1), of ?L n] by (simp add: getShipmentsService_def q Let_def)
  moreover have "length ?L \<le> n * nat (lp_limit p)"
    using assms(2) by (simp add: getShipmentsService_def countDocuments_def Let_def)
  ultimately show ?thesis by simp
qed

text \<open>A caller whose token names an organization is shown nothing at all.\<close>

lemma org_filter_empty:
  assumes "truthy (lp_organizationId p)"
  shows "lr_data (getShipmentsService text p xs) = [] \<and> lr_total (getShipmentsService text p xs) = 0"
proof -
  have "\<not> listQuery text p sh" for sh
    using assms by (cases "lp_organizationId p") (auto simp: listQuery_def eqOpt_def doc_organizationId_def)
  then have f: "findAll shipmentAlive (listQuery text p) xs = []" by (simp add: findAll_def)
  then have "sortShipments (lp_sortBy p) (lp_ascending p) (findAll shipmentAlive (listQuery text p) xs) = []"
    using length_sortShipments by (metis length_0_conv)
  then show ?thesis using f by (simp add: getShipmentsService_def countDocuments_def offsetPage_def Let_def)
qed

section \<open>Export\<close>

definition EXPORT_MAX_RECORDS :: nat where
  "EXPORT_MAX_RECORDS = 10000"

record exportParams =
  ex_organizationId :: "string option"
  ex_status :: "string option"
  ex_origin :: "string option"
  ex_destination :: "string option"
  ex_startDate :: "millis option"
  ex_endDate :: "millis option"

definition exportQuery :: "exportParams \<Rightarrow> shipment \<Rightarrow> bool" where
  "exportQuery p sh \<longleftrightarrow>
     eqOpt (keep_truthy (ex_organizationId p)) (doc_organizationId sh)
     \<and> eqOpt (keep_truthy (ex_status p)) (Some (status_str (sh_status sh)))
     \<and> regexOpt (ex_origin p) (sh_origin sh) \<and> regexOpt (ex_destination p) (sh_destination sh)
     \<and> inRange (ex_startDate p) (ex_endDate p) (sh_createdAt sh)"

definition exportShipmentsService :: "exportParams \<Rightarrow> shipment list \<Rightarrow> shipment list result" where
  "exportShipmentsService p xs =
     (let n = countDocuments shipmentAlive (exportQuery p) xs
      in if n > EXPORT_MAX_RECORDS
         then throwApp 400 (''Export exceeds '' @ nat_str EXPORT_MAX_RECORDS @ '' records ('' @ nat_str n
                @ '' found). Please narrow your filters.'') ''EXPORT_TOO_LARGE''
         else Inr (take EXPORT_MAX_RECORDS (desc_by sh_createdAt (findAll shipmentAlive (exportQuery p) xs))))"

text \<open>An export is complete or refused: no matching shipment is silently cut off.\<close>

lemma export_complete:
  "exportShipmentsService p xs = Inr ys \<Longrightarrow> mset ys = mset (findAll shipmentAlive (exportQuery p) xs)"
  by (auto simp: exportShipmentsService_def Let_def countDocuments_def split: if_splits)

lemma export_refused:
  "(\<exists>e. exportShipmentsService p xs = Inl e)
     \<longleftrightarrow> EXPORT_MAX_RECORDS < countDocuments shipmentAlive (exportQuery p) xs"
  by (simp add: exportShipmentsService_def Let_def throwApp_def)

section \<open>CSV\<close>

text \<open>\<open>dateText\<close> is \<open>String(date)\<close>, which depends on the process's time zone.\<close>

definition csv_quote :: char where
  "csv_quote = char_of (34::nat)"

definition csvEscape :: "string \<Rightarrow> string" where
  "csvEscape v = csv_quote # concat (map (\<lambda>c. if c = csv_quote then [csv_quote, csv_quote] else [c]) v) @ [csv_quote]"

definition csvHeaders :: "string list" where
  "csvHeaders = [''_id'', ''trackingNumber'', ''origin'', ''destination'', ''status'', ''createdAt'', ''updatedAt'']"

definition csvFields :: "(millis \<Rightarrow> string) \<Rightarrow> shipment \<Rightarrow> string list" where
  "csvFields dateText sh = [sh_id sh, sh_trackingNumber sh, sh_origin sh, sh_destination sh,
     status_str (sh_status sh), dateText (sh_createdAt sh), dateText (sh_updatedAt sh)]"

definition csvRow :: "string list \<Rightarrow> string" where
  "csvRow cells = join '','' (map csvEscape cells)"

definition shipmentsToCSV :: "(millis \<Rightarrow> string) \<Rightarrow> shipment list \<Rightarrow> string" where
  "shipmentsToCSV dateText xs = join [CHR 0x0A] (join '','' csvHeaders # map (\<lambda>sh. csvRow (csvFields dateText sh)) xs)"

text \<open>A reader of quoted records, as RFC 4180 describes them.\<close>

fun read_quoted :: "string \<Rightarrow> string \<Rightarrow> (string \<times> string) option" where
  "read_quoted acc [] = None"
| "read_quoted acc [c] = (if c = csv_quote then Some (acc, []) else None)"
| "read_quoted acc (c # d # s) =
     (if c = csv_quote
      then (if d = csv_quote then read_quoted (acc @ [csv_quote]) s else Some (acc, d # s))
      else read_quoted (acc @ [c]) (d # s))"

fun read_row :: "nat \<Rightarrow> string \<Rightarrow> (string list \<times> string) option" where
  "read_row 0 s = None"
| "read_row (Suc n) (c # s) = (if c = csv_quote then
     (case read_quoted [] s of
        None \<Rightarrow> None
      | Some (f, CHR '','' # r) \<Rightarrow> map_option (\<lambda>(fs, r'). (f # fs, r')) (read_row n r)
      | Some (f, r) \<Rightarrow> Some ([f], r)) else None)"
| "read_row (Suc n) [] = None"

lemma read_quoted_escaped:
  assumes "r = [] \<or> hd r \<noteq> csv_quote"
  shows "read_quoted acc (concat (map (\<lambda>c. if c = csv_quote then [csv_quote, csv_quote] else [c]) v) @ csv_quote # r)
    = Some (acc @ v, r)"
proof (induction v arbitrary: acc)
  case Nil
  then show ?case using assms by (cases r) auto
next
  case (Cons c v)
  show ?case
  proof (cases "c = csv_quote")
    case True
    then show ?thesis using Cons[of "acc @ [csv_quote]"] by simp
  next
    case False
    let ?rest = "concat (map (\<lambda>c. if c = csv_quote then [csv_quote, csv_quote] else [c]) v) @ csv_quote # r"
    have step: "read_quoted acc (c # t) = read_quoted (acc @ [c]) t" if "t \<noteq> []" for t
      using False that by (cases t) auto
    have "?rest \<noteq> []" by simp
    then show ?thesis using step[of ?rest] False Cons[of "acc @ [c]"] by simp
  qed
qed

lemma comma_not_quote: "CHR '','' \<noteq> csv_quote" "CHR 0x0A \<noteq> csv_quote"
  by (simp_all add: csv_quote_def char_of_def)

lemma read_row_csv:
  assumes "cells \<noteq> []" and "length cells \<le> n" and "r = [] \<or> hd r = CHR 0x0A"
  shows "read_row n (csvRow cells @ r) = Some (cells, r)"
  using assms(1,2)
proof (induction cells arbitrary: n)
  case (Cons f fs)
  then obtain m where n: "n = Suc m" by (cases n) auto
  show ?case
  proof (cases fs)
    case Nil
    have "r = [] \<or> hd r \<noteq> csv_quote" using assms(3) comma_not_quote by metis
    from read_quoted_escaped[OF this, of "[]" f] show ?thesis
      using assms(3) n Nil by (cases r) (auto simp: csvRow_def csvEscape_def)
  next
    case (Cons g gs)
    let ?r = "CHR '','' # csvRow (g # gs) @ r"
    have h: "?r = [] \<or> hd ?r \<noteq> csv_quote" using comma_not_quote by simp
    have row: "csvRow (f # g # gs) @ r = csvEscape f @ ?r" by (simp add: csvRow_def)
    have IH: "read_row m (csvRow (g # gs) @ r) = Some (g # gs, r)"
      using Cons.IH[of m] Cons.prems n Cons by simp
    show ?thesis
      using read_quoted_escaped[OF h, of "[]" f] IH n Cons unfolding Cons row by (simp add: csvEscape_def)
  qed
qed simp

text \<open>
  An export is complete or refused: it is an error exactly when more than 10,000 shipments
  match, and otherwise holds every match once.
\<close>

lemma export_complete_or_refused:
  "(case exportShipmentsService p xs of
      Inl e \<Rightarrow> EXPORT_MAX_RECORDS < countDocuments shipmentAlive (exportQuery p) xs
    | Inr ys \<Rightarrow> countDocuments shipmentAlive (exportQuery p) xs \<le> EXPORT_MAX_RECORDS
        \<and> mset ys = mset (findAll shipmentAlive (exportQuery p) xs))"
  using export_complete[of p xs] export_refused[of p xs]
  by (cases "exportShipmentsService p xs") (auto simp: not_less)

end
