(* ===== verification/Shipment_Timeline.thy ===== *)
theory Shipment_Timeline
  imports Shipment_Services
begin

text \<open>
  \<open>getShipmentTimelineService\<close>: the union of status changes, the delivery proof, anchored
  telemetry and anomalies, sorted by time, with a cursor that names an event. For a consistent
  shipment the cursor keys are unique, and a client that follows them sees every event once.
\<close>

section \<open>Sorting with a comparison function\<close>

text \<open>
  \<open>Array.prototype.sort\<close> is stable; \<open>le a b\<close> is \<open>compare(a, b) <= 0\<close>.
\<close>

fun insert_by :: "('a \<Rightarrow> 'a \<Rightarrow> bool) \<Rightarrow> 'a \<Rightarrow> 'a list \<Rightarrow> 'a list" where
  "insert_by le x [] = [x]"
| "insert_by le x (y # ys) = (if le x y then x # y # ys else y # insert_by le x ys)"

definition sort_by :: "('a \<Rightarrow> 'a \<Rightarrow> bool) \<Rightarrow> 'a list \<Rightarrow> 'a list" where
  "sort_by le xs = foldr (insert_by le) xs []"

lemma mset_insert_by [simp]: "mset (insert_by le x ys) = add_mset x (mset ys)"
  by (induction ys) auto

lemma mset_sort_by [simp]: "mset (sort_by le xs) = mset xs"
  by (induction xs) (simp_all add: sort_by_def)

lemma set_sort_by [simp]: "set (sort_by le xs) = set xs"
  by (metis mset_sort_by set_mset_mset)

lemma length_sort_by [simp]: "length (sort_by le xs) = length xs"
  by (metis mset_sort_by size_mset)

lemma distinct_map_sort_by [simp]: "distinct (map f (sort_by le xs)) = distinct (map f xs)"
proof -
  have "mset (map f (sort_by le xs)) = mset (map f xs)" by simp
  then show ?thesis using mset_eq_imp_distinct_iff by blast
qed

lemma set_insert_by [simp]: "set (insert_by le x ys) = insert x (set ys)"
  by (induction ys) auto

lemma insert_by_sorted:
  assumes "\<And>a b. le a b \<or> le b a" and "\<And>a b c. le a b \<Longrightarrow> le b c \<Longrightarrow> le a c"
  shows "sorted_wrt le ys \<Longrightarrow> sorted_wrt le (insert_by le x ys)"
proof (induction ys)
  case (Cons y ys)
  then show ?case using assms by auto
qed simp

lemma sort_by_sorted:
  assumes "\<And>a b. le a b \<or> le b a" and "\<And>a b c. le a b \<Longrightarrow> le b c \<Longrightarrow> le a c"
  shows "sorted_wrt le (sort_by le xs)"
  by (induction xs) (simp_all add: sort_by_def insert_by_sorted[OF assms])

section \<open>Events\<close>

datatype timelineType = STATUS_CHANGE | TELEMETRY_ANCHORED_EVENT | ANOMALY_DETECTED_EVENT | PROOF_UPLOADED_EVENT

record timelineEvent =
  tl_type :: timelineType
  tl_timestamp :: string
  tl_description :: string
  tl_metadata :: "(string \<times> jval) list"

record timelineEntry =
  tc_event :: timelineEvent
  tc_cursorKey :: string

definition buildTimelineCursorKey :: "string \<Rightarrow> string \<Rightarrow> string" where
  "buildTimelineCursorKey timestamp suffix = timestamp @ ''|'' @ suffix"

definition entry :: "timelineType \<Rightarrow> millis \<Rightarrow> string \<Rightarrow> (string \<times> jval) list \<Rightarrow> string \<Rightarrow> timelineEntry" where
  "entry ty t description meta suffix =
     \<lparr>tc_event = \<lparr>tl_type = ty, tl_timestamp = toISOString t, tl_description = description, tl_metadata = meta\<rparr>,
      tc_cursorKey = buildTimelineCursorKey (toISOString t) suffix\<rparr>"

definition statusEntry :: "milestone \<Rightarrow> timelineEntry" where
  "statusEntry m = entry STATUS_CHANGE (ms_timestamp m)
     (nullish (ms_description m) (''Status changed to '' @ ms_name m))
     [(''status'', JStr (ms_name m)), (''userId'', undef_str (ms_userId m)),
      (''walletAddress'', undef_str (ms_walletAddress m))]
     (''status-'' @ ms_name m)"

definition proofEntries :: "shipment \<Rightarrow> timelineEntry list" where
  "proofEntries sh = (case sh_deliveryProof sh of None \<Rightarrow> []
     | Some p \<Rightarrow> (case pr_uploadedAt p of None \<Rightarrow> []
         | Some t \<Rightarrow> [entry PROOF_UPLOADED_EVENT t ''Proof of delivery uploaded''
             [(''url'', undef_str (pr_url p)), (''recipientSignatureName'', undef_str (pr_recipientSignatureName p)),
              (''notes'', undef_str (pr_notes p))] ''proof'']))"

definition telemetryEntry :: "telemetryDoc \<Rightarrow> timelineEntry" where
  "telemetryEntry t = entry TELEMETRY_ANCHORED_EVENT (te_timestamp t) ''Telemetry record anchored on Stellar''
     [(''telemetryId'', JStr (te_id t)), (''stellarTxHash'', undef_str (te_stellarTxHash t)),
      (''dataHash'', JStr (te_dataHash t))] (''telemetry-'' @ te_id t)"

definition anomalyEntry :: "anomalyDoc \<Rightarrow> timelineEntry" where
  "anomalyEntry a = entry ANOMALY_DETECTED_EVENT (am_timestamp a) (am_message a)
     [(''anomalyId'', JStr (am_id a)), (''type'', JStr (anomaly_type_str (am_type a))),
      (''severity'', JStr (severity_str (am_severity a))), (''resolved'', JBool (am_resolved a))]
     (''anomaly-'' @ am_id a)"

definition timelineEntries :: "objectId \<Rightarrow> shipment \<Rightarrow> telemetryDoc list \<Rightarrow> anomalyDoc list \<Rightarrow> timelineEntry list" where
  "timelineEntries i sh ts as = map statusEntry (sh_milestones sh) @ proofEntries sh
     @ map telemetryEntry (findAll telemetryAlive (\<lambda>t. te_shipmentId t = i \<and> te_anchorStatus t = ANCHORED) ts)
     @ map anomalyEntry (findAll anomalyAlive (\<lambda>a. am_shipmentId a = i) as)"

section \<open>The service\<close>

text \<open>\<open>lc\<close> is \<open>a.localeCompare(b) <= 0\<close>, which is the collation of the process's locale.\<close>

definition entryLe :: "(string \<Rightarrow> string \<Rightarrow> bool) \<Rightarrow> timelineEntry \<Rightarrow> timelineEntry \<Rightarrow> bool" where
  "entryLe lc a b =
     (let s = tl_timestamp (tc_event a); t = tl_timestamp (tc_event b)
      in if lc s t \<and> lc t s then lc (tc_cursorKey a) (tc_cursorKey b) else lc s t)"

fun findIndex :: "('a \<Rightarrow> bool) \<Rightarrow> 'a list \<Rightarrow> nat option" where
  "findIndex P [] = None"
| "findIndex P (x # xs) = (if P x then Some 0 else map_option Suc (findIndex P xs))"

definition timelinePage :: "timelineEntry list \<Rightarrow> string option \<Rightarrow> nat \<Rightarrow> timelineEntry cursorPage" where
  "timelinePage events cursor limit =
     (let startIndex = (case keep_truthy cursor of
             None \<Rightarrow> 0
           | Some c \<Rightarrow> (case findIndex (\<lambda>e. tc_cursorKey e = c) events of None \<Rightarrow> 0 | Some k \<Rightarrow> k + 1));
          page = take (limit + 1) (drop startIndex events);
          more = length page > limit;
          pageEvents = (if more then take limit page else page)
      in \<lparr>page_data = pageEvents,
          nextCursor = (if more \<and> pageEvents \<noteq> [] then Some (tc_cursorKey (last pageEvents)) else None),
          hasMore = more\<rparr>)"

definition getShipmentTimelineService ::
  "(string \<Rightarrow> string \<Rightarrow> bool) \<Rightarrow> string \<Rightarrow> string option \<Rightarrow> nat \<Rightarrow> accessContext \<Rightarrow> world
   \<Rightarrow> timelineEntry cursorPage result" where
  "getShipmentTimelineService lc i cursor limit cx w =
     (case getShipmentByIdService i cx (w_shipments w) of
        Inl e \<Rightarrow> Inl e
      | Inr sh \<Rightarrow> Inr (timelinePage
          (sort_by (entryLe lc) (timelineEntries i sh (w_telemetry w) (w_anomalies w))) cursor limit))"

text \<open>What the response carries: the events without their keys.\<close>

definition timelineResponse :: "timelineEntry cursorPage \<Rightarrow> timelineEvent list \<times> string option \<times> bool" where
  "timelineResponse p = (map tc_event (page_data p), nextCursor p, hasMore p)"

section \<open>Cursor keys\<close>

lemma digit_char_not_bar: "d < 10 \<Longrightarrow> digit_char d \<noteq> CHR ''|''"
proof
  assume "d < 10" and "digit_char d = CHR ''|''"
  then have "(of_char (digit_char d) :: nat) = 124" by simp
  then show False using \<open>d < 10\<close> by (simp add: digit_char_def)
qed

lemma nat_str_no_bar: "CHR ''|'' \<notin> set (nat_str n)"
proof (induction n rule: nat_str.induct)
  case (1 n)
  show ?case
  proof (cases "n < 10")
    case True
    then have "nat_str n = [digit_char n]" by (simp add: nat_str.simps)
    then show ?thesis using digit_char_not_bar[OF True] by auto
  next
    case False
    then have "nat_str n = nat_str (n div 10) @ [digit_char (n mod 10)]" by (simp add: nat_str.simps)
    then show ?thesis using 1[OF False] digit_char_not_bar[of "n mod 10"] by auto
  qed
qed

lemma pad_no_bar: "CHR ''|'' \<notin> set (pad w n)"
  using nat_str_no_bar by (simp add: pad_def)

lemma iso_year_no_bar: "CHR ''|'' \<notin> set (iso_year y)"
  using pad_no_bar by (simp add: iso_year_def)

lemma iso_no_bar: "CHR ''|'' \<notin> set (toISOString t)"
  using pad_no_bar iso_year_no_bar by (auto simp: toISOString_def Let_def split: prod.split)

lemma cursorKey_inject:
  "buildTimelineCursorKey (toISOString s) x = buildTimelineCursorKey (toISOString t) y
     \<longleftrightarrow> toISOString s = toISOString t \<and> x = y"
proof
  assume e: "buildTimelineCursorKey (toISOString s) x = buildTimelineCursorKey (toISOString t) y"
  have tw: "takeWhile (\<lambda>c. c \<noteq> CHR ''|'') (buildTimelineCursorKey (toISOString u) z) = toISOString u" for u z
    using iso_no_bar[of u] by (simp add: buildTimelineCursorKey_def takeWhile_append)
  have "toISOString s = toISOString t" using tw[of s x] tw[of t y] e by simp
  then show "toISOString s = toISOString t \<and> x = y" using e by (simp add: buildTimelineCursorKey_def)
qed simp

lemma cursorKey_suffix: "tc_cursorKey (entry a s d m x) = tc_cursorKey (entry b t e n y) \<Longrightarrow> x = y"
  by (simp add: entry_def cursorKey_inject)

lemma cursorKey_nonempty: "tc_cursorKey (entry a s d m x) \<noteq> []"
  by (simp add: entry_def buildTimelineCursorKey_def)

lemma distinct_entries:
  assumes "distinct (map f xs)" and "\<And>x. tc_cursorKey (g x) = buildTimelineCursorKey (toISOString (t x)) (p @ f x)"
  shows "distinct (map tc_cursorKey (map g xs))"
  using assms(1) by (induction xs) (auto simp: assms(2) cursorKey_inject)

lemma timeline_keys_distinct:
  assumes "consistent sh" and "distinct (map te_id ts)" and "distinct (map am_id as)"
  shows "distinct (map tc_cursorKey (timelineEntries i sh ts as))"
proof -
  obtain hs where hs: "lifecycle CREATED hs" "map ms_name (sh_milestones sh) = map status_str hs"
    using assms(1) by (auto simp: consistent_def history_def)
  have "distinct (map status_str hs)"
    using lifecycle_distinct[OF hs(1)] by (simp add: distinct_map inj_on_def)
  then have names: "distinct (map ms_name (sh_milestones sh))" using hs(2) by simp
  let ?T = "findAll telemetryAlive (\<lambda>t. te_shipmentId t = i \<and> te_anchorStatus t = ANCHORED) ts"
  let ?A = "findAll anomalyAlive (\<lambda>a. am_shipmentId a = i) as"
  have t: "distinct (map te_id ?T)" and a: "distinct (map am_id ?A)"
    using assms(2,3) by (simp_all add: findAll_def distinct_map_filter)
  have dM: "distinct (map tc_cursorKey (map statusEntry (sh_milestones sh)))"
    using names by (rule distinct_entries[where t = ms_timestamp and p = "''status-''"])
      (simp add: statusEntry_def entry_def)
  have dT: "distinct (map tc_cursorKey (map telemetryEntry ?T))"
    using t by (rule distinct_entries[where t = te_timestamp and p = "''telemetry-''"])
      (simp add: telemetryEntry_def entry_def)
  have dA: "distinct (map tc_cursorKey (map anomalyEntry ?A))"
    using a by (rule distinct_entries[where t = am_timestamp and p = "''anomaly-''"])
      (simp add: anomalyEntry_def entry_def)
  have dP: "distinct (map tc_cursorKey (proofEntries sh))"
    by (simp add: proofEntries_def split: option.split)
  have sfx: "x \<noteq> y \<Longrightarrow> tc_cursorKey (entry a s d m x) \<noteq> tc_cursorKey (entry b t e n y)" for a s d m x b t e n y
    using cursorKey_suffix by blast
  have mp: "set (map tc_cursorKey (map statusEntry (sh_milestones sh))) \<inter> set (map tc_cursorKey (proofEntries sh)) = {}"
    by (auto simp: statusEntry_def proofEntries_def sfx split: option.splits)
  have mt: "set (map tc_cursorKey (map statusEntry (sh_milestones sh))) \<inter> set (map tc_cursorKey (map telemetryEntry ?T)) = {}"
    by (auto simp: statusEntry_def telemetryEntry_def sfx)
  have ma: "set (map tc_cursorKey (map statusEntry (sh_milestones sh))) \<inter> set (map tc_cursorKey (map anomalyEntry ?A)) = {}"
    by (auto simp: statusEntry_def anomalyEntry_def sfx)
  have pt: "set (map tc_cursorKey (proofEntries sh)) \<inter> set (map tc_cursorKey (map telemetryEntry ?T)) = {}"
    by (auto simp: proofEntries_def telemetryEntry_def sfx split: option.splits)
  have pa: "set (map tc_cursorKey (proofEntries sh)) \<inter> set (map tc_cursorKey (map anomalyEntry ?A)) = {}"
    by (auto simp: proofEntries_def anomalyEntry_def sfx split: option.splits)
  have ta: "set (map tc_cursorKey (map telemetryEntry ?T)) \<inter> set (map tc_cursorKey (map anomalyEntry ?A)) = {}"
    by (auto simp: telemetryEntry_def anomalyEntry_def sfx)
  show ?thesis
    unfolding timelineEntries_def map_append distinct_append set_append
    using dM dP dT dA mp mt ma pt pa ta by (simp only: Int_Un_distrib Un_empty simp_thms)
qed

lemma timeline_keys_nonempty: "e \<in> set (timelineEntries i sh ts as) \<Longrightarrow> tc_cursorKey e \<noteq> []"
  by (auto simp: timelineEntries_def statusEntry_def proofEntries_def telemetryEntry_def anomalyEntry_def
      cursorKey_nonempty split: option.splits)

section \<open>Following the cursor\<close>

lemma findIndex_distinct:
  "distinct (map f xs) \<Longrightarrow> xs = ys @ d # zs \<Longrightarrow> findIndex (\<lambda>e. f e = f d) xs = Some (length ys)"
proof (induction ys arbitrary: xs)
  case (Cons y ys)
  then have "f y \<noteq> f d" by auto
  then show ?case using Cons by simp
qed simp

record timelineQuery =
  tq_events :: "timelineEntry list"
  tq_limit :: nat

definition timeline_query_ok :: "timelineQuery \<Rightarrow> bool" where
  "timeline_query_ok q \<longleftrightarrow> distinct (map tc_cursorKey (tq_events q)) \<and> 0 < tq_limit q
     \<and> (\<forall>e\<in>set (tq_events q). tc_cursorKey e \<noteq> [])"

lemma timelinePage_paginate:
  assumes "0 < limit" and "case keep_truthy cursor of None \<Rightarrow> k = 0
     | Some c \<Rightarrow> (case findIndex (\<lambda>e. tc_cursorKey e = c) events of None \<Rightarrow> k = 0 | Some j \<Rightarrow> k = j + 1)"
  shows "timelinePage events cursor limit = paginateCursor tc_cursorKey (take (Suc limit) (drop k events)) limit"
proof -
  have k: "k = (case keep_truthy cursor of None \<Rightarrow> 0
     | Some c \<Rightarrow> (case findIndex (\<lambda>e. tc_cursorKey e = c) events of None \<Rightarrow> 0 | Some j \<Rightarrow> j + 1))"
    using assms(2) by (auto split: option.splits)
  show ?thesis
    unfolding timelinePage_def k[symmetric] paginateCursor_def Let_def using assms(1) by auto
qed

interpretation timeline_pages: cursor_listing tc_cursorKey timeline_query_ok tq_events tq_limit
  "\<lambda>q c. timelinePage (tq_events q) c (tq_limit q)"
proof unfold_locales
  fix q xs d ys
  assume ok: "timeline_query_ok q"
  show "distinct (map tc_cursorKey (tq_events q))" using ok by (simp add: timeline_query_ok_def)
  show l: "0 < tq_limit q" using ok by (simp add: timeline_query_ok_def)
  show "timelinePage (tq_events q) None (tq_limit q)
      = paginateCursor tc_cursorKey (take (Suc (tq_limit q)) (tq_events q)) (tq_limit q)"
    using timelinePage_paginate[OF l, where cursor = None and k = 0] by simp
  assume e: "tq_events q = xs @ d # ys"
  then have ne: "tc_cursorKey d \<noteq> []" using ok by (simp add: timeline_query_ok_def)
  have "findIndex (\<lambda>x. tc_cursorKey x = tc_cursorKey d) (tq_events q) = Some (length xs)"
    using ok e by (intro findIndex_distinct) (auto simp: timeline_query_ok_def)
  then show "timelinePage (tq_events q) (Some (tc_cursorKey d)) (tq_limit q)
      = paginateCursor tc_cursorKey (take (Suc (tq_limit q)) ys) (tq_limit q)"
    using timelinePage_paginate[OF l, where cursor = "Some (tc_cursorKey d)" and k = "Suc (length xs)"
          and events = "tq_events q"] ne e by simp
qed

text \<open>What a client with access collects from a consistent shipment, page by page.\<close>

definition fetchTimeline ::
  "(string \<Rightarrow> string \<Rightarrow> bool) \<Rightarrow> string \<Rightarrow> nat \<Rightarrow> accessContext \<Rightarrow> world \<Rightarrow> string option \<Rightarrow> timelineEntry cursorPage" where
  "fetchTimeline lc i limit cx w c = (case getShipmentTimelineService lc i c limit cx w of
     Inl e \<Rightarrow> timelinePage [] None 0 | Inr p \<Rightarrow> p)"

lemma timeline_walk:
  assumes "getShipmentByIdService i cx (w_shipments w) = Inr sh" and "consistent sh"
    and "distinct (map te_id (w_telemetry w))" and "distinct (map am_id (w_anomalies w))" and "0 < limit"
    and "length (timelineEntries i sh (w_telemetry w) (w_anomalies w)) < fuel"
  shows "walk fuel (fetchTimeline lc i limit cx w) None
    = Some (sort_by (entryLe lc) (timelineEntries i sh (w_telemetry w) (w_anomalies w)))"
proof -
  let ?E = "sort_by (entryLe lc) (timelineEntries i sh (w_telemetry w) (w_anomalies w))"
  let ?q = "\<lparr>tq_events = ?E, tq_limit = limit\<rparr>"
  have "timeline_query_ok ?q"
    using timeline_keys_distinct[OF assms(2-4)] timeline_keys_nonempty assms(5)
    by (simp add: timeline_query_ok_def)
  from timeline_pages.walk_all[OF this, of fuel] assms(6)
  have "walk fuel (\<lambda>c. timelinePage ?E c limit) None = Some ?E" by simp
  moreover have "fetchTimeline lc i limit cx w = (\<lambda>c. timelinePage ?E c limit)"
    by (rule ext) (simp add: fetchTimeline_def getShipmentTimelineService_def assms(1))
  ultimately show ?thesis by simp
qed

end
