(* ===== verification/Shipment_Eta.thy ===== *)
theory Shipment_Eta
  imports Shipment_Services
begin

text \<open>
  \<open>getShipmentEtaService\<close> and its helpers: destination coordinates from the metadata, the
  haversine distance, the average speed over the window of recent points and the cached payload.
  Numbers are reals, so rounding of doubles is not modelled; \<open>num\<close> reads a JSON number and is
  \<open>None\<close> where \<open>Number.isFinite\<close> fails.
\<close>

section \<open>Destination\<close>

record coordinates =
  latitude :: real
  longitude :: real

definition field :: "string \<Rightarrow> (string \<times> jval) list \<Rightarrow> jval" where
  "field k kvs = (case map_of kvs k of None \<Rightarrow> JUndef | Some v \<Rightarrow> v)"

fun readNumberField :: "(string \<Rightarrow> real option) \<Rightarrow> (string \<times> jval) list \<Rightarrow> string list \<Rightarrow> real option" where
  "readNumberField num kvs [] = None"
| "readNumberField num kvs (k # ks) =
     (case field k kvs of
        JNum t \<Rightarrow> (case num t of Some x \<Rightarrow> Some x | None \<Rightarrow> readNumberField num kvs ks)
      | _ \<Rightarrow> readNumberField num kvs ks)"

text \<open>
  \<open>isRecord\<close> accepts objects, arrays and dates. An array's or a date's own properties are none of
  the names that are looked up, so only an object can yield coordinates.
\<close>

definition record_of :: "jval \<Rightarrow> (string \<times> jval) list option" where
  "record_of v = (case v of JObj kvs \<Rightarrow> Some kvs | JArr xs \<Rightarrow> Some [] | JDate t \<Rightarrow> Some [] | _ \<Rightarrow> None)"

definition extractCoordinates :: "(string \<Rightarrow> real option) \<Rightarrow> jval \<Rightarrow> coordinates option" where
  "extractCoordinates num v =
     (case record_of v of None \<Rightarrow> None
      | Some kvs \<Rightarrow>
          (case (readNumberField num kvs [''latitude'', ''lat''],
                 readNumberField num kvs [''longitude'', ''lng'', ''lon'']) of
             (Some la, Some lo) \<Rightarrow> Some \<lparr>latitude = la, longitude = lo\<rparr>
           | _ \<Rightarrow> None))"

definition resolveDestinationCoordinates :: "(string \<Rightarrow> real option) \<Rightarrow> jval option \<Rightarrow> coordinates option" where
  "resolveDestinationCoordinates num metadata =
     (case (case metadata of None \<Rightarrow> None | Some m \<Rightarrow> record_of m) of
        None \<Rightarrow> None
      | Some kvs \<Rightarrow>
          (case extractCoordinates num (field ''destinationCoordinates'' kvs) of
             Some c \<Rightarrow> Some c
           | None \<Rightarrow>
               (case extractCoordinates num (field ''destination'' kvs) of
                  Some c \<Rightarrow> Some c
                | None \<Rightarrow>
                    (case record_of (field ''route'' kvs) of
                       None \<Rightarrow> None
                     | Some r \<Rightarrow> extractCoordinates num (field ''destination'' r)))))"

section \<open>Distance\<close>

definition toRadians :: "real \<Rightarrow> real" where
  "toRadians degrees = degrees * pi / 180"

definition haversine_a :: "coordinates \<Rightarrow> coordinates \<Rightarrow> real" where
  "haversine_a p q =
     (let deltaLatitude = toRadians (latitude q - latitude p);
          deltaLongitude = toRadians (longitude q - longitude p)
      in sin (deltaLatitude / 2) * sin (deltaLatitude / 2)
         + cos (toRadians (latitude p)) * cos (toRadians (latitude q))
           * sin (deltaLongitude / 2) * sin (deltaLongitude / 2))"

text \<open>\<open>Math.atan2\<close> in the quadrant it is used in: both arguments are square roots.\<close>

definition atan2_pos :: "real \<Rightarrow> real \<Rightarrow> real" where
  "atan2_pos y x = (if x > 0 then arctan (y / x) else if y > 0 then pi / 2 else 0)"

definition calculateDistanceKm :: "coordinates \<Rightarrow> coordinates \<Rightarrow> real" where
  "calculateDistanceKm p q =
     (let a = haversine_a p q; c = 2 * atan2_pos (sqrt a) (sqrt (1 - a)) in 6371 * c)"

lemma haversine_a_sym: "haversine_a p q = haversine_a q p"
proof -
  have "toRadians (latitude p - latitude q) = - toRadians (latitude q - latitude p)"
    "toRadians (longitude p - longitude q) = - toRadians (longitude q - longitude p)"
    by (simp_all add: toRadians_def field_simps)
  then show ?thesis by (simp add: haversine_a_def Let_def mult.commute)
qed

lemma atan2_pos_bounds: "0 \<le> y \<Longrightarrow> 0 \<le> atan2_pos y x \<and> atan2_pos y x \<le> pi / 2"
  using arctan_ubound[of "y / x"] by (auto simp: atan2_pos_def intro: less_imp_le)

lemma haversine_a_nonneg:
  assumes "\<bar>latitude p\<bar> \<le> 90" "\<bar>latitude q\<bar> \<le> 90"
  shows "0 \<le> haversine_a p q"
proof -
  have "0 \<le> cos (toRadians (latitude u))" if "\<bar>latitude u\<bar> \<le> 90" for u
  proof (rule cos_ge_zero)
    have "latitude u * pi \<le> 90 * pi" using that by (intro mult_right_mono) auto
    moreover have "(-90) * pi \<le> latitude u * pi" using that by (intro mult_right_mono) auto
    ultimately show "- (pi / 2) \<le> toRadians (latitude u)" "toRadians (latitude u) \<le> pi / 2"
      by (simp_all add: toRadians_def)
  qed
  then have "0 \<le> cos (toRadians (latitude p)) * cos (toRadians (latitude q)) * (x * x)" for x :: real
    using assms by (intro mult_nonneg_nonneg zero_le_square) auto
  then show ?thesis by (simp add: haversine_a_def Let_def mult.assoc)
qed

text \<open>Distances are symmetric, never negative and at most half the circumference.\<close>

lemma distance_sym: "calculateDistanceKm p q = calculateDistanceKm q p"
  by (simp add: calculateDistanceKm_def haversine_a_sym)

lemma distance_self: "calculateDistanceKm p p = 0"
  by (simp add: calculateDistanceKm_def haversine_a_def toRadians_def atan2_pos_def Let_def)

lemma distance_bounds:
  assumes "\<bar>latitude p\<bar> \<le> 90" "\<bar>latitude q\<bar> \<le> 90"
  shows "0 \<le> calculateDistanceKm p q \<and> calculateDistanceKm p q \<le> 6371 * pi"
  using atan2_pos_bounds[of "sqrt (haversine_a p q)" "sqrt (1 - haversine_a p q)"]
    haversine_a_nonneg[OF assms]
  by (simp add: calculateDistanceKm_def Let_def)

section \<open>Speed\<close>

record telemetryPoint =
  tp_coords :: coordinates
  tp_timestamp :: millis

definition ETA_POINTS_WINDOW :: nat where
  "ETA_POINTS_WINDOW = 8"

definition MIN_EFFECTIVE_SPEED_KMH :: real where
  "MIN_EFFECTIVE_SPEED_KMH = 5"

definition DEFAULT_SINGLE_POINT_SPEED_KMH :: real where
  "DEFAULT_SINGLE_POINT_SPEED_KMH = 40"

text \<open>The loop over neighbouring points, with its two accumulators.\<close>

fun segments :: "(coordinates \<Rightarrow> coordinates \<Rightarrow> real) \<Rightarrow> telemetryPoint list \<Rightarrow> real \<times> real \<Rightarrow> real \<times> real" where
  "segments km (p # q # ps) (distanceKm, elapsedHours) =
     (let segmentHours = real_of_int (tp_timestamp q - tp_timestamp p) / 3600000
      in segments km (q # ps)
           (if segmentHours \<le> 0 then (distanceKm, elapsedHours)
            else (distanceKm + km (tp_coords p) (tp_coords q), elapsedHours + segmentHours)))"
| "segments km ps acc = acc"

definition calculateAverageSpeedKmh :: "(coordinates \<Rightarrow> coordinates \<Rightarrow> real) \<Rightarrow> telemetryPoint list \<Rightarrow> real" where
  "calculateAverageSpeedKmh km points =
     (if length points < 2 then DEFAULT_SINGLE_POINT_SPEED_KMH
      else let (distanceKm, elapsedHours) = segments km (rev points) (0, 0)
           in if elapsedHours \<le> 0 then DEFAULT_SINGLE_POINT_SPEED_KMH else distanceKm / elapsedHours)"

datatype etaConfidence = C_LOW | C_MEDIUM | C_HIGH

definition inferEtaConfidence :: "nat \<Rightarrow> real \<Rightarrow> etaConfidence" where
  "inferEtaConfidence pointsCount averageSpeed =
     (if pointsCount \<ge> 6 \<and> averageSpeed \<ge> 15 then C_HIGH
      else if pointsCount \<ge> 3 \<and> averageSpeed \<ge> 8 then C_MEDIUM
      else C_LOW)"

text \<open>The average never exceeds the fastest segment.\<close>

lemma segments_bound:
  assumes km: "\<And>p q. 0 \<le> km p q"
    and v: "\<And>(p :: telemetryPoint) (q :: telemetryPoint). tp_timestamp p < tp_timestamp q
      \<Longrightarrow> km (tp_coords p) (tp_coords q) \<le> v * (real_of_int (tp_timestamp q - tp_timestamp p) / 3600000)"
  shows "0 \<le> d \<Longrightarrow> 0 \<le> e \<Longrightarrow> d \<le> v * e \<Longrightarrow> segments km ps (d, e) = (d', e')
    \<Longrightarrow> 0 \<le> d' \<and> 0 \<le> e' \<and> d' \<le> v * e'"
proof (induction ps arbitrary: d e rule: induct_list012)
  case (3 p q ps)
  let ?h = "real_of_int (tp_timestamp q - tp_timestamp p) / 3600000"
  show ?case
  proof (cases "?h \<le> 0")
    case True
    then show ?thesis using 3 by (simp add: Let_def)
  next
    case False
    then have h: "0 < ?h" "tp_timestamp p < tp_timestamp q" by (simp_all add: zero_less_divide_iff)
    let ?k = "km (tp_coords p) (tp_coords q)"
    have "0 \<le> d + ?k" "0 \<le> e + ?h" using 3 km h by (auto intro: add_nonneg_nonneg less_imp_le)
    moreover have "d + ?k \<le> v * (e + ?h)" using 3 v[OF h(2)] by (simp add: distrib_left)
    moreover have "segments km (q # ps) (d + ?k, e + ?h) = (d', e')"
      using 3 False by (simp add: Let_def)
    ultimately show ?thesis using 3 by blast
  qed
qed auto

lemma average_speed_bound:
  assumes "\<And>p q. 0 \<le> km p q"
    and "\<And>(p :: telemetryPoint) (q :: telemetryPoint). tp_timestamp p < tp_timestamp q
      \<Longrightarrow> km (tp_coords p) (tp_coords q) \<le> v * (real_of_int (tp_timestamp q - tp_timestamp p) / 3600000)"
  shows "0 \<le> calculateAverageSpeedKmh km ps \<and> calculateAverageSpeedKmh km ps \<le> max v 40"
proof (cases "length ps < 2")
  case True
  then show ?thesis by (simp add: calculateAverageSpeedKmh_def DEFAULT_SINGLE_POINT_SPEED_KMH_def)
next
  case False
  obtain d e where s: "segments km (rev ps) (0, 0) = (d, e)" by (cases "segments km (rev ps) (0, 0)")
  then have "0 \<le> d \<and> 0 \<le> e \<and> d \<le> v * e" using segments_bound[OF assms, of 0 0 "rev ps" d e] by simp
  then have "d / e \<le> v \<and> 0 \<le> d / e" if "0 < e" using that by (simp add: pos_divide_le_eq)
  then show ?thesis
    using False s by (auto simp: calculateAverageSpeedKmh_def DEFAULT_SINGLE_POINT_SPEED_KMH_def not_le
        intro: max.coboundedI1)
qed

section \<open>The service\<close>

datatype etaPayload =
    EtaAt string real real etaConfidence
  | EtaUnavailable string

text \<open>\<open>Number(x.toFixed(3))\<close>\<close>

definition round3 :: "real \<Rightarrow> real" where
  "round3 x = real_of_int \<lfloor>x * 1000 + 1/2\<rfloor> / 1000"

definition pointOf :: "telemetryDoc \<Rightarrow> telemetryPoint" where
  "pointOf t = \<lparr>tp_coords = \<lparr>latitude = of_rat (te_latitude t), longitude = of_rat (te_longitude t)\<rparr>,
     tp_timestamp = te_timestamp t\<rparr>"

definition recentPoints :: "objectId \<Rightarrow> telemetryDoc list \<Rightarrow> telemetryPoint list" where
  "recentPoints i ts = map pointOf (take ETA_POINTS_WINDOW
     (desc_by (created_key te_timestamp te_id) (findAll telemetryAlive (\<lambda>t. te_shipmentId t = i) ts)))"

definition estimate ::
  "(coordinates \<Rightarrow> coordinates \<Rightarrow> real) \<Rightarrow> millis \<Rightarrow> coordinates \<Rightarrow> telemetryPoint list \<Rightarrow> etaPayload" where
  "estimate km now destination points =
     (let latest = hd points;
          distanceRemaining = km (tp_coords latest) destination;
          averageSpeedRaw = calculateAverageSpeedKmh km points;
          averageSpeed = max averageSpeedRaw MIN_EFFECTIVE_SPEED_KMH;
          confidence = inferEtaConfidence (length points) averageSpeedRaw;
          etaHours = distanceRemaining / averageSpeed
      in EtaAt (toISOString (now + \<lfloor>etaHours * 3600000\<rfloor>)) (round3 distanceRemaining)
           (round3 averageSpeed) confidence)"

definition getShipmentEtaService ::
  "(string \<Rightarrow> real option) \<Rightarrow> (etaPayload \<Rightarrow> string) \<Rightarrow> (string \<Rightarrow> etaPayload option) \<Rightarrow> conn \<Rightarrow> conn \<Rightarrow> millis
   \<Rightarrow> objectId \<Rightarrow> world \<Rightarrow> etaPayload result \<times> world" where
  "getShipmentEtaService num enc dec cnR cnW now i w =
     (let (hit, cs) = readShipmentEtaCache dec cnR i (w_etaDown w, w_redis w);
          w1 = w\<lparr>w_etaDown := fst cs, w_redis := snd cs\<rparr>;
          store = (\<lambda>p. let cs' = writeShipmentEtaCache enc cnW i p cs
                       in w\<lparr>w_etaDown := fst cs', w_redis := snd cs'\<rparr>)
      in case hit of Some p \<Rightarrow> (Inr p, w1) | None \<Rightarrow>
         (case findShipmentById i (w_shipments w) of
            None \<Rightarrow> (throwApp 404 ''Shipment not found'' ''ERR_SHIPMENT_NOT_FOUND'', w1)
          | Some sh \<Rightarrow>
              (if sh_status sh \<noteq> IN_TRANSIT
               then let p = EtaUnavailable ''ETA is available only for IN_TRANSIT shipments'' in (Inr p, store p)
               else case resolveDestinationCoordinates num (sh_offChainMetadata sh) of
                   None \<Rightarrow> (throwApp 400 ''Destination coordinates are missing in shipment metadata''
                              ''ERR_SHIPMENT_ETA_DESTINATION_MISSING'', w1)
                 | Some destination \<Rightarrow>
                     (let points = recentPoints i (w_telemetry w)
                      in if points = []
                         then (throwApp 404 ''No GPS telemetry data points found'' ''ERR_SHIPMENT_ETA_NO_GPS'', w1)
                         else let p = estimate calculateDistanceKm now destination points in (Inr p, store p)))))"

text \<open>An estimate is never in the past and never assumes less than walking speed.\<close>

lemma estimate_not_past:
  assumes "\<And>p q. 0 \<le> km p q" and "estimate km now destination points = EtaAt t d v c"
  shows "\<exists>u. now \<le> u \<and> t = toISOString u \<and> 5 \<le> v"
proof -
  let ?v = "max (calculateAverageSpeedKmh km points) MIN_EFFECTIVE_SPEED_KMH"
  have v: "5 \<le> ?v" by (simp add: MIN_EFFECTIVE_SPEED_KMH_def)
  then have "0 \<le> km (tp_coords (hd points)) destination / ?v * 3600000"
    using assms(1) by (intro mult_nonneg_nonneg divide_nonneg_nonneg) auto
  then have "0 \<le> \<lfloor>km (tp_coords (hd points)) destination / ?v * 3600000\<rfloor>" by simp
  moreover have "5 \<le> round3 ?v"
  proof -
    have "5000 \<le> \<lfloor>?v * 1000 + 1/2\<rfloor>" using v by (simp add: le_floor_iff)
    then show ?thesis by (simp add: round3_def)
  qed
  ultimately show ?thesis using assms(2)
    by (intro exI[of _ "now + \<lfloor>km (tp_coords (hd points)) destination / ?v * 3600000\<rfloor>"])
      (auto simp: estimate_def Let_def)
qed

lemma confidence_needs_points:
  "inferEtaConfidence n v = C_HIGH \<Longrightarrow> 6 \<le> n" "inferEtaConfidence n v = C_MEDIUM \<Longrightarrow> 3 \<le> n"
  by (auto simp: inferEtaConfidence_def split: if_splits)

lemma recentPoints_window: "length (recentPoints i ts) \<le> ETA_POINTS_WINDOW"
  by (simp add: recentPoints_def)

text \<open>Outside transit no estimate is computed: a fresh answer carries the reason.\<close>

lemma eta_only_in_transit:
  assumes "findShipmentById i (w_shipments w) = Some sh" and "sh_status sh \<noteq> IN_TRANSIT"
    and "fst (readShipmentEtaCache dec cnR i (w_etaDown w, w_redis w)) = None"
  shows "fst (getShipmentEtaService num enc dec cnR cnW now i w)
    = Inr (EtaUnavailable ''ETA is available only for IN_TRANSIT shipments'')"
  using assms by (simp add: getShipmentEtaService_def Let_def case_prod_beta)

text \<open>
  An estimated arrival is never in the past and never assumes less than 5 km/h, and a
  confidence above \<open>LOW\<close> rests on at least three points. \<open>km\<close> is the distance function; the
  haversine distance of the code is one for coordinates on the globe.
\<close>

lemma estimate_is_in_the_future:
  assumes "\<And>p q. 0 \<le> km p q" and "estimate km now destination points = EtaAt t d v c"
  shows "(\<exists>u. now \<le> u \<and> t = toISOString u) \<and> 5 \<le> v \<and> (c = C_LOW \<or> 3 \<le> length points)"
proof -
  let ?v = "calculateAverageSpeedKmh km points"
  have c: "c = inferEtaConfidence (length points) ?v"
    using assms(2) by (simp add: estimate_def Let_def)
  have "c = C_LOW \<or> 3 \<le> length points"
    unfolding c using confidence_needs_points[of "length points" ?v]
    by (cases "inferEtaConfidence (length points) ?v") simp_all
  then show ?thesis using estimate_not_past[OF assms] by blast
qed

end
