(* ===== verification/Auth.thy ===== *)
theory Auth
  imports Shipment_Services
begin

text \<open>
  Authentication (\<open>src/src/modules/auth/auth.service.ts\<close>, \<open>session.service.ts\<close>,
  \<open>tokenBlocklist.ts\<close>, \<open>requireAuth.ts\<close>, \<open>requireRole.ts\<close>): accounts, signed tokens, their
  revocation through Redis and the session records. Parameters stand for the libraries:
  \<open>sign\<close>/\<open>verify\<close> for \<open>jsonwebtoken\<close>, \<open>hash\<close>/\<open>compare\<close> for bcrypt, \<open>uuid\<close> for \<open>randomUUID\<close>.
  Token times are seconds, clock readings milliseconds.
\<close>

section \<open>Token identifiers and the blocklist\<close>

definition is_hex_ci :: "char \<Rightarrow> bool" where
  "is_hex_ci c \<longleftrightarrow> (let n = of_char c :: nat in
     (48 \<le> n \<and> n \<le> 57) \<or> (65 \<le> n \<and> n \<le> 70) \<or> (97 \<le> n \<and> n \<le> 102))"

text \<open>\<open>UUID_V4_REGEX\<close>: lengths and hyphens, the version digit and the variant digit.\<close>

definition isValidJti :: "string \<Rightarrow> bool" where
  "isValidJti jti \<longleftrightarrow> length jti = 36
     \<and> (\<forall>i\<in>{0..<36}. if i \<in> {8, 13, 18, 23} then jti ! i = CHR ''-'' else is_hex_ci (jti ! i))
     \<and> jti ! 14 = CHR ''4''
     \<and> to_lower (jti ! 19) \<in> {CHR ''8'', CHR ''9'', CHR ''a'', CHR ''b''}"

definition BLOCKLIST_PREFIX :: string where
  "BLOCKLIST_PREFIX = ''blocklist:uuid:''"

definition blocklistKey :: "string \<Rightarrow> string result" where
  "blocklistKey jti =
     (if \<not> isValidJti jti
      then throwApp 400 ''Invalid token identifier: expected UUID v4'' (ErrorCodes TOKEN_INVALID_IDENTIFIER)
      else Inr (BLOCKLIST_PREFIX @ toLowerCase jti))"

definition blockToken :: "millis \<Rightarrow> string \<Rightarrow> int \<Rightarrow> redis \<Rightarrow> unit result \<times> redis" where
  "blockToken now jti ttlSeconds r =
     (if ttlSeconds \<le> 0 then (Inr (), r)
      else case blocklistKey jti of
          Inl e \<Rightarrow> (Inl e, r)
        | Inr key \<Rightarrow> (Inr (), redis_set now key ''1'' (Some (ttlSeconds * 1000)) r))"

definition isTokenBlocked :: "millis \<Rightarrow> string \<Rightarrow> redis \<Rightarrow> bool" where
  "isTokenBlocked now jti r =
     (if \<not> isValidJti jti then False
      else redis_value r now (BLOCKLIST_PREFIX @ toLowerCase jti) \<noteq> None)"

lemma blocked_until:
  assumes "isValidJti jti" and "0 < ttl" and "t < now + ttl * 1000"
  shows "isTokenBlocked t jti (snd (blockToken now jti ttl r))"
  using assms by (simp add: blockToken_def blocklistKey_def isTokenBlocked_def redis_store.set_same)

lemma blocked_expires:
  assumes "now + ttl * 1000 \<le> t" and "0 < ttl" and "isValidJti jti"
  shows "\<not> isTokenBlocked t jti (snd (blockToken now jti ttl r))"
  using assms by (simp add: blockToken_def blocklistKey_def isTokenBlocked_def redis_store.set_same)

text \<open>Revocation does not depend on the case of the identifier, and spares every other token.\<close>

lemma block_other:
  assumes "toLowerCase j \<noteq> toLowerCase jti"
  shows "isTokenBlocked t j (snd (blockToken now jti ttl r)) = isTokenBlocked t j r"
  using assms
  by (auto simp: blockToken_def blocklistKey_def isTokenBlocked_def redis_store.set_other throwApp_def)

lemma block_keeps_blocked:
  assumes "isTokenBlocked t j r" and "0 < ttl \<Longrightarrow> t < now + ttl * 1000"
  shows "isTokenBlocked t j (snd (blockToken now jti ttl r))"
proof (cases "toLowerCase j = toLowerCase jti \<and> 0 < ttl \<and> isValidJti jti")
  case True
  then show ?thesis
    using assms by (auto simp: blockToken_def blocklistKey_def isTokenBlocked_def redis_store.set_same
        split: if_splits)
next
  case False
  then show ?thesis
    using assms block_other[of j jti t now ttl r]
    by (cases "toLowerCase j = toLowerCase jti") (auto simp: blockToken_def blocklistKey_def throwApp_def)
qed

section \<open>Documents\<close>

record user =
  us_id :: objectId
  us_email :: string
  us_name :: string
  us_passwordHash :: string
  us_role :: userRole
  us_organizationId :: "objectId option"
  us_walletAddress :: "string option"
  us_phone :: "string option"
  us_phoneVerified :: bool
  us_twoFactorSecret :: "string option"
  us_twoFactorEnabled :: bool
  us_totpSecret :: "string option"
  us_totpEnabled :: bool
  us_totpBackupCodes :: "string list"
  us_deletedAt :: "millis option"
  us_createdAt :: millis

definition userAlive :: "user \<Rightarrow> bool" where
  "userAlive u \<longleftrightarrow> us_deletedAt u = None"

definition findUserById :: "objectId \<Rightarrow> user list \<Rightarrow> user option" where
  "findUserById i us = findOne userAlive (\<lambda>u. us_id u = i) us"

definition findUserByEmail :: "string \<Rightarrow> user list \<Rightarrow> user option" where
  "findUserByEmail email us = findOne userAlive (\<lambda>u. us_email u = email) us"

definition findUserAndUpdate :: "objectId \<Rightarrow> (user \<Rightarrow> user) \<Rightarrow> user list \<Rightarrow> user option \<times> user list" where
  "findUserAndUpdate i f us = findOneAndUpdate userAlive (\<lambda>u. us_id u = i) f us"

interpretation users: soft_collection us_id userAlive findUserById findUserAndUpdate
  by unfold_locales
    (simp_all add: findUserById_def findOne_def findUserAndUpdate_def findOneAndUpdate_def)

datatype organizationType = ENTERPRISE | LOGISTICS

record organization =
  og_id :: objectId
  og_name :: string
  og_type :: organizationType
  og_settings :: jval
  og_createdAt :: millis
  og_deleted :: bool

record session =
  se_userId :: objectId
  se_jti :: string
  se_ip :: "string option"
  se_userAgent :: "string option"
  se_createdAt :: millis
  se_lastUsedAt :: millis

section \<open>Tokens\<close>

datatype persona = Company | Customer

record claims =
  cl_userId :: string
  cl_role :: "userRole option"
  cl_persona :: "persona option"
  cl_organizationId :: "string option"
  cl_organizationType :: "organizationType option"
  cl_jti :: string
  cl_type :: "string option"
  cl_iat :: int
  cl_exp :: int

definition TOKEN_TTL_SECONDS :: int where
  "TOKEN_TTL_SECONDS = 7 * 24 * 60 * 60"

definition RESET_TOKEN_TTL_SECONDS :: int where
  "RESET_TOKEN_TTL_SECONDS = 60 * 60"

definition seconds :: "millis \<Rightarrow> int" where
  "seconds now = now div 1000"

definition derivePersona :: "userRole \<Rightarrow> organizationType option \<Rightarrow> persona" where
  "derivePersona role ty = (if role = CUSTOMER \<or> ty = Some ENTERPRISE then Customer else Company)"

definition determineUserRole :: "string \<Rightarrow> userRole" where
  "determineUserRole email = VIEWER"

record authEnv =
  ae_sign :: "claims \<Rightarrow> string"
  ae_verify :: "bool \<Rightarrow> int \<Rightarrow> string \<Rightarrow> claims option"
  ae_hash :: "string \<Rightarrow> string"
  ae_compare :: "string \<Rightarrow> string \<Rightarrow> bool"
  ae_uuid :: string
  ae_fresh :: "nat \<Rightarrow> objectId"
  ae_now :: millis
  ae_sessionsUp :: bool

text \<open>
  What the code relies on: a token verifies to the claims it was signed with until it expires (or
  regardless of its expiry when that is ignored), a password compares equal to its own hash, and
  random UUIDs have the version-4 shape.
\<close>

definition libs_ok :: "authEnv \<Rightarrow> bool" where
  "libs_ok env \<longleftrightarrow>
     (\<forall>c ign t. ae_verify env ign t (ae_sign env c) = (if ign \<or> t < cl_exp c then Some c else None))
     \<and> (\<forall>p. ae_compare env p (ae_hash env p)) \<and> isValidJti (ae_uuid env)"

text \<open>\<open>jwt.sign\<close> stamps \<open>iat\<close> and \<open>exp\<close>.\<close>

definition tokenClaims :: "authEnv \<Rightarrow> user \<Rightarrow> organizationType option \<Rightarrow> claims" where
  "tokenClaims env u ty =
     \<lparr>cl_userId = us_id u, cl_role = Some (us_role u), cl_persona = Some (derivePersona (us_role u) ty),
      cl_organizationId = us_organizationId u, cl_organizationType = ty, cl_jti = ae_uuid env,
      cl_type = None, cl_iat = seconds (ae_now env), cl_exp = seconds (ae_now env) + TOKEN_TTL_SECONDS\<rparr>"

definition generateToken :: "authEnv \<Rightarrow> user \<Rightarrow> organizationType option \<Rightarrow> string \<times> string" where
  "generateToken env u ty = (ae_sign env (tokenClaims env u ty), ae_uuid env)"

definition verifyToken :: "authEnv \<Rightarrow> string \<Rightarrow> claims option" where
  "verifyToken env token = ae_verify env False (seconds (ae_now env)) token"

section \<open>Middleware\<close>

definition requireAuth :: "authEnv \<Rightarrow> string option \<Rightarrow> redis \<Rightarrow> claims result" where
  "requireAuth env authHeader r =
     (if \<not> truthy authHeader \<or> \<not> startsWith (the authHeader) ''Bearer ''
      then throwApp 401 ''Missing or invalid authorization header'' (ErrorCodes UNAUTHORIZED)
      else case verifyToken env (drop 7 (the authHeader)) of
          None \<Rightarrow> throwApp 401 ''Invalid or expired token'' (ErrorCodes UNAUTHORIZED)
        | Some payload \<Rightarrow>
            (if cl_jti payload \<noteq> [] \<and> isTokenBlocked (ae_now env) (cl_jti payload) r
             then throwApp 401 ''Token has been revoked'' ''TOKEN_REVOKED''
             else Inr payload))"

definition requireRole :: "userRole list \<Rightarrow> claims option \<Rightarrow> unit result" where
  "requireRole roles user =
     (case user of
        None \<Rightarrow> throwApp 403 ''Forbidden: insufficient role'' (ErrorCodes FORBIDDEN)
      | Some c \<Rightarrow>
          (case cl_role c of
             None \<Rightarrow> throwApp 403 ''Forbidden: insufficient role'' (ErrorCodes FORBIDDEN)
           | Some role \<Rightarrow> if role \<in> set roles then Inr ()
               else throwApp 403 ''Forbidden: insufficient role'' (ErrorCodes FORBIDDEN)))"

section \<open>State\<close>

record authState =
  at_users :: "user list"
  at_orgs :: "organization list"
  at_sessions :: "session list"
  at_redis :: redis
  at_mails :: "(string \<times> string) list"
    \<comment> \<open>recipient and reset token\<close>

definition organizationTypeOf :: "objectId option \<Rightarrow> organization list \<Rightarrow> organizationType option" where
  "organizationTypeOf org orgs = (case org of None \<Rightarrow> None
     | Some i \<Rightarrow> map_option og_type (List.find (\<lambda>g. og_id g = i \<and> \<not> og_deleted g) orgs))"

record requestContext =
  rc_ip :: "string option"
  rc_userAgent :: "string option"

text \<open>A failed insertion (the store, or a repeated jti) is swallowed.\<close>

definition createSession :: "authEnv \<Rightarrow> objectId \<Rightarrow> string \<Rightarrow> requestContext \<Rightarrow> authState \<Rightarrow> authState" where
  "createSession env userId jti cx s =
     (if ae_sessionsUp env \<and> jti \<notin> se_jti ` set (at_sessions s)
      then s\<lparr>at_sessions := at_sessions s @
             [\<lparr>se_userId = userId, se_jti = jti, se_ip = rc_ip cx, se_userAgent = rc_userAgent cx,
               se_createdAt = ae_now env,
               se_lastUsedAt = ae_now env\<rparr>]\<rparr>
      else s)"

definition listSessions :: "objectId \<Rightarrow> authState \<Rightarrow> session list" where
  "listSessions userId s = desc_by se_createdAt (filter (\<lambda>x. se_userId x = userId) (at_sessions s))"

definition revokeSession :: "authEnv \<Rightarrow> objectId \<Rightarrow> string \<Rightarrow> authState \<Rightarrow> unit result \<times> authState" where
  "revokeSession env requestingUserId jti s =
     (case List.find (\<lambda>x. se_jti x = jti) (at_sessions s) of
        None \<Rightarrow> (throwApp 404 ''Session not found'' (ErrorCodes NOT_FOUND), s)
      | Some x \<Rightarrow>
          (if se_userId x \<noteq> requestingUserId
           then (throwApp 403 ''Cannot revoke another user's session'' (ErrorCodes FORBIDDEN), s)
           else (case blockToken (ae_now env) jti TOKEN_TTL_SECONDS (at_redis s) of
               (Inl e, r) \<Rightarrow> (Inl e, s\<lparr>at_redis := r\<rparr>)
             | (Inr u, r) \<Rightarrow> (Inr (), s\<lparr>at_redis := r,
                 at_sessions := filter (\<lambda>y. se_jti y \<noteq> jti) (at_sessions s)\<rparr>))))"

section \<open>Accounts\<close>

record signupInput =
  si_email :: string
  si_name :: string
  si_password :: string
  si_organizationId :: "objectId option"

definition newUser ::
  "authEnv \<Rightarrow> nat \<Rightarrow> string \<Rightarrow> string \<Rightarrow> string \<Rightarrow> userRole \<Rightarrow> objectId option \<Rightarrow> user" where
  "newUser env k email name password role org =
     \<lparr>us_id = ae_fresh env k, us_email = email, us_name = name, us_passwordHash = ae_hash env password,
      us_role = role, us_organizationId = org, us_walletAddress = None, us_phone = None,
      us_phoneVerified = False, us_twoFactorSecret = None, us_twoFactorEnabled = False,
      us_totpSecret = None, us_totpEnabled = False, us_totpBackupCodes = [], us_deletedAt = None,
      us_createdAt = ae_now env\<rparr>"

text \<open>The unique index on \<open>email\<close> also covers deleted accounts, which \<open>findOne\<close> does not see.\<close>

definition signup :: "authEnv \<Rightarrow> signupInput \<Rightarrow> requestContext \<Rightarrow> authState \<Rightarrow> (user \<times> string) result \<times> authState" where
  "signup env input cx s =
     (case findUserByEmail (si_email input) (at_users s) of
        Some u \<Rightarrow> (throwApp 409 ''Email already in use'' ''EMAIL_TAKEN'', s)
      | None \<Rightarrow>
          (if si_email input \<in> us_email ` set (at_users s)
           then (Inl (DuplicateKey (Some ''email'')), s)
           else
             (let u = newUser env 0 (si_email input) (si_name input) (si_password input)
                        (determineUserRole (si_email input)) (si_organizationId input);
                  s1 = s\<lparr>at_users := at_users s @ [u]\<rparr>;
                  ty = organizationTypeOf (us_organizationId u) (at_orgs s);
                  (token, jti) = generateToken env u ty
              in (Inr (u, token), createSession env (us_id u) jti cx s1))))"

definition login :: "authEnv \<Rightarrow> string \<Rightarrow> string \<Rightarrow> requestContext \<Rightarrow> authState \<Rightarrow> (user \<times> string) result \<times> authState" where
  "login env email password cx s =
     (case findUserByEmail email (at_users s) of
        None \<Rightarrow> (throwApp 401 ''Invalid credentials'' ''INVALID_CREDENTIALS'', s)
      | Some u \<Rightarrow>
          (if \<not> ae_compare env password (us_passwordHash u)
           then (throwApp 401 ''Invalid credentials'' ''INVALID_CREDENTIALS'', s)
           else
             (let ty = organizationTypeOf (us_organizationId u) (at_orgs s);
                  (token, jti) = generateToken env u ty
              in (Inr (u, token), createSession env (us_id u) jti cx s))))"

definition refreshToken :: "authEnv \<Rightarrow> string \<Rightarrow> authState \<Rightarrow> (string \<times> int) result \<times> authState" where
  "refreshToken env token s =
     (case ae_verify env True (seconds (ae_now env)) token of
        None \<Rightarrow> (throwApp 401 ''Invalid token'' ''INVALID_TOKEN'', s)
      | Some payload \<Rightarrow>
          (if cl_jti payload = [] then (throwApp 401 ''Invalid token'' ''INVALID_TOKEN'', s)
           else if isTokenBlocked (ae_now env) (cl_jti payload) (at_redis s)
           then (throwApp 401 ''Token has been revoked'' ''TOKEN_REVOKED'', s)
           else let now = seconds (ae_now env); gracePeriodSeconds = 7 * 24 * 60 * 60 in
             (if now - cl_iat payload > gracePeriodSeconds
              then (throwApp 401 ''Token is too old to refresh'' ''TOKEN_EXPIRED'', s)
              else case findUserById (cl_userId payload) (at_users s) of
                  None \<Rightarrow> (throwApp 401 ''User no longer exists'' ''USER_NOT_FOUND'', s)
                | Some u \<Rightarrow>
                    (let ty = organizationTypeOf (us_organizationId u) (at_orgs s);
                         oldTtl = cl_exp payload - now;
                         (b, r) = blockToken (ae_now env) (cl_jti payload)
                           (if oldTtl > 0 then oldTtl + gracePeriodSeconds else gracePeriodSeconds) (at_redis s);
                         s1 = s\<lparr>at_redis := r\<rparr>
                     in case b of Inl e \<Rightarrow> (Inl e, s1)
                        | Inr v \<Rightarrow> (Inr (fst (generateToken env u ty), TOKEN_TTL_SECONDS), s1)))))"

text \<open>\<open>exp ? exp - now : default\<close>\<close>

definition remainingTtl :: "authEnv \<Rightarrow> claims \<Rightarrow> int \<Rightarrow> int" where
  "remainingTtl env payload dflt = (if cl_exp payload \<noteq> 0 then cl_exp payload - seconds (ae_now env) else dflt)"

definition logout :: "authEnv \<Rightarrow> string \<Rightarrow> authState \<Rightarrow> unit result \<times> authState" where
  "logout env token s =
     (case verifyToken env token of
        None \<Rightarrow> (Inr (), s)
      | Some payload \<Rightarrow>
          (let ttl = remainingTtl env payload TOKEN_TTL_SECONDS
           in if ttl > 0 \<and> cl_jti payload \<noteq> []
              then (let (b, r) = blockToken (ae_now env) (cl_jti payload) ttl (at_redis s) in (b, s\<lparr>at_redis := r\<rparr>))
              else (Inr (), s)))"

definition resetClaims :: "authEnv \<Rightarrow> user \<Rightarrow> claims" where
  "resetClaims env u =
     \<lparr>cl_userId = us_id u, cl_role = None, cl_persona = None, cl_organizationId = None,
      cl_organizationType = None, cl_jti = ae_uuid env, cl_type = Some ''PASSWORD_RESET'',
      cl_iat = seconds (ae_now env), cl_exp = seconds (ae_now env) + RESET_TOKEN_TTL_SECONDS\<rparr>"

text \<open>A mail that cannot be sent is logged; the response is the same.\<close>

definition forgotPassword :: "authEnv \<Rightarrow> bool \<Rightarrow> string \<Rightarrow> authState \<Rightarrow> authState" where
  "forgotPassword env mailUp email s =
     (case findUserByEmail email (at_users s) of
        None \<Rightarrow> s
      | Some u \<Rightarrow> if mailUp then s\<lparr>at_mails := at_mails s @ [(email, ae_sign env (resetClaims env u))]\<rparr> else s)"

definition invalidResetToken :: "'a result" where
  "invalidResetToken = throwApp 400 ''Invalid or expired reset token'' ''ERR_AUTH_INVALID_RESET_TOKEN''"

definition saveUser :: "objectId \<Rightarrow> (user \<Rightarrow> user) \<Rightarrow> authState \<Rightarrow> authState" where
  "saveUser i f s = s\<lparr>at_users := snd (findUserAndUpdate i f (at_users s))\<rparr>"

definition resetPassword :: "authEnv \<Rightarrow> string \<Rightarrow> string \<Rightarrow> authState \<Rightarrow> unit result \<times> authState" where
  "resetPassword env token newPassword s =
     (case ae_verify env False (seconds (ae_now env)) token of
        None \<Rightarrow> (invalidResetToken, s)
      | Some payload \<Rightarrow>
          (if cl_type payload \<noteq> Some ''PASSWORD_RESET'' then (invalidResetToken, s)
           else case findUserById (cl_userId payload) (at_users s) of
               None \<Rightarrow> (invalidResetToken, s)
             | Some u \<Rightarrow>
                 (let s1 = saveUser (us_id u) (\<lambda>x. x\<lparr>us_passwordHash := ae_hash env newPassword\<rparr>) s;
                      ttl = remainingTtl env payload RESET_TOKEN_TTL_SECONDS
                  in if cl_jti payload \<noteq> [] \<and> ttl > 0
                     then (let (b, r) = blockToken (ae_now env) (cl_jti payload) ttl (at_redis s1)
                           in (b, s1\<lparr>at_redis := r\<rparr>))
                     else (Inr (), s1))))"

definition changePassword ::
  "authEnv \<Rightarrow> objectId \<Rightarrow> string \<Rightarrow> string \<Rightarrow> string \<Rightarrow> authState \<Rightarrow> unit result \<times> authState" where
  "changePassword env userId currentPassword newPassword currentJwt s =
     (case findUserById userId (at_users s) of
        None \<Rightarrow> (throwApp 401 ''User not found'' ''ERR_AUTH_INVALID'', s)
      | Some u \<Rightarrow>
          (if \<not> ae_compare env currentPassword (us_passwordHash u)
           then (throwApp 401 ''Current password is incorrect'' ''INVALID_CREDENTIALS'', s)
           else
             (let s1 = saveUser userId (\<lambda>x. x\<lparr>us_passwordHash := ae_hash env newPassword\<rparr>) s
              in case verifyToken env currentJwt of
                   None \<Rightarrow> (Inr (), s1)
                 | Some payload \<Rightarrow>
                     (let ttl = remainingTtl env payload TOKEN_TTL_SECONDS
                      in if cl_jti payload \<noteq> [] \<and> ttl > 0
                         then (Inr (), s1\<lparr>at_redis := snd (blockToken (ae_now env) (cl_jti payload) ttl (at_redis s1))\<rparr>)
                         else (Inr (), s1)))))"

record companyInput =
  ci_companyName :: string
  ci_industry :: string
  ci_country :: string
  ci_companySize :: string
  ci_adminName :: string
  ci_email :: string
  ci_password :: string

text \<open>
  The transaction: any throw before the commit leaves the collections as they were. The lookups see
  live documents only, while the unique indexes on the organization's name and on the email also
  cover deleted ones. No session record is created.
\<close>

definition registerCompany :: "authEnv \<Rightarrow> companyInput \<Rightarrow> authState \<Rightarrow> (user \<times> string) result \<times> authState" where
  "registerCompany env input s =
     (case findUserByEmail (ci_email input) (at_users s) of
        Some u \<Rightarrow> (throwApp 409 ''Email already in use'' ''EMAIL_TAKEN'', s)
      | None \<Rightarrow>
          (if \<exists>g\<in>set (at_orgs s). og_name g = ci_companyName input \<and> \<not> og_deleted g
           then (throwApp 409 ''Organization name already exists'' ''DUPLICATE_KEY'', s)
           else if ci_companyName input \<in> og_name ` set (at_orgs s)
           then (Inl (DuplicateKey (Some ''name'')), s)
           else if ci_email input \<in> us_email ` set (at_users s)
           then (Inl (DuplicateKey (Some ''email'')), s)
           else
             (let org = \<lparr>og_id = ae_fresh env 0, og_name = ci_companyName input, og_type = ENTERPRISE,
                         og_settings = JObj [(''industry'', JStr (ci_industry input)),
                           (''country'', JStr (ci_country input)), (''companySize'', JStr (ci_companySize input))],
                         og_createdAt = ae_now env,
                         og_deleted = False\<rparr>;
                  u = newUser env 1 (ci_email input) (ci_adminName input) (ci_password input) ADMIN (Some (og_id org));
                  (token, jti) = generateToken env u (Some ENTERPRISE)
              in (Inr (u, token), s\<lparr>at_orgs := at_orgs s @ [org], at_users := at_users s @ [u]\<rparr>))))"

text \<open>
  \<open>setup2fa\<close> of \<open>auth.service.ts\<close>: \<open>gen\<close> is otplib's secret, \<open>uri\<close> its \<open>otpauth\<close> URI, \<open>png\<close> the QR
  renderer and \<open>enc\<close> the encryption of \<open>totp.utils.ts\<close>.
\<close>

definition setup2fa ::
  "string \<Rightarrow> (string \<Rightarrow> string \<Rightarrow> string) \<Rightarrow> (string \<Rightarrow> string) \<Rightarrow> (string \<Rightarrow> string) \<Rightarrow> objectId
   \<Rightarrow> authState \<Rightarrow> string result \<times> authState" where
  "setup2fa gen uri png enc userId s =
     (case findUserById userId (at_users s) of
        None \<Rightarrow> (throwApp 401 ''User not found'' ''ERR_AUTH_INVALID'', s)
      | Some u \<Rightarrow> (Inr (png (uri (us_email u) gen)),
          saveUser userId (\<lambda>x. x\<lparr>us_twoFactorSecret := Some (enc gen), us_twoFactorEnabled := False\<rparr>) s))"

section \<open>Who passes the guard\<close>

lemma requireAuth_sound:
  assumes "requireAuth env h r = Inr c"
  shows "\<exists>token. h = Some (''Bearer '' @ token) \<and> verifyToken env token = Some c
     \<and> (cl_jti c = [] \<or> \<not> isTokenBlocked (ae_now env) (cl_jti c) r)"
proof -
  have h: "truthy h" "startsWith (the h) ''Bearer ''"
    using assms by (auto simp: requireAuth_def split: if_splits)
  then obtain x where x: "h = Some x" by (cases h) auto
  have "x = ''Bearer '' @ drop 7 x"
    using startsWith_decomp[OF h(2)] by (simp add: x eval_nat_numeral)
  moreover have "verifyToken env (drop 7 x) = Some c
      \<and> (cl_jti c = [] \<or> \<not> isTokenBlocked (ae_now env) (cl_jti c) r)"
    using assms h by (auto simp: requireAuth_def x split: option.splits if_splits)
  ultimately show ?thesis unfolding x by blast
qed

lemma requireAuth_bearer:
  "requireAuth env (Some (''Bearer '' @ token)) r =
     (case verifyToken env token of
        None \<Rightarrow> throwApp 401 ''Invalid or expired token'' (ErrorCodes UNAUTHORIZED)
      | Some payload \<Rightarrow>
          (if cl_jti payload \<noteq> [] \<and> isTokenBlocked (ae_now env) (cl_jti payload) r
           then throwApp 401 ''Token has been revoked'' ''TOKEN_REVOKED'' else Inr payload))"
  unfolding requireAuth_def by (simp add: startsWith_def)

lemma verify_signed:
  "libs_ok env \<Longrightarrow> verifyToken env (ae_sign env c) = (if seconds (ae_now env) < cl_exp c then Some c else None)"
  by (simp add: verifyToken_def libs_ok_def)

definition at_time :: "millis \<Rightarrow> authEnv \<Rightarrow> authEnv" where
  "at_time t env = env\<lparr>ae_now := t\<rparr>"

lemma at_time_simps [simp]:
  "ae_now (at_time t env) = t" "ae_sign (at_time t env) = ae_sign env"
  "ae_verify (at_time t env) = ae_verify env" "ae_uuid (at_time t env) = ae_uuid env"
  "ae_hash (at_time t env) = ae_hash env" "ae_compare (at_time t env) = ae_compare env"
  "libs_ok (at_time t env) = libs_ok env"
  by (simp_all add: at_time_def libs_ok_def)

text \<open>
  A token whose identifier stays blocked until it expires is dead: no request at any time gets in
  with it. The clocks meet because a block lasts a whole number of seconds from a millisecond.
\<close>

definition dead_token :: "authEnv \<Rightarrow> claims \<Rightarrow> redis \<Rightarrow> bool" where
  "dead_token env c r \<longleftrightarrow>
     (\<forall>t. \<exists>e. requireAuth (at_time t env) (Some (''Bearer '' @ ae_sign env c)) r = Inl e)"

lemma valid_jti_nonempty: "isValidJti j \<Longrightarrow> j \<noteq> []"
  by (auto simp: isValidJti_def)

lemma dead_tokenI:
  assumes "libs_ok env" and "isValidJti (cl_jti c)"
    and "\<And>t. seconds t < cl_exp c \<Longrightarrow> isTokenBlocked t (cl_jti c) r"
  shows "dead_token env c r"
  unfolding dead_token_def requireAuth_bearer
  using assms valid_jti_nonempty[OF assms(2)] verify_signed[of "at_time _ env" c]
  by (simp add: throwApp_def)

lemma seconds_less: "seconds t < e \<longleftrightarrow> t < e * 1000"
  unfolding seconds_def by linarith

lemma block_kills:
  assumes "libs_ok env" and "isValidJti (cl_jti c)" and "0 < ttl" and "cl_exp c * 1000 \<le> now + ttl * 1000"
  shows "dead_token env c (snd (blockToken now (cl_jti c) ttl r))"
  using assms by (intro dead_tokenI blocked_until) (auto simp: seconds_less)

section \<open>Revocation\<close>

lemma logout_revokes:
  assumes "libs_ok env" and "isValidJti (cl_jti c)" and "0 < cl_exp c"
  shows "fst (logout env (ae_sign env c) s) = Inr ()"
    and "seconds (ae_now env) < cl_exp c \<Longrightarrow> dead_token env c (at_redis (snd (logout env (ae_sign env c) s)))"
proof -
  let ?ttl = "cl_exp c - seconds (ae_now env)"
  obtain b r where br: "blockToken (ae_now env) (cl_jti c) ?ttl (at_redis s) = (b, r)"
    by (cases "blockToken (ae_now env) (cl_jti c) ?ttl (at_redis s)")
  have b: "b = Inr ()"
    using br assms by (auto simp: blockToken_def blocklistKey_def split: if_splits)
  show "fst (logout env (ae_sign env c) s) = Inr ()"
    using assms br b by (simp add: logout_def verify_signed remainingTtl_def)
  assume live: "seconds (ae_now env) < cl_exp c"
  have "dead_token env c (snd (blockToken (ae_now env) (cl_jti c) ?ttl (at_redis s)))"
    using assms live by (intro block_kills) (auto simp: seconds_def)
  then show "dead_token env c (at_redis (snd (logout env (ae_sign env c) s)))"
    using assms live br valid_jti_nonempty[OF assms(2)]
    by (simp add: logout_def verify_signed remainingTtl_def)
qed

lemma revokeSession_revokes:
  assumes "libs_ok env" and "isValidJti (cl_jti c)"
    and "cl_exp c \<le> seconds (ae_now env) + TOKEN_TTL_SECONDS"
    and "fst (revokeSession env uid (cl_jti c) s) = Inr ()"
  shows "dead_token env c (at_redis (snd (revokeSession env uid (cl_jti c) s)))"
    and "cl_jti c \<notin> se_jti ` set (at_sessions (snd (revokeSession env uid (cl_jti c) s)))"
proof -
  obtain b r where br: "blockToken (ae_now env) (cl_jti c) TOKEN_TTL_SECONDS (at_redis s) = (b, r)"
    by (cases "blockToken (ae_now env) (cl_jti c) TOKEN_TTL_SECONDS (at_redis s)")
  have b: "b = Inr ()"
    using br assms(2) by (auto simp: blockToken_def blocklistKey_def split: if_splits)
  have st: "snd (revokeSession env uid (cl_jti c) s)
      = s\<lparr>at_redis := r, at_sessions := filter (\<lambda>y. se_jti y \<noteq> cl_jti c) (at_sessions s)\<rparr>"
    using assms(4) br b by (auto simp: revokeSession_def throwApp_def split: option.splits if_splits)
  have "cl_exp c * 1000 \<le> ae_now env + TOKEN_TTL_SECONDS * 1000"
    using assms(3) unfolding seconds_def by linarith
  then have "dead_token env c (snd (blockToken (ae_now env) (cl_jti c) TOKEN_TTL_SECONDS (at_redis s)))"
    using assms by (intro block_kills) (auto simp: TOKEN_TTL_SECONDS_def)
  then show "dead_token env c (at_redis (snd (revokeSession env uid (cl_jti c) s)))"
    unfolding st br by simp
  show "cl_jti c \<notin> se_jti ` set (at_sessions (snd (revokeSession env uid (cl_jti c) s)))"
    unfolding st by auto
qed

lemma revokeSession_owner:
  assumes "fst (revokeSession env uid jti s) = Inr ()"
  shows "\<exists>x\<in>set (at_sessions s). se_jti x = jti \<and> se_userId x = uid"
  using assms by (auto simp: revokeSession_def throwApp_def dest!: find_SomeD split: option.splits if_splits)

lemma revokeSession_refused:
  assumes "fst (revokeSession env uid jti s) \<noteq> Inr ()" and "isValidJti jti"
  shows "snd (revokeSession env uid jti s) = s"
proof -
  have "fst (blockToken (ae_now env) jti TOKEN_TTL_SECONDS (at_redis s)) = Inr ()"
    using assms(2) by (simp add: blockToken_def blocklistKey_def)
  then show ?thesis
    using assms(1)
    by (auto simp: revokeSession_def split: option.splits if_splits prod.splits)
qed

section \<open>Refreshing\<close>

text \<open>\<open>refreshable env c u s\<close>: the conditions under which \<open>refreshToken\<close> issues a new token.\<close>

definition refreshable :: "authEnv \<Rightarrow> claims \<Rightarrow> user \<Rightarrow> authState \<Rightarrow> bool" where
  "refreshable env c u s \<longleftrightarrow> isValidJti (cl_jti c)
     \<and> \<not> isTokenBlocked (ae_now env) (cl_jti c) (at_redis s)
     \<and> seconds (ae_now env) - cl_iat c \<le> 7 * 24 * 60 * 60
     \<and> findUserById (cl_userId c) (at_users s) = Some u"

definition refreshBlockTtl :: "authEnv \<Rightarrow> claims \<Rightarrow> int" where
  "refreshBlockTtl env c = (let oldTtl = cl_exp c - seconds (ae_now env) in
     if oldTtl > 0 then oldTtl + 7 * 24 * 60 * 60 else 7 * 24 * 60 * 60)"

lemma refresh_eq:
  assumes "libs_ok env" and "refreshable env c u s"
  shows "refreshToken env (ae_sign env c) s =
     (Inr (fst (generateToken env u (organizationTypeOf (us_organizationId u) (at_orgs s))), TOKEN_TTL_SECONDS),
      s\<lparr>at_redis := snd (blockToken (ae_now env) (cl_jti c) (refreshBlockTtl env c) (at_redis s))\<rparr>)"
proof -
  have v: "ae_verify env True (seconds (ae_now env)) (ae_sign env c) = Some c"
    using assms(1) by (simp add: libs_ok_def)
  have j: "isValidJti (cl_jti c)" using assms(2) by (simp add: refreshable_def)
  have "fst (blockToken (ae_now env) (cl_jti c) (refreshBlockTtl env c) (at_redis s)) = Inr ()"
    using j by (simp add: blockToken_def blocklistKey_def)
  then obtain r where br: "blockToken (ae_now env) (cl_jti c) (refreshBlockTtl env c) (at_redis s) = (Inr (), r)"
    by (cases "blockToken (ae_now env) (cl_jti c) (refreshBlockTtl env c) (at_redis s)") auto
  show ?thesis
    using assms(2) v valid_jti_nonempty[OF j] br
    unfolding refreshToken_def refreshable_def refreshBlockTtl_def Let_def by (simp split: if_splits)
qed

text \<open>The old token dies with the refresh, and can never be refreshed again.\<close>

lemma refresh_revokes:
  assumes "libs_ok env" and "refreshable env c u s"
  shows "dead_token env c (at_redis (snd (refreshToken env (ae_sign env c) s)))"
  unfolding refresh_eq[OF assms]
  using assms by (auto intro!: block_kills simp: refreshBlockTtl_def refreshable_def Let_def seconds_def)

lemma refresh_once:
  assumes "libs_ok env" and "refreshable env c u s" and "ae_now env \<le> t"
    and "cl_iat c \<le> seconds (ae_now env)" and "cl_iat c < cl_exp c"
    and "at_redis s' = at_redis (snd (refreshToken env (ae_sign env c) s))"
  shows "\<exists>e. fst (refreshToken (at_time t env) (ae_sign env c) s') = Inl e"
proof -
  have v: "ae_verify (at_time t env) True (seconds t) (ae_sign env c) = Some c"
    using assms(1) by (simp add: libs_ok_def)
  have j: "isValidJti (cl_jti c)" using assms(2) by (simp add: refreshable_def)
  show ?thesis
  proof (cases "t < ae_now env + refreshBlockTtl env c * 1000")
    case True
    then have "isTokenBlocked t (cl_jti c) (at_redis s')"
      unfolding assms(6) refresh_eq[OF assms(1,2)] using j
      by (auto intro!: blocked_until simp: refreshBlockTtl_def Let_def)
    then show ?thesis
      using v valid_jti_nonempty[OF j] by (simp add: refreshToken_def throwApp_def)
  next
    case False
    then have "seconds (ae_now env) + refreshBlockTtl env c \<le> seconds t"
      unfolding seconds_def by linarith
    then have "seconds t - cl_iat c > 604800"
      using assms(4,5) by (auto simp: refreshBlockTtl_def Let_def split: if_splits)
    then show ?thesis
      using v valid_jti_nonempty[OF j] by (simp add: refreshToken_def throwApp_def)
  qed
qed

section \<open>Accounts\<close>

lemma createSession_frame [simp, frame]:
  "at_users (createSession env uid j cx s) = at_users s"
  "at_orgs (createSession env uid j cx s) = at_orgs s"
  "at_redis (createSession env uid j cx s) = at_redis s"
  "at_mails (createSession env uid j cx s) = at_mails s"
  by (simp_all add: createSession_def)

lemma signup_eq:
  assumes "fst (signup env input cx s) = Inr (u, token)"
  shows "u = newUser env 0 (si_email input) (si_name input) (si_password input) VIEWER (si_organizationId input)"
    and "token = fst (generateToken env u (organizationTypeOf (us_organizationId u) (at_orgs s)))"
    and "snd (signup env input cx s)
       = createSession env (us_id u) (ae_uuid env) cx (s\<lparr>at_users := at_users s @ [u]\<rparr>)"
    and "si_email input \<notin> us_email ` set (at_users s)"
  using assms
  by (auto simp: signup_def throwApp_def Let_def determineUserRole_def generateToken_def
      split: option.splits if_splits prod.splits)

lemma newUser_simps [simp]:
  "us_role (newUser env k e n p r og) = r" "us_email (newUser env k e n p r og) = e"
  "us_passwordHash (newUser env k e n p r og) = ae_hash env p" "userAlive (newUser env k e n p r og)"
  "us_organizationId (newUser env k e n p r og) = og" "us_id (newUser env k e n p r og) = ae_fresh env k"
  by (simp_all add: newUser_def userAlive_def)

lemma tokenClaims_live [simp]: "seconds (ae_now env) < cl_exp (tokenClaims env u ty)"
  by (simp add: tokenClaims_def TOKEN_TTL_SECONDS_def)

lemma fresh_token_verifies:
  "libs_ok env \<Longrightarrow> verifyToken env (fst (generateToken env u ty)) = Some (tokenClaims env u ty)"
  by (simp add: generateToken_def verify_signed)

lemma signup_viewer:
  assumes "libs_ok env" and "fst (signup env input cx s) = Inr (u, token)"
  shows "us_role u = VIEWER
     \<and> (\<exists>c. verifyToken env token = Some c \<and> cl_role c = Some VIEWER \<and> cl_userId c = us_id u)
     \<and> at_users (snd (signup env input cx s)) = at_users s @ [u]"
  using fresh_token_verifies[OF assms(1)] signup_eq[OF assms(2)]
  by (simp add: tokenClaims_def)

lemma login_sound:
  assumes "fst (login env email password cx s) = Inr (u, token)"
  shows "findUserByEmail email (at_users s) = Some u \<and> ae_compare env password (us_passwordHash u)
     \<and> token = fst (generateToken env u (organizationTypeOf (us_organizationId u) (at_orgs s)))
     \<and> snd (login env email password cx s) = createSession env (us_id u) (ae_uuid env) cx s"
  using assms
  by (auto simp: login_def throwApp_def generateToken_def Let_def split: option.splits if_splits prod.splits)

lemma login_matching:
  "findUserByEmail email (at_users s) = Some u \<Longrightarrow> ae_compare env password (us_passwordHash u)
   \<Longrightarrow> fst (login env email password cx s)
       = Inr (u, fst (generateToken env u (organizationTypeOf (us_organizationId u) (at_orgs s))))"
  by (simp add: login_def generateToken_def Let_def)

lemma find_email_new:
  assumes "us_email u \<notin> us_email ` set us" and "userAlive u"
  shows "findUserByEmail (us_email u) (us @ [u]) = Some u"
proof -
  have "List.find (\<lambda>x. us_email x = us_email u \<and> userAlive x) us = None"
    using assms by (auto simp: find_None_iff image_iff)
  then show ?thesis
    using assms by (simp add: findUserByEmail_def findOne_def find_append)
qed

text \<open>The account that was just created logs in with its password, and only with it.\<close>

lemma signup_then_login:
  assumes "libs_ok env" and "fst (signup env input cx s) = Inr (u, token)"
  shows "fst (login (at_time t env) (si_email input) (si_password input) cx' (snd (signup env input cx s)))
     = Inr (u, fst (generateToken (at_time t env) u (organizationTypeOf (us_organizationId u) (at_orgs s))))"
proof -
  note e = signup_eq[OF assms(2)]
  have em: "us_email u = si_email input" and al: "userAlive u"
    and h: "us_passwordHash u = ae_hash env (si_password input)"
    unfolding e(1) by simp_all
  have f: "findUserByEmail (si_email input) (at_users (snd (signup env input cx s))) = Some u"
    using find_email_new[of u "at_users s"] e(4) em al by (simp add: e(3))
  have o: "at_orgs (snd (signup env input cx s)) = at_orgs s"
    by (simp add: e(3))
  show ?thesis
    using login_matching[of "si_email input" "snd (signup env input cx s)" u "at_time t env", OF f] assms(1) h
    unfolding o by (simp add: libs_ok_def)
qed

section \<open>Well-formed accounts\<close>

definition wf_auth :: "authState \<Rightarrow> bool" where
  "wf_auth s \<longleftrightarrow> distinct (map us_id (at_users s)) \<and> distinct (map us_email (at_users s))
     \<and> distinct (map og_name (at_orgs s)) \<and> distinct (map se_jti (at_sessions s))"

definition fresh_ids :: "authEnv \<Rightarrow> authState \<Rightarrow> bool" where
  "fresh_ids env s \<longleftrightarrow> (\<forall>k. ae_fresh env k \<notin> us_id ` set (at_users s))"

lemma wf_createSession: "wf_auth s \<Longrightarrow> wf_auth (createSession env uid j cx s)"
  by (auto simp: wf_auth_def createSession_def)

lemma wf_saveUser:
  "(\<And>u. us_id (f u) = us_id u) \<Longrightarrow> (\<And>u. us_email (f u) = us_email u) \<Longrightarrow> wf_auth s \<Longrightarrow> wf_auth (saveUser i f s)"
  by (simp add: wf_auth_def saveUser_def findUserAndUpdate_def findOneAndUpdate_def update_first_keys)

lemma signup_wf:
  assumes "wf_auth s" and "fresh_ids env s"
  shows "wf_auth (snd (signup env input cx s))"
proof (cases "fst (signup env input cx s)")
  case (Inl e)
  then have "snd (signup env input cx s) = s"
    by (auto simp: signup_def Let_def generateToken_def split: option.splits if_splits prod.splits)
  then show ?thesis using assms by simp
next
  case (Inr a)
  obtain u token where a: "a = (u, token)" by (cases a)
  note e = signup_eq[OF Inr[unfolded a]]
  have "us_id u \<notin> us_id ` set (at_users s)" and "us_email u \<notin> us_email ` set (at_users s)"
    using assms(2) e(4) unfolding e(1) fresh_ids_def by auto
  then show ?thesis
    unfolding e(3) using assms(1) by (intro wf_createSession) (auto simp: wf_auth_def)
qed

section \<open>Company registration\<close>

lemma registerCompany_atomic:
  assumes "fst (registerCompany env input s) = Inl e"
  shows "snd (registerCompany env input s) = s"
  using assms by (auto simp: registerCompany_def Let_def generateToken_def split: option.splits if_splits)

lemma registerCompany_ok:
  assumes "fst (registerCompany env input s) = Inr (u, token)"
  shows "\<exists>org. at_orgs (snd (registerCompany env input s)) = at_orgs s @ [org] \<and> og_name org = ci_companyName input
     \<and> og_type org = ENTERPRISE \<and> us_organizationId u = Some (og_id org) \<and> us_role u = ADMIN
     \<and> us_email u = ci_email input \<and> at_users (snd (registerCompany env input s)) = at_users s @ [u]
     \<and> at_sessions (snd (registerCompany env input s)) = at_sessions s
     \<and> ci_companyName input \<notin> og_name ` set (at_orgs s) \<and> ci_email input \<notin> us_email ` set (at_users s)"
  using assms
  by (auto simp: registerCompany_def throwApp_def Let_def generateToken_def
      split: option.splits if_splits)

section \<open>Passwords\<close>

lemma findUser_after_save:
  assumes "findUserById i us = Some u" and "us_id (f u) = us_id u" and "us_deletedAt (f u) = us_deletedAt u"
  shows "findUserById i (snd (findUserAndUpdate i f us)) = Some (f u)"
  using users.read_own_write[of i us u f] users.find_sound[OF assms(1)] assms by (simp add: userAlive_def)

lemma saveUser_frame [simp, frame]:
  "at_redis (saveUser i f s) = at_redis s" "at_orgs (saveUser i f s) = at_orgs s"
  "at_sessions (saveUser i f s) = at_sessions s" "at_mails (saveUser i f s) = at_mails s"
  by (simp_all add: saveUser_def)

text \<open>\<open>reset_token env0 u\<close>: the claims of a reset token issued to \<open>u\<close> when \<open>env0\<close> was current.\<close>

lemma resetClaims_simps [simp]:
  "cl_userId (resetClaims env u) = us_id u" "cl_jti (resetClaims env u) = ae_uuid env"
  "cl_type (resetClaims env u) = Some ''PASSWORD_RESET''" "cl_role (resetClaims env u) = None"
  "cl_iat (resetClaims env u) = seconds (ae_now env)"
  "cl_exp (resetClaims env u) = seconds (ae_now env) + 3600"
  by (simp_all add: resetClaims_def RESET_TOKEN_TTL_SECONDS_def)

lemma resetPassword_sets:
  assumes "libs_ok env" and "findUserById (us_id u) (at_users s) = Some x"
    and "seconds t < seconds (ae_now env) + 3600" and "0 \<le> ae_now env"
  shows "fst (resetPassword (at_time t env) (ae_sign env (resetClaims env u)) pw s) = Inr ()"
    and "findUserById (us_id u) (at_users (snd (resetPassword (at_time t env) (ae_sign env (resetClaims env u)) pw s)))
      = Some (x\<lparr>us_passwordHash := ae_hash env pw\<rparr>)"
proof -
  let ?c = "resetClaims env u" and ?f = "\<lambda>y. y\<lparr>us_passwordHash := ae_hash env pw\<rparr>"
  have v: "ae_verify env False (seconds t) (ae_sign env ?c) = Some ?c"
    using assms(1,3) by (simp add: libs_ok_def)
  have id: "us_id x = us_id u" using users.find_sound[OF assms(2)] by simp
  have j: "isValidJti (ae_uuid env)" using assms(1) by (simp add: libs_ok_def)
  have ttl: "remainingTtl (at_time t env) ?c RESET_TOKEN_TTL_SECONDS > 0"
    using assms(3) by (simp add: remainingTtl_def RESET_TOKEN_TTL_SECONDS_def)
  obtain b r where br:
    "blockToken t (ae_uuid env) (remainingTtl (at_time t env) ?c RESET_TOKEN_TTL_SECONDS) (at_redis s) = (b, r)"
    by (cases "blockToken t (ae_uuid env) (remainingTtl (at_time t env) ?c RESET_TOKEN_TTL_SECONDS) (at_redis s)")
  have b: "b = Inr ()" using br j by (auto simp: blockToken_def blocklistKey_def split: if_splits)
  have eq: "resetPassword (at_time t env) (ae_sign env ?c) pw s = (Inr (), (saveUser (us_id u) ?f s)\<lparr>at_redis := r\<rparr>)"
    unfolding resetPassword_def using v assms(2) id ttl br b valid_jti_nonempty[OF j] by (simp add: Let_def)
  show "fst (resetPassword (at_time t env) (ae_sign env ?c) pw s) = Inr ()" by (simp add: eq)
  show "findUserById (us_id u) (at_users (snd (resetPassword (at_time t env) (ae_sign env ?c) pw s))) = Some (?f x)"
    using findUser_after_save[OF assms(2), of ?f] by (simp add: eq saveUser_def)
qed

text \<open>
  Resetting blocks the token's identifier but never consults the blocklist: until it expires, the
  same token sets the password again.
\<close>

lemma resetPassword_twice:
  assumes "libs_ok env" and "findUserById (us_id u) (at_users s) = Some x"
    and "seconds t < seconds (ae_now env) + 3600" and "seconds t' < seconds (ae_now env) + 3600"
    and "0 \<le> ae_now env"
    and "s1 = snd (resetPassword (at_time t env) (ae_sign env (resetClaims env u)) pw s)"
    and "s2 = snd (resetPassword (at_time t' env) (ae_sign env (resetClaims env u)) pw' s1)"
  shows "findUserById (us_id u) (at_users s2) = Some (x\<lparr>us_passwordHash := ae_hash env pw'\<rparr>)"
proof -
  note s1 = resetPassword_sets(2)[OF assms(1,2,3,5), of pw, folded assms(6)]
  show ?thesis
    using resetPassword_sets(2)[OF assms(1) s1 assms(4,5), of pw', folded assms(7)] by simp
qed

text \<open>
  A reset token is signed with the same key as an access token, so \<open>refreshToken\<close>, which ignores the
  expiry and the type, exchanges it for an access token with the user's role.
\<close>

lemma refresh_reset_token:
  assumes "libs_ok env" and "findUserById (us_id u) (at_users s) = Some x"
    and "seconds t - seconds (ae_now env) \<le> 604800" and "\<not> isTokenBlocked t (ae_uuid env) (at_redis s)"
  shows "fst (refreshToken (at_time t env) (ae_sign env (resetClaims env u)) s)
     = Inr (ae_sign env (tokenClaims (at_time t env) x (organizationTypeOf (us_organizationId x) (at_orgs s))), 604800)"
proof -
  have "refreshable (at_time t env) (resetClaims env u) x s"
    using assms by (simp add: refreshable_def libs_ok_def)
  from refresh_eq[of "at_time t env", OF _ this] assms(1) show ?thesis
    by (simp add: generateToken_def TOKEN_TTL_SECONDS_def)
qed

lemma requireAuth_reset_token:
  assumes "libs_ok env" and "seconds t < seconds (ae_now env) + 3600"
    and "\<not> isTokenBlocked t (ae_uuid env) r"
  shows "requireAuth (at_time t env) (Some (''Bearer '' @ ae_sign env (resetClaims env u))) r
     = Inr (resetClaims env u)"
  unfolding requireAuth_bearer
  using assms verify_signed[of "at_time t env" "resetClaims env u"] by simp

lemma reset_token_has_no_role: "requireRole roles (Some (resetClaims env u)) = throwApp 403 ''Forbidden: insufficient role'' (ErrorCodes FORBIDDEN)"
  by (simp add: requireRole_def)

lemma requireRole_sound: "requireRole roles c = Inr () \<Longrightarrow> \<exists>x r. c = Some x \<and> cl_role x = Some r \<and> r \<in> set roles"
  by (auto simp: requireRole_def split: option.splits if_splits)

lemma changePassword_ok:
  assumes "libs_ok env" and "fst (changePassword env uid old new (ae_sign env c) s) = Inr ()"
    and "isValidJti (cl_jti c)" and "seconds (ae_now env) < cl_exp c" and "0 < cl_exp c"
  shows "\<exists>u. findUserById uid (at_users s) = Some u \<and> ae_compare env old (us_passwordHash u)
     \<and> findUserById uid (at_users (snd (changePassword env uid old new (ae_sign env c) s)))
         = Some (u\<lparr>us_passwordHash := ae_hash env new\<rparr>)"
    and "dead_token env c (at_redis (snd (changePassword env uid old new (ae_sign env c) s)))"
proof -
  let ?f = "\<lambda>x. x\<lparr>us_passwordHash := ae_hash env new\<rparr>"
  let ?ttl = "cl_exp c - seconds (ae_now env)"
  obtain u where u: "findUserById uid (at_users s) = Some u" "ae_compare env old (us_passwordHash u)"
    using assms(2) by (auto simp: changePassword_def throwApp_def split: option.splits if_splits)
  have eq: "snd (changePassword env uid old new (ae_sign env c) s) = (saveUser uid ?f s)\<lparr>at_redis :=
      snd (blockToken (ae_now env) (cl_jti c) ?ttl (at_redis s))\<rparr>"
    using u assms valid_jti_nonempty[OF assms(3)]
    by (simp add: changePassword_def verify_signed remainingTtl_def Let_def)
  show "\<exists>u. findUserById uid (at_users s) = Some u \<and> ae_compare env old (us_passwordHash u)
     \<and> findUserById uid (at_users (snd (changePassword env uid old new (ae_sign env c) s)))
         = Some (u\<lparr>us_passwordHash := ae_hash env new\<rparr>)"
    using u findUser_after_save[OF u(1), of ?f] by (simp add: eq saveUser_def)
  show "dead_token env c (at_redis (snd (changePassword env uid old new (ae_sign env c) s)))"
    unfolding eq using assms by (auto intro!: block_kills simp: seconds_def)
qed

lemma changePassword_refused:
  "fst (changePassword env uid old new jwt s) \<noteq> Inr () \<Longrightarrow> snd (changePassword env uid old new jwt s) = s"
  by (auto simp: changePassword_def Let_def split: option.splits if_splits)

text \<open>An account that signed up is a viewer and can log in; a password change needs the old password.\<close>

lemma signup_gives_viewer:
  assumes "libs_ok env" and "fst (signup env input cx s) = Inr (u, token)"
  shows "us_role u = VIEWER
     \<and> (\<exists>c. verifyToken env token = Some c \<and> cl_role c = Some VIEWER \<and> cl_userId c = us_id u)
     \<and> (\<exists>tk. fst (login (at_time t env) (si_email input) (si_password input) cx' (snd (signup env input cx s))) = Inr (u, tk))"
  using signup_viewer[OF assms] signup_then_login[OF assms] by blast

lemma password_change_is_guarded:
  assumes "libs_ok env" and "isValidJti (cl_jti c)" and "seconds (ae_now env) < cl_exp c" and "0 < cl_exp c"
    and "changePassword env uid old new (ae_sign env c) s = (r, s')"
  shows "if r = Inr ()
     then (\<exists>u. findUserById uid (at_users s) = Some u \<and> ae_compare env old (us_passwordHash u)
            \<and> findUserById uid (at_users s') = Some (u\<lparr>us_passwordHash := ae_hash env new\<rparr>))
          \<and> dead_token env c (at_redis s')
     else s' = s"
  using changePassword_ok[OF assms(1) _ assms(2-4), of uid old new s]
    changePassword_refused[of env uid old new "ae_sign env c" s] assms(5) by simp

end
