(* ===== verification/Samples.thy ===== *)
theory Samples
  imports Shipment_System Shipment_Lists Shipment_Timeline Shipment_Eta Auth "HOL-Library.Countable"
begin

text \<open>
  Concrete data for the witnesses: one shipment in transit with its payment, the environment of a
  healthy deployment, and a token library that signs by numbering the claims. None of it models
  code; each witness instantiates a property here so that its hypotheses are seen to hold.
\<close>

section \<open>Shipments\<close>

definition sample_milestone :: milestone where
  "sample_milestone = \<lparr>ms_name = ''IN_TRANSIT'', ms_timestamp = 1000, ms_description = None,
     ms_userId = None, ms_walletAddress = None\<rparr>"

definition sample_shipment :: shipment where
  "sample_shipment = \<lparr>sh_id = ''s1'', sh_trackingNumber = ''NVN-100001'', sh_origin = ''Lagos'',
     sh_destination = ''Accra'', sh_enterpriseId = ''e1'', sh_logisticsId = ''l1'',
     sh_status = IN_TRANSIT, sh_priority = STANDARD, sh_expectedDelivery = None,
     sh_milestones = [sample_milestone], sh_offChainMetadata = None, sh_stellarTokenId = None,
     sh_stellarTxHash = None, sh_deliveryProof = None, sh_documents = [], sh_photos = [],
     sh_disputes = [], sh_createdAt = 0, sh_updatedAt = 1000, sh_deletedAt = None\<rparr>"

definition sample_payment :: payment where
  "sample_payment = \<lparr>pm_id = ''p1'', pm_shipmentId = ''s1'', pm_organizationId = ''e1'', pm_amount = 5,
     pm_tokenType = Some USDC, pm_token = USDC, pm_payerAddress = None, pm_payeeAddress = None,
     pm_status = ESCROWED, pm_stellarTxHash = None, pm_escrowRelease = None, pm_createdAt = 10,
     pm_updatedAt = 10, pm_deletedAt = None\<rparr>"

definition sample_storageEnv :: storageEnv where
  "sample_storageEnv = \<lparr>st_provider = None, st_bucket = None, st_accessKey = None, st_secretKey = None,
     st_cloudName = None, st_apiKey = None, st_apiSecret = None\<rparr>"

definition sample_conn :: "millis \<Rightarrow> conn" where
  "sample_conn now = \<lparr>cn_client = True, cn_cmd = True, cn_now = now\<rparr>"

definition sample_release :: "releaseEscrowArgs \<Rightarrow> escrowResult result" where
  "sample_release input = Inr \<lparr>er_txHash = ''abc'', er_ledger = 7, er_simulated = True,
     er_paymentId = re_payment_id input\<rparr>"

definition sample_env :: env where
  "sample_env = \<lparr>en_now = (\<lambda>k. 2000 + int k), en_fresh = (\<lambda>k. ''f'' @ nat_str k), en_uuid = ''u'',
     en_random = 123456, en_oid = Inr, en_isValidObjectId = (\<lambda>_. True), en_auditUp = True,
     en_wallet = (\<lambda>_. None), en_sha256 = (\<lambda>s. s), en_release = sample_release,
     en_ledgerUp = (\<lambda>_. True), en_paymentsUp = (\<lambda>_. True), en_updateUp = (\<lambda>_. True),
     en_socketReady = True, en_storage = sample_storageEnv, en_put = (\<lambda>p m k. Inr k),
     en_etaConn = sample_conn 2000, en_analyticsConn = sample_conn 2000,
     en_tokenize = (\<lambda>_. Inl (PlainError ''down''))\<rparr>"

definition sample_world :: world where
  "sample_world = \<lparr>w_shipments = [sample_shipment], w_payments = [sample_payment], w_blocks = [],
     w_telemetry = [], w_anomalies = [], w_sent = [], w_audit = \<lparr>as_logged = [], as_persisted = []\<rparr>,
     w_storage = \<lparr>ss_instance = None, ss_objects = []\<rparr>, w_redis = emptyRedis, w_etaDown = False,
     w_analyticsDown = False\<rparr>"

lemma sample_find [simp]: "findShipmentById ''s1'' (w_shipments sample_world) = Some sample_shipment"
  by (simp add: findShipmentById_def findOne_def sample_world_def sample_shipment_def shipmentAlive_def)

lemma sample_consistent [simp]: "consistent sample_shipment"
  unfolding consistent_def
  by (rule exI[of _ "[IN_TRANSIT]"])
    (simp add: history_def sample_shipment_def sample_milestone_def transition_iff)

lemma sample_ok [simp]: "shipments_ok (w_shipments sample_world)"
  using sample_consistent
  by (simp add: shipments_ok_def wf_shipments_def photos_bounded_def sample_world_def)
    (simp add: sample_shipment_def)

lemma sample_applies [simp]:
  "st \<in> set (ALLOWED_TRANSITIONS IN_TRANSIT) \<Longrightarrow> applies ''s1'' st sample_world = Some sample_shipment"
  by (simp add: applies_def) (auto simp: sample_shipment_def)

lemma sample_wf_payments [simp]: "wf_payments (w_payments sample_world)"
  by (simp add: wf_payments_def sample_world_def sample_payment_def)

lemma sample_shipmentPayment [simp]: "shipmentPayment sample_env ''s1'' sample_world = Some sample_payment"
  by (simp add: shipmentPayment_def sample_env_def sample_world_def getPaymentByShipmentId_def findOne_def
      sample_payment_def paymentAlive_def)

section \<open>Tokens\<close>

instance userRole :: countable by countable_datatype
instance persona :: countable by countable_datatype
instance organizationType :: countable by countable_datatype

definition claims_tuple where
  "claims_tuple c = (cl_userId c, cl_role c, cl_persona c, cl_organizationId c, cl_organizationType c,
     cl_jti c, cl_type c, cl_iat c, cl_exp c)"

definition sample_sign :: "claims \<Rightarrow> string" where
  "sample_sign c = replicate (to_nat (claims_tuple c)) CHR ''1''"

definition sample_verify :: "bool \<Rightarrow> int \<Rightarrow> string \<Rightarrow> claims option" where
  "sample_verify ign t tok =
     (case from_nat (length tok) of (uid, role, p, org, ty, j, k, iat, e) \<Rightarrow>
        if ign \<or> t < e then Some \<lparr>cl_userId = uid, cl_role = role, cl_persona = p, cl_organizationId = org,
          cl_organizationType = ty, cl_jti = j, cl_type = k, cl_iat = iat, cl_exp = e\<rparr> else None)"

definition sample_auth :: authEnv where
  "sample_auth = \<lparr>ae_sign = sample_sign, ae_verify = sample_verify, ae_hash = (\<lambda>p. p), ae_compare = (=),
     ae_uuid = ''0f8fad5b-d9cb-469f-a165-70867728950e'', ae_fresh = (\<lambda>k. ''u'' @ nat_str k),
     ae_now = 5000000, ae_sessionsUp = True\<rparr>"

lemma sample_uuid_valid: "isValidJti ''0f8fad5b-d9cb-469f-a165-70867728950e''"
  by code_simp

lemma sample_libs [simp]: "libs_ok sample_auth"
  by (simp add: libs_ok_def sample_auth_def sample_verify_def sample_sign_def claims_tuple_def sample_uuid_valid)

definition sample_user :: user where
  "sample_user = \<lparr>us_id = ''u9'', us_email = ''a@b'', us_name = ''A'', us_passwordHash = ''pw'', us_role = ADMIN,
     us_organizationId = None, us_walletAddress = None, us_phone = None, us_phoneVerified = False,
     us_twoFactorSecret = None, us_twoFactorEnabled = False, us_totpSecret = None, us_totpEnabled = True,
     us_totpBackupCodes = [], us_deletedAt = None, us_createdAt = 0\<rparr>"

definition sample_state :: authState where
  "sample_state = \<lparr>at_users = [sample_user], at_orgs = [], at_sessions = [], at_redis = emptyRedis, at_mails = []\<rparr>"

lemma sample_user_found [simp]: "findUserById ''u9'' (at_users sample_state) = Some sample_user"
  by (simp add: findUserById_def findOne_def sample_state_def sample_user_def userAlive_def)

end
