(* ===== verification/Zod.thy ===== *)
theory Zod
  imports Errors Complex_Main
begin

text \<open>
  Request validation: \<open>validateRequest\<close> (\<open>src/src/shared/validation/validate.ts\<close>) and the
  combinators of zod as far as the schemas of the routes use them. A schema maps the value a client
  sent to the value the handler gets, or to nothing when it has issues. The conversions \<open>Number(v)\<close>,
  \<open>new Date(v)\<close> and the pattern behind \<open>z.string().datetime\<close> are parameters, and so is the JSON text
  of the issues.
\<close>

section \<open>Combinators\<close>

type_synonym 'a schema = "jval \<Rightarrow> 'a option"

definition zString :: "string schema" where
  "zString v = (case v of JStr s \<Rightarrow> Some s | _ \<Rightarrow> None)"

definition zMin :: "nat \<Rightarrow> string schema \<Rightarrow> string schema" where
  "zMin n p v = (case p v of None \<Rightarrow> None | Some s \<Rightarrow> if n \<le> length s then Some s else None)"

definition zMax :: "nat \<Rightarrow> string schema \<Rightarrow> string schema" where
  "zMax n p v = (case p v of None \<Rightarrow> None | Some s \<Rightarrow> if length s \<le> n then Some s else None)"

definition zTrim :: "string schema \<Rightarrow> string schema" where
  "zTrim p v = map_option trim (p v)"

text \<open>\<open>z.string().trim().min(1)\<close>\<close>

definition trimmedId :: "string schema" where
  "trimmedId v = (case zTrim zString v of None \<Rightarrow> None | Some s \<Rightarrow> if s = [] then None else Some s)"

lemma trimmedId_nonempty: "trimmedId v = Some s \<Longrightarrow> s \<noteq> []"
  by (simp add: trimmedId_def split: option.splits if_splits)

definition zOptional :: "'a schema \<Rightarrow> 'a option schema" where
  "zOptional p v = (if v = JUndef then Some None else map_option Some (p v))"

definition zDefault :: "'a \<Rightarrow> 'a schema \<Rightarrow> 'a schema" where
  "zDefault d p v = (if v = JUndef then Some d else p v)"

definition zEnum :: "('a \<Rightarrow> string) \<Rightarrow> 'a list \<Rightarrow> 'a schema" where
  "zEnum str vals v = (case v of JStr s \<Rightarrow> List.find (\<lambda>x. str x = s) vals | _ \<Rightarrow> None)"

definition zArray :: "'a schema \<Rightarrow> 'a list schema" where
  "zArray p v = (case v of JArr vs \<Rightarrow> those (map p vs) | _ \<Rightarrow> None)"

definition zFlag :: "bool schema" where
  "zFlag v = (case v of JBool b \<Rightarrow> Some b | _ \<Rightarrow> None)"

text \<open>\<open>z.record(z.unknown())\<close>: any plain object, as it is.\<close>

definition zRecord :: "jval schema" where
  "zRecord v = (case v of JObj kvs \<Rightarrow> Some v | _ \<Rightarrow> None)"

text \<open>\<open>z.object\<close> reads the fields it names and drops the others; \<open>strict\<close> refuses the others.\<close>

definition propOf :: "(string \<times> jval) list \<Rightarrow> string \<Rightarrow> jval" where
  "propOf kvs k = nullish (map_of kvs k) JUndef"

definition zObject :: "((string \<Rightarrow> jval) \<Rightarrow> 'a option) \<Rightarrow> 'a schema" where
  "zObject p v = (case v of JObj kvs \<Rightarrow> p (propOf kvs) | _ \<Rightarrow> None)"

definition zStrict :: "string list \<Rightarrow> 'a schema \<Rightarrow> 'a schema" where
  "zStrict keys p v = (case v of JObj kvs \<Rightarrow> if set (map fst kvs) \<subseteq> set keys then p v else None | _ \<Rightarrow> None)"

text \<open>The values of \<open>Number(v)\<close>.\<close>

datatype jsNumber = JsNaN | MinusInfinity | PlusInfinity | Finite rat

definition zAtLeast :: "rat \<Rightarrow> (jval \<Rightarrow> jsNumber) \<Rightarrow> jsNumber schema" where
  "zAtLeast a num v = (case num v of Finite q \<Rightarrow> if a \<le> q then Some (Finite q) else None
     | PlusInfinity \<Rightarrow> Some PlusInfinity | _ \<Rightarrow> None)"

definition zBetween :: "rat \<Rightarrow> rat \<Rightarrow> (jval \<Rightarrow> jsNumber) \<Rightarrow> rat schema" where
  "zBetween a b num v = (case num v of Finite q \<Rightarrow> if a \<le> q \<and> q \<le> b then Some q else None | _ \<Rightarrow> None)"

definition zNumber :: "(jval \<Rightarrow> jsNumber) \<Rightarrow> rat schema" where
  "zNumber num v = (case v of JNum t \<Rightarrow> (case num v of Finite q \<Rightarrow> Some q | _ \<Rightarrow> None) | _ \<Rightarrow> None)"

definition whole :: "jsNumber \<Rightarrow> int option" where
  "whole x = (case x of Finite q \<Rightarrow> if q = of_int \<lfloor>q\<rfloor> then Some \<lfloor>q\<rfloor> else None | _ \<Rightarrow> None)"

definition zInt :: "jsNumber schema \<Rightarrow> int schema" where
  "zInt p v = Option.bind (p v) whole"

definition intRange :: "int \<Rightarrow> int \<Rightarrow> (jval \<Rightarrow> jsNumber) \<Rightarrow> int schema" where
  "intRange a b num = (\<lambda>v. Option.bind (zBetween (of_int a) (of_int b) num v) (\<lambda>q. whole (Finite q)))"

section \<open>validateRequest\<close>

text \<open>A part that fails its schema answers 400; \<open>issues\<close> is the JSON text of the failure.\<close>

definition validatePart :: "(jval \<Rightarrow> string) \<Rightarrow> 'a schema \<Rightarrow> jval \<Rightarrow> 'a result" where
  "validatePart issues schema v = (case schema v of
     None \<Rightarrow> throwApp 400 (issues v) ''VALIDATION_ERROR'' | Some x \<Rightarrow> Inr x)"

lemma validatePart_Inr: "validatePart issues schema v = Inr x \<longleftrightarrow> schema v = Some x"
  by (auto simp: validatePart_def split: option.split)

section \<open>Conversions\<close>

record conversions =
  cv_number :: "jval \<Rightarrow> jsNumber"
  cv_date :: "jval \<Rightarrow> millis option"
  cv_dateTime :: "string \<Rightarrow> millis option"
  cv_utcDate :: "string \<Rightarrow> millis option"

end
