(* ===== verification/Http.thy ===== *)
theory Http
  imports Zod Auth
begin

text \<open>
  What the routes of the modules share: requests and the reply envelope
  (\<open>src/src/shared/http/sendResponse.ts\<close>), uploads by multer, validation, and the dispatch of a
  router: authentication (\<open>requireAuth\<close>), role (\<open>requireRole\<close>), then the rest of the route, with
  the error middleware behind it. The locale \<open>guarded_routes\<close> states what makes a table of roles
  protect a state; it is interpreted for the routers of the modules. Path segments are
  decoded, and an id in a path is one as the driver renders it.
\<close>

section \<open>Requests and replies\<close>

datatype httpMethod = GET | POST | PUT | PATCH | DELETE

record request =
  rq_authorization :: "string option"
  rq_query :: "(string \<times> jval) list"
  rq_body :: jval
  rq_files :: "(string \<times> uploadedFile) list"

text \<open>\<open>Envelope status success message data meta\<close>; a download has a file name and a body;
  \<open>Throttled message retryAfter\<close> is the 429 of a limiter.\<close>

datatype replyMeta =
    PageMeta int int nat
  | CursorMeta "string option" bool
  | CursorPageMeta "string option" bool int
  | TotalPage nat int int
  | TotalCursor nat bool "string option"

datatype 'd reply =
    Envelope nat bool string "'d option" "replyMeta option"
  | TextDownload string string
  | DataDownload string 'd
  | Failure http_error
  | Throttled string int
  | RouteNotFound

definition ok200 :: "string \<Rightarrow> 'd \<Rightarrow> 'd reply" where
  "ok200 message dat = Envelope 200 True message (Some dat) None"

definition created201 :: "string \<Rightarrow> 'd \<Rightarrow> 'd reply" where
  "created201 message dat = Envelope 201 True message (Some dat) None"

text \<open>
  \<open>hx_issues\<close> is the JSON text of a schema's issues, \<open>hx_parse\<close> the \<open>JSON.parse\<close> of the error
  middleware.
\<close>

record serverEnv =
  hx_auth :: authEnv
  hx_conversions :: conversions
  hx_issues :: "jval \<Rightarrow> string"
  hx_parse :: "string \<Rightarrow> (string option \<times> jval option) option"

section \<open>Uploads\<close>

text \<open>
  \<open>upload.single(name)\<close>: a second file, or one under another field name, is unexpected; the filter
  sees a file before its size is known.
\<close>

definition multerSingle ::
  "string \<Rightarrow> (uploadedFile \<Rightarrow> exn option) \<Rightarrow> (uploadedFile \<Rightarrow> bool) \<Rightarrow> (string \<times> uploadedFile) list
   \<Rightarrow> uploadedFile option result" where
  "multerSingle name fileFilter oversize files =
     (case files of
        [] \<Rightarrow> Inr None
      | (n, file) # rest \<Rightarrow>
          (if n \<noteq> name then Inl (PlainError ''Unexpected field'')
           else case fileFilter file of
               Some e \<Rightarrow> Inl e
             | None \<Rightarrow> if oversize file then Inl MulterFileSize
                 else if rest \<noteq> [] then Inl (PlainError ''Unexpected field'')
                 else Inr (Some file)))"

definition mimeFilter :: "string list \<Rightarrow> uploadedFile \<Rightarrow> exn option" where
  "mimeFilter mimeTypes file = (if uf_mimetype file \<in> set mimeTypes then None
     else Some (App (AppError 400 ''Invalid MIME type'' (ErrorCodes INVALID_MIME_TYPE) None)))"

section \<open>The pipeline of a route\<close>

text \<open>A guard, an upload or a schema that fails hands its error to \<open>next\<close>: nothing after it runs.\<close>

definition andThen :: "'a result \<Rightarrow> 'w \<Rightarrow> ('a \<Rightarrow> 'd reply result \<times> 'w) \<Rightarrow> 'd reply result \<times> 'w" where
  "andThen r w k = (case r of Inl e \<Rightarrow> (Inl e, w) | Inr x \<Rightarrow> k x)"

definition IdParamSchema :: "string schema" where
  "IdParamSchema = zObject (\<lambda>field. zMin 1 zString (field ''id''))"

definition paramId :: "'e serverEnv_scheme \<Rightarrow> string \<Rightarrow> string result" where
  "paramId hx i = validatePart (hx_issues hx) IdParamSchema (JObj [(''id'', JStr i)])"

definition bodyOf :: "'e serverEnv_scheme \<Rightarrow> 'a schema \<Rightarrow> request \<Rightarrow> 'a result" where
  "bodyOf hx schema rq = validatePart (hx_issues hx) schema (rq_body rq)"

definition queryOf :: "'e serverEnv_scheme \<Rightarrow> (conversions \<Rightarrow> 'a schema) \<Rightarrow> request \<Rightarrow> 'a result" where
  "queryOf hx schema rq = validatePart (hx_issues hx) (schema (hx_conversions hx)) (JObj (rq_query rq))"

definition answered :: "'e serverEnv_scheme \<Rightarrow> 'd reply result \<times> 'w \<Rightarrow> 'd reply \<times> 'w" where
  "answered hx p = (case fst p of Inl e \<Rightarrow> Failure (errorMiddleware (hx_parse hx) e) | Inr reply \<Rightarrow> reply, snd p)"

definition authenticated :: "'e serverEnv_scheme \<Rightarrow> request \<Rightarrow> redis \<Rightarrow> claims result" where
  "authenticated hx rq r = requireAuth (hx_auth hx) (rq_authorization rq) r"

definition admitted :: "'e serverEnv_scheme \<Rightarrow> userRole list option \<Rightarrow> request \<Rightarrow> redis \<Rightarrow> claims result" where
  "admitted hx roles rq r =
     (case authenticated hx rq r of
        Inl e \<Rightarrow> Inl e
      | Inr user \<Rightarrow>
          (case roles of
             None \<Rightarrow> Inr user
           | Some rs \<Rightarrow> map_sum id (\<lambda>_. user) (requireRole rs (Some user))))"

text \<open>\<open>guardAll\<close>: the router itself asks for a token, on unknown paths too.\<close>

definition dispatch ::
  "'e serverEnv_scheme \<Rightarrow> bool \<Rightarrow> ('rt \<Rightarrow> userRole list option) \<Rightarrow> (claims \<Rightarrow> request \<Rightarrow> 'w \<Rightarrow> 'rt \<Rightarrow> 'd reply result \<times> 'w)
   \<Rightarrow> redis \<Rightarrow> 'rt option \<Rightarrow> request \<Rightarrow> 'w \<Rightarrow> 'd reply \<times> 'w" where
  "dispatch hx guardAll roles serve r route rq w = answered hx
     (case route of
        None \<Rightarrow> andThen (if guardAll then map_sum id (\<lambda>_. ()) (authenticated hx rq r) else Inr ()) w
                  (\<lambda>_. (Inr RouteNotFound, w))
      | Some rt \<Rightarrow> andThen (admitted hx (roles rt) rq r) w (\<lambda>user. serve user rq w rt))"

lemma answered_simps [simp]:
  "fst (answered hx (Inl e, w)) = Failure (errorMiddleware (hx_parse hx) e)"
  "fst (answered hx (Inr a, w)) = a" "snd (answered hx p) = snd p"
  by (simp_all add: answered_def)

lemma admitted_sound:
  assumes "admitted hx roles rq r = Inr c"
  shows "authenticated hx rq r = Inr c \<and> (\<forall>rs. roles = Some rs \<longrightarrow> (\<exists>x\<in>set rs. cl_role c = Some x))"
proof -
  obtain u where u: "authenticated hx rq r = Inr u"
    using assms by (auto simp: admitted_def split: sum.splits)
  show ?thesis
  proof (cases roles)
    case None
    then show ?thesis using assms u by (simp add: admitted_def)
  next
    case (Some rs)
    then have "u = c \<and> requireRole rs (Some u) = Inr ()"
      using assms u by (cases "requireRole rs (Some u)") (simp_all add: admitted_def)
    then show ?thesis using u Some requireRole_sound by fastforce
  qed
qed

lemma admitted_role:
  "authenticated hx rq r = Inr c \<Longrightarrow> cl_role c = Some x \<Longrightarrow> x \<in> set rs \<Longrightarrow> admitted hx (Some rs) rq r = Inr c"
  by (simp add: admitted_def requireRole_def)

lemma admitted_any: "authenticated hx rq r = Inr c \<Longrightarrow> admitted hx None rq r = Inr c"
  by (simp add: admitted_def)

lemma dispatch_admitted:
  "admitted hx (roles rt) rq r = Inr c
   \<Longrightarrow> dispatch hx guardAll roles serve r (Some rt) rq w = answered hx (serve c rq w rt)"
  by (simp add: dispatch_def andThen_def)

text \<open>Without a live token nothing is served.\<close>

lemma dispatch_refused:
  assumes "authenticated hx rq r = Inl e"
  shows "dispatch hx guardAll roles serve r route rq w
    \<in> {(RouteNotFound, w), (Failure (errorMiddleware (hx_parse hx) e), w)}"
  using assms by (auto simp: dispatch_def admitted_def andThen_def answered_def split: option.split)

lemma paramId_ok [simp]: "i \<noteq> [] \<Longrightarrow> paramId hx i = Inr i"
  by (cases i) (simp_all add: paramId_def validatePart_def IdParamSchema_def zObject_def zMin_def zString_def propOf_def)

section \<open>Tables of roles\<close>

text \<open>
  A router whose reading routes leave a state unchanged and whose writing routes all ask for one of
  the roles \<open>writers\<close>: then a request changes the state only with a live token of such a role.
\<close>

locale guarded_routes =
  fixes roles :: "'rt \<Rightarrow> userRole list option"
    and serve :: "claims \<Rightarrow> request \<Rightarrow> 'w \<Rightarrow> 'rt \<Rightarrow> 'd reply result \<times> 'w"
    and writing :: "'rt \<Rightarrow> bool"
    and writers :: "userRole list"
    and unchanged :: "'w \<Rightarrow> 'w \<Rightarrow> bool"
  assumes unchanged_refl: "unchanged w w"
    and reads: "\<not> writing rt \<Longrightarrow> unchanged w (snd (serve c rq w rt))"
    and table: "writing rt \<Longrightarrow> \<exists>rs. roles rt = Some rs \<and> set rs \<subseteq> set writers"
begin

lemma writer: "admitted hx (roles rt) rq r = Inr c \<Longrightarrow> writing rt \<Longrightarrow> \<exists>x\<in>set writers. cl_role c = Some x"
  using table admitted_sound by blast

lemma guarded:
  "unchanged w (snd (dispatch hx guardAll roles serve r route rq w))
   \<or> (\<exists>rt c. route = Some rt \<and> writing rt \<and> authenticated hx rq r = Inr c \<and> (\<exists>x\<in>set writers. cl_role c = Some x)
        \<and> snd (dispatch hx guardAll roles serve r route rq w) = snd (serve c rq w rt))"
proof (cases route)
  case None
  then show ?thesis by (auto simp: dispatch_def andThen_def unchanged_refl split: sum.split)
next
  case (Some rt)
  show ?thesis
  proof (cases "admitted hx (roles rt) rq r")
    case (Inl e)
    then show ?thesis using Some by (simp add: dispatch_def andThen_def unchanged_refl)
  next
    case (Inr c)
    then have "snd (dispatch hx guardAll roles serve r route rq w) = snd (serve c rq w rt)"
      using Some by (simp add: dispatch_admitted)
    then show ?thesis
      using Some writer[OF Inr] admitted_sound[OF Inr] reads[of rt w c rq] by (cases "writing rt") auto
  qed
qed

end

section \<open>Uploads that arrive\<close>

text \<open>multer refuses what is beyond the limit it was given.\<close>

definition refusesOversize :: "(nat \<Rightarrow> uploadedFile \<Rightarrow> bool) \<Rightarrow> bool" where
  "refusesOversize oversize \<longleftrightarrow> (\<forall>limit file. limit < uf_size file \<longrightarrow> oversize limit file)"

lemma multerSingle_Some:
  "multerSingle name flt big files = Inr (Some f) \<longleftrightarrow> files = [(name, f)] \<and> flt f = None \<and> \<not> big f"
  by (cases files) (auto simp: multerSingle_def split: option.splits if_splits)

end
