(* ===== verification/Two_Factor.thy ===== *)
theory Two_Factor
  imports Auth "HOL-Library.Word"
begin

text \<open>
  Two-factor authentication: \<open>src/src/modules/auth/twoFactor.service.ts\<close> (the secret, the switch and
  the backup codes of an account) and the secret box of \<open>totp.utils.ts\<close>. Parameters stand for otplib,
  bcrypt, \<open>randomBytes\<close> and the AES-GCM cipher of Node.
\<close>

section \<open>The account operations\<close>

record twoFactorEnv =
  tf_secret :: string
  tf_uri :: "string \<Rightarrow> string \<Rightarrow> string \<Rightarrow> string"
    \<comment> \<open>label, issuer, secret\<close>
  tf_verify :: "string \<Rightarrow> string \<Rightarrow> bool"
    \<comment> \<open>token, secret\<close>
  tf_random :: "nat \<Rightarrow> string"
    \<comment> \<open>the k-th \<open>randomBytes(5).toString('hex')\<close>\<close>
  tf_hash :: "string \<Rightarrow> string"
  tf_compare :: "string \<Rightarrow> string \<Rightarrow> bool"

definition BACKUP_CODE_COUNT :: nat where
  "BACKUP_CODE_COUNT = 10"

definition generateBackupCodes :: "twoFactorEnv \<Rightarrow> string list \<times> string list" where
  "generateBackupCodes env =
     (let plain = map (tf_random env) [0..<BACKUP_CODE_COUNT] in (plain, map (tf_hash env) plain))"

definition twoFactor_setup ::
  "twoFactorEnv \<Rightarrow> objectId \<Rightarrow> authState \<Rightarrow> (string \<times> string) result \<times> authState" where
  "twoFactor_setup env userId s =
     (case findUserById userId (at_users s) of
        None \<Rightarrow> (throwApp 404 ''User not found'' (ErrorCodes NOT_FOUND), s)
      | Some u \<Rightarrow>
          (if us_totpEnabled u
           then (throwApp 409 ''2FA is already enabled'' (ErrorCodes TOTP_ALREADY_ENABLED), s)
           else (let secret = tf_secret env
                 in (Inr (tf_uri env (us_email u) ''Navin'' secret, secret),
                     saveUser userId (\<lambda>x. x\<lparr>us_totpSecret := Some secret\<rparr>) s))))"

definition verify2fa :: "twoFactorEnv \<Rightarrow> objectId \<Rightarrow> string \<Rightarrow> authState \<Rightarrow> string list result \<times> authState" where
  "verify2fa env userId code s =
     (case findUserById userId (at_users s) of
        None \<Rightarrow> (throwApp 404 ''User not found'' (ErrorCodes NOT_FOUND), s)
      | Some u \<Rightarrow>
          (if \<not> truthy (us_totpSecret u)
           then (throwApp 400 ''2FA setup not initiated. Call POST /api/auth/2fa/setup first.''
                   (ErrorCodes TOTP_NOT_SETUP), s)
           else if us_totpEnabled u
           then (throwApp 409 ''2FA is already enabled'' (ErrorCodes TOTP_ALREADY_ENABLED), s)
           else if \<not> tf_verify env code (the (us_totpSecret u))
           then (throwApp 400 ''Invalid TOTP code'' (ErrorCodes TOTP_INVALID_CODE), s)
           else (let (plain, hashed) = generateBackupCodes env
                 in (Inr plain,
                     saveUser userId (\<lambda>x. x\<lparr>us_totpEnabled := True, us_totpBackupCodes := hashed\<rparr>) s))))"

definition disable2fa :: "twoFactorEnv \<Rightarrow> objectId \<Rightarrow> string \<Rightarrow> authState \<Rightarrow> unit result \<times> authState" where
  "disable2fa env userId password s =
     (case findUserById userId (at_users s) of
        None \<Rightarrow> (throwApp 404 ''User not found'' (ErrorCodes NOT_FOUND), s)
      | Some u \<Rightarrow>
          (if \<not> us_totpEnabled u
           then (throwApp 400 ''2FA is not enabled on this account'' (ErrorCodes TOTP_NOT_ENABLED), s)
           else if \<not> tf_compare env password (us_passwordHash u)
           then (throwApp 401 ''Incorrect password'' (ErrorCodes UNAUTHORIZED), s)
           else (Inr (), saveUser userId
                   (\<lambda>x. x\<lparr>us_totpEnabled := False, us_totpSecret := None, us_totpBackupCodes := []\<rparr>) s)))"

definition regenerateBackupCodes :: "twoFactorEnv \<Rightarrow> objectId \<Rightarrow> authState \<Rightarrow> string list result \<times> authState" where
  "regenerateBackupCodes env userId s =
     (case findUserById userId (at_users s) of
        None \<Rightarrow> (throwApp 404 ''User not found'' (ErrorCodes NOT_FOUND), s)
      | Some u \<Rightarrow>
          (if \<not> us_totpEnabled u
           then (throwApp 400 ''2FA is not enabled on this account'' (ErrorCodes TOTP_NOT_ENABLED), s)
           else (let (plain, hashed) = generateBackupCodes env
                 in (Inr plain, saveUser userId (\<lambda>x. x\<lparr>us_totpBackupCodes := hashed\<rparr>) s))))"

text \<open>The loop that finds the first matching hash, and the list without it (\<open>splice\<close>).\<close>

fun spliceMatch :: "('a \<Rightarrow> bool) \<Rightarrow> 'a list \<Rightarrow> 'a list option" where
  "spliceMatch P [] = None"
| "spliceMatch P (x # xs) = (if P x then Some xs else map_option ((#) x) (spliceMatch P xs))"

definition consumeBackupCode :: "twoFactorEnv \<Rightarrow> objectId \<Rightarrow> string \<Rightarrow> authState \<Rightarrow> unit result \<times> authState" where
  "consumeBackupCode env userId code s =
     (case findUserById userId (at_users s) of
        None \<Rightarrow> (throwApp 401 ''Invalid backup code'' (ErrorCodes TOTP_INVALID_BACKUP_CODE), s)
      | Some u \<Rightarrow>
          (case spliceMatch (tf_compare env code) (us_totpBackupCodes u) of
             None \<Rightarrow> (throwApp 401 ''Invalid backup code'' (ErrorCodes TOTP_INVALID_BACKUP_CODE), s)
           | Some codes \<Rightarrow> (Inr (), saveUser userId (\<lambda>x. x\<lparr>us_totpBackupCodes := codes\<rparr>) s)))"

section \<open>Each backup code works once\<close>

lemma saveUser_reads:
  assumes "findUserById i (at_users s) = Some u" and "\<And>x. us_id (f x) = us_id x" and "userAlive (f u)"
  shows "findUserById i (at_users (saveUser i f s)) = Some (f u)"
  using users.read_own_write[where f = f] assms by (simp add: saveUser_def)

lemma saveUser_other:
  "(\<And>x. us_id (f x) = us_id x) \<Longrightarrow> j \<noteq> i
   \<Longrightarrow> findUserById j (at_users (saveUser i f s)) = findUserById j (at_users s)"
  by (simp add: saveUser_def users.write_frame)

lemma update_first_find_set:
  assumes "List.find P xs = Some u" and "x \<in> set (snd (update_first P f xs))"
  shows "x \<in> set xs \<or> x = f u"
  using assms by (induction xs) (auto split: if_splits)

lemma saveUser_all:
  assumes "\<forall>u\<in>set (at_users s). Q u" and "\<And>u. findUserById i (at_users s) = Some u \<Longrightarrow> Q (f u)"
  shows "\<forall>u\<in>set (at_users (saveUser i f s)). Q u"
proof (cases "findUserById i (at_users s)")
  case None
  then show ?thesis using assms(1) by (simp add: saveUser_def users.update_missing)
next
  case (Some u)
  then show ?thesis
    using assms unfolding saveUser_def users.update_spec users.find_spec
    by simp (metis update_first_find_set)
qed

lemma spliceMatch_None: "spliceMatch P xs = None \<longleftrightarrow> (\<forall>x\<in>set xs. \<not> P x)"
  by (induction xs) auto

lemma spliceMatch_length: "spliceMatch P xs = Some ys \<Longrightarrow> Suc (length ys) = length xs"
  by (induction xs arbitrary: ys) (auto split: if_splits)

text \<open>bcrypt tells the issued codes apart: nothing but the code matches its hash.\<close>

definition codes_told_apart :: "twoFactorEnv \<Rightarrow> string list \<Rightarrow> bool" where
  "codes_told_apart env ds \<longleftrightarrow> distinct ds \<and> (\<forall>c. \<forall>d\<in>set ds. tf_compare env c (tf_hash env d) = (c = d))"

lemma spliceMatch_codes:
  assumes "codes_told_apart env ds"
  shows "spliceMatch (tf_compare env c) (map (tf_hash env) ds)
    = (if c \<in> set ds then Some (map (tf_hash env) (remove1 c ds)) else None)"
  using assms by (induction ds) (auto simp: codes_told_apart_def)

text \<open>A client that presents a list of codes, and the ones it gets through with.\<close>

fun consumeAll :: "twoFactorEnv \<Rightarrow> objectId \<Rightarrow> string list \<Rightarrow> authState \<Rightarrow> string list \<times> authState" where
  "consumeAll env i [] s = ([], s)"
| "consumeAll env i (c # cs) s =
     (case consumeBackupCode env i c s of
        (Inl e, s1) \<Rightarrow> consumeAll env i cs s1
      | (Inr u, s1) \<Rightarrow> (c # fst (consumeAll env i cs s1), snd (consumeAll env i cs s1)))"

lemma consumeAll_accepted:
  assumes "findUserById i (at_users s) = Some u" and "us_totpBackupCodes u = map (tf_hash env) ds"
    and "codes_told_apart env ds"
  shows "mset (fst (consumeAll env i cs s)) = mset_set (set cs \<inter> set ds)"
  using assms
proof (induction cs arbitrary: s u ds)
  case (Cons c cs)
  have alive: "userAlive u" using users.find_sound[OF Cons.prems(1)] by simp
  show ?case
  proof (cases "c \<in> set ds")
    case True
    let ?f = "\<lambda>x. x\<lparr>us_totpBackupCodes := map (tf_hash env) (remove1 c ds)\<rparr>"
    have step: "consumeBackupCode env i c s = (Inr (), saveUser i ?f s)"
      using Cons.prems True by (simp add: consumeBackupCode_def spliceMatch_codes)
    have "findUserById i (at_users (saveUser i ?f s)) = Some (?f u)"
      by (rule saveUser_reads[OF Cons.prems(1)]) (use alive in \<open>simp_all add: userAlive_def\<close>)
    then have "mset (fst (consumeAll env i cs (saveUser i ?f s))) = mset_set (set cs \<inter> set (remove1 c ds))"
      by (rule Cons.IH) (use Cons.prems(3) in \<open>auto simp: codes_told_apart_def\<close>)
    moreover have "set (c # cs) \<inter> set ds = insert c (set cs \<inter> set (remove1 c ds))"
      and "c \<notin> set cs \<inter> set (remove1 c ds)"
      using Cons.prems(3) True by (auto simp: codes_told_apart_def)
    ultimately show ?thesis by (simp add: step)
  next
    case False
    then have "consumeBackupCode env i c s
        = (throwApp 401 ''Invalid backup code'' (ErrorCodes TOTP_INVALID_BACKUP_CODE), s)"
      using Cons.prems by (simp add: consumeBackupCode_def spliceMatch_codes)
    then show ?thesis using False Cons.IH[OF Cons.prems] by (simp add: throwApp_def)
  qed
qed simp

text \<open>Whatever the hash function does, every acceptance uses up one stored code.\<close>

lemma consumeAll_bounded:
  assumes "findUserById i (at_users s) = Some u"
  shows "length (fst (consumeAll env i cs s)) \<le> length (us_totpBackupCodes u)"
  using assms
proof (induction cs arbitrary: s u)
  case (Cons c cs)
  have alive: "userAlive u" using users.find_sound[OF Cons.prems(1)] by simp
  show ?case
  proof (cases "spliceMatch (tf_compare env c) (us_totpBackupCodes u)")
    case None
    then show ?thesis using Cons by (simp add: consumeBackupCode_def throwApp_def)
  next
    case (Some codes)
    let ?f = "\<lambda>x. x\<lparr>us_totpBackupCodes := codes\<rparr>"
    have "findUserById i (at_users (saveUser i ?f s)) = Some (?f u)"
      by (rule saveUser_reads[OF Cons.prems(1)]) (use alive in \<open>simp_all add: userAlive_def\<close>)
    from Cons.IH[OF this] show ?thesis
      using Cons.prems spliceMatch_length[OF Some] by (simp add: consumeBackupCode_def Some)
  qed
qed simp

lemma verify2fa_stores:
  assumes "fst (verify2fa env i code s) = Inr plain"
  shows "\<exists>u. findUserById i (at_users (snd (verify2fa env i code s))) = Some u
    \<and> us_totpEnabled u \<and> us_totpBackupCodes u = map (tf_hash env) plain \<and> length plain = 10"
proof -
  obtain u where u: "findUserById i (at_users s) = Some u" and ok: "truthy (us_totpSecret u)"
      "\<not> us_totpEnabled u" "tf_verify env code (the (us_totpSecret u))"
    using assms by (auto simp: verify2fa_def split: option.splits if_splits)
  have plain: "plain = map (tf_random env) [0..<10]"
    using assms u ok by (simp add: verify2fa_def generateBackupCodes_def BACKUP_CODE_COUNT_def)
  have "userAlive u" using users.find_sound[OF u] by simp
  then show ?thesis
    using u ok plain
    by (auto simp: verify2fa_def generateBackupCodes_def BACKUP_CODE_COUNT_def userAlive_def
        intro!: exI saveUser_reads[OF u])
qed

lemma regenerate_stores:
  assumes "fst (regenerateBackupCodes env i s) = Inr plain"
  shows "\<exists>u. findUserById i (at_users (snd (regenerateBackupCodes env i s))) = Some u
    \<and> us_totpEnabled u \<and> us_totpBackupCodes u = map (tf_hash env) plain \<and> length plain = 10"
proof -
  obtain u where u: "findUserById i (at_users s) = Some u" and ok: "us_totpEnabled u"
    using assms by (auto simp: regenerateBackupCodes_def split: option.splits if_splits)
  have plain: "plain = map (tf_random env) [0..<10]"
    using assms u ok by (simp add: regenerateBackupCodes_def generateBackupCodes_def BACKUP_CODE_COUNT_def)
  have "userAlive u" using users.find_sound[OF u] by simp
  then show ?thesis
    using u ok plain
    by (auto simp: regenerateBackupCodes_def generateBackupCodes_def BACKUP_CODE_COUNT_def userAlive_def
        intro!: exI saveUser_reads[OF u])
qed

section \<open>The state of the switch\<close>

text \<open>
  An account with the switch on has a secret; one with the switch off has no backup codes; there are
  never more than ten.
\<close>

definition wf_2fa :: "user \<Rightarrow> bool" where
  "wf_2fa u \<longleftrightarrow> (us_totpEnabled u \<longrightarrow> truthy (us_totpSecret u))
     \<and> (\<not> us_totpEnabled u \<longrightarrow> us_totpBackupCodes u = []) \<and> length (us_totpBackupCodes u) \<le> BACKUP_CODE_COUNT"

inductive twoFactor_step :: "authState \<Rightarrow> authState \<Rightarrow> bool" where
  on_setup: "tf_secret env \<noteq> [] \<Longrightarrow> twoFactor_step s (snd (twoFactor_setup env i s))"
| on_verify: "twoFactor_step s (snd (verify2fa env i code s))"
| on_disable: "twoFactor_step s (snd (disable2fa env i pw s))"
| on_regenerate: "twoFactor_step s (snd (regenerateBackupCodes env i s))"
| on_consume: "twoFactor_step s (snd (consumeBackupCode env i code s))"

definition users_wf :: "authState \<Rightarrow> bool" where
  "users_wf s \<longleftrightarrow> (\<forall>u\<in>set (at_users s). wf_2fa u)"

lemma users_wf_saveUser:
  assumes "users_wf s" and "findUserById i (at_users s) = Some u" and "wf_2fa u \<Longrightarrow> wf_2fa (f u)"
  shows "users_wf (saveUser i f s)"
  unfolding users_wf_def
  by (rule saveUser_all) (use assms users.find_sound[OF assms(2)] in \<open>auto simp: users_wf_def\<close>)

lemma twoFactor_step_wf:
  assumes "twoFactor_step s s'" and "users_wf s"
  shows "users_wf s'"
  using assms(1)
proof cases
  case (on_setup env i)
  then show ?thesis using assms(2)
    by (auto simp: twoFactor_setup_def Let_def wf_2fa_def split: option.split intro: users_wf_saveUser)
next
  case (on_verify env i code)
  then show ?thesis using assms(2)
    by (auto simp: verify2fa_def generateBackupCodes_def Let_def wf_2fa_def split: option.split
        intro: users_wf_saveUser)
next
  case (on_disable env i pw)
  then show ?thesis using assms(2)
    by (auto simp: disable2fa_def wf_2fa_def split: option.split intro: users_wf_saveUser)
next
  case (on_regenerate env i)
  then show ?thesis using assms(2)
    by (auto simp: regenerateBackupCodes_def generateBackupCodes_def Let_def wf_2fa_def split: option.split
        intro: users_wf_saveUser)
next
  case (on_consume env i code)
  have "length codes \<le> length xs \<and> xs \<noteq> []"
    if "spliceMatch P xs = Some codes" for P :: "string \<Rightarrow> bool" and xs codes
    using spliceMatch_length[OF that] by (cases xs) auto
  then show ?thesis using assms(2) on_consume
    by (fastforce simp: consumeBackupCode_def wf_2fa_def split: option.split intro: users_wf_saveUser)
qed

lemma twoFactor_steps_wf: "twoFactor_step\<^sup>*\<^sup>* s s' \<Longrightarrow> users_wf s \<Longrightarrow> users_wf s'"
  by (induction rule: rtranclp_induct) (use twoFactor_step_wf in blast)+

text \<open>Only \<open>disable2fa\<close> switches it off, and only with the password.\<close>

lemma disable2fa_guard:
  assumes "findUserById i (at_users s) = Some u" and "us_totpEnabled u"
  shows "(\<exists>u'. findUserById i (at_users (snd (disable2fa env i pw s))) = Some u' \<and> \<not> us_totpEnabled u')
    \<longleftrightarrow> tf_compare env pw (us_passwordHash u)"
proof -
  have "userAlive u" using users.find_sound[OF assms(1)] by simp
  then show ?thesis
    using assms saveUser_reads[OF assms(1),
        of "\<lambda>x. x\<lparr>us_totpEnabled := False, us_totpSecret := None, us_totpBackupCodes := []\<rparr>"]
    by (auto simp: disable2fa_def userAlive_def)
qed

section \<open>The box of the secret\<close>

text \<open>\<open>Buffer.toString('hex')\<close> and \<open>Buffer.from(s, 'hex')\<close>, which stops at the first bad pair.\<close>

type_synonym byte = "8 word"

definition hex_nibble :: "nat \<Rightarrow> char" where
  "hex_nibble n = (if n < 10 then char_of (48 + n) else char_of (87 + n))"

definition nibble_of :: "char \<Rightarrow> nat option" where
  "nibble_of c = (let n = of_char c :: nat in
     if 48 \<le> n \<and> n \<le> 57 then Some (n - 48)
     else if 65 \<le> n \<and> n \<le> 70 then Some (n - 55)
     else if 97 \<le> n \<and> n \<le> 102 then Some (n - 87) else None)"

fun to_hex :: "byte list \<Rightarrow> string" where
  "to_hex [] = []"
| "to_hex (b # bs) = hex_nibble (unat b div 16) # hex_nibble (unat b mod 16) # to_hex bs"

fun from_hex :: "string \<Rightarrow> byte list" where
  "from_hex (a # b # s) =
     (case (nibble_of a, nibble_of b) of
        (Some x, Some y) \<Rightarrow> word_of_nat (16 * x + y) # from_hex s
      | _ \<Rightarrow> [])"
| "from_hex s = []"

text \<open>\<open>String.split(':')\<close>\<close>

fun split_colon :: "string \<Rightarrow> string list" where
  "split_colon [] = [[]]"
| "split_colon (c # s) = (if c = CHR '':'' then [] # split_colon s
     else (case split_colon s of [] \<Rightarrow> [[c]] | p # ps \<Rightarrow> (c # p) # ps))"

record cipherEnv =
  ci_keyHex :: "string option"
    \<comment> \<open>\<open>TOTP_ENCRYPTION_KEY\<close>\<close>
  ci_jwtDigest :: "byte list"
    \<comment> \<open>SHA-256 of \<open>JWT_SECRET\<close>\<close>
  ci_iv :: "byte list"
    \<comment> \<open>\<open>randomBytes(12)\<close>\<close>
  ci_utf8 :: "string \<Rightarrow> byte list"
  ci_text :: "byte list \<Rightarrow> string"
  ci_seal :: "byte list \<Rightarrow> byte list \<Rightarrow> byte list \<Rightarrow> byte list \<times> byte list"
    \<comment> \<open>key, iv, plaintext to ciphertext and tag\<close>
  ci_open :: "byte list \<Rightarrow> byte list \<Rightarrow> byte list \<Rightarrow> byte list \<Rightarrow> byte list option"
    \<comment> \<open>key, iv, tag, ciphertext; \<open>None\<close>: \<open>final()\<close> throws\<close>

definition getEncryptionKey :: "cipherEnv \<Rightarrow> byte list" where
  "getEncryptionKey env = (if truthy (ci_keyHex env) then from_hex (the (ci_keyHex env)) else ci_jwtDigest env)"

definition encryptSecret :: "cipherEnv \<Rightarrow> string \<Rightarrow> string" where
  "encryptSecret env plaintext =
     (let (ct, tag) = ci_seal env (getEncryptionKey env) (ci_iv env) (ci_utf8 env plaintext)
      in join '':'' [to_hex (ci_iv env), to_hex tag, to_hex ct])"

definition decryptSecret :: "cipherEnv \<Rightarrow> string \<Rightarrow> string result" where
  "decryptSecret env payload =
     (case split_colon payload of
        [ivHex, tagHex, ctHex] \<Rightarrow>
          (let iv = from_hex ivHex; tag = from_hex tagHex
           in if length iv = 12 \<and> length tag = 16
              then (case ci_open env (getEncryptionKey env) iv tag (from_hex ctHex) of
                      None \<Rightarrow> Inl (PlainError ''Unsupported state or unable to authenticate data'')
                    | Some bs \<Rightarrow> Inr (ci_text env bs))
              else throwApp 500 ''Invalid encrypted secret format'' (ErrorCodes TOTP_INVALID_SECRET_FORMAT))
      | _ \<Rightarrow> throwApp 500 ''Invalid encrypted secret format'' (ErrorCodes TOTP_INVALID_SECRET_FORMAT))"

text \<open>AES-GCM opens what it sealed under the same key and nonce; its tags have 16 bytes.\<close>

definition cipher_ok :: "cipherEnv \<Rightarrow> bool" where
  "cipher_ok env \<longleftrightarrow> length (ci_iv env) = 12 \<and> (\<forall>s. ci_text env (ci_utf8 env s) = s)
     \<and> (\<forall>key iv pt ct tag. ci_seal env key iv pt = (ct, tag) \<longrightarrow> length tag = 16 \<and> ci_open env key iv tag ct = Some pt)"

lemma unat_byte: "unat (b :: byte) < 256"
  using unsigned_less[where ?'a = nat and w = b] by simp

lemma unsigned_of_nat_unat: "word_of_nat (unat b) = (b :: byte)"
  by simp

lemma nibble_round: "n < 16 \<Longrightarrow> nibble_of (hex_nibble n) = Some n"
  by (auto simp: nibble_of_def hex_nibble_def Let_def)

lemma hex_round [simp]: "from_hex (to_hex bs) = bs"
proof (induction bs)
  case (Cons b bs)
  have "unat b < 256" by (rule unat_byte)
  then have "nibble_of (hex_nibble (unat b div 16)) = Some (unat b div 16)"
    and "nibble_of (hex_nibble (unat b mod 16)) = Some (unat b mod 16)"
    by (simp_all add: nibble_round)
  moreover have "word_of_nat (16 * (unat b div 16) + unat b mod 16) = b"
    by (simp only: mult_div_mod_eq unsigned_of_nat_unat)
  ultimately show ?case using Cons.IH by simp
qed simp

lemma hex_no_colon [simp]: "CHR '':'' \<notin> set (to_hex bs)"
proof (induction bs)
  case (Cons b bs)
  have "hex_nibble n \<noteq> CHR '':''" if "n < 16" for n
    using nibble_round[OF that] by (auto simp: nibble_of_def)
  moreover have "unat b div 16 < 16" using unat_byte[of b] by simp
  ultimately show ?case using Cons.IH by (simp add: eq_commute[of "CHR '':''"])
qed simp

lemma split_colon_plain: "CHR '':'' \<notin> set a \<Longrightarrow> split_colon a = [a]"
  by (induction a) auto

lemma split_colon_part: "CHR '':'' \<notin> set a \<Longrightarrow> split_colon (a @ CHR '':'' # s) = a # split_colon s"
  by (induction a) auto

lemma decrypt_encrypt:
  assumes "cipher_ok env" and "cipher_ok env'" and "ci_keyHex env' = ci_keyHex env"
    and "ci_jwtDigest env' = ci_jwtDigest env" and "ci_open env' = ci_open env" and "ci_text env' = ci_text env"
  shows "decryptSecret env' (encryptSecret env s) = Inr s"
proof -
  obtain ct tag where seal: "ci_seal env (getEncryptionKey env) (ci_iv env) (ci_utf8 env s) = (ct, tag)"
    by fastforce
  have key: "getEncryptionKey env' = getEncryptionKey env" using assms by (simp add: getEncryptionKey_def)
  have "split_colon (encryptSecret env s) = [to_hex (ci_iv env), to_hex tag, to_hex ct]"
    by (simp add: encryptSecret_def seal split_colon_part split_colon_plain)
  moreover have "length tag = 16" "ci_open env (getEncryptionKey env) (ci_iv env) tag ct = Some (ci_utf8 env s)"
      "length (ci_iv env) = 12" "ci_text env (ci_utf8 env s) = s"
    using assms(1) seal by (auto simp: cipher_ok_def)
  ultimately show ?thesis by (simp add: decryptSecret_def key assms(5,6))
qed

lemma decrypt_malformed:
  assumes "decryptSecret env p = Inr s"
  shows "\<exists>iv tag ct. split_colon p = [iv, tag, ct] \<and> length (from_hex iv) = 12 \<and> length (from_hex tag) = 16"
  using assms by (auto simp: decryptSecret_def Let_def split: list.splits if_splits)

text \<open>
  The secret box reads back what it stored under the same key, whatever the key source, and refuses
  every text that is not three hexadecimal parts of a nonce, a tag and a body.
\<close>

lemma totp_secret_round_trip:
  assumes "cipher_ok env" and "length iv' = 12"
  shows "decryptSecret (env\<lparr>ci_iv := iv'\<rparr>) (encryptSecret env secret) = Inr secret
     \<and> (\<forall>payload t. decryptSecret env payload = Inr t \<longrightarrow>
          (\<exists>iv tag ct. split_colon payload = [iv, tag, ct] \<and> length (from_hex iv) = 12 \<and> length (from_hex tag) = 16))"
proof -
  have "cipher_ok (env\<lparr>ci_iv := iv'\<rparr>)" using assms by (simp add: cipher_ok_def)
  with assms(1) have "decryptSecret (env\<lparr>ci_iv := iv'\<rparr>) (encryptSecret env secret) = Inr secret"
    by (intro decrypt_encrypt) simp_all
  then show ?thesis using decrypt_malformed by blast
qed

end
