(* ===== verification/Api_Keys.thy ===== *)
theory Api_Keys
  imports Auth
begin

text \<open>
  Keys of devices and integrations: \<open>src/src/modules/auth/apiKey.service.ts\<close>, its model, the guard
  \<open>requireApiKey.ts\<close> and the two generations of controllers (\<open>auth/apiKey.controller.ts\<close>, which trusts
  the organization in the request, and \<open>api-keys/apiKey.controller.ts\<close>, which takes the caller's).
  Only a bcrypt hash of a key is stored; a key is found by comparing with every active hash in turn.
\<close>

section \<open>Keys\<close>

record apiKey =
  ak_id :: objectId
  ak_name :: string
  ak_keyHash :: string
  ak_organizationId :: objectId
  ak_shipmentId :: "objectId option"
  ak_isActive :: bool
  ak_lastUsedAt :: "millis option"
  ak_createdAt :: millis

record keyEnv =
  ke_random :: string
    \<comment> \<open>\<open>randomBytes(32).toString('hex')\<close>\<close>
  ke_hash :: "string \<Rightarrow> string"
    \<comment> \<open>bcrypt with the salt just drawn\<close>
  ke_compare :: "string \<Rightarrow> string \<Rightarrow> bool"
  ke_fresh :: objectId
  ke_now :: millis
  ke_isValidObjectId :: "string \<Rightarrow> bool"
  ke_auditUp :: bool

record keyState =
  ks_keys :: "apiKey list"
  ks_audit :: auditStore

record createApiKeyParams =
  ck_name :: string
  ck_organizationId :: objectId
  ck_shipmentId :: "objectId option"
  ck_createdBy :: "string option"

record createApiKeyResult =
  cr_apiKey :: string
  cr_id :: objectId
  cr_name :: string
  cr_organizationId :: objectId
  cr_shipmentId :: "objectId option"
  cr_createdAt :: millis

text \<open>\<open>keyHash\<close> is unique in the collection.\<close>

definition generateApiKey ::
  "keyEnv \<Rightarrow> createApiKeyParams \<Rightarrow> keyState \<Rightarrow> createApiKeyResult result \<times> keyState" where
  "generateApiKey env p s =
     (let raw = ke_random env;
          doc = \<lparr>ak_id = ke_fresh env, ak_name = ck_name p, ak_keyHash = ke_hash env raw,
             ak_organizationId = ck_organizationId p, ak_shipmentId = ck_shipmentId p, ak_isActive = True,
             ak_lastUsedAt = None, ak_createdAt = ke_now env\<rparr>
      in if ak_keyHash doc \<in> ak_keyHash ` set (ks_keys s) then (Inl (DuplicateKey (Some ''keyHash'')), s)
         else (Inr \<lparr>cr_apiKey = raw, cr_id = ak_id doc, cr_name = ak_name doc,
                 cr_organizationId = ak_organizationId doc, cr_shipmentId = ak_shipmentId doc,
                 cr_createdAt = ak_createdAt doc\<rparr>,
               s\<lparr>ks_keys := ks_keys s @ [doc],
                 ks_audit := (if truthy (ck_createdBy p)
                   then auditLog (ke_isValidObjectId env) (ke_auditUp env)
                     \<lparr>ap_userId = the (ck_createdBy p), ap_action = API_KEY_GENERATED, ap_resource = None,
                      ap_resourceId = ak_id doc, ap_timestamp = ak_createdAt doc,
                      ap_metadata = [(''organizationId'', JStr (ck_organizationId p)), (''name'', JStr (ck_name p))]\<rparr>
                     (ks_audit s)
                   else ks_audit s)\<rparr>))"

definition validateApiKey :: "keyEnv \<Rightarrow> string \<Rightarrow> keyState \<Rightarrow> apiKey option \<times> keyState" where
  "validateApiKey env raw s =
     (if raw = [] then (None, s)
      else case List.find (\<lambda>k. ke_compare env raw (ak_keyHash k)) (filter ak_isActive (ks_keys s)) of
          None \<Rightarrow> (None, s)
        | Some k \<Rightarrow> (Some k, s\<lparr>ks_keys := snd (update_first (\<lambda>x. ak_id x = ak_id k)
            (\<lambda>x. x\<lparr>ak_lastUsedAt := Some (ke_now env)\<rparr>) (ks_keys s))\<rparr>))"

definition revokeApiKey :: "objectId \<Rightarrow> keyState \<Rightarrow> unit result \<times> keyState" where
  "revokeApiKey i s =
     (case update_first (\<lambda>k. ak_id k = i) (\<lambda>k. k\<lparr>ak_isActive := False\<rparr>) (ks_keys s) of
        (None, ks) \<Rightarrow> (throwApp 404 ''API key not found'' ''NOT_FOUND'', s\<lparr>ks_keys := ks\<rparr>)
      | (Some k, ks) \<Rightarrow> (Inr (), s\<lparr>ks_keys := ks\<rparr>))"

definition listApiKeys :: "objectId \<Rightarrow> keyState \<Rightarrow> apiKey list" where
  "listApiKeys org s =
     desc_by ak_createdAt (filter (\<lambda>k. ak_organizationId k = org \<and> ak_isActive k) (ks_keys s))"

section \<open>The guard and the controllers\<close>

record apiKeyIdentity =
  ai_id :: objectId
  ai_organizationId :: objectId
  ai_shipmentId :: "objectId option"

definition requireApiKey :: "keyEnv \<Rightarrow> string option \<Rightarrow> keyState \<Rightarrow> apiKeyIdentity result \<times> keyState" where
  "requireApiKey env header s =
     (if \<not> truthy header then (throwApp 401 ''Missing x-api-key header'' ''UNAUTHORIZED'', s)
      else case validateApiKey env (the header) s of
          (None, s1) \<Rightarrow> (throwApp 401 ''Invalid API key'' ''UNAUTHORIZED'', s1)
        | (Some k, s1) \<Rightarrow> (Inr \<lparr>ai_id = ak_id k, ai_organizationId = ak_organizationId k,
            ai_shipmentId = ak_shipmentId k\<rparr>, s1))"

text \<open>\<open>auth/apiKey.controller.ts\<close>\<close>

definition createApiKeyController ::
  "keyEnv \<Rightarrow> string option \<Rightarrow> string option \<Rightarrow> objectId option \<Rightarrow> string option \<Rightarrow> keyState
   \<Rightarrow> createApiKeyResult result \<times> keyState" where
  "createApiKeyController env name org shipmentId userId s =
     (if \<not> truthy name \<or> \<not> truthy org
      then (throwApp 400 ''name and organizationId are required'' ''VALIDATION_ERROR'', s)
      else generateApiKey env \<lparr>ck_name = the name, ck_organizationId = the org, ck_shipmentId = shipmentId,
             ck_createdBy = userId\<rparr> s)"

definition revokeApiKeyController :: "string option \<Rightarrow> keyState \<Rightarrow> unit result \<times> keyState" where
  "revokeApiKeyController i s =
     (if \<not> truthy i then (throwApp 400 ''apiKeyId is required'' ''VALIDATION_ERROR'', s)
      else revokeApiKey (the i) s)"

text \<open>\<open>api-keys/apiKey.controller.ts\<close>\<close>

definition createCompanyApiKey ::
  "keyEnv \<Rightarrow> string option \<Rightarrow> string \<Rightarrow> objectId option \<Rightarrow> string option \<Rightarrow> keyState
   \<Rightarrow> createApiKeyResult result \<times> keyState" where
  "createCompanyApiKey env callerOrg name shipmentId userId s =
     (if \<not> truthy callerOrg
      then (throwApp 403 ''User must belong to an organization to create API keys'' (ErrorCodes FORBIDDEN), s)
      else generateApiKey env \<lparr>ck_name = name, ck_organizationId = the callerOrg, ck_shipmentId = shipmentId,
             ck_createdBy = userId\<rparr> s)"

definition listCompanyApiKeys :: "string option \<Rightarrow> keyState \<Rightarrow> apiKey list result" where
  "listCompanyApiKeys callerOrg s =
     (if \<not> truthy callerOrg
      then throwApp 403 ''User must belong to an organization to list API keys'' (ErrorCodes FORBIDDEN)
      else Inr (listApiKeys (the callerOrg) s))"

text \<open>
  Without an organization the query is \<open>{ organizationId: undefined }\<close>, sent as null: it matches no
  key, as every key has an organization.
\<close>

definition revokeCompanyApiKey :: "string option \<Rightarrow> string option \<Rightarrow> keyState \<Rightarrow> unit result \<times> keyState" where
  "revokeCompanyApiKey callerOrg i s =
     (if \<not> truthy i then (throwApp 400 ''apiKeyId is required'' (ErrorCodes VALIDATION_ERROR), s)
      else let keys = (case callerOrg of Some org \<Rightarrow> listApiKeys org s | None \<Rightarrow> [])
        in if List.find (\<lambda>k. ak_id k = the i) keys = None
           then (throwApp 404 ''API key not found or does not belong to your organization''
                   (ErrorCodes NOT_FOUND), s)
           else revokeApiKey (the i) s)"

section \<open>Who gets in\<close>

lemma validateApiKey_sound:
  assumes "fst (validateApiKey env raw s) = Some k"
  shows "k \<in> set (ks_keys s) \<and> ak_isActive k \<and> ke_compare env raw (ak_keyHash k)"
  using assms by (auto simp: validateApiKey_def split: option.splits if_splits dest!: find_SomeD)

lemma validateApiKey_complete:
  assumes "k \<in> set (ks_keys s)" and "ak_isActive k" and "ke_compare env raw (ak_keyHash k)" and "raw \<noteq> []"
  shows "fst (validateApiKey env raw s) \<noteq> None"
proof -
  have "List.find (\<lambda>k. ke_compare env raw (ak_keyHash k)) (filter ak_isActive (ks_keys s)) \<noteq> None"
    using assms unfolding find_Some_iff_ex by auto
  then show ?thesis using assms(4) by (auto simp: validateApiKey_def)
qed

text \<open>What one operation does to the keys: it appends one, or changes the use stamp or the switch.\<close>

inductive key_step :: "keyState \<Rightarrow> keyState \<Rightarrow> bool" where
  on_generate: "key_step s (snd (generateApiKey env p s))"
| on_validate: "key_step s (snd (validateApiKey env raw s))"
| on_revoke: "key_step s (snd (revokeApiKey i s))"
| on_revokeCompany: "key_step s (snd (revokeCompanyApiKey org i s))"

text \<open>The key keeps its identity, its hash and its organization, and is not switched on again.\<close>

definition aged :: "apiKey \<Rightarrow> apiKey \<Rightarrow> bool" where
  "aged k k' \<longleftrightarrow> ak_id k' = ak_id k \<and> ak_keyHash k' = ak_keyHash k
     \<and> ak_organizationId k' = ak_organizationId k \<and> (ak_isActive k' \<longrightarrow> ak_isActive k)"

lemma aged_refl [simp]: "aged k k"
  by (simp add: aged_def)

lemma aged_trans: "aged a b \<Longrightarrow> aged b c \<Longrightarrow> aged a c"
  by (simp add: aged_def)

lemma aged_update_first:
  assumes "\<And>k. aged k (f k)"
  shows "list_all2 aged ks (snd (update_first P f ks))"
  using assms by (induction ks) (auto simp: list_all2_refl)

definition ages :: "apiKey list \<Rightarrow> apiKey list \<Rightarrow> bool" where
  "ages ks ks' \<longleftrightarrow> list_all2 aged ks (take (length ks) ks')
     \<and> (distinct (map ak_keyHash ks) \<longrightarrow> distinct (map ak_keyHash ks'))"

lemma ages_refl [simp]: "ages ks ks"
  by (simp add: ages_def list_all2_refl)

lemma ages_update_first:
  assumes "\<And>k. aged k (f k)"
  shows "ages ks (snd (update_first P f ks))"
proof -
  have "map ak_keyHash (snd (update_first P f ks)) = map ak_keyHash ks"
    by (rule update_first_keys) (use assms in \<open>simp add: aged_def\<close>)
  then show ?thesis using aged_update_first[where f = f and ks = ks and P = P] assms by (simp add: ages_def)
qed

lemma ages_trans:
  assumes "ages a b" and "ages b c"
  shows "ages a c"
proof -
  have la: "length a \<le> length b" and "length b \<le> length c"
    using assms by (auto simp: ages_def dest!: list_all2_lengthD)
  have "list_all2 aged (take (length a) b) (take (length a) (take (length b) c))"
    using assms(2) by (simp add: ages_def list_all2_takeI del: take_take)
  then have "list_all2 aged (take (length a) b) (take (length a) c)"
    using la by (simp add: min_absorb1)
  then have "list_all2 aged a (take (length a) c)"
    using assms(1) list_all2_trans[where ?P1.0 = aged and ?P2.0 = aged and ?P3.0 = aged, OF aged_trans]
    by (auto simp: ages_def)
  then show ?thesis using assms by (simp add: ages_def)
qed

lemma revokeApiKey_ages: "ages (ks_keys s) (ks_keys (snd (revokeApiKey i s)))"
proof -
  have "ks_keys (snd (revokeApiKey i s))
      = snd (update_first (\<lambda>k. ak_id k = i) (\<lambda>k. k\<lparr>ak_isActive := False\<rparr>) (ks_keys s))"
    by (simp add: revokeApiKey_def split: prod.split option.split)
  then show ?thesis by (simp add: ages_update_first aged_def)
qed

lemma key_step_ages: "key_step s s' \<Longrightarrow> ages (ks_keys s) (ks_keys s')"
proof (induction rule: key_step.induct)
  case (on_generate s env p)
  then show ?case by (simp add: generateApiKey_def Let_def ages_def list_all2_refl)
next
  case (on_validate s env raw)
  then show ?case
    by (simp add: validateApiKey_def ages_update_first aged_def split: option.split)
next
  case (on_revoke s i)
  then show ?case by (rule revokeApiKey_ages)
next
  case (on_revokeCompany s org i)
  then show ?case by (simp add: revokeCompanyApiKey_def Let_def revokeApiKey_ages)
qed

lemma key_steps_age: "key_step\<^sup>*\<^sup>* s s' \<Longrightarrow> ages (ks_keys s) (ks_keys s')"
  by (induction rule: rtranclp_induct) (use key_step_ages ages_trans in \<open>simp, blast\<close>)

text \<open>A revoked key never gets in again, whatever happens, unless another key answers to it.\<close>

lemma revoked_stays_out:
  assumes "key_step\<^sup>*\<^sup>* s s'" and "distinct (map ak_keyHash (ks_keys s))"
    and "k \<in> set (ks_keys s)" and "\<not> ak_isActive k"
    and "fst (validateApiKey env raw s') = Some k'"
  shows "ak_keyHash k' \<noteq> ak_keyHash k"
proof
  assume h: "ak_keyHash k' = ak_keyHash k"
  note ages = key_steps_age[OF assms(1)]
  obtain n where n: "n < length (ks_keys s)" "ks_keys s ! n = k" using assms(3) by (auto simp: in_set_conv_nth)
  have len: "length (ks_keys s) \<le> length (ks_keys s')"
    using ages by (auto simp: ages_def dest!: list_all2_lengthD)
  have "aged k (ks_keys s' ! n)"
    using ages n by (auto simp: ages_def list_all2_conv_all_nth)
  then have a: "ak_keyHash (ks_keys s' ! n) = ak_keyHash k" "\<not> ak_isActive (ks_keys s' ! n)"
    using assms(4) by (auto simp: aged_def)
  have k': "k' \<in> set (ks_keys s')" "ak_isActive k'" using validateApiKey_sound[OF assms(5)] by auto
  then obtain m where m: "m < length (ks_keys s')" "ks_keys s' ! m = k'" by (auto simp: in_set_conv_nth)
  have "distinct (map ak_keyHash (ks_keys s'))" using ages assms(2) by (simp add: ages_def)
  then have "m = n" using m n len a h by (simp add: distinct_conv_nth) (metis order_less_le_trans nth_map)
  then show False using a k' m by simp
qed

lemma revokeApiKey_deactivates:
  assumes "fst (revokeApiKey i s) = Inr ()"
  shows "\<exists>k. k \<in> set (ks_keys (snd (revokeApiKey i s))) \<and> ak_id k = i \<and> \<not> ak_isActive k"
proof -
  obtain k ks where r: "update_first (\<lambda>k. ak_id k = i) (\<lambda>k. k\<lparr>ak_isActive := False\<rparr>) (ks_keys s) = (Some k, ks)"
    using assms by (auto simp: revokeApiKey_def split: prod.splits option.splits)
  then have "k \<in> set ks" "\<exists>x. ak_id x = i \<and> k = x\<lparr>ak_isActive := False\<rparr>"
    using update_first_hit[of "\<lambda>k. ak_id k = i" "\<lambda>k. k\<lparr>ak_isActive := False\<rparr>" "ks_keys s" k] by auto
  then show ?thesis using r by (auto simp: revokeApiKey_def)
qed

lemma revokeApiKey_keeps:
  assumes "k \<in> set (ks_keys s)" and "ak_id k \<noteq> i"
  shows "k \<in> set (ks_keys (snd (revokeApiKey i s)))"
proof -
  have "ks_keys (snd (revokeApiKey i s))
      = snd (update_first (\<lambda>k. ak_id k = i) (\<lambda>k. k\<lparr>ak_isActive := False\<rparr>) (ks_keys s))"
    by (simp add: revokeApiKey_def split: prod.split option.split)
  then show ?thesis using assms by (simp add: update_first_keeps)
qed

text \<open>The company route cannot switch off a key of another organization.\<close>

lemma revokeCompany_scope:
  assumes "distinct (map ak_id (ks_keys s))" and "k \<in> set (ks_keys s)"
    and "callerOrg \<noteq> Some (ak_organizationId k)"
  shows "k \<in> set (ks_keys (snd (revokeCompanyApiKey callerOrg i s)))"
proof (cases "\<exists>org x. truthy i \<and> callerOrg = Some org \<and> List.find (\<lambda>k. ak_id k = the i) (listApiKeys org s) = Some x")
  case True
  then obtain org x where x: "callerOrg = Some org" "List.find (\<lambda>k. ak_id k = the i) (listApiKeys org s) = Some x"
    by blast
  then have "x \<in> set (ks_keys s)" "ak_id x = the i" "ak_organizationId x = org"
    using find_SomeD[OF x(2)] by (auto simp: listApiKeys_def)
  then have "ak_id k \<noteq> the i"
    using assms x(1) inj_onD[of ak_id "set (ks_keys s)" x k] by (auto simp: distinct_map)
  then show ?thesis using assms(2) revokeApiKey_keeps[of k s "the i"]
    by (simp add: revokeCompanyApiKey_def Let_def)
next
  case False
  then have "snd (revokeCompanyApiKey callerOrg i s) = s"
    by (cases callerOrg) (auto simp: revokeCompanyApiKey_def Let_def)
  then show ?thesis using assms(2) by simp
qed

lemma revoked_key_refused:
  assumes "fst (revokeApiKey i s) = Inr ()" and "distinct (map ak_id (ks_keys s))"
    and "distinct (map ak_keyHash (ks_keys s))" and "k \<in> set (ks_keys s)" and "ak_id k = i"
    and "key_step\<^sup>*\<^sup>* (snd (revokeApiKey i s)) s'" and "\<And>h. ke_compare env raw h \<Longrightarrow> h = ak_keyHash k"
  shows "requireApiKey env (Some raw) s' = (throwApp 401 ''Invalid API key'' ''UNAUTHORIZED'', s')
     \<or> requireApiKey env (Some raw) s' = (throwApp 401 ''Missing x-api-key header'' ''UNAUTHORIZED'', s')"
proof -
  let ?s = "snd (revokeApiKey i s)"
  have ks: "ks_keys ?s = snd (update_first (\<lambda>k. ak_id k = i) (\<lambda>k. k\<lparr>ak_isActive := False\<rparr>) (ks_keys s))"
    by (simp add: revokeApiKey_def split: prod.split option.split)
  obtain y where "fst (update_first (\<lambda>k. ak_id k = i) (\<lambda>k. k\<lparr>ak_isActive := False\<rparr>) (ks_keys s)) = Some y"
    using assms(1) by (auto simp: revokeApiKey_def split: prod.splits option.splits)
  from update_first_hit[OF this] obtain x where x: "x \<in> set (ks_keys s)" "ak_id x = i" "x\<lparr>ak_isActive := False\<rparr> \<in> set (ks_keys ?s)"
    unfolding ks by auto
  have "x = k" using x(1,2) assms(2,4,5) inj_onD[of ak_id "set (ks_keys s)" x k] by (simp add: distinct_map)
  then have dead: "k\<lparr>ak_isActive := False\<rparr> \<in> set (ks_keys ?s)" using x(3) by simp
  have dist: "distinct (map ak_keyHash (ks_keys ?s))" using revokeApiKey_ages[of s i] assms(3) by (simp add: ages_def)
  have "fst (validateApiKey env raw s') = None"
  proof (rule ccontr)
    assume "fst (validateApiKey env raw s') \<noteq> None"
    then obtain k' where k': "fst (validateApiKey env raw s') = Some k'" by blast
    from revoked_stays_out[OF assms(6) dist dead _ k'] assms(7) validateApiKey_sound[OF k'] show False by simp
  qed
  then have "validateApiKey env raw s' = (None, s')"
    by (auto simp: validateApiKey_def split: option.splits if_splits)
  then show ?thesis by (simp add: requireApiKey_def)
qed

end
