(* ===== verification/Auth_Http.thy ===== *)
theory Auth_Http
  imports Http Two_Factor Api_Keys
begin

text \<open>
  The HTTP interface of authentication: routes, schemas and controllers of \<open>src/src/modules/auth\<close>
  (\<open>auth.routes.ts\<close>, \<open>auth.controller.ts\<close>, \<open>twoFactor.controller.ts\<close>, \<open>session.controller.ts\<close>,
  \<open>apiKey.controller.ts\<close>) and of \<open>src/src/modules/api-keys\<close>. Six routes ask for no token; the others
  for one, and those of the API keys for an administrator. Of the two routes registered for the set-up
  of the second factor express serves the first.
\<close>

section \<open>Schemas\<close>

definition PASSWORD_MIN_LENGTH :: nat where
  "PASSWORD_MIN_LENGTH = 8"

text \<open>\<open>isEmail\<close> is the pattern behind \<open>z.string().email()\<close>.\<close>

definition zEmail :: "(string \<Rightarrow> bool) \<Rightarrow> string schema" where
  "zEmail isEmail v = (case zString v of None \<Rightarrow> None | Some s \<Rightarrow> if isEmail s then Some s else None)"

definition zPassword :: "string schema" where
  "zPassword = zMin PASSWORD_MIN_LENGTH zString"

definition SignupBodySchema :: "(string \<Rightarrow> bool) \<Rightarrow> signupInput schema" where
  "SignupBodySchema isEmail = zObject (\<lambda>field.
     Option.bind (zEmail isEmail (field ''email'')) (\<lambda>email.
     Option.bind (zMin 1 zString (field ''name'')) (\<lambda>name.
     Option.bind (zPassword (field ''password'')) (\<lambda>password.
     Option.bind (zOptional (zMin 1 zString) (field ''organizationId'')) (\<lambda>org.
       Some \<lparr>si_email = email, si_name = name, si_password = password, si_organizationId = org\<rparr>)))))"

definition LoginBodySchema :: "(string \<Rightarrow> bool) \<Rightarrow> (string \<times> string) schema" where
  "LoginBodySchema isEmail = zObject (\<lambda>field.
     Option.bind (zEmail isEmail (field ''email'')) (\<lambda>email.
     Option.bind (zString (field ''password'')) (\<lambda>password. Some (email, password))))"

definition ForgotPasswordBodySchema :: "(string \<Rightarrow> bool) \<Rightarrow> string schema" where
  "ForgotPasswordBodySchema isEmail = zObject (\<lambda>field. zEmail isEmail (field ''email''))"

definition ResetPasswordBodySchema :: "(string \<times> string) schema" where
  "ResetPasswordBodySchema = zObject (\<lambda>field.
     Option.bind (zMin 1 zString (field ''token'')) (\<lambda>token.
     Option.bind (zPassword (field ''newPassword'')) (\<lambda>newPassword. Some (token, newPassword))))"

definition RefreshBodySchema :: "string schema" where
  "RefreshBodySchema = zObject (\<lambda>field. zMin 1 zString (field ''token''))"

definition RegisterCompanyBodySchema :: "(string \<Rightarrow> bool) \<Rightarrow> companyInput schema" where
  "RegisterCompanyBodySchema isEmail = zObject (\<lambda>field.
     Option.bind (zMin 1 zString (field ''companyName'')) (\<lambda>companyName.
     Option.bind (zMin 1 zString (field ''industry'')) (\<lambda>industry.
     Option.bind (zMin 1 zString (field ''country'')) (\<lambda>country.
     Option.bind (zMin 1 zString (field ''companySize'')) (\<lambda>companySize.
     Option.bind (zMin 1 zString (field ''adminName'')) (\<lambda>adminName.
     Option.bind (zEmail isEmail (field ''email'')) (\<lambda>email.
     Option.bind (zPassword (field ''password'')) (\<lambda>password.
       Some \<lparr>ci_companyName = companyName, ci_industry = industry, ci_country = country,
         ci_companySize = companySize, ci_adminName = adminName, ci_email = email, ci_password = password\<rparr>))))))))"

definition Verify2faBodySchema :: "string schema" where
  "Verify2faBodySchema = zObject (\<lambda>field. case zString (field ''code'') of
     None \<Rightarrow> None
   | Some code \<Rightarrow> if length code = 6 \<and> (\<forall>c\<in>set code. is_digit c) then Some code else None)"

definition Disable2faBodySchema :: "string schema" where
  "Disable2faBodySchema = zObject (\<lambda>field. zMin 1 zString (field ''password''))"

definition ChangePasswordBodySchema :: "(string \<times> string) schema" where
  "ChangePasswordBodySchema = zObject (\<lambda>field.
     Option.bind (zMin 1 zString (field ''currentPassword'')) (\<lambda>currentPassword.
     Option.bind (zPassword (field ''newPassword'')) (\<lambda>newPassword. Some (currentPassword, newPassword))))"

definition SessionJtiParamSchema :: "string schema" where
  "SessionJtiParamSchema = zObject (\<lambda>field. zMin 1 zString (field ''jti''))"

text \<open>The body of \<open>auth/apiKey.validation.ts\<close> names the organization; the one of \<open>api-keys\<close> does not.\<close>

definition CreateApiKeyBodySchema :: "(string \<times> objectId \<times> objectId option) schema" where
  "CreateApiKeyBodySchema = zObject (\<lambda>field.
     Option.bind (trimmedId (field ''name'')) (\<lambda>name.
     Option.bind (trimmedId (field ''organizationId'')) (\<lambda>org.
     Option.bind (zOptional (zTrim zString) (field ''shipmentId'')) (\<lambda>shipmentId. Some (name, org, shipmentId)))))"

definition CreateCompanyApiKeyBodySchema :: "(string \<times> objectId option) schema" where
  "CreateCompanyApiKeyBodySchema = zObject (\<lambda>field.
     Option.bind (trimmedId (field ''name'')) (\<lambda>name.
     Option.bind (zOptional (zTrim zString) (field ''shipmentId'')) (\<lambda>shipmentId. Some (name, shipmentId))))"

definition OrganizationIdParamSchema :: "string schema" where
  "OrganizationIdParamSchema = zObject (\<lambda>field. trimmedId (field ''organizationId''))"

definition ApiKeyIdParamSchema :: "string schema" where
  "ApiKeyIdParamSchema = zObject (\<lambda>field. trimmedId (field ''apiKeyId''))"

section \<open>Handlers\<close>

text \<open>
  The accounts with the sessions and blocked tokens, and the API keys. \<open>ah_context\<close> is the address and
  the user agent of the request at hand.
\<close>

record authSystem =
  ax_auth :: authState
  ax_keys :: keyState

record authServer = serverEnv +
  ah_twoFactor :: twoFactorEnv
  ah_keys :: keyEnv
  ah_mailUp :: bool
  ah_isEmail :: "string \<Rightarrow> bool"
  ah_context :: requestContext

record accountView =
  av_id :: objectId
  av_email :: string
  av_name :: string
  av_role :: userRole

datatype authPayload =
    NoData
  | Account accountView string
  | RefreshedToken string int
  | SetupData string string
  | BackupCodes "string list"
  | SessionList "session list"
  | CreatedKey createApiKeyResult
  | CompanyKey objectId string objectId "objectId option" millis string
  | KeyList "apiKey list"

definition accountOf :: "user \<Rightarrow> accountView" where
  "accountOf u = \<lparr>av_id = us_id u, av_email = us_email u, av_name = us_name u, av_role = us_role u\<rparr>"

text \<open>\<open>select('-keyHash')\<close>: the empty string stands for the dropped field.\<close>

definition withoutKeyHash :: "apiKey \<Rightarrow> apiKey" where
  "withoutKeyHash k = k\<lparr>ak_keyHash := []\<rparr>"

definition bearerToken :: "request \<Rightarrow> string" where
  "bearerToken rq = drop 7 (nullish (rq_authorization rq) [])"

definition onAuth ::
  "('a \<Rightarrow> authPayload reply) \<Rightarrow> 'a result \<times> authState \<Rightarrow> authSystem \<Rightarrow> authPayload reply result \<times> authSystem" where
  "onAuth k p w = (map_sum id k (fst p), w\<lparr>ax_auth := snd p\<rparr>)"

definition onKeys ::
  "('a \<Rightarrow> authPayload reply) \<Rightarrow> 'a result \<times> keyState \<Rightarrow> authSystem \<Rightarrow> authPayload reply result \<times> authSystem" where
  "onKeys k p w = (map_sum id k (fst p), w\<lparr>ax_keys := snd p\<rparr>)"

definition signupController :: "authServer \<Rightarrow> signupInput \<Rightarrow> authSystem \<Rightarrow> authPayload reply result \<times> authSystem" where
  "signupController ah body w = onAuth (\<lambda>(u, token). created201 ''Account created successfully'' (Account (accountOf u) token))
     (signup (hx_auth ah) body (ah_context ah) (ax_auth w)) w"

definition loginController :: "authServer \<Rightarrow> string \<times> string \<Rightarrow> authSystem \<Rightarrow> authPayload reply result \<times> authSystem" where
  "loginController ah body w = onAuth (\<lambda>(u, token). ok200 ''Login successful'' (Account (accountOf u) token))
     (login (hx_auth ah) (fst body) (snd body) (ah_context ah) (ax_auth w)) w"

definition logoutController :: "authServer \<Rightarrow> request \<Rightarrow> authSystem \<Rightarrow> authPayload reply result \<times> authSystem" where
  "logoutController ah rq w = onAuth (\<lambda>_. ok200 ''Logged out successfully'' NoData)
     (logout (hx_auth ah) (bearerToken rq) (ax_auth w)) w"

definition forgotPasswordController :: "authServer \<Rightarrow> string \<Rightarrow> authSystem \<Rightarrow> authPayload reply result \<times> authSystem" where
  "forgotPasswordController ah email w =
     (Inr (ok200 ''If the email exists, a reset link has been sent'' NoData),
      w\<lparr>ax_auth := forgotPassword (hx_auth ah) (ah_mailUp ah) email (ax_auth w)\<rparr>)"

definition resetPasswordController ::
  "authServer \<Rightarrow> string \<times> string \<Rightarrow> authSystem \<Rightarrow> authPayload reply result \<times> authSystem" where
  "resetPasswordController ah body w = onAuth (\<lambda>_. ok200 ''Password reset successfully'' NoData)
     (resetPassword (hx_auth ah) (fst body) (snd body) (ax_auth w)) w"

definition refreshController :: "authServer \<Rightarrow> string \<Rightarrow> authSystem \<Rightarrow> authPayload reply result \<times> authSystem" where
  "refreshController ah token w = onAuth (\<lambda>(t, expiresIn). ok200 ''Token refreshed'' (RefreshedToken t expiresIn))
     (refreshToken (hx_auth ah) token (ax_auth w)) w"

definition registerCompanyController ::
  "authServer \<Rightarrow> companyInput \<Rightarrow> authSystem \<Rightarrow> authPayload reply result \<times> authSystem" where
  "registerCompanyController ah body w =
     onAuth (\<lambda>(u, token). created201 ''Company and admin user created successfully'' (Account (accountOf u) token))
       (registerCompany (hx_auth ah) body (ax_auth w)) w"

definition changePasswordController ::
  "authServer \<Rightarrow> claims \<Rightarrow> string \<times> string \<Rightarrow> request \<Rightarrow> authSystem \<Rightarrow> authPayload reply result \<times> authSystem" where
  "changePasswordController ah user body rq w = onAuth (\<lambda>_. ok200 ''Password changed successfully'' NoData)
     (changePassword (hx_auth ah) (cl_userId user) (fst body) (snd body) (bearerToken rq) (ax_auth w)) w"

definition setup2faController :: "authServer \<Rightarrow> claims \<Rightarrow> authSystem \<Rightarrow> authPayload reply result \<times> authSystem" where
  "setup2faController ah user w =
     onAuth (\<lambda>(uri, secret). ok200 ''2FA setup initiated. Scan the QR code and verify.'' (SetupData uri secret))
       (twoFactor_setup (ah_twoFactor ah) (cl_userId user) (ax_auth w)) w"

definition verify2faController ::
  "authServer \<Rightarrow> claims \<Rightarrow> string \<Rightarrow> authSystem \<Rightarrow> authPayload reply result \<times> authSystem" where
  "verify2faController ah user code w =
     onAuth (\<lambda>codes. ok200 ''2FA enabled successfully. Store backup codes safely.'' (BackupCodes codes))
       (verify2fa (ah_twoFactor ah) (cl_userId user) code (ax_auth w)) w"

definition disable2faController ::
  "authServer \<Rightarrow> claims \<Rightarrow> string \<Rightarrow> authSystem \<Rightarrow> authPayload reply result \<times> authSystem" where
  "disable2faController ah user password w = onAuth (\<lambda>_. ok200 ''2FA disabled successfully'' NoData)
     (disable2fa (ah_twoFactor ah) (cl_userId user) password (ax_auth w)) w"

definition regenerateBackupCodesController ::
  "authServer \<Rightarrow> claims \<Rightarrow> authSystem \<Rightarrow> authPayload reply result \<times> authSystem" where
  "regenerateBackupCodesController ah user w =
     onAuth (\<lambda>codes. ok200 ''Backup codes regenerated. Store them safely.'' (BackupCodes codes))
       (regenerateBackupCodes (ah_twoFactor ah) (cl_userId user) (ax_auth w)) w"

definition listSessionsController :: "claims \<Rightarrow> authSystem \<Rightarrow> authPayload reply result" where
  "listSessionsController user w =
     (if cl_userId user = [] then throwApp 401 ''Unauthorized'' (ErrorCodes UNAUTHORIZED)
      else Inr (ok200 ''Sessions retrieved'' (SessionList (listSessions (cl_userId user) (ax_auth w)))))"

definition revokeSessionController ::
  "authServer \<Rightarrow> claims \<Rightarrow> string \<Rightarrow> authSystem \<Rightarrow> authPayload reply result \<times> authSystem" where
  "revokeSessionController ah user jti w =
     (if cl_userId user = [] then (throwApp 401 ''Unauthorized'' (ErrorCodes UNAUTHORIZED), w)
      else onAuth (\<lambda>_. ok200 ''Session revoked successfully'' NoData)
             (revokeSession (hx_auth ah) (cl_userId user) jti (ax_auth w)) w)"

text \<open>The two generations of API key routes; the second takes the organization from the token.\<close>

definition postApiKey ::
  "authServer \<Rightarrow> claims \<Rightarrow> string \<times> objectId \<times> objectId option \<Rightarrow> authSystem \<Rightarrow> authPayload reply result \<times> authSystem" where
  "postApiKey ah user body w = onKeys
     (\<lambda>r. created201 ''API key created successfully. Save this key securely - it will not be shown again.'' (CreatedKey r))
     (createApiKeyController (ah_keys ah) (Some (fst body)) (Some (fst (snd body))) (snd (snd body))
        (Some (cl_userId user)) (ax_keys w)) w"

definition getApiKeys :: "string \<Rightarrow> authSystem \<Rightarrow> authPayload reply result" where
  "getApiKeys organizationId w =
     (if organizationId = [] then throwApp 400 ''organizationId is required'' ''VALIDATION_ERROR''
      else Inr (ok200 ''API keys retrieved'' (KeyList (map withoutKeyHash (listApiKeys organizationId (ax_keys w))))))"

definition deleteApiKey :: "string \<Rightarrow> authSystem \<Rightarrow> authPayload reply result \<times> authSystem" where
  "deleteApiKey apiKeyId w = onKeys (\<lambda>_. ok200 ''API key revoked successfully'' NoData)
     (revokeApiKeyController (Some apiKeyId) (ax_keys w)) w"

definition postCompanyApiKey ::
  "authServer \<Rightarrow> claims \<Rightarrow> string \<times> objectId option \<Rightarrow> authSystem \<Rightarrow> authPayload reply result \<times> authSystem" where
  "postCompanyApiKey ah user body w = onKeys
     (\<lambda>r. created201 (''API key created successfully. Save this key securely '' @ [CHR 0xE2, CHR 0x80, CHR 0x94]
            @ '' it will not be shown again.'')
        (CompanyKey (cr_id r) (cr_name r) (cr_organizationId r) (cr_shipmentId r) (cr_createdAt r) (cr_apiKey r)))
     (createCompanyApiKey (ah_keys ah) (cl_organizationId user) (fst body) (snd body)
        (Some (cl_userId user)) (ax_keys w)) w"

definition getCompanyApiKeys :: "claims \<Rightarrow> authSystem \<Rightarrow> authPayload reply result" where
  "getCompanyApiKeys user w = map_sum id (\<lambda>ks. ok200 ''API keys retrieved'' (KeyList (map withoutKeyHash ks)))
     (listCompanyApiKeys (cl_organizationId user) (ax_keys w))"

definition deleteCompanyApiKey :: "claims \<Rightarrow> string \<Rightarrow> authSystem \<Rightarrow> authPayload reply result \<times> authSystem" where
  "deleteCompanyApiKey user apiKeyId w = onKeys (\<lambda>_. ok200 ''API key revoked successfully'' NoData)
     (revokeCompanyApiKey (cl_organizationId user) (Some apiKeyId) (ax_keys w)) w"

section \<open>Routes\<close>

datatype publicRoute =
  SignupRoute | LoginRoute | RegisterCompanyRoute | RefreshRoute | ForgotPasswordRoute | ResetPasswordRoute

datatype tokenRoute =
    LogoutRoute | PasswordRoute | Setup2faRoute | Verify2faRoute | Disable2faRoute | RegenerateRoute
  | SessionsRoute | RevokeSessionRoute string
  | CreateKeyRoute | ListKeysRoute string | RevokeKeyRoute string

definition authRouteOf :: "httpMethod \<Rightarrow> string list \<Rightarrow> (publicRoute + tokenRoute) option" where
  "authRouteOf m path =
     (let p = map toLowerCase path in
      case m of
        POST \<Rightarrow>
          (if p = [''signup''] then Some (Inl SignupRoute)
           else if p = [''login''] then Some (Inl LoginRoute)
           else if p = [''register'', ''company''] then Some (Inl RegisterCompanyRoute)
           else if p = [''logout''] then Some (Inr LogoutRoute)
           else if p = [''refresh''] then Some (Inl RefreshRoute)
           else if p = [''forgot-password''] then Some (Inl ForgotPasswordRoute)
           else if p = [''reset-password''] then Some (Inl ResetPasswordRoute)
           else if p = [''2fa'', ''setup''] then Some (Inr Setup2faRoute)
           else if p = [''api-keys''] then Some (Inr CreateKeyRoute)
           else if p = [''2fa'', ''verify''] then Some (Inr Verify2faRoute)
           else if p = [''2fa'', ''backup-codes'', ''regenerate''] then Some (Inr RegenerateRoute)
           else None)
      | PATCH \<Rightarrow> if p = [''password''] then Some (Inr PasswordRoute) else None
      | GET \<Rightarrow>
          (if p = [''sessions''] then Some (Inr SessionsRoute)
           else case path of [a, i] \<Rightarrow> if toLowerCase a = ''api-keys'' then Some (Inr (ListKeysRoute i)) else None
              | _ \<Rightarrow> None)
      | DELETE \<Rightarrow>
          (if p = [''2fa''] then Some (Inr Disable2faRoute)
           else case path of
               [a, i] \<Rightarrow> if toLowerCase a = ''api-keys'' then Some (Inr (RevokeKeyRoute i))
                  else if toLowerCase a = ''sessions'' then Some (Inr (RevokeSessionRoute i)) else None
             | _ \<Rightarrow> None)
      | PUT \<Rightarrow> None)"

primrec tokenRoles :: "tokenRoute \<Rightarrow> userRole list option" where
  "tokenRoles LogoutRoute = None"
| "tokenRoles PasswordRoute = None"
| "tokenRoles Setup2faRoute = None"
| "tokenRoles Verify2faRoute = None"
| "tokenRoles Disable2faRoute = None"
| "tokenRoles RegenerateRoute = None"
| "tokenRoles SessionsRoute = None"
| "tokenRoles (RevokeSessionRoute j) = None"
| "tokenRoles CreateKeyRoute = Some [ADMIN, SUPER_ADMIN]"
| "tokenRoles (ListKeysRoute i) = Some [ADMIN, SUPER_ADMIN]"
| "tokenRoles (RevokeKeyRoute i) = Some [ADMIN, SUPER_ADMIN]"

definition paramOf :: "'e serverEnv_scheme \<Rightarrow> string \<Rightarrow> 'a schema \<Rightarrow> string \<Rightarrow> 'a result" where
  "paramOf hx name schema i = validatePart (hx_issues hx) schema (JObj [(name, JStr i)])"

primrec publicServe ::
  "authServer \<Rightarrow> request \<Rightarrow> authSystem \<Rightarrow> publicRoute \<Rightarrow> authPayload reply result \<times> authSystem" where
  "publicServe ah rq w SignupRoute =
     andThen (bodyOf ah (SignupBodySchema (ah_isEmail ah)) rq) w (\<lambda>body. signupController ah body w)"
| "publicServe ah rq w LoginRoute =
     andThen (bodyOf ah (LoginBodySchema (ah_isEmail ah)) rq) w (\<lambda>body. loginController ah body w)"
| "publicServe ah rq w RegisterCompanyRoute =
     andThen (bodyOf ah (RegisterCompanyBodySchema (ah_isEmail ah)) rq) w (\<lambda>body. registerCompanyController ah body w)"
| "publicServe ah rq w RefreshRoute =
     andThen (bodyOf ah RefreshBodySchema rq) w (\<lambda>token. refreshController ah token w)"
| "publicServe ah rq w ForgotPasswordRoute =
     andThen (bodyOf ah (ForgotPasswordBodySchema (ah_isEmail ah)) rq) w (\<lambda>email. forgotPasswordController ah email w)"
| "publicServe ah rq w ResetPasswordRoute =
     andThen (bodyOf ah ResetPasswordBodySchema rq) w (\<lambda>body. resetPasswordController ah body w)"

primrec tokenServe ::
  "authServer \<Rightarrow> claims \<Rightarrow> request \<Rightarrow> authSystem \<Rightarrow> tokenRoute \<Rightarrow> authPayload reply result \<times> authSystem" where
  "tokenServe ah user rq w LogoutRoute = logoutController ah rq w"
| "tokenServe ah user rq w PasswordRoute =
     andThen (bodyOf ah ChangePasswordBodySchema rq) w (\<lambda>body. changePasswordController ah user body rq w)"
| "tokenServe ah user rq w Setup2faRoute = setup2faController ah user w"
| "tokenServe ah user rq w Verify2faRoute =
     andThen (bodyOf ah Verify2faBodySchema rq) w (\<lambda>code. verify2faController ah user code w)"
| "tokenServe ah user rq w Disable2faRoute =
     andThen (bodyOf ah Disable2faBodySchema rq) w (\<lambda>password. disable2faController ah user password w)"
| "tokenServe ah user rq w RegenerateRoute = regenerateBackupCodesController ah user w"
| "tokenServe ah user rq w SessionsRoute = (listSessionsController user w, w)"
| "tokenServe ah user rq w (RevokeSessionRoute j) =
     andThen (paramOf ah ''jti'' SessionJtiParamSchema j) w (\<lambda>jti. revokeSessionController ah user jti w)"
| "tokenServe ah user rq w CreateKeyRoute =
     andThen (bodyOf ah CreateApiKeyBodySchema rq) w (\<lambda>body. postApiKey ah user body w)"
| "tokenServe ah user rq w (ListKeysRoute i) =
     andThen (paramOf ah ''organizationId'' OrganizationIdParamSchema i) w (\<lambda>org. (getApiKeys org w, w))"
| "tokenServe ah user rq w (RevokeKeyRoute i) =
     andThen (paramOf ah ''apiKeyId'' ApiKeyIdParamSchema i) w (\<lambda>k. deleteApiKey k w)"

definition authRouter ::
  "authServer \<Rightarrow> httpMethod \<Rightarrow> string list \<Rightarrow> request \<Rightarrow> authSystem \<Rightarrow> authPayload reply \<times> authSystem" where
  "authRouter ah m path rq w =
     (case authRouteOf m path of
        None \<Rightarrow> (RouteNotFound, w)
      | Some (Inl rt) \<Rightarrow> answered ah (publicServe ah rq w rt)
      | Some (Inr rt) \<Rightarrow> dispatch ah False tokenRoles (tokenServe ah) (at_redis (ax_auth w)) (Some rt) rq w)"

datatype companyKeyRoute = CreateCompanyKey | ListCompanyKeys | RevokeCompanyKey string

definition companyKeyRouteOf :: "httpMethod \<Rightarrow> string list \<Rightarrow> companyKeyRoute option" where
  "companyKeyRouteOf m path = (case (m, path) of
     (POST, []) \<Rightarrow> Some CreateCompanyKey | (GET, []) \<Rightarrow> Some ListCompanyKeys
   | (DELETE, [i]) \<Rightarrow> Some (RevokeCompanyKey i) | _ \<Rightarrow> None)"

definition companyKeyRoles :: "companyKeyRoute \<Rightarrow> userRole list option" where
  "companyKeyRoles rt = Some [ADMIN, SUPER_ADMIN]"

primrec companyKeyServe ::
  "authServer \<Rightarrow> claims \<Rightarrow> request \<Rightarrow> authSystem \<Rightarrow> companyKeyRoute \<Rightarrow> authPayload reply result \<times> authSystem" where
  "companyKeyServe ah user rq w CreateCompanyKey =
     andThen (bodyOf ah CreateCompanyApiKeyBodySchema rq) w (\<lambda>body. postCompanyApiKey ah user body w)"
| "companyKeyServe ah user rq w ListCompanyKeys = (getCompanyApiKeys user w, w)"
| "companyKeyServe ah user rq w (RevokeCompanyKey i) =
     andThen (paramOf ah ''apiKeyId'' ApiKeyIdParamSchema i) w (\<lambda>k. deleteCompanyApiKey user k w)"

definition apiKeysRouter ::
  "authServer \<Rightarrow> httpMethod \<Rightarrow> string list \<Rightarrow> request \<Rightarrow> authSystem \<Rightarrow> authPayload reply \<times> authSystem" where
  "apiKeysRouter ah m path rq w =
     dispatch ah False companyKeyRoles (companyKeyServe ah) (at_redis (ax_auth w)) (companyKeyRouteOf m path) rq w"

section \<open>What a request does to the accounts\<close>

text \<open>An account without its secrets: what the routes of this module never change.\<close>

definition standing :: "user \<Rightarrow> objectId \<times> string \<times> userRole \<times> objectId option \<times> millis option" where
  "standing u = (us_id u, us_email u, us_role u, us_organizationId u, us_deletedAt u)"

lemma standing_saveUser:
  assumes "\<And>u. standing (f u) = standing u"
  shows "map standing (at_users (saveUser i f s)) = map standing (at_users s)"
  using assms by (simp add: saveUser_def findUserAndUpdate_def findOneAndUpdate_def update_first_keys)

lemma standing_kept:
  "map standing (at_users (snd (login env email pw cx s))) = map standing (at_users s)"
  "map standing (at_users (snd (refreshToken env token s))) = map standing (at_users s)"
  "map standing (at_users (snd (logout env token s))) = map standing (at_users s)"
  "map standing (at_users (forgotPassword env mail email s)) = map standing (at_users s)"
  "map standing (at_users (snd (resetPassword env token pw s))) = map standing (at_users s)"
  "map standing (at_users (snd (changePassword env i old pw token s))) = map standing (at_users s)"
  "map standing (at_users (snd (twoFactor_setup tf i s))) = map standing (at_users s)"
  "map standing (at_users (snd (verify2fa tf i code s))) = map standing (at_users s)"
  "map standing (at_users (snd (disable2fa tf i pw s))) = map standing (at_users s)"
  "map standing (at_users (snd (regenerateBackupCodes tf i s))) = map standing (at_users s)"
  "map standing (at_users (snd (revokeSession env i j s))) = map standing (at_users s)"
proof -
  have keep: "map standing (at_users (saveUser i f s)) = map standing (at_users s)"
    if "\<And>u. standing (f u) = standing u" for i f s
    using that by (rule standing_saveUser)
  show "map standing (at_users (snd (login env email pw cx s))) = map standing (at_users s)"
    by (auto simp: login_def Let_def split: option.split prod.split)
  show "map standing (at_users (snd (refreshToken env token s))) = map standing (at_users s)"
    by (auto simp: refreshToken_def Let_def split: option.split prod.split sum.split)
  show "map standing (at_users (snd (logout env token s))) = map standing (at_users s)"
    by (auto simp: logout_def Let_def split: option.split prod.split)
  show "map standing (at_users (forgotPassword env mail email s)) = map standing (at_users s)"
    by (auto simp: forgotPassword_def split: option.split)
  show "map standing (at_users (snd (resetPassword env token pw s))) = map standing (at_users s)"
    by (auto simp: resetPassword_def Let_def keep standing_def split: option.split prod.split)
  show "map standing (at_users (snd (changePassword env i old pw token s))) = map standing (at_users s)"
    by (auto simp: changePassword_def Let_def keep standing_def split: option.split)
  show "map standing (at_users (snd (twoFactor_setup tf i s))) = map standing (at_users s)"
    by (auto simp: twoFactor_setup_def Let_def keep standing_def split: option.split)
  show "map standing (at_users (snd (verify2fa tf i code s))) = map standing (at_users s)"
    by (auto simp: verify2fa_def Let_def keep standing_def split: option.split prod.split)
  show "map standing (at_users (snd (disable2fa tf i pw s))) = map standing (at_users s)"
    by (auto simp: disable2fa_def keep standing_def split: option.split)
  show "map standing (at_users (snd (regenerateBackupCodes tf i s))) = map standing (at_users s)"
    by (auto simp: regenerateBackupCodes_def Let_def keep standing_def split: option.split prod.split)
  show "map standing (at_users (snd (revokeSession env i j s))) = map standing (at_users s)"
    by (auto simp: revokeSession_def split: option.split prod.split sum.split)
qed

text \<open>
  The accounts that appear: viewers, and the administrator of a company that appears with it.
\<close>

definition newcomer :: "authState \<Rightarrow> authState \<Rightarrow> user \<Rightarrow> bool" where
  "newcomer s s' u \<longleftrightarrow> us_role u = VIEWER
     \<or> (us_role u = ADMIN \<and> (\<exists>g. at_orgs s' = at_orgs s @ [g] \<and> us_organizationId u = Some (og_id g)))"

definition joins :: "authState \<Rightarrow> authState \<Rightarrow> bool" where
  "joins s s' \<longleftrightarrow> (\<exists>new. map standing (at_users s') = map standing (at_users s) @ map standing new
     \<and> (\<forall>u\<in>set new. newcomer s s' u))"

lemma joins_same: "map standing (at_users s') = map standing (at_users s) \<Longrightarrow> joins s s'"
  by (auto simp: joins_def intro: exI[of _ "[]"])

lemma signup_joins: "joins s (snd (signup env input cx s))"
proof (cases "fst (signup env input cx s)")
  case (Inl e)
  then have "snd (signup env input cx s) = s"
    by (auto simp: signup_def Let_def split: option.splits if_splits prod.splits)
  then show ?thesis by (simp add: joins_same)
next
  case (Inr r)
  then obtain u token where r: "fst (signup env input cx s) = Inr (u, token)" by (cases r) auto
  have "us_role u = VIEWER" unfolding signup_eq(1)[OF r] by simp
  then show ?thesis unfolding signup_eq(3)[OF r] joins_def newcomer_def
    by (intro exI[of _ "[u]"]) simp
qed

lemma company_joins: "joins s (snd (registerCompany env input s))"
proof (cases "fst (registerCompany env input s)")
  case (Inl e)
  then show ?thesis by (simp add: joins_same registerCompany_atomic)
next
  case (Inr r)
  then obtain u token where r: "fst (registerCompany env input s) = Inr (u, token)" by (cases r) auto
  from registerCompany_ok[OF this] obtain org where
    "at_orgs (snd (registerCompany env input s)) = at_orgs s @ [org]" "us_organizationId u = Some (og_id org)"
    "us_role u = ADMIN" "at_users (snd (registerCompany env input s)) = at_users s @ [u]" by blast
  then show ?thesis unfolding joins_def newcomer_def by (intro exI[of _ "[u]"]) auto
qed

lemma onAuth_simps [simp]:
  "ax_auth (snd (onAuth k p w)) = snd p" "ax_keys (snd (onAuth k p w)) = ax_keys w"
  "fst (onAuth k p w) = map_sum id k (fst p)"
  by (simp_all add: onAuth_def)

lemma onKeys_simps [simp]:
  "ax_keys (snd (onKeys k p w)) = snd p" "ax_auth (snd (onKeys k p w)) = ax_auth w"
  "fst (onKeys k p w) = map_sum id k (fst p)"
  by (simp_all add: onKeys_def)

lemma publicServe_joins: "joins (ax_auth w) (ax_auth (snd (publicServe ah rq w rt)))"
  by (cases rt)
    (auto simp: andThen_def signupController_def loginController_def registerCompanyController_def refreshController_def
      forgotPasswordController_def resetPasswordController_def signup_joins company_joins
      intro!: joins_same standing_kept split: sum.split)

lemma tokenServe_joins: "joins (ax_auth w) (ax_auth (snd (tokenServe ah c rq w rt)))"
  by (cases rt)
    (auto simp: andThen_def logoutController_def changePasswordController_def setup2faController_def
      verify2faController_def disable2faController_def regenerateBackupCodesController_def revokeSessionController_def
      postApiKey_def deleteApiKey_def intro!: joins_same standing_kept split: sum.split)

section \<open>Whose token changes what\<close>

primrec writesKeys :: "tokenRoute \<Rightarrow> bool" where
  "writesKeys LogoutRoute = False"
| "writesKeys PasswordRoute = False"
| "writesKeys Setup2faRoute = False"
| "writesKeys Verify2faRoute = False"
| "writesKeys Disable2faRoute = False"
| "writesKeys RegenerateRoute = False"
| "writesKeys SessionsRoute = False"
| "writesKeys (RevokeSessionRoute j) = False"
| "writesKeys CreateKeyRoute = True"
| "writesKeys (ListKeysRoute i) = False"
| "writesKeys (RevokeKeyRoute i) = True"

definition sameKeys :: "authSystem \<Rightarrow> authSystem \<Rightarrow> bool" where
  "sameKeys w w' \<longleftrightarrow> ax_keys w' = ax_keys w"

interpretation key_routes: guarded_routes tokenRoles "tokenServe env" writesKeys "[ADMIN, SUPER_ADMIN]" sameKeys for env
proof unfold_locales
  fix rt c rq w
  show "writesKeys rt \<Longrightarrow> \<exists>rs. tokenRoles rt = Some rs \<and> set rs \<subseteq> set [ADMIN, SUPER_ADMIN]"
    by (cases rt) auto
  show "\<not> writesKeys rt \<Longrightarrow> sameKeys w (snd (tokenServe env c rq w rt))"
    by (cases rt) (auto simp: sameKeys_def andThen_def logoutController_def changePasswordController_def
        setup2faController_def verify2faController_def disable2faController_def regenerateBackupCodesController_def
        revokeSessionController_def split: sum.split)
qed (simp add: sameKeys_def)

interpretation company_keys: guarded_routes companyKeyRoles "companyKeyServe env" "\<lambda>_. True" "[ADMIN, SUPER_ADMIN]"
  sameKeys for env
  by unfold_locales (simp_all add: companyKeyRoles_def sameKeys_def)

lemma publicServe_keys: "ax_keys (snd (publicServe ah rq w rt)) = ax_keys w"
  by (cases rt) (auto simp: andThen_def signupController_def loginController_def registerCompanyController_def
      refreshController_def forgotPasswordController_def resetPasswordController_def split: sum.split)

text \<open>The routes behind a token write to the account of the token's owner and to no other.\<close>

lemma saveUser_bystander: "u \<in> set (at_users s) \<Longrightarrow> us_id u \<noteq> i \<Longrightarrow> u \<in> set (at_users (saveUser i f s))"
  by (simp add: saveUser_def findUserAndUpdate_def findOneAndUpdate_def update_first_keeps)

lemma owner_only:
  assumes "u \<in> set (at_users (ax_auth w))" and "us_id u \<noteq> cl_userId c"
  shows "u \<in> set (at_users (ax_auth (snd (tokenServe ah c rq w rt))))"
proof (cases rt)
  case LogoutRoute
  then show ?thesis using assms
    by (auto simp: logoutController_def logout_def Let_def split: option.split prod.split)
next
  case PasswordRoute
  then show ?thesis using assms saveUser_bystander
    by (auto simp: andThen_def changePasswordController_def changePassword_def Let_def split: sum.split option.split)
next
  case Setup2faRoute
  then show ?thesis using assms saveUser_bystander
    by (auto simp: setup2faController_def twoFactor_setup_def Let_def split: option.split)
next
  case Verify2faRoute
  then show ?thesis using assms saveUser_bystander
    by (auto simp: andThen_def verify2faController_def verify2fa_def Let_def split: sum.split option.split prod.split)
next
  case Disable2faRoute
  then show ?thesis using assms saveUser_bystander
    by (auto simp: andThen_def disable2faController_def disable2fa_def split: sum.split option.split)
next
  case RegenerateRoute
  then show ?thesis using assms saveUser_bystander
    by (auto simp: regenerateBackupCodesController_def regenerateBackupCodes_def Let_def split: option.split prod.split)
next
  case (RevokeSessionRoute j)
  then show ?thesis using assms
    by (auto simp: andThen_def revokeSessionController_def revokeSession_def split: sum.split option.split prod.split)
qed (use assms in \<open>auto simp: andThen_def postApiKey_def deleteApiKey_def split: sum.split\<close>)

lemma authRouter_joins: "joins (ax_auth w) (ax_auth (snd (authRouter ah m path rq w)))"
  by (auto simp: authRouter_def joins_same publicServe_joins tokenServe_joins dispatch_def andThen_def answered_def
      split: option.split sum.split)

lemma authRouter_keys:
  "ax_keys (snd (authRouter ah m path rq w)) = ax_keys w
   \<or> (\<exists>c. authenticated ah rq (at_redis (ax_auth w)) = Inr c \<and> cl_role c \<in> {Some ADMIN, Some SUPER_ADMIN})"
proof (cases "authRouteOf m path")
  case None
  then show ?thesis by (simp add: authRouter_def)
next
  case (Some r)
  then show ?thesis
    using key_routes.guarded[where env = ah and hx = ah and w = w and guardAll = False and r = "at_redis (ax_auth w)"
        and route = "map_option projr (authRouteOf m path)" and rq = rq]
    by (cases r) (auto simp: authRouter_def publicServe_keys sameKeys_def)
qed

text \<open>\<open>bystander\<close>: an account that is neither the caller's nor reached by a public route.\<close>

lemma authRouter_bystander:
  assumes "authRouteOf m path = Some (Inr rt)" and "u \<in> set (at_users (ax_auth w))"
    and "\<And>c. authenticated ah rq (at_redis (ax_auth w)) = Inr c \<Longrightarrow> us_id u \<noteq> cl_userId c"
  shows "u \<in> set (at_users (ax_auth (snd (authRouter ah m path rq w))))"
proof (cases "admitted ah (tokenRoles rt) rq (at_redis (ax_auth w))")
  case (Inl e)
  then show ?thesis using assms by (simp add: authRouter_def dispatch_def andThen_def)
next
  case (Inr c)
  then have "us_id u \<noteq> cl_userId c" using assms(3) admitted_sound by blast
  then show ?thesis using Inr assms(1,2) owner_only by (simp add: authRouter_def dispatch_admitted)
qed

section \<open>Joining an organization\<close>

text \<open>The sign-up takes the organization from the body, and nobody is asked.\<close>

lemma findUserByEmail_unused: "email \<notin> us_email ` set us \<Longrightarrow> findUserByEmail email us = None"
  by (auto simp: findUserByEmail_def findOne_def find_None_iff)

lemma stranger_joins:
  assumes "libs_ok (hx_auth ah)" and "ah_isEmail ah email" and "email \<notin> us_email ` set (at_users (ax_auth w))"
    and "name \<noteq> []" and "8 \<le> length pw" and "org \<noteq> []"
    and "rq_body rq = JObj [(''email'', JStr email), (''name'', JStr name), (''password'', JStr pw),
          (''organizationId'', JStr org)]"
  shows "\<exists>v token c. fst (authRouter ah POST [''signup''] rq w) = created201 ''Account created successfully'' (Account v token)
     \<and> av_role v = VIEWER \<and> verifyToken (hx_auth ah) token = Some c \<and> cl_role c = Some VIEWER
     \<and> cl_organizationId c = Some org \<and> cl_jti c = ae_uuid (hx_auth ah)"
proof -
  let ?in = "\<lparr>si_email = email, si_name = name, si_password = pw, si_organizationId = Some org\<rparr>"
  have min1: "Suc 0 \<le> length name" "Suc 0 \<le> length org" using assms(4,6) by (simp_all add: Suc_le_eq)
  have body: "bodyOf ah (SignupBodySchema (ah_isEmail ah)) rq = Inr ?in"
    using assms(2,5) min1 by (simp add: bodyOf_def validatePart_def SignupBodySchema_def zObject_def assms(7) propOf_def
        zEmail_def zString_def zMin_def zPassword_def PASSWORD_MIN_LENGTH_def zOptional_def)
  have "\<exists>u token. fst (signup (hx_auth ah) ?in (ah_context ah) (ax_auth w)) = Inr (u, token)"
    using assms(3) by (simp add: signup_def findUserByEmail_unused Let_def generateToken_def)
  then obtain u token where r: "fst (signup (hx_auth ah) ?in (ah_context ah) (ax_auth w)) = Inr (u, token)" by blast
  have route: "authRouteOf POST [''signup''] = Some (Inl SignupRoute)"
    by (simp add: authRouteOf_def toLowerCase_def to_lower_def)
  have "fst (authRouter ah POST [''signup''] rq w) = created201 ''Account created successfully'' (Account (accountOf u) token)"
    unfolding authRouter_def route
    by (simp add: andThen_def body signupController_def answered_def r)
  moreover have "verifyToken (hx_auth ah) token
      = Some (tokenClaims (hx_auth ah) u (organizationTypeOf (us_organizationId u) (at_orgs (ax_auth w))))"
    unfolding signup_eq(2)[OF r] using assms(1) by (rule fresh_token_verifies)
  moreover have "us_role u = VIEWER \<and> us_organizationId u = Some org" unfolding signup_eq(1)[OF r] by simp
  ultimately show ?thesis
    by (intro exI[of _ "accountOf u"] exI[of _ token] exI) (auto simp: accountOf_def tokenClaims_def)
qed

end
