(* ===== verification/Invitations.thy ===== *)
theory Invitations
  imports Auth
begin

text \<open>
  Invitations to a company (\<open>src/src/modules/invitations/invitations.service.ts\<close>, its repository and
  model): who may invite whom, the token that is mailed, and the life of an invitation from
  \<open>PENDING\<close> to accepted, expired or revoked. Ids are well-formed ObjectIds (the routes are behind
  \<open>requireAuth\<close>); the mail itself is the pair of recipient and token.
\<close>

section \<open>Documents and tokens\<close>

datatype invitationStatus = INV_PENDING | INV_ACCEPTED | INV_EXPIRED | INV_REVOKED

primrec invitation_status_str :: "invitationStatus \<Rightarrow> string" where
  "invitation_status_str INV_PENDING = ''PENDING''"
| "invitation_status_str INV_ACCEPTED = ''ACCEPTED''"
| "invitation_status_str INV_EXPIRED = ''EXPIRED''"
| "invitation_status_str INV_REVOKED = ''REVOKED''"

record invitation =
  iv_id :: objectId
  iv_email :: string
  iv_role :: userRole
  iv_status :: invitationStatus
  iv_tokenHash :: string
  iv_expiresAt :: millis
  iv_message :: "string option"
  iv_invitedBy :: objectId
  iv_organizationId :: objectId
  iv_createdAt :: millis
  iv_updatedAt :: millis
  iv_deletedAt :: "millis option"

definition invitationAlive :: "invitation \<Rightarrow> bool" where
  "invitationAlive iv \<longleftrightarrow> iv_deletedAt iv = None"

definition findInvitationById :: "objectId \<Rightarrow> invitation list \<Rightarrow> invitation option" where
  "findInvitationById i xs = findOne invitationAlive (\<lambda>iv. iv_id iv = i) xs"

definition updateInvitation ::
  "objectId \<Rightarrow> (invitation \<Rightarrow> invitation) \<Rightarrow> invitation list \<Rightarrow> invitation option \<times> invitation list" where
  "updateInvitation i f xs = findOneAndUpdate invitationAlive (\<lambda>iv. iv_id iv = i) f xs"

interpretation invitations: soft_collection iv_id invitationAlive findInvitationById updateInvitation
  by unfold_locales
    (simp_all add: findInvitationById_def findOne_def updateInvitation_def findOneAndUpdate_def)

definition updateInvitationByTokenHash ::
  "string \<Rightarrow> (invitation \<Rightarrow> invitation) \<Rightarrow> invitation list \<Rightarrow> invitation list" where
  "updateInvitationByTokenHash h f xs =
     snd (findOneAndUpdate invitationAlive (\<lambda>iv. iv_tokenHash iv = h) f xs)"

record inviteTokenPayload =
  it_invitationId :: string
  it_email :: string
  it_role :: userRole
  it_organizationId :: string
  it_nonce :: string
  it_exp :: int

definition INVITE_EXPIRY_SECONDS :: int where
  "INVITE_EXPIRY_SECONDS = 48 * 60 * 60"

text \<open>
  \<open>in_sign\<close> is \<open>jwt.sign\<close> of the payload with \<open>type: 'COMPANY_INVITATION'\<close> under \<open>JWT_SECRET\<close>;
  \<open>in_verify\<close> gives the \<open>type\<close> of a payload and the payload read as an invitation's.
\<close>

record inviteEnv =
  in_sign :: "inviteTokenPayload \<Rightarrow> string"
  in_verify :: "int \<Rightarrow> string \<Rightarrow> (string option \<times> inviteTokenPayload) option"
  in_sha256 :: "string \<Rightarrow> string"
  in_hash :: "string \<Rightarrow> string"
  in_uuid :: "nat \<Rightarrow> string"
  in_fresh :: "nat \<Rightarrow> objectId"
  in_now :: millis
  in_mailUp :: bool

record inviteState =
  is_invitations :: "invitation list"
  is_users :: "user list"
  is_orgs :: "organization list"
  is_mails :: "(string \<times> string) list"

definition generateInvitationToken ::
  "inviteEnv \<Rightarrow> nat \<Rightarrow> objectId \<Rightarrow> string \<Rightarrow> userRole \<Rightarrow> objectId \<Rightarrow> string" where
  "generateInvitationToken env k i email role org =
     in_sign env \<lparr>it_invitationId = i, it_email = email, it_role = role, it_organizationId = org,
       it_nonce = in_uuid env k, it_exp = seconds (in_now env) + INVITE_EXPIRY_SECONDS\<rparr>"

definition verifyInvitationToken :: "inviteEnv \<Rightarrow> string \<Rightarrow> inviteTokenPayload result" where
  "verifyInvitationToken env token =
     (case in_verify env (seconds (in_now env)) token of
        None \<Rightarrow> throwApp 401 ''Invalid or expired invitation token'' (ErrorCodes UNAUTHORIZED)
      | Some (ty, p) \<Rightarrow>
          (if ty \<noteq> Some ''COMPANY_INVITATION''
           then throwApp 400 ''Invalid invitation token type'' (ErrorCodes BAD_REQUEST)
           else Inr p))"

section \<open>Inviting\<close>

record invitationInput =
  ii_email :: string
  ii_role :: userRole
  ii_message :: "string option"
  ii_inviterId :: objectId
  ii_inviterRole :: "userRole option"
  ii_organizationId :: objectId

record invitationSent =
  sn_id :: objectId
  sn_token :: string
  sn_email :: string
  sn_expiresAt :: millis

definition allowedByRole :: "userRole option \<Rightarrow> userRole list" where
  "allowedByRole role =
     (if role = Some SUPER_ADMIN then [ADMIN, MANAGER, DRIVER, VIEWER, CUSTOMER]
      else if role = Some ADMIN then [MANAGER, DRIVER, VIEWER, CUSTOMER] else [])"

definition sendInvitation :: "inviteEnv \<Rightarrow> string \<Rightarrow> string \<Rightarrow> inviteState \<Rightarrow> inviteState" where
  "sendInvitation env email token s =
     (if in_mailUp env then s\<lparr>is_mails := is_mails s @ [(email, token)]\<rparr> else s)"

text \<open>\<open>InvitationModel.create\<close>: the token hash is unique over all documents, deleted ones too.\<close>

definition createInvitation :: "invitation \<Rightarrow> inviteState \<Rightarrow> unit result \<times> inviteState" where
  "createInvitation iv s =
     (if iv_tokenHash iv \<in> iv_tokenHash ` set (is_invitations s)
      then (Inl (DuplicateKey (Some ''tokenHash'')), s)
      else (Inr (), s\<lparr>is_invitations := is_invitations s @ [iv]\<rparr>))"

definition newInvitation :: "inviteEnv \<Rightarrow> invitationInput \<Rightarrow> objectId \<Rightarrow> string \<Rightarrow> millis \<Rightarrow> invitation" where
  "newInvitation env input i tokenHash expiresAt =
     \<lparr>iv_id = i, iv_email = ii_email input, iv_role = ii_role input, iv_status = INV_PENDING,
      iv_tokenHash = tokenHash, iv_expiresAt = expiresAt, iv_message = ii_message input,
      iv_invitedBy = ii_inviterId input, iv_organizationId = ii_organizationId input,
      iv_createdAt = in_now env, iv_updatedAt = in_now env, iv_deletedAt = None\<rparr>"

definition createAndSendInvitation ::
  "inviteEnv \<Rightarrow> invitationInput \<Rightarrow> inviteState \<Rightarrow> invitationSent result \<times> inviteState" where
  "createAndSendInvitation env input s =
     (if ii_role input = SUPER_ADMIN
      then (throwApp 400 ''Cannot invite SUPER_ADMIN users'' ''INVALID_ROLE'', s)
      else if ii_role input \<notin> set (allowedByRole (ii_inviterRole input))
      then (throwApp 403 ''Forbidden: insufficient role to invite this role'' (ErrorCodes FORBIDDEN), s)
      else if findUserByEmail (ii_email input) (is_users s) \<noteq> None
      then (throwApp 409 ''Email already in use'' ''EMAIL_TAKEN'', s)
      else if findOne invitationAlive (\<lambda>iv. iv_email iv = ii_email input
              \<and> iv_organizationId iv = ii_organizationId input \<and> iv_status iv = INV_PENDING)
              (is_invitations s) \<noteq> None
      then (throwApp 409 ''Invitation already pending for this email'' ''DUPLICATE_KEY'', s)
      else
        (let i = in_fresh env 0;
             tokenOf = (\<lambda>k j. generateInvitationToken env k j (ii_email input) (ii_role input) (ii_organizationId input));
             tokenHash = in_sha256 env (tokenOf 0 []);
             expiresAt = in_now env + INVITE_EXPIRY_SECONDS * 1000;
             (r, s1) = createInvitation (newInvitation env input i tokenHash expiresAt) s
         in case r of
              Inl e \<Rightarrow> (Inl e, s1)
            | Inr u \<Rightarrow>
                (let finalToken = tokenOf 1 i;
                     s2 = s1\<lparr>is_invitations := updateInvitationByTokenHash tokenHash
                        (\<lambda>iv. iv\<lparr>iv_tokenHash := in_sha256 env finalToken, iv_updatedAt := in_now env\<rparr>)
                        (is_invitations s1)\<rparr>
                 in (Inr \<lparr>sn_id = i, sn_token = finalToken, sn_email = ii_email input, sn_expiresAt = expiresAt\<rparr>,
                     sendInvitation env (ii_email input) finalToken s2))))"

section \<open>Listing, resending, revoking\<close>

record invitationQuery =
  iq_organizationId :: objectId
  iq_limit :: "nat option"
  iq_status :: "invitationStatus option"
  iq_docs :: "invitation list"

definition invitationMatches :: "invitationQuery \<Rightarrow> invitation \<Rightarrow> bool" where
  "invitationMatches q iv \<longleftrightarrow> iv_organizationId iv = iq_organizationId q
     \<and> (case iq_status q of None \<Rightarrow> True | Some st \<Rightarrow> iv_status iv = st) \<and> invitationAlive iv"

text \<open>The page, and the total, which is counted with the cursor in the query.\<close>

definition listOrganizationInvitations ::
  "invitationQuery \<Rightarrow> objectId option \<Rightarrow> invitation cursorPage \<times> nat" where
  "listOrganizationInvitations q cursor =
     (newestPage iv_createdAt iv_id (invitationMatches q) (keep_truthy cursor) (nullish (iq_limit q) 20) (iq_docs q),
      length (filter (\<lambda>iv. invitationMatches q iv \<and> from_cursor iv_id (keep_truthy cursor) iv) (iq_docs q)))"

definition resendInvitation ::
  "inviteEnv \<Rightarrow> objectId \<Rightarrow> objectId \<Rightarrow> inviteState \<Rightarrow> invitationSent result \<times> inviteState" where
  "resendInvitation env i org s =
     (case findInvitationById i (is_invitations s) of
        None \<Rightarrow> (throwApp 404 ''Invitation not found'' (ErrorCodes NOT_FOUND), s)
      | Some iv \<Rightarrow>
          (if iv_organizationId iv \<noteq> org then (throwApp 403 ''Forbidden'' (ErrorCodes FORBIDDEN), s)
           else if iv_status iv \<noteq> INV_PENDING
           then (throwApp 400 (''Cannot resend '' @ invitation_status_str (iv_status iv) @ '' invitation'')
                   (ErrorCodes BAD_REQUEST), s)
           else
             (let newToken = generateInvitationToken env 0 i (iv_email iv) (iv_role iv) (iv_organizationId iv);
                  newExpiresAt = in_now env + INVITE_EXPIRY_SECONDS * 1000;
                  s1 = s\<lparr>is_invitations := updateInvitationByTokenHash (iv_tokenHash iv)
                     (\<lambda>x. x\<lparr>iv_tokenHash := in_sha256 env newToken, iv_expiresAt := newExpiresAt,
                            iv_updatedAt := in_now env\<rparr>) (is_invitations s)\<rparr>
              in (Inr \<lparr>sn_id = iv_id iv, sn_token = newToken, sn_email = iv_email iv, sn_expiresAt = newExpiresAt\<rparr>,
                  sendInvitation env (iv_email iv) newToken s1))))"

definition revokeInvitationById ::
  "inviteEnv \<Rightarrow> objectId \<Rightarrow> objectId \<Rightarrow> inviteState \<Rightarrow> invitation option result \<times> inviteState" where
  "revokeInvitationById env i org s =
     (case findInvitationById i (is_invitations s) of
        None \<Rightarrow> (throwApp 404 ''Invitation not found'' (ErrorCodes NOT_FOUND), s)
      | Some iv \<Rightarrow>
          (if iv_organizationId iv \<noteq> org then (throwApp 403 ''Forbidden'' (ErrorCodes FORBIDDEN), s)
           else (let (r, xs) = updateInvitation i
                   (\<lambda>x. x\<lparr>iv_status := INV_REVOKED, iv_updatedAt := in_now env\<rparr>) (is_invitations s)
                 in (Inr r, s\<lparr>is_invitations := xs\<rparr>))))"

section \<open>The invited person\<close>

record invitationInfo =
  nf_invitationId :: objectId
  nf_email :: string
  nf_role :: userRole
  nf_companyName :: string
  nf_expiresAt :: millis

definition expireInvitation :: "inviteEnv \<Rightarrow> invitation \<Rightarrow> inviteState \<Rightarrow> inviteState" where
  "expireInvitation env iv s = s\<lparr>is_invitations := updateInvitationByTokenHash (iv_tokenHash iv)
     (\<lambda>x. x\<lparr>iv_status := INV_EXPIRED, iv_updatedAt := in_now env\<rparr>) (is_invitations s)\<rparr>"

text \<open>The common start of the two public endpoints: the invitation a token stands for, if it is open.\<close>

definition openInvitation :: "inviteEnv \<Rightarrow> string \<Rightarrow> inviteState \<Rightarrow> invitation result \<times> inviteState" where
  "openInvitation env token s =
     (case verifyInvitationToken env token of
        Inl e \<Rightarrow> (Inl e, s)
      | Inr p \<Rightarrow>
          (case findInvitationById (it_invitationId p) (is_invitations s) of
             None \<Rightarrow> (throwApp 404 ''Invitation not found'' (ErrorCodes NOT_FOUND), s)
           | Some iv \<Rightarrow>
               (if iv_status iv \<noteq> INV_PENDING
                then (throwApp 400 (''Invitation is '' @ invitation_status_str (iv_status iv))
                        (ErrorCodes BAD_REQUEST), s)
                else if in_now env > iv_expiresAt iv
                then (throwApp 400 ''Invitation has expired'' (ErrorCodes BAD_REQUEST), expireInvitation env iv s)
                else (Inr iv, s))))"

definition getInvitationInfo :: "inviteEnv \<Rightarrow> string \<Rightarrow> inviteState \<Rightarrow> invitationInfo result \<times> inviteState" where
  "getInvitationInfo env token s =
     (case openInvitation env token s of
        (Inl e, s1) \<Rightarrow> (Inl e, s1)
      | (Inr iv, s1) \<Rightarrow>
          (Inr \<lparr>nf_invitationId = iv_id iv, nf_email = iv_email iv, nf_role = iv_role iv,
             nf_companyName = nullish (map_option og_name
               (List.find (\<lambda>g. og_id g = iv_organizationId iv \<and> \<not> og_deleted g) (is_orgs s1))) ''Unknown Organization'',
             nf_expiresAt = iv_expiresAt iv\<rparr>, s1))"

definition acceptInvitationWithPassword ::
  "inviteEnv \<Rightarrow> string \<Rightarrow> string \<Rightarrow> string \<Rightarrow> inviteState \<Rightarrow> user result \<times> inviteState" where
  "acceptInvitationWithPassword env token name password s =
     (case openInvitation env token s of
        (Inl e, s1) \<Rightarrow> (Inl e, s1)
      | (Inr iv, s1) \<Rightarrow>
          (if findUserByEmail (iv_email iv) (is_users s1) \<noteq> None
           then (throwApp 409 ''Email already in use'' ''EMAIL_TAKEN'', s1)
           else if iv_email iv \<in> us_email ` set (is_users s1) then (Inl (DuplicateKey (Some ''email'')), s1)
           else
             (let u = \<lparr>us_id = in_fresh env 0, us_email = iv_email iv, us_name = name,
                    us_passwordHash = in_hash env password, us_role = iv_role iv,
                    us_organizationId = Some (iv_organizationId iv), us_walletAddress = None, us_phone = None,
                    us_phoneVerified = False, us_twoFactorSecret = None, us_twoFactorEnabled = False,
                    us_totpSecret = None, us_totpEnabled = False, us_totpBackupCodes = [],
                    us_deletedAt = None, us_createdAt = in_now env\<rparr>
              in (Inr u, s1\<lparr>is_users := is_users s1 @ [u],
                    is_invitations := updateInvitationByTokenHash (iv_tokenHash iv)
                      (\<lambda>x. x\<lparr>iv_status := INV_ACCEPTED, iv_updatedAt := in_now env\<rparr>) (is_invitations s1)\<rparr>))))"

section \<open>Paging through the invitations\<close>

definition invitationFetch :: "invitationQuery \<Rightarrow> objectId option \<Rightarrow> invitation cursorPage" where
  "invitationFetch q c = fst (listOrganizationInvitations q c)"

interpretation invitation_pages: newest_first iv_createdAt iv_id invitationMatches iq_docs
  "\<lambda>q. nullish (iq_limit q) 20" invitationFetch
proof unfold_locales
  fix q and c :: "objectId option" assume "c \<noteq> Some []"
  then have "keep_truthy c = c" by (cases c) auto
  then show "invitationFetch q c
      = newestPage iv_createdAt iv_id (invitationMatches q) c (nullish (iq_limit q) 20) (iq_docs q)"
    by (simp add: invitationFetch_def listOrganizationInvitations_def)
qed

section \<open>An invitation is used once\<close>

text \<open>What the services rely on: tokens verify to what was signed until they expire.\<close>

definition invite_libs_ok :: "inviteEnv \<Rightarrow> bool" where
  "invite_libs_ok env \<longleftrightarrow> (\<forall>p t. in_verify env t (in_sign env p)
     = (if t < it_exp p then Some (Some ''COMPANY_INVITATION'', p) else None))"

definition closed :: "objectId \<Rightarrow> inviteState \<Rightarrow> bool" where
  "closed i s \<longleftrightarrow> (\<exists>iv\<in>set (is_invitations s). iv_id iv = i)
     \<and> (\<forall>iv\<in>set (is_invitations s). iv_id iv = i \<longrightarrow> iv_status iv \<noteq> INV_PENDING)"

text \<open>Everything the module does; a new invitation gets an id that is not in use.\<close>

inductive invite_step :: "inviteState \<Rightarrow> inviteState \<Rightarrow> bool" where
  on_create: "in_fresh env 0 \<notin> iv_id ` set (is_invitations s)
    \<Longrightarrow> invite_step s (snd (createAndSendInvitation env input s))"
| on_resend: "invite_step s (snd (resendInvitation env i org s))"
| on_revoke: "invite_step s (snd (revokeInvitationById env i org s))"
| on_info: "invite_step s (snd (getInvitationInfo env token s))"
| on_accept: "invite_step s (snd (acceptInvitationWithPassword env token name pw s))"

lemma sendInvitation_invitations [simp]: "is_invitations (sendInvitation env e t s) = is_invitations s"
  by (simp add: sendInvitation_def)

lemma closed_sendInvitation [simp]: "closed i (sendInvitation env e t s) = closed i s"
  by (simp add: closed_def)

lemma closed_users [simp]:
  "closed i (s\<lparr>is_users := us, is_invitations := xs\<rparr>) = closed i (s\<lparr>is_invitations := xs\<rparr>)"
  by (simp add: closed_def)

lemma closed_update_first:
  assumes "closed i s" and "\<And>iv. iv_id (f iv) = iv_id iv"
    and "\<And>iv. iv_status iv \<noteq> INV_PENDING \<Longrightarrow> iv_status (f iv) \<noteq> INV_PENDING"
    and "is_invitations s' = snd (update_first P f (is_invitations s))"
  shows "closed i s'"
proof -
  have ids: "map iv_id (is_invitations s') = map iv_id (is_invitations s)"
    unfolding assms(4) using assms(2) by (intro update_first_keys)
  have "iv_id ` set (is_invitations s') = iv_id ` set (is_invitations s)"
    using arg_cong[OF ids, of set] by simp
  moreover have "iv_status x \<noteq> INV_PENDING" if "x \<in> set (is_invitations s')" "iv_id x = i" for x
    using update_first_set[of x P f "is_invitations s"] that assms(1-4) by (auto simp: closed_def)
  ultimately show ?thesis using assms(1) by (auto simp: closed_def image_iff) (metis image_iff)
qed

lemma closed_by_hash:
  assumes "closed i s" and "\<And>iv. iv_id (f iv) = iv_id iv"
    and "\<And>iv. iv_status iv \<noteq> INV_PENDING \<Longrightarrow> iv_status (f iv) \<noteq> INV_PENDING"
    and "is_invitations s' = updateInvitationByTokenHash h f (is_invitations s)"
  shows "closed i s'"
  by (rule closed_update_first[OF assms(1-3)])
    (simp_all add: assms(4) updateInvitationByTokenHash_def findOneAndUpdate_def)

lemma closed_hash_update:
  assumes "closed i s" and "\<And>iv. iv_id (f iv) = iv_id iv"
    and "\<And>iv. iv_status iv \<noteq> INV_PENDING \<Longrightarrow> iv_status (f iv) \<noteq> INV_PENDING"
  shows "closed i (s\<lparr>is_invitations := updateInvitationByTokenHash h f (is_invitations s)\<rparr>)"
  by (rule closed_by_hash[OF assms]) simp_all

lemma closed_first_update:
  assumes "closed i s" and "\<And>iv. iv_id (f iv) = iv_id iv"
    and "\<And>iv. iv_status iv \<noteq> INV_PENDING \<Longrightarrow> iv_status (f iv) \<noteq> INV_PENDING"
  shows "closed i (s\<lparr>is_invitations := snd (update_first P f (is_invitations s))\<rparr>)"
  by (rule closed_update_first[OF assms]) simp_all

lemma closed_same: "closed i s \<Longrightarrow> is_invitations s' = is_invitations s \<Longrightarrow> closed i s'"
  by (simp add: closed_def)

lemma closed_expire: "closed i s \<Longrightarrow> closed i (expireInvitation env iv s)"
  by (rule closed_by_hash[where f = "\<lambda>x. x\<lparr>iv_status := INV_EXPIRED, iv_updatedAt := in_now env\<rparr>"])
    (simp_all add: expireInvitation_def)

lemma openInvitation_state:
  "snd (openInvitation env token s) = s \<or> (\<exists>iv. snd (openInvitation env token s) = expireInvitation env iv s)"
  by (auto simp: openInvitation_def split: sum.split option.split)

lemma closed_open: "closed i s \<Longrightarrow> closed i (snd (openInvitation env token s))"
  using openInvitation_state[of env token s] closed_expire by auto

lemma create_invitations:
  "is_invitations (snd (createAndSendInvitation env input s)) = is_invitations s
   \<or> (\<exists>iv h t. iv_id iv = in_fresh env 0
        \<and> is_invitations (snd (createAndSendInvitation env input s))
          = updateInvitationByTokenHash h (\<lambda>x. x\<lparr>iv_tokenHash := t, iv_updatedAt := in_now env\<rparr>)
              (is_invitations s @ [iv]))"
proof -
  have "iv_id (newInvitation env input i h t) = i" for i h t by (simp add: newInvitation_def)
  then show ?thesis unfolding createAndSendInvitation_def createInvitation_def Let_def by fastforce
qed

lemma closed_step:
  assumes "invite_step s s'" and "closed i s"
  shows "closed i s'"
  using assms(1)
proof cases
  case (on_create env input)
  from create_invitations[of env input s] show ?thesis
  proof
    assume "is_invitations (snd (createAndSendInvitation env input s)) = is_invitations s"
    then show ?thesis unfolding on_create(1) using assms(2) by (rule closed_same[rotated])
  next
    assume "\<exists>iv h t. iv_id iv = in_fresh env 0
      \<and> is_invitations (snd (createAndSendInvitation env input s))
        = updateInvitationByTokenHash h (\<lambda>x. x\<lparr>iv_tokenHash := t, iv_updatedAt := in_now env\<rparr>)
            (is_invitations s @ [iv])"
    then obtain iv h t where iv: "iv_id iv = in_fresh env 0" and e:
      "is_invitations (snd (createAndSendInvitation env input s))
        = updateInvitationByTokenHash h (\<lambda>x. x\<lparr>iv_tokenHash := t, iv_updatedAt := in_now env\<rparr>)
            (is_invitations (s\<lparr>is_invitations := is_invitations s @ [iv]\<rparr>))" by auto
    have "closed i (s\<lparr>is_invitations := is_invitations s @ [iv]\<rparr>)"
      using assms(2) on_create(2) iv by (auto simp: closed_def)
    then show ?thesis unfolding on_create(1) by (rule closed_by_hash[OF _ _ _ e]) simp_all
  qed
next
  case (on_resend env j org)
  show ?thesis unfolding on_resend resendInvitation_def
    using assms(2) by (auto simp: Let_def intro: closed_hash_update split: option.split)
next
  case (on_revoke env j org)
  show ?thesis unfolding on_revoke revokeInvitationById_def updateInvitation_def findOneAndUpdate_def
    using assms(2) by (auto simp: Let_def case_prod_beta intro: closed_first_update split: option.split)
next
  case (on_info env token)
  then show ?thesis using closed_open[OF assms(2), of env token]
    by (auto simp: getInvitationInfo_def split: prod.split sum.split)
next
  case (on_accept env token name pw)
  show ?thesis
  proof (cases "openInvitation env token s")
    case (Pair r s1)
    then have "closed i s1" using closed_open[OF assms(2), of env token] by simp
    then show ?thesis unfolding on_accept acceptInvitationWithPassword_def Pair
      by (auto simp: Let_def intro: closed_hash_update split: sum.split)
  qed
qed

lemma closed_steps: "invite_step\<^sup>*\<^sup>* s s' \<Longrightarrow> closed i s \<Longrightarrow> closed i s'"
  by (induction rule: rtranclp_induct) (auto intro: closed_step)

lemma closed_refused:
  assumes "closed i s" and "verifyInvitationToken env token = Inr p" and "it_invitationId p = i"
  shows "\<exists>e. acceptInvitationWithPassword env token name pw s = (Inl e, s)"
proof (cases "findInvitationById i (is_invitations s)")
  case None
  then show ?thesis using assms by (simp add: acceptInvitationWithPassword_def openInvitation_def throwApp_def)
next
  case (Some iv)
  then have "iv_status iv \<noteq> INV_PENDING"
    using assms(1) invitations.find_sound[OF Some] by (simp add: closed_def)
  then show ?thesis using assms Some
    by (simp add: acceptInvitationWithPassword_def openInvitation_def throwApp_def)
qed

lemma accept_sound:
  assumes "fst (acceptInvitationWithPassword env token name pw s) = Inr u"
  shows "\<exists>p iv. verifyInvitationToken env token = Inr p
     \<and> findInvitationById (it_invitationId p) (is_invitations s) = Some iv
     \<and> iv_status iv = INV_PENDING \<and> in_now env \<le> iv_expiresAt iv
     \<and> us_email u = iv_email iv \<and> us_role u = iv_role iv \<and> us_organizationId u = Some (iv_organizationId iv)
     \<and> us_email u \<notin> us_email ` set (is_users s)
     \<and> is_users (snd (acceptInvitationWithPassword env token name pw s)) = is_users s @ [u]
     \<and> is_invitations (snd (acceptInvitationWithPassword env token name pw s))
       = updateInvitationByTokenHash (iv_tokenHash iv)
           (\<lambda>x. x\<lparr>iv_status := INV_ACCEPTED, iv_updatedAt := in_now env\<rparr>) (is_invitations s)"
  using assms
  by (auto simp: acceptInvitationWithPassword_def openInvitation_def Let_def
      split: sum.splits option.splits if_splits prod.splits)

text \<open>The update by hash hits the document it was read from.\<close>

lemma hash_update_hits:
  assumes "iv \<in> set xs" and "invitationAlive iv" and "distinct (map iv_tokenHash xs)"
  shows "f iv \<in> set (updateInvitationByTokenHash (iv_tokenHash iv) f xs)"
proof -
  let ?P = "\<lambda>x. iv_tokenHash x = iv_tokenHash iv \<and> invitationAlive x"
  have "List.find ?P xs \<noteq> None" unfolding find_Some_iff_ex using assms(1,2) by blast
  then obtain y where "fst (update_first ?P f xs) = Some y" by (auto simp: update_first_fst)
  then obtain x where x: "x \<in> set xs" "?P x" "y = f x" "y \<in> set (snd (update_first ?P f xs))"
    using update_first_hit[of ?P f xs y] by blast
  then have "x = iv" using assms inj_onD[of iv_tokenHash "set xs" x iv] by (auto simp: distinct_map)
  then show ?thesis using x by (simp add: updateInvitationByTokenHash_def findOneAndUpdate_def)
qed

lemma hash_update_ids:
  "(\<And>x. iv_id (f x) = iv_id x) \<Longrightarrow> map iv_id (updateInvitationByTokenHash h f xs) = map iv_id xs"
  unfolding updateInvitationByTokenHash_def findOneAndUpdate_def by (rule update_first_keys) simp

lemma accept_closes:
  assumes "fst (acceptInvitationWithPassword env token name pw s) = Inr u"
    and "verifyInvitationToken env token = Inr p"
    and "distinct (map iv_id (is_invitations s))" and "distinct (map iv_tokenHash (is_invitations s))"
  shows "closed (it_invitationId p) (snd (acceptInvitationWithPassword env token name pw s))"
proof -
  let ?f = "\<lambda>x. x\<lparr>iv_status := INV_ACCEPTED, iv_updatedAt := in_now env\<rparr>"
  let ?s = "snd (acceptInvitationWithPassword env token name pw s)"
  obtain iv where iv: "findInvitationById (it_invitationId p) (is_invitations s) = Some iv"
    and s': "is_invitations ?s = updateInvitationByTokenHash (iv_tokenHash iv) ?f (is_invitations s)"
    using accept_sound[OF assms(1)] assms(2) by auto
  have mem: "iv \<in> set (is_invitations s)" "iv_id iv = it_invitationId p" "invitationAlive iv"
    using invitations.find_sound[OF iv] by auto
  have hit: "?f iv \<in> set (is_invitations ?s)"
    unfolding s' by (rule hash_update_hits[OF mem(1,3) assms(4)])
  have "map iv_id (is_invitations ?s) = map iv_id (is_invitations s)"
    unfolding s' by (rule hash_update_ids) simp
  then have "distinct (map iv_id (is_invitations ?s))" using assms(3) by simp
  then have only: "x = ?f iv" if "x \<in> set (is_invitations ?s)" "iv_id x = it_invitationId p" for x
    using that hit mem(2) inj_onD[of iv_id "set (is_invitations ?s)" x "?f iv"] by (auto simp: distinct_map)
  show ?thesis unfolding closed_def
  proof (intro conjI ballI impI)
    show "\<exists>x\<in>set (is_invitations ?s). iv_id x = it_invitationId p"
      by (rule bexI[OF _ hit]) (simp add: mem(2))
    fix x assume "x \<in> set (is_invitations ?s)" "iv_id x = it_invitationId p"
    then show "iv_status x \<noteq> INV_PENDING" using only[of x] by simp
  qed
qed

section \<open>What the token is good for\<close>

text \<open>Resending does not put the earlier token out of use: no endpoint compares \<open>tokenHash\<close>.\<close>

lemma superseded_token_opens:
  assumes "fst (resendInvitation env i org s) = Inr x" and "verifyInvitationToken env' token = Inr p"
    and "it_invitationId p = i" and "in_now env' \<le> in_now env + INVITE_EXPIRY_SECONDS * 1000"
    and "distinct (map iv_id (is_invitations s))" and "distinct (map iv_tokenHash (is_invitations s))"
  shows "\<exists>iv. openInvitation env' token (snd (resendInvitation env i org s))
      = (Inr iv, snd (resendInvitation env i org s)) \<and> iv_id iv = i"
proof -
  obtain iv t where iv: "findInvitationById i (is_invitations s) = Some iv" "iv_status iv = INV_PENDING"
    and s': "is_invitations (snd (resendInvitation env i org s))
      = updateInvitationByTokenHash (iv_tokenHash iv)
          (\<lambda>x. x\<lparr>iv_tokenHash := t, iv_expiresAt := in_now env + INVITE_EXPIRY_SECONDS * 1000,
                 iv_updatedAt := in_now env\<rparr>) (is_invitations s)"
    using assms(1) by (auto simp: resendInvitation_def Let_def split: option.splits if_splits)
  let ?f = "\<lambda>x. x\<lparr>iv_tokenHash := t, iv_expiresAt := in_now env + INVITE_EXPIRY_SECONDS * 1000,
      iv_updatedAt := in_now env\<rparr>"
  have mem: "iv \<in> set (is_invitations s)" "iv_id iv = i" "invitationAlive iv"
    using invitations.find_sound[OF iv(1)] by auto
  have hit: "?f iv \<in> set (is_invitations (snd (resendInvitation env i org s)))"
    unfolding s' by (rule hash_update_hits[OF mem(1,3) assms(6)])
  moreover have "distinct (map iv_id (is_invitations (snd (resendInvitation env i org s))))"
    unfolding s' using assms(5) by (simp add: hash_update_ids)
  moreover have "invitationAlive (?f iv)" using mem(3) by (simp add: invitationAlive_def)
  ultimately have "findInvitationById i (is_invitations (snd (resendInvitation env i org s))) = Some (?f iv)"
    using invitations.find_complete[of _ "?f iv"] mem(2) by simp
  then show ?thesis using assms(2-4) iv(2) mem(2) by (simp add: openInvitation_def)
qed

text \<open>
  Session tokens are signed with the same secret. Read as a session token's payload, an
  invitation's has a role and an organization, and no \<open>jti\<close> to revoke.
\<close>

definition asTokenPayload :: "inviteTokenPayload \<Rightarrow> claims" where
  "asTokenPayload p = \<lparr>cl_userId = [], cl_role = Some (it_role p), cl_persona = None,
     cl_organizationId = Some (it_organizationId p), cl_organizationType = None, cl_jti = [],
     cl_type = Some ''COMPANY_INVITATION'', cl_iat = it_exp p - INVITE_EXPIRY_SECONDS, cl_exp = it_exp p\<rparr>"

definition same_secret :: "authEnv \<Rightarrow> inviteEnv \<Rightarrow> bool" where
  "same_secret ae ie \<longleftrightarrow> (\<forall>p ign t. ae_verify ae ign t (in_sign ie p)
     = (if ign \<or> t < it_exp p then Some (asTokenPayload p) else None))"

lemma invitation_passes_requireAuth:
  assumes "same_secret ae ie" and "seconds (ae_now ae) < it_exp p"
  shows "requireAuth ae (Some (''Bearer '' @ in_sign ie p)) r = Inr (asTokenPayload p)"
  unfolding requireAuth_bearer verifyToken_def using assms by (simp add: same_secret_def asTokenPayload_def)

lemma created_token:
  assumes "fst (createAndSendInvitation ie input s) = Inr x"
  shows "sn_token x = generateInvitationToken ie 1 (in_fresh ie 0) (ii_email input) (ii_role input) (ii_organizationId input)
     \<and> ii_role input \<in> set (allowedByRole (ii_inviterRole input))"
  using assms by (auto simp: createAndSendInvitation_def createInvitation_def Let_def split: if_splits)

text \<open>A session token, in turn, opens no invitation.\<close>

lemma foreign_token_refused:
  assumes "in_verify env (seconds (in_now env)) token = Some (ty, p)" and "ty \<noteq> Some ''COMPANY_INVITATION''"
  shows "acceptInvitationWithPassword env token name pw s
    = (throwApp 400 ''Invalid invitation token type'' (ErrorCodes BAD_REQUEST), s)"
  using assms by (simp add: acceptInvitationWithPassword_def openInvitation_def verifyInvitationToken_def throwApp_def)

end
