(* ===== verification/Accounts.thy ===== *)
theory Accounts
  imports Invitations
begin

text \<open>
  User administration and organizations (\<open>src/src/modules/users/users.service.ts\<close>, \<open>users.repo.ts\<close>,
  \<open>src/src/modules/organizations/organizations.service.ts\<close> and its repository), on the accounts,
  tokens and collections of \<open>Auth\<close>. \<open>oid\<close> is the driver's cast to an ObjectId; \<open>regex\<close> is
  \<open>new RegExp(pattern, 'i')\<close> with its \<open>test\<close>, \<open>None\<close> when the pattern is not well formed.
\<close>

section \<open>State\<close>

text \<open>The accounts, the audit trail, and the invitation links mailed so far.\<close>

record accounts =
  ac_auth :: authState
  ac_audit :: auditStore
  ac_invites :: "(string \<times> string) list"

text \<open>
  \<open>acEnv_random\<close> is \<open>randomBytes(32)\<close> in hexadecimal. The two functions on invitation tokens are
  \<open>jwt.sign\<close> and \<open>jwt.verify\<close> with the type \<open>USER_INVITATION\<close> on the payload.
\<close>

record userInvite =
  ut_email :: string
  ut_role :: userRole
  ut_organizationId :: string
  ut_invitedBy :: "string option"
  ut_exp :: int

record acEnv =
  acEnv_auth :: authEnv
  acEnv_random :: string
  acEnv_oid :: "string \<Rightarrow> objectId result"
  acEnv_regex :: "string \<Rightarrow> (string \<Rightarrow> bool) option"
  acEnv_signInvite :: "userInvite \<Rightarrow> string"
  acEnv_verifyInvite :: "int \<Rightarrow> string \<Rightarrow> (string option \<times> userInvite) option"
  acEnv_mailUp :: bool
  acEnv_isValidObjectId :: "string \<Rightarrow> bool"
  acEnv_auditUp :: bool
  acEnv_frontendUrl :: string
  acEnv_encode :: "string \<Rightarrow> string"

definition ac_now :: "acEnv \<Rightarrow> millis" where
  "ac_now env = ae_now (acEnv_auth env)"

definition withUsers :: "user list \<Rightarrow> accounts \<Rightarrow> accounts" where
  "withUsers us s = s\<lparr>ac_auth := (ac_auth s)\<lparr>at_users := us\<rparr>\<rparr>"

definition ac_users :: "accounts \<Rightarrow> user list" where
  "ac_users s = at_users (ac_auth s)"

definition withOrgs :: "organization list \<Rightarrow> accounts \<Rightarrow> accounts" where
  "withOrgs gs s = s\<lparr>ac_auth := (ac_auth s)\<lparr>at_orgs := gs\<rparr>\<rparr>"

definition ac_orgs :: "accounts \<Rightarrow> organization list" where
  "ac_orgs s = at_orgs (ac_auth s)"

lemma accounts_simps [simp]:
  "ac_users (withUsers us s) = us" "ac_orgs (withUsers us s) = ac_orgs s"
  "ac_orgs (withOrgs gs s) = gs" "ac_users (withOrgs gs s) = ac_users s"
  "at_redis (ac_auth (withUsers us s)) = at_redis (ac_auth s)"
  "at_redis (ac_auth (withOrgs gs s)) = at_redis (ac_auth s)"
  "at_users (ac_auth s) = ac_users s" "at_orgs (ac_auth s) = ac_orgs s"
  by (simp_all add: ac_users_def ac_orgs_def withUsers_def withOrgs_def)

section \<open>The organizations collection\<close>

definition organizationAlive :: "organization \<Rightarrow> bool" where
  "organizationAlive g \<longleftrightarrow> \<not> og_deleted g"

definition findOrganizationById :: "objectId \<Rightarrow> organization list \<Rightarrow> organization option" where
  "findOrganizationById i gs = findOne organizationAlive (\<lambda>g. og_id g = i) gs"

definition findOrganizationByName :: "string \<Rightarrow> organization list \<Rightarrow> organization option" where
  "findOrganizationByName name gs = findOne organizationAlive (\<lambda>g. og_name g = name) gs"

definition organizationUpdate ::
  "objectId \<Rightarrow> (organization \<Rightarrow> organization) \<Rightarrow> organization list \<Rightarrow> organization option \<times> organization list" where
  "organizationUpdate i f gs = findOneAndUpdate organizationAlive (\<lambda>g. og_id g = i) f gs"

interpretation organizations: soft_collection og_id organizationAlive findOrganizationById organizationUpdate
  by unfold_locales
    (simp_all add: findOrganizationById_def findOne_def organizationUpdate_def findOneAndUpdate_def)

definition listOrganizations :: "organization list \<Rightarrow> organization list" where
  "listOrganizations gs = desc_by og_createdAt (filter organizationAlive gs)"

text \<open>The patch of an organization; an absent key leaves the field alone.\<close>

record organizationPatch =
  op_name :: "string option"
  op_type :: "organizationType option"
  op_settings :: "jval option"

definition patchOrganization :: "organizationPatch \<Rightarrow> organization \<Rightarrow> organization" where
  "patchOrganization p g = g\<lparr>og_name := nullish (op_name p) (og_name g),
     og_type := nullish (op_type p) (og_type g), og_settings := nullish (op_settings p) (og_settings g)\<rparr>"

text \<open>
  \<open>findByIdAndUpdate\<close>: the unique index on the name covers every document but the one updated,
  deleted ones included.
\<close>

definition updateOrganization ::
  "objectId \<Rightarrow> organizationPatch \<Rightarrow> organization list \<Rightarrow> organization option result \<times> organization list" where
  "updateOrganization i p gs =
     (case findOrganizationById i gs of
        None \<Rightarrow> (Inr None, gs)
      | Some g \<Rightarrow>
          (if \<exists>x\<in>set gs. og_id x \<noteq> i \<and> op_name p = Some (og_name x)
           then (Inl (DuplicateKey (Some ''name'')), gs)
           else (let (r, gs') = organizationUpdate i (patchOrganization p) gs in (Inr r, gs'))))"

definition createOrganization ::
  "objectId \<Rightarrow> millis \<Rightarrow> string \<Rightarrow> organizationType \<Rightarrow> jval option \<Rightarrow> organization list
   \<Rightarrow> organization result \<times> organization list" where
  "createOrganization i now name ty settings gs =
     (if name \<in> og_name ` set gs then (Inl (DuplicateKey (Some ''name'')), gs)
      else (let g = \<lparr>og_id = i, og_name = name, og_type = ty, og_settings = nullish settings (JObj []),
                     og_createdAt = now, og_deleted = False\<rparr>
            in (Inr g, gs @ [g])))"

definition deleteOrganization :: "objectId \<Rightarrow> organization list \<Rightarrow> organization option \<times> organization list" where
  "deleteOrganization i gs = organizationUpdate i (\<lambda>g. g\<lparr>og_deleted := True\<rparr>) gs"

section \<open>The organization services\<close>

definition orgNotFound :: "'a result" where
  "orgNotFound = throwApp 404 ''Organization not found'' (ErrorCodes ORGANIZATION_NOT_FOUND)"

definition createOrganizationService ::
  "acEnv \<Rightarrow> string \<Rightarrow> organizationType \<Rightarrow> jval option \<Rightarrow> userRole option \<Rightarrow> accounts
   \<Rightarrow> organization result \<times> accounts" where
  "createOrganizationService env name ty settings callerRole s =
     (if callerRole \<noteq> Some SUPER_ADMIN
      then (throwApp 403 ''Only SUPER_ADMIN can create organizations'' (ErrorCodes FORBIDDEN), s)
      else if findOrganizationByName name (ac_orgs s) \<noteq> None
      then (throwApp 409 ''Organization already exists'' (ErrorCodes DUPLICATE_KEY), s)
      else (let (r, gs) = createOrganization (ae_fresh (acEnv_auth env) 0) (ac_now env) name ty settings (ac_orgs s)
            in (r, withOrgs gs s)))"

definition listOrganizationsService :: "userRole option \<Rightarrow> accounts \<Rightarrow> organization list result" where
  "listOrganizationsService callerRole s =
     (if callerRole \<noteq> Some SUPER_ADMIN
      then throwApp 403 ''Only SUPER_ADMIN can list all organizations'' (ErrorCodes FORBIDDEN)
      else Inr (listOrganizations (ac_orgs s)))"

definition getOrganizationService ::
  "objectId \<Rightarrow> userRole option \<Rightarrow> string option \<Rightarrow> accounts \<Rightarrow> organization result" where
  "getOrganizationService i callerRole callerOrganizationId s =
     (case findOrganizationById i (ac_orgs s) of
        None \<Rightarrow> orgNotFound
      | Some g \<Rightarrow>
          (if callerRole = Some SUPER_ADMIN then Inr g
           else if callerRole = Some ADMIN then
             (if \<not> truthy callerOrganizationId \<or> Some (og_id g) \<noteq> callerOrganizationId
              then throwApp 403 ''Cannot access organization from another organization'' (ErrorCodes FORBIDDEN)
              else Inr g)
           else throwApp 403 ''Forbidden: insufficient role'' (ErrorCodes FORBIDDEN)))"

definition applyOrganizationUpdate ::
  "objectId \<Rightarrow> organizationPatch \<Rightarrow> accounts \<Rightarrow> organization result \<times> accounts" where
  "applyOrganizationUpdate i p s =
     (case updateOrganization i p (ac_orgs s) of
        (Inl e, gs) \<Rightarrow> (Inl e, withOrgs gs s)
      | (Inr None, gs) \<Rightarrow> (orgNotFound, withOrgs gs s)
      | (Inr (Some g), gs) \<Rightarrow> (Inr g, withOrgs gs s))"

definition updateOrganizationService ::
  "objectId \<Rightarrow> organizationPatch \<Rightarrow> userRole option \<Rightarrow> string option \<Rightarrow> accounts
   \<Rightarrow> organization result \<times> accounts" where
  "updateOrganizationService i p callerRole callerOrganizationId s =
     (case findOrganizationById i (ac_orgs s) of
        None \<Rightarrow> (orgNotFound, s)
      | Some g \<Rightarrow>
          (if callerRole = Some SUPER_ADMIN then applyOrganizationUpdate i p s
           else if callerRole = Some ADMIN then
             (if \<not> truthy callerOrganizationId \<or> Some (og_id g) \<noteq> callerOrganizationId
              then (throwApp 403 ''Cannot modify organization from another organization'' (ErrorCodes FORBIDDEN), s)
              else applyOrganizationUpdate i (p\<lparr>op_type := None\<rparr>) s)
           else (throwApp 403 ''Forbidden: insufficient role'' (ErrorCodes FORBIDDEN), s)))"

definition deleteOrganizationService ::
  "objectId \<Rightarrow> userRole option \<Rightarrow> accounts \<Rightarrow> organization result \<times> accounts" where
  "deleteOrganizationService i callerRole s =
     (if callerRole \<noteq> Some SUPER_ADMIN
      then (throwApp 403 ''Only SUPER_ADMIN can delete organizations'' (ErrorCodes FORBIDDEN), s)
      else case findOrganizationById i (ac_orgs s) of
          None \<Rightarrow> (orgNotFound, s)
        | Some g \<Rightarrow>
            (case deleteOrganization i (ac_orgs s) of
               (None, gs) \<Rightarrow> (orgNotFound, withOrgs gs s)
             | (Some d, gs) \<Rightarrow> (Inr d, withOrgs gs s)))"

section \<open>The users collection\<close>

record usersFilter =
  uf_limit :: "nat option"
  uf_cursor :: "string option"
  uf_page :: "int option"
  uf_search :: "string option"
  uf_role :: "userRole option"

text \<open>\<open>select('-passwordHash')\<close>: the field is dropped, which the empty string stands for; every other field stays.\<close>

definition withoutHash :: "user \<Rightarrow> user" where
  "withoutHash u = u\<lparr>us_passwordHash := []\<rparr>"

definition usersQuery :: "objectId \<Rightarrow> (string \<Rightarrow> bool) option \<Rightarrow> userRole option \<Rightarrow> user \<Rightarrow> bool" where
  "usersQuery org search role u \<longleftrightarrow> userAlive u \<and> us_organizationId u = Some org
     \<and> (case search of None \<Rightarrow> True | Some test \<Rightarrow> test (us_name u) \<or> test (us_email u))
     \<and> (case role of None \<Rightarrow> True | Some ro \<Rightarrow> us_role u = ro)"

record usersPage =
  up_data :: "user list"
  up_total :: nat
  up_hasMore :: bool
  up_nextCursor :: "string option"

definition syntaxError :: "'a result" where
  "syntaxError = Inl (PlainError ''Invalid regular expression'')"

text \<open>\<open>search\<close> becomes a regular expression unescaped; a malformed one throws.\<close>

definition searchTest :: "acEnv \<Rightarrow> usersFilter \<Rightarrow> (string \<Rightarrow> bool) option result" where
  "searchTest env f =
     (if truthy (uf_search f)
      then case acEnv_regex env (the (uf_search f)) of None \<Rightarrow> syntaxError | Some test \<Rightarrow> Inr (Some test)
      else Inr None)"

definition cursorOf :: "acEnv \<Rightarrow> string option \<Rightarrow> objectId option result" where
  "cursorOf env c = (if truthy c then map_sum id Some (acEnv_oid env (the c)) else Inr None)"

definition findUsersByOrganizationId :: "acEnv \<Rightarrow> string \<Rightarrow> usersFilter \<Rightarrow> user list \<Rightarrow> usersPage result" where
  "findUsersByOrganizationId env organizationId f us =
     (let limit = nullish (uf_limit f) 20 in
      case acEnv_oid env organizationId of Inl e \<Rightarrow> Inl e | Inr org \<Rightarrow>
      (case searchTest env f of Inl e \<Rightarrow> Inl e | Inr test \<Rightarrow>
       (let P = usersQuery org test (uf_role f); tot = length (filter P us) in
        case uf_page f of
          Some page \<Rightarrow> Inr \<lparr>up_data = map withoutHash (offsetPage (newestMatches us_createdAt us_id P us) page (int limit)),
                           up_total = tot, up_hasMore = False, up_nextCursor = None\<rparr>
        | None \<Rightarrow>
            (case cursorOf env (uf_cursor f) of Inl e \<Rightarrow> Inl e | Inr c \<Rightarrow>
               (let p = newestPage us_createdAt us_id P c limit us
                in Inr \<lparr>up_data = map withoutHash (page_data p), up_total = tot,
                        up_hasMore = hasMore p, up_nextCursor = nextCursor p\<rparr>)))))"

definition listOrganizationUsers ::
  "acEnv \<Rightarrow> string option \<Rightarrow> userRole option \<Rightarrow> usersFilter \<Rightarrow> accounts \<Rightarrow> usersPage result" where
  "listOrganizationUsers env organizationId role f s =
     (if role \<notin> {Some SUPER_ADMIN, Some ADMIN, Some MANAGER}
      then throwApp 403 ''Forbidden: insufficient role'' ''FORBIDDEN''
      else if \<not> truthy organizationId
      then throwApp 403 ''Organization context is required'' ''FORBIDDEN''
      else findUsersByOrganizationId env (the organizationId) f (ac_users s))"

text \<open>\<open>UserModel.create\<close>: the unique index on the email covers deleted accounts too.\<close>

definition createUser :: "user \<Rightarrow> accounts \<Rightarrow> user result \<times> accounts" where
  "createUser u s =
     (if us_email u \<in> us_email ` set (ac_users s) then (Inl (DuplicateKey (Some ''email'')), s)
      else (Inr u, withUsers (ac_users s @ [u]) s))"

section \<open>The user services\<close>

definition emailTaken :: "'a result" where
  "emailTaken = throwApp 409 ''Email already in use'' ''EMAIL_TAKEN''"

definition userNotFound :: "'a result" where
  "userNotFound = throwApp 404 ''User not found'' ''USER_NOT_FOUND''"

text \<open>An account whose hash is that of a random string, until its password is reset.\<close>

definition lockedUser :: "acEnv \<Rightarrow> string \<Rightarrow> string \<Rightarrow> userRole \<Rightarrow> objectId option \<Rightarrow> user" where
  "lockedUser env email name role org =
     newUser (acEnv_auth env) 0 email name (acEnv_random env) role org"

text \<open>The organization id is cast by mongoose when the document is built.\<close>

definition castOptional :: "acEnv \<Rightarrow> string option \<Rightarrow> objectId option result" where
  "castOptional env x = (case x of None \<Rightarrow> Inr None | Some i \<Rightarrow> map_sum id Some (acEnv_oid env i))"

definition createLocked ::
  "acEnv \<Rightarrow> string \<Rightarrow> string \<Rightarrow> userRole option \<Rightarrow> string option \<Rightarrow> accounts \<Rightarrow> user result \<times> accounts" where
  "createLocked env email name role organizationId s =
     (case findUserByEmail email (ac_users s) of
        Some u \<Rightarrow> (emailTaken, s)
      | None \<Rightarrow>
          (case castOptional env organizationId of
             Inl e \<Rightarrow> (Inl e, s)
           | Inr org \<Rightarrow> createUser (lockedUser env email name (nullish role VIEWER) org) s))"

definition registerUser ::
  "acEnv \<Rightarrow> string \<Rightarrow> string \<Rightarrow> userRole option \<Rightarrow> string option \<Rightarrow> accounts \<Rightarrow> user result \<times> accounts" where
  "registerUser env email name role organizationId s =
     (if role = Some SUPER_ADMIN
      then (throwApp 400 ''Cannot create SUPER_ADMIN users via this endpoint'' ''INVALID_ROLE'', s)
      else createLocked env email name role organizationId s)"

definition createTeamMember ::
  "acEnv \<Rightarrow> string \<Rightarrow> string \<Rightarrow> userRole option \<Rightarrow> string \<Rightarrow> accounts \<Rightarrow> user result \<times> accounts" where
  "createTeamMember env email name role callerOrganizationId s =
     createLocked env email name role (Some callerOrganizationId) s"

text \<open>\<open>findByIdAndUpdate(id, { deletedAt: new Date() }, { new: true })\<close>\<close>

definition markDeleted :: "millis \<Rightarrow> objectId \<Rightarrow> accounts \<Rightarrow> user option \<times> accounts" where
  "markDeleted now i s =
     (let (r, us) = findUserAndUpdate i (\<lambda>u. u\<lparr>us_deletedAt := Some now\<rparr>) (ac_users s) in (r, withUsers us s))"

definition deleteUser :: "acEnv \<Rightarrow> string \<Rightarrow> accounts \<Rightarrow> user result \<times> accounts" where
  "deleteUser env i s =
     (case acEnv_oid env i of
        Inl e \<Rightarrow> (Inl e, s)
      | Inr j \<Rightarrow> (case markDeleted (ac_now env) j s of
            (None, s') \<Rightarrow> (userNotFound, s')
          | (Some u, s') \<Rightarrow> (Inr u, s')))"

primrec user_role_str :: "userRole \<Rightarrow> string" where
  "user_role_str SUPER_ADMIN = ''SUPER_ADMIN''"
| "user_role_str ADMIN = ''ADMIN''"
| "user_role_str MANAGER = ''MANAGER''"
| "user_role_str DRIVER = ''DRIVER''"
| "user_role_str VIEWER = ''VIEWER''"
| "user_role_str CUSTOMER = ''CUSTOMER''"

text \<open>\<open>USER_INVITATION\<close> links.\<close>

record invitationLink =
  il_token :: string
  il_inviteLink :: string
  il_expiresInSeconds :: int

definition generateInvitationLink ::
  "acEnv \<Rightarrow> string \<Rightarrow> userRole \<Rightarrow> string \<Rightarrow> userRole option \<Rightarrow> string option \<Rightarrow> accounts
   \<Rightarrow> invitationLink result \<times> accounts" where
  "generateInvitationLink env email role inviterUserId inviterRole organizationId s =
     (if \<not> truthy organizationId then (throwApp 403 ''Organization context is required'' ''FORBIDDEN'', s)
      else if inviterRole = None then (throwApp 403 ''Forbidden: insufficient role'' ''FORBIDDEN'', s)
      else if role = SUPER_ADMIN then (throwApp 400 ''Cannot invite SUPER_ADMIN users'' ''INVALID_ROLE'', s)
      else if role \<notin> set (allowedByRole inviterRole)
      then (throwApp 403 ''Forbidden: insufficient role'' ''FORBIDDEN'', s)
      else if findUserByEmail email (ac_users s) \<noteq> None then (emailTaken, s)
      else
        (let token = acEnv_signInvite env \<lparr>ut_email = email, ut_role = role, ut_organizationId = the organizationId,
               ut_invitedBy = Some inviterUserId, ut_exp = seconds (ac_now env) + INVITE_EXPIRY_SECONDS\<rparr>;
             link = acEnv_frontendUrl env @ ''/signup?token='' @ acEnv_encode env token;
             s1 = (if acEnv_mailUp env then s\<lparr>ac_invites := ac_invites s @ [(email, token)]\<rparr> else s);
             s2 = s1\<lparr>ac_audit := auditLog (acEnv_isValidObjectId env) (acEnv_auditUp env)
               \<lparr>ap_userId = inviterUserId, ap_action = USER_INVITED, ap_resource = None,
                ap_resourceId = inviterUserId, ap_timestamp = ac_now env,
                ap_metadata = [(''invitedEmail'', JStr email), (''role'', JStr (user_role_str role)),
                  (''organizationId'', JStr (the organizationId))]\<rparr> (ac_audit s1)\<rparr>
         in (Inr \<lparr>il_token = token, il_inviteLink = link, il_expiresInSeconds = INVITE_EXPIRY_SECONDS\<rparr>, s2)))"

record invitationView =
  vw_email :: string
  vw_role :: userRole
  vw_organizationId :: string
  vw_invitedBy :: "string option"
  vw_expiresAt :: "string option"

definition verifyUserInvitation :: "acEnv \<Rightarrow> string \<Rightarrow> invitationView result" where
  "verifyUserInvitation env token =
     (case acEnv_verifyInvite env (seconds (ac_now env)) token of
        None \<Rightarrow> throwApp 401 ''Invalid or expired invitation token'' ''UNAUTHORIZED''
      | Some (ty, p) \<Rightarrow>
          (if ty \<noteq> Some ''USER_INVITATION'' then throwApp 401 ''Invalid invitation token'' ''UNAUTHORIZED''
           else if ut_organizationId p = [] \<or> ut_email p = []
           then throwApp 401 ''Invalid invitation token payload'' ''UNAUTHORIZED''
           else Inr \<lparr>vw_email = ut_email p, vw_role = ut_role p, vw_organizationId = ut_organizationId p,
                     vw_invitedBy = keep_truthy (ut_invitedBy p),
                     vw_expiresAt = (if ut_exp p \<noteq> 0 then Some (toISOString (ut_exp p * 1000)) else None)\<rparr>))"

definition acceptInvitation :: "acEnv \<Rightarrow> string \<Rightarrow> string \<Rightarrow> string \<Rightarrow> accounts \<Rightarrow> user result \<times> accounts" where
  "acceptInvitation env token name password s =
     (case verifyUserInvitation env token of
        Inl e \<Rightarrow> (Inl e, s)
      | Inr v \<Rightarrow>
          (if findUserByEmail (vw_email v) (ac_users s) \<noteq> None then (emailTaken, s)
           else case acEnv_oid env (vw_organizationId v) of
               Inl e \<Rightarrow> (Inl e, s)
             | Inr org \<Rightarrow> createUser
                 (newUser (acEnv_auth env) 0 (vw_email v) name password (vw_role v) (Some org)) s))"

definition getCurrentUser :: "objectId \<Rightarrow> accounts \<Rightarrow> user result" where
  "getCurrentUser i s = (case findUserById i (ac_users s) of
     None \<Rightarrow> userNotFound | Some u \<Rightarrow> Inr (withoutHash u))"

record profilePatch =
  pp_fullName :: "string option"
  pp_email :: "string option"
  pp_companyName :: "string option"

text \<open>\<open>document.save()\<close> of the loaded account: the unique index on the email is checked now.\<close>

definition saveProfile :: "objectId \<Rightarrow> user \<Rightarrow> accounts \<Rightarrow> user option result \<times> accounts" where
  "saveProfile i u s =
     (if \<exists>x\<in>set (ac_users s). us_id x \<noteq> i \<and> us_email x = us_email u
      then (Inl (DuplicateKey (Some ''email'')), s)
      else (let us = snd (findUserAndUpdate i (\<lambda>x. x\<lparr>us_email := us_email u, us_name := us_name u\<rparr>) (ac_users s))
            in (Inr (map_option withoutHash (findUserById i us)), withUsers us s)))"

text \<open>The company name is written to the organization before the account is saved.\<close>

definition renameCompany :: "user \<Rightarrow> string option \<Rightarrow> accounts \<Rightarrow> unit result \<times> accounts" where
  "renameCompany u companyName s =
     (case companyName of
        None \<Rightarrow> (Inr (), s)
      | Some n \<Rightarrow>
          (if us_role u \<notin> {ADMIN, SUPER_ADMIN}
           then (throwApp 403 ''Only ADMIN or SUPER_ADMIN can update the organization name'' ''FORBIDDEN'', s)
           else case us_organizationId u of
               None \<Rightarrow> (Inr (), s)
             | Some org \<Rightarrow>
                 (let (r, gs) = updateOrganization org \<lparr>op_name = Some n, op_type = None, op_settings = None\<rparr> (ac_orgs s)
                  in (map_sum id (\<lambda>_. ()) r, withOrgs gs s))))"

definition updateCurrentUser :: "objectId \<Rightarrow> profilePatch \<Rightarrow> accounts \<Rightarrow> user option result \<times> accounts" where
  "updateCurrentUser i p s =
     (case findUserById i (ac_users s) of
        None \<Rightarrow> (userNotFound, s)
      | Some u \<Rightarrow>
          (let moved = truthy (pp_email p) \<and> pp_email p \<noteq> Some (us_email u) in
           if moved \<and> findUserByEmail (the (pp_email p)) (ac_users s) \<noteq> None then (emailTaken, s)
           else
             (let u1 = (if moved then u\<lparr>us_email := the (pp_email p)\<rparr> else u);
                  u2 = u1\<lparr>us_name := nullish (pp_fullName p) (us_name u1)\<rparr>
              in case renameCompany u (pp_companyName p) s of
                   (Inl e, s1) \<Rightarrow> (Inl e, s1)
                 | (Inr _, s1) \<Rightarrow> saveProfile i u2 s1)))"

text \<open>The presented token is blocked for the rest of its life; other tokens of the account are not.\<close>

definition deleteCurrentUser :: "acEnv \<Rightarrow> objectId \<Rightarrow> string \<Rightarrow> accounts \<Rightarrow> user result \<times> accounts" where
  "deleteCurrentUser env i token s =
     (case markDeleted (ac_now env) i s of
        (None, s1) \<Rightarrow> (userNotFound, s1)
      | (Some u, s1) \<Rightarrow>
          (case verifyToken (acEnv_auth env) token of
             None \<Rightarrow> (Inr u, s1)
           | Some payload \<Rightarrow>
               (let ttl = remainingTtl (acEnv_auth env) payload TOKEN_TTL_SECONDS
                in if cl_jti payload \<noteq> [] \<and> ttl > 0
                   then (Inr u, s1\<lparr>ac_auth := (ac_auth s1)\<lparr>at_redis :=
                          snd (blockToken (ac_now env) (cl_jti payload) ttl (at_redis (ac_auth s1)))\<rparr>\<rparr>)
                   else (Inr u, s1))))"

section \<open>Emails and organization names stay unique\<close>

definition wf_accounts :: "accounts \<Rightarrow> bool" where
  "wf_accounts s \<longleftrightarrow> distinct (map us_id (ac_users s)) \<and> distinct (map us_email (ac_users s))
     \<and> distinct (map og_id (ac_orgs s)) \<and> distinct (map og_name (ac_orgs s))"

definition unused_ids :: "acEnv \<Rightarrow> accounts \<Rightarrow> bool" where
  "unused_ids env s \<longleftrightarrow> ae_fresh (acEnv_auth env) 0 \<notin> us_id ` set (ac_users s) \<union> og_id ` set (ac_orgs s)"

text \<open>Everything the two modules do to the accounts; what is created gets an id that is not in use.\<close>

inductive account_step :: "accounts \<Rightarrow> accounts \<Rightarrow> bool" where
  on_register: "unused_ids env s \<Longrightarrow> account_step s (snd (registerUser env email name role org s))"
| on_team: "unused_ids env s \<Longrightarrow> account_step s (snd (createTeamMember env email name role org' s))"
| on_accept: "unused_ids env s \<Longrightarrow> account_step s (snd (acceptInvitation env token name pw s))"
| on_invite: "account_step s (snd (generateInvitationLink env email ro i role org s))"
| on_delete: "account_step s (snd (deleteUser env i s))"
| on_profile: "account_step s (snd (updateCurrentUser i p s))"
| on_leave: "account_step s (snd (deleteCurrentUser env i token s))"
| on_org_create: "unused_ids env s \<Longrightarrow> account_step s (snd (createOrganizationService env name ty settings role s))"
| on_org_update: "account_step s (snd (updateOrganizationService i patch role org s))"
| on_org_delete: "account_step s (snd (deleteOrganizationService i role s))"

text \<open>One document gets a new value of a unique field that no other document has.\<close>

lemma update_first_distinct:
  assumes "distinct (map key xs)" and "distinct (map g xs)" and "\<And>d. g (f d) = v"
    and "\<And>x. x \<in> set xs \<Longrightarrow> key x \<noteq> i \<Longrightarrow> g x \<noteq> v"
  shows "distinct (map g (snd (update_first (\<lambda>d. key d = i \<and> Q d) f xs)))"
  using assms(1,2,4)
proof (induction xs)
  case (Cons x xs)
  have others: "g y \<noteq> v" if "y \<in> set xs" "key y \<noteq> i" for y
    using Cons.prems(3) that by simp
  show ?case
  proof (cases "key x = i \<and> Q x")
    case True
    then have "key y \<noteq> i" if "y \<in> set xs" for y
      using Cons.prems(1) that by (auto simp: image_iff)
    then have "\<forall>y\<in>set xs. g y \<noteq> v" using others by blast
    then show ?thesis using True Cons.prems assms(3) by auto
  next
    case False
    have "g x \<noteq> g y" if y: "y \<in> set (snd (update_first (\<lambda>d. key d = i \<and> Q d) f xs))" for y
      using update_first_set[OF y]
    proof
      assume "y \<in> set xs"
      then show ?thesis using Cons.prems(2) by (auto simp: image_iff)
    next
      assume "\<exists>d\<in>set xs. (key d = i \<and> Q d) \<and> y = f d"
      then obtain d where "d \<in> set xs" "key d = i" "y = f d" by blast
      moreover have "key x \<noteq> i" using Cons.prems(1) calculation by (auto simp: image_iff)
      ultimately show ?thesis using Cons.prems(3)[of x] assms(3) by simp
    qed
    moreover have "distinct (map g (snd (update_first (\<lambda>d. key d = i \<and> Q d) f xs)))"
      using Cons by simp
    ultimately show ?thesis using False by auto
  qed
qed simp

lemma wf_createUser:
  "wf_accounts s \<Longrightarrow> us_id u \<notin> us_id ` set (ac_users s) \<Longrightarrow> wf_accounts (snd (createUser u s))"
  by (auto simp: createUser_def wf_accounts_def)

lemma wf_createLocked:
  "wf_accounts s \<Longrightarrow> unused_ids env s \<Longrightarrow> wf_accounts (snd (createLocked env e n role org s))"
  by (auto simp: createLocked_def unused_ids_def lockedUser_def intro!: wf_createUser split: option.splits sum.splits)

lemma wf_markDeleted: "wf_accounts s \<Longrightarrow> wf_accounts (snd (markDeleted now i s))"
  by (simp add: markDeleted_def wf_accounts_def findUserAndUpdate_def findOneAndUpdate_def case_prod_unfold
      Let_def update_first_keys)

lemma wf_redis [simp]: "wf_accounts (s\<lparr>ac_auth := (ac_auth s)\<lparr>at_redis := r\<rparr>\<rparr>) = wf_accounts s"
  by (simp add: wf_accounts_def ac_users_def ac_orgs_def del: accounts_simps)

lemma updateOrganization_wf:
  assumes "distinct (map og_id gs)" and "distinct (map og_name gs)"
  shows "distinct (map og_id (snd (updateOrganization i p gs))) \<and> distinct (map og_name (snd (updateOrganization i p gs)))"
proof (cases "findOrganizationById i gs = None \<or> (\<exists>x\<in>set gs. og_id x \<noteq> i \<and> op_name p = Some (og_name x))")
  case True
  then show ?thesis using assms by (auto simp: updateOrganization_def split: option.splits)
next
  case False
  have eq: "snd (updateOrganization i p gs)
      = snd (update_first (\<lambda>g. og_id g = i \<and> organizationAlive g) (patchOrganization p) gs)"
    using False by (auto simp: updateOrganization_def organizations.update_spec case_prod_unfold Let_def)
  have "map og_id (snd (updateOrganization i p gs)) = map og_id gs"
    unfolding eq by (rule update_first_keys) (simp add: patchOrganization_def)
  moreover have "distinct (map og_name (snd (updateOrganization i p gs)))"
  proof (cases "op_name p")
    case None
    then have "map og_name (snd (updateOrganization i p gs)) = map og_name gs"
      unfolding eq by (intro update_first_keys) (simp add: patchOrganization_def)
    then show ?thesis using assms by simp
  next
    case (Some n)
    then show ?thesis
      unfolding eq using False assms
      by (intro update_first_distinct[where v = n]) (auto simp: patchOrganization_def)
  qed
  ultimately show ?thesis using assms by simp
qed

lemma wf_withOrgs:
  "wf_accounts s \<Longrightarrow> distinct (map og_id gs) \<and> distinct (map og_name gs) \<Longrightarrow> wf_accounts (withOrgs gs s)"
  by (simp add: wf_accounts_def)

lemma wf_updateOrganization:
  "wf_accounts s \<Longrightarrow> wf_accounts (withOrgs (snd (updateOrganization i p (ac_orgs s))) s)"
  by (intro wf_withOrgs updateOrganization_wf) (simp_all add: wf_accounts_def)

lemma wf_applyOrganizationUpdate: "wf_accounts s \<Longrightarrow> wf_accounts (snd (applyOrganizationUpdate i p s))"
  using wf_updateOrganization[of s i p]
  by (auto simp: applyOrganizationUpdate_def split: prod.splits sum.splits option.splits)

lemma wf_renameCompany: "wf_accounts s \<Longrightarrow> wf_accounts (snd (renameCompany u n s))"
  using wf_updateOrganization[of s]
  by (auto simp: renameCompany_def case_prod_unfold Let_def split: option.splits)

lemma wf_saveProfile:
  assumes "wf_accounts s"
  shows "wf_accounts (snd (saveProfile i u s))"
proof (cases "\<exists>x\<in>set (ac_users s). us_id x \<noteq> i \<and> us_email x = us_email u")
  case True
  then show ?thesis using assms by (simp add: saveProfile_def)
next
  case False
  let ?f = "\<lambda>x. x\<lparr>us_email := us_email u, us_name := us_name u\<rparr>"
  have "distinct (map us_email (snd (update_first (\<lambda>x. us_id x = i \<and> userAlive x) ?f (ac_users s))))"
    using False assms by (intro update_first_distinct[where v = "us_email u"]) (auto simp: wf_accounts_def)
  moreover have "map us_id (snd (update_first (\<lambda>x. us_id x = i \<and> userAlive x) ?f (ac_users s)))
      = map us_id (ac_users s)"
    by (rule update_first_keys) simp
  ultimately show ?thesis
    using False assms by (simp add: saveProfile_def Let_def wf_accounts_def users.update_spec)
qed

lemma wf_invite: "wf_accounts (snd (generateInvitationLink env e ro i role org s)) = wf_accounts s"
  by (simp add: generateInvitationLink_def Let_def wf_accounts_def ac_users_def ac_orgs_def del: accounts_simps)

lemma wf_acceptInvitation:
  "wf_accounts s \<Longrightarrow> unused_ids env s \<Longrightarrow> wf_accounts (snd (acceptInvitation env token n pw s))"
  by (auto simp: acceptInvitation_def unused_ids_def intro!: wf_createUser split: sum.splits)

lemma wf_deleteUser: "wf_accounts s \<Longrightarrow> wf_accounts (snd (deleteUser env i s))"
  using wf_markDeleted[of s]
  by (auto simp: deleteUser_def split: sum.splits prod.splits option.splits) (metis snd_conv)+

lemma wf_updateCurrentUser:
  assumes "wf_accounts s"
  shows "wf_accounts (snd (updateCurrentUser i p s))"
proof -
  have "wf_accounts (snd (case renameCompany u n s of (Inl e, s1) \<Rightarrow> (Inl e, s1) | (Inr _, s1) \<Rightarrow> saveProfile i v s1))"
    for u n v
    using wf_renameCompany[OF assms, of u n]
    by (cases "renameCompany u n s") (auto intro: wf_saveProfile split: sum.splits)
  then show ?thesis using assms by (simp add: updateCurrentUser_def Let_def split: option.splits)
qed

lemma wf_deleteCurrentUser:
  assumes "wf_accounts s"
  shows "wf_accounts (snd (deleteCurrentUser env i token s))"
  using wf_markDeleted[OF assms, of "ac_now env" i]
  by (cases "markDeleted (ac_now env) i s")
    (auto simp: deleteCurrentUser_def Let_def split: option.splits)

lemma wf_organization_services:
  assumes "wf_accounts s"
  shows "unused_ids env s \<Longrightarrow> wf_accounts (snd (createOrganizationService env name ty settings role s))"
    and "wf_accounts (snd (updateOrganizationService i p role org s))"
    and "wf_accounts (snd (deleteOrganizationService i role s))"
proof -
  show "unused_ids env s \<Longrightarrow> wf_accounts (snd (createOrganizationService env name ty settings role s))"
    using assms by (auto simp: createOrganizationService_def createOrganization_def unused_ids_def
        wf_accounts_def Let_def split: prod.splits)
  show "wf_accounts (snd (updateOrganizationService i p role org s))"
    using assms by (auto simp: updateOrganizationService_def intro!: wf_applyOrganizationUpdate split: option.splits)
  have "distinct (map og_id (snd (deleteOrganization i (ac_orgs s))))
      \<and> distinct (map og_name (snd (deleteOrganization i (ac_orgs s))))"
    using assms by (simp add: deleteOrganization_def organizations.update_spec wf_accounts_def update_first_keys)
  from wf_withOrgs[OF assms this] assms show "wf_accounts (snd (deleteOrganizationService i role s))"
    by (auto simp: deleteOrganizationService_def split: option.splits prod.splits)
qed

lemma step_wf: "account_step s s' \<Longrightarrow> wf_accounts s \<Longrightarrow> wf_accounts s'"
proof (induction rule: account_step.induct)
  case (on_register env s email name role org)
  then show ?case by (simp add: registerUser_def wf_createLocked)
next
  case (on_team env s email name role org')
  then show ?case by (simp add: createTeamMember_def wf_createLocked)
qed (simp_all add: wf_invite wf_acceptInvitation wf_deleteUser wf_updateCurrentUser wf_deleteCurrentUser
    wf_organization_services)

lemma run_wf: "account_step\<^sup>*\<^sup>* s s' \<Longrightarrow> wf_accounts s \<Longrightarrow> wf_accounts s'"
  by (induction rule: rtranclp_induct) (auto intro: step_wf)

section \<open>Who may change an organization\<close>

lemma withOrgs_same [simp]: "withOrgs (ac_orgs s) s = s"
  by (simp add: withOrgs_def ac_orgs_def del: accounts_simps)

lemma updateOrganization_refused:
  "fst (updateOrganization i p gs) = Inl e \<or> fst (updateOrganization i p gs) = Inr None
   \<Longrightarrow> snd (updateOrganization i p gs) = gs"
  by (auto simp: updateOrganization_def organizations.update_result organizations.update_missing Let_def
      case_prod_unfold split: option.splits if_splits)

lemma updateOrganization_ok:
  assumes "fst (updateOrganization i p gs) = Inr (Some g')"
  shows "\<exists>g. findOrganizationById i gs = Some g \<and> g' = patchOrganization p g
     \<and> findOrganizationById i (snd (updateOrganization i p gs)) = Some g'
     \<and> (\<forall>j. j \<noteq> i \<longrightarrow> findOrganizationById j (snd (updateOrganization i p gs)) = findOrganizationById j gs)"
proof -
  obtain g where g: "findOrganizationById i gs = Some g"
    using assms by (auto simp: updateOrganization_def split: option.splits)
  have "snd (updateOrganization i p gs) = snd (organizationUpdate i (patchOrganization p) gs)"
    and g': "g' = patchOrganization p g"
    using assms g
    by (auto simp: updateOrganization_def organizations.update_result Let_def case_prod_unfold split: if_splits)
  moreover have "organizationAlive (patchOrganization p g)" "og_id (patchOrganization p g) = og_id g"
    using organizations.find_sound[OF g] by (auto simp: patchOrganization_def organizationAlive_def)
  ultimately show ?thesis
    using g organizations.read_own_write[OF g, of "patchOrganization p"]
      organizations.write_frame[of "patchOrganization p" _ i gs]
    by (auto simp: patchOrganization_def)
qed

lemma applyOrganizationUpdate_cases:
  "fst (applyOrganizationUpdate i p s) = Inl e \<Longrightarrow> snd (applyOrganizationUpdate i p s) = s"
  "fst (applyOrganizationUpdate i p s) = Inr g' \<Longrightarrow> fst (updateOrganization i p (ac_orgs s)) = Inr (Some g')
     \<and> snd (applyOrganizationUpdate i p s) = withOrgs (snd (updateOrganization i p (ac_orgs s))) s"
  using updateOrganization_refused[of i p "ac_orgs s"]
  by (auto simp: applyOrganizationUpdate_def orgNotFound_def throwApp_def split: prod.splits sum.splits option.splits)

lemma organization_update_refused:
  "fst (updateOrganizationService i p role org s) = Inl e \<Longrightarrow> snd (updateOrganizationService i p role org s) = s"
  by (auto simp: updateOrganizationService_def intro: applyOrganizationUpdate_cases(1)
      split: option.splits if_splits)

text \<open>
  An update that goes through is the platform administrator's, or an administrator's of that very
  organization, who cannot change its type; nothing but that organization changes.
\<close>

lemma organization_update_guard:
  assumes "fst (updateOrganizationService i p role org s) = Inr g'"
  shows "(role = Some SUPER_ADMIN \<or> role = Some ADMIN \<and> org = Some i
       \<and> Some (og_type g') = map_option og_type (findOrganizationById i (ac_orgs s)))
     \<and> findOrganizationById i (ac_orgs (snd (updateOrganizationService i p role org s))) = Some g'
     \<and> (\<forall>j. j \<noteq> i \<longrightarrow> findOrganizationById j (ac_orgs (snd (updateOrganizationService i p role org s)))
          = findOrganizationById j (ac_orgs s))
     \<and> ac_users (snd (updateOrganizationService i p role org s)) = ac_users s"
proof -
  obtain g where g: "findOrganizationById i (ac_orgs s) = Some g"
    using assms by (auto simp: updateOrganizationService_def orgNotFound_def throwApp_def split: option.splits)
  have id: "og_id g = i" using organizations.find_sound[OF g] by simp
  define q where "q = (if role = Some SUPER_ADMIN then p else p\<lparr>op_type := None\<rparr>)"
  have eq: "updateOrganizationService i p role org s = applyOrganizationUpdate i q s"
    and guard: "role = Some SUPER_ADMIN \<or> role = Some ADMIN \<and> org = Some i"
    using assms g id
    by (auto simp: updateOrganizationService_def q_def throwApp_def split: if_splits)
  note a = applyOrganizationUpdate_cases(2)[OF assms[unfolded eq]]
  obtain h where h: "findOrganizationById i (ac_orgs s) = Some h" "g' = patchOrganization q h"
    "findOrganizationById i (snd (updateOrganization i q (ac_orgs s))) = Some g'"
    "\<And>j. j \<noteq> i \<Longrightarrow> findOrganizationById j (snd (updateOrganization i q (ac_orgs s))) = findOrganizationById j (ac_orgs s)"
    using updateOrganization_ok[OF conjunct1[OF a]] by blast
  have "role = Some ADMIN \<Longrightarrow> og_type g' = og_type h"
    unfolding h(2) by (simp add: q_def patchOrganization_def)
  then show ?thesis using guard h a by (auto simp: eq)
qed

lemma organization_admin_only:
  "fst (createOrganizationService env name ty settings role s) = Inr g \<Longrightarrow> role = Some SUPER_ADMIN"
  "fst (deleteOrganizationService i role s) = Inr g \<Longrightarrow> role = Some SUPER_ADMIN"
  "listOrganizationsService role s = Inr gs \<Longrightarrow> role = Some SUPER_ADMIN"
  "getOrganizationService i role org s = Inr g
     \<Longrightarrow> (role = Some SUPER_ADMIN \<or> role = Some ADMIN \<and> org = Some i) \<and> findOrganizationById i (ac_orgs s) = Some g"
  using organizations.find_sound[of i "ac_orgs s"]
  by (auto simp: createOrganizationService_def deleteOrganizationService_def listOrganizationsService_def
      getOrganizationService_def orgNotFound_def throwApp_def split: if_splits option.splits)

section \<open>Deleted accounts\<close>

text \<open>\<open>DELETE /api/users/:id\<close> behind its guards.\<close>

definition deleteUserRoute :: "acEnv \<Rightarrow> string option \<Rightarrow> string \<Rightarrow> accounts \<Rightarrow> user result \<times> accounts" where
  "deleteUserRoute env authHeader i s =
     (case requireAuth (acEnv_auth env) authHeader (at_redis (ac_auth s)) of
        Inl e \<Rightarrow> (Inl e, s)
      | Inr c \<Rightarrow> (case requireRole [ADMIN, SUPER_ADMIN] (Some c) of
            Inl e \<Rightarrow> (Inl e, s)
          | Inr _ \<Rightarrow> deleteUser env i s))"

lemma markDeleted_conv:
  "markDeleted now i s = (map_option (\<lambda>u. u\<lparr>us_deletedAt := Some now\<rparr>) (findUserById i (ac_users s)),
     withUsers (snd (findUserAndUpdate i (\<lambda>u. u\<lparr>us_deletedAt := Some now\<rparr>) (ac_users s))) s)"
  by (simp add: markDeleted_def Let_def case_prod_unfold users.update_result)

lemma update_first_same_key:
  assumes "distinct (map g xs)" and "List.find P xs = Some d" and "\<And>x. g (f x) = g x"
    and "y \<in> set (snd (update_first P f xs))" and "g y = g d"
  shows "y = f d"
proof -
  have "map g (snd (update_first P f xs)) = map g xs" using assms(3) by (rule update_first_keys)
  then have inj: "inj_on g (set (snd (update_first P f xs)))"
    using assms(1) by (metis distinct_map)
  have "f d \<in> set (snd (update_first P f xs))"
    using update_first_hit[of P f xs "f d"] assms(2) by (simp add: update_first_fst)
  then show ?thesis using inj_onD[OF inj, of y "f d"] assms(3-5) by simp
qed

lemma deleted_account:
  assumes "wf_accounts s" and "findUserById i (ac_users s) = Some u"
    and "s' = snd (markDeleted now i s)"
  shows "findUserById i (ac_users s') = None" and "findUserByEmail (us_email u) (ac_users s') = None"
    and "us_email u \<in> us_email ` set (ac_users s')" and "at_redis (ac_auth s') = at_redis (ac_auth s)"
proof -
  let ?f = "\<lambda>u. u\<lparr>us_deletedAt := Some now\<rparr>" and ?P = "\<lambda>u. us_id u = i \<and> userAlive u"
  have ids: "distinct (map us_id (ac_users s))" and emails: "distinct (map us_email (ac_users s))"
    using assms(1) by (simp_all add: wf_accounts_def)
  have u: "u \<in> set (ac_users s)" "?P u" using users.find_sound[OF assms(2)] by auto
  have s': "ac_users s' = snd (update_first ?P ?f (ac_users s))"
    by (simp add: assms(3) markDeleted_conv users.update_spec)
  show "findUserById i (ac_users s') = None"
    using users.deleted_is_gone[OF ids, of ?f i] by (simp add: s' users.update_spec userAlive_def)
  have "List.find ?P (ac_users s) = Some u" using assms(2) by (simp add: users.find_spec)
  then have "\<not> userAlive y" if "y \<in> set (ac_users s')" "us_email y = us_email u" for y
    using that update_first_same_key[OF emails, of ?P u ?f y] by (simp add: s' userAlive_def)
  then show "findUserByEmail (us_email u) (ac_users s') = None"
    unfolding findUserByEmail_def findOne_def find_None_iff by blast
  have "map us_email (ac_users s') = map us_email (ac_users s)"
    unfolding s' by (rule update_first_keys) simp
  then show "us_email u \<in> us_email ` set (ac_users s')"
    using u(1) by (metis image_eqI list.set_map)
  show "at_redis (ac_auth s') = at_redis (ac_auth s)" by (simp add: assms(3) markDeleted_conv)
qed

text \<open>Deleting looks the account up by its id alone: neither its organization nor its role is compared.\<close>

lemma deleteUser_any:
  "acEnv_oid env i = Inr j \<Longrightarrow> findUserById j (ac_users s) = Some u
   \<Longrightarrow> deleteUser env i s = (Inr (u\<lparr>us_deletedAt := Some (ac_now env)\<rparr>), snd (markDeleted (ac_now env) j s))"
  by (simp add: deleteUser_def markDeleted_conv)

lemma deleteUserRoute_guard:
  assumes "fst (deleteUserRoute env h i s) = Inr u"
  shows "\<exists>c. requireAuth (acEnv_auth env) h (at_redis (ac_auth s)) = Inr c \<and> cl_role c \<in> {Some ADMIN, Some SUPER_ADMIN}"
  using assms requireRole_sound[of "[ADMIN, SUPER_ADMIN]"]
  by (auto simp: deleteUserRoute_def split: sum.splits)

lemma deleteUserRoute_passes:
  "requireAuth (acEnv_auth env) h (at_redis (ac_auth s)) = Inr c \<Longrightarrow> cl_role c = Some ADMIN
   \<Longrightarrow> deleteUserRoute env h i s = deleteUser env i s"
  by (simp add: deleteUserRoute_def requireRole_def)

lemma createLocked_deleted_email:
  "findUserByEmail email (ac_users s) = None \<Longrightarrow> email \<in> us_email ` set (ac_users s)
   \<Longrightarrow> \<exists>e. createLocked env email name role org s = (Inl e, s)"
  by (auto simp: createLocked_def createUser_def lockedUser_def castOptional_def split: sum.splits option.splits)

lemma login_unknown: "findUserByEmail email (at_users a) = None
   \<Longrightarrow> login env email pw cx a = (throwApp 401 ''Invalid credentials'' ''INVALID_CREDENTIALS'', a)"
  by (simp add: login_def)

lemma refresh_unknown:
  assumes "libs_ok env" and "findUserById (cl_userId c) (at_users a) = None"
  shows "\<exists>e. refreshToken env (ae_sign env c) a = (Inl e, a)"
proof -
  have "ae_verify env True (seconds (ae_now env)) (ae_sign env c) = Some c"
    using assms(1) by (simp add: libs_ok_def)
  then show ?thesis using assms(2) by (simp add: refreshToken_def Let_def throwApp_def)
qed

section \<open>Team members\<close>

text \<open>\<open>POST /api/users/team\<close> behind its guards.\<close>

definition createTeamMemberRoute ::
  "acEnv \<Rightarrow> string option \<Rightarrow> string \<Rightarrow> string \<Rightarrow> userRole option \<Rightarrow> accounts \<Rightarrow> user result \<times> accounts" where
  "createTeamMemberRoute env authHeader email name role s =
     (case requireAuth (acEnv_auth env) authHeader (at_redis (ac_auth s)) of
        Inl e \<Rightarrow> (Inl e, s)
      | Inr c \<Rightarrow> (case requireRole [ADMIN, SUPER_ADMIN] (Some c) of
            Inl e \<Rightarrow> (Inl e, s)
          | Inr _ \<Rightarrow> createTeamMember env email name role (nullish (cl_organizationId c) []) s))"

lemma createLocked_ok:
  assumes "fst (createLocked env email name role org s) = Inr u"
  shows "\<exists>o'. castOptional env org = Inr o' \<and> u = lockedUser env email name (nullish role VIEWER) o'
     \<and> snd (createLocked env email name role org s) = withUsers (ac_users s @ [u]) s
     \<and> email \<notin> us_email ` set (ac_users s)"
  using assms
  by (auto simp: createLocked_def createUser_def lockedUser_def emailTaken_def throwApp_def
      split: option.splits sum.splits if_splits)

text \<open>The other endpoint that creates accounts refuses the top role.\<close>

lemma registerUser_role:
  "fst (registerUser env email name role org s) = Inr u \<Longrightarrow> us_role u \<noteq> SUPER_ADMIN"
  using createLocked_ok[of env email name role org s u]
  by (cases role) (auto simp: registerUser_def lockedUser_def throwApp_def split: if_splits)

lemma createTeamMember_role:
  assumes "findUserByEmail email (ac_users s) = None" and "email \<notin> us_email ` set (ac_users s)"
    and "acEnv_oid env org = Inr o'"
  shows "createTeamMember env email name (Some role) org s
    = (Inr (lockedUser env email name role (Some o')), withUsers (ac_users s @ [lockedUser env email name role (Some o')]) s)"
  using assms by (simp add: createTeamMember_def createLocked_def castOptional_def createUser_def lockedUser_def)

lemma find_by_id_new:
  "us_id u \<notin> us_id ` set us \<Longrightarrow> userAlive u \<Longrightarrow> findUserById (us_id u) (us @ [u]) = Some u"
  unfolding findUserById_def findOne_def by (induction us) auto

lemma update_by_id_new:
  assumes "us_id u \<notin> us_id ` set us" and "userAlive u"
  shows "snd (findUserAndUpdate (us_id u) f (us @ [u])) = us @ [f u]"
proof -
  have "snd (update_first (\<lambda>x. us_id x = us_id u \<and> userAlive x) f (us @ [u])) = us @ [f u]"
    using assms by (induction us) auto
  then show ?thesis by (simp add: users.update_spec)
qed

text \<open>
  Whoever can read the mail of a fresh account takes it over: the reset token that is mailed on
  request sets the password, and the login then carries the role the account was created with.
\<close>

lemma claim_new_account:
  assumes libs: "libs_ok env"
    and new: "us_id u \<notin> us_id ` set us" "us_email u \<notin> us_email ` set us" "userAlive u"
    and a: "at_users a = us @ [u]"
    and mail: "a1 = forgotPassword env True (us_email u) a"
    and reset: "a2 = snd (resetPassword env (snd (last (at_mails a1))) pw a1)"
  shows "\<exists>u' token c. fst (login env (us_email u) pw cx a2) = Inr (u', token)
     \<and> verifyToken env token = Some c \<and> cl_role c = Some (us_role u)"
proof -
  let ?f = "\<lambda>x. x\<lparr>us_passwordHash := ae_hash env pw\<rparr>" and ?c = "resetClaims env u"
  have "findUserByEmail (us_email u) (at_users a) = Some u"
    unfolding a by (rule find_email_new[OF new(2,3)])
  then have a1: "a1 = a\<lparr>at_mails := at_mails a @ [(us_email u, ae_sign env ?c)]\<rparr>"
    by (simp add: mail forgotPassword_def)
  have found: "findUserById (us_id u) (at_users a1) = Some u"
    by (simp add: a1 a find_by_id_new[OF new(1,3)])
  have same: "at_time (ae_now env) env = env" by (simp add: at_time_def)
  have v: "ae_verify env False (seconds (ae_now env)) (ae_sign env ?c) = Some ?c"
    using libs by (simp add: libs_ok_def)
  have "at_users a2 = at_users (saveUser (us_id u) ?f a1)"
    using found by (simp add: reset a1 resetPassword_def v Let_def case_prod_unfold)
  also have "\<dots> = us @ [?f u]" by (simp add: saveUser_def a1 a update_by_id_new[OF new(1,3)])
  finally have users: "at_users a2 = us @ [?f u]" .
  have "findUserByEmail (us_email u) (at_users a2) = Some (?f u)"
    unfolding users using find_email_new[of "?f u" us] new(2,3) by (simp add: userAlive_def)
  moreover have "ae_compare env pw (us_passwordHash (?f u))" using libs by (simp add: libs_ok_def)
  ultimately have "fst (login env (us_email u) pw cx a2)
      = Inr (?f u, fst (generateToken env (?f u) (organizationTypeOf (us_organizationId (?f u)) (at_orgs a2))))"
    by (rule login_matching)
  then show ?thesis
    using fresh_token_verifies[OF libs] by (fastforce simp: tokenClaims_def)
qed

section \<open>Listing the users of an organization\<close>

lemma newestPage_mem:
  "x \<in> set (page_data (newestPage created ident P c l xs)) \<Longrightarrow> x \<in> set xs \<and> P x"
  by (auto simp: newestPage_def paginateCursor_data dest!: in_set_takeD)

lemma offsetPage_mem: "x \<in> set (offsetPage xs page limit) \<Longrightarrow> x \<in> set xs"
  by (auto simp: offsetPage_def dest!: in_set_takeD in_set_dropD)

text \<open>
  A page holds live accounts of the caller's organization without their password hashes; every other
  field of an account is in the response, the second-factor secret and the backup codes included.
\<close>

lemma listed_users:
  assumes "listOrganizationUsers env org role f s = Inr p"
  shows "role \<in> {Some SUPER_ADMIN, Some ADMIN, Some MANAGER}
     \<and> (\<exists>o'. acEnv_oid env (the org) = Inr o'
         \<and> (\<forall>u\<in>set (up_data p). us_organizationId u = Some o' \<and> us_passwordHash u = []
              \<and> (\<exists>v\<in>set (ac_users s). userAlive v \<and> u = withoutHash v)))"
proof -
  have page: "findUsersByOrganizationId env (the org) f (ac_users s) = Inr p"
    and role: "role \<in> {Some SUPER_ADMIN, Some ADMIN, Some MANAGER}"
    using assms by (auto simp: listOrganizationUsers_def throwApp_def split: if_splits)
  obtain o' where o': "acEnv_oid env (the org) = Inr o'"
    using page by (cases "acEnv_oid env (the org)") (simp_all add: findUsersByOrganizationId_def Let_def)
  obtain test where test: "searchTest env f = Inr test"
    using page by (cases "searchTest env f") (simp_all add: findUsersByOrganizationId_def Let_def o')
  let ?P = "usersQuery o' test (uf_role f)"
  have mem: "\<exists>v\<in>set (ac_users s). ?P v \<and> u = withoutHash v" if u: "u \<in> set (up_data p)" for u
  proof (cases "uf_page f")
    case None
    obtain c where "cursorOf env (uf_cursor f) = Inr c"
      using page by (cases "cursorOf env (uf_cursor f)")
        (simp_all add: findUsersByOrganizationId_def Let_def o' test None)
    then have "up_data p = map withoutHash (page_data (newestPage us_createdAt us_id ?P c (nullish (uf_limit f) 20) (ac_users s)))"
      using page by (auto simp: findUsersByOrganizationId_def Let_def o' test None)
    then show ?thesis using u by (auto dest!: newestPage_mem)
  next
    case (Some n)
    then have "up_data p = map withoutHash (offsetPage (newestMatches us_createdAt us_id ?P (ac_users s)) n
        (int (nullish (uf_limit f) 20)))"
      using page by (auto simp: findUsersByOrganizationId_def Let_def o' test)
    then show ?thesis using u by (auto simp: newestMatches_def dest!: offsetPage_mem)
  qed
  have "us_organizationId u = Some o' \<and> us_passwordHash u = []
      \<and> (\<exists>v\<in>set (ac_users s). userAlive v \<and> u = withoutHash v)" if "u \<in> set (up_data p)" for u
    using mem[OF that]
    by (auto simp: usersQuery_def withoutHash_def)
  then show ?thesis using o' role by blast
qed

lemma email_free: "email \<notin> us_email ` set us \<Longrightarrow> findUserByEmail email us = None"
  by (auto simp: findUserByEmail_def findOne_def find_None_iff)

text \<open>The route of an administrator creates whatever role it is asked for.\<close>

lemma createTeamMemberRoute_creates:
  assumes "requireAuth (acEnv_auth env) h (at_redis (ac_auth s)) = Inr c" and "cl_role c = Some ADMIN"
    and "acEnv_oid env (nullish (cl_organizationId c) []) = Inr org" and "email \<notin> us_email ` set (ac_users s)"
  shows "createTeamMemberRoute env h email name (Some role) s
    = (Inr (lockedUser env email name role (Some org)), withUsers (ac_users s @ [lockedUser env email name role (Some org)]) s)"
  using assms createTeamMember_role[OF email_free[OF assms(4)] assms(4,3)]
  by (simp add: createTeamMemberRoute_def requireRole_def)

lemma lockedUser_simps [simp]:
  "us_role (lockedUser env e n role org) = role" "us_email (lockedUser env e n role org) = e"
  "us_id (lockedUser env e n role org) = ae_fresh (acEnv_auth env) 0" "userAlive (lockedUser env e n role org)"
  by (simp_all add: lockedUser_def)

lemma team_member_claims:
  assumes "libs_ok (acEnv_auth env)" and "requireAuth (acEnv_auth env) h (at_redis (ac_auth s)) = Inr c"
    and "cl_role c = Some ADMIN" and "acEnv_oid env (nullish (cl_organizationId c) []) = Inr org"
    and "email \<notin> us_email ` set (ac_users s)" and "unused_ids env s"
    and "a1 = forgotPassword (acEnv_auth env) True email (ac_auth (snd (createTeamMemberRoute env h email name (Some role) s)))"
    and "a2 = snd (resetPassword (acEnv_auth env) (snd (last (at_mails a1))) pw a1)"
  shows "\<exists>u token c'. fst (login (acEnv_auth env) email pw cx a2) = Inr (u, token)
     \<and> verifyToken (acEnv_auth env) token = Some c' \<and> cl_role c' = Some role"
proof -
  let ?u = "lockedUser env email name role (Some org)"
  note route = createTeamMemberRoute_creates[OF assms(2-5), of name role]
  have "at_users (ac_auth (snd (createTeamMemberRoute env h email name (Some role) s))) = ac_users s @ [?u]"
    by (simp add: route)
  from claim_new_account[OF assms(1) _ _ _ this, of a1 a2 pw cx] show ?thesis
    using assms(5-8) by (simp add: unused_ids_def)
qed

end
