(* ===== verification/Account_Http.thy ===== *)
theory Account_Http
  imports Auth_Http Accounts
begin

text \<open>
  The HTTP interfaces of users, organizations and company invitations: routes, schemas and controllers
  of \<open>src/src/modules/users\<close>, \<open>src/src/modules/organizations\<close> and \<open>src/src/modules/invitations\<close>. A
  user document is sent without its password hash (\<open>toJSON\<close> of the model) and with all other fields.
\<close>

section \<open>Schemas\<close>

definition roleEnum :: "userRole schema" where
  "roleEnum = zEnum user_role_str [SUPER_ADMIN, ADMIN, MANAGER, DRIVER, VIEWER, CUSTOMER]"

definition CreateUserBodySchema :: "(string \<Rightarrow> bool) \<Rightarrow> (string \<times> string \<times> userRole) schema" where
  "CreateUserBodySchema isEmail = zObject (\<lambda>field.
     Option.bind (zEmail isEmail (field ''email'')) (\<lambda>email.
     Option.bind (zMin 1 zString (field ''name'')) (\<lambda>name.
     Option.bind (zDefault VIEWER roleEnum (field ''role'')) (\<lambda>role. Some (email, name, role)))))"

definition InviteUserBodySchema :: "(string \<Rightarrow> bool) \<Rightarrow> (string \<times> userRole) schema" where
  "InviteUserBodySchema isEmail = zObject (\<lambda>field.
     Option.bind (zEmail isEmail (field ''email'')) (\<lambda>email.
     Option.bind (roleEnum (field ''role'')) (\<lambda>role. Some (email, role))))"

definition VerifyInvitationQuerySchema :: "string schema" where
  "VerifyInvitationQuerySchema = zObject (\<lambda>field. trimmedId (field ''token''))"

definition AcceptUserInvitationBodySchema :: "(string \<times> string \<times> string) schema" where
  "AcceptUserInvitationBodySchema = zObject (\<lambda>field.
     Option.bind (trimmedId (field ''token'')) (\<lambda>token.
     Option.bind (trimmedId (field ''name'')) (\<lambda>name.
     Option.bind (zPassword (field ''password'')) (\<lambda>password. Some (token, name, password)))))"

definition ListUsersQuerySchema :: "conversions \<Rightarrow> usersFilter schema" where
  "ListUsersQuerySchema cv = zStrict [''limit'', ''cursor'', ''page'', ''search'', ''role''] (zObject (\<lambda>field.
     Option.bind (zDefault 20 (intRange 1 100 (cv_number cv)) (field ''limit'')) (\<lambda>limit.
     Option.bind (zOptional (zTrim zString) (field ''cursor'')) (\<lambda>cursor.
     Option.bind (zOptional (zInt (zAtLeast 1 (cv_number cv))) (field ''page'')) (\<lambda>page.
     Option.bind (zOptional (zTrim zString) (field ''search'')) (\<lambda>search.
     Option.bind (zOptional roleEnum (field ''role'')) (\<lambda>role.
       if truthy cursor \<and> page \<noteq> None then None
       else Some \<lparr>uf_limit = Some (nat limit), uf_cursor = cursor, uf_page = page, uf_search = search,
         uf_role = role\<rparr>)))))))"

definition UpdateCurrentUserBodySchema :: "(string \<Rightarrow> bool) \<Rightarrow> profilePatch schema" where
  "UpdateCurrentUserBodySchema isEmail = zObject (\<lambda>field.
     Option.bind (zOptional trimmedId (field ''fullName'')) (\<lambda>fullName.
     Option.bind (zOptional (zEmail isEmail) (field ''email'')) (\<lambda>email.
     Option.bind (zOptional trimmedId (field ''companyName'')) (\<lambda>companyName.
       Some \<lparr>pp_fullName = fullName, pp_email = email, pp_companyName = companyName\<rparr>))))"

definition DeleteUserParamSchema :: "string schema" where
  "DeleteUserParamSchema = zObject (\<lambda>field. trimmedId (field ''id''))"

primrec organization_type_str :: "organizationType \<Rightarrow> string" where
  "organization_type_str ENTERPRISE = ''ENTERPRISE''"
| "organization_type_str LOGISTICS = ''LOGISTICS''"

definition CreateOrganizationBodySchema :: "(string \<times> organizationType \<times> jval option) schema" where
  "CreateOrganizationBodySchema = zObject (\<lambda>field.
     Option.bind (zMin 1 zString (field ''name'')) (\<lambda>name.
     Option.bind (zEnum organization_type_str [ENTERPRISE, LOGISTICS] (field ''type'')) (\<lambda>ty.
     Option.bind (zOptional zRecord (field ''settings'')) (\<lambda>settings. Some (name, ty, settings)))))"

text \<open>The type is not a field of the update's schema, so it is dropped.\<close>

definition UpdateOrganizationBodySchema :: "organizationPatch schema" where
  "UpdateOrganizationBodySchema = zObject (\<lambda>field.
     Option.bind (zOptional (zMin 1 zString) (field ''name'')) (\<lambda>name.
     Option.bind (zOptional zRecord (field ''settings'')) (\<lambda>settings.
       Some \<lparr>op_name = name, op_type = None, op_settings = settings\<rparr>)))"

definition CreateInvitationBodySchema :: "(string \<Rightarrow> bool) \<Rightarrow> (string \<times> userRole \<times> string option) schema" where
  "CreateInvitationBodySchema isEmail = zObject (\<lambda>field.
     Option.bind (zEmail isEmail (field ''email'')) (\<lambda>email.
     Option.bind (roleEnum (field ''role'')) (\<lambda>role.
     Option.bind (zOptional zString (field ''message'')) (\<lambda>message.
       if role = SUPER_ADMIN then None else Some (email, role, message)))))"

definition ListInvitationsQuerySchema :: "conversions \<Rightarrow> (rat \<times> string option \<times> invitationStatus option) schema" where
  "ListInvitationsQuerySchema cv = zStrict [''limit'', ''cursor'', ''status''] (zObject (\<lambda>field.
     Option.bind (zDefault 20 (zBetween 1 100 (cv_number cv)) (field ''limit'')) (\<lambda>limit.
     Option.bind (zOptional zString (field ''cursor'')) (\<lambda>cursor.
     Option.bind (zOptional (zEnum invitation_status_str [INV_PENDING, INV_ACCEPTED, INV_EXPIRED, INV_REVOKED])
       (field ''status'')) (\<lambda>status. Some (limit, cursor, status))))))"

definition AcceptInvitationBodySchema :: "(string \<times> string \<times> string) schema" where
  "AcceptInvitationBodySchema = zObject (\<lambda>field.
     Option.bind (zMin 1 zString (field ''token'')) (\<lambda>token.
     Option.bind (zMin 1 zString (field ''name'')) (\<lambda>name.
     Option.bind (zPassword (field ''password'')) (\<lambda>password. Some (token, name, password)))))"

definition InvitationInfoQuerySchema :: "string schema" where
  "InvitationInfoQuerySchema = zObject (\<lambda>field. zMin 1 zString (field ''token''))"

section \<open>Handlers of users\<close>

text \<open>
  \<open>uh_env\<close> has the libraries of the module; its tokens are those of the middleware (\<open>userEnv\<close>).
  \<open>toJSON\<close> drops the password hash of a document, which \<open>withoutHash\<close> stands for.
\<close>

record userServer = serverEnv +
  uh_env :: acEnv
  uh_isEmail :: "string \<Rightarrow> bool"

definition userEnv :: "userServer \<Rightarrow> acEnv" where
  "userEnv uh = (uh_env uh)\<lparr>acEnv_auth := hx_auth uh\<rparr>"

datatype userPayload =
    UserDoc user
  | ProfileDoc "user option"
  | UserDocs "user list"
  | InviteLink invitationLink
  | InviteView invitationView

definition replyWith :: "('a \<Rightarrow> 'd reply) \<Rightarrow> 'a result \<times> 'w \<Rightarrow> 'd reply result \<times> 'w" where
  "replyWith k p = (map_sum id k (fst p), snd p)"

lemma replyWith_simps [simp]:
  "snd (replyWith k p) = snd p" "fst (replyWith k p) = map_sum id k (fst p)"
  by (simp_all add: replyWith_def)

definition createUserController ::
  "userServer \<Rightarrow> claims \<Rightarrow> string \<times> string \<times> userRole \<Rightarrow> accounts \<Rightarrow> userPayload reply result \<times> accounts" where
  "createUserController uh user body s =
     replyWith (\<lambda>u. created201 ''User registered successfully'' (UserDoc (withoutHash u)))
       (registerUser (userEnv uh) (fst body) (fst (snd body)) (Some (snd (snd body))) (cl_organizationId user) s)"

definition createTeamMemberController ::
  "userServer \<Rightarrow> claims \<Rightarrow> string \<times> string \<times> userRole \<Rightarrow> accounts \<Rightarrow> userPayload reply result \<times> accounts" where
  "createTeamMemberController uh user body s =
     replyWith (\<lambda>u. created201 ''Team member created successfully'' (UserDoc (withoutHash u)))
       (createTeamMember (userEnv uh) (fst body) (fst (snd body)) (Some (snd (snd body)))
          (nullish (cl_organizationId user) []) s)"

definition deleteUserController :: "userServer \<Rightarrow> string \<Rightarrow> accounts \<Rightarrow> userPayload reply result \<times> accounts" where
  "deleteUserController uh i s =
     replyWith (\<lambda>u. ok200 ''User deleted successfully'' (UserDoc (withoutHash u))) (deleteUser (userEnv uh) i s)"

definition inviteUserController ::
  "userServer \<Rightarrow> claims \<Rightarrow> string \<times> userRole \<Rightarrow> accounts \<Rightarrow> userPayload reply result \<times> accounts" where
  "inviteUserController uh user body s =
     replyWith (\<lambda>l. created201 ''Invitation link generated successfully'' (InviteLink l))
       (generateInvitationLink (userEnv uh) (fst body) (snd body) (cl_userId user) (cl_role user)
          (cl_organizationId user) s)"

definition verifyInvitationController :: "userServer \<Rightarrow> string \<Rightarrow> userPayload reply result" where
  "verifyInvitationController uh token =
     map_sum id (\<lambda>v. ok200 ''Invitation token verified successfully'' (InviteView v))
       (verifyUserInvitation (userEnv uh) token)"

definition acceptUserInvitationController ::
  "userServer \<Rightarrow> string \<times> string \<times> string \<Rightarrow> accounts \<Rightarrow> userPayload reply result \<times> accounts" where
  "acceptUserInvitationController uh body s =
     replyWith (\<lambda>u. created201 ''Invitation accepted successfully'' (UserDoc (withoutHash u)))
       (acceptInvitation (userEnv uh) (fst body) (fst (snd body)) (snd (snd body)) s)"

definition listUsersController ::
  "userServer \<Rightarrow> claims \<Rightarrow> usersFilter \<Rightarrow> accounts \<Rightarrow> userPayload reply result" where
  "listUsersController uh user query s = map_sum id
     (\<lambda>r. Envelope 200 True ''Users retrieved successfully'' (Some (UserDocs (up_data r)))
        (Some (case uf_page query of
             Some page \<Rightarrow> PageMeta page (int (nullish (uf_limit query) 20)) (up_total r)
           | None \<Rightarrow> CursorMeta (up_nextCursor r) (up_hasMore r))))
     (listOrganizationUsers (userEnv uh) (cl_organizationId user) (cl_role user) query s)"

definition getCurrentUserController :: "claims \<Rightarrow> accounts \<Rightarrow> userPayload reply result" where
  "getCurrentUserController user s =
     map_sum id (\<lambda>u. ok200 ''User profile retrieved successfully'' (UserDoc u)) (getCurrentUser (cl_userId user) s)"

definition updateCurrentUserController ::
  "claims \<Rightarrow> profilePatch \<Rightarrow> accounts \<Rightarrow> userPayload reply result \<times> accounts" where
  "updateCurrentUserController user body s =
     replyWith (\<lambda>u. ok200 ''User profile updated successfully'' (ProfileDoc u)) (updateCurrentUser (cl_userId user) body s)"

definition deleteCurrentUserController ::
  "userServer \<Rightarrow> claims \<Rightarrow> request \<Rightarrow> accounts \<Rightarrow> userPayload reply result \<times> accounts" where
  "deleteCurrentUserController uh user rq s =
     (let authHeader = nullish (rq_authorization rq) [];
          token = (if startsWith authHeader ''Bearer '' then drop 7 authHeader else [])
      in replyWith (\<lambda>u. ok200 ''User deleted successfully'' (UserDoc (withoutHash u)))
           (deleteCurrentUser (userEnv uh) (cl_userId user) token s))"

section \<open>Routes of users\<close>

datatype openUserRoute = VerifyInviteRoute | AcceptInviteRoute

datatype userRoute =
    MeRoute | PatchMeRoute | DeleteMeRoute | CreateUserRoute | TeamRoute | InviteUserRoute | ListUsersRoute
  | DeleteUserRoute string

definition userRouteOf :: "httpMethod \<Rightarrow> string list \<Rightarrow> (openUserRoute + userRoute) option" where
  "userRouteOf m path =
     (let p = map toLowerCase path in
      case m of
        GET \<Rightarrow> (if p = [''me''] then Some (Inr MeRoute)
                else if p = [''invitations'', ''verify''] then Some (Inl VerifyInviteRoute)
                else if p = [] then Some (Inr ListUsersRoute) else None)
      | PATCH \<Rightarrow> (if p = [''me''] then Some (Inr PatchMeRoute) else None)
      | POST \<Rightarrow> (if p = [] then Some (Inr CreateUserRoute)
                 else if p = [''team''] then Some (Inr TeamRoute)
                 else if p = [''invitations''] then Some (Inr InviteUserRoute)
                 else if p = [''invitations'', ''accept''] then Some (Inl AcceptInviteRoute) else None)
      | DELETE \<Rightarrow> (if p = [''me''] then Some (Inr DeleteMeRoute)
                   else case path of [i] \<Rightarrow> Some (Inr (DeleteUserRoute i)) | _ \<Rightarrow> None)
      | PUT \<Rightarrow> None)"

primrec userRoles :: "userRoute \<Rightarrow> userRole list option" where
  "userRoles MeRoute = None"
| "userRoles PatchMeRoute = None"
| "userRoles DeleteMeRoute = None"
| "userRoles CreateUserRoute = Some [ADMIN, SUPER_ADMIN]"
| "userRoles TeamRoute = Some [ADMIN, SUPER_ADMIN]"
| "userRoles InviteUserRoute = Some [ADMIN, SUPER_ADMIN]"
| "userRoles ListUsersRoute = Some [ADMIN, MANAGER, SUPER_ADMIN]"
| "userRoles (DeleteUserRoute i) = Some [ADMIN, SUPER_ADMIN]"

primrec openUserServe ::
  "userServer \<Rightarrow> request \<Rightarrow> accounts \<Rightarrow> openUserRoute \<Rightarrow> userPayload reply result \<times> accounts" where
  "openUserServe uh rq s VerifyInviteRoute =
     andThen (queryOf uh (\<lambda>_. VerifyInvitationQuerySchema) rq) s (\<lambda>token. (verifyInvitationController uh token, s))"
| "openUserServe uh rq s AcceptInviteRoute =
     andThen (bodyOf uh AcceptUserInvitationBodySchema rq) s (\<lambda>body. acceptUserInvitationController uh body s)"

primrec userServe ::
  "userServer \<Rightarrow> claims \<Rightarrow> request \<Rightarrow> accounts \<Rightarrow> userRoute \<Rightarrow> userPayload reply result \<times> accounts" where
  "userServe uh user rq s MeRoute = (getCurrentUserController user s, s)"
| "userServe uh user rq s PatchMeRoute =
     andThen (bodyOf uh (UpdateCurrentUserBodySchema (uh_isEmail uh)) rq) s (\<lambda>body. updateCurrentUserController user body s)"
| "userServe uh user rq s DeleteMeRoute = deleteCurrentUserController uh user rq s"
| "userServe uh user rq s CreateUserRoute =
     andThen (bodyOf uh (CreateUserBodySchema (uh_isEmail uh)) rq) s (\<lambda>body. createUserController uh user body s)"
| "userServe uh user rq s TeamRoute =
     andThen (bodyOf uh (CreateUserBodySchema (uh_isEmail uh)) rq) s (\<lambda>body. createTeamMemberController uh user body s)"
| "userServe uh user rq s InviteUserRoute =
     andThen (bodyOf uh (InviteUserBodySchema (uh_isEmail uh)) rq) s (\<lambda>body. inviteUserController uh user body s)"
| "userServe uh user rq s ListUsersRoute =
     andThen (queryOf uh ListUsersQuerySchema rq) s (\<lambda>query. (listUsersController uh user query s, s))"
| "userServe uh user rq s (DeleteUserRoute i) =
     andThen (paramOf uh ''id'' DeleteUserParamSchema i) s (\<lambda>i. deleteUserController uh i s)"

definition usersRouter ::
  "userServer \<Rightarrow> httpMethod \<Rightarrow> string list \<Rightarrow> request \<Rightarrow> accounts \<Rightarrow> userPayload reply \<times> accounts" where
  "usersRouter uh m path rq s =
     (case userRouteOf m path of
        None \<Rightarrow> (RouteNotFound, s)
      | Some (Inl rt) \<Rightarrow> answered uh (openUserServe uh rq s rt)
      | Some (Inr rt) \<Rightarrow> dispatch uh False userRoles (userServe uh) (at_redis (ac_auth s)) (Some rt) rq s)"

section \<open>Organizations\<close>

datatype orgPayload = OrgDoc organization | OrgDocs "organization list"

definition createOrganizationController ::
  "userServer \<Rightarrow> claims \<Rightarrow> string \<times> organizationType \<times> jval option \<Rightarrow> accounts \<Rightarrow> orgPayload reply result \<times> accounts" where
  "createOrganizationController uh user body s =
     replyWith (\<lambda>g. created201 ''Organization created successfully'' (OrgDoc g))
       (createOrganizationService (userEnv uh) (fst body) (fst (snd body)) (snd (snd body)) (cl_role user) s)"

definition listOrganizationsController :: "claims \<Rightarrow> accounts \<Rightarrow> orgPayload reply result" where
  "listOrganizationsController user s =
     map_sum id (\<lambda>gs. ok200 ''Organizations retrieved successfully'' (OrgDocs gs)) (listOrganizationsService (cl_role user) s)"

definition getOrganizationController :: "claims \<Rightarrow> string \<Rightarrow> accounts \<Rightarrow> orgPayload reply result" where
  "getOrganizationController user i s =
     map_sum id (\<lambda>g. ok200 ''Organization retrieved successfully'' (OrgDoc g))
       (getOrganizationService i (cl_role user) (cl_organizationId user) s)"

definition updateOrganizationController ::
  "claims \<Rightarrow> string \<Rightarrow> organizationPatch \<Rightarrow> accounts \<Rightarrow> orgPayload reply result \<times> accounts" where
  "updateOrganizationController user i body s =
     replyWith (\<lambda>g. ok200 ''Organization updated successfully'' (OrgDoc g))
       (updateOrganizationService i body (cl_role user) (cl_organizationId user) s)"

definition deleteOrganizationController :: "claims \<Rightarrow> string \<Rightarrow> accounts \<Rightarrow> orgPayload reply result \<times> accounts" where
  "deleteOrganizationController user i s =
     replyWith (\<lambda>g. ok200 ''Organization deleted successfully'' (OrgDoc g))
       (deleteOrganizationService i (cl_role user) s)"

datatype orgRoute = CreateOrgRoute | ListOrgsRoute | GetOrgRoute string | PatchOrgRoute string | DeleteOrgRoute string

definition orgRouteOf :: "httpMethod \<Rightarrow> string list \<Rightarrow> orgRoute option" where
  "orgRouteOf m path = (case (m, path) of
     (POST, []) \<Rightarrow> Some CreateOrgRoute | (GET, []) \<Rightarrow> Some ListOrgsRoute | (GET, [i]) \<Rightarrow> Some (GetOrgRoute i)
   | (PATCH, [i]) \<Rightarrow> Some (PatchOrgRoute i) | (DELETE, [i]) \<Rightarrow> Some (DeleteOrgRoute i) | _ \<Rightarrow> None)"

primrec orgRoles :: "orgRoute \<Rightarrow> userRole list option" where
  "orgRoles CreateOrgRoute = Some [SUPER_ADMIN]"
| "orgRoles ListOrgsRoute = Some [SUPER_ADMIN]"
| "orgRoles (GetOrgRoute i) = Some [ADMIN, SUPER_ADMIN]"
| "orgRoles (PatchOrgRoute i) = Some [ADMIN, SUPER_ADMIN]"
| "orgRoles (DeleteOrgRoute i) = Some [SUPER_ADMIN]"

primrec orgServe ::
  "userServer \<Rightarrow> claims \<Rightarrow> request \<Rightarrow> accounts \<Rightarrow> orgRoute \<Rightarrow> orgPayload reply result \<times> accounts" where
  "orgServe uh user rq s CreateOrgRoute =
     andThen (bodyOf uh CreateOrganizationBodySchema rq) s (\<lambda>body. createOrganizationController uh user body s)"
| "orgServe uh user rq s ListOrgsRoute = (listOrganizationsController user s, s)"
| "orgServe uh user rq s (GetOrgRoute i) =
     andThen (paramId uh i) s (\<lambda>i. (getOrganizationController user i s, s))"
| "orgServe uh user rq s (PatchOrgRoute i) =
     andThen (bodyOf uh UpdateOrganizationBodySchema rq) s (\<lambda>body.
     andThen (paramId uh i) s (\<lambda>i. updateOrganizationController user i body s))"
| "orgServe uh user rq s (DeleteOrgRoute i) =
     andThen (paramId uh i) s (\<lambda>i. deleteOrganizationController user i s)"

definition organizationsRouter ::
  "userServer \<Rightarrow> httpMethod \<Rightarrow> string list \<Rightarrow> request \<Rightarrow> accounts \<Rightarrow> orgPayload reply \<times> accounts" where
  "organizationsRouter uh m path rq s =
     dispatch uh False orgRoles (orgServe uh) (at_redis (ac_auth s)) (orgRouteOf m path) rq s"

section \<open>Company invitations\<close>

text \<open>
  \<open>vh_oid\<close> is the driver's cast to an ObjectId, \<open>vh_fraction\<close> its answer to a limit that is not whole.
  A caller without an organization asks for the empty id, which no cast accepts; before a creation
  comes to that, its other checks have failed or passed.
\<close>

record inviteServer = serverEnv +
  vh_env :: inviteEnv
  vh_isEmail :: "string \<Rightarrow> bool"
  vh_oid :: "string \<Rightarrow> objectId result"

datatype invitePayload =
    SentDoc invitationSent int
  | ResentDoc objectId string millis int
  | InvitationDocs "invitation list"
  | RevokedDoc "invitation option"
  | InfoDoc invitationInfo
  | JoinedDoc accountView

type_synonym inviteWorld = "inviteState \<times> redis"

definition onInvites ::
  "('a \<Rightarrow> invitePayload reply) \<Rightarrow> 'a result \<times> inviteState \<Rightarrow> redis \<Rightarrow> invitePayload reply result \<times> inviteWorld" where
  "onInvites k p r = (map_sum id k (fst p), (snd p, r))"

definition createInvitationController ::
  "inviteServer \<Rightarrow> claims \<Rightarrow> string \<times> userRole \<times> string option \<Rightarrow> inviteWorld
   \<Rightarrow> invitePayload reply result \<times> inviteWorld" where
  "createInvitationController vh user body w =
     (let input = (\<lambda>org. \<lparr>ii_email = fst body, ii_role = fst (snd body), ii_message = snd (snd body),
            ii_inviterId = cl_userId user, ii_inviterRole = cl_role user, ii_organizationId = org\<rparr>)
      in case vh_oid vh (nullish (cl_organizationId user) []) of
           Inr org \<Rightarrow> onInvites (\<lambda>r. created201 ''Invitation sent successfully'' (SentDoc r INVITE_EXPIRY_SECONDS))
             (createAndSendInvitation (vh_env vh) (input org) (fst w)) (snd w)
         | Inl castError \<Rightarrow>
             (case fst (createAndSendInvitation (vh_env vh) (input []) (fst w)) of
                Inl (App e) \<Rightarrow> (Inl (App e), w) | _ \<Rightarrow> (Inl castError, w)))"

definition listInvitationsController ::
  "inviteServer \<Rightarrow> (rat \<Rightarrow> invitePayload reply result) \<Rightarrow> claims \<Rightarrow> rat \<times> string option \<times> invitationStatus option
   \<Rightarrow> inviteWorld \<Rightarrow> invitePayload reply result" where
  "listInvitationsController vh fraction user query w =
     (case vh_oid vh (nullish (cl_organizationId user) []) of
        Inl e \<Rightarrow> Inl e
      | Inr org \<Rightarrow>
          (case (case keep_truthy (fst (snd query)) of None \<Rightarrow> Inr None | Some c \<Rightarrow> map_sum id Some (vh_oid vh c)) of
             Inl e \<Rightarrow> Inl e
           | Inr cursor \<Rightarrow>
               (case whole (Finite (fst query)) of
                  None \<Rightarrow> fraction (fst query)
                | Some limit \<Rightarrow>
                    (let (p, n) = listOrganizationInvitations
                           \<lparr>iq_organizationId = org, iq_limit = Some (nat limit), iq_status = snd (snd query),
                            iq_docs = is_invitations (fst w)\<rparr> cursor
                     in Inr (Envelope 200 True ''Invitations retrieved successfully'' (Some (InvitationDocs (page_data p)))
                          (Some (TotalCursor n (hasMore p) (nextCursor p))))))))"

definition resendInvitationController ::
  "inviteServer \<Rightarrow> claims \<Rightarrow> string \<Rightarrow> inviteWorld \<Rightarrow> invitePayload reply result \<times> inviteWorld" where
  "resendInvitationController vh user i w =
     (case vh_oid vh i of
        Inl e \<Rightarrow> (Inl e, w)
      | Inr j \<Rightarrow> onInvites
          (\<lambda>r. ok200 ''Invitation resent successfully'' (ResentDoc (sn_id r) (sn_token r) (sn_expiresAt r) INVITE_EXPIRY_SECONDS))
          (resendInvitation (vh_env vh) j (nullish (cl_organizationId user) []) (fst w)) (snd w))"

definition revokeInvitationController ::
  "inviteServer \<Rightarrow> claims \<Rightarrow> string \<Rightarrow> inviteWorld \<Rightarrow> invitePayload reply result \<times> inviteWorld" where
  "revokeInvitationController vh user i w =
     (case vh_oid vh i of
        Inl e \<Rightarrow> (Inl e, w)
      | Inr j \<Rightarrow> onInvites (\<lambda>r. ok200 ''Invitation revoked successfully'' (RevokedDoc r))
          (revokeInvitationById (vh_env vh) j (nullish (cl_organizationId user) []) (fst w)) (snd w))"

definition getInvitationInfoController ::
  "inviteServer \<Rightarrow> string \<Rightarrow> inviteWorld \<Rightarrow> invitePayload reply result \<times> inviteWorld" where
  "getInvitationInfoController vh token w =
     onInvites (\<lambda>r. ok200 ''Invitation info retrieved successfully'' (InfoDoc r))
       (getInvitationInfo (vh_env vh) token (fst w)) (snd w)"

definition acceptInvitationController ::
  "inviteServer \<Rightarrow> string \<times> string \<times> string \<Rightarrow> inviteWorld \<Rightarrow> invitePayload reply result \<times> inviteWorld" where
  "acceptInvitationController vh body w =
     onInvites (\<lambda>u. created201 ''Invitation accepted successfully'' (JoinedDoc (accountOf u)))
       (acceptInvitationWithPassword (vh_env vh) (fst body) (fst (snd body)) (snd (snd body)) (fst w)) (snd w)"

datatype openInviteRoute = InviteInfoRoute | AcceptCompanyInviteRoute

datatype inviteRoute = CreateInviteRoute | ListInvitesRoute | ResendInviteRoute string | RevokeInviteRoute string

definition inviteRouteOf :: "httpMethod \<Rightarrow> string list \<Rightarrow> (openInviteRoute + inviteRoute) option" where
  "inviteRouteOf m path = (case (m, path) of
     (POST, []) \<Rightarrow> Some (Inr CreateInviteRoute) | (GET, []) \<Rightarrow> Some (Inr ListInvitesRoute)
   | (POST, [i, a]) \<Rightarrow> if toLowerCase a = ''resend'' then Some (Inr (ResendInviteRoute i)) else None
   | (DELETE, [i]) \<Rightarrow> Some (Inr (RevokeInviteRoute i))
   | (GET, [a]) \<Rightarrow> if toLowerCase a = ''info'' then Some (Inl InviteInfoRoute) else None
   | (POST, [a]) \<Rightarrow> if toLowerCase a = ''accept'' then Some (Inl AcceptCompanyInviteRoute) else None
   | _ \<Rightarrow> None)"

definition inviteRoles :: "inviteRoute \<Rightarrow> userRole list option" where
  "inviteRoles rt = Some [ADMIN, SUPER_ADMIN]"

primrec openInviteServe ::
  "inviteServer \<Rightarrow> request \<Rightarrow> inviteWorld \<Rightarrow> openInviteRoute \<Rightarrow> invitePayload reply result \<times> inviteWorld" where
  "openInviteServe vh rq w InviteInfoRoute =
     andThen (queryOf vh (\<lambda>_. InvitationInfoQuerySchema) rq) w (\<lambda>token. getInvitationInfoController vh token w)"
| "openInviteServe vh rq w AcceptCompanyInviteRoute =
     andThen (bodyOf vh AcceptInvitationBodySchema rq) w (\<lambda>body. acceptInvitationController vh body w)"

primrec inviteServe ::
  "inviteServer \<Rightarrow> (rat \<Rightarrow> invitePayload reply result) \<Rightarrow> claims \<Rightarrow> request \<Rightarrow> inviteWorld \<Rightarrow> inviteRoute
   \<Rightarrow> invitePayload reply result \<times> inviteWorld" where
  "inviteServe vh fraction user rq w CreateInviteRoute =
     andThen (bodyOf vh (CreateInvitationBodySchema (vh_isEmail vh)) rq) w (\<lambda>body. createInvitationController vh user body w)"
| "inviteServe vh fraction user rq w ListInvitesRoute =
     andThen (queryOf vh ListInvitationsQuerySchema rq) w (\<lambda>query. (listInvitationsController vh fraction user query w, w))"
| "inviteServe vh fraction user rq w (ResendInviteRoute i) =
     andThen (paramId vh i) w (\<lambda>i. resendInvitationController vh user i w)"
| "inviteServe vh fraction user rq w (RevokeInviteRoute i) =
     andThen (paramId vh i) w (\<lambda>i. revokeInvitationController vh user i w)"

definition invitationsRouter ::
  "inviteServer \<Rightarrow> (rat \<Rightarrow> invitePayload reply result) \<Rightarrow> httpMethod \<Rightarrow> string list \<Rightarrow> request \<Rightarrow> inviteWorld
   \<Rightarrow> invitePayload reply \<times> inviteWorld" where
  "invitationsRouter vh fraction m path rq w =
     (case inviteRouteOf m path of
        None \<Rightarrow> (RouteNotFound, w)
      | Some (Inl rt) \<Rightarrow> answered vh (openInviteServe vh rq w rt)
      | Some (Inr rt) \<Rightarrow> dispatch vh False inviteRoles (inviteServe vh fraction) (snd w) (Some rt) rq w)"

section \<open>Who changes what\<close>

text \<open>The identity, role and organization of an account.\<close>

definition rank :: "user \<Rightarrow> objectId \<times> userRole \<times> objectId option" where
  "rank u = (us_id u, us_role u, us_organizationId u)"

definition sameRanks :: "accounts \<Rightarrow> accounts \<Rightarrow> bool" where
  "sameRanks s s' \<longleftrightarrow> map rank (ac_users s') = map rank (ac_users s)"

lemma update_ranks: "(\<And>u. rank (f u) = rank u) \<Longrightarrow> map rank (snd (findUserAndUpdate i f us)) = map rank us"
  by (simp add: findUserAndUpdate_def findOneAndUpdate_def update_first_keys)

lemma markDeleted_ranks: "map rank (ac_users (snd (markDeleted now i s))) = map rank (ac_users s)"
  by (simp add: markDeleted_conv update_ranks rank_def)

lemma renameCompany_users: "ac_users (snd (renameCompany u n s)) = ac_users s"
  by (auto simp: renameCompany_def split: option.split prod.split)

lemma saveProfile_ranks: "map rank (ac_users (snd (saveProfile i u s))) = map rank (ac_users s)"
  by (simp add: saveProfile_def Let_def update_ranks rank_def)

lemma updateCurrentUser_ranks: "map rank (ac_users (snd (updateCurrentUser i p s))) = map rank (ac_users s)"
proof (cases "findUserById i (ac_users s)")
  case (Some u)
  let ?s = "snd (renameCompany u (pp_companyName p) s)"
  have "map rank (ac_users (snd (saveProfile i x ?s))) = map rank (ac_users s)" for x
    by (simp add: saveProfile_ranks renameCompany_users)
  then show ?thesis using Some
    by (simp add: updateCurrentUser_def Let_def case_prod_beta renameCompany_users split: sum.split)
qed (simp add: updateCurrentUser_def)

lemma deleteUser_ranks: "map rank (ac_users (snd (deleteUser env i s))) = map rank (ac_users s)"
  by (simp add: deleteUser_def case_prod_beta markDeleted_ranks split: sum.split option.split)

lemma deleteCurrentUser_ranks: "map rank (ac_users (snd (deleteCurrentUser env i token s))) = map rank (ac_users s)"
proof -
  have "ac_users (x\<lparr>ac_auth := (ac_auth x)\<lparr>at_redis := r\<rparr>\<rparr>) = ac_users x" for x r
    by (simp add: ac_users_def del: accounts_simps)
  then show ?thesis
    by (simp add: deleteCurrentUser_def Let_def case_prod_beta markDeleted_ranks split: option.split)
qed

lemma generateInvitationLink_users: "ac_users (snd (generateInvitationLink env e ro i iro org s)) = ac_users s"
  by (auto simp: generateInvitationLink_def Let_def ac_users_def simp del: accounts_simps split: option.split)

primrec hires :: "userRoute \<Rightarrow> bool" where
  "hires MeRoute = False"
| "hires PatchMeRoute = False"
| "hires DeleteMeRoute = False"
| "hires CreateUserRoute = True"
| "hires TeamRoute = True"
| "hires InviteUserRoute = False"
| "hires ListUsersRoute = False"
| "hires (DeleteUserRoute i) = False"

interpretation user_routes: guarded_routes userRoles "userServe env" hires "[ADMIN, SUPER_ADMIN]" sameRanks for env
proof unfold_locales
  fix rt c rq s
  show "hires rt \<Longrightarrow> \<exists>rs. userRoles rt = Some rs \<and> set rs \<subseteq> set [ADMIN, SUPER_ADMIN]"
    by (cases rt) auto
  show "\<not> hires rt \<Longrightarrow> sameRanks s (snd (userServe env c rq s rt))"
    by (cases rt) (auto simp: sameRanks_def andThen_def updateCurrentUserController_def updateCurrentUser_ranks
        deleteCurrentUserController_def deleteCurrentUser_ranks Let_def inviteUserController_def
        generateInvitationLink_users deleteUserController_def deleteUser_ranks split: sum.split)
qed (simp add: sameRanks_def)

primrec writesOrgs :: "orgRoute \<Rightarrow> bool" where
  "writesOrgs CreateOrgRoute = True"
| "writesOrgs ListOrgsRoute = False"
| "writesOrgs (GetOrgRoute i) = False"
| "writesOrgs (PatchOrgRoute i) = True"
| "writesOrgs (DeleteOrgRoute i) = True"

definition sameOrgs :: "accounts \<Rightarrow> accounts \<Rightarrow> bool" where
  "sameOrgs s s' \<longleftrightarrow> ac_orgs s' = ac_orgs s"

interpretation org_routes: guarded_routes orgRoles "orgServe env" writesOrgs "[ADMIN, SUPER_ADMIN]" sameOrgs for env
proof unfold_locales
  fix rt c rq s
  show "writesOrgs rt \<Longrightarrow> \<exists>rs. orgRoles rt = Some rs \<and> set rs \<subseteq> set [ADMIN, SUPER_ADMIN]"
    by (cases rt) auto
  show "\<not> writesOrgs rt \<Longrightarrow> sameOrgs s (snd (orgServe env c rq s rt))"
    by (cases rt) (auto simp: sameOrgs_def andThen_def split: sum.split)
qed (simp add: sameOrgs_def)

definition sameInvites :: "inviteWorld \<Rightarrow> inviteWorld \<Rightarrow> bool" where
  "sameInvites w w' \<longleftrightarrow> w' = w"

interpretation invite_routes: guarded_routes inviteRoles "inviteServe env fraction"
  "\<lambda>rt. rt \<noteq> ListInvitesRoute" "[ADMIN, SUPER_ADMIN]" sameInvites for env fraction
proof unfold_locales
  fix rt c rq w
  show "\<not> rt \<noteq> ListInvitesRoute \<Longrightarrow> sameInvites w (snd (inviteServe env fraction c rq w rt))"
    by (simp add: sameInvites_def andThen_def split: sum.split)
qed (simp_all add: sameInvites_def inviteRoles_def)

lemma usersRouter_guarded:
  "map rank (ac_users (snd (usersRouter uh m path rq s))) = map rank (ac_users s)
   \<or> (\<exists>c. authenticated uh rq (at_redis (ac_auth s)) = Inr c \<and> cl_role c \<in> {Some ADMIN, Some SUPER_ADMIN})
   \<or> userRouteOf m path = Some (Inl AcceptInviteRoute)"
proof (cases "userRouteOf m path")
  case None
  then show ?thesis by (simp add: usersRouter_def)
next
  case (Some r)
  show ?thesis
  proof (cases r)
    case (Inl rt)
    then show ?thesis using Some by (cases rt) (simp_all add: usersRouter_def andThen_def split: sum.split)
  next
    case (Inr rt)
    then show ?thesis
      using Some user_routes.guarded[where env = uh and hx = uh and w = s and guardAll = False
          and r = "at_redis (ac_auth s)" and route = "Some rt" and rq = rq]
      by (auto simp: usersRouter_def sameRanks_def)
  qed
qed

section \<open>Requests are steps of the accounts\<close>

text \<open>
  Whatever is asked of the two routers, the accounts move by a step of \<open>Accounts.account_step\<close> or not
  at all, so its invariants hold over any sequence of requests.
\<close>

lemma userServe_step:
  assumes "unused_ids (userEnv uh) s"
  shows "snd (userServe uh c rq s rt) = s \<or> account_step s (snd (userServe uh c rq s rt))"
  using assms
  by (cases rt)
    (auto simp: andThen_def updateCurrentUserController_def deleteCurrentUserController_def Let_def
      createUserController_def createTeamMemberController_def inviteUserController_def deleteUserController_def
      intro: account_step.intros split: sum.split)

lemma openUserServe_step:
  assumes "unused_ids (userEnv uh) s"
  shows "snd (openUserServe uh rq s rt) = s \<or> account_step s (snd (openUserServe uh rq s rt))"
  using assms
  by (cases rt) (auto simp: andThen_def acceptUserInvitationController_def intro: account_step.intros split: sum.split)

lemma orgServe_step:
  assumes "unused_ids (userEnv uh) s"
  shows "snd (orgServe uh c rq s rt) = s \<or> account_step s (snd (orgServe uh c rq s rt))"
  using assms
  by (cases rt)
    (auto simp: andThen_def createOrganizationController_def updateOrganizationController_def
      deleteOrganizationController_def intro: account_step.intros split: sum.split)

lemma dispatch_state:
  "snd (dispatch hx g roles serve r (Some rt) rq w) = w
   \<or> (\<exists>c. snd (dispatch hx g roles serve r (Some rt) rq w) = snd (serve c rq w rt))"
  by (auto simp: dispatch_def andThen_def split: sum.split)

lemma usersRouter_step:
  assumes "unused_ids (userEnv uh) s"
  shows "snd (usersRouter uh m path rq s) = s \<or> account_step s (snd (usersRouter uh m path rq s))"
proof (cases "userRouteOf m path")
  case None
  then show ?thesis by (simp add: usersRouter_def)
next
  case (Some r)
  show ?thesis
  proof (cases r)
    case (Inl rt)
    then show ?thesis using Some openUserServe_step[OF assms] by (simp add: usersRouter_def)
  next
    case (Inr rt)
    then show ?thesis using Some userServe_step[OF assms]
        dispatch_state[of uh False userRoles "userServe uh" "at_redis (ac_auth s)" rt rq s]
      by (auto simp: usersRouter_def) metis
  qed
qed

lemma organizationsRouter_step:
  assumes "unused_ids (userEnv uh) s"
  shows "snd (organizationsRouter uh m path rq s) = s \<or> account_step s (snd (organizationsRouter uh m path rq s))"
proof (cases "orgRouteOf m path")
  case None
  then show ?thesis by (simp add: organizationsRouter_def dispatch_def andThen_def)
next
  case (Some rt)
  then show ?thesis using orgServe_step[OF assms]
      dispatch_state[of uh False orgRoles "orgServe uh" "at_redis (ac_auth s)" rt rq s]
    by (auto simp: organizationsRouter_def) metis
qed

section \<open>What a deletion discloses\<close>

text \<open>
  An administrator of any organization deletes any account, and the reply carries the account's second
  factor: secret and backup codes stay in the document that is sent.
\<close>

lemma deletion_discloses:
  assumes "authenticated uh rq (at_redis (ac_auth s)) = Inr c" and "cl_role c = Some ADMIN"
    and "findUserById i (ac_users s) = Some u" and "acEnv_oid (uh_env uh) i = Inr i"
    and "trim i = i" and "i \<noteq> []" and "toLowerCase i \<noteq> ''me''"
  shows "\<exists>d. fst (usersRouter uh DELETE [i] rq s) = ok200 ''User deleted successfully'' (UserDoc d)
     \<and> us_totpSecret d = us_totpSecret u \<and> us_totpBackupCodes d = us_totpBackupCodes u"
proof -
  let ?d = "u\<lparr>us_deletedAt := Some (ac_now (userEnv uh))\<rparr>"
  have "fst (deleteUser (userEnv uh) i s) = Inr ?d"
    using assms(3,4) by (simp add: deleteUser_def markDeleted_conv userEnv_def)
  moreover have "paramOf uh ''id'' DeleteUserParamSchema i = Inr i"
    using assms(5,6) by (simp add: paramOf_def validatePart_def DeleteUserParamSchema_def zObject_def propOf_def
        trimmedId_def zTrim_def zString_def)
  moreover have "admitted uh (userRoles (DeleteUserRoute i)) rq (at_redis (ac_auth s)) = Inr c"
    using admitted_role[OF assms(1,2)] by simp
  moreover have "userRouteOf DELETE [i] = Some (Inr (DeleteUserRoute i))" using assms(7) by (simp add: userRouteOf_def)
  ultimately have "fst (usersRouter uh DELETE [i] rq s) = ok200 ''User deleted successfully'' (UserDoc (withoutHash ?d))"
    by (simp add: usersRouter_def dispatch_admitted andThen_def deleteUserController_def answered_def)
  then show ?thesis by (intro exI[of _ "withoutHash ?d"]) (simp add: withoutHash_def)
qed

end
