(* ===== verification/Serializer.thy ===== *)
theory Serializer
  imports Prelude
begin

text \<open>
  \<open>KeyedSerializer\<close> (\<open>src/src/services/chain/serializer.ts\<close>): tasks of one key run one at a time and in
  call order. Each call of \<open>run\<close> makes a tail promise that settles after its task, chained to the tail
  the map held before; the map forgets a tail once it has settled, if it is still the latest. A task
  is known by its place in the order of calls. The event loop may interleave the steps at will: a call
  of \<open>run\<close>, the start of a task whose predecessor's tail has settled, the settling of a tail (success
  and failure look the same to it), and the cleanup callback of a settled tail.
\<close>

section \<open>The promise machine\<close>

datatype taskStatus = Waiting | Running | Settled

record task =
  tk_key :: string
  tk_previous :: "nat option"
    \<comment> \<open>\<open>None\<close>: \<open>Promise.resolve()\<close>\<close>
  tk_status :: taskStatus
  tk_cleaned :: bool

record serializer =
  sz_tasks :: "task list"
  sz_tails :: "string \<Rightarrow> nat option"

definition emptySerializer :: serializer where
  "emptySerializer = \<lparr>sz_tasks = [], sz_tails = (\<lambda>_. None)\<rparr>"

definition serializer_run :: "string \<Rightarrow> serializer \<Rightarrow> serializer" where
  "serializer_run key s =
     s\<lparr>sz_tasks := sz_tasks s @
         [\<lparr>tk_key = key, tk_previous = sz_tails s key, tk_status = Waiting, tk_cleaned = False\<rparr>],
       sz_tails := (sz_tails s)(key := Some (length (sz_tasks s)))\<rparr>"

definition statusOf :: "serializer \<Rightarrow> nat \<Rightarrow> taskStatus" where
  "statusOf s i = tk_status (sz_tasks s ! i)"

definition keyOf :: "serializer \<Rightarrow> nat \<Rightarrow> string" where
  "keyOf s i = tk_key (sz_tasks s ! i)"

definition canStart :: "serializer \<Rightarrow> nat \<Rightarrow> bool" where
  "canStart s i \<longleftrightarrow> i < length (sz_tasks s) \<and> statusOf s i = Waiting
     \<and> (case tk_previous (sz_tasks s ! i) of None \<Rightarrow> True | Some p \<Rightarrow> statusOf s p = Settled)"

definition setStatus :: "nat \<Rightarrow> taskStatus \<Rightarrow> serializer \<Rightarrow> serializer" where
  "setStatus i st s = s\<lparr>sz_tasks := (sz_tasks s)[i := (sz_tasks s ! i)\<lparr>tk_status := st\<rparr>]\<rparr>"

definition tailCleanup :: "nat \<Rightarrow> serializer \<Rightarrow> serializer" where
  "tailCleanup i s =
     (let key = keyOf s i;
          s1 = s\<lparr>sz_tasks := (sz_tasks s)[i := (sz_tasks s ! i)\<lparr>tk_cleaned := True\<rparr>]\<rparr>
      in if sz_tails s key = Some i then s1\<lparr>sz_tails := (sz_tails s)(key := None)\<rparr> else s1)"

inductive serializer_step :: "serializer \<Rightarrow> serializer \<Rightarrow> bool" where
  called: "serializer_step s (serializer_run key s)"
| started: "canStart s i \<Longrightarrow> serializer_step s (setStatus i Running s)"
| settled: "i < length (sz_tasks s) \<Longrightarrow> statusOf s i = Running \<Longrightarrow> serializer_step s (setStatus i Settled s)"
| cleaned: "i < length (sz_tasks s) \<Longrightarrow> statusOf s i = Settled \<Longrightarrow> \<not> tk_cleaned (sz_tasks s ! i)
    \<Longrightarrow> serializer_step s (tailCleanup i s)"

section \<open>The invariant\<close>

text \<open>A task that has begun has all earlier tasks of its key behind it.\<close>

definition in_order :: "serializer \<Rightarrow> bool" where
  "in_order s \<longleftrightarrow> (\<forall>i j. i < j \<and> j < length (sz_tasks s) \<and> keyOf s i = keyOf s j \<and> statusOf s j \<noteq> Waiting
     \<longrightarrow> statusOf s i = Settled)"

text \<open>The map holds the latest task of a key, or nothing when all have settled.\<close>

definition tails_latest :: "serializer \<Rightarrow> bool" where
  "tails_latest s \<longleftrightarrow> (\<forall>key. case sz_tails s key of
       None \<Rightarrow> \<forall>i<length (sz_tasks s). keyOf s i = key \<longrightarrow> statusOf s i = Settled
     | Some i \<Rightarrow> i < length (sz_tasks s) \<and> keyOf s i = key \<and> \<not> tk_cleaned (sz_tasks s ! i)
         \<and> (\<forall>j<length (sz_tasks s). keyOf s j = key \<longrightarrow> j \<le> i))"

text \<open>Every task waits for the one just before it.\<close>

definition chained :: "serializer \<Rightarrow> bool" where
  "chained s \<longleftrightarrow> (\<forall>j<length (sz_tasks s). case tk_previous (sz_tasks s ! j) of
       None \<Rightarrow> \<forall>i<j. keyOf s i = keyOf s j \<longrightarrow> statusOf s i = Settled
     | Some p \<Rightarrow> p < j \<and> keyOf s p = keyOf s j \<and> (\<forall>i. p < i \<and> i < j \<longrightarrow> keyOf s i \<noteq> keyOf s j))"

definition serializer_ok :: "serializer \<Rightarrow> bool" where
  "serializer_ok s \<longleftrightarrow> in_order s \<and> tails_latest s \<and> chained s"

lemma serializer_ok_empty [simp]: "serializer_ok emptySerializer"
  by (simp add: serializer_ok_def in_order_def tails_latest_def chained_def emptySerializer_def)

text \<open>What each step does to the views of a task.\<close>

lemma run_views:
  "length (sz_tasks (serializer_run key s)) = Suc (length (sz_tasks s))"
  "sz_tails (serializer_run key s) = (sz_tails s)(key := Some (length (sz_tasks s)))"
  "i < length (sz_tasks s) \<Longrightarrow> sz_tasks (serializer_run key s) ! i = sz_tasks s ! i"
  "sz_tasks (serializer_run key s) ! length (sz_tasks s)
     = \<lparr>tk_key = key, tk_previous = sz_tails s key, tk_status = Waiting, tk_cleaned = False\<rparr>"
  by (simp_all add: serializer_run_def nth_append)

lemma status_views:
  assumes "i < length (sz_tasks s)"
  shows "length (sz_tasks (setStatus i st s)) = length (sz_tasks s)"
    and "sz_tails (setStatus i st s) = sz_tails s"
    and "keyOf (setStatus i st s) j = keyOf s j"
    and "tk_previous (sz_tasks (setStatus i st s) ! j) = tk_previous (sz_tasks s ! j)"
    and "tk_cleaned (sz_tasks (setStatus i st s) ! j) = tk_cleaned (sz_tasks s ! j)"
    and "statusOf (setStatus i st s) j = (if j = i then st else statusOf s j)"
  using assms by (simp_all add: setStatus_def keyOf_def statusOf_def nth_list_update)

lemma cleanup_views:
  assumes "i < length (sz_tasks s)"
  shows "length (sz_tasks (tailCleanup i s)) = length (sz_tasks s)"
    and "sz_tails (tailCleanup i s) = (if sz_tails s (keyOf s i) = Some i then (sz_tails s)(keyOf s i := None) else sz_tails s)"
    and "keyOf (tailCleanup i s) j = keyOf s j"
    and "tk_previous (sz_tasks (tailCleanup i s) ! j) = tk_previous (sz_tasks s ! j)"
    and "tk_cleaned (sz_tasks (tailCleanup i s) ! j) = (j = i \<or> tk_cleaned (sz_tasks s ! j))"
    and "statusOf (tailCleanup i s) j = statusOf s j"
  using assms by (simp_all add: tailCleanup_def keyOf_def statusOf_def nth_list_update Let_def)

lemma run_keyOf: "i < length (sz_tasks s) \<Longrightarrow> keyOf (serializer_run key s) i = keyOf s i"
  by (simp add: keyOf_def run_views)

lemma run_statusOf: "i < length (sz_tasks s) \<Longrightarrow> statusOf (serializer_run key s) i = statusOf s i"
  by (simp add: statusOf_def run_views)

lemma in_orderD:
  "in_order s \<Longrightarrow> i < j \<Longrightarrow> j < length (sz_tasks s) \<Longrightarrow> keyOf s i = keyOf s j \<Longrightarrow> statusOf s j \<noteq> Waiting
   \<Longrightarrow> statusOf s i = Settled"
  unfolding in_order_def by blast

lemma run_ok:
  assumes "serializer_ok s"
  shows "serializer_ok (serializer_run key s)"
proof -
  let ?n = "length (sz_tasks s)" and ?s = "serializer_run key s"
  have new: "keyOf ?s ?n = key" "statusOf ?s ?n = Waiting" by (simp_all add: keyOf_def statusOf_def run_views)
  have o: "in_order s" and t: "tails_latest s" and c: "chained s" using assms by (auto simp: serializer_ok_def)
  have "in_order ?s"
    unfolding in_order_def
  proof (intro allI impI, elim conjE)
    fix i j assume a: "i < j" "j < length (sz_tasks ?s)" "keyOf ?s i = keyOf ?s j" "statusOf ?s j \<noteq> Waiting"
    then have "j < ?n" using new by (auto simp: run_views less_Suc_eq)
    then show "statusOf ?s i = Settled"
      using a in_orderD[OF o, of i j] by (simp add: run_keyOf run_statusOf)
  qed
  moreover have "tails_latest ?s"
    unfolding tails_latest_def
  proof
    fix k
    show "case sz_tails ?s k of
        None \<Rightarrow> \<forall>i<length (sz_tasks ?s). keyOf ?s i = k \<longrightarrow> statusOf ?s i = Settled
      | Some i \<Rightarrow> i < length (sz_tasks ?s) \<and> keyOf ?s i = k \<and> \<not> tk_cleaned (sz_tasks ?s ! i)
         \<and> (\<forall>j<length (sz_tasks ?s). keyOf ?s j = k \<longrightarrow> j \<le> i)"
      using t[unfolded tails_latest_def, rule_format, of k] new
      by (cases "k = key") (auto simp: run_views run_keyOf run_statusOf less_Suc_eq split: option.splits)
  qed
  moreover have "chained ?s"
    unfolding chained_def
  proof (intro allI impI)
    fix j assume "j < length (sz_tasks ?s)"
    then consider "j < ?n" | "j = ?n" by (auto simp: run_views less_Suc_eq)
    then show "case tk_previous (sz_tasks ?s ! j) of
        None \<Rightarrow> \<forall>i<j. keyOf ?s i = keyOf ?s j \<longrightarrow> statusOf ?s i = Settled
      | Some p \<Rightarrow> p < j \<and> keyOf ?s p = keyOf ?s j \<and> (\<forall>i. p < i \<and> i < j \<longrightarrow> keyOf ?s i \<noteq> keyOf ?s j)"
    proof cases
      case 1
      then show ?thesis using c[unfolded chained_def, rule_format, OF 1]
        by (auto simp: run_views run_keyOf run_statusOf split: option.splits)
    next
      case 2
      then show ?thesis using t[unfolded tails_latest_def, rule_format, of key] new
        by (auto simp: run_views run_keyOf run_statusOf split: option.splits)
    qed
  qed
  ultimately show ?thesis by (simp add: serializer_ok_def)
qed

text \<open>An unsettled task is not among those the map or the chain has forgotten, so its status is free.\<close>

lemma status_tails:
  assumes "tails_latest s" and "i < length (sz_tasks s)" and "statusOf s i \<noteq> Settled"
  shows "tails_latest (setStatus i st s)"
  unfolding tails_latest_def
proof
  fix k
  note v = status_views[OF assms(2), of st]
  show "case sz_tails (setStatus i st s) k of
      None \<Rightarrow> \<forall>j<length (sz_tasks (setStatus i st s)). keyOf (setStatus i st s) j = k \<longrightarrow> statusOf (setStatus i st s) j = Settled
    | Some m \<Rightarrow> m < length (sz_tasks (setStatus i st s)) \<and> keyOf (setStatus i st s) m = k
       \<and> \<not> tk_cleaned (sz_tasks (setStatus i st s) ! m)
       \<and> (\<forall>j<length (sz_tasks (setStatus i st s)). keyOf (setStatus i st s) j = k \<longrightarrow> j \<le> m)"
    using assms(1)[unfolded tails_latest_def, rule_format, of k] assms(2,3)
    by (cases "sz_tails s k") (auto simp: v)
qed

lemma status_chained:
  assumes "chained s" and "i < length (sz_tasks s)" and "statusOf s i \<noteq> Settled"
  shows "chained (setStatus i st s)"
  unfolding chained_def
proof (intro allI impI)
  fix j
  note v = status_views[OF assms(2), of st]
  assume j: "j < length (sz_tasks (setStatus i st s))"
  then have j': "j < length (sz_tasks s)" by (simp add: v)
  show "case tk_previous (sz_tasks (setStatus i st s) ! j) of
      None \<Rightarrow> \<forall>k<j. keyOf (setStatus i st s) k = keyOf (setStatus i st s) j \<longrightarrow> statusOf (setStatus i st s) k = Settled
    | Some p \<Rightarrow> p < j \<and> keyOf (setStatus i st s) p = keyOf (setStatus i st s) j
       \<and> (\<forall>k. p < k \<and> k < j \<longrightarrow> keyOf (setStatus i st s) k \<noteq> keyOf (setStatus i st s) j)"
    using assms(1)[unfolded chained_def, rule_format, OF j'] assms(3)
    by (cases "tk_previous (sz_tasks s ! j)") (auto simp: v)
qed

lemma start_ok:
  assumes "serializer_ok s" and "canStart s i"
  shows "serializer_ok (setStatus i Running s)"
proof -
  let ?s = "setStatus i Running s"
  have o: "in_order s" and t: "tails_latest s" and c: "chained s" using assms by (auto simp: serializer_ok_def)
  have i: "i < length (sz_tasks s)" and w: "statusOf s i = Waiting" using assms(2) by (auto simp: canStart_def)
  note v = status_views[OF i]
  have before: "statusOf s k = Settled" if "k < i" "keyOf s k = keyOf s i" for k
  proof (cases "tk_previous (sz_tasks s ! i)")
    case None
    then show ?thesis using c[unfolded chained_def, rule_format, OF i] that by simp
  next
    case (Some p)
    then have p: "statusOf s p = Settled" "p < i" "keyOf s p = keyOf s i"
        "\<And>k. p < k \<Longrightarrow> k < i \<Longrightarrow> keyOf s k \<noteq> keyOf s i"
      using c[unfolded chained_def, rule_format, OF i] assms(2) by (auto simp: canStart_def)
    then have "k \<le> p" using that by (meson not_le)
    then show ?thesis using in_orderD[OF o, of k p] p that i by (cases "k = p") auto
  qed
  have "in_order ?s"
    unfolding in_order_def
  proof (intro allI impI, elim conjE)
    fix k j assume a: "k < j" "j < length (sz_tasks ?s)" "keyOf ?s k = keyOf ?s j" "statusOf ?s j \<noteq> Waiting"
    show "statusOf ?s k = Settled"
    proof (cases "j = i")
      case True
      then show ?thesis using a before[of k] by (simp add: v)
    next
      case False
      then have "statusOf s k = Settled" using a in_orderD[OF o, of k j] by (simp add: v)
      then show ?thesis using w by (auto simp: v)
    qed
  qed
  moreover have "tails_latest ?s" by (rule status_tails[OF t i]) (simp add: w)
  moreover have "chained ?s" by (rule status_chained[OF c i]) (simp add: w)
  ultimately show ?thesis by (simp add: serializer_ok_def)
qed

lemma settle_ok:
  assumes "serializer_ok s" and i: "i < length (sz_tasks s)" and r: "statusOf s i = Running"
  shows "serializer_ok (setStatus i Settled s)"
proof -
  note v = status_views[OF i]
  have o: "in_order s" and t: "tails_latest s" and c: "chained s" using assms by (auto simp: serializer_ok_def)
  have "in_order (setStatus i Settled s)"
    unfolding in_order_def
  proof (intro allI impI, elim conjE)
    fix k j assume a: "k < j" "j < length (sz_tasks (setStatus i Settled s))"
      "keyOf (setStatus i Settled s) k = keyOf (setStatus i Settled s) j" "statusOf (setStatus i Settled s) j \<noteq> Waiting"
    then have "statusOf s j \<noteq> Waiting" using r by (auto simp: v split: if_splits)
    then show "statusOf (setStatus i Settled s) k = Settled"
      using a in_orderD[OF o, of k j] by (auto simp: v)
  qed
  moreover have "tails_latest (setStatus i Settled s)" by (rule status_tails[OF t i]) (simp add: r)
  moreover have "chained (setStatus i Settled s)" by (rule status_chained[OF c i]) (simp add: r)
  ultimately show ?thesis by (simp add: serializer_ok_def)
qed

lemma cleanup_ok:
  assumes "serializer_ok s" and i: "i < length (sz_tasks s)" and r: "statusOf s i = Settled"
    and new: "\<not> tk_cleaned (sz_tasks s ! i)"
  shows "serializer_ok (tailCleanup i s)"
proof -
  note v = cleanup_views[OF i]
  have o: "in_order s" and t: "tails_latest s" and c: "chained s" using assms by (auto simp: serializer_ok_def)
  have "in_order (tailCleanup i s)"
    unfolding in_order_def v using in_orderD[OF o] by blast
  moreover have "chained (tailCleanup i s)"
    using c unfolding chained_def v .
  moreover have "tails_latest (tailCleanup i s)"
    unfolding tails_latest_def
  proof
    fix k
    have tk: "case sz_tails s k of
        None \<Rightarrow> \<forall>i<length (sz_tasks s). keyOf s i = k \<longrightarrow> statusOf s i = Settled
      | Some i \<Rightarrow> i < length (sz_tasks s) \<and> keyOf s i = k \<and> \<not> tk_cleaned (sz_tasks s ! i)
         \<and> (\<forall>j<length (sz_tasks s). keyOf s j = k \<longrightarrow> j \<le> i)"
      using t by (simp add: tails_latest_def)
    show "case sz_tails (tailCleanup i s) k of
        None \<Rightarrow> \<forall>j<length (sz_tasks (tailCleanup i s)). keyOf (tailCleanup i s) j = k \<longrightarrow> statusOf (tailCleanup i s) j = Settled
      | Some m \<Rightarrow> m < length (sz_tasks (tailCleanup i s)) \<and> keyOf (tailCleanup i s) m = k
         \<and> \<not> tk_cleaned (sz_tasks (tailCleanup i s) ! m)
         \<and> (\<forall>j<length (sz_tasks (tailCleanup i s)). keyOf (tailCleanup i s) j = k \<longrightarrow> j \<le> m)"
    proof (cases "sz_tails s (keyOf s i) = Some i \<and> k = keyOf s i")
      case True
      then have "\<And>j. j < length (sz_tasks s) \<Longrightarrow> keyOf s j = k \<Longrightarrow> j \<le> i" using tk by simp
      then have "statusOf s j = Settled" if "j < length (sz_tasks s)" "keyOf s j = k" for j
        using that r True in_orderD[OF o, of j i] i by (cases "j = i") (auto simp: le_less)
      then show ?thesis using True by (simp add: v)
    next
      case False
      then have same: "sz_tails (tailCleanup i s) k = sz_tails s k" by (auto simp: v)
      show ?thesis unfolding same using tk False by (auto simp: v split: option.splits)
    qed
  qed
  ultimately show ?thesis by (simp add: serializer_ok_def)
qed

lemma step_ok:
  assumes "serializer_step s s'" and "serializer_ok s"
  shows "serializer_ok s'"
  using assms by (induction rule: serializer_step.induct) (simp_all add: run_ok start_ok settle_ok cleanup_ok)

lemma steps_ok: "serializer_step\<^sup>*\<^sup>* s s' \<Longrightarrow> serializer_ok s \<Longrightarrow> serializer_ok s'"
  by (induction rule: rtranclp_induct) (auto intro: step_ok)

section \<open>What it means\<close>

lemma one_at_a_time:
  assumes "serializer_ok s" and "i < length (sz_tasks s)" and "j < length (sz_tasks s)"
    and "keyOf s i = keyOf s j" and "statusOf s i = Running" and "statusOf s j = Running"
  shows "i = j"
  using assms in_orderD[of s i j] in_orderD[of s j i] by (fastforce simp: serializer_ok_def not_less_iff_gr_or_eq)

text \<open>The first unsettled task of a key is running or free to start: a failed one blocks nobody.\<close>

lemma first_can_go:
  assumes "serializer_ok s" and "i < length (sz_tasks s)" and "statusOf s i \<noteq> Settled"
    and first: "\<And>j. j < i \<Longrightarrow> keyOf s j = keyOf s i \<Longrightarrow> statusOf s j = Settled"
  shows "statusOf s i = Running \<or> canStart s i"
proof (cases "statusOf s i")
  case Waiting
  have "case tk_previous (sz_tasks s ! i) of
      None \<Rightarrow> \<forall>k<i. keyOf s k = keyOf s i \<longrightarrow> statusOf s k = Settled
    | Some p \<Rightarrow> p < i \<and> keyOf s p = keyOf s i \<and> (\<forall>k. p < k \<and> k < i \<longrightarrow> keyOf s k \<noteq> keyOf s i)"
    using assms(1,2) by (simp add: serializer_ok_def chained_def)
  then show ?thesis using Waiting assms(2) first by (auto simp: canStart_def split: option.splits)
qed (use assms in auto)

text \<open>The map does not leak: when every tail has been cleaned up, it is empty.\<close>

lemma no_leak:
  assumes "serializer_ok s" and "\<And>i. i < length (sz_tasks s) \<Longrightarrow> tk_cleaned (sz_tasks s ! i)"
  shows "sz_tails s = (\<lambda>_. None)"
proof
  fix k
  show "sz_tails s k = None"
    using assms by (cases "sz_tails s k") (fastforce simp: serializer_ok_def tails_latest_def split: option.splits)+
qed

end
