(* ===== verification/Sensing.thy ===== *)
theory Sensing
  imports Shipment_Lists
begin

text \<open>
  What counts as an anomaly: the thresholds of an organization
  (\<open>src/src/modules/telemetry/telemetryThreshold.service.ts\<close>), the evaluation of a reading against
  them (\<open>src/src/services/anomaly.service.ts\<close>), the detector behind the IoT webhook
  (\<open>telemetryAnomalyDetection.ts\<close>, \<open>gpsLossDetection.ts\<close>) and the anomaly records
  (\<open>src/src/modules/anomaly/anomaly.service.ts\<close>). Readings are finite numbers, as the validators of
  the routes demand; \<open>num\<close> is how JavaScript prints them.
\<close>

section \<open>Thresholds\<close>

record thresholds =
  th_maxTemp :: "rat option"
  th_minTemp :: "rat option"
  th_maxHumidity :: "rat option"
  th_minHumidity :: "rat option"
  th_minBatteryLevel :: "rat option"

record thresholdDoc =
  td_organizationId :: objectId
  td_shipmentType :: string
  td_thresholds :: thresholds

definition DEFAULT_SHIPMENT_TYPE :: string where
  "DEFAULT_SHIPMENT_TYPE = ''DEFAULT''"

definition DEFAULT_TELEMETRY_THRESHOLDS :: thresholds where
  "DEFAULT_TELEMETRY_THRESHOLDS = \<lparr>th_maxTemp = Some 25, th_minTemp = None, th_maxHumidity = Some 80,
     th_minHumidity = None, th_minBatteryLevel = Some 20\<rparr>"

definition orElse :: "'a option \<Rightarrow> 'a option \<Rightarrow> 'a option" where
  "orElse a b = (case a of None \<Rightarrow> b | Some x \<Rightarrow> Some x)"

definition mergeWithDefaults :: "thresholdDoc option \<Rightarrow> thresholds" where
  "mergeWithDefaults stored =
     (case stored of None \<Rightarrow> DEFAULT_TELEMETRY_THRESHOLDS
      | Some d \<Rightarrow> (let t = td_thresholds d in
          \<lparr>th_maxTemp = orElse (th_maxTemp t) (th_maxTemp DEFAULT_TELEMETRY_THRESHOLDS),
           th_minTemp = th_minTemp t,
           th_maxHumidity = orElse (th_maxHumidity t) (th_maxHumidity DEFAULT_TELEMETRY_THRESHOLDS),
           th_minHumidity = th_minHumidity t,
           th_minBatteryLevel = orElse (th_minBatteryLevel t) (th_minBatteryLevel DEFAULT_TELEMETRY_THRESHOLDS)\<rparr>))"

definition findThreshold :: "objectId \<Rightarrow> string \<Rightarrow> thresholdDoc list \<Rightarrow> thresholdDoc option" where
  "findThreshold org ty ds = List.find (\<lambda>d. td_organizationId d = org \<and> td_shipmentType d = ty) ds"

definition getOrgTelemetryThresholdsService ::
  "objectId \<Rightarrow> string option \<Rightarrow> thresholdDoc list \<Rightarrow> string \<times> thresholds" where
  "getOrgTelemetryThresholdsService org shipmentType ds =
     (let ty = nullish shipmentType DEFAULT_SHIPMENT_TYPE in (ty, mergeWithDefaults (findThreshold org ty ds)))"

text \<open>The upsert: the profile's document is overwritten, or added.\<close>

definition updateOrgTelemetryThresholdsService ::
  "objectId \<Rightarrow> string option \<Rightarrow> thresholds \<Rightarrow> thresholdDoc list \<Rightarrow> (string \<times> thresholds) \<times> thresholdDoc list" where
  "updateOrgTelemetryThresholdsService org shipmentType input ds =
     (let ty = nullish shipmentType DEFAULT_SHIPMENT_TYPE;
          doc = \<lparr>td_organizationId = org, td_shipmentType = ty, td_thresholds = input\<rparr>;
          ds' = (case update_first (\<lambda>d. td_organizationId d = org \<and> td_shipmentType d = ty) (\<lambda>_. doc) ds of
                   (None, _) \<Rightarrow> ds @ [doc] | (Some d, xs) \<Rightarrow> xs)
      in ((ty, mergeWithDefaults (Some doc)), ds'))"

definition metadataString :: "string \<Rightarrow> shipment \<Rightarrow> string option" where
  "metadataString key sh = (case sh_offChainMetadata sh of
     Some (JObj kvs) \<Rightarrow> (case map_of kvs key of Some (JStr v) \<Rightarrow> Some v | _ \<Rightarrow> None)
   | _ \<Rightarrow> None)"

definition shipmentTypeOf :: "shipment \<Rightarrow> string" where
  "shipmentTypeOf sh = (case metadataString ''shipmentType'' sh of
     Some v \<Rightarrow> if trim v \<noteq> [] then trim v else DEFAULT_SHIPMENT_TYPE
   | None \<Rightarrow> DEFAULT_SHIPMENT_TYPE)"

definition resolveTelemetryThresholdsForShipment ::
  "(string \<Rightarrow> bool) \<Rightarrow> objectId \<Rightarrow> shipment list \<Rightarrow> thresholdDoc list \<Rightarrow> thresholds" where
  "resolveTelemetryThresholdsForShipment isValid shipmentId xs ds =
     (if shipmentId = [] \<or> \<not> isValid shipmentId then mergeWithDefaults None
      else case findShipmentById shipmentId xs of
          None \<Rightarrow> mergeWithDefaults None
        | Some sh \<Rightarrow>
            (if sh_enterpriseId sh = [] then mergeWithDefaults None
             else (let ty = shipmentTypeOf sh; doc = findThreshold (sh_enterpriseId sh) ty ds
                   in if doc = None \<and> ty \<noteq> DEFAULT_SHIPMENT_TYPE
                      then mergeWithDefaults (findThreshold (sh_enterpriseId sh) DEFAULT_SHIPMENT_TYPE ds)
                      else mergeWithDefaults doc)))"

section \<open>Evaluating a reading\<close>

record evaluatedAnomaly =
  ev_shipmentId :: objectId
  ev_timestamp :: millis
  ev_type :: anomalyType
  ev_severity :: anomalySeverity
  ev_message :: string

record reading =
  rd_shipmentId :: objectId
  rd_timestamp :: "millis option"
    \<comment> \<open>\<open>None\<close>: an invalid date\<close>
  rd_temperature :: "rat option"
  rd_humidity :: "rat option"
  rd_batteryLevel :: "rat option"

definition batterySeverity :: "rat \<Rightarrow> rat \<Rightarrow> anomalySeverity" where
  "batterySeverity level lowest =
     (if level < max 0 (lowest / 2) then HIGH else if level < lowest then MEDIUM else LOW)"

definition breach ::
  "(rat \<Rightarrow> rat \<Rightarrow> bool) \<Rightarrow> rat option \<Rightarrow> rat option \<Rightarrow> (rat \<Rightarrow> rat \<Rightarrow> evaluatedAnomaly) \<Rightarrow> evaluatedAnomaly list" where
  "breach R v limit mk = (case (v, limit) of (Some x, Some l) \<Rightarrow> if R x l then [mk x l] else [] | _ \<Rightarrow> [])"

definition evaluateTelemetry :: "(rat \<Rightarrow> string) \<Rightarrow> reading \<Rightarrow> thresholds \<Rightarrow> evaluatedAnomaly list" where
  "evaluateTelemetry num p t =
     (if rd_shipmentId p = [] then []
      else case rd_timestamp p of
          None \<Rightarrow> []
        | Some time \<Rightarrow>
            (let mk = (\<lambda>ty sev msg x l. \<lparr>ev_shipmentId = rd_shipmentId p, ev_timestamp = time, ev_type = ty,
                    ev_severity = sev x l, ev_message = msg x l\<rparr>)
             in breach (>) (rd_temperature p) (th_maxTemp t) (mk TEMPERATURE_EXCEEDED (\<lambda>_ _. HIGH)
                  (\<lambda>x l. ''Temperature exceeded max threshold: '' @ num x @ '' > '' @ num l))
              @ breach (<) (rd_temperature p) (th_minTemp t) (mk TEMPERATURE_BELOW_MIN (\<lambda>_ _. HIGH)
                  (\<lambda>x l. ''Temperature fell below min threshold: '' @ num x @ '' < '' @ num l))
              @ breach (>) (rd_humidity p) (th_maxHumidity t) (mk HUMIDITY_EXCEEDED (\<lambda>_ _. HIGH)
                  (\<lambda>x l. ''Humidity exceeded max threshold: '' @ num x @ '' > '' @ num l))
              @ breach (<) (rd_humidity p) (th_minHumidity t) (mk HUMIDITY_BELOW_MIN (\<lambda>_ _. HIGH)
                  (\<lambda>x l. ''Humidity fell below min threshold: '' @ num x @ '' < '' @ num l))
              @ breach (<) (rd_batteryLevel p) (th_minBatteryLevel t) (mk BATTERY_LOW batterySeverity
                  (\<lambda>x l. ''Battery level below threshold: '' @ num x @ '' < '' @ num l))))"

section \<open>Lost GPS\<close>

definition GPS_LOSS_THRESHOLD :: nat where
  "GPS_LOSS_THRESHOLD = 3"

definition hasValidCoordinates :: "rat \<Rightarrow> rat \<Rightarrow> bool" where
  "hasValidCoordinates latitude longitude \<longleftrightarrow> latitude \<noteq> 0 \<and> longitude \<noteq> 0"

text \<open>The loop over the earlier records, with the streak so far.\<close>

fun gpsStreak :: "nat \<Rightarrow> telemetryDoc list \<Rightarrow> bool \<times> nat" where
  "gpsStreak n [] = (False, n)"
| "gpsStreak n (r # rs) =
     (if \<not> hasValidCoordinates (te_latitude r) (te_longitude r)
      then (if GPS_LOSS_THRESHOLD \<le> n + 1 then (True, n + 1) else gpsStreak (n + 1) rs)
      else (False, n))"

definition recentReadings :: "objectId \<Rightarrow> telemetryDoc list \<Rightarrow> telemetryDoc list" where
  "recentReadings shipmentId ts = take (GPS_LOSS_THRESHOLD + 1)
     (desc_by te_timestamp (findAll telemetryAlive (\<lambda>t. te_shipmentId t = shipmentId) ts))"

definition detectGpsLoss :: "bool \<Rightarrow> objectId \<Rightarrow> rat \<Rightarrow> rat \<Rightarrow> telemetryDoc list \<Rightarrow> bool \<times> nat" where
  "detectGpsLoss storeUp shipmentId lat lng ts =
     (if \<not> storeUp then (False, 0)
      else if length (recentReadings shipmentId ts) < GPS_LOSS_THRESHOLD then (False, 0)
      else if hasValidCoordinates lat lng then (False, 0)
      else gpsStreak 1 (recentReadings shipmentId ts))"

section \<open>The detector of the webhook\<close>

record detection =
  dt_isAnomaly :: bool
  dt_anomalyType :: "telemetryAnomaly option"
  dt_details :: "string list"

text \<open>A JavaScript number as a condition: zero is false, like a missing one.\<close>

definition truthyNum :: "rat option \<Rightarrow> bool" where
  "truthyNum x \<longleftrightarrow> x \<noteq> None \<and> x \<noteq> Some 0"

definition exceeds :: "rat \<Rightarrow> rat option \<Rightarrow> bool" where
  "exceeds x limit \<longleftrightarrow> truthyNum limit \<and> x > the limit"

definition below :: "rat \<Rightarrow> rat option \<Rightarrow> bool" where
  "below x limit \<longleftrightarrow> truthyNum limit \<and> x < the limit"

definition degreesC :: string where
  "degreesC = [CHR 0xB0, CHR ''C'']"

definition classifyTelemetry ::
  "(rat \<Rightarrow> string) \<Rightarrow> thresholds \<Rightarrow> rat \<Rightarrow> rat \<Rightarrow> rat \<Rightarrow> rat option \<Rightarrow> bool \<times> nat
   \<Rightarrow> (telemetryAnomaly \<times> string) option" where
  "classifyTelemetry num t temperature humidity battery shock gps =
     (if exceeds temperature (th_maxTemp t)
      then Some (TEMPERATURE_BREACH, ''Temperature exceeded: '' @ num temperature @ degreesC @ '' > '' @ num (the (th_maxTemp t)) @ degreesC)
      else if below temperature (th_minTemp t)
      then Some (TEMPERATURE_BREACH, ''Temperature below minimum: '' @ num temperature @ degreesC @ '' < '' @ num (the (th_minTemp t)) @ degreesC)
      else if exceeds humidity (th_maxHumidity t)
      then Some (HUMIDITY_BREACH, ''Humidity exceeded: '' @ num humidity @ ''% > '' @ num (the (th_maxHumidity t)) @ ''%'')
      else if below humidity (th_minHumidity t)
      then Some (HUMIDITY_BREACH, ''Humidity below minimum: '' @ num humidity @ ''% < '' @ num (the (th_minHumidity t)) @ ''%'')
      else if truthyNum shock \<and> the shock > 2
      then Some (SHOCK_EVENT, ''Shock detected: '' @ num (the shock) @ ''G'')
      else if below battery (th_minBatteryLevel t)
      then Some (BATTERY_LOW_READING, ''Battery low: '' @ num battery @ ''% < '' @ num (the (th_minBatteryLevel t)) @ ''%'')
      else if fst gps
      then Some (GPS_LOST, ''GPS signal lost for '' @ nat_str (snd gps) @ '' consecutive readings'')
      else None)"

text \<open>
  \<open>detectTelemetryAnomalies\<close>: when the store fails (\<open>storeUp\<close> false) the answer is that nothing
  was found. The degree sign of the messages is the character U+00B0.
\<close>

definition detectTelemetryAnomalies ::
  "bool \<Rightarrow> (rat \<Rightarrow> string) \<Rightarrow> (string \<Rightarrow> bool) \<Rightarrow> thresholdDoc list \<Rightarrow> objectId \<Rightarrow> objectId
   \<Rightarrow> rat \<Rightarrow> rat \<Rightarrow> rat \<Rightarrow> rat option \<Rightarrow> rat \<Rightarrow> rat \<Rightarrow> world \<Rightarrow> detection \<times> world" where
  "detectTelemetryAnomalies storeUp num isValid ds telemetryId shipmentId temperature humidity battery shock lat lng w =
     (if \<not> storeUp
      then (\<lparr>dt_isAnomaly = False, dt_anomalyType = None, dt_details = [''Error during anomaly detection'']\<rparr>, w)
      else
        (let t = resolveTelemetryThresholdsForShipment isValid shipmentId (w_shipments w) ds;
             gps = detectGpsLoss storeUp shipmentId lat lng (w_telemetry w)
         in case classifyTelemetry num t temperature humidity battery shock gps of
              None \<Rightarrow> (\<lparr>dt_isAnomaly = False, dt_anomalyType = None, dt_details = []\<rparr>, w)
            | Some (ty, msg) \<Rightarrow>
                (\<lparr>dt_isAnomaly = True, dt_anomalyType = Some ty, dt_details = [msg]\<rparr>,
                 w\<lparr>w_telemetry := snd (findOneAndUpdate telemetryAlive (\<lambda>x. te_id x = telemetryId)
                     (\<lambda>x. x\<lparr>te_isAnomaly := True, te_anomalyType := Some ty\<rparr>) (w_telemetry w))\<rparr>)))"

section \<open>What the detectors find\<close>

lemma breach_set:
  "x \<in> set (breach R v l mk) \<longleftrightarrow> (\<exists>a b. v = Some a \<and> l = Some b \<and> R a b \<and> x = mk a b)"
  by (auto simp: breach_def split: option.splits)

lemma breach_empty: "breach R v l mk = [] \<longleftrightarrow> \<not> (\<exists>a b. v = Some a \<and> l = Some b \<and> R a b)"
  by (auto simp: breach_def split: option.splits)

lemma breach_types:
  "(\<And>a b. ev_type (mk a b) = ty) \<Longrightarrow> map ev_type (breach R v l mk) = (if breach R v l mk = [] then [] else [ty])"
  by (auto simp: breach_def split: option.splits)

text \<open>The condition under which a reading shows an anomaly of a type.\<close>

fun violates :: "reading \<Rightarrow> thresholds \<Rightarrow> anomalyType \<Rightarrow> bool" where
  "violates p t TEMPERATURE_EXCEEDED = (\<exists>x l. rd_temperature p = Some x \<and> th_maxTemp t = Some l \<and> x > l)"
| "violates p t TEMPERATURE_BELOW_MIN = (\<exists>x l. rd_temperature p = Some x \<and> th_minTemp t = Some l \<and> x < l)"
| "violates p t HUMIDITY_EXCEEDED = (\<exists>x l. rd_humidity p = Some x \<and> th_maxHumidity t = Some l \<and> x > l)"
| "violates p t HUMIDITY_BELOW_MIN = (\<exists>x l. rd_humidity p = Some x \<and> th_minHumidity t = Some l \<and> x < l)"
| "violates p t BATTERY_LOW = (\<exists>x l. rd_batteryLevel p = Some x \<and> th_minBatteryLevel t = Some l \<and> x < l)"

lemma evaluateTelemetry_exact:
  assumes "rd_shipmentId p \<noteq> []" and "rd_timestamp p = Some time"
  shows "ev_type ` set (evaluateTelemetry num p t) = {ty. violates p t ty}"
    and "distinct (map ev_type (evaluateTelemetry num p t))"
    and "e \<in> set (evaluateTelemetry num p t) \<Longrightarrow> ev_shipmentId e = rd_shipmentId p \<and> ev_timestamp e = time"
proof -
  show "ev_type ` set (evaluateTelemetry num p t) = {ty. violates p t ty}"
  proof (intro set_eqI iffI)
    fix ty assume "ty \<in> ev_type ` set (evaluateTelemetry num p t)"
    then show "ty \<in> {ty. violates p t ty}"
      using assms by (auto simp: evaluateTelemetry_def breach_set)
  next
    fix ty assume "ty \<in> {ty. violates p t ty}"
    then show "ty \<in> ev_type ` set (evaluateTelemetry num p t)"
      using assms by (cases ty) (auto simp: evaluateTelemetry_def breach_def)
  qed
  show "distinct (map ev_type (evaluateTelemetry num p t))"
    using assms by (simp add: evaluateTelemetry_def breach_types)
  show "e \<in> set (evaluateTelemetry num p t) \<Longrightarrow> ev_shipmentId e = rd_shipmentId p \<and> ev_timestamp e = time"
    using assms by (auto simp: evaluateTelemetry_def breach_set)
qed

lemma evaluateTelemetry_none:
  assumes "rd_shipmentId p \<noteq> []" and "rd_timestamp p = Some time"
  shows "evaluateTelemetry num p t = [] \<longleftrightarrow> (\<forall>ty. \<not> violates p t ty)"
  using evaluateTelemetry_exact(1)[OF assms, of num t] by auto

text \<open>
  The two detectors agree on temperature, humidity and battery as long as no limit is zero; a limit
  of zero is one the webhook's detector does not enforce.
\<close>

definition no_zero_limit :: "thresholds \<Rightarrow> bool" where
  "no_zero_limit t \<longleftrightarrow> th_maxTemp t \<noteq> Some 0 \<and> th_minTemp t \<noteq> Some 0 \<and> th_maxHumidity t \<noteq> Some 0
     \<and> th_minHumidity t \<noteq> Some 0 \<and> th_minBatteryLevel t \<noteq> Some 0"

definition fullReading :: "objectId \<Rightarrow> millis \<Rightarrow> rat \<Rightarrow> rat \<Rightarrow> rat \<Rightarrow> reading" where
  "fullReading i time temperature humidity battery = \<lparr>rd_shipmentId = i, rd_timestamp = Some time,
     rd_temperature = Some temperature, rd_humidity = Some humidity, rd_batteryLevel = Some battery\<rparr>"

lemma all_types: "(\<forall>ty. P ty) \<longleftrightarrow> P TEMPERATURE_EXCEEDED \<and> P TEMPERATURE_BELOW_MIN \<and> P HUMIDITY_EXCEEDED
    \<and> P HUMIDITY_BELOW_MIN \<and> P BATTERY_LOW"
  by (metis anomalyType.exhaust)

lemma exceeds_iff: "limit \<noteq> Some 0 \<Longrightarrow> exceeds x limit \<longleftrightarrow> (\<exists>l. limit = Some l \<and> x > l)"
  by (auto simp: exceeds_def truthyNum_def)

lemma below_iff: "limit \<noteq> Some 0 \<Longrightarrow> below x limit \<longleftrightarrow> (\<exists>l. limit = Some l \<and> x < l)"
  by (auto simp: below_def truthyNum_def)

lemma detectors_agree:
  assumes "no_zero_limit t" and "i \<noteq> []"
  shows "classifyTelemetry num t temperature humidity battery None (False, n) = None
     \<longleftrightarrow> evaluateTelemetry num (fullReading i time temperature humidity battery) t = []"
proof -
  have e: "evaluateTelemetry num (fullReading i time temperature humidity battery) t = []
      \<longleftrightarrow> (\<forall>ty. \<not> violates (fullReading i time temperature humidity battery) t ty)"
    by (rule evaluateTelemetry_none) (simp_all add: fullReading_def assms(2))
  show ?thesis
    unfolding e all_types using assms(1)
    by (simp add: classifyTelemetry_def exceeds_iff below_iff no_zero_limit_def fullReading_def truthyNum_def)
qed

lemma zero_limit_ignored:
  assumes "th_maxTemp t = Some 0" and "th_minTemp t = None" and "0 < temperature" and "i \<noteq> []"
  shows "(\<forall>ty msg. classifyTelemetry num t temperature humidity battery shock gps = Some (ty, msg) \<longrightarrow> ty \<noteq> TEMPERATURE_BREACH)
     \<and> TEMPERATURE_EXCEEDED \<in> ev_type ` set (evaluateTelemetry num (fullReading i time temperature humidity battery) t)"
proof
  show "\<forall>ty msg. classifyTelemetry num t temperature humidity battery shock gps = Some (ty, msg) \<longrightarrow> ty \<noteq> TEMPERATURE_BREACH"
    using assms(1,2) by (auto simp: classifyTelemetry_def exceeds_def below_def truthyNum_def split: if_splits)
  have "violates (fullReading i time temperature humidity battery) t TEMPERATURE_EXCEEDED"
    using assms by (simp add: fullReading_def)
  then show "TEMPERATURE_EXCEEDED \<in> ev_type ` set (evaluateTelemetry num (fullReading i time temperature humidity battery) t)"
    using evaluateTelemetry_exact(1)[of "fullReading i time temperature humidity battery" time num t] assms(4)
    by (simp add: fullReading_def)
qed

lemma zero_limit_silent:
  assumes "i \<noteq> []" and "0 < temperature"
    and "t = \<lparr>th_maxTemp = Some 0, th_minTemp = None, th_maxHumidity = None, th_minHumidity = None, th_minBatteryLevel = None\<rparr>"
  shows "classifyTelemetry num t temperature humidity battery None (False, n) = None
     \<and> evaluateTelemetry num (fullReading i time temperature humidity battery) t \<noteq> []"
proof
  show "classifyTelemetry num t temperature humidity battery None (False, n) = None"
    by (simp add: assms(3) classifyTelemetry_def exceeds_def below_def truthyNum_def)
  show "evaluateTelemetry num (fullReading i time temperature humidity battery) t \<noteq> []"
    using zero_limit_ignored[of t temperature i num humidity battery None "(False, 0)" time] assms by auto
qed

text \<open>
  The streak starts at one for the current reading and then meets it again, as the newest stored
  record: two bad readings in a row are reported as three.
\<close>

lemma gps_loss_after_two:
  assumes "recentReadings i ts = r # r' # r'' # rs" and "\<not> hasValidCoordinates (te_latitude r) (te_longitude r)"
  shows "fst (detectGpsLoss True i (te_latitude r) (te_longitude r) ts)
     \<longleftrightarrow> \<not> hasValidCoordinates (te_latitude r') (te_longitude r')"
  using assms by (simp add: detectGpsLoss_def GPS_LOSS_THRESHOLD_def)

lemma gps_valid_never_lost:
  "hasValidCoordinates lat lng \<Longrightarrow> \<not> fst (detectGpsLoss storeUp i lat lng ts)"
  by (simp add: detectGpsLoss_def)

section \<open>Profiles\<close>

lemma update_first_const_find:
  assumes "P c"
  shows "List.find P (snd (update_first P (\<lambda>_. c) xs)) = (if List.find P xs = None then None else Some c)"
  using assms by (induction xs) auto

text \<open>What an update answers is what is read afterwards; other profiles are left alone.\<close>

lemma thresholds_read_back:
  assumes "updateOrgTelemetryThresholdsService org ty input ds = (r, ds')"
  shows "getOrgTelemetryThresholdsService org ty ds' = r"
    and "org' \<noteq> org \<or> ty' \<noteq> fst r \<Longrightarrow> findThreshold org' ty' ds' = findThreshold org' ty' ds"
proof -
  let ?ty = "nullish ty DEFAULT_SHIPMENT_TYPE"
  let ?doc = "\<lparr>td_organizationId = org, td_shipmentType = ?ty, td_thresholds = input\<rparr>"
  let ?P = "\<lambda>d. td_organizationId d = org \<and> td_shipmentType d = ?ty"
  let ?u = "update_first ?P (\<lambda>_. ?doc) ds"
  have r: "r = (?ty, mergeWithDefaults (Some ?doc))"
    and ds': "ds' = (if fst ?u = None then ds @ [?doc] else snd ?u)"
    using assms by (auto simp: updateOrgTelemetryThresholdsService_def Let_def split: prod.splits option.splits)
  have P: "?P ?doc" by simp
  have "List.find ?P ds' = Some ?doc"
    using update_first_const_find[of ?P ?doc ds, OF P]
    by (simp add: ds' update_first_fst find_append)
  then show "getOrgTelemetryThresholdsService org ty ds' = r"
    by (simp add: getOrgTelemetryThresholdsService_def findThreshold_def r Let_def)
  assume d: "org' \<noteq> org \<or> ty' \<noteq> fst r"
  then have "List.find (\<lambda>d. td_organizationId d = org' \<and> td_shipmentType d = ty') (snd ?u)
      = List.find (\<lambda>d. td_organizationId d = org' \<and> td_shipmentType d = ty') ds"
    by (intro update_first_find_other) (auto simp: r)
  then show "findThreshold org' ty' ds' = findThreshold org' ty' ds"
    using d by (auto simp: ds' findThreshold_def find_append r split: option.split)
qed

end
