(* ===== verification/Ingestion.thy ===== *)
theory Ingestion
  imports Sensing
begin

text \<open>
  From the sensor to the chain: the telemetry service
  (\<open>src/src/modules/telemetry/telemetry.service.ts\<close>), the IoT webhook
  (\<open>src/src/modules/webhooks/iot.service.ts\<close>), the anomaly service
  (\<open>src/src/modules/anomaly/anomaly.service.ts\<close>), the queues they push to
  (\<open>src/src/infra/redis/queue.ts\<close>) and the anchor worker (\<open>src/src/workers/stellar.worker.ts\<close>).
  The detection that a request schedules with \<open>setImmediate\<close> is a task of the state, run by
  \<open>runDetection\<close> at any later moment.
\<close>

section \<open>State\<close>

record anchorJob =
  aj_telemetryId :: objectId
  aj_shipmentId :: objectId
  aj_dataHash :: string

record alertJob =
  lj_shipmentId :: objectId
  lj_type :: string
  lj_severity :: string
  lj_message :: string

text \<open>What a request leaves for later: detection on a reading from a batch, or from the webhook.\<close>

datatype detectionTask = AfterBulk telemetryDoc | AfterWebhook telemetryDoc

record sensing =
  sn_world :: world
  sn_thresholds :: "thresholdDoc list"
  sn_jobs :: "anchorJob list"
  sn_alerts :: "alertJob list"
  sn_pending :: "detectionTask list"

record sensingEnv =
  se_env :: env
  se_num :: "rat \<Rightarrow> string"
  se_queueUp :: "nat \<Rightarrow> bool"
    \<comment> \<open>whether the k-th push of the request reaches its queue\<close>
  se_storeUp :: bool

section \<open>Telemetry records\<close>

record telemetryInput =
  ti_sensorId :: "string option"
  ti_shipmentId :: objectId
  ti_temperature :: rat
  ti_humidity :: rat
  ti_latitude :: rat
  ti_longitude :: rat
  ti_batteryLevel :: rat
  ti_timestamp :: millis
  ti_dataHash :: string
  ti_shockMagnitude :: "rat option"
  ti_rawPayload :: jval

definition findActiveShipmentBySensorId :: "string \<Rightarrow> shipment list \<Rightarrow> shipment option" where
  "findActiveShipmentBySensorId sensorId xs =
     findOne shipmentAlive (\<lambda>sh. metadataString ''sensorId'' sh = Some sensorId \<and> sh_status sh = IN_TRANSIT) xs"

definition createTelemetryRecord :: "objectId \<Rightarrow> millis \<Rightarrow> telemetryInput \<Rightarrow> telemetryDoc" where
  "createTelemetryRecord fresh now input =
     \<lparr>te_id = fresh, te_sensorId = Some (nullish (ti_sensorId input) (ti_shipmentId input)),
      te_shipmentId = ti_shipmentId input, te_temperature = ti_temperature input,
      te_humidity = ti_humidity input, te_latitude = ti_latitude input, te_longitude = ti_longitude input,
      te_batteryLevel = ti_batteryLevel input, te_timestamp = ti_timestamp input,
      te_dataHash = ti_dataHash input, te_stellarTxHash = None, te_anchorStatus = PENDING_ANCHOR,
      te_anchorError = None, te_verified = False, te_shockMagnitude = ti_shockMagnitude input,
      te_isAnomaly = False, te_anomalyType = None, te_rawPayload = ti_rawPayload input,
      te_deletedAt = None, te_createdAt = now\<rparr>"

definition findTelemetryById :: "objectId \<Rightarrow> telemetryDoc list \<Rightarrow> telemetryDoc option" where
  "findTelemetryById i xs = findOne telemetryAlive (\<lambda>t. te_id t = i) xs"

definition findTelemetryAndUpdate ::
  "objectId \<Rightarrow> (telemetryDoc \<Rightarrow> telemetryDoc) \<Rightarrow> telemetryDoc list \<Rightarrow> telemetryDoc option \<times> telemetryDoc list" where
  "findTelemetryAndUpdate i f xs = findOneAndUpdate telemetryAlive (\<lambda>t. te_id t = i) f xs"

interpretation telemetry: soft_collection te_id telemetryAlive findTelemetryById findTelemetryAndUpdate
  by unfold_locales
    (simp_all add: findTelemetryById_def findOne_def findTelemetryAndUpdate_def findOneAndUpdate_def)

definition updateTelemetryAnchor :: "env \<Rightarrow> objectId \<Rightarrow> string \<Rightarrow> world \<Rightarrow> telemetryDoc option \<times> world" where
  "updateTelemetryAnchor env i tx w =
     (case findTelemetryAndUpdate i (\<lambda>t. t\<lparr>te_stellarTxHash := Some tx, te_anchorStatus := ANCHORED\<rparr>) (w_telemetry w) of
        (None, ts) \<Rightarrow> (None, w\<lparr>w_telemetry := ts\<rparr>)
      | (Some t, ts) \<Rightarrow>
          (Some t, audit env ''system'' TELEMETRY_ANCHORED i (en_now env 0)
             [(''shipmentId'', JStr (te_shipmentId t)), (''stellarTxHash'', JStr tx),
              (''dataHash'', JStr (te_dataHash t))] (w\<lparr>w_telemetry := ts\<rparr>)))"

definition markTelemetryAnchorFailed :: "objectId \<Rightarrow> string \<Rightarrow> world \<Rightarrow> telemetryDoc option \<times> world" where
  "markTelemetryAnchorFailed i msg w =
     (let (r, ts) = findTelemetryAndUpdate i
        (\<lambda>t. t\<lparr>te_anchorStatus := ANCHOR_FAILED, te_anchorError := Some msg\<rparr>) (w_telemetry w)
      in (r, w\<lparr>w_telemetry := ts\<rparr>))"

section \<open>Listing\<close>

record telemetryQuery =
  tq_page_no :: "int option"
  tq_limit_no :: nat
  tq_shipmentId :: "string option"
  tq_organizationId :: "string option"
  tq_from :: "millis option"
  tq_to :: "millis option"
  tq_docs :: "telemetryDoc list"
  tq_shipments :: "shipment list"

text \<open>The organization filter names \<open>organizationId\<close>, which shipments do not have.\<close>

definition organizationShipments :: "telemetryQuery \<Rightarrow> objectId list" where
  "organizationShipments q = map sh_id (findAll shipmentAlive
     (\<lambda>sh. doc_organizationId sh = tq_organizationId q) (tq_shipments q))"

definition telemetryMatches :: "telemetryQuery \<Rightarrow> telemetryDoc \<Rightarrow> bool" where
  "telemetryMatches q t \<longleftrightarrow>
     (if truthy (tq_organizationId q) then te_shipmentId t \<in> set (organizationShipments q)
      else eqOpt (keep_truthy (tq_shipmentId q)) (Some (te_shipmentId t)))
     \<and> inRange (tq_from q) (tq_to q) (te_timestamp t) \<and> telemetryAlive t"

definition getTelemetryService :: "telemetryQuery \<Rightarrow> objectId option \<Rightarrow> telemetryDoc cursorPage" where
  "getTelemetryService q cursor =
     (if truthy (tq_organizationId q) \<and> organizationShipments q = []
      then \<lparr>page_data = [], nextCursor = None, hasMore = False\<rparr>
      else
        (case (keep_truthy cursor, tq_page_no q) of
           (None, Some page) \<Rightarrow>
             (if page \<noteq> 0
              then paginateCursor te_id (take (tq_limit_no q + 1)
                     (drop (nat (offsetSkip page (int (tq_limit_no q))))
                       (newestMatches te_timestamp te_id (telemetryMatches q) (tq_docs q)))) (tq_limit_no q)
              else newestPage te_timestamp te_id (telemetryMatches q) None (tq_limit_no q) (tq_docs q))
         | (c, _) \<Rightarrow> newestPage te_timestamp te_id (telemetryMatches q) c (tq_limit_no q) (tq_docs q)))"

section \<open>Anomaly records\<close>

text \<open>The k-th anomaly of a detection gets the k-th fresh id.\<close>

definition newAnomaly :: "env \<Rightarrow> nat \<Rightarrow> evaluatedAnomaly \<Rightarrow> anomalyDoc" where
  "newAnomaly env k e = \<lparr>am_id = en_fresh env k, am_shipmentId = ev_shipmentId e, am_type = ev_type e,
     am_severity = ev_severity e, am_message = ev_message e, am_timestamp = ev_timestamp e,
     am_resolved = False, am_resolvedAt = None, am_resolvedBy = None, am_resolutionNote = None,
     am_deletedAt = None, am_createdAt = en_now env 0\<rparr>"

definition auditAnomaly :: "env \<Rightarrow> anomalyDoc \<Rightarrow> world \<Rightarrow> world" where
  "auditAnomaly env a w = audit env ''system'' ANOMALY_DETECTED (am_id a) (am_timestamp a)
     [(''shipmentId'', JStr (am_shipmentId a)), (''type'', JStr (anomaly_type_str (am_type a))),
      (''severity'', JStr (severity_str (am_severity a))), (''message'', JStr (am_message a))] w"

definition detectAnomaly :: "sensingEnv \<Rightarrow> reading \<Rightarrow> sensing \<Rightarrow> anomalyDoc list \<times> sensing" where
  "detectAnomaly senv p s =
     (let env = se_env senv; w = sn_world s;
          p' = p\<lparr>rd_timestamp := Some (nullish (rd_timestamp p) (en_now env 0))\<rparr>;
          t = resolveTelemetryThresholdsForShipment (en_isValidObjectId env) (rd_shipmentId p) (w_shipments w) (sn_thresholds s);
          evaluated = evaluateTelemetry (se_num senv) p' t;
          docs = map (\<lambda>(k, e). newAnomaly env k e) (zip [0..<length evaluated] evaluated)
      in (docs, s\<lparr>sn_world := fold (auditAnomaly env) docs (w\<lparr>w_anomalies := w_anomalies w @ docs\<rparr>)\<rparr>))"

record anomalyQuery =
  aq_limit :: nat
  aq_shipmentId :: "string option"
  aq_severity :: "string option"
  aq_type :: "string option"
  aq_resolved :: "bool option"
  aq_docs :: "anomalyDoc list"

definition anomalyMatches :: "anomalyQuery \<Rightarrow> anomalyDoc \<Rightarrow> bool" where
  "anomalyMatches q a \<longleftrightarrow> eqOpt (keep_truthy (aq_shipmentId q)) (Some (am_shipmentId a))
     \<and> eqOpt (keep_truthy (aq_severity q)) (Some (severity_str (am_severity a)))
     \<and> eqOpt (keep_truthy (aq_type q)) (Some (anomaly_type_str (am_type a)))
     \<and> eqOpt (aq_resolved q) (Some (am_resolved a)) \<and> anomalyAlive a"

definition getAnomaliesService :: "anomalyQuery \<Rightarrow> objectId option \<Rightarrow> anomalyDoc cursorPage" where
  "getAnomaliesService q cursor =
     newestPage am_timestamp am_id (anomalyMatches q) (keep_truthy cursor) (aq_limit q) (aq_docs q)"

definition resolveAnomalyService ::
  "millis \<Rightarrow> objectId \<Rightarrow> string \<Rightarrow> string option \<Rightarrow> anomalyDoc list \<Rightarrow> anomalyDoc result \<times> anomalyDoc list" where
  "resolveAnomalyService now i resolvedBy note xs =
     (case findOneAndUpdate anomalyAlive (\<lambda>a. am_id a = i)
             (\<lambda>a. a\<lparr>am_resolved := True, am_resolvedAt := Some now, am_resolvedBy := Some resolvedBy,
                    am_resolutionNote := (case note of None \<Rightarrow> am_resolutionNote a | Some n \<Rightarrow> Some n)\<rparr>) xs of
        (None, ys) \<Rightarrow> (throwApp 404 ''Anomaly not found'' (ErrorCodes NOT_FOUND), ys)
      | (Some a, ys) \<Rightarrow> (Inr a, ys))"

section \<open>Ingesting\<close>

record bulkTelemetryItem =
  bi_shipmentId :: "string option"
  bi_sensorId :: "string option"
  bi_temperature :: rat
  bi_humidity :: rat
  bi_latitude :: rat
  bi_longitude :: rat
  bi_batteryLevel :: "rat option"
  bi_timestamp :: millis
  bi_item :: jval
    \<comment> \<open>the item as it was received\<close>

definition resolveShipment ::
  "string \<Rightarrow> string option \<Rightarrow> string option \<Rightarrow> shipment list \<Rightarrow> objectId result" where
  "resolveShipment notFoundCode shipmentId sensorId xs =
     (if truthy shipmentId then Inr (the shipmentId)
      else if truthy sensorId
      then (case findActiveShipmentBySensorId (the sensorId) xs of
              None \<Rightarrow> throwApp 404 (''No active shipment found for sensor '' @ the sensorId) notFoundCode
            | Some sh \<Rightarrow> Inr (sh_id sh))
      else throwApp 400 ''shipmentId could not be resolved'' (ErrorCodes BAD_REQUEST))"

definition pushStellarAnchorJob :: "bool \<Rightarrow> anchorJob \<Rightarrow> sensing \<Rightarrow> unit result \<times> sensing" where
  "pushStellarAnchorJob queueUp job s =
     (if queueUp then (Inr (), s\<lparr>sn_jobs := sn_jobs s @ [job]\<rparr>) else (Inl (PlainError ''queue unavailable''), s))"

definition locationPayload :: "objectId \<Rightarrow> telemetryDoc \<Rightarrow> telemetryUpdatePayload" where
  "locationPayload shipmentId t = \<lparr>tu_telemetryId = te_id t, tu_shipmentId = te_shipmentId t,
     tu_sensorId = nullish (te_sensorId t) shipmentId, tu_latitude = te_latitude t,
     tu_longitude = te_longitude t, tu_timestamp = toISOString (te_timestamp t)\<rparr>"

text \<open>What both entrances do once the record is stored: queue the anchoring, then announce the position.\<close>

definition announceReading ::
  "sensingEnv \<Rightarrow> nat \<Rightarrow> objectId \<Rightarrow> telemetryDoc \<Rightarrow> detectionTask \<Rightarrow> sensing \<Rightarrow> unit result \<times> sensing" where
  "announceReading senv k shipmentId t task s =
     (case pushStellarAnchorJob (se_queueUp senv k)
             \<lparr>aj_telemetryId = te_id t, aj_shipmentId = shipmentId, aj_dataHash = te_dataHash t\<rparr> s of
        (Inl e, s1) \<Rightarrow> (Inl e, s1)
      | (Inr u, s1) \<Rightarrow>
          (let (r, evs) = emitToShipment (en_socketReady (se_env senv)) shipmentId
                 (LocationUpdate (locationPayload shipmentId t)) (w_sent (sn_world s1));
               s2 = s1\<lparr>sn_world := (sn_world s1)\<lparr>w_sent := evs\<rparr>\<rparr>
           in case r of Inl e \<Rightarrow> (Inl e, s2) | Inr u \<Rightarrow> (Inr (), s2\<lparr>sn_pending := sn_pending s2 @ [task]\<rparr>)))"

definition bulkRecord :: "sensingEnv \<Rightarrow> nat \<Rightarrow> objectId \<Rightarrow> bulkTelemetryItem \<Rightarrow> telemetryDoc" where
  "bulkRecord senv k shipmentId it = createTelemetryRecord (en_fresh (se_env senv) k) (en_now (se_env senv) k)
     \<lparr>ti_sensorId = bi_sensorId it, ti_shipmentId = shipmentId, ti_temperature = bi_temperature it,
      ti_humidity = bi_humidity it, ti_latitude = bi_latitude it, ti_longitude = bi_longitude it,
      ti_batteryLevel = nullish (bi_batteryLevel it) 100, ti_timestamp = bi_timestamp it,
      ti_dataHash = nullish (generateDataHash (en_sha256 (se_env senv)) (bi_item it)) [],
      ti_shockMagnitude = None, ti_rawPayload = bi_item it\<rparr>"

definition ingestItem :: "sensingEnv \<Rightarrow> nat \<Rightarrow> bulkTelemetryItem \<Rightarrow> sensing \<Rightarrow> objectId result \<times> sensing" where
  "ingestItem senv k it s =
     (case resolveShipment (ErrorCodes NOT_FOUND) (bi_shipmentId it) (bi_sensorId it) (w_shipments (sn_world s)) of
        Inl e \<Rightarrow> (Inl e, s)
      | Inr shipmentId \<Rightarrow>
          (let t = bulkRecord senv k shipmentId it; w = sn_world s;
               s1 = s\<lparr>sn_world := dropEta (se_env senv) shipmentId (w\<lparr>w_telemetry := w_telemetry w @ [t]\<rparr>)\<rparr>
           in case announceReading senv k shipmentId t (AfterBulk t) s1 of
                (Inl e, s2) \<Rightarrow> (Inl e, s2)
              | (Inr u, s2) \<Rightarrow> (Inr (te_id t), s2)))"

text \<open>The loop over the items; the first error ends it and leaves what was stored before.\<close>

fun ingestItems :: "sensingEnv \<Rightarrow> nat \<Rightarrow> bulkTelemetryItem list \<Rightarrow> sensing \<Rightarrow> objectId list result \<times> sensing" where
  "ingestItems senv k [] s = (Inr [], s)"
| "ingestItems senv k (it # its) s =
     (case ingestItem senv k it s of
        (Inl e, s1) \<Rightarrow> (Inl e, s1)
      | (Inr i, s1) \<Rightarrow>
          (case ingestItems senv (Suc k) its s1 of
             (Inl e, s2) \<Rightarrow> (Inl e, s2)
           | (Inr ids, s2) \<Rightarrow> (Inr (i # ids), s2)))"

definition bulkIngestTelemetry ::
  "sensingEnv \<Rightarrow> bulkTelemetryItem list \<Rightarrow> sensing \<Rightarrow> (nat \<times> objectId list) result \<times> sensing" where
  "bulkIngestTelemetry senv items s =
     (case ingestItems senv 0 items s of
        (Inl e, s1) \<Rightarrow> (Inl e, s1)
      | (Inr ids, s1) \<Rightarrow> (Inr (length ids, ids), s1))"

section \<open>The webhook\<close>

record iotFields =
  io_humidity :: rat
  io_batteryLevel :: "rat option"
  io_timestamp :: millis
  io_shockMagnitude :: "rat option"
  io_gpsLost :: "bool option"
  io_body :: jval

text \<open>The two shapes of the body: with \<open>shipmentId\<close> (and maybe a sensor), or from a bare sensor.\<close>

datatype iotWebhookBody =
    ByShipment objectId "string option" rat rat rat iotFields
      \<comment> \<open>shipmentId, sensorId, temperature, latitude, longitude\<close>
  | BySensor string rat rat rat iotFields
      \<comment> \<open>sensorId, temp, location.lat, location.lng\<close>

record normalizedBody =
  nb_sensorId :: "string option"
  nb_shipmentId :: "string option"
  nb_temperature :: rat
  nb_latitude :: rat
  nb_longitude :: rat
  nb_batteryLevel :: rat
  nb_fields :: iotFields

fun normalizeIotWebhookBody :: "iotWebhookBody \<Rightarrow> normalizedBody" where
  "normalizeIotWebhookBody (ByShipment i sensor temperature lat lng fs) =
     \<lparr>nb_sensorId = None, nb_shipmentId = Some i, nb_temperature = temperature, nb_latitude = lat,
      nb_longitude = lng, nb_batteryLevel = nullish (io_batteryLevel fs) 100, nb_fields = fs\<rparr>"
| "normalizeIotWebhookBody (BySensor sensor temperature lat lng fs) =
     \<lparr>nb_sensorId = Some sensor, nb_shipmentId = None, nb_temperature = temperature, nb_latitude = lat,
      nb_longitude = lng, nb_batteryLevel = nullish (io_batteryLevel fs) 100, nb_fields = fs\<rparr>"

definition webhookRecord :: "sensingEnv \<Rightarrow> objectId \<Rightarrow> normalizedBody \<Rightarrow> telemetryDoc" where
  "webhookRecord senv shipmentId b = createTelemetryRecord (en_fresh (se_env senv) 0) (en_now (se_env senv) 0)
     \<lparr>ti_sensorId = nb_sensorId b, ti_shipmentId = shipmentId, ti_temperature = nb_temperature b,
      ti_humidity = io_humidity (nb_fields b), ti_latitude = nb_latitude b, ti_longitude = nb_longitude b,
      ti_batteryLevel = nb_batteryLevel b, ti_timestamp = io_timestamp (nb_fields b),
      ti_dataHash = nullish (generateDataHash (en_sha256 (se_env senv)) (io_body (nb_fields b))) [],
      ti_shockMagnitude = io_shockMagnitude (nb_fields b), ti_rawPayload = io_body (nb_fields b)\<rparr>"

definition processIotWebhook :: "sensingEnv \<Rightarrow> iotWebhookBody \<Rightarrow> sensing \<Rightarrow> telemetryDoc result \<times> sensing" where
  "processIotWebhook senv body s =
     (let b = normalizeIotWebhookBody body in
      case resolveShipment ''NOT_FOUND'' (nb_shipmentId b) (nb_sensorId b) (w_shipments (sn_world s)) of
        Inl e \<Rightarrow> (Inl e, s)
      | Inr shipmentId \<Rightarrow>
          (let t = webhookRecord senv shipmentId b; w = sn_world s;
               s1 = s\<lparr>sn_world := w\<lparr>w_telemetry := w_telemetry w @ [t]\<rparr>\<rparr>
           in case announceReading senv 0 shipmentId t (AfterWebhook t) s1 of
                (Inl e, s2) \<Rightarrow> (Inl e, s2)
              | (Inr u, s2) \<Rightarrow> (Inr t, s2)))"

section \<open>The detection that follows\<close>

primrec telemetry_anomaly_str :: "telemetryAnomaly \<Rightarrow> string" where
  "telemetry_anomaly_str TEMPERATURE_BREACH = ''TEMPERATURE_BREACH''"
| "telemetry_anomaly_str HUMIDITY_BREACH = ''HUMIDITY_BREACH''"
| "telemetry_anomaly_str SHOCK_EVENT = ''SHOCK_EVENT''"
| "telemetry_anomaly_str GPS_LOST = ''GPS_LOST''"
| "telemetry_anomaly_str BATTERY_LOW_READING = ''BATTERY_LOW''"

text \<open>
  The alert of one anomaly: to the room of the shipment, then to the alert queue. A failure of either
  is logged and stays its own (the anomalies of a reading are handled side by side).
\<close>

definition raiseAlert :: "sensingEnv \<Rightarrow> nat \<Rightarrow> anomalyAlertPayload \<Rightarrow> sensing \<Rightarrow> sensing" where
  "raiseAlert senv k a s =
     (let (r, evs) = emitToShipment (en_socketReady (se_env senv)) (aa_shipmentId a) (AnomalyAlert a) (w_sent (sn_world s));
          s1 = s\<lparr>sn_world := (sn_world s)\<lparr>w_sent := evs\<rparr>\<rparr>
      in case r of Inl e \<Rightarrow> s1
         | Inr u \<Rightarrow> (if se_queueUp senv k
             then s1\<lparr>sn_alerts := sn_alerts s1 @ [\<lparr>lj_shipmentId = aa_shipmentId a, lj_type = aa_type a,
                    lj_severity = aa_severity a, lj_message = aa_message a\<rparr>]\<rparr>
             else s1))"

definition alertOf :: "anomalyDoc \<Rightarrow> anomalyAlertPayload" where
  "alertOf a = \<lparr>aa_anomalyId = am_id a, aa_shipmentId = am_shipmentId a,
     aa_type = anomaly_type_str (am_type a), aa_severity = severity_str (am_severity a), aa_message = am_message a\<rparr>"

fun raiseAlerts :: "sensingEnv \<Rightarrow> nat \<Rightarrow> anomalyAlertPayload list \<Rightarrow> sensing \<Rightarrow> sensing" where
  "raiseAlerts senv k [] s = s"
| "raiseAlerts senv k (a # as) s = raiseAlerts senv (Suc k) as (raiseAlert senv k a s)"

text \<open>Running the k-th scheduled task. A store that fails ends the task without a trace but a log line.\<close>

definition runDetection :: "sensingEnv \<Rightarrow> nat \<Rightarrow> sensing \<Rightarrow> sensing" where
  "runDetection senv k s =
     (if length (sn_pending s) \<le> k then s
      else let s0 = s\<lparr>sn_pending := take k (sn_pending s) @ drop (Suc k) (sn_pending s)\<rparr> in
        case sn_pending s ! k of
          AfterBulk t \<Rightarrow>
            (if \<not> se_storeUp senv then s0
             else let (docs, s1) = detectAnomaly senv \<lparr>rd_shipmentId = te_shipmentId t,
                    rd_timestamp = Some (te_timestamp t), rd_temperature = Some (te_temperature t),
                    rd_humidity = Some (te_humidity t), rd_batteryLevel = Some (te_batteryLevel t)\<rparr> s0
                  in raiseAlerts senv 0 (map alertOf docs) s1)
        | AfterWebhook t \<Rightarrow>
            (let (d, w) = detectTelemetryAnomalies (se_storeUp senv) (se_num senv) (en_isValidObjectId (se_env senv))
                   (sn_thresholds s0) (te_id t) (te_shipmentId t) (te_temperature t) (te_humidity t)
                   (te_batteryLevel t) (te_shockMagnitude t) (te_latitude t) (te_longitude t) (sn_world s0);
                 s1 = s0\<lparr>sn_world := w\<rparr>
             in case dt_anomalyType d of
                  None \<Rightarrow> s1
                | Some ty \<Rightarrow> (if dt_isAnomaly d
                    then raiseAlert senv 0 \<lparr>aa_anomalyId = te_id t, aa_shipmentId = te_shipmentId t,
                        aa_type = telemetry_anomaly_str ty, aa_severity = ''HIGH'',
                        aa_message = join ''; '' (dt_details d)\<rparr> s1
                    else s1)))"

section \<open>Anchoring\<close>

text \<open>
  \<open>processStellarAnchor\<close>: one attempt at a job. \<open>anchor\<close> is the adapter's \<open>anchorEvent\<close>, \<open>actor\<close> the
  address of the configured key; \<open>updUp\<close> and \<open>markUp\<close> tell whether the two writes get through.
\<close>

definition errorMessage :: "exn \<Rightarrow> string" where
  "errorMessage e = (case e of App a \<Rightarrow> errMessage a | PlainError m \<Rightarrow> m | JsonSyntax \<Rightarrow> ''Unexpected token''
     | MulterFileSize \<Rightarrow> ''File too large'' | EntityTooLarge \<Rightarrow> ''request entity too large''
     | DuplicateKey f \<Rightarrow> ''E11000 duplicate key error'' | MongooseValidation ms \<Rightarrow> ''Validation failed'')"

record anchorEnv =
  ar_anchor :: "anchorArgs \<Rightarrow> anchorResult result"
  ar_actor :: "string result"
  ar_updUp :: bool
  ar_markUp :: bool

definition processStellarAnchor :: "env \<Rightarrow> anchorEnv \<Rightarrow> anchorJob \<Rightarrow> world \<Rightarrow> string result \<times> world" where
  "processStellarAnchor env ae job w =
     (let failed = (\<lambda>e. (Inl e, if ar_markUp ae
            then snd (markTelemetryAnchorFailed (aj_telemetryId job) (errorMessage e) w) else w)) in
      case ar_actor ae of Inl e \<Rightarrow> failed e | Inr actor \<Rightarrow>
      (case ar_anchor ae \<lparr>aa_shipment_id = aj_shipmentId job, aa_data_hash = aj_dataHash job, aa_actor = actor\<rparr> of
         Inl e \<Rightarrow> failed e
       | Inr r \<Rightarrow>
           (if ar_updUp ae then (Inr (an_txHash r), snd (updateTelemetryAnchor env (aj_telemetryId job) (an_txHash r) w))
            else failed (PlainError ''store unavailable''))))"

text \<open>The queue tries a job again until it succeeds or its three attempts are used up.\<close>

definition ANCHOR_ATTEMPTS :: nat where
  "ANCHOR_ATTEMPTS = 3"

fun runAnchorJob :: "env \<Rightarrow> anchorEnv list \<Rightarrow> anchorJob \<Rightarrow> world \<Rightarrow> string result \<times> world" where
  "runAnchorJob env [] job w = (Inl (PlainError ''job stalled''), w)"
| "runAnchorJob env [ae] job w = processStellarAnchor env ae job w"
| "runAnchorJob env (ae # aes) job w =
     (case processStellarAnchor env ae job w of
        (Inr tx, w1) \<Rightarrow> (Inr tx, w1)
      | (Inl e, w1) \<Rightarrow> runAnchorJob env aes job w1)"

section \<open>Properties of ingestion\<close>

text \<open>What a stored reading of a batch looks like.\<close>

definition stored_for :: "sensingEnv \<Rightarrow> bulkTelemetryItem \<Rightarrow> telemetryDoc \<Rightarrow> bool" where
  "stored_for senv it t \<longleftrightarrow> te_anchorStatus t = PENDING_ANCHOR \<and> te_temperature t = bi_temperature it
     \<and> te_humidity t = bi_humidity it \<and> te_latitude t = bi_latitude it \<and> te_longitude t = bi_longitude it
     \<and> te_timestamp t = bi_timestamp it \<and> telemetryAlive t
     \<and> te_dataHash t = nullish (generateDataHash (en_sha256 (se_env senv)) (bi_item it)) []"

definition job_for :: "telemetryDoc \<Rightarrow> anchorJob" where
  "job_for t = \<lparr>aj_telemetryId = te_id t, aj_shipmentId = te_shipmentId t, aj_dataHash = te_dataHash t\<rparr>"

lemma announceReading_state:
  assumes "announceReading senv k i t task s = (r, s')"
  shows "w_telemetry (sn_world s') = w_telemetry (sn_world s)"
    and "r = Inr () \<Longrightarrow> sn_jobs s' = sn_jobs s @ [\<lparr>aj_telemetryId = te_id t, aj_shipmentId = i, aj_dataHash = te_dataHash t\<rparr>]"
    and "r = Inr () \<Longrightarrow> sn_pending s' = sn_pending s @ [task]"
    and "w_shipments (sn_world s') = w_shipments (sn_world s)"
    and "w_redis (sn_world s') = w_redis (sn_world s) \<and> w_etaDown (sn_world s') = w_etaDown (sn_world s)"
  using assms
  by (auto simp: announceReading_def pushStellarAnchorJob_def emitToShipment_def Let_def split: if_splits)

lemma bulkRecord_shipment [simp]: "te_shipmentId (bulkRecord senv k i it) = i"
  by (simp add: bulkRecord_def createTelemetryRecord_def)

lemma ingestItem_ok:
  assumes "ingestItem senv k it s = (Inr i, s')"
  shows "\<exists>t. stored_for senv it t \<and> te_id t = i \<and> i = en_fresh (se_env senv) k
     \<and> w_telemetry (sn_world s') = w_telemetry (sn_world s) @ [t]
     \<and> sn_jobs s' = sn_jobs s @ [job_for t] \<and> sn_pending s' = sn_pending s @ [AfterBulk t]
     \<and> w_shipments (sn_world s') = w_shipments (sn_world s)"
proof -
  obtain sid where r: "resolveShipment (ErrorCodes NOT_FOUND) (bi_shipmentId it) (bi_sensorId it) (w_shipments (sn_world s)) = Inr sid"
    using assms by (auto simp: ingestItem_def split: sum.splits)
  let ?t = "bulkRecord senv k sid it" and ?w = "sn_world s"
  let ?s = "s\<lparr>sn_world := dropEta (se_env senv) sid (?w\<lparr>w_telemetry := w_telemetry ?w @ [?t]\<rparr>)\<rparr>"
  obtain u where a: "announceReading senv k sid ?t (AfterBulk ?t) ?s = (Inr u, s')" and i: "i = te_id ?t"
    using assms r by (auto simp: ingestItem_def Let_def split: sum.splits prod.splits)
  have st: "stored_for senv it ?t" "te_id ?t = en_fresh (se_env senv) k"
    by (simp_all add: stored_for_def bulkRecord_def createTelemetryRecord_def telemetryAlive_def)
  show ?thesis
    using announceReading_state[OF a] st i by (intro exI[of _ ?t]) (simp add: job_for_def)
qed

text \<open>An item either is stored with its job and its task, or leaves at most one reading behind.\<close>

lemma ingestItem_error:
  assumes "ingestItem senv k it s = (Inl e, s')"
  shows "\<exists>ts. w_telemetry (sn_world s') = w_telemetry (sn_world s) @ ts \<and> length ts \<le> 1
     \<and> sn_pending s' = sn_pending s"
proof (cases "resolveShipment (ErrorCodes NOT_FOUND) (bi_shipmentId it) (bi_sensorId it) (w_shipments (sn_world s))")
  case (Inl e')
  then show ?thesis using assms by (simp add: ingestItem_def)
next
  case (Inr sid)
  then show ?thesis using assms
    by (auto simp: ingestItem_def announceReading_def pushStellarAnchorJob_def emitToShipment_def Let_def
        split: if_splits)
qed

lemma ingestItems_ok:
  assumes "ingestItems senv k its s = (Inr ids, s')"
  shows "\<exists>ts. list_all2 (stored_for senv) its ts \<and> map te_id ts = ids
     \<and> w_telemetry (sn_world s') = w_telemetry (sn_world s) @ ts
     \<and> sn_jobs s' = sn_jobs s @ map job_for ts \<and> sn_pending s' = sn_pending s @ map AfterBulk ts"
  using assms
proof (induction its arbitrary: k s ids)
  case (Cons it its)
  obtain i s1 where one: "ingestItem senv k it s = (Inr i, s1)"
    using Cons.prems by (auto split: prod.splits sum.splits)
  obtain js where rest: "ingestItems senv (Suc k) its s1 = (Inr js, s')" and ids: "ids = i # js"
    using Cons.prems one by (auto split: prod.splits sum.splits)
  obtain t where "stored_for senv it t" "te_id t = i" "w_telemetry (sn_world s1) = w_telemetry (sn_world s) @ [t]"
      "sn_jobs s1 = sn_jobs s @ [job_for t]" "sn_pending s1 = sn_pending s @ [AfterBulk t]"
    using ingestItem_ok[OF one] by blast
  moreover obtain ts where "list_all2 (stored_for senv) its ts" "map te_id ts = js"
      "w_telemetry (sn_world s') = w_telemetry (sn_world s1) @ ts"
      "sn_jobs s' = sn_jobs s1 @ map job_for ts" "sn_pending s' = sn_pending s1 @ map AfterBulk ts"
    using Cons.IH[OF rest] by blast
  ultimately show ?case by (intro exI[of _ "t # ts"]) (simp add: ids)
qed simp

text \<open>A batch that fails keeps the readings before the failing one.\<close>

lemma ingestItems_error:
  assumes "ingestItems senv k its s = (Inl e, s')"
  shows "\<exists>n ts. n < length its \<and> w_telemetry (sn_world s') = w_telemetry (sn_world s) @ ts
     \<and> n \<le> length ts \<and> length ts \<le> Suc n \<and> list_all2 (stored_for senv) (take n its) (take n ts)"
  using assms
proof (induction its arbitrary: k s)
  case (Cons it its)
  show ?case
  proof (cases "ingestItem senv k it s")
    case (Pair r s1)
    show ?thesis
    proof (cases r)
      case (Inl e')
      then show ?thesis using Cons.prems Pair ingestItem_error[of senv k it s e' s1]
        by (intro exI[of _ 0]) auto
    next
      case (Inr i)
      then obtain t where t: "stored_for senv it t" "w_telemetry (sn_world s1) = w_telemetry (sn_world s) @ [t]"
        using ingestItem_ok[of senv k it s i s1] Pair by blast
      have "ingestItems senv (Suc k) its s1 = (Inl e, s')"
        using Cons.prems Pair Inr by (auto split: prod.splits sum.splits)
      from Cons.IH[OF this] obtain n ts where "n < length its"
          "w_telemetry (sn_world s') = w_telemetry (sn_world s1) @ ts"
          "n \<le> length ts" "length ts \<le> Suc n" "list_all2 (stored_for senv) (take n its) (take n ts)" by blast
      then show ?thesis using t by (intro exI[of _ "Suc n"] exI[of _ "t # ts"]) simp
    qed
  qed
qed simp

text \<open>The webhook leaves the cached estimate of the shipment as it was.\<close>

lemma webhook_keeps_estimate:
  "w_redis (sn_world (snd (processIotWebhook senv body s))) = w_redis (sn_world s)"
proof -
  have "w_redis (sn_world s') = w_redis (sn_world s0)"
    if "announceReading senv k i t task s0 = (r, s')" for senv k i t task s0 r s'
    using announceReading_state(5)[OF that] by simp
  then show ?thesis
    by (auto simp: processIotWebhook_def Let_def split: sum.splits prod.splits)
qed

section \<open>Properties of the listings\<close>

definition telemetryFetch :: "telemetryQuery \<Rightarrow> objectId option \<Rightarrow> telemetryDoc cursorPage" where
  "telemetryFetch q c = getTelemetryService (q\<lparr>tq_page_no := None\<rparr>) c"

lemma telemetryMatches_page [simp]: "telemetryMatches (q\<lparr>tq_page_no := p\<rparr>) = telemetryMatches q"
  by (rule ext) (simp add: telemetryMatches_def organizationShipments_def)

interpretation telemetry_pages: newest_first te_timestamp te_id telemetryMatches tq_docs tq_limit_no telemetryFetch
proof unfold_locales
  fix q and c :: "objectId option" assume "c \<noteq> Some []"
  then have c: "keep_truthy c = c" by (cases c) auto
  show "telemetryFetch q c = newestPage te_timestamp te_id (telemetryMatches q) c (tq_limit_no q) (tq_docs q)"
  proof (cases "truthy (tq_organizationId q) \<and> organizationShipments q = []")
    case True
    then have "filter (\<lambda>x. telemetryMatches q x \<and> from_cursor te_id c x) (tq_docs q) = []"
      by (simp add: telemetryMatches_def)
    then show ?thesis using True
      by (simp add: telemetryFetch_def getTelemetryService_def organizationShipments_def newestPage_def
          paginateCursor_def desc_by_def Let_def)
  next
    case False
    then show ?thesis using c
      by (auto simp: telemetryFetch_def getTelemetryService_def organizationShipments_def split: option.split)
  qed
qed

interpretation anomaly_pages: newest_first am_timestamp am_id anomalyMatches aq_docs aq_limit getAnomaliesService
proof unfold_locales
  fix q and c :: "objectId option" assume "c \<noteq> Some []"
  then have "keep_truthy c = c" by (cases c) auto
  then show "getAnomaliesService q c = newestPage am_timestamp am_id (anomalyMatches q) c (aq_limit q) (aq_docs q)"
    by (simp add: getAnomaliesService_def)
qed

text \<open>
  A reading stored after the last one of the first page but dated before it is on no later page:
  the pages are cut by date, the cursor by id.
\<close>

lemma late_reading_lost:
  assumes "\<And>t. t \<in> set (tq_docs q) \<Longrightarrow> te_id t \<noteq> []" and "nextCursor (telemetryFetch q None) = Some c"
    and "c \<le> te_id x" and "x \<notin> set (page_data (telemetryFetch q None))"
    and "walk fuel (telemetryFetch q) None = Some zs"
  shows "x \<notin> set zs"
proof
  assume x: "x \<in> set zs"
  have "c \<in> te_id ` set (page_data (telemetryFetch q None))"
    by (rule telemetry_pages.next_in_page[OF assms(2)]) simp
  then obtain d where d: "d \<in> set (page_data (telemetryFetch q None))" "c = te_id d" by auto
  then have "d \<in> set (tq_docs q)"
    by (auto simp: telemetry_pages.fetch_spec newestPage_def paginateCursor_data dest!: in_set_takeD)
  then have "c \<noteq> []" using assms(1) d by simp
  obtain fuel' where f: "fuel = Suc fuel'" using assms(5) by (cases fuel) auto
  then obtain ys where ys: "walk fuel' (telemetryFetch q) (Some c) = Some ys"
      "zs = page_data (telemetryFetch q None) @ ys"
    using assms(2,5) by auto
  then have "x \<in> set ys" using x assms(4) by simp
  then have "te_id x < c"
    using telemetry_pages.walk_below_cursor[OF assms(1) ys(1) \<open>c \<noteq> []\<close>] by blast
  then show False using assms(3) by simp
qed

section \<open>Properties of anchoring\<close>

lemma updateTelemetryAnchor_telemetry:
  "w_telemetry (snd (updateTelemetryAnchor env i tx w))
     = snd (findTelemetryAndUpdate i (\<lambda>t. t\<lparr>te_stellarTxHash := Some tx, te_anchorStatus := ANCHORED\<rparr>) (w_telemetry w))"
  by (simp add: updateTelemetryAnchor_def audit_frame split: prod.split option.split)

lemma markFailed_telemetry:
  "w_telemetry (snd (markTelemetryAnchorFailed i msg w))
     = snd (findTelemetryAndUpdate i (\<lambda>t. t\<lparr>te_anchorStatus := ANCHOR_FAILED, te_anchorError := Some msg\<rparr>) (w_telemetry w))"
  by (simp add: markTelemetryAnchorFailed_def case_prod_beta)

lemma anchor_success:
  assumes "processStellarAnchor env ae job w = (Inr tx, w')"
    and "findTelemetryById (aj_telemetryId job) (w_telemetry w) = Some t"
  shows "findTelemetryById (aj_telemetryId job) (w_telemetry w')
      = Some (t\<lparr>te_stellarTxHash := Some tx, te_anchorStatus := ANCHORED\<rparr>)"
proof -
  have w': "w' = snd (updateTelemetryAnchor env (aj_telemetryId job) tx w)"
    using assms(1) by (auto simp: processStellarAnchor_def Let_def split: sum.splits if_splits)
  have "telemetryAlive t" using telemetry.find_sound[OF assms(2)] by simp
  then show ?thesis
    unfolding w' updateTelemetryAnchor_telemetry
    by (intro telemetry.read_own_write[OF assms(2)]) (simp_all add: telemetryAlive_def)
qed

lemma anchor_failure:
  assumes "processStellarAnchor env ae job w = (Inl e, w')" and "ar_markUp ae"
    and "findTelemetryById (aj_telemetryId job) (w_telemetry w) = Some t"
  shows "findTelemetryById (aj_telemetryId job) (w_telemetry w')
      = Some (t\<lparr>te_anchorStatus := ANCHOR_FAILED, te_anchorError := Some (errorMessage e)\<rparr>)"
proof -
  have w': "w' = snd (markTelemetryAnchorFailed (aj_telemetryId job) (errorMessage e) w)"
    using assms(1,2) by (auto simp: processStellarAnchor_def Let_def split: sum.splits if_splits)
  have "telemetryAlive t" using telemetry.find_sound[OF assms(3)] by simp
  then show ?thesis
    unfolding w' markFailed_telemetry
    by (intro telemetry.read_own_write[OF assms(3)]) (simp_all add: telemetryAlive_def)
qed

text \<open>After the last attempt the record says how the last attempt went, and keeps what it measured.\<close>

definition same_reading :: "telemetryDoc \<Rightarrow> telemetryDoc \<Rightarrow> bool" where
  "same_reading t t' \<longleftrightarrow> te_id t' = te_id t \<and> te_shipmentId t' = te_shipmentId t \<and> te_dataHash t' = te_dataHash t
     \<and> te_temperature t' = te_temperature t \<and> te_timestamp t' = te_timestamp t"

definition outcome_recorded :: "telemetryDoc \<Rightarrow> string result \<Rightarrow> telemetryDoc \<Rightarrow> bool" where
  "outcome_recorded t r t' \<longleftrightarrow> same_reading t t'
     \<and> (case r of Inr tx \<Rightarrow> te_anchorStatus t' = ANCHORED \<and> te_stellarTxHash t' = Some tx
        | Inl e \<Rightarrow> te_anchorStatus t' = ANCHOR_FAILED \<and> te_anchorError t' = Some (errorMessage e)
            \<and> te_stellarTxHash t' = te_stellarTxHash t)"

lemma one_attempt:
  assumes "processStellarAnchor env ae job w = (r, w')" and "ar_markUp ae"
    and "findTelemetryById (aj_telemetryId job) (w_telemetry w) = Some t"
  shows "\<exists>t'. findTelemetryById (aj_telemetryId job) (w_telemetry w') = Some t' \<and> outcome_recorded t r t'"
proof (cases r)
  case (Inl e)
  show ?thesis using anchor_failure[OF assms(1)[unfolded Inl] assms(2,3)]
    by (simp add: Inl outcome_recorded_def same_reading_def)
next
  case (Inr tx)
  show ?thesis using anchor_success[OF assms(1)[unfolded Inr] assms(3)]
    by (simp add: Inr outcome_recorded_def same_reading_def)
qed

lemma outcome_after_failure:
  "outcome_recorded t (Inl e) t1 \<Longrightarrow> outcome_recorded t1 r t2 \<Longrightarrow> outcome_recorded t r t2"
  by (auto simp: outcome_recorded_def same_reading_def split: sum.splits)

lemma runAnchorJob_status:
  assumes "aes \<noteq> []" and "\<forall>ae\<in>set aes. ar_markUp ae"
    and "findTelemetryById (aj_telemetryId job) (w_telemetry w) = Some t"
    and "runAnchorJob env aes job w = (r, w')"
  shows "\<exists>t'. findTelemetryById (aj_telemetryId job) (w_telemetry w') = Some t' \<and> outcome_recorded t r t'"
  using assms
proof (induction aes arbitrary: w t)
  case (Cons ae aes)
  obtain r1 w1 where p: "processStellarAnchor env ae job w = (r1, w1)" by fastforce
  obtain t1 where t1: "findTelemetryById (aj_telemetryId job) (w_telemetry w1) = Some t1" "outcome_recorded t r1 t1"
    using one_attempt[OF p _ Cons.prems(3)] Cons.prems(2) by auto
  show ?case
  proof (cases "(\<exists>tx. r1 = Inr tx) \<or> aes = []")
    case True
    then have "(r, w') = (r1, w1)" using Cons.prems(4) p by (cases aes) auto
    then show ?thesis using t1 by simp
  next
    case False
    then obtain e where e: "r1 = Inl e" and ne: "aes \<noteq> []" by (cases r1) auto
    then have "runAnchorJob env aes job w1 = (r, w')" using Cons.prems(4) p by (cases aes) auto
    from Cons.IH[OF ne _ t1(1) this] Cons.prems(2) t1(2) e show ?thesis
      using outcome_after_failure by (metis list.set_intros(2))
  qed
qed simp

text \<open>
  A reading whose first attempt reached the chain but not the store ends as failed, without the hash
  of the transaction that anchored it, when the chain turns the repeats away.
\<close>

lemma anchored_but_failed:
  assumes "findTelemetryById (aj_telemetryId job) (w_telemetry w) = Some t" and "te_stellarTxHash t = None"
    and "ar_actor a1 = Inr actor"
    and "ar_anchor a1 \<lparr>aa_shipment_id = aj_shipmentId job, aa_data_hash = aj_dataHash job, aa_actor = actor\<rparr> = Inr r"
    and "\<not> ar_updUp a1" and "\<And>a args. a \<in> {a2, a3} \<Longrightarrow> \<exists>e. ar_anchor a args = Inl e"
    and "\<And>a. a \<in> {a1, a2, a3} \<Longrightarrow> ar_markUp a"
  shows "\<exists>t'. findTelemetryById (aj_telemetryId job) (w_telemetry (snd (runAnchorJob env [a1, a2, a3] job w))) = Some t'
     \<and> te_anchorStatus t' = ANCHOR_FAILED \<and> te_stellarTxHash t' = None"
proof -
  have fail: "\<exists>e v'. processStellarAnchor env a job v = (Inl e, v')"
    if "a = a1 \<or> (\<forall>args. \<exists>e. ar_anchor a args = Inl e)" for a v
    using that assms(3-5) by (auto simp: processStellarAnchor_def Let_def split: sum.split) (metis Inl_Inr_False)
  obtain res w' where run: "runAnchorJob env [a1, a2, a3] job w = (res, w')" by fastforce
  obtain e1 w1 e2 w2 e3 w3 where "processStellarAnchor env a1 job w = (Inl e1, w1)"
      "processStellarAnchor env a2 job w1 = (Inl e2, w2)" "processStellarAnchor env a3 job w2 = (Inl e3, w3)"
    using fail[of a1] fail[of a2] fail[of a3] assms(6)[of a2] assms(6)[of a3] by (metis insertCI)
  then have "res = Inl e3" using run by simp
  then show ?thesis
    using runAnchorJob_status[OF _ _ assms(1) run] assms(2,7) run by (auto simp: outcome_recorded_def)
qed

end
