(* ===== verification/Rate_Limiter.thy ===== *)
theory Rate_Limiter
  imports Redis
begin

text \<open>
  The store of the request limiter (\<open>src/src/shared/middleware/rateLimiter.ts\<close>), on Redis or on its
  in-memory fallback, with the counter commands of \<open>src/src/infra/redis/connection.ts\<close> it uses. The
  interface \<open>window_counter\<close> says what a limiter needs of a store: the hits of a window are counted
  one by one until the window ends. Both stores are interpretations of it.
\<close>

section \<open>Counters in Redis\<close>

text \<open>\<open>Number(s)\<close> for the texts a counter holds; \<open>None\<close> is \<open>NaN\<close>.\<close>

fun digits_value :: "nat \<Rightarrow> string \<Rightarrow> nat option" where
  "digits_value acc [] = Some acc"
| "digits_value acc (c # s) = (let n = of_char c :: nat in
     if 48 \<le> n \<and> n \<le> 57 then digits_value (10 * acc + (n - 48)) s else None)"

definition number_of :: "string \<Rightarrow> int option" where
  "number_of s = (case s of
     [] \<Rightarrow> Some 0
   | c # s' \<Rightarrow> if c = CHR ''-'' then map_option (\<lambda>n. - int n) (if s' = [] then None else digits_value 0 s')
       else map_option int (digits_value 0 s))"

definition redis_add :: "int \<Rightarrow> millis \<Rightarrow> string \<Rightarrow> redis \<Rightarrow> int \<times> redis" where
  "redis_add d now key r =
     (let (e, r1) = memGetEntry now key r;
          current = nullish (number_of (nullish (map_option fst e) ''0'')) 0;
          expireAt = (case e of None \<Rightarrow> None | Some (v, ex) \<Rightarrow> ex)
      in (current + d, r1\<lparr>memStrings := AList.update key (int_str (current + d), expireAt) (memStrings r1)\<rparr>))"

definition redis_incr :: "millis \<Rightarrow> string \<Rightarrow> redis \<Rightarrow> int \<times> redis" where
  "redis_incr now key r = redis_add 1 now key r"

definition redis_decr :: "millis \<Rightarrow> string \<Rightarrow> redis \<Rightarrow> int \<times> redis" where
  "redis_decr now key r = redis_add (- 1) now key r"

definition redis_exists :: "millis \<Rightarrow> string list \<Rightarrow> redis \<Rightarrow> nat" where
  "redis_exists now keys r = length (filter (\<lambda>k. fst (memGetEntry now k r) \<noteq> None) keys)"

section \<open>The store\<close>

record limiterConfig =
  lc_windowMs :: int
  lc_keyPrefix :: string
  lc_limit :: nat

record limiterState =
  ls_redis :: redis
  ls_checked :: bool
  ls_client :: bool
  ls_fallback :: "string \<Rightarrow> (int \<times> millis) option"
    \<comment> \<open>hits and resetTime\<close>

text \<open>What a request meets: the clock, whether \<open>getRedisClient\<close> gives a client, which command fails.\<close>

record limiterEnv =
  le_now :: millis
  le_client :: bool
  le_incrUp :: bool
  le_expireUp :: bool

definition limiter_getRedis :: "limiterEnv \<Rightarrow> limiterState \<Rightarrow> bool \<times> limiterState" where
  "limiter_getRedis env s =
     (if ls_checked s then (ls_client s, s)
      else (le_client env, s\<lparr>ls_checked := True, ls_client := le_client env\<rparr>))"

definition incrementFallback :: "limiterConfig \<Rightarrow> millis \<Rightarrow> string \<Rightarrow> limiterState \<Rightarrow> (int \<times> millis) \<times> limiterState" where
  "incrementFallback cfg now key s =
     (let fresh = ((1, now + lc_windowMs cfg),
            s\<lparr>ls_fallback := (ls_fallback s)(key := Some (1, now + lc_windowMs cfg))\<rparr>)
      in case ls_fallback s key of
           None \<Rightarrow> fresh
         | Some (hits, reset) \<Rightarrow>
             (if reset \<le> now then fresh
              else ((hits + 1, reset), s\<lparr>ls_fallback := (ls_fallback s)(key := Some (hits + 1, reset))\<rparr>)))"

definition decrementFallback :: "string \<Rightarrow> limiterState \<Rightarrow> limiterState" where
  "decrementFallback key s = (case ls_fallback s key of
     Some (hits, reset) \<Rightarrow> if hits > 0 then s\<lparr>ls_fallback := (ls_fallback s)(key := Some (hits - 1, reset))\<rparr> else s
   | None \<Rightarrow> s)"

definition ceil_div :: "int \<Rightarrow> int \<Rightarrow> int" where
  "ceil_div a b = - ((- a) div b)"

definition windowSeconds :: "limiterConfig \<Rightarrow> int" where
  "windowSeconds cfg = ceil_div (lc_windowMs cfg) 1000"

text \<open>The Redis commands of one hit; the second component of the result is false when one failed.\<close>

definition redisHit :: "limiterConfig \<Rightarrow> limiterEnv \<Rightarrow> string \<Rightarrow> redis \<Rightarrow> (int \<times> millis) option \<times> redis" where
  "redisHit cfg env key r =
     (if \<not> le_incrUp env then (None, r)
      else
        (let k = lc_keyPrefix cfg @ key; now = le_now env;
             (totalHits, r1) = redis_incr now k r
         in if totalHits = 1 \<and> \<not> le_expireUp env then (None, r1)
            else
              (let r2 = (if totalHits = 1 then snd (redis_expire now k (windowSeconds cfg) r1) else r1);
                   (ttlMs, r3) = redis_pttl now k r2
               in (Some (totalHits, now + (if ttlMs > 0 then ttlMs else lc_windowMs cfg)), r3))))"

definition limiter_increment ::
  "limiterConfig \<Rightarrow> limiterEnv \<Rightarrow> string \<Rightarrow> limiterState \<Rightarrow> (int \<times> millis) \<times> limiterState" where
  "limiter_increment cfg env key s =
     (let (client, s1) = limiter_getRedis env s
      in if \<not> client then incrementFallback cfg (le_now env) key s1
         else (case redisHit cfg env key (ls_redis s1) of
             (Some h, r) \<Rightarrow> (h, s1\<lparr>ls_redis := r\<rparr>)
           | (None, r) \<Rightarrow> incrementFallback cfg (le_now env) key
               (s1\<lparr>ls_redis := r, ls_client := False, ls_checked := False\<rparr>)))"

definition limiter_decrement :: "limiterConfig \<Rightarrow> limiterEnv \<Rightarrow> string \<Rightarrow> limiterState \<Rightarrow> limiterState" where
  "limiter_decrement cfg env key s =
     (let (client, s1) = limiter_getRedis env s
      in if \<not> client \<or> \<not> le_incrUp env then decrementFallback key s1
         else s1\<lparr>ls_redis := snd (redis_decr (le_now env) (lc_keyPrefix cfg @ key) (ls_redis s1))\<rparr>)"

definition limiter_resetKey :: "limiterConfig \<Rightarrow> limiterEnv \<Rightarrow> string \<Rightarrow> limiterState \<Rightarrow> limiterState" where
  "limiter_resetKey cfg env key s =
     (let (client, s1) = limiter_getRedis env s
      in if \<not> client \<or> \<not> le_incrUp env then s1\<lparr>ls_fallback := (ls_fallback s1)(key := None)\<rparr>
         else s1\<lparr>ls_redis := snd (redis_del [lc_keyPrefix cfg @ key] (ls_redis s1))\<rparr>)"

section \<open>The limiters\<close>

text \<open>express-rate-limit lets a request pass while its hit does not exceed the limit.\<close>

definition passes :: "limiterConfig \<Rightarrow> int \<Rightarrow> bool" where
  "passes cfg totalHits \<longleftrightarrow> totalHits \<le> int (lc_limit cfg)"

definition standardLimiter :: "bool \<Rightarrow> limiterConfig" where
  "standardLimiter isDev = \<lparr>lc_windowMs = (if isDev then 60 * 1000 else 15 * 60 * 1000),
     lc_keyPrefix = ''rl:standard:'', lc_limit = 100\<rparr>"

definition strictLimiter :: limiterConfig where
  "strictLimiter = \<lparr>lc_windowMs = 60 * 1000, lc_keyPrefix = ''rl:strict:'', lc_limit = 10\<rparr>"

definition loginLimiter :: limiterConfig where
  "loginLimiter = \<lparr>lc_windowMs = 15 * 60 * 1000, lc_keyPrefix = ''rl:login:'', lc_limit = 5\<rparr>"

definition otpLimiter :: limiterConfig where
  "otpLimiter = \<lparr>lc_windowMs = 15 * 60 * 1000, lc_keyPrefix = ''rl:otp:'', lc_limit = 5\<rparr>"

text \<open>The \<open>Retry-After\<close> of a refusal.\<close>

definition retryAfter :: "bool \<Rightarrow> millis \<Rightarrow> millis option \<Rightarrow> int" where
  "retryAfter isDev now resetTime = (case resetTime of
     Some t \<Rightarrow> max 1 (ceil_div (t - now) 1000)
   | None \<Rightarrow> (if isDev then 60 else 15 * 60))"

section \<open>Windows\<close>

locale window_counter =
  fixes ok :: "'s \<Rightarrow> bool"
    and window :: "'s \<Rightarrow> (int \<times> millis) option"
    and hit :: "millis \<Rightarrow> 's \<Rightarrow> int \<times> 's"
    and len :: int
  assumes hit_ok: "ok s \<Longrightarrow> ok (snd (hit now s))"
    and hit_fresh: "ok s \<Longrightarrow> (\<And>h r. window s = Some (h, r) \<Longrightarrow> r \<le> now)
      \<Longrightarrow> fst (hit now s) = 1 \<and> window (snd (hit now s)) = Some (1, now + len)"
    and hit_live: "ok s \<Longrightarrow> window s = Some (h, r) \<Longrightarrow> now < r
      \<Longrightarrow> fst (hit now s) = h + 1 \<and> window (snd (hit now s)) = Some (h + 1, r)"
begin

text \<open>The counts a series of requests gets.\<close>

fun counts :: "millis list \<Rightarrow> 's \<Rightarrow> int list" where
  "counts [] s = []"
| "counts (t # ts) s = fst (hit t s) # counts ts (snd (hit t s))"

lemma counts_live:
  "ok s \<Longrightarrow> window s = Some (h, r) \<Longrightarrow> \<forall>t\<in>set ts. t < r \<Longrightarrow> counts ts s = map (\<lambda>k. h + 1 + int k) [0..<length ts]"
proof (induction ts arbitrary: s h)
  case (Cons t ts)
  have w: "fst (hit t s) = h + 1" "window (snd (hit t s)) = Some (h + 1, r)"
    using hit_live[OF Cons.prems(1,2), of t] Cons.prems(3) by auto
  have "counts ts (snd (hit t s)) = map (\<lambda>k. h + 1 + 1 + int k) [0..<length ts]"
    using Cons.IH[OF hit_ok[OF Cons.prems(1)] w(2)] Cons.prems(3) by simp
  then show ?case using w(1) by (simp add: upt_conv_Cons map_Suc_upt[symmetric] del: upt_Suc)
qed simp

text \<open>From the first hit of a window to its end, the k-th request is counted k.\<close>

lemma counts_window:
  assumes "ok s" and "\<And>h r. window s = Some (h, r) \<Longrightarrow> r \<le> t0" and "\<forall>t\<in>set ts. t < t0 + len"
  shows "counts (t0 # ts) s = map (\<lambda>k. 1 + int k) [0..<Suc (length ts)]"
proof -
  have w: "fst (hit t0 s) = 1" "window (snd (hit t0 s)) = Some (1, t0 + len)"
    using hit_fresh[OF assms(1,2)] by auto
  have "counts ts (snd (hit t0 s)) = map (\<lambda>k. 1 + 1 + int k) [0..<length ts]"
    by (rule counts_live[OF hit_ok[OF assms(1)] w(2) assms(3)])
  then show ?thesis using w(1) by (simp add: upt_conv_Cons map_Suc_upt[symmetric] del: upt_Suc)
qed

text \<open>So a limit lets exactly its number of requests of a window pass.\<close>

lemma passed_window:
  assumes "ok s" and "\<And>h r. window s = Some (h, r) \<Longrightarrow> r \<le> t0" and "\<forall>t\<in>set ts. t < t0 + len"
  shows "length (filter (\<lambda>c. c \<le> int limit) (counts (t0 # ts) s)) = min limit (Suc (length ts))"
proof -
  have "filter (\<lambda>c. c \<le> int limit) (map (\<lambda>k. 1 + int k) [0..<n]) = map (\<lambda>k. 1 + int k) [0..<min limit n]" for n
    by (induction n) (auto simp: min_def le_Suc_eq)
  moreover have "counts (t0 # ts) s = map (\<lambda>k. 1 + int k) [0..<Suc (length ts)]"
    by (rule counts_window[OF assms])
  ultimately show ?thesis by (simp only: length_map length_upt diff_zero)
qed

end

section \<open>The fallback is a window counter\<close>

interpretation fallback_window: window_counter "\<lambda>_. True" "\<lambda>s. ls_fallback s key"
  "\<lambda>now s. (fst (fst (incrementFallback cfg now key s)), snd (incrementFallback cfg now key s))"
  "lc_windowMs cfg" for cfg key
  by unfold_locales (auto simp: incrementFallback_def Let_def split: option.splits)

section \<open>So is Redis\<close>

lemma digits_value_append:
  "d < 10 \<Longrightarrow> digits_value acc (s @ [digit_char d]) = map_option (\<lambda>v. 10 * v + d) (digits_value acc s)"
  by (induction s arbitrary: acc) (simp_all add: digit_char_def Let_def)

lemma digits_value_nat_str: "digits_value 0 (nat_str n) = Some n"
proof (induction n rule: nat_str.induct)
  case (1 n)
  then show ?case
    using digits_value_append[of n 0 "[]"] digits_value_append[of "n mod 10" 0 "nat_str (n div 10)"]
    by (subst nat_str.simps) auto
qed

lemma nat_str_first: "\<exists>c s. nat_str n = c # s \<and> c \<noteq> CHR ''-''"
proof (induction n rule: nat_str.induct)
  case (1 n)
  have "digit_char n \<noteq> CHR ''-''" if "n < 10"
  proof
    assume "digit_char n = CHR ''-''"
    then have "(of_char (digit_char n) :: nat) = 45" by simp
    then show False using that by (simp add: digit_char_def)
  qed
  then show ?case using 1 nat_str.simps[of n] by (cases "n < 10") auto
qed

lemma number_of_int_str: "number_of (int_str i) = Some i"
proof (cases "i < 0")
  case True
  obtain c s where "nat_str (nat (- i)) = c # s" using nat_str_first by blast
  then show ?thesis using True digits_value_nat_str[of "nat (- i)"] by (simp add: number_of_def int_str_def)
next
  case False
  obtain c s where "nat_str (nat i) = c # s" "c \<noteq> CHR ''-''" using nat_str_first by blast
  then show ?thesis using False digits_value_nat_str[of "nat i"] by (simp add: number_of_def int_str_def)
qed

text \<open>A counter key holds a numeral and an expiry.\<close>

definition counter_ok :: "limiterConfig \<Rightarrow> string \<Rightarrow> redis \<Rightarrow> bool" where
  "counter_ok cfg key r \<longleftrightarrow> 0 < lc_windowMs cfg
     \<and> (case map_of (memStrings r) (lc_keyPrefix cfg @ key) of None \<Rightarrow> True
        | Some (v, ex) \<Rightarrow> ex \<noteq> None \<and> (\<exists>n\<ge>1. v = int_str n))"

definition counter_window :: "limiterConfig \<Rightarrow> string \<Rightarrow> redis \<Rightarrow> (int \<times> millis) option" where
  "counter_window cfg key r = (case map_of (memStrings r) (lc_keyPrefix cfg @ key) of
     Some (v, Some e) \<Rightarrow> Some (the (number_of v), e) | _ \<Rightarrow> None)"

definition allUp :: "millis \<Rightarrow> limiterEnv" where
  "allUp now = \<lparr>le_now = now, le_client = True, le_incrUp = True, le_expireUp = True\<rparr>"

definition redisCount :: "limiterConfig \<Rightarrow> string \<Rightarrow> millis \<Rightarrow> redis \<Rightarrow> int \<times> redis" where
  "redisCount cfg key now r = (case redisHit cfg (allUp now) key r of (h, r') \<Rightarrow> (fst (the h), r'))"

lemma windowSeconds_pos: "0 < lc_windowMs cfg \<Longrightarrow> 0 < windowSeconds cfg"
  unfolding windowSeconds_def ceil_div_def by linarith

lemma redisCount_fresh:
  assumes "counter_ok cfg key r" and "\<And>h e. counter_window cfg key r = Some (h, e) \<Longrightarrow> e \<le> now"
  shows "fst (redisCount cfg key now r) = 1
     \<and> map_of (memStrings (snd (redisCount cfg key now r))) (lc_keyPrefix cfg @ key)
       = Some (int_str 1, Some (now + windowSeconds cfg * 1000))"
proof -
  let ?k = "lc_keyPrefix cfg @ key"
  have w: "0 < windowSeconds cfg" using assms(1) windowSeconds_pos by (simp add: counter_ok_def)
  have e: "fst (memGetEntry now ?k r) = None"
    using assms by (auto simp: memGetEntry_def counter_ok_def counter_window_def memIsExpired_def split: option.splits)
  have zero: "number_of ''0'' = Some 0" by code_simp
  obtain r1 where g: "memGetEntry now ?k r = (None, r1)" using e by (cases "memGetEntry now ?k r") auto
  let ?r1 = "r1\<lparr>memStrings := AList.update ?k (int_str 1, None) (memStrings r1)\<rparr>"
  have i: "redis_incr now ?k r = (1, ?r1)"
    by (simp add: redis_incr_def redis_add_def g zero)
  have x: "snd (redis_expire now ?k (windowSeconds cfg) ?r1)
      = ?r1\<lparr>memStrings := AList.update ?k (int_str 1, Some (now + windowSeconds cfg * 1000)) (memStrings ?r1)\<rparr>"
    by (simp add: redis_expire_def memGetEntry_def update_conv' memIsExpired_def)
  show ?thesis
    using w by (simp add: redisCount_def redisHit_def allUp_def i x redis_pttl_def update_conv')
qed

lemma redisCount_live:
  assumes "counter_ok cfg key r" and "counter_window cfg key r = Some (h, e)" and "now < e"
  shows "fst (redisCount cfg key now r) = h + 1
     \<and> map_of (memStrings (snd (redisCount cfg key now r))) (lc_keyPrefix cfg @ key) = Some (int_str (h + 1), Some e)
     \<and> 1 \<le> h"
proof -
  let ?k = "lc_keyPrefix cfg @ key"
  obtain n where m: "map_of (memStrings r) ?k = Some (int_str n, Some e)" and n: "1 \<le> n" "h = n"
    using assms(1,2) by (auto simp: counter_ok_def counter_window_def number_of_int_str split: option.splits prod.splits)
  have g: "memGetEntry now ?k r = (Some (int_str n, Some e), r)"
    using m assms(3) by (simp add: memGetEntry_def memIsExpired_def)
  have i: "redis_incr now ?k r = (n + 1, r\<lparr>memStrings := AList.update ?k (int_str (n + 1), Some e) (memStrings r)\<rparr>)"
    by (simp add: redis_incr_def redis_add_def g number_of_int_str)
  show ?thesis
    using assms(3) n by (simp add: redisCount_def redisHit_def allUp_def i redis_pttl_def update_conv')
qed

lemma redisCount_ok:
  assumes "counter_ok cfg key r"
  shows "counter_ok cfg key (snd (redisCount cfg key now r))"
proof (cases "\<exists>h e. counter_window cfg key r = Some (h, e) \<and> now < e")
  case True
  then obtain h e where w: "counter_window cfg key r = Some (h, e)" "now < e" by blast
  then show ?thesis using redisCount_live[OF assms w] assms
    by (auto simp: counter_ok_def intro!: exI[of _ "h + 1"])
next
  case False
  then have "\<And>h e. counter_window cfg key r = Some (h, e) \<Longrightarrow> e \<le> now" by fastforce
  from redisCount_fresh[OF assms this] assms show ?thesis by (auto simp: counter_ok_def)
qed

interpretation redis_window: window_counter "counter_ok cfg key" "counter_window cfg key" "redisCount cfg key"
  "windowSeconds cfg * 1000" for cfg key
proof unfold_locales
  fix s now assume "counter_ok cfg key s"
  then show "counter_ok cfg key (snd (redisCount cfg key now s))" by (rule redisCount_ok)
next
  fix s now assume "counter_ok cfg key s" and "\<And>h r. counter_window cfg key s = Some (h, r) \<Longrightarrow> r \<le> now"
  from redisCount_fresh[OF this]
  show "fst (redisCount cfg key now s) = 1
      \<and> counter_window cfg key (snd (redisCount cfg key now s)) = Some (1, now + windowSeconds cfg * 1000)"
    by (simp add: counter_window_def number_of_int_str)
next
  fix s h r now assume "counter_ok cfg key s" and "counter_window cfg key s = Some (h, r)" and "now < r"
  from redisCount_live[OF this]
  show "fst (redisCount cfg key now s) = h + 1
      \<and> counter_window cfg key (snd (redisCount cfg key now s)) = Some (h + 1, r)"
    by (simp add: counter_window_def number_of_int_str)
qed

text \<open>
  A key that lost its expiry (the \<open>expire\<close> after its first hit failed) is counted up for ever: \<open>expire\<close>
  is only sent with the first hit.
\<close>

definition unbounded_counter :: "limiterConfig \<Rightarrow> string \<Rightarrow> int \<Rightarrow> redis \<Rightarrow> bool" where
  "unbounded_counter cfg key n r \<longleftrightarrow> map_of (memStrings r) (lc_keyPrefix cfg @ key) = Some (int_str n, None)"

lemma lost_expiry:
  assumes "counter_ok cfg key r" and "\<And>h e. counter_window cfg key r = Some (h, e) \<Longrightarrow> e \<le> le_now env"
    and "le_incrUp env" and "\<not> le_expireUp env"
  shows "unbounded_counter cfg key 1 (snd (redisHit cfg env key r))"
proof -
  let ?k = "lc_keyPrefix cfg @ key" and ?now = "le_now env"
  have "fst (memGetEntry ?now ?k r) = None"
    using assms by (auto simp: memGetEntry_def counter_ok_def counter_window_def memIsExpired_def split: option.splits)
  then obtain r1 where g: "memGetEntry ?now ?k r = (None, r1)" by (cases "memGetEntry ?now ?k r") auto
  have zero: "number_of ''0'' = Some 0" by code_simp
  have i: "redis_incr ?now ?k r = (1, r1\<lparr>memStrings := AList.update ?k (int_str 1, None) (memStrings r1)\<rparr>)"
    by (simp add: redis_incr_def redis_add_def g zero)
  show ?thesis using assms(3,4) by (simp add: redisHit_def i unbounded_counter_def update_conv')
qed

lemma unbounded_hit:
  assumes "unbounded_counter cfg key n r" and "1 \<le> n" and "le_incrUp env"
  shows "\<exists>t. fst (redisHit cfg env key r) = Some (n + 1, t)
     \<and> unbounded_counter cfg key (n + 1) (snd (redisHit cfg env key r))"
proof -
  let ?k = "lc_keyPrefix cfg @ key" and ?now = "le_now env"
  have g: "memGetEntry ?now ?k r = (Some (int_str n, None), r)"
    using assms(1) by (simp add: unbounded_counter_def memGetEntry_def memIsExpired_def)
  have i: "redis_incr ?now ?k r = (n + 1, r\<lparr>memStrings := AList.update ?k (int_str (n + 1), None) (memStrings r)\<rparr>)"
    by (simp add: redis_incr_def redis_add_def g number_of_int_str)
  show ?thesis
    using assms(2,3) by (simp add: redisHit_def i unbounded_counter_def update_conv' redis_pttl_def)
qed

section \<open>What the client of a limiter sees\<close>

text \<open>The requests of one key at the given times, and which of them pass; the store answers or is absent throughout.\<close>

fun verdicts :: "limiterConfig \<Rightarrow> string \<Rightarrow> millis list \<Rightarrow> limiterState \<Rightarrow> bool list" where
  "verdicts cfg key [] s = []"
| "verdicts cfg key (t # ts) s =
     (let (h, s') = limiter_increment cfg (allUp t) key s in passes cfg (fst h) # verdicts cfg key ts s')"

definition limiter_ok :: "limiterConfig \<Rightarrow> string \<Rightarrow> limiterState \<Rightarrow> bool" where
  "limiter_ok cfg key s \<longleftrightarrow> ls_checked s \<and> 0 < lc_windowMs cfg \<and> (ls_client s \<longrightarrow> counter_ok cfg key (ls_redis s))"

definition limiter_window :: "limiterConfig \<Rightarrow> string \<Rightarrow> limiterState \<Rightarrow> (int \<times> millis) option" where
  "limiter_window cfg key s = (if ls_client s then counter_window cfg key (ls_redis s) else ls_fallback s key)"

lemma windowSeconds_covers: "lc_windowMs cfg \<le> windowSeconds cfg * 1000"
  unfolding windowSeconds_def ceil_div_def by linarith

lemma increment_redis:
  assumes "ls_checked s" and "ls_client s"
  shows "\<exists>t. limiter_increment cfg (allUp now) key s
    = ((fst (redisCount cfg key now (ls_redis s)), t), s\<lparr>ls_redis := snd (redisCount cfg key now (ls_redis s))\<rparr>)"
  using assms
  by (auto simp: limiter_increment_def limiter_getRedis_def redisCount_def redisHit_def allUp_def Let_def
      split: prod.splits)

lemma increment_fallback:
  assumes "ls_checked s" and "\<not> ls_client s"
  shows "limiter_increment cfg (allUp now) key s = incrementFallback cfg now key s"
  using assms by (simp add: limiter_increment_def limiter_getRedis_def allUp_def)

lemma incrementFallback_same [simp]:
  "ls_checked (snd (incrementFallback cfg now key s)) = ls_checked s"
  "ls_client (snd (incrementFallback cfg now key s)) = ls_client s"
  by (simp_all add: incrementFallback_def Let_def split: option.split prod.split)

lemma verdicts_redis:
  "ls_checked s \<Longrightarrow> ls_client s \<Longrightarrow>
   verdicts cfg key ts s = map (passes cfg) (redis_window.counts cfg key ts (ls_redis s))"
proof (induction ts arbitrary: s)
  case (Cons t ts)
  then show ?case using increment_redis[OF Cons.prems, of cfg t key] by auto
qed simp

lemma verdicts_fallback:
  "ls_checked s \<Longrightarrow> \<not> ls_client s \<Longrightarrow>
   verdicts cfg key ts s = map (passes cfg) (fallback_window.counts cfg key ts s)"
proof (induction ts arbitrary: s)
  case (Cons t ts)
  let ?s = "snd (incrementFallback cfg t key s)"
  have "verdicts cfg key ts ?s = map (passes cfg) (fallback_window.counts cfg key ts ?s)"
    by (rule Cons.IH) (simp_all add: Cons.prems)
  then show ?case by (simp add: increment_fallback[OF Cons.prems] split_beta)
qed simp

lemma verdicts_window:
  assumes "limiter_ok cfg key s" and "\<And>h r. limiter_window cfg key s = Some (h, r) \<Longrightarrow> r \<le> t0"
    and "\<forall>t\<in>set ts. t < t0 + lc_windowMs cfg"
  shows "length (filter id (verdicts cfg key (t0 # ts) s)) = min (lc_limit cfg) (Suc (length ts))"
proof -
  have p: "passes cfg = (\<lambda>c. c \<le> int (lc_limit cfg))" by (simp add: fun_eq_iff passes_def)
  have pass: "length (filter id (map (passes cfg) cs)) = length (filter (\<lambda>c. c \<le> int (lc_limit cfg)) cs)" for cs
    by (simp add: filter_map o_def p)
  show ?thesis
  proof (cases "ls_client s")
    case True
    have ok: "counter_ok cfg key (ls_redis s)" and c: "ls_checked s" using assms(1) True by (auto simp: limiter_ok_def)
    have old: "counter_window cfg key (ls_redis s) = Some (h, r) \<Longrightarrow> r \<le> t0" for h r
      using assms(2) True by (simp add: limiter_window_def)
    have "\<forall>t\<in>set ts. t < t0 + windowSeconds cfg * 1000" using assms(3) windowSeconds_covers[of cfg] by fastforce
    then show ?thesis
      unfolding verdicts_redis[OF c True] pass using old by (intro redis_window.passed_window[OF ok]) auto
  next
    case False
    have c: "ls_checked s" using assms(1) by (simp add: limiter_ok_def)
    have old: "ls_fallback s key = Some (h, r) \<Longrightarrow> r \<le> t0" for h r
      using assms(2) False by (simp add: limiter_window_def)
    then show ?thesis
      unfolding verdicts_fallback[OF c False] pass using assms(3)
      by (intro fallback_window.passed_window[OF TrueI]) auto
  qed
qed

end
