(* ===== verification/Realtime.thy ===== *)
theory Realtime
  imports Auth
begin

text \<open>
  What connected clients receive: the rooms of the socket server
  (\<open>src/src/infra/socket/shipmentRooms.ts\<close>), the fan-out of server-sent events to the members of a
  shipment's organizations (\<open>src/src/infra/sse/fanout.ts\<close>), the hub that holds the streams
  (\<open>sseHub.ts\<close>, \<open>sseHubState.ts\<close>) and the list of recent events behind the polling endpoint
  (\<open>src/src/infra/redis/recentEvents.ts\<close>, \<open>src/src/modules/events/events.service.ts\<close>).
\<close>

section \<open>Rooms\<close>

record clientSocket =
  so_user :: "claims option"
  so_rooms :: "string list"
  so_out :: "(string \<times> string) list"
    \<comment> \<open>event name and room or code\<close>

definition joinShipmentRoom :: "string \<Rightarrow> shipment list \<Rightarrow> clientSocket \<Rightarrow> clientSocket" where
  "joinShipmentRoom shipmentId xs sk =
     (if \<not> isAuthorizedForShipment shipmentId (Option.bind (so_user sk) cl_organizationId) xs
      then sk\<lparr>so_out := so_out sk @ [(''error'', ''UNAUTHORIZED'')]\<rparr>
      else sk\<lparr>so_rooms := List.insert (shipmentRoomName shipmentId) (so_rooms sk),
              so_out := so_out sk @ [(''room_joined'', shipmentRoomName shipmentId)]\<rparr>)"

definition leaveShipmentRoom :: "string \<Rightarrow> clientSocket \<Rightarrow> clientSocket" where
  "leaveShipmentRoom shipmentId sk =
     sk\<lparr>so_rooms := filter (\<lambda>r. r \<noteq> shipmentRoomName shipmentId) (so_rooms sk),
        so_out := so_out sk @ [(''room_left'', shipmentRoomName shipmentId)]\<rparr>"

definition leaveAllShipmentRoomsOnDisconnect :: "clientSocket \<Rightarrow> clientSocket" where
  "leaveAllShipmentRoomsOnDisconnect sk = sk\<lparr>so_rooms := filter (\<lambda>r. \<not> startsWith r ''shipment_'') (so_rooms sk)\<rparr>"

text \<open>\<open>socketAuth.ts\<close>: the token is verified; the blocklist is not asked.\<close>

definition socketAuth :: "authEnv \<Rightarrow> string option \<Rightarrow> claims result" where
  "socketAuth env token =
     (if \<not> truthy token then Inl (PlainError ''UNAUTHORIZED: Missing token'')
      else case verifyToken env (the token) of
          None \<Rightarrow> Inl (PlainError ''UNAUTHORIZED: Invalid or expired token'')
        | Some payload \<Rightarrow> Inr payload)"

text \<open>\<open>requireSseAuth.ts\<close>: the header or, failing that, the query.\<close>

definition extractBearerToken :: "string option \<Rightarrow> string option" where
  "extractBearerToken authHeader =
     (if \<not> truthy authHeader \<or> \<not> startsWith (the authHeader) ''Bearer '' then None else Some (drop 7 (the authHeader)))"

definition extractQueryToken :: "string option \<Rightarrow> string option" where
  "extractQueryToken queryToken = keep_truthy queryToken"

definition requireSseAuth :: "authEnv \<Rightarrow> string option \<Rightarrow> string option \<Rightarrow> redis \<Rightarrow> claims result" where
  "requireSseAuth env authHeader queryToken r =
     (let token = (case extractBearerToken authHeader of Some t \<Rightarrow> Some t | None \<Rightarrow> extractQueryToken queryToken) in
      if \<not> truthy token then throwApp 401 ''Missing or invalid authorization token'' (ErrorCodes UNAUTHORIZED)
      else case verifyToken env (the token) of
          None \<Rightarrow> throwApp 401 ''Invalid or expired token'' (ErrorCodes UNAUTHORIZED)
        | Some payload \<Rightarrow>
            (if cl_jti payload \<noteq> [] \<and> isTokenBlocked (ae_now env) (cl_jti payload) r
             then throwApp 401 ''Token has been revoked'' (ErrorCodes TOKEN_REVOKED)
             else Inr payload))"

section \<open>Events\<close>

datatype shipmentStatusEvent = EV_PENDING | EV_IN_TRANSIT | EV_DELIVERED | EV_CANCELLED

record realtimeNotification =
  rn_id :: string
  rn_type :: string
  rn_title :: string
  rn_description :: string
  rn_timestamp :: string
  rn_isRead :: bool

datatype realtimeEvent =
    ShipmentStatusRealtimeEvent string shipmentStatusEvent string
      \<comment> \<open>shipmentId, newStatus, timestamp\<close>
  | ShipmentMilestoneRealtimeEvent string string string "string option"
      \<comment> \<open>shipmentId, milestoneId, event, txHash\<close>
  | SettlementStatusRealtimeEvent string string "string option"
      \<comment> \<open>settlementId, newStatus, txHash\<close>
  | NotificationRealtimeEvent realtimeNotification
  | AnomalyDetectedRealtimeEvent string string string
      \<comment> \<open>shipmentId, anomalyType, severity\<close>
  | LocationUpdateRealtimeEvent string rat rat string
      \<comment> \<open>shipmentId, lat, lng, timestamp\<close>

primrec realtime_type :: "realtimeEvent \<Rightarrow> string" where
  "realtime_type (ShipmentStatusRealtimeEvent i st t) = ''shipment:status''"
| "realtime_type (ShipmentMilestoneRealtimeEvent i m e tx) = ''shipment:milestone''"
| "realtime_type (SettlementStatusRealtimeEvent i st tx) = ''settlement:status''"
| "realtime_type (NotificationRealtimeEvent nt) = ''notification:new''"
| "realtime_type (AnomalyDetectedRealtimeEvent i ty sev) = ''anomaly:detected''"
| "realtime_type (LocationUpdateRealtimeEvent i lat lng t) = ''location:update''"

definition mapShipmentStatus :: "shipmentStatus \<Rightarrow> shipmentStatusEvent" where
  "mapShipmentStatus st = (if st = CREATED then EV_PENDING else if st = IN_TRANSIT then EV_IN_TRANSIT
     else if st = DELIVERED \<or> st = SETTLEMENT_COMPLETED then EV_DELIVERED
     else if st = CANCELLED then EV_CANCELLED else EV_IN_TRANSIT)"

section \<open>The hub\<close>

text \<open>
  A stream is known by a number; \<open>hb_written\<close> is what was written to it, \<open>hb_ended\<close> whether it is
  closed. \<open>hb_channels\<close> are the Redis channels the hub's subscriber listens to.
\<close>

record sseHub =
  hb_clientsByUser :: "(string \<times> nat list) list"
  hb_written :: "nat \<Rightarrow> string list"
  hb_ended :: "nat \<Rightarrow> bool"
  hb_redisPubSubReady :: bool
  hb_publisher :: bool
  hb_channels :: "string list"

definition userSseChannel :: "string \<Rightarrow> string" where
  "userSseChannel userId = ''sse:user:'' @ userId"

text \<open>\<open>json\<close> and \<open>parse\<close> are \<open>JSON.stringify\<close> and \<open>JSON.parse\<close> on events.\<close>

definition formatSseMessage :: "(realtimeEvent \<Rightarrow> string) \<Rightarrow> realtimeEvent \<Rightarrow> string" where
  "formatSseMessage json ev = ''event: '' @ realtime_type ev @ [CHR 0x0A] @ ''data: '' @ json ev @ [CHR 0x0A, CHR 0x0A]"

definition clientsOf :: "string \<Rightarrow> sseHub \<Rightarrow> nat list" where
  "clientsOf userId h = (case map_of (hb_clientsByUser h) userId of None \<Rightarrow> [] | Some cs \<Rightarrow> cs)"

definition writeStream :: "string \<Rightarrow> nat \<Rightarrow> sseHub \<Rightarrow> sseHub" where
  "writeStream text c h = (if hb_ended h c then h else h\<lparr>hb_written := (hb_written h)(c := hb_written h c @ [text])\<rparr>)"

definition deliverToLocalClients :: "(realtimeEvent \<Rightarrow> string) \<Rightarrow> string \<Rightarrow> realtimeEvent \<Rightarrow> sseHub \<Rightarrow> sseHub" where
  "deliverToLocalClients json userId ev h = fold (writeStream (formatSseMessage json ev)) (clientsOf userId h) h"

definition handleRedisMessage ::
  "(realtimeEvent \<Rightarrow> string) \<Rightarrow> (string \<Rightarrow> realtimeEvent option) \<Rightarrow> string \<Rightarrow> string \<Rightarrow> sseHub \<Rightarrow> sseHub" where
  "handleRedisMessage json parse channel message h =
     (if \<not> startsWith channel ''sse:user:'' then h
      else case parse message of
          None \<Rightarrow> h
        | Some ev \<Rightarrow> deliverToLocalClients json (drop 9 channel) ev h)"

text \<open>The subscription made while starting is taken back at once; \<open>subUp\<close>: both commands succeed.\<close>

definition initSseHub :: "bool \<Rightarrow> bool \<Rightarrow> sseHub \<Rightarrow> sseHub" where
  "initSseHub clientOk subUp h =
     (if hb_redisPubSubReady h then h
      else if \<not> clientOk then h\<lparr>hb_redisPubSubReady := False\<rparr>
      else if \<not> subUp then h\<lparr>hb_publisher := True, hb_redisPubSubReady := False\<rparr>
      else let subscribed = ''sse:user:__init__'' # hb_channels h
        in h\<lparr>hb_publisher := True, hb_channels := filter (\<lambda>c. c \<noteq> ''sse:user:__init__'') subscribed,
             hb_redisPubSubReady := True\<rparr>)"

text \<open>
  Redis hands a published message to the subscribers of its channel (this process only is modelled);
  \<open>pubUp\<close>: the publish succeeds.
\<close>

definition publishToUser ::
  "(realtimeEvent \<Rightarrow> string) \<Rightarrow> (string \<Rightarrow> realtimeEvent option) \<Rightarrow> bool \<Rightarrow> string \<Rightarrow> realtimeEvent \<Rightarrow> sseHub \<Rightarrow> sseHub" where
  "publishToUser json parse pubUp userId ev h =
     (if hb_redisPubSubReady h \<and> hb_publisher h
      then (if \<not> pubUp then deliverToLocalClients json userId ev h
            else if userSseChannel userId \<in> set (hb_channels h)
            then handleRedisMessage json parse (userSseChannel userId) (json ev) h
            else h)
      else deliverToLocalClients json userId ev h)"

definition heartbeatText :: string where
  "heartbeatText = '': heartbeat'' @ [CHR 0x0A, CHR 0x0A]"

definition registerSseClient :: "string \<Rightarrow> nat \<Rightarrow> sseHub \<Rightarrow> sseHub" where
  "registerSseClient userId c h =
     (let h1 = writeStream heartbeatText c
           (h\<lparr>hb_written := (hb_written h)(c := hb_written h c @ ['': connected'' @ [CHR 0x0A, CHR 0x0A]])\<rparr>)
      in h1\<lparr>hb_clientsByUser := AList.update userId (List.insert c (clientsOf userId h1)) (hb_clientsByUser h1)\<rparr>)"

definition removeClient :: "string \<Rightarrow> nat \<Rightarrow> sseHub \<Rightarrow> sseHub" where
  "removeClient userId c h =
     (case map_of (hb_clientsByUser h) userId of
        None \<Rightarrow> h
      | Some cs \<Rightarrow>
          (let rest = filter (\<lambda>x. x \<noteq> c) cs
           in h\<lparr>hb_clientsByUser := (if rest = [] then AList.delete userId (hb_clientsByUser h)
                  else AList.update userId rest (hb_clientsByUser h))\<rparr>))"

text \<open>The stream closed (the \<open>close\<close> listener).\<close>

definition streamClosed :: "string \<Rightarrow> nat \<Rightarrow> sseHub \<Rightarrow> sseHub" where
  "streamClosed userId c h = removeClient userId c (h\<lparr>hb_ended := (hb_ended h)(c := True)\<rparr>)"

definition closeSseHub :: "sseHub \<Rightarrow> sseHub" where
  "closeSseHub h = h\<lparr>hb_ended := (\<lambda>c. hb_ended h c \<or> (\<exists>(u, cs)\<in>set (hb_clientsByUser h). c \<in> set cs)),
     hb_clientsByUser := [], hb_channels := [], hb_publisher := False, hb_redisPubSubReady := False\<rparr>"

section \<open>Fan-out\<close>

text \<open>\<open>[...new Set(xs)]\<close>\<close>

definition uniqueFirst :: "'a list \<Rightarrow> 'a list" where
  "uniqueFirst xs = rev (remdups (rev xs))"

definition getUserIdsForShipment :: "string \<Rightarrow> shipment list \<Rightarrow> user list \<Rightarrow> string list" where
  "getUserIdsForShipment shipmentId xs us =
     (case findShipmentById shipmentId xs of
        None \<Rightarrow> []
      | Some sh \<Rightarrow>
          (let orgIds = filter (\<lambda>i. i \<noteq> []) [sh_enterpriseId sh, sh_logisticsId sh]
           in if orgIds = [] then []
              else uniqueFirst (map us_id (findAll userAlive
                (\<lambda>u. case us_organizationId u of None \<Rightarrow> False | Some i \<Rightarrow> i \<in> set orgIds) us))))"

text \<open>
  One fan-out: every event to every user in turn. The publishing of one event is \<open>pub\<close>, so that the
  functions below name only what they send.
\<close>

definition fanoutToShipmentUsers ::
  "(string \<Rightarrow> realtimeEvent \<Rightarrow> sseHub \<Rightarrow> sseHub) \<Rightarrow> string list \<Rightarrow> realtimeEvent list \<Rightarrow> sseHub \<Rightarrow> sseHub" where
  "fanoutToShipmentUsers pub userIds events h =
     fold (\<lambda>userId h. fold (\<lambda>ev h. pub userId ev h) events h) userIds h"

text \<open>\<open>milestoneId\<close> ends in \<open>String(timestamp)\<close>; the \<open>txHash\<close> is filled with the wallet address.\<close>

definition statusEvents :: "string \<Rightarrow> statusUpdatePayload \<Rightarrow> string \<Rightarrow> realtimeEvent list" where
  "statusEvents shipmentId p now =
     ShipmentStatusRealtimeEvent shipmentId (mapShipmentStatus (su_status p)) (nullish (su_updatedAt p) now)
     # (if su_milestones p = [] then []
        else let m = last (su_milestones p) in
          [ShipmentMilestoneRealtimeEvent shipmentId
             (shipmentId @ ''-'' @ sm_name m @ ''-'' @ sm_timestamp m) (sm_name m) (sm_walletAddress m)])"

definition anomalyEvents :: "string \<Rightarrow> anomalyAlertPayload \<Rightarrow> realtimeEvent list" where
  "anomalyEvents shipmentId a = [AnomalyDetectedRealtimeEvent shipmentId (aa_type a) (aa_severity a)]"

definition locationEvents :: "string \<Rightarrow> telemetryUpdatePayload \<Rightarrow> realtimeEvent list" where
  "locationEvents shipmentId t =
     [LocationUpdateRealtimeEvent shipmentId (tu_latitude t) (tu_longitude t) (tu_timestamp t)]"

text \<open>The payload carries \<open>txHash\<close>; the event reads \<open>stellarTxHash\<close>, which it does not have.\<close>

definition settlementEvents :: "settlementStatusPayload \<Rightarrow> realtimeEvent list" where
  "settlementEvents p = [SettlementStatusRealtimeEvent (ss_paymentId p) (ss_newStatus p) None]"

definition fanoutNotificationToUser ::
  "(string \<Rightarrow> realtimeEvent \<Rightarrow> sseHub \<Rightarrow> sseHub) \<Rightarrow> string \<Rightarrow> realtimeNotification \<Rightarrow> sseHub \<Rightarrow> sseHub" where
  "fanoutNotificationToUser pub userId nt = pub userId (NotificationRealtimeEvent nt)"

definition fanoutOf :: "string \<Rightarrow> string \<Rightarrow> socketEvent \<Rightarrow> realtimeEvent list" where
  "fanoutOf now shipmentId ev = (case ev of
     StatusUpdate p \<Rightarrow> statusEvents shipmentId p now
   | SettlementStatus p \<Rightarrow> settlementEvents p
   | LocationUpdate t \<Rightarrow> locationEvents shipmentId t
   | AnomalyAlert a \<Rightarrow> anomalyEvents shipmentId a)"

section \<open>Recent events\<close>

definition MAX_EVENTS :: nat where
  "MAX_EVENTS = 500"

definition TTL_MS :: int where
  "TTL_MS = 60000"

definition RECENT_EVENTS_KEY :: string where
  "RECENT_EVENTS_KEY = ''recent_events''"

text \<open>\<open>stamp\<close> reads \<open>publishedAt\<close> of a stored entry; \<open>None\<close>: it does not parse, which ends the loop.\<close>

function evictTail :: "(string \<Rightarrow> int option) \<Rightarrow> int \<Rightarrow> redis \<Rightarrow> redis" where
  "evictTail stamp cutoff r =
     (case redis_lindex RECENT_EVENTS_KEY (- 1) r of
        None \<Rightarrow> r
      | Some tail \<Rightarrow>
          (case stamp tail of
             None \<Rightarrow> r
           | Some t \<Rightarrow> if t < cutoff then evictTail stamp cutoff (snd (redis_rpop RECENT_EVENTS_KEY r)) else r))"
  by pat_completeness auto
termination
  by (relation "measure (\<lambda>(stamp, cutoff, r). length (mem_list RECENT_EVENTS_KEY r))")
    (auto simp: redis_lindex_last redis_rpop_def Let_def split: if_splits)

declare evictTail.simps [simp del]

definition pushRecentEvent :: "(string \<Rightarrow> int option) \<Rightarrow> bool \<Rightarrow> millis \<Rightarrow> string \<Rightarrow> redis \<Rightarrow> redis" where
  "pushRecentEvent stamp redisUp now serialised r =
     (if \<not> redisUp then r
      else let r1 = snd (redis_lpush RECENT_EVENTS_KEY [serialised] r);
               r2 = redis_ltrim RECENT_EVENTS_KEY 0 (int MAX_EVENTS - 1) r1
           in evictTail stamp (now - TTL_MS) r2)"

definition getRecentEventsSince :: "(string \<Rightarrow> int option) \<Rightarrow> int \<Rightarrow> redis \<Rightarrow> string list" where
  "getRecentEventsSince stamp sinceMs r =
     rev (filter (\<lambda>item. case stamp item of None \<Rightarrow> False | Some t \<Rightarrow> t > sinceMs)
       (redis_lrange RECENT_EVENTS_KEY 0 (- 1) r))"

definition pollEventsSince :: "(string \<Rightarrow> int option) \<Rightarrow> bool \<Rightarrow> int \<Rightarrow> redis \<Rightarrow> string list result" where
  "pollEventsSince stamp redisUp since r =
     (if redisUp then Inr (getRecentEventsSince stamp since r)
      else Inl (App (AppError 502 ''Failed to retrieve recent events from the event store''
             (ErrorCodes EVENTS_POLL_FAILED) (Some (JObj [])))))"

section \<open>What the streams receive\<close>

text \<open>
  \<open>hub_step\<close> is one thing that happens to the hub: it starts, a stream opens or closes, an event is
  published, the hub shuts down.
\<close>

inductive hub_step :: "(realtimeEvent \<Rightarrow> string) \<Rightarrow> (string \<Rightarrow> realtimeEvent option) \<Rightarrow> sseHub \<Rightarrow> sseHub \<Rightarrow> bool"
  for json parse where
  started: "hub_step json parse h (initSseHub clientOk subUp h)"
| opened: "hub_step json parse h (registerSseClient userId c h)"
| closed: "hub_step json parse h (streamClosed userId c h)"
| published: "hub_step json parse h (publishToUser json parse pubUp userId ev h)"
| shut: "hub_step json parse h (closeSseHub h)"

definition emptyHub :: sseHub where
  "emptyHub = \<lparr>hb_clientsByUser = [], hb_written = (\<lambda>c. []), hb_ended = (\<lambda>c. False),
     hb_redisPubSubReady = False, hb_publisher = False, hb_channels = []\<rparr>"

definition hub_ok :: "sseHub \<Rightarrow> bool" where
  "hub_ok h \<longleftrightarrow> hb_channels h = [] \<and> (\<forall>userId. distinct (clientsOf userId h))"

lemma writeStream_same [simp]:
  "hb_clientsByUser (writeStream t c h) = hb_clientsByUser h" "hb_ended (writeStream t c h) = hb_ended h"
  "hb_redisPubSubReady (writeStream t c h) = hb_redisPubSubReady h"
  "hb_publisher (writeStream t c h) = hb_publisher h" "hb_channels (writeStream t c h) = hb_channels h"
  by (simp_all add: writeStream_def)

lemma writeStreams_same [simp]:
  "hb_clientsByUser (fold (writeStream t) cs h) = hb_clientsByUser h"
  "hb_ended (fold (writeStream t) cs h) = hb_ended h"
  "hb_redisPubSubReady (fold (writeStream t) cs h) = hb_redisPubSubReady h"
  "hb_publisher (fold (writeStream t) cs h) = hb_publisher h"
  "hb_channels (fold (writeStream t) cs h) = hb_channels h"
  by (induction cs arbitrary: h) simp_all

lemma deliver_same [simp]:
  "hb_clientsByUser (deliverToLocalClients json u ev h) = hb_clientsByUser h"
  "hb_channels (deliverToLocalClients json u ev h) = hb_channels h"
  by (simp_all add: deliverToLocalClients_def)

lemma writeStreams_written:
  "distinct cs \<Longrightarrow> hb_written (fold (writeStream t) cs h) c
     = hb_written h c @ (if c \<in> set cs \<and> \<not> hb_ended h c then [t] else [])"
proof (induction cs arbitrary: h)
  case (Cons a cs)
  then show ?case by (simp add: writeStream_def split: if_splits)
qed simp

text \<open>Local delivery: one message to each open stream of the user, in place, and nothing to any other.\<close>

lemma deliver_written:
  "distinct (clientsOf userId h) \<Longrightarrow> hb_written (deliverToLocalClients json userId ev h) c
     = hb_written h c @ (if c \<in> set (clientsOf userId h) \<and> \<not> hb_ended h c then [formatSseMessage json ev] else [])"
  by (simp add: deliverToLocalClients_def writeStreams_written)

lemma clientsOf_cong: "hb_clientsByUser h' = hb_clientsByUser h \<Longrightarrow> clientsOf u h' = clientsOf u h"
  by (simp add: clientsOf_def)

lemma publish_same:
  "hb_channels h = [] \<Longrightarrow> hb_channels (publishToUser json parse pubUp u ev h) = []"
  "hb_channels h = [] \<Longrightarrow> hb_clientsByUser (publishToUser json parse pubUp u ev h) = hb_clientsByUser h"
  by (simp_all add: publishToUser_def)

lemma clientsOf_register:
  "clientsOf u (registerSseClient userId c h)
     = (if u = userId then List.insert c (clientsOf userId h) else clientsOf u h)"
  by (simp add: registerSseClient_def Let_def clientsOf_def update_conv')

lemma clientsOf_closed:
  "clientsOf u (streamClosed userId c h) = (if u = userId then filter (\<lambda>x. x \<noteq> c) (clientsOf userId h) else clientsOf u h)"
  by (auto simp: streamClosed_def removeClient_def Let_def clientsOf_def update_conv' delete_conv'
      split: option.split)

lemma hub_step_ok: "hub_step json parse h h' \<Longrightarrow> hub_ok h \<Longrightarrow> hub_ok h'"
proof (induction rule: hub_step.induct)
  case (started h clientOk subUp)
  then show ?case by (simp add: hub_ok_def initSseHub_def Let_def clientsOf_def)
next
  case (opened h userId c)
  then show ?case
    by (simp add: hub_ok_def clientsOf_register) (simp add: registerSseClient_def Let_def)
next
  case (closed h userId c)
  then show ?case
    by (simp add: hub_ok_def clientsOf_closed)
      (simp add: streamClosed_def removeClient_def Let_def split: option.split)
next
  case (published h pubUp userId ev)
  then show ?case by (simp add: hub_ok_def publish_same clientsOf_cong[OF publish_same(2)])
next
  case (shut h)
  then show ?case by (simp add: hub_ok_def closeSseHub_def clientsOf_def)
qed

lemma hub_reachable_ok: "(hub_step json parse)\<^sup>*\<^sup>* emptyHub h \<Longrightarrow> hub_ok h"
proof (induction rule: rtranclp_induct)
  case base
  show ?case by (simp add: hub_ok_def emptyHub_def clientsOf_def)
qed (rule hub_step_ok)

text \<open>With Redis pub/sub up, the message goes to a channel that no subscriber listens to.\<close>

lemma publish_lost:
  "\<lbrakk>hub_ok h; hb_redisPubSubReady h; hb_publisher h\<rbrakk> \<Longrightarrow> publishToUser json parse True userId ev h = h"
  by (simp add: hub_ok_def publishToUser_def)

lemma publish_local:
  "\<lbrakk>hub_ok h; \<not> (hb_redisPubSubReady h \<and> hb_publisher h \<and> pubUp)\<rbrakk> \<Longrightarrow>
   hb_written (publishToUser json parse pubUp userId ev h) c
     = hb_written h c @ (if c \<in> set (clientsOf userId h) \<and> \<not> hb_ended h c then [formatSseMessage json ev] else [])"
  by (simp add: hub_ok_def publishToUser_def deliver_written)

section \<open>Who receives them\<close>

lemma uniqueFirst_props [simp]: "set (uniqueFirst xs) = set xs" "distinct (uniqueFirst xs)"
  by (simp_all add: uniqueFirst_def)

definition member_of :: "shipment \<Rightarrow> user \<Rightarrow> bool" where
  "member_of sh u \<longleftrightarrow> userAlive u \<and> (case us_organizationId u of None \<Rightarrow> False
     | Some i \<Rightarrow> i \<noteq> [] \<and> (i = sh_enterpriseId sh \<or> i = sh_logisticsId sh))"

lemma fanout_recipients:
  assumes "findShipmentById shipmentId xs = Some sh"
  shows "set (getUserIdsForShipment shipmentId xs us) = us_id ` {u \<in> set us. member_of sh u}"
proof -
  let ?orgs = "filter (\<lambda>i. i \<noteq> []) [sh_enterpriseId sh, sh_logisticsId sh]"
  have "(case us_organizationId u of None \<Rightarrow> False | Some i \<Rightarrow> i \<in> set ?orgs) \<and> userAlive u \<longleftrightarrow> member_of sh u" for u
    by (auto simp: member_of_def split: option.split)
  then have "set (findAll userAlive (\<lambda>u. case us_organizationId u of None \<Rightarrow> False | Some i \<Rightarrow> i \<in> set ?orgs) us)
      = {u \<in> set us. member_of sh u}"
    unfolding findAll_def by auto
  moreover have "{u \<in> set us. member_of sh u} = {}" if "?orgs = []"
    using that by (auto simp: member_of_def split: option.splits if_splits)
  ultimately show ?thesis
    using assms by (cases "?orgs = []") (simp_all add: getUserIdsForShipment_def Let_def del: filter.simps)
qed

lemma fanout_recipients_once: "distinct (getUserIdsForShipment shipmentId xs us)"
  by (simp add: getUserIdsForShipment_def Let_def split: option.split)

text \<open>A socket is only ever in rooms of shipments its organization may see.\<close>

lemma joined_room_authorized:
  "r \<in> set (so_rooms (joinShipmentRoom shipmentId xs sk)) \<Longrightarrow> r \<notin> set (so_rooms sk) \<Longrightarrow>
   r = shipmentRoomName shipmentId \<and> isAuthorizedForShipment shipmentId (Option.bind (so_user sk) cl_organizationId) xs"
  by (simp add: joinShipmentRoom_def split: if_splits)

lemma socket_ignores_blocklist:
  "verifyToken env t = Some payload \<Longrightarrow> t \<noteq> [] \<Longrightarrow> socketAuth env (Some t) = Inr payload"
  by (simp add: socketAuth_def)

section \<open>What the polling endpoint answers\<close>

lemma evictTail_list:
  "mem_list RECENT_EVENTS_KEY (evictTail stamp cutoff r)
     = rev (dropWhile (\<lambda>e. case stamp e of None \<Rightarrow> False | Some t \<Rightarrow> t < cutoff) (rev (mem_list RECENT_EVENTS_KEY r)))"
proof (induction stamp cutoff r rule: evictTail.induct)
  case (1 stamp cutoff r)
  show ?case
  proof (cases "mem_list RECENT_EVENTS_KEY r" rule: rev_cases)
    case Nil
    then show ?thesis by (subst evictTail.simps) (simp add: redis_lindex_last)
  next
    case (snoc l e)
    then have tail: "redis_lindex RECENT_EVENTS_KEY (- 1) r = Some e" by (simp add: redis_lindex_last)
    have rest: "mem_list RECENT_EVENTS_KEY (snd (redis_rpop RECENT_EVENTS_KEY r)) = l"
      using snoc by (simp add: redis_rpop_def Let_def)
    show ?thesis
      using 1[OF tail] rest snoc tail
      by (subst evictTail.simps) (simp split: option.split)
  qed
qed

definition descending :: "(string \<Rightarrow> int option) \<Rightarrow> string list \<Rightarrow> bool" where
  "descending stamp l \<longleftrightarrow> sorted_wrt (\<lambda>a b. \<exists>s t. stamp a = Some s \<and> stamp b = Some t \<and> t \<le> s) l
     \<and> (\<forall>e\<in>set l. stamp e \<noteq> None)"

definition since_at :: "(string \<Rightarrow> int option) \<Rightarrow> int \<Rightarrow> string \<Rightarrow> bool" where
  "since_at stamp t e = (case stamp e of None \<Rightarrow> False | Some s \<Rightarrow> t \<le> s)"

lemma descending_filter_take:
  "descending stamp l \<Longrightarrow> filter (since_at stamp t) (take n l) = take n (filter (since_at stamp t) l)"
proof (induction l arbitrary: n)
  case (Cons a l)
  show ?case
  proof (cases n)
    case (Suc m)
    have IH: "filter (since_at stamp t) (take m l) = take m (filter (since_at stamp t) l)"
      using Cons by (simp add: descending_def)
    have "filter (since_at stamp t) l = []" if "\<not> since_at stamp t a"
      using Cons.prems that by (fastforce simp: descending_def since_at_def filter_empty_conv)
    then show ?thesis using Suc IH by auto
  qed simp
qed simp

lemma evict_descending:
  assumes "descending stamp l"
  shows "rev (dropWhile (\<lambda>e. case stamp e of None \<Rightarrow> False | Some t \<Rightarrow> t < c) (rev l)) = filter (since_at stamp c) l"
  using assms
proof (induction l rule: rev_induct)
  case (snoc a l)
  have all: "filter (since_at stamp c) l = l" if "since_at stamp c a"
    using snoc.prems that by (fastforce simp: descending_def since_at_def sorted_wrt_append filter_id_conv)
  have l: "descending stamp l" using snoc.prems by (simp add: descending_def sorted_wrt_append)
  obtain t where t: "stamp a = Some t" using snoc.prems by (auto simp: descending_def)
  show ?case
  proof (cases "t < c")
    case True
    then have "\<not> since_at stamp c a" by (simp add: since_at_def t)
    then show ?thesis using snoc.IH[OF l] True t by simp
  next
    case False
    then have "since_at stamp c a" by (simp add: since_at_def t)
    then show ?thesis using all False t by simp
  qed
qed simp

text \<open>A run of pushes: clock reading and serialised event, first to last.\<close>

definition pushAll :: "(string \<Rightarrow> int option) \<Rightarrow> (millis \<times> string) list \<Rightarrow> redis \<Rightarrow> redis" where
  "pushAll stamp ps r = fold (\<lambda>(now, e). pushRecentEvent stamp True now e) ps r"

text \<open>The clock does not run backwards and events arrive in the order of their stamps.\<close>

definition in_time :: "(string \<Rightarrow> int option) \<Rightarrow> (millis \<times> string) list \<Rightarrow> bool" where
  "in_time stamp ps \<longleftrightarrow> sorted (map fst ps) \<and> descending stamp (rev (map snd ps))"

lemma push_list:
  assumes "descending stamp (e # mem_list RECENT_EVENTS_KEY r)"
  shows "mem_list RECENT_EVENTS_KEY (pushRecentEvent stamp True now e r)
    = take MAX_EVENTS (filter (since_at stamp (now - TTL_MS)) (e # mem_list RECENT_EVENTS_KEY r))"
proof -
  let ?l = "e # mem_list RECENT_EVENTS_KEY r"
  have "descending stamp (take MAX_EVENTS ?l)"
    using assms unfolding descending_def by (blast dest: in_set_takeD intro: sorted_wrt_take)
  then show ?thesis
    using assms
    by (simp add: pushRecentEvent_def Let_def evictTail_list evict_descending redis_lpush_def redis_ltrim_def
        js_slice_prefix descending_filter_take del: filter.simps)
qed

lemma descending_sub: "descending stamp l \<Longrightarrow> descending stamp (take n (filter P l))"
  unfolding descending_def by (auto dest!: in_set_takeD intro!: sorted_wrt_take sorted_wrt_filter)

lemma descending_cons_sub: "descending stamp (e # l) \<Longrightarrow> descending stamp (e # take n (filter P l))"
  using descending_sub[of stamp l n P] by (auto simp: descending_def dest!: in_set_takeD)

lemma poll_window:
  assumes R: "descending stamp R" and "c \<le> since + 1"
  shows "filter (since_at stamp (since + 1)) (take n (filter (since_at stamp c) R))
    = take n (filter (since_at stamp (since + 1)) R)"
proof -
  have "filter (since_at stamp (since + 1)) (filter (since_at stamp c) R) = filter (since_at stamp (since + 1)) R"
    using assms(2) by (auto simp: since_at_def filter_filter intro!: filter_cong split: option.splits)
  then show ?thesis
    using descending_filter_take[OF descending_sub[OF R, of "length R" "since_at stamp c"]] by simp
qed

lemma pushAll_list:
  assumes "in_time stamp (ps @ [(now, e)])"
  shows "mem_list RECENT_EVENTS_KEY (pushAll stamp (ps @ [(now, e)]) emptyRedis)
    = take MAX_EVENTS (filter (since_at stamp (now - TTL_MS)) (rev (map snd (ps @ [(now, e)]))))"
  using assms
proof (induction ps arbitrary: now e rule: rev_induct)
  case Nil
  have "mem_list RECENT_EVENTS_KEY emptyRedis = []" by (simp add: mem_list_def emptyRedis_def)
  then show ?case
    using Nil push_list[of stamp e emptyRedis now] by (simp add: pushAll_def in_time_def)
next
  case (snoc p ps)
  obtain now0 e0 where p: "p = (now0, e0)" by force
  let ?r = "pushAll stamp (ps @ [(now0, e0)]) emptyRedis"
  let ?R = "rev (map snd (ps @ [(now0, e0)]))"
  have IH: "mem_list RECENT_EVENTS_KEY ?r = take MAX_EVENTS (filter (since_at stamp (now0 - TTL_MS)) ?R)"
    using snoc by (auto simp: p in_time_def descending_def sorted_append)
  have le: "now0 \<le> now" and desc: "descending stamp (e # ?R)"
    using snoc.prems by (auto simp: p in_time_def sorted_append)
  have R: "descending stamp ?R" using desc by (simp add: descending_def)
  have d: "descending stamp (e # mem_list RECENT_EVENTS_KEY ?r)"
    unfolding IH by (rule descending_cons_sub[OF desc])
  let ?P = "since_at stamp (now - TTL_MS)"
  have M: "filter ?P (mem_list RECENT_EVENTS_KEY ?r) = take MAX_EVENTS (filter ?P ?R)"
    unfolding IH using le poll_window[OF R, of "now0 - TTL_MS" "now - TTL_MS - 1"] by simp
  have last: "pushAll stamp ((ps @ [p]) @ [(now, e)]) emptyRedis = pushRecentEvent stamp True now e ?r"
    by (simp add: p pushAll_def)
  have "take MAX_EVENTS (filter ?P [e] @ filter ?P (mem_list RECENT_EVENTS_KEY ?r))
      = take MAX_EVENTS (filter ?P [e] @ filter ?P ?R)"
    unfolding M by (simp only: take_append take_take) (simp add: min_def)
  then have "take MAX_EVENTS (filter ?P (e # mem_list RECENT_EVENTS_KEY ?r)) = take MAX_EVENTS (filter ?P (e # ?R))"
    by (metis append_Cons append_Nil filter_append)
  then show ?case
    unfolding last push_list[OF d] by (simp add: p del: filter.simps)
qed

text \<open>
  A poll that reaches back at most to the last push less the retention window answers the events newer
  than \<open>since\<close>, the newest 500 of them, oldest first.
\<close>

lemma poll_answers:
  assumes "in_time stamp (ps @ [(now, e)])" and "now - TTL_MS \<le> since + 1"
  shows "getRecentEventsSince stamp since (pushAll stamp (ps @ [(now, e)]) emptyRedis)
    = rev (take MAX_EVENTS (rev (filter (since_at stamp (since + 1)) (map snd (ps @ [(now, e)])))))"
proof -
  have newer: "(\<lambda>item. case stamp item of None \<Rightarrow> False | Some t \<Rightarrow> t > since) = since_at stamp (since + 1)"
    by (auto simp: since_at_def fun_eq_iff split: option.split)
  have "descending stamp (rev (map snd (ps @ [(now, e)])))" using assms(1) by (simp add: in_time_def)
  then show ?thesis
    unfolding getRecentEventsSince_def redis_lrange_all newer pushAll_list[OF assms(1)]
    by (simp only: poll_window[OF _ assms(2)] rev_filter)
qed

end
