(* ===== verification/Analytics.thy ===== *)
theory Analytics
  imports Shipments_Model
begin

text \<open>
  The analytics dashboard and the KPI summary (\<open>src/src/modules/analytics/analytics.service.ts\<close>).
  MongoDB runs the two pipelines on the stored documents, so a document is a list of named BSON
  values and a field that was never stored is \<open>B_missing\<close>. The operators whose answer depends on
  missing values are parameters (the record \<open>mongo\<close>), constrained by the documented behaviour
  \<open>documented_mongo\<close>; \<open>$match\<close>, \<open>$facet\<close>, \<open>$filter\<close>, \<open>$map\<close>, \<open>$cond\<close> and \<open>$group\<close> are written as
  the list functions they denote. Numbers are rationals, so the rounding of doubles is left out.
\<close>

section \<open>Documents and operators\<close>

datatype bson =
    B_missing | B_null | B_bool bool | B_num rat | B_date int | B_str string
  | B_arr "bson list" | B_doc "(string \<times> bson) list"

type_synonym bdoc = "(string \<times> bson) list"

definition fieldOf :: "bdoc \<Rightarrow> string \<Rightarrow> bson" where
  "fieldOf d k = nullish (map_of d k) B_missing"

definition subField :: "bson \<Rightarrow> string \<Rightarrow> bson" where
  "subField b k = (case b of B_doc d \<Rightarrow> fieldOf d k | _ \<Rightarrow> B_missing)"

definition dateOf :: "bson \<Rightarrow> int" where
  "dateOf b = (case b of B_date t \<Rightarrow> t | _ \<Rightarrow> 0)"

datatype truncUnit = U_day | U_week | U_month

text \<open>
  \<open>mg_project keep new\<close> and \<open>mg_addFields new\<close> are the stages, \<open>mg_eq\<close>, \<open>mg_lte\<close>, \<open>mg_subtract\<close>,
  \<open>mg_divide\<close> and \<open>mg_first\<close> (\<open>$arrayElemAt\<close> at 0) the expression operators, \<open>mg_avg\<close> the accumulator,
  \<open>mg_qlt\<close> and \<open>mg_qnull\<close> the query conditions \<open>$lt\<close> and equality with null, \<open>mg_floor\<close> the UTC
  \<open>$dateTrunc\<close>.
\<close>

record mongo =
  mg_project :: "string list \<Rightarrow> (string \<times> (bdoc \<Rightarrow> bson)) list \<Rightarrow> bdoc \<Rightarrow> bdoc"
  mg_addFields :: "(string \<times> (bdoc \<Rightarrow> bson)) list \<Rightarrow> bdoc \<Rightarrow> bdoc"
  mg_eq :: "bson \<Rightarrow> bson \<Rightarrow> bool"
  mg_lte :: "bson \<Rightarrow> bson \<Rightarrow> bool"
  mg_subtract :: "bson \<Rightarrow> bson \<Rightarrow> bson"
  mg_divide :: "bson \<Rightarrow> bson \<Rightarrow> bson"
  mg_first :: "bson list \<Rightarrow> bson"
  mg_avg :: "bson list \<Rightarrow> rat option"
  mg_qlt :: "bson \<Rightarrow> bson \<Rightarrow> bool"
  mg_qnull :: "bson \<Rightarrow> bool"
  mg_floor :: "truncUnit \<Rightarrow> millis \<Rightarrow> millis"

text \<open>
  The documented behaviour. A stage's expressions read the document that enters the stage. In an
  expression a missing value differs from null and precedes every other value; arithmetic on a
  missing or null operand is null; \<open>$avg\<close> skips what is not a number and is null without numbers.
  A query \<open>$lt\<close> compares values of one type only; a query for null matches missing fields too.
\<close>

definition documented_mongo :: "mongo \<Rightarrow> bool" where
  "documented_mongo m \<longleftrightarrow>
     (\<forall>keep new d k. fieldOf (mg_project m keep new d) k =
        (case map_of new k of Some f \<Rightarrow> f d | None \<Rightarrow> if k = ''_id'' \<or> k \<in> set keep then fieldOf d k else B_missing)) \<and>
     (\<forall>new d k. fieldOf (mg_addFields m new d) k =
        (case map_of new k of Some f \<Rightarrow> f d | None \<Rightarrow> fieldOf d k)) \<and>
     (\<forall>a b. mg_eq m a b \<longleftrightarrow> a = b) \<and>
     (\<forall>b. mg_lte m B_missing b) \<and> (\<forall>s t. mg_lte m (B_date s) (B_date t) \<longleftrightarrow> s \<le> t) \<and>
     (\<forall>t. mg_subtract m B_missing (B_date t) = B_null) \<and> (\<forall>t. mg_subtract m B_null (B_date t) = B_null) \<and>
     (\<forall>s t. mg_subtract m (B_date s) (B_date t) = B_num (of_int (s - t))) \<and>
     (\<forall>b. mg_divide m B_null (B_num b) = B_null) \<and>
     (\<forall>x y. y \<noteq> 0 \<longrightarrow> mg_divide m (B_num x) (B_num y) = B_num (x / y)) \<and>
     (\<forall>xs. mg_first m xs = (if xs = [] then B_missing else hd xs)) \<and>
     (\<forall>bs. (\<forall>b\<in>set bs. b \<in> {B_null, B_missing}) \<longrightarrow> mg_avg m bs = None) \<and>
     (\<forall>xs. xs \<noteq> [] \<longrightarrow> mg_avg m (map B_num xs) = Some (sum_list xs / of_nat (length xs))) \<and>
     (\<forall>b. \<not> mg_qlt m B_missing b) \<and> (\<forall>s t. mg_qlt m (B_date s) (B_date t) \<longleftrightarrow> s < t) \<and>
     (\<forall>b. mg_qnull m b \<longleftrightarrow> b \<in> {B_null, B_missing}) \<and>
     (\<forall>t. mg_floor m U_day t = t div MS_PER_DAY * MS_PER_DAY)"

text \<open>
  What mongoose stores for a shipment: unset optional fields are absent, and there is no
  organization field. The fields that no pipeline reads are left out.
\<close>

definition milestoneDoc :: "milestone \<Rightarrow> bson" where
  "milestoneDoc ms = B_doc [(''name'', B_str (ms_name ms)), (''timestamp'', B_date (ms_timestamp ms))]"

definition disputeDoc :: "dispute \<Rightarrow> bson" where
  "disputeDoc dp = B_doc [(''referenceNumber'', B_str (dp_referenceNumber dp)),
     (''description'', B_str (dp_description dp)), (''createdAt'', B_date (dp_createdAt dp))]"

definition shipmentDoc :: "shipment \<Rightarrow> bdoc" where
  "shipmentDoc sh =
     [(''_id'', B_str (sh_id sh)), (''trackingNumber'', B_str (sh_trackingNumber sh)),
      (''origin'', B_str (sh_origin sh)), (''destination'', B_str (sh_destination sh)),
      (''enterpriseId'', B_str (sh_enterpriseId sh)), (''logisticsId'', B_str (sh_logisticsId sh)),
      (''status'', B_str (status_str (sh_status sh)))]
     @ (case sh_expectedDelivery sh of None \<Rightarrow> [] | Some t \<Rightarrow> [(''expectedDelivery'', B_date t)])
     @ [(''milestones'', B_arr (map milestoneDoc (sh_milestones sh))),
        (''disputes'', B_arr (map disputeDoc (sh_disputes sh))),
        (''createdAt'', B_date (sh_createdAt sh)), (''updatedAt'', B_date (sh_updatedAt sh))]"

text \<open>The collection as \<open>Shipment.aggregate\<close> sees it: the pre hook prepends the soft-delete match.\<close>

definition storedShipments :: "shipment list \<Rightarrow> bdoc list" where
  "storedShipments shs = map shipmentDoc (filter shipmentAlive shs)"

text \<open>The query condition \<open>{ $gte: a, $lte: b }\<close> on a date field.\<close>

definition between :: "millis \<Rightarrow> millis \<Rightarrow> bson \<Rightarrow> bool" where
  "between a b v = (case v of B_date t \<Rightarrow> a \<le> t \<and> t \<le> b | _ \<Rightarrow> False)"

text \<open>\<open>$group\<close>: one row per key with the documents behind it, in no specified order.\<close>

definition groupRows :: "('a \<Rightarrow> 'k) \<Rightarrow> 'a list \<Rightarrow> ('k \<times> 'a list) list" where
  "groupRows key xs = map (\<lambda>k. (k, filter (\<lambda>x. key x = k) xs)) (remdups (map key xs))"

text \<open>The first timestamp among the milestones called DELIVERED.\<close>

definition deliveredTimestamp :: "mongo \<Rightarrow> bdoc \<Rightarrow> bson" where
  "deliveredTimestamp m d =
     (case fieldOf d ''milestones'' of
        B_arr ms \<Rightarrow> mg_first m (map (\<lambda>x. subField x ''timestamp'')
                      (filter (\<lambda>x. mg_eq m (subField x ''name'') (B_str ''DELIVERED'')) ms))
      | _ \<Rightarrow> B_null)"

section \<open>The performance dashboard\<close>

datatype granularity = Daily | Weekly | Monthly

primrec granularity_str :: "granularity \<Rightarrow> string" where
  "granularity_str Daily = ''daily''"
| "granularity_str Weekly = ''weekly''"
| "granularity_str Monthly = ''monthly''"

definition calculateDefaultGranularity :: "millis \<Rightarrow> millis \<Rightarrow> granularity" where
  "calculateDefaultGranularity startDate endDate =
     (if endDate - startDate \<le> 30 * MS_PER_DAY then Daily else Weekly)"

primrec dateTruncUnit :: "granularity \<Rightarrow> truncUnit" where
  "dateTruncUnit Daily = U_day"
| "dateTruncUnit Weekly = U_week"
| "dateTruncUnit Monthly = U_month"

record performanceQuery =
  q_startDate :: millis
  q_endDate :: millis
  q_granularity :: "granularity option"

record timeBucket =
  tb_date :: string
  tb_shipmentCount :: nat
  tb_deliveredCount :: nat
  tb_anomalyCount :: nat

record dashboard =
  db_startDate :: string
  db_endDate :: string
  db_shipmentsByStatus :: "(string \<times> nat) list"
  db_averageDeliveryTimeByLogisticsId :: "(string \<times> rat) list"
  db_totalDelayedShipments :: nat
  db_timeSeries :: "timeBucket list"

text \<open>The rows of the facet as the pipeline returns them.\<close>

record performanceFacet =
  pf_shipmentsByStatus :: "(bson \<times> nat) list"
  pf_averageDeliveryTime :: "(bson \<times> rat option) list"
  pf_delayedShipments :: "nat list"
  pf_timeSeries :: "(millis \<times> nat \<times> nat) list"

text \<open>The \<open>$project\<close> stage: three stored fields and the computed one, nothing else.\<close>

definition projectPerformance :: "mongo \<Rightarrow> bdoc \<Rightarrow> bdoc" where
  "projectPerformance m =
     mg_project m [''status'', ''logisticsId'', ''createdAt''] [(''deliveredTimestamp'', deliveredTimestamp m)]"

definition facetByStatus :: "bdoc list \<Rightarrow> (bson \<times> nat) list" where
  "facetByStatus docs = map (\<lambda>(k, ds). (k, length ds)) (groupRows (\<lambda>d. fieldOf d ''status'') docs)"

definition facetAverageTime :: "mongo \<Rightarrow> bdoc list \<Rightarrow> (bson \<times> rat option) list" where
  "facetAverageTime m docs =
     map (\<lambda>(k, ds). (k, mg_avg m (map (\<lambda>d. mg_subtract m (fieldOf d ''deliveredTimestamp'') (fieldOf d ''createdAt'')) ds)))
       (groupRows (\<lambda>d. fieldOf d ''logisticsId'')
          (filter (\<lambda>d. \<not> mg_qnull m (fieldOf d ''deliveredTimestamp'')) docs))"

text \<open>\<open>$count\<close> yields no document when nothing reaches it.\<close>

definition facetDelayed :: "mongo \<Rightarrow> millis \<Rightarrow> bdoc list \<Rightarrow> nat list" where
  "facetDelayed m now docs =
     (let late = filter (\<lambda>d. fieldOf d ''status'' \<noteq> B_str ''DELIVERED''
                           \<and> mg_qlt m (fieldOf d ''expectedDelivery'') (B_date now)) docs
      in if late = [] then [] else [length late])"

definition facetTimeSeries :: "mongo \<Rightarrow> truncUnit \<Rightarrow> bdoc list \<Rightarrow> (millis \<times> nat \<times> nat) list" where
  "facetTimeSeries m unit docs =
     sort_key fst (map (\<lambda>(k, ds). (k, length ds,
         length (filter (\<lambda>d. \<not> mg_eq m (fieldOf d ''deliveredTimestamp'') B_null) ds)))
       (groupRows (\<lambda>d. mg_floor m unit (dateOf (fieldOf d ''createdAt''))) docs))"

definition matchedBetween :: "millis \<Rightarrow> millis \<Rightarrow> bdoc list \<Rightarrow> bdoc list" where
  "matchedBetween a b docs = filter (\<lambda>d. between a b (fieldOf d ''createdAt'')) docs"

definition performancePipeline ::
  "mongo \<Rightarrow> millis \<Rightarrow> millis \<Rightarrow> millis \<Rightarrow> truncUnit \<Rightarrow> bdoc list \<Rightarrow> performanceFacet" where
  "performancePipeline m now startDate endDate unit docs =
     (let ps = map (projectPerformance m) (matchedBetween startDate endDate docs)
      in \<lparr>pf_shipmentsByStatus = facetByStatus ps, pf_averageDeliveryTime = facetAverageTime m ps,
          pf_delayedShipments = facetDelayed m now ps, pf_timeSeries = facetTimeSeries m unit ps\<rparr>)"

definition anomalyPipeline ::
  "mongo \<Rightarrow> millis \<Rightarrow> millis \<Rightarrow> truncUnit \<Rightarrow> anomalyDoc list \<Rightarrow> (millis \<times> nat) list" where
  "anomalyPipeline m startDate endDate unit as =
     sort_key fst (map (\<lambda>(k, xs). (k, length xs)) (groupRows (\<lambda>a. mg_floor m unit (am_timestamp a))
       (filter (\<lambda>a. anomalyAlive a \<and> startDate \<le> am_timestamp a \<and> am_timestamp a \<le> endDate) as)))"

text \<open>\<open>String(row._id)\<close>: the grouped fields hold strings or ids; a document without one groups under null.\<close>

definition bsonString :: "bson \<Rightarrow> string" where
  "bsonString b = (case b of B_str s \<Rightarrow> s | _ \<Rightarrow> ''null'')"

text \<open>\<open>anomalyMap\<close>: a later row replaces an earlier one with the same date.\<close>

definition anomalyCountOf :: "(millis \<times> nat) list \<Rightarrow> string \<Rightarrow> nat" where
  "anomalyCountOf rows date = nullish (map_of (rev (map (\<lambda>(t, n). (toISOString t, n)) rows)) date) 0"

definition buildDashboard ::
  "millis \<Rightarrow> millis \<Rightarrow> performanceFacet \<Rightarrow> (millis \<times> nat) list \<Rightarrow> dashboard" where
  "buildDashboard startDate endDate facet anomalyRows =
     \<lparr>db_startDate = toISOString startDate, db_endDate = toISOString endDate,
      db_shipmentsByStatus = map (\<lambda>(k, n). (bsonString k, n)) (pf_shipmentsByStatus facet),
      db_averageDeliveryTimeByLogisticsId =
        map (\<lambda>(k, a). (bsonString k, nullish a 0)) (pf_averageDeliveryTime facet),
      db_totalDelayedShipments = (case pf_delayedShipments facet of [] \<Rightarrow> 0 | n # _ \<Rightarrow> n),
      db_timeSeries = map (\<lambda>(t, n, dn). \<lparr>tb_date = toISOString t, tb_shipmentCount = n,
         tb_deliveredCount = dn, tb_anomalyCount = anomalyCountOf anomalyRows (toISOString t)\<rparr>)
        (pf_timeSeries facet)\<rparr>"

text \<open>
  One request: the clock, the two cache calls, and whether each aggregation ends within its time
  limit (\<open>an_error\<close> is what the driver throws otherwise).
\<close>

record analyticsEnv =
  an_now :: millis
  an_lastUpdated :: millis
  an_connR :: conn
  an_connW :: conn
  an_shipmentsUp :: bool
  an_anomaliesUp :: bool
  an_error :: exn

definition getAnalyticsPerformance ::
  "mongo \<Rightarrow> (dashboard \<Rightarrow> string) \<Rightarrow> (string \<Rightarrow> dashboard option) \<Rightarrow> analyticsEnv \<Rightarrow> performanceQuery
   \<Rightarrow> shipment list \<Rightarrow> anomalyDoc list \<Rightarrow> cacheState \<Rightarrow> dashboard result \<times> cacheState" where
  "getAnalyticsPerformance m enc dec env q shs as cs =
     (let startDate = q_startDate q; endDate = q_endDate q;
          g = nullish (q_granularity q) (calculateDefaultGranularity startDate endDate);
          cacheKey = analyticsPerformanceCacheKey (toISOString startDate) (toISOString endDate) (granularity_str g)
      in case readAnalyticsPerformanceCache dec (an_connR env) cacheKey cs of
           (Some cached, cs') \<Rightarrow> (Inr cached, cs')
         | (None, cs') \<Rightarrow>
             (if \<not> an_shipmentsUp env then (Inl (an_error env), cs')
              else let facet = performancePipeline m (an_now env) startDate endDate (dateTruncUnit g) (storedShipments shs)
              in if \<not> an_anomaliesUp env then (Inl (an_error env), cs')
              else let rows = anomalyPipeline m startDate endDate (dateTruncUnit g) as;
                       r = buildDashboard startDate endDate facet rows
                   in (Inr r, writeAnalyticsPerformanceCache enc (an_connW env) cacheKey r cs')))"

section \<open>Groups\<close>

lemma groupRows_keys: "map fst (groupRows key xs) = remdups (map key xs)"
  by (simp add: groupRows_def comp_def)

lemma groupRows_distinct [simp]: "distinct (map fst (groupRows key xs))"
  by (simp add: groupRows_keys)

lemma groupRows_rows: "(k, ys) \<in> set (groupRows key xs) \<longleftrightarrow> k \<in> key ` set xs \<and> ys = filter (\<lambda>x. key x = k) xs"
  by (auto simp: groupRows_def)

text \<open>Grouping splits the input: whatever is counted per group adds up to the count of the whole.\<close>

lemma groupRows_sum:
  fixes amt :: "'a \<Rightarrow> 'b::comm_monoid_add"
  shows "sum_list (map (\<lambda>(k, ys). sum_list (map amt ys)) (groupRows key xs)) = sum_list (map amt xs)"
  using sum_by_key[of "remdups (map key xs)" xs key amt] by (simp add: groupRows_def comp_def)

lemma groupRows_length:
  "sum_list (map (\<lambda>(k, ys). length ys) (groupRows key xs)) = length xs"
  using groupRows_sum[of "\<lambda>_. 1::nat" key xs] by (simp add: sum_list_triv)

lemma map_of_groupRows:
  "map_of (groupRows key xs) k = (if k \<in> key ` set xs then Some (filter (\<lambda>x. key x = k) xs) else None)"
  by (auto simp: groupRows_def map_of_map_restrict restrict_map_def)

lemma sum_list_sort_key:
  fixes f :: "'a \<Rightarrow> 'b::comm_monoid_add"
  shows "sum_list (map f (sort_key key xs)) = sum_list (map f xs)"
  by (simp flip: sum_mset_sum_list add: mset_map)

section \<open>What the dashboard counts\<close>

lemma mongo_project:
  assumes "documented_mongo m"
  shows "fieldOf (projectPerformance m d) k =
    (if k = ''deliveredTimestamp'' then deliveredTimestamp m d
     else if k \<in> {''_id'', ''status'', ''logisticsId'', ''createdAt''} then fieldOf d k else B_missing)"
  using assms by (simp add: documented_mongo_def projectPerformance_def)

lemma mongo_simps:
  assumes "documented_mongo m"
  shows "mg_eq m a b \<longleftrightarrow> a = b" "mg_lte m B_missing b" "\<not> mg_qlt m B_missing b"
    "mg_subtract m B_missing (B_date t) = B_null" "mg_divide m B_null (B_num x) = B_null"
    "mg_first m xs = (if xs = [] then B_missing else hd xs)"
    "mg_qnull m b \<longleftrightarrow> b \<in> {B_null, B_missing}" "mg_floor m U_day t = t div MS_PER_DAY * MS_PER_DAY"
  using assms by (simp_all add: documented_mongo_def)

lemma shipmentDoc_fields [simp]:
  "fieldOf (shipmentDoc sh) ''status'' = B_str (status_str (sh_status sh))"
  "fieldOf (shipmentDoc sh) ''logisticsId'' = B_str (sh_logisticsId sh)"
  "fieldOf (shipmentDoc sh) ''createdAt'' = B_date (sh_createdAt sh)"
  "fieldOf (shipmentDoc sh) ''milestones'' = B_arr (map milestoneDoc (sh_milestones sh))"
  "fieldOf (shipmentDoc sh) ''disputes'' = B_arr (map disputeDoc (sh_disputes sh))"
  "fieldOf (shipmentDoc sh) ''organizationId'' = B_missing"
  by (simp_all add: fieldOf_def shipmentDoc_def split: option.splits)

definition deliveredAt :: "shipment \<Rightarrow> millis option" where
  "deliveredAt sh = map_option ms_timestamp (List.find (\<lambda>ms. ms_name ms = ''DELIVERED'') (sh_milestones sh))"

lemma deliveredTimestamp_shipment:
  assumes "documented_mongo m"
  shows "deliveredTimestamp m (shipmentDoc sh) = (case deliveredAt sh of None \<Rightarrow> B_missing | Some t \<Rightarrow> B_date t)"
proof -
  have "filter (\<lambda>x. subField x ''name'' = B_str ''DELIVERED'') (map milestoneDoc mss)
      = map milestoneDoc (filter (\<lambda>ms. ms_name ms = ''DELIVERED'') mss)" for mss
    by (induction mss) (simp_all add: milestoneDoc_def subField_def fieldOf_def)
  moreover have "hd (map (\<lambda>ms. subField (milestoneDoc ms) ''timestamp'') mss) = B_date (ms_timestamp (hd mss))"
    if "mss \<noteq> []" for mss
    using that by (cases mss) (simp_all add: milestoneDoc_def subField_def fieldOf_def)
  moreover have "List.find P xs = (if filter P xs = [] then None else Some (hd (filter P xs)))"
    for P and xs :: "milestone list"
    by (induction xs) auto
  ultimately show ?thesis
    by (simp add: deliveredTimestamp_def deliveredAt_def mongo_simps[OF assms] comp_def)
qed

lemma deliveredTimestamp_never_null:
  "documented_mongo m \<Longrightarrow> deliveredTimestamp m (shipmentDoc sh) \<noteq> B_null"
  by (simp add: deliveredTimestamp_shipment split: option.splits)

text \<open>The shipments of the window.\<close>

definition createdBetween :: "millis \<Rightarrow> millis \<Rightarrow> shipment list \<Rightarrow> shipment list" where
  "createdBetween a b shs = filter (\<lambda>sh. shipmentAlive sh \<and> a \<le> sh_createdAt sh \<and> sh_createdAt sh \<le> b) shs"

lemma matched_shipments: "matchedBetween a b (storedShipments shs) = map shipmentDoc (createdBetween a b shs)"
  by (simp add: matchedBetween_def storedShipments_def createdBetween_def between_def filter_map comp_def
      conj_commute)

lemma projected_fields:
  assumes "documented_mongo m"
  shows "fieldOf (projectPerformance m (shipmentDoc sh)) ''status'' = B_str (status_str (sh_status sh))"
    "fieldOf (projectPerformance m (shipmentDoc sh)) ''logisticsId'' = B_str (sh_logisticsId sh)"
    "fieldOf (projectPerformance m (shipmentDoc sh)) ''createdAt'' = B_date (sh_createdAt sh)"
    "fieldOf (projectPerformance m (shipmentDoc sh)) ''expectedDelivery'' = B_missing"
    "fieldOf (projectPerformance m (shipmentDoc sh)) ''deliveredTimestamp'' =
       (case deliveredAt sh of None \<Rightarrow> B_missing | Some t \<Rightarrow> B_date t)"
  by (simp_all add: mongo_project[OF assms] deliveredTimestamp_shipment[OF assms])

text \<open>
  \<open>expectedDelivery\<close> does not pass the \<open>$project\<close> stage, so the query on it never matches.
\<close>

lemma delayed_empty:
  assumes "documented_mongo m"
  shows "facetDelayed m now (map (projectPerformance m) (map shipmentDoc shs)) = []"
  by (simp add: facetDelayed_def Let_def filter_empty_conv projected_fields[OF assms] mongo_simps[OF assms])

text \<open>
  A shipment without a DELIVERED milestone has no \<open>deliveredTimestamp\<close>, which is not null: the time
  series counts it as delivered.
\<close>

lemma bucket_delivered:
  assumes "documented_mongo m"
    and "(t, n, dn) \<in> set (facetTimeSeries m u (map (projectPerformance m) (map shipmentDoc shs)))"
  shows "dn = n"
proof -
  have "filter (\<lambda>d. \<not> mg_eq m (fieldOf d ''deliveredTimestamp'') B_null) ds = ds"
    if "set ds \<subseteq> set (map (projectPerformance m) (map shipmentDoc shs))" for ds
    using that by (auto simp: filter_id_conv mongo_simps[OF assms(1)] projected_fields[OF assms(1)] split: option.splits)
  note all = this
  from assms(2) obtain k ds where "(k, ds) \<in> set (groupRows (\<lambda>d. mg_floor m u (dateOf (fieldOf d ''createdAt'')))
      (map (projectPerformance m) (map shipmentDoc shs)))"
    and n: "n = length ds" "dn = length (filter (\<lambda>d. \<not> mg_eq m (fieldOf d ''deliveredTimestamp'') B_null) ds)"
    unfolding facetTimeSeries_def set_sort by auto
  then have "set ds \<subseteq> set (map (projectPerformance m) (map shipmentDoc shs))"
    unfolding groupRows_rows by (metis filter_is_subset)
  then show ?thesis unfolding n by (simp only: all)
qed

lemma bucket_total:
  "sum_list (map (\<lambda>(t, n, dn). n) (facetTimeSeries m u docs)) = length docs"
  unfolding facetTimeSeries_def sum_list_sort_key
  using groupRows_length[of "\<lambda>d. mg_floor m u (dateOf (fieldOf d ''createdAt''))" docs]
  by (simp add: comp_def case_prod_unfold)

lemma map_of_map_inj:
  assumes "\<And>k'. k' \<in> set (map fst rows) \<Longrightarrow> f k' = f k \<longleftrightarrow> k' = k"
  shows "map_of (map (\<lambda>(k, v). (f k, g v)) rows) (f k) = map_option g (map_of rows k)"
  using assms
proof (induction rows)
  case (Cons r rows)
  have eq: "f (fst r) = f k \<longleftrightarrow> fst r = k" by (rule Cons.prems) simp
  have "map_of (map (\<lambda>(k, v). (f k, g v)) rows) (f k) = map_option g (map_of rows k)"
    by (rule Cons.IH) (rule Cons.prems, simp)
  then show ?case by (cases r) (use eq in auto)
qed simp

lemma status_count:
  assumes "documented_mongo m"
  shows "nullish (map_of (map (\<lambda>(k, n). (bsonString k, n))
      (facetByStatus (map (projectPerformance m) (map shipmentDoc shs)))) (status_str st)) 0
    = length (filter (\<lambda>sh. sh_status sh = st) shs)"
proof -
  define key where "key d = fieldOf d ''status''" for d
  define docs where "docs = map (projectPerformance m) (map shipmentDoc shs)"
  have key: "key (projectPerformance m (shipmentDoc sh)) = B_str (status_str (sh_status sh))" for sh
    by (simp add: key_def projected_fields[OF assms])
  have "map_of (map (\<lambda>(k, ds). (bsonString k, length ds)) (groupRows key docs)) (bsonString (B_str (status_str st)))
      = map_option length (map_of (groupRows key docs) (B_str (status_str st)))"
  proof (rule map_of_map_inj)
    show "bsonString k' = bsonString (B_str (status_str st)) \<longleftrightarrow> k' = B_str (status_str st)"
      if "k' \<in> set (map fst (groupRows key docs))" for k'
      using that by (auto simp: groupRows_keys docs_def key bsonString_def)
  qed
  moreover have "map (\<lambda>(k, n). (bsonString k, n)) (facetByStatus docs)
      = map (\<lambda>(k, ds). (bsonString k, length ds)) (groupRows key docs)"
    by (simp add: facetByStatus_def key_def[abs_def] comp_def case_prod_unfold)
  moreover have "bsonString (B_str s) = s" for s by (simp add: bsonString_def)
  moreover have "filter (\<lambda>d. key d = B_str (status_str st)) docs
      = map (projectPerformance m) (map shipmentDoc (filter (\<lambda>sh. sh_status sh = st) shs))"
    by (simp add: docs_def filter_map comp_def key)
  moreover have "B_str (status_str st) \<notin> key ` set docs \<Longrightarrow> filter (\<lambda>sh. sh_status sh = st) shs = []"
    by (auto simp: docs_def filter_empty_conv key image_image)
  ultimately show ?thesis
    by (auto simp: map_of_groupRows docs_def[symmetric] simp del: map_map)
qed

text \<open>The average over a carrier's delivered shipments of the time from creation to delivery.\<close>

lemma average_time:
  assumes "documented_mongo m"
    and "ds = filter (\<lambda>sh. sh_logisticsId sh = l \<and> deliveredAt sh \<noteq> None) shs" and "ds \<noteq> []"
  shows "map_of (facetAverageTime m (map (projectPerformance m) (map shipmentDoc shs))) (B_str l)
    = Some (Some (sum_list (map (\<lambda>sh. of_int (the (deliveredAt sh) - sh_createdAt sh)) ds) / of_nat (length ds)))"
proof -
  define P where "P sh = projectPerformance m (shipmentDoc sh)" for sh
  define live where "live = filter (\<lambda>d. \<not> mg_qnull m (fieldOf d ''deliveredTimestamp'')) (map P shs)"
  note fields = projected_fields[OF assms(1), folded P_def]
  have live: "live = map P (filter (\<lambda>sh. deliveredAt sh \<noteq> None) shs)"
    by (simp add: live_def filter_map comp_def fields mongo_simps[OF assms(1)])
      (auto intro!: arg_cong[of _ _ "map P"] filter_cong split: option.splits)
  have group: "filter (\<lambda>d. fieldOf d ''logisticsId'' = B_str l) live = map P ds"
    by (simp add: live filter_map comp_def fields assms(2))
      (auto intro!: arg_cong[of _ _ "map P"] filter_cong)
  then have key: "B_str l \<in> (\<lambda>d. fieldOf d ''logisticsId'') ` set live"
    using assms(3) by (cases ds) (auto simp: filter_eq_Cons_iff intro!: image_eqI)
  have "map (\<lambda>d. mg_subtract m (fieldOf d ''deliveredTimestamp'') (fieldOf d ''createdAt'')) (map P ds)
      = map B_num (map (\<lambda>sh. of_int (the (deliveredAt sh) - sh_createdAt sh)) ds)"
    using assms(1) by (auto simp: fields assms(2) documented_mongo_def)
  moreover have avg: "mg_avg m (map B_num xs) = Some (sum_list xs / of_nat (length xs))" if "xs \<noteq> []" for xs
    using assms(1) that by (simp add: documented_mongo_def)
  ultimately have "mg_avg m (map (\<lambda>d. mg_subtract m (fieldOf d ''deliveredTimestamp'') (fieldOf d ''createdAt'')) (map P ds))
      = Some (sum_list (map (\<lambda>sh. of_int (the (deliveredAt sh) - sh_createdAt sh)) ds) / of_nat (length ds))"
    using assms(3) avg[of "map (\<lambda>sh. of_int (the (deliveredAt sh) - sh_createdAt sh)) ds"] by (simp only:) simp
  moreover have "map (projectPerformance m) (map shipmentDoc shs) = map P shs" by (simp add: P_def)
  moreover have "map_of (facetAverageTime m (map P shs)) (B_str l) = map_option
      (\<lambda>ds. mg_avg m (map (\<lambda>d. mg_subtract m (fieldOf d ''deliveredTimestamp'') (fieldOf d ''createdAt'')) ds))
      (map_of (groupRows (\<lambda>d. fieldOf d ''logisticsId'') live) (B_str l))"
    unfolding facetAverageTime_def live_def[symmetric] by (simp only: map_of_map comp_def)
  ultimately show ?thesis
    using key by (simp only: map_of_groupRows group if_True option.map)
qed

text \<open>The anomalies of a bucket, as long as no two buckets print the same date.\<close>

lemma distinct_sort_key_fst: "distinct (map fst (sort_key fst rows)) = distinct (map fst rows)"
proof -
  have "mset (map fst (sort_key fst rows)) = mset (map fst rows)" by simp
  then show ?thesis using mset_eq_imp_distinct_iff by blast
qed

lemma map_of_sort_key:
  "distinct (map fst rows) \<Longrightarrow> map_of (sort_key fst rows) = map_of rows"
  using map_of_inject_set[of "sort_key fst rows" rows] by (simp add: distinct_sort_key_fst)

lemma map_of_rev_distinct: "distinct (map fst xs) \<Longrightarrow> map_of (rev xs) = map_of xs"
  using map_of_inject_set[of "rev xs" xs] by (simp flip: rev_map)

lemma anomaly_count:
  assumes "inj_on toISOString (insert t ((\<lambda>x. mg_floor m u (am_timestamp x)) ` set as))"
  shows "anomalyCountOf (anomalyPipeline m a b u as) (toISOString t)
    = length (filter (\<lambda>x. anomalyAlive x \<and> a \<le> am_timestamp x \<and> am_timestamp x \<le> b
                        \<and> mg_floor m u (am_timestamp x) = t) as)"
proof -
  define xs where "xs = filter (\<lambda>x. anomalyAlive x \<and> a \<le> am_timestamp x \<and> am_timestamp x \<le> b) as"
  define key where "key x = mg_floor m u (am_timestamp x)" for x :: anomalyDoc
  define rows where "rows = map (\<lambda>(k, ys). (k, length ys)) (groupRows key xs)"
  have p: "anomalyPipeline m a b u as = sort_key fst rows"
    by (simp add: anomalyPipeline_def rows_def xs_def key_def[abs_def])
  have keys: "map fst rows = remdups (map key xs)"
    by (simp add: rows_def comp_def case_prod_unfold flip: groupRows_keys)
  then have d: "distinct (map fst rows)" by simp
  have inj: "inj_on toISOString (insert t (set (map fst rows)))"
    using assms unfolding keys by (rule inj_on_subset) (auto simp: key_def xs_def)
  have "mset (map (\<lambda>r. toISOString (fst r)) (sort_key fst rows)) = mset (map toISOString (map fst rows))"
    by (simp add: comp_def)
  moreover have "distinct (map toISOString (map fst rows))"
    using d inj by (auto simp only: distinct_map[of toISOString] intro: inj_on_subset)
  ultimately have "distinct (map (\<lambda>r. toISOString (fst r)) (sort_key fst rows))"
    using mset_eq_imp_distinct_iff by blast
  then have "map_of (rev (map (\<lambda>(t, n). (toISOString t, n)) (sort_key fst rows))) (toISOString t)
      = map_of (map (\<lambda>(t, n). (toISOString t, id n)) (sort_key fst rows)) (toISOString t)"
    by (subst map_of_rev_distinct) (simp_all add: comp_def case_prod_unfold)
  also have "\<dots> = map_option id (map_of (sort_key fst rows) t)"
  proof (rule map_of_map_inj)
    show "toISOString k = toISOString t \<longleftrightarrow> k = t" if "k \<in> set (map fst (sort_key fst rows))" for k
      using that by (intro inj_on_eq_iff[OF inj]) simp_all
  qed
  also have "\<dots> = map_option length (map_of (groupRows key xs) t)"
    unfolding map_of_sort_key[OF d] by (simp add: rows_def map_of_map option.map_id)
  finally show ?thesis
    by (auto simp: anomalyCountOf_def p map_of_groupRows xs_def key_def filter_empty_conv intro!: arg_cong[of _ _ length] filter_cong)
qed

section \<open>Serving the dashboard\<close>

lemma performance_hit:
  assumes "readAnalyticsPerformanceCache dec (an_connR env)
      (analyticsPerformanceCacheKey (toISOString (q_startDate q)) (toISOString (q_endDate q))
        (granularity_str (nullish (q_granularity q) (calculateDefaultGranularity (q_startDate q) (q_endDate q))))) cs
    = (Some db, cs')"
  shows "getAnalyticsPerformance m enc dec env q shs as cs = (Inr db, cs')"
  using assms by (simp add: getAnalyticsPerformance_def Let_def)

text \<open>What is computed when the cache has no answer.\<close>

definition freshDashboard ::
  "mongo \<Rightarrow> analyticsEnv \<Rightarrow> performanceQuery \<Rightarrow> shipment list \<Rightarrow> anomalyDoc list \<Rightarrow> dashboard" where
  "freshDashboard m env q shs as =
     (let g = nullish (q_granularity q) (calculateDefaultGranularity (q_startDate q) (q_endDate q));
          unit = dateTruncUnit g
      in buildDashboard (q_startDate q) (q_endDate q)
           (performancePipeline m (an_now env) (q_startDate q) (q_endDate q) unit (storedShipments shs))
           (anomalyPipeline m (q_startDate q) (q_endDate q) unit as))"

definition performanceKey :: "performanceQuery \<Rightarrow> string" where
  "performanceKey q = analyticsPerformanceCacheKey (toISOString (q_startDate q)) (toISOString (q_endDate q))
     (granularity_str (nullish (q_granularity q) (calculateDefaultGranularity (q_startDate q) (q_endDate q))))"

lemma performance_miss:
  assumes "readAnalyticsPerformanceCache dec (an_connR env) (performanceKey q) cs = (None, cs')"
  shows "getAnalyticsPerformance m enc dec env q shs as cs =
    (if an_shipmentsUp env \<and> an_anomaliesUp env
     then (Inr (freshDashboard m env q shs as),
           writeAnalyticsPerformanceCache enc (an_connW env) (performanceKey q) (freshDashboard m env q shs as) cs')
     else (Inl (an_error env), cs'))"
  using assms by (simp add: getAnalyticsPerformance_def performanceKey_def freshDashboard_def Let_def)

lemma performance_fresh:
  assumes "fst (readAnalyticsPerformanceCache dec (an_connR env) (performanceKey q) cs) = None"
    and "an_shipmentsUp env" and "an_anomaliesUp env"
  shows "fst (getAnalyticsPerformance m enc dec env q shs as cs) = Inr (freshDashboard m env q shs as)"
proof -
  obtain cs' where "readAnalyticsPerformanceCache dec (an_connR env) (performanceKey q) cs = (None, cs')"
    using assms(1) by (cases "readAnalyticsPerformanceCache dec (an_connR env) (performanceKey q) cs") simp
  then show ?thesis using assms(2,3) by (simp add: performance_miss)
qed

text \<open>A dashboard is a cached one or the fresh one; a failed aggregation is not cached.\<close>

lemma performance_cases:
  assumes "getAnalyticsPerformance m enc dec env q shs as cs = (Inr db, cs')"
    and "fst (readAnalyticsPerformanceCache dec (an_connR env) (performanceKey q) cs) = None"
  shows "db = freshDashboard m env q shs as"
  using assms(1) performance_miss[of dec env q cs "snd (readAnalyticsPerformanceCache dec (an_connR env) (performanceKey q) cs)"]
    assms(2) by (metis Inl_Inr_False fst_conv prod.collapse sum.inject(2))

lemma fresh_series_total:
  "sum_list (map tb_shipmentCount (db_timeSeries (freshDashboard m env q shs as)))
     = length (createdBetween (q_startDate q) (q_endDate q) shs)"
proof -
  have "sum_list (map tb_shipmentCount (db_timeSeries (buildDashboard a b f rows)))
      = sum_list (map (\<lambda>(t, n, dn). n) (pf_timeSeries f))" for a b f rows
    by (simp add: buildDashboard_def comp_def case_prod_unfold)
  then show ?thesis
    by (simp add: freshDashboard_def Let_def performancePipeline_def bucket_total matched_shipments)
qed

lemma fresh_status_count:
  assumes "documented_mongo m"
  shows "nullish (map_of (db_shipmentsByStatus (freshDashboard m env q shs as)) (status_str st)) 0
    = length (filter (\<lambda>sh. sh_status sh = st) (createdBetween (q_startDate q) (q_endDate q) shs))"
  using status_count[OF assms]
  by (simp add: freshDashboard_def Let_def performancePipeline_def buildDashboard_def matched_shipments)

lemma fresh_status_total:
  "sum_list (map snd (db_shipmentsByStatus (freshDashboard m env q shs as)))
     = length (createdBetween (q_startDate q) (q_endDate q) shs)"
proof -
  have "sum_list (map snd (facetByStatus docs)) = length docs" for docs
    using groupRows_length[of "\<lambda>d. fieldOf d ''status''" docs]
    by (simp add: facetByStatus_def comp_def case_prod_unfold)
  then show ?thesis
    by (simp add: freshDashboard_def Let_def performancePipeline_def buildDashboard_def matched_shipments
        comp_def case_prod_unfold)
qed

lemma fresh_delayed:
  assumes "documented_mongo m"
  shows "db_totalDelayedShipments (freshDashboard m env q shs as) = 0"
  using delayed_empty[OF assms]
  by (simp add: freshDashboard_def Let_def performancePipeline_def buildDashboard_def matched_shipments)

lemma fresh_delivered:
  assumes "documented_mongo m" and "b \<in> set (db_timeSeries (freshDashboard m env q shs as))"
  shows "tb_deliveredCount b = tb_shipmentCount b"
  using assms(2) bucket_delivered[OF assms(1)]
  by (fastforce simp: freshDashboard_def Let_def performancePipeline_def buildDashboard_def matched_shipments)

section \<open>The KPI summary\<close>

record summaryRecord =
  su_onTimeDeliveryRate :: rat
  su_onTimeDeliveryRatePrev :: rat
  su_onTimeDeliverySparkline :: "rat list"
  su_averageTransitDays :: rat
  su_averageTransitDaysPrev :: rat
  su_averageTransitSparkline :: "rat list"
  su_totalShipmentsThisMonth :: nat
  su_totalShipmentsPrevMonth :: nat
  su_shipmentsSparkline :: "nat list"
  su_disputeRate :: rat
  su_disputeRatePrev :: rat
  su_disputesSparkline :: "nat list"
  su_lastUpdated :: string

text \<open>The accumulators of the three groups; \<open>k_avgTransitDays\<close> is \<open>None\<close> for null.\<close>

record kpi =
  k_totalShipments :: nat
  k_onTimeCount :: nat
  k_dispatchedCount :: nat
  k_disputedCount :: nat
  k_avgTransitDays :: "rat option"

definition isOnTime :: "mongo \<Rightarrow> bdoc \<Rightarrow> bson" where
  "isOnTime m d =
     (if \<not> mg_eq m (fieldOf d ''expectedDelivery'') B_null
      then B_bool (if \<not> mg_eq m (fieldOf d ''deliveredTimestamp'') B_null
                   then mg_lte m (fieldOf d ''deliveredTimestamp'') (fieldOf d ''expectedDelivery'')
                   else False)
      else B_null)"

definition transitDays :: "mongo \<Rightarrow> bdoc \<Rightarrow> bson" where
  "transitDays m d =
     (if \<not> mg_eq m (fieldOf d ''deliveredTimestamp'') B_null
      then mg_divide m (mg_subtract m (fieldOf d ''deliveredTimestamp'') (fieldOf d ''createdAt''))
             (B_num (of_int MS_PER_DAY))
      else B_null)"

definition summaryFields :: "mongo \<Rightarrow> millis \<Rightarrow> (string \<times> (bdoc \<Rightarrow> bson)) list" where
  "summaryFields m thirtyDaysAgo =
     [(''deliveredTimestamp'', deliveredTimestamp m), (''isOnTime'', isOnTime m),
      (''transitDays'', transitDays m),
      (''period'', \<lambda>d. B_str (if thirtyDaysAgo \<le> dateOf (fieldOf d ''createdAt'') then ''CURRENT'' else ''PREVIOUS'')),
      (''dayOfAnalysis'', \<lambda>d. B_date (mg_floor m U_day (dateOf (fieldOf d ''createdAt''))))]"

definition disputedDoc :: "bdoc \<Rightarrow> bool" where
  "disputedDoc d = (case fieldOf d ''disputes'' of B_arr xs \<Rightarrow> 0 < length xs | _ \<Rightarrow> False)"

definition kpiOf :: "mongo \<Rightarrow> bdoc list \<Rightarrow> kpi" where
  "kpiOf m ds =
     \<lparr>k_totalShipments = length ds,
      k_onTimeCount = length (filter (\<lambda>d. mg_eq m (fieldOf d ''isOnTime'') (B_bool True)) ds),
      k_dispatchedCount = length (filter (\<lambda>d. \<not> mg_eq m (fieldOf d ''isOnTime'') B_null) ds),
      k_disputedCount = length (filter disputedDoc ds),
      k_avgTransitDays = mg_avg m (map (\<lambda>d. fieldOf d ''transitDays'') ds)\<rparr>"

definition inPeriodDocs :: "string \<Rightarrow> bdoc list \<Rightarrow> bdoc list" where
  "inPeriodDocs p ds = filter (\<lambda>d. fieldOf d ''period'' = B_str p) ds"

text \<open>\<open>$group\<close> by null: no row without documents, and then the handler's default.\<close>

definition periodKpi :: "mongo \<Rightarrow> string \<Rightarrow> bdoc list \<Rightarrow> kpi" where
  "periodKpi m p ds =
     (let xs = inPeriodDocs p ds
      in if xs = [] then \<lparr>k_totalShipments = 0, k_onTimeCount = 0, k_dispatchedCount = 0,
                          k_disputedCount = 0, k_avgTransitDays = Some 0\<rparr>
         else kpiOf m xs)"

definition sparklineRows :: "mongo \<Rightarrow> bdoc list \<Rightarrow> (millis \<times> kpi) list" where
  "sparklineRows m ds =
     sort_key fst (map (\<lambda>(k, xs). (k, kpiOf m xs))
       (groupRows (\<lambda>d. dateOf (fieldOf d ''dayOfAnalysis'')) (inPeriodDocs ''CURRENT'' ds)))"

text \<open>The match stage: the last sixty days and, when one is asked for, the organization.\<close>

definition summaryMatch :: "string option \<Rightarrow> millis \<Rightarrow> bdoc list \<Rightarrow> bdoc list" where
  "summaryMatch organizationId now docs =
     filter (\<lambda>d. between (now - 60 * MS_PER_DAY) now (fieldOf d ''createdAt'')
       \<and> (truthy organizationId \<longrightarrow> fieldOf d ''organizationId'' = B_str (the organizationId))) docs"

definition rateOf :: "nat \<Rightarrow> nat \<Rightarrow> rat" where
  "rateOf part whole = (if 0 < whole then of_nat part / of_nat whole * 100 else 0)"

definition jsRound :: "rat \<Rightarrow> rat" where
  "jsRound x = of_int \<lfloor>x + 1 / 2\<rfloor>"

definition roundTenth :: "rat \<Rightarrow> rat" where
  "roundTenth x = jsRound (x * 10) / 10"

text \<open>\<open>avg > 0 ? Math.round(avg * 10) / 10 : 0\<close>, where null is not positive.\<close>

definition positiveTenth :: "rat option \<Rightarrow> rat" where
  "positiveTenth a = (case a of None \<Rightarrow> 0 | Some x \<Rightarrow> if 0 < x then roundTenth x else 0)"

text \<open>A row of \<open>sparklineMap\<close> turns a null average into 0, and a zero is printed as 0.\<close>

definition dayTenth :: "rat option \<Rightarrow> rat" where
  "dayTenth a = (let x = nullish a 0 in if x \<noteq> 0 then roundTenth x else 0)"

definition sparklineDays :: "millis \<Rightarrow> millis list" where
  "sparklineDays now = map (\<lambda>i. (now - int i * MS_PER_DAY) div MS_PER_DAY * MS_PER_DAY) (rev [0..<30])"

definition sparkline :: "(millis \<times> kpi) list \<Rightarrow> (kpi \<Rightarrow> 'a) \<Rightarrow> 'a \<Rightarrow> millis \<Rightarrow> 'a list" where
  "sparkline rows f z now =
     map (\<lambda>day. case map_of (rev rows) day of None \<Rightarrow> z | Some k \<Rightarrow> f k) (sparklineDays now)"

definition buildSummary :: "millis \<Rightarrow> millis \<Rightarrow> kpi \<Rightarrow> kpi \<Rightarrow> (millis \<times> kpi) list \<Rightarrow> summaryRecord" where
  "buildSummary now lastUpdated cur prev rows =
     \<lparr>su_onTimeDeliveryRate = roundTenth (rateOf (k_onTimeCount cur) (k_dispatchedCount cur)),
      su_onTimeDeliveryRatePrev = roundTenth (rateOf (k_onTimeCount prev) (k_dispatchedCount prev)),
      su_onTimeDeliverySparkline =
        sparkline rows (\<lambda>k. jsRound (rateOf (k_onTimeCount k) (k_dispatchedCount k))) 0 now,
      su_averageTransitDays = positiveTenth (k_avgTransitDays cur),
      su_averageTransitDaysPrev = positiveTenth (k_avgTransitDays prev),
      su_averageTransitSparkline = sparkline rows (\<lambda>k. dayTenth (k_avgTransitDays k)) 0 now,
      su_totalShipmentsThisMonth = k_totalShipments cur,
      su_totalShipmentsPrevMonth = k_totalShipments prev,
      su_shipmentsSparkline = sparkline rows k_totalShipments 0 now,
      su_disputeRate = roundTenth (rateOf (k_disputedCount cur) (k_totalShipments cur)),
      su_disputeRatePrev = roundTenth (rateOf (k_disputedCount prev) (k_totalShipments prev)),
      su_disputesSparkline = sparkline rows k_disputedCount 0 now,
      su_lastUpdated = toISOString lastUpdated\<rparr>"

definition summaryDocs :: "mongo \<Rightarrow> string option \<Rightarrow> millis \<Rightarrow> shipment list \<Rightarrow> bdoc list" where
  "summaryDocs m organizationId now shs =
     map (mg_addFields m (summaryFields m (now - 30 * MS_PER_DAY)))
       (summaryMatch organizationId now (storedShipments shs))"

definition freshSummary :: "mongo \<Rightarrow> analyticsEnv \<Rightarrow> string option \<Rightarrow> shipment list \<Rightarrow> summaryRecord" where
  "freshSummary m env organizationId shs =
     (let docs = summaryDocs m organizationId (an_now env) shs
      in buildSummary (an_now env) (an_lastUpdated env) (periodKpi m ''CURRENT'' docs)
           (periodKpi m ''PREVIOUS'' docs) (sparklineRows m docs))"

definition getAnalyticsSummary ::
  "mongo \<Rightarrow> (summaryRecord \<Rightarrow> string) \<Rightarrow> (string \<Rightarrow> summaryRecord option) \<Rightarrow> analyticsEnv
   \<Rightarrow> string option \<Rightarrow> shipment list \<Rightarrow> cacheState \<Rightarrow> summaryRecord result \<times> cacheState" where
  "getAnalyticsSummary m enc dec env organizationId shs cs =
     (let cacheKey = analyticsSummaryCacheKey organizationId
      in case readAnalyticsSummaryCache dec (an_connR env) cacheKey cs of
           (Some cached, cs') \<Rightarrow> (Inr cached, cs')
         | (None, cs') \<Rightarrow>
             (if \<not> an_shipmentsUp env then (Inl (an_error env), cs')
              else let summary = freshSummary m env organizationId shs
                   in (Inr summary, writeAnalyticsSummaryCache enc (an_connW env) cacheKey summary cs')))"

section \<open>What the summary reports\<close>

lemma shipmentDoc_delivered [simp]: "fieldOf (shipmentDoc sh) ''deliveredTimestamp'' = B_missing"
  by (simp add: fieldOf_def shipmentDoc_def split: option.splits)

lemma shipmentDoc_expected:
  "fieldOf (shipmentDoc sh) ''expectedDelivery''
     = (case sh_expectedDelivery sh of None \<Rightarrow> B_missing | Some t \<Rightarrow> B_date t)"
  by (simp add: fieldOf_def shipmentDoc_def split: option.splits)

definition summaryDoc :: "mongo \<Rightarrow> millis \<Rightarrow> shipment \<Rightarrow> bdoc" where
  "summaryDoc m now sh = mg_addFields m (summaryFields m (now - 30 * MS_PER_DAY)) (shipmentDoc sh)"

text \<open>
  \<open>isOnTime\<close> and \<open>transitDays\<close> read \<open>deliveredTimestamp\<close> in the stage that computes it, where it is
  still missing: every shipment is on time and none has a transit time.
\<close>

lemma summaryDoc_fields:
  assumes "documented_mongo m"
  shows "fieldOf (summaryDoc m now sh) ''isOnTime'' = B_bool True"
    "fieldOf (summaryDoc m now sh) ''transitDays'' = B_null"
    "fieldOf (summaryDoc m now sh) ''period''
       = B_str (if now - 30 * MS_PER_DAY \<le> sh_createdAt sh then ''CURRENT'' else ''PREVIOUS'')"
    "fieldOf (summaryDoc m now sh) ''dayOfAnalysis'' = B_date (sh_createdAt sh div MS_PER_DAY * MS_PER_DAY)"
    "disputedDoc (summaryDoc m now sh) \<longleftrightarrow> sh_disputes sh \<noteq> []"
proof -
  have add: "fieldOf (summaryDoc m now sh) k = (case map_of (summaryFields m (now - 30 * MS_PER_DAY)) k of
      Some f \<Rightarrow> f (shipmentDoc sh) | None \<Rightarrow> fieldOf (shipmentDoc sh) k)" for k
    using assms by (simp add: documented_mongo_def summaryDoc_def)
  show "fieldOf (summaryDoc m now sh) ''isOnTime'' = B_bool True"
    by (simp add: add summaryFields_def isOnTime_def mongo_simps[OF assms] shipmentDoc_expected split: option.splits)
  show "fieldOf (summaryDoc m now sh) ''transitDays'' = B_null"
    by (simp add: add summaryFields_def transitDays_def mongo_simps[OF assms])
  show "fieldOf (summaryDoc m now sh) ''period''
       = B_str (if now - 30 * MS_PER_DAY \<le> sh_createdAt sh then ''CURRENT'' else ''PREVIOUS'')"
    "fieldOf (summaryDoc m now sh) ''dayOfAnalysis'' = B_date (sh_createdAt sh div MS_PER_DAY * MS_PER_DAY)"
    by (simp_all add: add summaryFields_def dateOf_def mongo_simps[OF assms])
  show "disputedDoc (summaryDoc m now sh) \<longleftrightarrow> sh_disputes sh \<noteq> []"
    by (simp add: disputedDoc_def add summaryFields_def)
qed

lemma summaryDocs_global:
  assumes "\<not> truthy organizationId"
  shows "summaryDocs m organizationId now shs
    = map (summaryDoc m now) (createdBetween (now - 60 * MS_PER_DAY) now shs)"
proof -
  have "summaryMatch organizationId now docs = matchedBetween (now - 60 * MS_PER_DAY) now docs" for docs
    using assms by (simp add: summaryMatch_def matchedBetween_def)
  then show ?thesis by (simp add: summaryDocs_def matched_shipments summaryDoc_def comp_def)
qed

lemma summaryDocs_organization:
  "truthy organizationId \<Longrightarrow> summaryDocs m organizationId now shs = []"
  by (auto simp: summaryDocs_def summaryMatch_def storedShipments_def filter_empty_conv)

lemma kpiOf_docs:
  assumes "documented_mongo m"
  shows "kpiOf m (map (summaryDoc m now) shs) =
    \<lparr>k_totalShipments = length shs, k_onTimeCount = length shs, k_dispatchedCount = length shs,
     k_disputedCount = length (filter (\<lambda>sh. sh_disputes sh \<noteq> []) shs), k_avgTransitDays = None\<rparr>"
proof -
  have "mg_avg m (map (\<lambda>d. fieldOf d ''transitDays'') (map (summaryDoc m now) shs)) = None"
    using assms by (simp add: documented_mongo_def summaryDoc_fields[OF assms])
  then show ?thesis
    by (simp add: kpiOf_def filter_map comp_def summaryDoc_fields[OF assms] mongo_simps[OF assms])
qed

lemma inPeriod_current:
  assumes "documented_mongo m"
  shows "inPeriodDocs ''CURRENT'' (map (summaryDoc m now) shs)
    = map (summaryDoc m now) (filter (\<lambda>sh. now - 30 * MS_PER_DAY \<le> sh_createdAt sh) shs)"
  by (simp add: inPeriodDocs_def filter_map comp_def summaryDoc_fields[OF assms])

lemma inPeriod_previous:
  assumes "documented_mongo m"
  shows "inPeriodDocs ''PREVIOUS'' (map (summaryDoc m now) shs)
    = map (summaryDoc m now) (filter (\<lambda>sh. sh_createdAt sh < now - 30 * MS_PER_DAY) shs)"
  by (simp add: inPeriodDocs_def filter_map comp_def summaryDoc_fields[OF assms])
    (auto intro!: arg_cong[of _ _ "map (summaryDoc m now)"] filter_cong)

lemma periodKpi_cases:
  assumes "documented_mongo m" and "inPeriodDocs p (map (summaryDoc m now) shs) = map (summaryDoc m now) xs"
  shows "k_totalShipments (periodKpi m p (map (summaryDoc m now) shs)) = length xs"
    "k_onTimeCount (periodKpi m p (map (summaryDoc m now) shs)) = length xs"
    "k_dispatchedCount (periodKpi m p (map (summaryDoc m now) shs)) = length xs"
    "k_disputedCount (periodKpi m p (map (summaryDoc m now) shs)) = length (filter (\<lambda>sh. sh_disputes sh \<noteq> []) xs)"
    "positiveTenth (k_avgTransitDays (periodKpi m p (map (summaryDoc m now) shs))) = 0"
  using kpiOf_docs[OF assms(1), of now xs] by (simp_all add: periodKpi_def assms(2) positiveTenth_def)

lemma rateOf_whole: "rateOf n n = (if n = 0 then 0 else 100)"
  by (simp add: rateOf_def)

lemma round_whole [simp]: "roundTenth 100 = 100" "roundTenth 0 = 0" "jsRound 100 = 100" "jsRound 0 = 0"
  by (simp_all add: roundTenth_def jsRound_def floor_eq_iff)

section \<open>The sparklines of the summary\<close>

lemma sparklineDays_conv: "sparklineDays now = map (\<lambda>i. (now div MS_PER_DAY - int i) * MS_PER_DAY) (rev [0..<30])"
proof -
  have "(now - int i * MS_PER_DAY) div MS_PER_DAY = now div MS_PER_DAY - int i" for i
    using div_mult_self1[of MS_PER_DAY now "- int i"] by (simp add: MS_PER_DAY_def)
  then show ?thesis by (simp add: sparklineDays_def del: upt_rec_numeral)
qed

lemma sparklineDays_distinct [simp]: "distinct (sparklineDays now)"
  by (simp add: sparklineDays_conv distinct_map inj_on_def MS_PER_DAY_def del: upt_rec_numeral)

lemma sparklineDays_length [simp]: "length (sparklineDays now) = 30"
  by (simp add: sparklineDays_def del: upt_rec_numeral)

lemma sparkline_length [simp]: "length (sparkline rows f z now) = 30"
  by (simp add: sparkline_def)

text \<open>Midnight, 29 days before the current day.\<close>

definition sparklineStart :: "millis \<Rightarrow> millis" where
  "sparklineStart now = (now div MS_PER_DAY - 29) * MS_PER_DAY"

lemma sparklineStart_period: "now - 30 * MS_PER_DAY \<le> sparklineStart now"
  using pos_mod_bound[of MS_PER_DAY now] minus_div_mult_eq_mod[of now MS_PER_DAY]
  by (simp add: sparklineStart_def MS_PER_DAY_def)

lemma sparkline_empty: "sparkline [] f z now = replicate 30 z"
  by (simp add: sparkline_def map_replicate_const)

lemma le_div_iff:
  fixes a t D :: int
  assumes "0 < D"
  shows "a * D \<le> t \<longleftrightarrow> a \<le> t div D"
proof
  assume "a * D \<le> t"
  then show "a \<le> t div D" using zdiv_mono1[of "a * D" t D] assms by simp
next
  assume "a \<le> t div D"
  then have "a * D \<le> t div D * D" using assms by (simp add: mult_right_mono)
  also have "\<dots> \<le> t" using assms by (simp add: div_times_less_eq_dividend minus_mod_eq_div_mult[symmetric])
  finally show "a * D \<le> t" .
qed

lemma day_in_sparkline:
  assumes "t \<le> now"
  shows "t div MS_PER_DAY * MS_PER_DAY \<in> set (sparklineDays now) \<longleftrightarrow> sparklineStart now \<le> t"
proof -
  have le: "t div MS_PER_DAY \<le> now div MS_PER_DAY"
    using assms by (simp add: zdiv_mono1 MS_PER_DAY_def)
  have start: "sparklineStart now \<le> t \<longleftrightarrow> now div MS_PER_DAY - 29 \<le> t div MS_PER_DAY"
    unfolding sparklineStart_def by (rule le_div_iff) (simp add: MS_PER_DAY_def)
  have "t div MS_PER_DAY * MS_PER_DAY \<in> set (sparklineDays now)
      \<longleftrightarrow> (\<exists>i<30. t div MS_PER_DAY = now div MS_PER_DAY - int i)"
    by (auto simp: sparklineDays_conv MS_PER_DAY_def simp del: upt_rec_numeral)
  also have "\<dots> \<longleftrightarrow> now div MS_PER_DAY - 29 \<le> t div MS_PER_DAY"
  proof
    assume "now div MS_PER_DAY - 29 \<le> t div MS_PER_DAY"
    then show "\<exists>i<30. t div MS_PER_DAY = now div MS_PER_DAY - int i"
      using le by (intro exI[of _ "nat (now div MS_PER_DAY - t div MS_PER_DAY)"]) auto
  qed auto
  finally show ?thesis by (simp add: start)
qed

lemma sparkline_row:
  assumes "documented_mongo m"
  shows "map_of (rev (sparklineRows m (map (summaryDoc m now) shs))) day =
    (let xs = filter (\<lambda>sh. now - 30 * MS_PER_DAY \<le> sh_createdAt sh
                         \<and> sh_createdAt sh div MS_PER_DAY * MS_PER_DAY = day) shs
     in if xs = [] then None else Some (kpiOf m (map (summaryDoc m now) xs)))"
proof -
  define key where "key d = dateOf (fieldOf d ''dayOfAnalysis'')" for d
  define cur where "cur = map (summaryDoc m now) (filter (\<lambda>sh. now - 30 * MS_PER_DAY \<le> sh_createdAt sh) shs)"
  have key: "key (summaryDoc m now sh) = sh_createdAt sh div MS_PER_DAY * MS_PER_DAY" for sh
    by (simp add: key_def dateOf_def summaryDoc_fields[OF assms])
  have rows: "sparklineRows m (map (summaryDoc m now) shs)
      = sort_key fst (map (\<lambda>(k, xs). (k, kpiOf m xs)) (groupRows key cur))"
    by (simp add: sparklineRows_def inPeriod_current[OF assms] cur_def key_def[abs_def])
  have d: "distinct (map fst (map (\<lambda>(k, xs). (k, kpiOf m xs)) (groupRows key cur)))"
    using groupRows_distinct[of key cur] by (simp add: comp_def case_prod_unfold)
  then have "distinct (map fst (sort_key fst (map (\<lambda>(k, xs). (k, kpiOf m xs)) (groupRows key cur))))"
    by (simp only: distinct_sort_key_fst)
  then have "map_of (rev (sparklineRows m (map (summaryDoc m now) shs))) day
      = map_option (kpiOf m) (map_of (groupRows key cur) day)"
    unfolding rows by (subst map_of_rev_distinct) (simp_all only: map_of_sort_key[OF d] map_of_map comp_def)
  also have "\<dots> = (let xs = filter (\<lambda>x. key x = day) cur in if xs = [] then None else Some (kpiOf m xs))"
    by (auto simp: map_of_groupRows Let_def filter_empty_conv)
  finally show ?thesis
    by (simp add: cur_def filter_map comp_def key Let_def conj_commute)
qed

text \<open>
  The daily counts add up to the shipments created since \<open>sparklineStart\<close>: the first, partial day
  of the thirty-day period has no entry.
\<close>

lemma sparkline_sum:
  assumes "documented_mongo m" and "\<And>sh. sh \<in> set shs \<Longrightarrow> sh_createdAt sh \<le> now"
  shows "sum_list (sparkline (sparklineRows m (map (summaryDoc m now) shs)) k_totalShipments 0 now)
    = length (filter (\<lambda>sh. sparklineStart now \<le> sh_createdAt sh) shs)"
proof -
  define day where "day sh = sh_createdAt sh div MS_PER_DAY * MS_PER_DAY" for sh :: shipment
  define recent where "recent = filter (\<lambda>sh. sparklineStart now \<le> sh_createdAt sh) shs"
  have group: "filter (\<lambda>sh. now - 30 * MS_PER_DAY \<le> sh_createdAt sh \<and> day sh = k) shs = filter (\<lambda>sh. day sh = k) recent"
    if "k \<in> set (sparklineDays now)" for k
  proof -
    have "sparklineStart now \<le> sh_createdAt sh" if "sh \<in> set shs" "day sh = k" for sh
      using day_in_sparkline[OF assms(2)[OF that(1)]] that \<open>k \<in> set (sparklineDays now)\<close> by (simp add: day_def)
    then show ?thesis using sparklineStart_period[of now] unfolding recent_def filter_filter by (intro filter_cong) fastforce+
  qed
  have entry: "(case map_of (rev (sparklineRows m (map (summaryDoc m now) shs))) k of
        None \<Rightarrow> 0 | Some x \<Rightarrow> k_totalShipments x) = length (filter (\<lambda>sh. day sh = k) recent)"
    if "k \<in> set (sparklineDays now)" for k
    using group[OF that] kpiOf_docs[OF assms(1)]
    by (simp add: sparkline_row[OF assms(1)] day_def[symmetric] Let_def)
  have "sum_list (sparkline (sparklineRows m (map (summaryDoc m now) shs)) k_totalShipments 0 now)
      = sum_list (map (\<lambda>k. sum_list (map (\<lambda>_. 1::nat) (filter (\<lambda>sh. day sh = k) recent))) (sparklineDays now))"
    unfolding sparkline_def by (intro arg_cong[of _ _ sum_list] map_cong HOL.refl) (simp add: entry sum_list_triv)
  also have "\<dots> = sum_list (map (\<lambda>_. 1) recent)"
  proof (rule sum_by_key)
    show "day sh \<in> set (sparklineDays now)" if "sh \<in> set recent" for sh
      using that day_in_sparkline[OF assms(2)] by (simp add: recent_def day_def)
  qed simp
  finally show ?thesis by (simp add: recent_def sum_list_triv)
qed

text \<open>The shipments behind the two periods.\<close>

definition currentShipments :: "millis \<Rightarrow> shipment list \<Rightarrow> shipment list" where
  "currentShipments now shs = createdBetween (now - 30 * MS_PER_DAY) now shs"

definition previousShipments :: "millis \<Rightarrow> shipment list \<Rightarrow> shipment list" where
  "previousShipments now shs =
     filter (\<lambda>sh. sh_createdAt sh < now - 30 * MS_PER_DAY) (createdBetween (now - 60 * MS_PER_DAY) now shs)"

lemma current_of_window:
  "filter (\<lambda>sh. now - 30 * MS_PER_DAY \<le> sh_createdAt sh) (createdBetween (now - 60 * MS_PER_DAY) now shs)
     = currentShipments now shs"
  by (auto simp: currentShipments_def createdBetween_def MS_PER_DAY_def intro!: filter_cong)

text \<open>The summary without an organization, computed from the two lists of shipments.\<close>

lemma summary_global:
  fixes m :: mongo and env :: analyticsEnv and organizationId :: "string option" and shs :: "shipment list"
  assumes "documented_mongo m" and "\<not> truthy organizationId"
  defines "r \<equiv> freshSummary m env organizationId shs"
    and "cur \<equiv> currentShipments (an_now env) shs" and "prev \<equiv> previousShipments (an_now env) shs"
  shows "su_totalShipmentsThisMonth r = length cur" "su_totalShipmentsPrevMonth r = length prev"
    "su_onTimeDeliveryRate r = (if cur = [] then 0 else 100)"
    "su_onTimeDeliveryRatePrev r = (if prev = [] then 0 else 100)"
    "su_averageTransitDays r = 0" "su_averageTransitDaysPrev r = 0"
    "su_disputeRate r = roundTenth (rateOf (length (filter (\<lambda>sh. sh_disputes sh \<noteq> []) cur)) (length cur))"
    "su_disputeRatePrev r = roundTenth (rateOf (length (filter (\<lambda>sh. sh_disputes sh \<noteq> []) prev)) (length prev))"
    "sum_list (su_shipmentsSparkline r) = length (filter (\<lambda>sh. sparklineStart (an_now env) \<le> sh_createdAt sh) cur)"
proof -
  define docs where "docs = map (summaryDoc m (an_now env)) (createdBetween (an_now env - 60 * MS_PER_DAY) (an_now env) shs)"
  have r: "r = buildSummary (an_now env) (an_lastUpdated env) (periodKpi m ''CURRENT'' docs)
      (periodKpi m ''PREVIOUS'' docs) (sparklineRows m docs)"
    by (simp add: r_def freshSummary_def summaryDocs_global[OF assms(2)] docs_def Let_def)
  note c = periodKpi_cases[OF assms(1) inPeriod_current[OF assms(1)],
      of "an_now env" "createdBetween (an_now env - 60 * MS_PER_DAY) (an_now env) shs",
      folded docs_def, unfolded current_of_window, folded cur_def]
  note p = periodKpi_cases[OF assms(1) inPeriod_previous[OF assms(1)],
      of "an_now env" "createdBetween (an_now env - 60 * MS_PER_DAY) (an_now env) shs",
      folded docs_def, folded previousShipments_def, folded prev_def]
  show "su_totalShipmentsThisMonth r = length cur" "su_totalShipmentsPrevMonth r = length prev"
    "su_onTimeDeliveryRate r = (if cur = [] then 0 else 100)"
    "su_onTimeDeliveryRatePrev r = (if prev = [] then 0 else 100)"
    "su_averageTransitDays r = 0" "su_averageTransitDaysPrev r = 0"
    "su_disputeRate r = roundTenth (rateOf (length (filter (\<lambda>sh. sh_disputes sh \<noteq> []) cur)) (length cur))"
    "su_disputeRatePrev r = roundTenth (rateOf (length (filter (\<lambda>sh. sh_disputes sh \<noteq> []) prev)) (length prev))"
    by (simp_all add: r buildSummary_def c p rateOf_whole)
  have "sparklineStart (an_now env) \<le> sh_createdAt sh \<longrightarrow> an_now env - 30 * MS_PER_DAY \<le> sh_createdAt sh"
    for sh :: shipment
    using sparklineStart_period[of "an_now env"] by simp
  then have "filter (\<lambda>sh. sparklineStart (an_now env) \<le> sh_createdAt sh)
        (createdBetween (an_now env - 60 * MS_PER_DAY) (an_now env) shs)
      = filter (\<lambda>sh. sparklineStart (an_now env) \<le> sh_createdAt sh) cur"
    unfolding cur_def current_of_window[symmetric] filter_filter by (intro filter_cong HOL.refl) blast
  moreover have "sh_createdAt sh \<le> an_now env"
    if "sh \<in> set (createdBetween (an_now env - 60 * MS_PER_DAY) (an_now env) shs)" for sh
    using that by (simp add: createdBetween_def)
  ultimately show "sum_list (su_shipmentsSparkline r)
      = length (filter (\<lambda>sh. sparklineStart (an_now env) \<le> sh_createdAt sh) cur)"
    using sparkline_sum[OF assms(1), of "createdBetween (an_now env - 60 * MS_PER_DAY) (an_now env) shs" "an_now env"]
    by (simp add: r buildSummary_def docs_def)
qed

text \<open>With an organization nothing is matched, since no shipment stores one: every number is 0.\<close>

lemma summary_organization:
  assumes "truthy organizationId"
  shows "freshSummary m env organizationId shs =
    \<lparr>su_onTimeDeliveryRate = 0, su_onTimeDeliveryRatePrev = 0, su_onTimeDeliverySparkline = replicate 30 0,
     su_averageTransitDays = 0, su_averageTransitDaysPrev = 0, su_averageTransitSparkline = replicate 30 0,
     su_totalShipmentsThisMonth = 0, su_totalShipmentsPrevMonth = 0, su_shipmentsSparkline = replicate 30 0,
     su_disputeRate = 0, su_disputeRatePrev = 0, su_disputesSparkline = replicate 30 0,
     su_lastUpdated = toISOString (an_lastUpdated env)\<rparr>"
proof -
  have "sparklineRows m [] = []" by (simp add: sparklineRows_def inPeriodDocs_def groupRows_def)
  then show ?thesis
    by (simp add: sparkline_empty freshSummary_def summaryDocs_organization[OF assms] buildSummary_def periodKpi_def inPeriodDocs_def
        positiveTenth_def rateOf_def Let_def)
qed

lemma summary_miss:
  assumes "fst (readAnalyticsSummaryCache dec (an_connR env) (analyticsSummaryCacheKey organizationId) cs) = None"
    and "an_shipmentsUp env"
  shows "fst (getAnalyticsSummary m enc dec env organizationId shs cs) = Inr (freshSummary m env organizationId shs)"
  using assms by (cases "readAnalyticsSummaryCache dec (an_connR env) (analyticsSummaryCacheKey organizationId) cs")
    (simp add: getAnalyticsSummary_def Let_def)

text \<open>The average of a carrier in the finished dashboard.\<close>

lemma fresh_average:
  assumes "documented_mongo m"
    and "ds = filter (\<lambda>sh. sh_logisticsId sh = l \<and> deliveredAt sh \<noteq> None)
                (createdBetween (q_startDate q) (q_endDate q) shs)" and "ds \<noteq> []"
  shows "map_of (db_averageDeliveryTimeByLogisticsId (freshDashboard m env q shs as)) l
    = Some (sum_list (map (\<lambda>sh. of_int (the (deliveredAt sh) - sh_createdAt sh)) ds) / of_nat (length ds))"
proof -
  let ?docs = "map (projectPerformance m) (map shipmentDoc (createdBetween (q_startDate q) (q_endDate q) shs))"
  let ?rows = "facetAverageTime m ?docs"
  have str: "bsonString (B_str x) = x" for x by (simp add: bsonString_def)
  have keys: "k \<in> set (map fst ?rows) \<Longrightarrow> \<exists>x. k = B_str x" for k
    by (auto simp: facetAverageTime_def groupRows_rows projected_fields[OF assms(1)])
  have "map_of (map (\<lambda>(k, a). (bsonString k, nullish a 0)) ?rows) (bsonString (B_str l))
      = map_option (\<lambda>a. nullish a 0) (map_of ?rows (B_str l))"
  proof (rule map_of_map_inj)
    show "bsonString k = bsonString (B_str l) \<longleftrightarrow> k = B_str l" if "k \<in> set (map fst ?rows)" for k
      using keys[OF that] by (auto simp: str)
  qed
  then have "map_of (map (\<lambda>(k, a). (bsonString k, nullish a 0)) ?rows) l
      = Some (sum_list (map (\<lambda>sh. of_int (the (deliveredAt sh) - sh_createdAt sh)) ds) / of_nat (length ds))"
    unfolding str average_time[OF assms] by simp
  then show ?thesis
    by (simp add: freshDashboard_def Let_def performancePipeline_def buildDashboard_def matched_shipments)
qed

lemma summary_lines:
  "length (su_shipmentsSparkline (freshSummary m env org shs)) = 30"
  by (simp add: freshSummary_def Let_def buildSummary_def)

end
