(* ===== verification/Phone_Otp.thy ===== *)
theory Phone_Otp
  imports Auth
begin

text \<open>
  Verification of a phone number by a one-time code (\<open>src/src/modules/notifications/sms-otp.service.ts\<close>).
  The code is drawn by \<open>crypto.randomInt(100000, 999999)\<close>, stored as its SHA-256 in Redis for five
  minutes and sent by Twilio when the deployment is configured for it.
\<close>

section \<open>The service\<close>

text \<open>
  \<open>ot_random\<close> is the number drawn; \<open>ot_configured\<close> tells whether this is a production deployment
  with Twilio credentials, \<open>ot_smsUp\<close> whether Twilio accepts the message.
\<close>

record otpEnv =
  ot_now :: millis
  ot_random :: nat
  ot_sha256 :: "string \<Rightarrow> string"
  ot_configured :: bool
  ot_smsUp :: bool

record otpState =
  os_users :: "user list"
  os_redis :: redis
  os_sms :: "(string \<times> string) list"
    \<comment> \<open>phone and code\<close>

definition OTP_TTL_SECONDS :: int where
  "OTP_TTL_SECONDS = 300"

definition generateOtp :: "otpEnv \<Rightarrow> string" where
  "generateOtp env = nat_str (ot_random env)"

definition buildOtpRedisKey :: "string \<Rightarrow> string \<Rightarrow> string" where
  "buildOtpRedisKey userId phone = ''otp:'' @ userId @ '':'' @ phone"

definition sendOtpService :: "otpEnv \<Rightarrow> string \<Rightarrow> string \<Rightarrow> otpState \<Rightarrow> unit result \<times> otpState" where
  "sendOtpService env userId phone s =
     (let otpKey = buildOtpRedisKey userId phone;
          (existingTtl, r) = redis_ttl (ot_now env) otpKey (os_redis s)
      in if existingTtl > OTP_TTL_SECONDS - 60
         then (throwApp 429 ''OTP already sent. Please wait before requesting a new one.''
                 (ErrorCodes RATE_LIMIT_EXCEEDED), s\<lparr>os_redis := r\<rparr>)
         else
           (let otp = generateOtp env;
                s1 = s\<lparr>os_redis := redis_setex (ot_now env) otpKey OTP_TTL_SECONDS (ot_sha256 env otp) r\<rparr>
            in if ot_configured env
               then (if ot_smsUp env then (Inr (), s1\<lparr>os_sms := os_sms s1 @ [(phone, otp)]\<rparr>)
                     else (throwApp 503 ''Failed to send OTP. Please try again later.'' (ErrorCodes INTERNAL_ERROR), s1))
               else (Inr (), s1)))"

definition verifyOtpService ::
  "otpEnv \<Rightarrow> string \<Rightarrow> string \<Rightarrow> string \<Rightarrow> otpState \<Rightarrow> user result \<times> otpState" where
  "verifyOtpService env userId phone otp s =
     (let otpKey = buildOtpRedisKey userId phone;
          (storedHash, r) = redis_get (ot_now env) otpKey (os_redis s);
          s1 = s\<lparr>os_redis := r\<rparr>
      in if \<not> truthy storedHash
         then (throwApp 400 ''OTP expired or not found'' (ErrorCodes BAD_REQUEST), s1)
         else if Some (ot_sha256 env otp) \<noteq> storedHash
         then (throwApp 400 ''Invalid OTP'' (ErrorCodes BAD_REQUEST), s1)
         else
           (let (u, us) = findUserAndUpdate userId (\<lambda>x. x\<lparr>us_phoneVerified := True, us_phone := Some phone\<rparr>) (os_users s1);
                s2 = s1\<lparr>os_users := us\<rparr>
            in case u of
                 None \<Rightarrow> (throwApp 404 ''User not found'' (ErrorCodes NOT_FOUND), s2)
               | Some x \<Rightarrow> (Inr x, s2\<lparr>os_redis := snd (redis_del [otpKey] (os_redis s2))\<rparr>)))"

section \<open>Sending\<close>

definition storedOtp :: "millis \<Rightarrow> string \<Rightarrow> string \<Rightarrow> otpState \<Rightarrow> string option" where
  "storedOtp now userId phone s = redis_value (os_redis s) now (buildOtpRedisKey userId phone)"

text \<open>\<open>Math.ceil\<close> of the remaining seconds of a key that was set with a time to live.\<close>

lemma ttl_of_setex:
  assumes "0 < ttl"
  shows "fst (redis_ttl t k (redis_setex now k ttl v r))
    = (if now + ttl * 1000 \<le> t then -2 else - ((t - (now + ttl * 1000)) div 1000))"
  using assms
  by (simp add: redis_ttl_def redis_pttl_def redis_setex_def redis_set_def update_conv' Let_def minus_diff_eq)

lemma ttl_above: "- ((t - e) div 1000) > (a::int) \<longleftrightarrow> t < e - a * 1000"
  by linarith

text \<open>A code just stored blocks the next one for a minute.\<close>

lemma send_stores:
  assumes "fst (redis_ttl (ot_now env) (buildOtpRedisKey uid ph) (os_redis s)) \<le> 240"
  shows "os_redis (snd (sendOtpService env uid ph s)) = redis_setex (ot_now env) (buildOtpRedisKey uid ph) 300
      (ot_sha256 env (generateOtp env)) (snd (redis_ttl (ot_now env) (buildOtpRedisKey uid ph) (os_redis s)))"
  using assms by (simp add: sendOtpService_def Let_def OTP_TTL_SECONDS_def case_prod_unfold)

lemma resend_limit:
  assumes "os_redis s = redis_setex t0 (buildOtpRedisKey uid ph) 300 h r"
  shows "fst (sendOtpService env uid ph s)
       = throwApp 429 ''OTP already sent. Please wait before requesting a new one.'' (ErrorCodes RATE_LIMIT_EXCEEDED)
     \<longleftrightarrow> ot_now env < t0 + 60000"
proof -
  have t: "fst (redis_ttl (ot_now env) (buildOtpRedisKey uid ph) (os_redis s)) > 240
      \<longleftrightarrow> ot_now env < t0 + 60000"
    unfolding assms ttl_of_setex[of 300, simplified] using ttl_above[of 240 "ot_now env" "t0 + 300000"] by auto
  show ?thesis
    using t by (auto simp: sendOtpService_def Let_def OTP_TTL_SECONDS_def case_prod_unfold throwApp_def ErrorCodes.simps)
qed

text \<open>A message that Twilio refuses leaves its code behind: the retry is refused for a minute.\<close>

lemma failed_sms_blocks_retry:
  assumes "fst (redis_ttl (ot_now env) (buildOtpRedisKey uid ph) (os_redis s)) \<le> 240"
    and "ot_configured env" and "\<not> ot_smsUp env" and "ot_now env' < ot_now env + 60000"
  shows "fst (sendOtpService env uid ph s)
      = throwApp 503 ''Failed to send OTP. Please try again later.'' (ErrorCodes INTERNAL_ERROR)"
    and "fst (sendOtpService env' uid ph (snd (sendOtpService env uid ph s)))
      = throwApp 429 ''OTP already sent. Please wait before requesting a new one.'' (ErrorCodes RATE_LIMIT_EXCEEDED)"
proof -
  show "fst (sendOtpService env uid ph s)
      = throwApp 503 ''Failed to send OTP. Please try again later.'' (ErrorCodes INTERNAL_ERROR)"
    using assms(1-3) by (simp add: sendOtpService_def Let_def OTP_TTL_SECONDS_def case_prod_unfold)
  show "fst (sendOtpService env' uid ph (snd (sendOtpService env uid ph s)))
      = throwApp 429 ''OTP already sent. Please wait before requesting a new one.'' (ErrorCodes RATE_LIMIT_EXCEEDED)"
    using resend_limit[OF send_stores[OF assms(1)]] assms(4) by simp
qed

section \<open>Verifying\<close>

lemma redis_get_pair: "redis_get now k r = (redis_value r now k, snd (redis_get now k r))"
  by (simp add: redis_value_def prod_eq_iff)

lemma verify_cases:
  "verifyOtpService env uid ph otp s =
     (let k = buildOtpRedisKey uid ph; h = storedOtp (ot_now env) uid ph s;
          s1 = s\<lparr>os_redis := snd (redis_get (ot_now env) k (os_redis s))\<rparr>;
          f = (\<lambda>x. x\<lparr>us_phoneVerified := True, us_phone := Some ph\<rparr>)
      in if \<not> truthy h then (throwApp 400 ''OTP expired or not found'' (ErrorCodes BAD_REQUEST), s1)
         else if Some (ot_sha256 env otp) \<noteq> h then (throwApp 400 ''Invalid OTP'' (ErrorCodes BAD_REQUEST), s1)
         else case findUserById uid (os_users s) of
             None \<Rightarrow> (throwApp 404 ''User not found'' (ErrorCodes NOT_FOUND), s1)
           | Some u \<Rightarrow> (Inr (f u), s1\<lparr>os_users := snd (findUserAndUpdate uid f (os_users s)),
                         os_redis := snd (redis_del [k] (os_redis s1))\<rparr>))"
  unfolding verifyOtpService_def Let_def storedOtp_def
  by (subst redis_get_pair)
    (auto simp: case_prod_unfold users.update_result users.update_missing split: option.splits)

text \<open>A phone is marked verified only by the code that is stored, and then the code is gone.\<close>

lemma verify_sound:
  assumes "fst (verifyOtpService env uid ph otp s) = Inr u"
  shows "storedOtp (ot_now env) uid ph s = Some (ot_sha256 env otp)"
    and "us_phoneVerified u \<and> us_phone u = Some ph"
    and "findUserById uid (os_users (snd (verifyOtpService env uid ph otp s))) = Some u"
    and "storedOtp t uid ph (snd (verifyOtpService env uid ph otp s)) = None"
proof -
  let ?f = "\<lambda>x. x\<lparr>us_phoneVerified := True, us_phone := Some ph\<rparr>"
  show st: "storedOtp (ot_now env) uid ph s = Some (ot_sha256 env otp)"
    using assms by (auto simp: verify_cases Let_def throwApp_def split: if_splits option.splits)
  obtain v where v: "findUserById uid (os_users s) = Some v" "u = ?f v"
    using assms by (auto simp: verify_cases Let_def throwApp_def split: if_splits option.splits)
  show "us_phoneVerified u \<and> us_phone u = Some ph" by (simp add: v(2))
  have s': "snd (verifyOtpService env uid ph otp s) = s\<lparr>os_users := snd (findUserAndUpdate uid ?f (os_users s)),
      os_redis := snd (redis_del [buildOtpRedisKey uid ph] (snd (redis_get (ot_now env) (buildOtpRedisKey uid ph) (os_redis s))))\<rparr>"
    using assms st v by (auto simp: verify_cases Let_def throwApp_def split: if_splits)
  show "findUserById uid (os_users (snd (verifyOtpService env uid ph otp s))) = Some u"
    using findUser_after_save[OF v(1), of ?f] by (simp add: s' v(2))
  show "storedOtp t uid ph (snd (verifyOtpService env uid ph otp s)) = None"
    by (simp add: s' storedOtp_def redis_store.del_same)
qed

lemma verify_complete:
  assumes "storedOtp (ot_now env) uid ph s = Some (ot_sha256 env otp)" and "ot_sha256 env otp \<noteq> []"
    and "findUserById uid (os_users s) = Some u"
  shows "fst (verifyOtpService env uid ph otp s) = Inr (u\<lparr>us_phoneVerified := True, us_phone := Some ph\<rparr>)"
  using assms by (simp add: verify_cases Let_def)

text \<open>A wrong code costs nothing: neither the accounts nor the stored code change, however often.\<close>

lemma wrong_code_keeps:
  assumes "fst (verifyOtpService env uid ph otp s) = Inl e" and "ot_now env \<le> t"
  shows "os_users (snd (verifyOtpService env uid ph otp s)) = os_users s"
    and "storedOtp t uid ph (snd (verifyOtpService env uid ph otp s)) = storedOtp t uid ph s"
  using assms redis_get_later[OF assms(2)]
  by (auto simp: verify_cases Let_def storedOtp_def split: if_splits option.splits)

text \<open>So any number of guesses may precede the right one within the five minutes.\<close>

fun guesses :: "(otpEnv \<times> string) list \<Rightarrow> string \<Rightarrow> string \<Rightarrow> otpState \<Rightarrow> otpState" where
  "guesses [] uid ph s = s"
| "guesses ((env, otp) # gs) uid ph s = guesses gs uid ph (snd (verifyOtpService env uid ph otp s))"

text \<open>\<open>guess_wrong h\<close>: a guess made before \<open>t\<close> whose hash is not the stored one.\<close>

definition guess_wrong :: "string \<Rightarrow> millis \<Rightarrow> otpEnv \<times> string \<Rightarrow> bool" where
  "guess_wrong h t g \<longleftrightarrow> ot_now (fst g) \<le> t \<and> ot_sha256 (fst g) (snd g) \<noteq> h"

lemma guesses_keep:
  assumes "\<forall>g\<in>set gs. guess_wrong h t g" and "storedOtp t uid ph s = Some h"
  shows "storedOtp t uid ph (guesses gs uid ph s) = Some h \<and> os_users (guesses gs uid ph s) = os_users s"
  using assms
proof (induction gs arbitrary: s)
  case (Cons g gs)
  obtain env otp where g: "g = (env, otp)" by (cases g)
  have w: "ot_now env \<le> t" "ot_sha256 env otp \<noteq> h" using Cons.prems(1) by (simp_all add: g guess_wrong_def)
  obtain e where e: "fst (verifyOtpService env uid ph otp s) = Inl e"
  proof (cases "fst (verifyOtpService env uid ph otp s)")
    case (Inr u)
    then have "storedOtp (ot_now env) uid ph s = Some (ot_sha256 env otp)" by (rule verify_sound(1))
    moreover have "storedOtp (ot_now env) uid ph s = Some h"
      using Cons.prems(2) w(1) by (auto simp: storedOtp_def redis_value_conv memIsExpired_def split: option.splits if_splits)
    ultimately show ?thesis using w(2) by simp
  qed
  show ?case
    using Cons.IH[of "snd (verifyOtpService env uid ph otp s)"] Cons.prems wrong_code_keeps[OF e w(1)] by (simp add: g)
qed simp

text \<open>The right code works after any number of wrong ones, and then no code does.\<close>

lemma right_code_after_guesses:
  assumes "\<forall>g\<in>set gs. guess_wrong (ot_sha256 env otp) (ot_now env) g"
    and "storedOtp (ot_now env) uid ph s = Some (ot_sha256 env otp)" and "ot_sha256 env otp \<noteq> []"
    and "findUserById uid (os_users s) = Some u"
  shows "fst (verifyOtpService env uid ph otp (guesses gs uid ph s)) = Inr (u\<lparr>us_phoneVerified := True, us_phone := Some ph\<rparr>)"
    and "fst (verifyOtpService env' uid ph otp' (snd (verifyOtpService env uid ph otp (guesses gs uid ph s))))
      = throwApp 400 ''OTP expired or not found'' (ErrorCodes BAD_REQUEST)"
proof -
  note keep = guesses_keep[OF assms(1,2)]
  show ok: "fst (verifyOtpService env uid ph otp (guesses gs uid ph s)) = Inr (u\<lparr>us_phoneVerified := True, us_phone := Some ph\<rparr>)"
    using keep assms(3,4) by (intro verify_complete) simp_all
  show "fst (verifyOtpService env' uid ph otp' (snd (verifyOtpService env uid ph otp (guesses gs uid ph s))))
      = throwApp 400 ''OTP expired or not found'' (ErrorCodes BAD_REQUEST)"
    using verify_sound(4)[OF ok, of "ot_now env'"] by (simp add: verify_cases[of env'] Let_def)
qed

text \<open>
  A phone number is verified by the stored code alone, and a code works once; but wrong codes cost
  nothing, so any number of guesses may come before it.
\<close>

lemma phone_code_works_once:
  assumes "\<forall>g\<in>set gs. guess_wrong (ot_sha256 env otp) (ot_now env) g"
    and "storedOtp (ot_now env) uid ph s = Some (ot_sha256 env otp)" and "ot_sha256 env otp \<noteq> []"
    and "findUserById uid (os_users s) = Some u"
  shows "let (r, s') = verifyOtpService env uid ph otp (guesses gs uid ph s) in
     r = Inr (u\<lparr>us_phoneVerified := True, us_phone := Some ph\<rparr>) \<and> findUserById uid (os_users s') = Some (u\<lparr>us_phoneVerified := True, us_phone := Some ph\<rparr>)
   \<and> (\<forall>env' otp'. fst (verifyOtpService env' uid ph otp' s') = throwApp 400 ''OTP expired or not found'' (ErrorCodes BAD_REQUEST))"
  using right_code_after_guesses[OF assms] verify_sound(3)[OF right_code_after_guesses(1)[OF assms]]
  by (simp add: case_prod_unfold)

end
