(* ===== verification/Chain_Stream.thy ===== *)
theory Chain_Stream
  imports Chain
begin

text \<open>
  The event streams of the two chain adapters (\<open>simulated.adapter.ts\<close> and \<open>soroban.adapter.ts\<close>) and
  the manage-data functions of \<open>src/src/services/stellar.service.ts\<close>. An \<open>AsyncIterable\<close> is the list
  of the events it yields with the error it ends in, if any: what it yields does not depend on its
  consumer, who may only stop early. Horizon's transaction pages, the XDR decoder and the RPC
  server's event page are parameters.
\<close>

section \<open>Transactions of the signing account\<close>

record horizonTxRecord =
  tr_paging_token :: string
  tr_hash :: string
  tr_ledger_attr :: nat
  tr_created_at :: string
  tr_envelope_xdr :: string
  tr_successful :: bool

record txOperation =
  op_type :: string
  op_name :: string
  op_value :: "string option"

text \<open>\<open>TransactionBuilder.fromXDR\<close> gives a transaction, or a fee bump around one.\<close>

datatype decodedTx = PlainTx "txOperation list" | FeeBump "txOperation list"

definition operations :: "decodedTx \<Rightarrow> txOperation list" where
  "operations d = (case d of PlainTx ops \<Rightarrow> ops | FeeBump ops \<Rightarrow> ops)"

record streamEnv =
  st_horizon :: horizonEnv
  st_transactions :: "string option \<Rightarrow> nat \<Rightarrow> chainFailure + horizonTxRecord list"
  st_fromXDR :: "string \<Rightarrow> decodedTx option"
  st_isDatetime :: "string \<Rightarrow> bool"
  SIMULATED_CONTRACT_ID :: string

definition PAGE_SIZE :: nat where
  "PAGE_SIZE = 200"

text \<open>\<open>createHorizonClient\<close>: an empty cursor is no cursor.\<close>

definition listTransactions ::
  "streamEnv \<Rightarrow> string option \<Rightarrow> nat \<Rightarrow> chainFailure + horizonTxRecord list" where
  "listTransactions env cursor limit = st_transactions env (keep_truthy cursor) limit"

definition ANCHOR_KEY_PREFIX :: string where
  "ANCHOR_KEY_PREFIX = ''telemetry:''"

section \<open>From a transaction to an event\<close>

text \<open>The first operation that is a well-formed anchor write decides.\<close>

definition anchorWrite :: "txOperation \<Rightarrow> (string \<times> string) option" where
  "anchorWrite oper =
     (if op_type oper \<noteq> ''manageData'' \<or> \<not> startsWith (op_name oper) ANCHOR_KEY_PREFIX then None
      else (let shipmentId = drop (length ANCHOR_KEY_PREFIX) (op_name oper);
                dataHash = nullish (op_value oper) []
            in if SymbolSchema shipmentId \<and> Bytes32HexSchema dataHash
               then Some (shipmentId, dataHash) else None))"

fun firstAnchor :: "txOperation list \<Rightarrow> (string \<times> string) option" where
  "firstAnchor [] = None"
| "firstAnchor (oper # ops) =
     (case anchorWrite oper of Some a \<Rightarrow> Some a | None \<Rightarrow> firstAnchor ops)"

definition rawAnchor :: "streamEnv \<Rightarrow> horizonTxRecord \<Rightarrow> string \<Rightarrow> string \<Rightarrow> jval" where
  "rawAnchor env rec shipmentId dataHash = JObj
     [(''id'', JStr (tr_paging_token rec)), (''contract_id'', JStr (SIMULATED_CONTRACT_ID env)),
      (''tx_hash'', JStr (tr_hash rec)), (''ledger'', JNum (nat_str (tr_ledger_attr rec))),
      (''ledger_closed_at'', JStr (tr_created_at rec)), (''name'', JStr ''anchor''),
      (''topic'', JArr [JStr ''anchor'', JStr shipmentId]),
      (''data'', JArr [JStr dataHash, JNum (nat_str (tr_ledger_attr rec))])]"

definition toAnchorEvent :: "streamEnv \<Rightarrow> horizonTxRecord \<Rightarrow> chainEvent option result" where
  "toAnchorEvent env rec =
     (if \<not> tr_successful rec then Inr None
      else (case st_fromXDR env (tr_envelope_xdr rec) of
        None \<Rightarrow> Inr None
      | Some decoded \<Rightarrow> (case firstAnchor (operations decoded) of
          None \<Rightarrow> Inr None
        | Some (shipmentId, dataHash) \<Rightarrow>
            map_sum id Some (parseChainEvent (st_isDatetime env) (rawAnchor env rec shipmentId dataHash)))))"

section \<open>The stream of the simulated adapter\<close>

type_synonym eventStream = "chainEvent list \<times> exn option"

fun pageEvents :: "streamEnv \<Rightarrow> horizonTxRecord list \<Rightarrow> eventStream" where
  "pageEvents env [] = ([], None)"
| "pageEvents env (rec # recs) =
     (case toAnchorEvent env rec of
        Inl err \<Rightarrow> ([], Some err)
      | Inr None \<Rightarrow> pageEvents env recs
      | Inr (Some event) \<Rightarrow> (let (evs, err) = pageEvents env recs in (event # evs, err)))"

text \<open>Page by page; \<open>None\<close> when the fuel runs out.\<close>

fun streamPages :: "nat \<Rightarrow> streamEnv \<Rightarrow> string option \<Rightarrow> eventStream option" where
  "streamPages 0 env position = None"
| "streamPages (Suc fuel) env position =
     (case wrap (listTransactions env position PAGE_SIZE) of
        Inl err \<Rightarrow> Some ([], Some err)
      | Inr records \<Rightarrow>
          (case pageEvents env records of
             (evs, Some err) \<Rightarrow> Some (evs, Some err)
           | (evs, None) \<Rightarrow>
               (if length records < PAGE_SIZE then Some (evs, None)
                else map_option (\<lambda>(rest, err). (evs @ rest, err))
                       (streamPages fuel env (Some (tr_paging_token (last records)))))))"

definition simulated_streamEvents :: "nat \<Rightarrow> streamEnv \<Rightarrow> string option \<Rightarrow> eventStream option" where
  "simulated_streamEvents fuel env cursor =
     (case signer (st_horizon env) of
        Inl err \<Rightarrow> Some ([], Some err)
      | Inr publicKey \<Rightarrow> streamPages fuel env cursor)"

section \<open>The stream of the Soroban adapter\<close>

record rawSorobanEvent =
  rs_id :: jval
  rs_contractId :: jval
  rs_txHash :: jval
  rs_ledger :: jval
  rs_ledgerClosedAt :: jval
  rs_topic :: "jval list option"
  rs_value :: jval

datatype eventsRequest = FromCursor string | FromLedger nat

record sorobanStreamEnv =
  ss_contractId :: string
  ss_getEvents :: "eventsRequest \<Rightarrow> exn + rawSorobanEvent list option"
  ss_isDatetime :: "string \<Rightarrow> bool"

definition sorobanRaw :: "rawSorobanEvent \<Rightarrow> jval" where
  "sorobanRaw raw = JObj
     [(''id'', rs_id raw), (''contract_id'', rs_contractId raw), (''tx_hash'', rs_txHash raw),
      (''ledger'', rs_ledger raw), (''ledger_closed_at'', rs_ledgerClosedAt raw),
      (''name'', case rs_topic raw of Some (n # _) \<Rightarrow> n | _ \<Rightarrow> JUndef),
      (''topic'', case rs_topic raw of Some ts \<Rightarrow> JArr ts | None \<Rightarrow> JUndef),
      (''data'', rs_value raw)]"

text \<open>
  One page of the server; an event that does not match the spec is skipped. A start ledger is only
  computed from a cursor and only sent without one, so it is always zero.
\<close>

definition soroban_streamEvents :: "sorobanStreamEnv \<Rightarrow> string option \<Rightarrow> eventStream" where
  "soroban_streamEvents env cursor =
     (if ss_contractId env = [] then ([], None)
      else (case ss_getEvents env (case keep_truthy cursor of Some c \<Rightarrow> FromCursor c | None \<Rightarrow> FromLedger 0) of
        Inl (App e) \<Rightarrow> ([], Some (App e))
      | Inl err \<Rightarrow> ([], Some (App (AppError 502 ''Failed to fetch Soroban events'' (ErrorCodes CHAIN_UNKNOWN) None)))
      | Inr events \<Rightarrow>
          (List.map_filter (\<lambda>raw. case parseChainEvent (ss_isDatetime env) (sorobanRaw raw) of
              Inl err \<Rightarrow> None | Inr parsed \<Rightarrow> Some parsed) (nullish events []), None)))"

section \<open>The older manage-data functions\<close>

text \<open>\<open>submit\<close> is the SDK's load, build, sign and submit of the listed manage-data operations.\<close>

record stellarEnv =
  sv_secretKey :: "string option"
  sv_network :: string
  sv_submit :: "string \<Rightarrow> (string \<times> string) list \<Rightarrow> string option \<Rightarrow> string result"

definition needSecret :: "stellarEnv \<Rightarrow> string result" where
  "needSecret env = (case keep_truthy (sv_secretKey env) of
      None \<Rightarrow> throwApp 500 ''STELLAR_SECRET_KEY is not configured'' (ErrorCodes STELLAR_CONFIG)
    | Some k \<Rightarrow> Inr k)"

definition tokenizeShipment ::
  "stellarEnv \<Rightarrow> string \<Rightarrow> string \<Rightarrow> string \<Rightarrow> string \<Rightarrow> (string \<times> string) result" where
  "tokenizeShipment env trackingNumber origin destination shipmentId =
     (case needSecret env of Inl e \<Rightarrow> Inl e | Inr k \<Rightarrow>
      (case sv_submit env k
          [(''tracking:'' @ shipmentId, trackingNumber),
           (''route:'' @ shipmentId, origin @ ''->'' @ destination)] None of
         Inl e \<Rightarrow> Inl e
       | Inr txHash \<Rightarrow> Inr (''stellar:'' @ shipmentId @ '':'' @ take 8 txHash, txHash)))"

definition anchorTelemetryHash :: "stellarEnv \<Rightarrow> string \<Rightarrow> string \<Rightarrow> string result" where
  "anchorTelemetryHash env shipmentId dataHash =
     (case needSecret env of Inl e \<Rightarrow> Inl e | Inr k \<Rightarrow>
      (if dataHash = []
       then throwApp 400 ''dataHash must be a non-empty string'' (ErrorCodes STELLAR_INVALID_HASH)
       else sv_submit env k [(''telemetry:'' @ shipmentId, dataHash)] (Some dataHash)))"

record stellarRelease =
  rl_success :: bool
  rl_transactionHash :: string
  rl_simulated :: bool

definition stellar_releaseEscrow ::
  "(string \<Rightarrow> string) \<Rightarrow> (releaseEscrowArgs \<Rightarrow> escrowResult result) \<Rightarrow> string \<Rightarrow> string \<Rightarrow> string option
   \<Rightarrow> stellarRelease result" where
  "stellar_releaseEscrow sha256 adapter paymentId shipmentId proof =
     (let proofHash = nullish proof (nullish (generateDataHash sha256
            (JObj [(''paymentId'', JStr paymentId), (''shipmentId'', JStr shipmentId)])) [])
      in case adapter \<lparr>re_payment_id = paymentId, re_proof_hash = proofHash\<rparr> of
           Inl e \<Rightarrow> Inl e
         | Inr r \<Rightarrow> Inr \<lparr>rl_success = True, rl_transactionHash = er_txHash r, rl_simulated = er_simulated r\<rparr>)"

definition getStellarExplorerUrl :: "stellarEnv \<Rightarrow> string \<Rightarrow> string" where
  "getStellarExplorerUrl env txHash =
     ''https://stellar.expert/explorer/'' @ (if sv_network env = ''public'' then ''public'' else ''testnet'')
     @ ''/tx/'' @ txHash"

definition toTokenizeAnchorInput ::
  "(string \<Rightarrow> string) \<Rightarrow> string \<Rightarrow> string \<Rightarrow> string \<Rightarrow> string \<Rightarrow> string \<Rightarrow> anchorArgs" where
  "toTokenizeAnchorInput sha256 shipmentId trackingNumber origin destination actor =
     \<lparr>aa_shipment_id = shipmentId,
      aa_data_hash = nullish (generateDataHash sha256 (JObj
        [(''shipmentId'', JStr shipmentId), (''trackingNumber'', JStr trackingNumber),
         (''origin'', JStr origin), (''destination'', JStr destination)])) [],
      aa_actor = actor\<rparr>"

section \<open>What an anchor transaction becomes\<close>

lemma map_sum_Inr: "map_sum id Some r = Inr (Some e) \<longleftrightarrow> r = Inr e"
  by (cases r) auto

lemma anchorWrite_ok:
  "anchorWrite oper = Some (s, h) \<Longrightarrow> SymbolSchema s \<and> Bytes32HexSchema h"
  by (auto simp: anchorWrite_def Let_def split: if_splits)

lemma firstAnchor_ok: "firstAnchor ops = Some (s, h) \<Longrightarrow> SymbolSchema s \<and> Bytes32HexSchema h"
  by (induction ops) (auto split: option.splits dest: anchorWrite_ok)

text \<open>Every event of the stream carries the position of its transaction as its id.\<close>

lemma toAnchorEvent_some:
  assumes "toAnchorEvent env rec = Inr (Some e)"
  shows "ev_id (event_envelope e) = tr_paging_token rec" "wf_event (st_isDatetime env) e"
    "event_name e = ''anchor''"
proof -
  obtain s h where p: "parseChainEvent (st_isDatetime env) (rawAnchor env rec s h) = Inr e"
    using assms
    by (auto simp: toAnchorEvent_def map_sum_Inr split: if_splits option.splits)
  show "wf_event (st_isDatetime env) e" using p by (rule parse_wf)
  show "ev_id (event_envelope e) = tr_paging_token rec" "event_name e = ''anchor''"
    using p
    by (auto simp: rawAnchor_def parseChainEvent_def ChainEventSchema_def event_keys_def str_field_def
        u32_field_def parse_envelope_def parse_body_def parse_anchor_def
        split: option.splits if_splits)
qed

text \<open>A record whose fields Horizon has filled in as it documents is never an error.\<close>

definition wf_record :: "streamEnv \<Rightarrow> horizonTxRecord \<Rightarrow> bool" where
  "wf_record env rec \<longleftrightarrow> tr_paging_token rec \<noteq> [] \<and> TxHashSchema (tr_hash rec)
     \<and> tr_ledger_attr rec \<le> U32_MAX \<and> st_isDatetime env (tr_created_at rec)"

definition anchorOf :: "streamEnv \<Rightarrow> horizonTxRecord \<Rightarrow> chainEvent option" where
  "anchorOf env rec = (case toAnchorEvent env rec of Inl err \<Rightarrow> None | Inr e \<Rightarrow> e)"

lemma toAnchorEvent_wf:
  assumes "wf_record env rec" and "ContractAddressSchema (SIMULATED_CONTRACT_ID env)"
  shows "toAnchorEvent env rec = Inr (anchorOf env rec)"
proof -
  have "\<exists>e. parseChainEvent (st_isDatetime env) (rawAnchor env rec s h) = Inr e"
    if "SymbolSchema s" "Bytes32HexSchema h" for s h
  proof -
    let ?e = "AnchorEvent \<lparr>ev_id = tr_paging_token rec, ev_contract_id = SIMULATED_CONTRACT_ID env,
      ev_tx_hash = tr_hash rec, ev_ledger = tr_ledger_attr rec, ev_closed_at = tr_created_at rec\<rparr>
      s h (tr_ledger_attr rec)"
    have "wf_event (st_isDatetime env) ?e"
      using assms that by (simp add: wf_event_def wf_envelope_def wf_record_def)
    then have "parseChainEvent (st_isDatetime env) (encodeChainEvent ?e) = Inr ?e"
      by (rule parse_encode)
    then show ?thesis by (auto simp: encodeChainEvent_def rawAnchor_def Let_def)
  qed
  then show ?thesis
    using firstAnchor_ok
    by (fastforce simp: anchorOf_def toAnchorEvent_def split: option.splits sum.splits)
qed

section \<open>The stream visits every anchor once\<close>

text \<open>
  What Horizon documents: the account's transactions in ascending order, strictly after the cursor,
  at most as many as asked for.
\<close>

definition afterToken :: "string option \<Rightarrow> horizonTxRecord list \<Rightarrow> horizonTxRecord list" where
  "afterToken c hist = (case c of None \<Rightarrow> hist
     | Some t \<Rightarrow> drop 1 (dropWhile (\<lambda>r. tr_paging_token r \<noteq> t) hist))"

definition horizon_history :: "streamEnv \<Rightarrow> horizonTxRecord list \<Rightarrow> bool" where
  "horizon_history env hist \<longleftrightarrow> distinct (map tr_paging_token hist)
     \<and> (\<forall>r\<in>set hist. wf_record env r) \<and> ContractAddressSchema (SIMULATED_CONTRACT_ID env)
     \<and> (\<forall>n. st_transactions env None n = Inr (take n hist))
     \<and> (\<forall>r\<in>set hist. \<forall>n. st_transactions env (Some (tr_paging_token r)) n
           = Inr (take n (afterToken (Some (tr_paging_token r)) hist)))"

definition historyCursor :: "horizonTxRecord list \<Rightarrow> string option \<Rightarrow> bool" where
  "historyCursor hist c \<longleftrightarrow> (case c of None \<Rightarrow> True | Some t \<Rightarrow> t \<in> tr_paging_token ` set hist)"

lemma afterToken_split:
  assumes "hist = xs @ r # ys" and "distinct (map tr_paging_token hist)"
  shows "afterToken (Some (tr_paging_token r)) hist = ys"
proof -
  have "\<forall>x\<in>set xs. tr_paging_token x \<noteq> tr_paging_token r" using assms by (auto simp: image_iff)
  then show ?thesis by (simp add: afterToken_def assms(1) dropWhile_append2)
qed

lemma afterToken_suffix: "\<exists>xs. hist = xs @ afterToken c hist"
proof (cases c)
  case (Some t)
  have "hist = takeWhile (\<lambda>r. tr_paging_token r \<noteq> t) hist
      @ take 1 (dropWhile (\<lambda>r. tr_paging_token r \<noteq> t) hist) @ afterToken c hist"
    by (simp add: Some afterToken_def)
  then show ?thesis by (metis append.assoc)
qed (simp add: afterToken_def)

lemma pageEvents_all:
  assumes "\<And>r. r \<in> set recs \<Longrightarrow> toAnchorEvent env r = Inr (anchorOf env r)"
  shows "pageEvents env recs = (List.map_filter (anchorOf env) recs, None)"
  using assms by (induction recs) (auto simp: List.map_filter_simps split: option.splits)

lemma listTransactions_history:
  assumes "horizon_history env hist" and "historyCursor hist c"
  shows "listTransactions env c n = Inr (take n (afterToken c hist))"
proof (cases c)
  case None
  then show ?thesis using assms by (simp add: listTransactions_def horizon_history_def afterToken_def)
next
  case (Some t)
  then obtain r where r: "r \<in> set hist" "t = tr_paging_token r"
    using assms(2) by (auto simp: historyCursor_def)
  then have "t \<noteq> []" using assms(1) by (auto simp: horizon_history_def wf_record_def)
  then show ?thesis using assms(1) r Some by (simp add: listTransactions_def horizon_history_def)
qed

lemma streamPages_all:
  assumes "horizon_history env hist"
  shows "historyCursor hist c \<Longrightarrow> length (afterToken c hist) < fuel * PAGE_SIZE
    \<Longrightarrow> streamPages fuel env c = Some (List.map_filter (anchorOf env) (afterToken c hist), None)"
proof (induction fuel arbitrary: c)
  case 0
  then show ?case by simp
next
  case (Suc fuel)
  let ?rest = "afterToken c hist" and ?page = "take PAGE_SIZE (afterToken c hist)"
  obtain xs where xs: "hist = xs @ ?rest" using afterToken_suffix by blast
  have wf: "toAnchorEvent env r = Inr (anchorOf env r)" if "r \<in> set hist" for r
    using assms that by (intro toAnchorEvent_wf) (auto simp: horizon_history_def)
  have "set ?page \<subseteq> set hist" using xs by (metis Un_upper2 order_trans set_append set_take_subset)
  then have page: "pageEvents env ?page = (List.map_filter (anchorOf env) ?page, None)"
    using wf by (intro pageEvents_all) auto
  have lst: "listTransactions env c PAGE_SIZE = Inr ?page"
    by (rule listTransactions_history[OF assms Suc.prems(1)])
  show ?case
  proof (cases "length ?rest < PAGE_SIZE")
    case True
    then show ?thesis using lst page by (simp add: wrap_def)
  next
    case False
    then have len: "length ?page = PAGE_SIZE" by simp
    then have ne: "?page \<noteq> []" by (auto simp: PAGE_SIZE_def)
    let ?r = "last ?page"
    have "hist = (xs @ butlast ?page) @ ?r # drop PAGE_SIZE ?rest"
      using xs ne by (metis append.assoc append_Cons append_Nil append_butlast_last_id append_take_drop_id)
    moreover have "distinct (map tr_paging_token hist)" using assms by (simp add: horizon_history_def)
    ultimately have nxt: "afterToken (Some (tr_paging_token ?r)) hist = drop PAGE_SIZE ?rest"
      by (rule afterToken_split)
    have "?r \<in> set hist" using ne \<open>set ?page \<subseteq> set hist\<close> last_in_set by blast
    then have "historyCursor hist (Some (tr_paging_token ?r))" by (simp add: historyCursor_def)
    moreover have "length (drop PAGE_SIZE ?rest) < fuel * PAGE_SIZE"
      using Suc.prems(2) False by (simp add: less_diff_conv2)
    ultimately have "streamPages fuel env (Some (tr_paging_token ?r))
        = Some (List.map_filter (anchorOf env) (drop PAGE_SIZE ?rest), None)"
      using Suc.IH[of "Some (tr_paging_token ?r)"] nxt by simp
    moreover have "List.map_filter (anchorOf env) ?page @ List.map_filter (anchorOf env) (drop PAGE_SIZE ?rest)
        = List.map_filter (anchorOf env) ?rest"
      by (metis append_take_drop_id filter_append map_append List.map_filter_def)
    ultimately show ?thesis using lst page len by (simp add: wrap_def)
  qed
qed

lemma map_filter_split:
  "List.map_filter f xs = ps @ e # qs \<Longrightarrow>
     \<exists>us r vs. xs = us @ r # vs \<and> f r = Some e \<and> List.map_filter f us = ps \<and> List.map_filter f vs = qs"
proof (induction xs arbitrary: ps)
  case (Cons x xs)
  show ?case
  proof (cases "\<exists>y. f x = Some y \<and> ps = []")
    case True
    then show ?thesis using Cons.prems
      by (intro exI[of _ "[]"] exI[of _ x] exI[of _ xs]) (auto simp: List.map_filter_simps)
  next
    case False
    then obtain ps' where "List.map_filter f xs = ps' @ e # qs"
      "ps = (case f x of None \<Rightarrow> ps' | Some y \<Rightarrow> y # ps')"
      using Cons.prems by (cases ps; cases "f x") (auto simp: List.map_filter_simps)
    then obtain us r vs where "xs = us @ r # vs" "f r = Some e" "List.map_filter f us = ps'"
      "List.map_filter f vs = qs" using Cons.IH by blast
    then show ?thesis using \<open>ps = _\<close>
      by (intro exI[of _ "x # us"] exI[of _ r] exI[of _ vs]) (auto simp: List.map_filter_simps split: option.splits)
  qed
qed (simp add: List.map_filter_simps)

lemma anchorOf_id:
  assumes "anchorOf env r = Some e"
  shows "ev_id (event_envelope e) = tr_paging_token r"
  using assms toAnchorEvent_some(1) by (auto simp: anchorOf_def split: sum.splits)

lemma stream_ids_sub:
  "(\<lambda>e. ev_id (event_envelope e)) ` set (List.map_filter (anchorOf env) rs) \<subseteq> tr_paging_token ` set rs"
  by (induction rs) (auto simp: List.map_filter_simps split: option.splits dest: anchorOf_id)

lemma stream_ids:
  "distinct (map tr_paging_token rs)
   \<Longrightarrow> distinct (map (\<lambda>e. ev_id (event_envelope e)) (List.map_filter (anchorOf env) rs))"
proof (induction rs)
  case (Cons r rs)
  show ?case
  proof (cases "anchorOf env r")
    case (Some e)
    have "tr_paging_token r \<notin> (\<lambda>e. ev_id (event_envelope e)) ` set (List.map_filter (anchorOf env) rs)"
      using Cons.prems stream_ids_sub[of env rs] by auto
    then show ?thesis
      using Cons Some by (simp add: List.map_filter_simps anchorOf_id[OF Some])
  qed (use Cons in \<open>simp add: List.map_filter_simps\<close>)
qed (simp add: List.map_filter_simps)

text \<open>A stream that is resumed from an event continues with the events after it, and only these.\<close>

lemma stream_resume:
  assumes hist: "horizon_history env hist"
    and es: "List.map_filter (anchorOf env) hist = ps @ e # qs"
    and fuel: "length hist < fuel * PAGE_SIZE"
  shows "streamPages fuel env (Some (ev_id (event_envelope e))) = Some (qs, None)"
proof -
  obtain us r vs where r: "hist = us @ r # vs" "anchorOf env r = Some e"
    "List.map_filter (anchorOf env) vs = qs" using map_filter_split[OF es] by blast
  have "distinct (map tr_paging_token hist)" using hist by (simp add: horizon_history_def)
  then have a: "afterToken (Some (tr_paging_token r)) hist = vs" using r(1) by (intro afterToken_split)
  have c: "historyCursor hist (Some (tr_paging_token r))" using r(1) by (simp add: historyCursor_def)
  have "length (afterToken (Some (tr_paging_token r)) hist) < fuel * PAGE_SIZE"
    using a r(1) fuel by simp
  then show ?thesis using streamPages_all[OF hist c] a r anchorOf_id[OF r(2)] by simp
qed

end
