(* ===== verification/Indexer.thy ===== *)
theory Indexer
  imports Chain_Stream Ledger
begin

text \<open>
  The chain-event indexer (\<open>src/src/workers/stellar-indexer.worker.ts\<close>): one cycle reads the stored
  cursor, follows the adapter's event stream and upserts one ledger block per transaction hash,
  saving the cursor after each event. The database's \<open>updateOne\<close> is a parameter; \<open>documented_updates\<close>
  is the one rule of its documentation that matters here, that an update naming a path under two
  operators is rejected.
\<close>

section \<open>The update of one event\<close>

record blockUpdate =
  bu_setOnInsert :: "(string \<times> jval) list"
  bu_set :: "(string \<times> jval) list"

definition baseMetadata :: "eventEnvelope \<Rightarrow> millis \<Rightarrow> (string \<times> jval) list" where
  "baseMetadata env now =
     [(''blockNumber'', JNum (nat_str (ev_ledger env))), (''ledger'', JNum (nat_str (ev_ledger env))),
      (''contractId'', JStr (ev_contract_id env)), (''eventId'', JStr (ev_id env)),
      (''indexedAt'', JStr (toISOString now))]"

text \<open>The milestone, the shipment id and the metadata of the three kinds of events.\<close>

fun eventFields :: "chainEvent \<Rightarrow> millis \<Rightarrow> milestoneEvent \<times> string \<times> (string \<times> jval) list" where
  "eventFields (AnchorEvent env s h l) now =
     (OfStatus IN_TRANSIT, s, baseMetadata env now @ [(''dataHash'', JStr h)])"
| "eventFields (EscrowInitEvent env p s payer payee token amt) now =
     (OfStatus SETTLEMENT_INITIATED, s, baseMetadata env now @
        [(''paymentId'', JStr p), (''payer'', JStr payer), (''payee'', JStr payee),
         (''token'', JStr token), (''amount'', JStr amt)])"
| "eventFields (EscrowReleaseEvent env p h payee amt) now =
     (OfStatus SETTLEMENT_COMPLETED, p, baseMetadata env now @
        [(''paymentId'', JStr p), (''proofHash'', JStr h), (''payee'', JStr payee), (''amount'', JStr amt)])"

definition stringField :: "string \<Rightarrow> (string \<times> jval) list \<Rightarrow> (string \<times> jval) list" where
  "stringField k kvs = (case map_of kvs k of Some (JStr s) \<Rightarrow> [(k, JStr s)] | _ \<Rightarrow> [])"

definition eventUpdate :: "chainEvent \<Rightarrow> millis \<Rightarrow> blockUpdate" where
  "eventUpdate event now =
     (let (milestoneEvent, shipmentId, metadata) = eventFields event now
      in \<lparr>bu_setOnInsert = [(''shipmentId'', JStr shipmentId),
            (''milestoneEvent'', JStr (event_str milestoneEvent)),
            (''transactionHash'', JStr (ev_tx_hash (event_envelope event))),
            (''actor'', JStr ''stellar-indexer'')],
          bu_set = [(''milestoneEvent'', JStr (event_str milestoneEvent)), (''metadata'', JObj metadata)]
            @ stringField ''dataHash'' metadata\<rparr>)"

section \<open>One cycle\<close>

definition INDEXER_KEY :: string where
  "INDEXER_KEY = ''stellar_indexer''"

record indexerState =
  is_cursors :: "string \<rightharpoonup> string"
  is_blocks :: "ledgerBlock list"

text \<open>
  \<open>ix_now k\<close> is the clock at the k-th event; \<open>ix_readable\<close> and \<open>ix_writable k\<close> tell whether the cursor
  document can be read and, at the k-th event, written. \<open>updateOne\<close> answers whether it inserted.
\<close>

record indexerEnv =
  ix_now :: "nat \<Rightarrow> millis"
  ix_readable :: bool
  ix_writable :: "nat \<Rightarrow> bool"
  ix_updateOne :: "string \<Rightarrow> blockUpdate \<Rightarrow> ledgerBlock list \<Rightarrow> bool result \<times> ledgerBlock list"

definition getStoredCursor :: "indexerEnv \<Rightarrow> indexerState \<Rightarrow> string option" where
  "getStoredCursor env st = (if ix_readable env then is_cursors st INDEXER_KEY else None)"

definition saveStoredCursor :: "indexerEnv \<Rightarrow> nat \<Rightarrow> string \<Rightarrow> indexerState \<Rightarrow> indexerState" where
  "saveStoredCursor env k cursor st =
     (if ix_writable env k then st\<lparr>is_cursors := (is_cursors st)(INDEXER_KEY \<mapsto> cursor)\<rparr> else st)"

record indexerSummary =
  xs_processed :: nat
  xs_upserted :: nat
  xs_lastCursor :: "string option"

text \<open>
  The loop over the stream; the first error, the store's or the stream's own, ends the cycle. A
  position is never empty, so the last guard of the loop always holds.
\<close>

fun indexEvents ::
  "indexerEnv \<Rightarrow> eventStream \<Rightarrow> indexerSummary \<Rightarrow> indexerState \<Rightarrow> indexerSummary result \<times> indexerState" where
  "indexEvents env ([], Some err) sm st = (Inl err, st)"
| "indexEvents env ([], None) sm st = (Inr sm, st)"
| "indexEvents env (event # events, err) sm st =
     (let k = xs_processed sm;
          cursor = ev_id (event_envelope event);
          (res, blocks) = ix_updateOne env (ev_tx_hash (event_envelope event))
             (eventUpdate event (ix_now env k)) (is_blocks st);
          st' = st\<lparr>is_blocks := blocks\<rparr>
      in case res of
           Inl e \<Rightarrow> (Inl e, st')
         | Inr inserted \<Rightarrow> indexEvents env (events, err)
             \<lparr>xs_processed = k + 1, xs_upserted = xs_upserted sm + (if inserted then 1 else 0),
              xs_lastCursor = Some cursor\<rparr>
             (if cursor = [] then st' else saveStoredCursor env k cursor st'))"

definition indexStellarTransactions ::
  "indexerEnv \<Rightarrow> (string option \<Rightarrow> eventStream) \<Rightarrow> string option \<Rightarrow> indexerState
   \<Rightarrow> indexerSummary result \<times> indexerState" where
  "indexStellarTransactions env streamEvents initialCursor st =
     (let cursor = (case initialCursor of Some c \<Rightarrow> Some c | None \<Rightarrow> getStoredCursor env st)
      in indexEvents env (streamEvents cursor)
           \<lparr>xs_processed = 0, xs_upserted = 0, xs_lastCursor = cursor\<rparr> st)"

section \<open>Cycles one after another\<close>

text \<open>The queue runs a cycle every thirty seconds, and again after a failure.\<close>

fun indexerCycles ::
  "(indexerEnv \<times> (string option \<Rightarrow> eventStream)) list \<Rightarrow> indexerState
   \<Rightarrow> indexerSummary result list \<times> indexerState" where
  "indexerCycles [] st = ([], st)"
| "indexerCycles ((env, stream) # cs) st =
     (let (r, st') = indexStellarTransactions env stream None st;
          (rs, st'') = indexerCycles cs st'
      in (r # rs, st''))"

section \<open>Every update names the milestone twice\<close>

definition conflicting :: "blockUpdate \<Rightarrow> bool" where
  "conflicting u \<longleftrightarrow> list_ex (\<lambda>kv. fst kv \<in> set (map fst (bu_set u))) (bu_setOnInsert u)"

definition documented_updates :: "indexerEnv \<Rightarrow> bool" where
  "documented_updates env \<longleftrightarrow> (\<forall>txHash u blocks. conflicting u
     \<longrightarrow> (\<exists>m. ix_updateOne env txHash u blocks = (Inl (PlainError m), blocks)))"

lemma eventUpdate_conflicting: "conflicting (eventUpdate event now)"
  by (simp add: eventUpdate_def conflicting_def Let_def split: prod.split)

lemma indexEvents_rejected:
  assumes "documented_updates env"
  shows "\<exists>m. indexEvents env (event # events, err) sm st = (Inl (PlainError m), st)"
proof -
  obtain m where "ix_updateOne env (ev_tx_hash (event_envelope event))
      (eventUpdate event (ix_now env (xs_processed sm))) (is_blocks st)
      = (Inl (PlainError m), is_blocks st)"
    using assms eventUpdate_conflicting unfolding documented_updates_def by blast
  then show ?thesis by simp
qed

lemma cycle_stores_nothing:
  assumes "documented_updates env"
  shows "snd (indexStellarTransactions env stream c st) = st"
proof -
  let ?c = "case c of Some c \<Rightarrow> Some c | None \<Rightarrow> getStoredCursor env st"
  obtain es err where s: "stream ?c = (es, err)" by (cases "stream ?c")
  show ?thesis
  proof (cases es)
    case Nil
    then show ?thesis using s by (cases err) (simp_all add: indexStellarTransactions_def)
  next
    case (Cons e es')
    obtain m where "indexEvents env (e # es', err)
        \<lparr>xs_processed = 0, xs_upserted = 0, xs_lastCursor = ?c\<rparr> st = (Inl (PlainError m), st)"
      using indexEvents_rejected[OF assms] by blast
    then show ?thesis using s Cons by (simp add: indexStellarTransactions_def Let_def del: indexEvents.simps)
  qed
qed

lemma cycles_store_nothing:
  assumes "\<And>env stream. (env, stream) \<in> set cs \<Longrightarrow> documented_updates env"
  shows "snd (indexerCycles cs st) = st"
  using assms
proof (induction cs)
  case (Cons c cs)
  obtain env stream where c: "c = (env, stream)" by (cases c)
  have "snd (indexStellarTransactions env stream None st) = st"
    using Cons.prems c by (intro cycle_stores_nothing) auto
  moreover have "snd (indexerCycles cs st) = st" using Cons by auto
  ultimately show ?case by (simp add: c Let_def case_prod_beta)
qed simp

text \<open>A cycle whose stream has an event to offer fails, however often it is run.\<close>

lemma cycle_fails:
  assumes "documented_updates env" and "fst (stream (getStoredCursor env st)) \<noteq> []"
  shows "\<exists>m. fst (indexStellarTransactions env stream None st) = Inl (PlainError m)"
proof -
  obtain e es err where s: "stream (getStoredCursor env st) = (e # es, err)"
    using assms(2) by (cases "stream (getStoredCursor env st)") (auto simp: neq_Nil_conv)
  obtain m where "indexEvents env (e # es, err) \<lparr>xs_processed = 0, xs_upserted = 0,
      xs_lastCursor = getStoredCursor env st\<rparr> st = (Inl (PlainError m), st)"
    using indexEvents_rejected[OF assms(1)] by blast
  then show ?thesis by (simp add: indexStellarTransactions_def s Let_def del: indexEvents.simps)
qed

lemma cycles_fail:
  assumes "\<And>env stream. (env, stream) \<in> set cs \<Longrightarrow> documented_updates env"
    and "k < length cs" and "fst (snd (cs ! k) (getStoredCursor (fst (cs ! k)) st)) \<noteq> []"
  shows "\<exists>m. fst (indexerCycles cs st) ! k = Inl (PlainError m)"
  using assms
proof (induction cs arbitrary: k)
  case (Cons c cs)
  obtain env stream where c: "c = (env, stream)" by (cases c)
  have doc: "documented_updates env" using Cons.prems(1) c by auto
  then have keep: "snd (indexStellarTransactions env stream None st) = st" by (rule cycle_stores_nothing)
  show ?case
  proof (cases k)
    case 0
    then show ?thesis using cycle_fails[OF doc, of stream st] Cons.prems(3) by (simp add: c Let_def case_prod_unfold)
  next
    case (Suc j)
    have "\<exists>m. fst (indexerCycles cs st) ! j = Inl (PlainError m)"
      using Cons.prems Suc by (intro Cons.IH) auto
    then show ?thesis using Suc keep by (simp add: c Let_def case_prod_unfold)
  qed
qed simp

section \<open>What the cycle would do with a store that accepted its updates\<close>

text \<open>
  The unit tests of the worker replace the store by one that accepts everything. Against a store
  that takes an update as it is meant, the cursor is the id of the last event and a second cycle
  over the rest of the stream continues the first: nothing is indexed twice.
\<close>

definition accepting :: "indexerEnv \<Rightarrow> bool" where
  "accepting env \<longleftrightarrow> (\<forall>txHash u blocks. \<exists>i blocks'. ix_updateOne env txHash u blocks = (Inr i, blocks'))"

lemma accepted_cycle:
  assumes "accepting env" and "\<And>k. ix_writable env k"
    and "\<And>e. e \<in> set events \<Longrightarrow> ev_id (event_envelope e) \<noteq> []"
  shows "events \<noteq> [] \<Longrightarrow> \<exists>sm' st'. indexEvents env (events, None) sm st = (Inr sm', st')
     \<and> xs_processed sm' = xs_processed sm + length events
     \<and> xs_lastCursor sm' = Some (ev_id (event_envelope (last events)))
     \<and> is_cursors st' INDEXER_KEY = Some (ev_id (event_envelope (last events)))"
  using assms(3)
proof (induction events arbitrary: sm st)
  case (Cons e es)
  obtain i bs where u: "ix_updateOne env (ev_tx_hash (event_envelope e))
      (eventUpdate e (ix_now env (xs_processed sm))) (is_blocks st) = (Inr i, bs)"
    using assms(1) unfolding accepting_def by blast
  show ?case
  proof (cases "es = []")
    case True
    then show ?thesis using u assms(2) Cons.prems(2) by (simp add: saveStoredCursor_def Let_def)
  next
    case False
    let ?sm = "\<lparr>xs_processed = xs_processed sm + 1,
        xs_upserted = xs_upserted sm + (if i then 1 else 0), xs_lastCursor = Some (ev_id (event_envelope e))\<rparr>"
    let ?st = "saveStoredCursor env (xs_processed sm) (ev_id (event_envelope e)) (st\<lparr>is_blocks := bs\<rparr>)"
    have "indexEvents env (e # es, None) sm st = indexEvents env (es, None) ?sm ?st"
      using u Cons.prems(2) by (simp add: Let_def)
    then show ?thesis using Cons.IH[OF False, of ?sm ?st] Cons.prems(2) False by simp
  qed
qed simp

end
