(* ===== verification/Public_Tracking.thy ===== *)
theory Public_Tracking
  imports Shipment_System Sensing
begin

text \<open>
  The unauthenticated tracking page (\<open>src/src/modules/public-tracking\<close>): the parameter's schema, the
  lookup by tracking number and the public view of a shipment, with what the view shows of the
  lifecycle and what it cannot show.
\<close>

section \<open>The request\<close>

definition tracking_char :: "char \<Rightarrow> bool" where
  "tracking_char c \<longleftrightarrow> is_upper c \<or> is_lower c \<or> is_digit c \<or> c = CHR ''_'' \<or> c = CHR ''-''"

definition PublicTrackingParamSchema :: "string \<Rightarrow> string option" where
  "PublicTrackingParamSchema s =
     (let t = trim s in if 1 \<le> length t \<and> length t \<le> 64 \<and> list_all tracking_char t then Some t else None)"

section \<open>The view\<close>

record publicMilestone =
  pt_id :: string
  pt_label :: string
  pt_status :: string
  pt_timestamp :: string
  pt_location :: "string option"
  pt_isCompleted :: bool
  pt_isCurrent :: bool

record publicTracking =
  pt_trackingNumber :: string
  pt_shipmentStatus :: string
  pt_originCity :: string
  pt_destinationCity :: string
  pt_expectedDelivery :: "string option"
  pt_milestones :: "publicMilestone list"

definition publicMilestoneOf :: "shipment \<Rightarrow> nat \<Rightarrow> milestone \<Rightarrow> publicMilestone" where
  "publicMilestoneOf sh index m =
     \<lparr>pt_id = ''milestone-'' @ nat_str index, pt_label = ms_name m, pt_status = ms_name m,
      pt_timestamp = toISOString (ms_timestamp m), pt_location = None, pt_isCompleted = True,
      pt_isCurrent = (int index = int (length (sh_milestones sh)) - 1 \<and> sh_status sh \<noteq> DELIVERED)\<rparr>"

definition currentMilestone :: "shipment \<Rightarrow> publicMilestone" where
  "currentMilestone sh =
     \<lparr>pt_id = ''milestone-current'', pt_label = status_str (sh_status sh), pt_status = status_str (sh_status sh),
      pt_timestamp = toISOString (sh_updatedAt sh), pt_location = None,
      pt_isCompleted = (sh_status sh = DELIVERED), pt_isCurrent = (sh_status sh \<noteq> DELIVERED)\<rparr>"

definition publicMilestones :: "shipment \<Rightarrow> publicMilestone list" where
  "publicMilestones sh =
     (let milestones = map (\<lambda>(index, m). publicMilestoneOf sh index m)
            (zip [0..<length (sh_milestones sh)] (sh_milestones sh))
      in if list_ex (\<lambda>m. pt_label m = status_str (sh_status sh)) milestones then milestones
         else milestones @ [currentMilestone sh])"

definition trackingView :: "shipment \<Rightarrow> publicTracking" where
  "trackingView sh =
     \<lparr>pt_trackingNumber = sh_trackingNumber sh, pt_shipmentStatus = status_str (sh_status sh),
      pt_originCity = sh_origin sh, pt_destinationCity = sh_destination sh,
      pt_expectedDelivery = map_option toISOString (sh_expectedDelivery sh),
      pt_milestones = publicMilestones sh\<rparr>"

definition getPublicTrackingService :: "string \<Rightarrow> shipment list \<Rightarrow> publicTracking result" where
  "getPublicTrackingService trackingNumber xs =
     (case findOne shipmentAlive (\<lambda>sh. sh_trackingNumber sh = trackingNumber \<and> sh_deletedAt sh = None) xs of
        None \<Rightarrow> throwApp 404 ''Shipment not found'' (ErrorCodes SHIPMENT_NOT_FOUND)
      | Some sh \<Rightarrow> Inr (trackingView sh))"

section \<open>What the view cannot show\<close>

text \<open>A shipment with everything private replaced.\<close>

definition publicPart :: "shipment \<Rightarrow> shipment" where
  "publicPart sh = sh\<lparr>sh_id := [], sh_enterpriseId := [], sh_logisticsId := [], sh_priority := STANDARD,
     sh_milestones := map (\<lambda>m. m\<lparr>ms_description := None, ms_userId := None, ms_walletAddress := None\<rparr>)
       (sh_milestones sh),
     sh_offChainMetadata := None, sh_stellarTokenId := None, sh_stellarTxHash := None,
     sh_deliveryProof := None, sh_documents := [], sh_photos := [], sh_disputes := [], sh_createdAt := 0\<rparr>"

lemma publicMilestones_public: "publicMilestones (publicPart sh) = publicMilestones sh"
proof -
  let ?f = "\<lambda>m. m\<lparr>ms_description := None, ms_userId := None, ms_walletAddress := None\<rparr>"
  have ms: "sh_milestones (publicPart sh) = map ?f (sh_milestones sh)" by (simp add: publicPart_def)
  have "publicMilestoneOf (publicPart sh) i (?f m) = publicMilestoneOf sh i m" for i m
    by (simp add: publicMilestoneOf_def publicPart_def)
  then have "map (\<lambda>(i, m). publicMilestoneOf (publicPart sh) i m)
        (zip [0..<length (sh_milestones (publicPart sh))] (sh_milestones (publicPart sh)))
      = map (\<lambda>(i, m). publicMilestoneOf sh i m) (zip [0..<length (sh_milestones sh)] (sh_milestones sh))"
    unfolding ms by (simp add: zip_map2 case_prod_unfold)
  moreover have "sh_status (publicPart sh) = sh_status sh" "currentMilestone (publicPart sh) = currentMilestone sh"
    by (simp_all add: publicPart_def currentMilestone_def)
  ultimately show ?thesis unfolding publicMilestones_def Let_def by (simp only:)
qed

lemma trackingView_public: "trackingView (publicPart sh) = trackingView sh"
  by (simp add: trackingView_def publicMilestones_public) (simp add: publicPart_def)

section \<open>What the view shows of the lifecycle\<close>

definition shownLabels :: "shipment \<Rightarrow> string list" where
  "shownLabels sh = map pt_label (publicMilestones sh)"

lemma milestone_labels:
  "map pt_label (map (\<lambda>(i, m). publicMilestoneOf sh i m) (zip [0..<length ms] ms)) = map ms_name ms"
  by (simp add: publicMilestoneOf_def case_prod_unfold comp_def map_snd_zip flip: map_map[of ms_name snd, unfolded comp_def])

lemma has_label: "list_ex (\<lambda>m. pt_label m = l) ms \<longleftrightarrow> l \<in> set (map pt_label ms)"
  by (auto simp: list_ex_iff)

lemma current_milestones:
  "filter pt_isCurrent (map (\<lambda>(i, m). publicMilestoneOf sh i m) (zip [0..<length (sh_milestones sh)] (sh_milestones sh)))
   = (if sh_milestones sh = [] \<or> sh_status sh = DELIVERED then []
      else [publicMilestoneOf sh (length (sh_milestones sh) - 1) (last (sh_milestones sh))])"
proof (cases "sh_milestones sh" rule: rev_cases)
  case (snoc ms m)
  have "\<not> pt_isCurrent (publicMilestoneOf sh i x)" if "(i, x) \<in> set (zip [0..<length ms] ms)" for i x
    using set_zip_leftD[OF that] snoc by (simp add: publicMilestoneOf_def)
  then have "filter pt_isCurrent (map (\<lambda>(i, m). publicMilestoneOf sh i m) (zip [0..<length ms] ms)) = []"
    by (auto simp: filter_empty_conv)
  then show ?thesis using snoc by (simp add: publicMilestoneOf_def)
qed simp

lemma consistent_view:
  assumes "history sh hs"
  shows "shownLabels sh = (if hs = [] then [''CREATED''] else map status_str hs)"
    and "filter pt_isCurrent (publicMilestones sh)
      = (if sh_status sh = DELIVERED then [] else [last (publicMilestones sh)])"
proof -
  have names: "map ms_name (sh_milestones sh) = map status_str hs" and st: "sh_status sh = last (CREATED # hs)"
    using assms by (auto simp: history_def)
  let ?ms = "map (\<lambda>(i, m). publicMilestoneOf sh i m) (zip [0..<length (sh_milestones sh)] (sh_milestones sh))"
  have labels: "map pt_label ?ms = map status_str hs" by (simp only: milestone_labels names)
  show "shownLabels sh = (if hs = [] then [''CREATED''] else map status_str hs)"
  proof (cases "hs = []")
    case True
    then have "?ms = []" using labels by simp
    then show ?thesis using True st
      by (simp add: shownLabels_def publicMilestones_def currentMilestone_def)
  next
    case False
    then have "status_str (sh_status sh) \<in> set (map pt_label ?ms)" using st labels by simp
    then have "publicMilestones sh = ?ms"
      unfolding publicMilestones_def Let_def has_label by (rule if_P)
    then show ?thesis using labels False by (simp only: shownLabels_def) simp
  qed
  show "filter pt_isCurrent (publicMilestones sh)
      = (if sh_status sh = DELIVERED then [] else [last (publicMilestones sh)])"
  proof (cases "hs = []")
    case True
    then have "sh_milestones sh = []" using names by simp
    then show ?thesis using True st by (simp add: publicMilestones_def currentMilestone_def)
  next
    case False
    then have "status_str (sh_status sh) \<in> set (map pt_label ?ms)" using st labels by simp
    then have p: "publicMilestones sh = ?ms"
      unfolding publicMilestones_def Let_def has_label by (rule if_P)
    have ne: "sh_milestones sh \<noteq> []" using names False by auto
    then have "last ?ms = publicMilestoneOf sh (length (sh_milestones sh) - 1) (last (sh_milestones sh))"
      by (simp add: last_map last_zip)
    then show ?thesis unfolding p current_milestones using ne by simp
  qed
qed

text \<open>The number finds the one live shipment that carries it.\<close>

lemma tracking_found:
  assumes "distinct (map sh_trackingNumber xs)"
  shows "getPublicTrackingService tn xs = Inr v \<longleftrightarrow>
    (\<exists>sh\<in>set xs. sh_trackingNumber sh = tn \<and> shipmentAlive sh \<and> v = trackingView sh)"
proof -
  have one: "sh = sh'" if "sh \<in> set xs" "sh' \<in> set xs" "sh_trackingNumber sh = sh_trackingNumber sh'" for sh sh'
    using assms that by (auto simp: distinct_map inj_on_def)
  show ?thesis
  proof (cases "List.find (\<lambda>sh. (sh_trackingNumber sh = tn \<and> sh_deletedAt sh = None) \<and> shipmentAlive sh) xs")
    case None
    then have "\<not> (\<exists>sh\<in>set xs. sh_trackingNumber sh = tn \<and> shipmentAlive sh)"
      by (auto simp: find_None_iff shipmentAlive_def)
    then show ?thesis unfolding getPublicTrackingService_def findOne_def None by auto
  next
    case (Some sh)
    then have "sh \<in> set xs" "sh_trackingNumber sh = tn" "shipmentAlive sh" by (auto dest: find_SomeD)
    then show ?thesis unfolding getPublicTrackingService_def findOne_def Some using one by auto
  qed
qed

end
