(* ===== verification/Activity.thy ===== *)
theory Activity
  imports Pagination Collection "HOL-Library.Sublist"
begin

text \<open>
  The audit-log feeds (\<open>src/src/modules/audit-logs/auditLogs.service.ts\<close>): the activity feed, whose
  cursor is the instant of the last entry shown, and the older listing with a cursor on ids.
  \<open>parseDate\<close> is \<open>new Date\<close> on a string, which zod has accepted as a date.
\<close>

section \<open>Entries\<close>

record auditEntry =
  al_id :: objectId
  al_userId :: objectId
  al_action :: string
  al_resource :: string
  al_resourceId :: string
  al_timestamp :: millis
  al_metadata :: "(string \<times> jval) list"
  al_deletedAt :: "millis option"

definition auditAlive :: "auditEntry \<Rightarrow> bool" where
  "auditAlive e \<longleftrightarrow> al_deletedAt e = None"

definition wanted :: "string option \<Rightarrow> string \<Rightarrow> bool" where
  "wanted f v \<longleftrightarrow> (case keep_truthy f of None \<Rightarrow> True | Some x \<Rightarrow> v = x)"

definition newestEntries :: "auditEntry list \<Rightarrow> auditEntry list" where
  "newestEntries es = desc_by (created_key al_timestamp al_id) es"

section \<open>The activity feed\<close>

record activityParams =
  ac_before :: "string option"
  ac_limit :: nat
  ac_user :: "string option"
  ac_action :: "string option"
  ac_resource :: "string option"

record activityResult =
  ar_data :: "auditEntry list"
  ar_total :: nat
  ar_hasMore :: bool
  ar_before :: "string option"

definition activityBase :: "activityParams \<Rightarrow> auditEntry \<Rightarrow> bool" where
  "activityBase p e \<longleftrightarrow> wanted (ac_user p) (al_userId e) \<and> wanted (ac_action p) (al_action e)
     \<and> wanted (ac_resource p) (al_resource e)"

definition olderThan :: "millis option \<Rightarrow> auditEntry \<Rightarrow> bool" where
  "olderThan t e \<longleftrightarrow> (case t of None \<Rightarrow> True | Some t \<Rightarrow> al_timestamp e < t)"

definition activityPage :: "activityParams \<Rightarrow> millis option \<Rightarrow> auditEntry list \<Rightarrow> activityResult" where
  "activityPage p t docs =
     (let logs = take (ac_limit p + 1) (newestEntries (findAll auditAlive (\<lambda>e. activityBase p e \<and> olderThan t e) docs));
          more = length logs > ac_limit p;
          dat = (if more then take (ac_limit p) logs else logs)
      in \<lparr>ar_data = dat, ar_total = countDocuments auditAlive (activityBase p) docs, ar_hasMore = more,
          ar_before = (if more \<and> dat \<noteq> [] then Some (toISOString (al_timestamp (last dat))) else None)\<rparr>)"

definition getActivityService ::
  "(string \<Rightarrow> millis option) \<Rightarrow> activityParams \<Rightarrow> auditEntry list \<Rightarrow> activityResult result" where
  "getActivityService parseDate p docs =
     (case keep_truthy (ac_before p) of
        None \<Rightarrow> Inr (activityPage p None docs)
      | Some s \<Rightarrow> (case parseDate s of
          None \<Rightarrow> Inl (PlainError ''Cast to date failed'')
        | Some t \<Rightarrow> Inr (activityPage p (Some t) docs)))"

section \<open>The older listing\<close>

record auditLogParams =
  gl_limit :: nat
  gl_user :: "string option"
  gl_action :: "string option"
  gl_resource :: "string option"
  gl_from :: "millis option"
  gl_to :: "millis option"
  gl_docs :: "auditEntry list"

definition auditLogMatches :: "auditLogParams \<Rightarrow> auditEntry \<Rightarrow> bool" where
  "auditLogMatches p e \<longleftrightarrow> wanted (gl_user p) (al_userId e) \<and> wanted (gl_action p) (al_action e)
     \<and> wanted (gl_resource p) (al_resource e)
     \<and> (case gl_from p of None \<Rightarrow> True | Some t \<Rightarrow> t \<le> al_timestamp e)
     \<and> (case gl_to p of None \<Rightarrow> True | Some t \<Rightarrow> al_timestamp e \<le> t) \<and> auditAlive e"

definition getAuditLogsService :: "auditLogParams \<Rightarrow> objectId option \<Rightarrow> auditEntry cursorPage \<times> nat" where
  "getAuditLogsService p cursor =
     (newestPage al_timestamp al_id (auditLogMatches p) (keep_truthy cursor) (gl_limit p) (gl_docs p),
      length (filter (auditLogMatches p) (gl_docs p)))"

text \<open>\<open>superRefine\<close> of the query schema: an inverted window is refused.\<close>

definition AuditLogsQuerySchema :: "auditLogParams \<Rightarrow> bool" where
  "AuditLogsQuerySchema p \<longleftrightarrow> 1 \<le> gl_limit p \<and> gl_limit p \<le> 100
     \<and> \<not> (case (gl_from p, gl_to p) of (Some a, Some b) \<Rightarrow> a > b | _ \<Rightarrow> False)"

interpretation audit_pages: newest_first al_timestamp al_id auditLogMatches gl_docs gl_limit
  "\<lambda>p c. fst (getAuditLogsService p c)"
proof unfold_locales
  fix p and c :: "objectId option" assume "c \<noteq> Some []"
  then have "keep_truthy c = c" by (cases c) auto
  then show "fst (getAuditLogsService p c) = newestPage al_timestamp al_id (auditLogMatches p) c (gl_limit p) (gl_docs p)"
    by (simp add: getAuditLogsService_def)
qed

section \<open>Following the feed\<close>

text \<open>A client that passes \<open>before\<close> on until it is null.\<close>

record activityQuery =
  vq_parse :: "string \<Rightarrow> millis option"
  vq_params :: activityParams
  vq_docs :: "auditEntry list"

definition activityFetch :: "activityQuery \<Rightarrow> string option \<Rightarrow> auditEntry cursorPage" where
  "activityFetch q c =
     (case getActivityService (vq_parse q) (vq_params q\<lparr>ac_before := c\<rparr>) (vq_docs q) of
        Inl err \<Rightarrow> \<lparr>page_data = [], nextCursor = None, hasMore = False\<rparr>
      | Inr r \<Rightarrow> \<lparr>page_data = ar_data r, nextCursor = ar_before r, hasMore = ar_hasMore r\<rparr>)"

definition activityListing :: "activityQuery \<Rightarrow> auditEntry list" where
  "activityListing q = newestEntries (findAll auditAlive (activityBase (vq_params q)) (vq_docs q))"

text \<open>Parsing inverts printing on the instants of the entries, and a page holds something.\<close>

definition activity_ok :: "activityQuery \<Rightarrow> bool" where
  "activity_ok q \<longleftrightarrow> 0 < ac_limit (vq_params q)
     \<and> (\<forall>e\<in>set (vq_docs q). vq_parse q (toISOString (al_timestamp e)) = Some (al_timestamp e))"

definition tail_from :: "activityQuery \<Rightarrow> millis option \<Rightarrow> auditEntry list" where
  "tail_from q t = filter (olderThan t) (activityListing q)"

lemma tail_from_None [simp]: "tail_from q None = activityListing q"
  by (simp add: tail_from_def olderThan_def)

lemma toISOString_nonempty [simp]: "toISOString t \<noteq> []"
  by (simp add: toISOString_def Let_def case_prod_unfold)

lemma activityPage_tail:
  "activityPage (vq_params q\<lparr>ac_before := c\<rparr>) t (vq_docs q) =
     (let l = ac_limit (vq_params q); ts = tail_from q t in
      \<lparr>ar_data = take l ts, ar_total = length (activityListing q), ar_hasMore = l < length ts,
       ar_before = (if l < length ts \<and> l \<noteq> 0 then Some (toISOString (al_timestamp (ts ! (l - 1)))) else None)\<rparr>)"
proof -
  have "newestEntries (findAll auditAlive (\<lambda>e. activityBase (vq_params q) e \<and> olderThan t e) (vq_docs q)) = tail_from q t"
    unfolding tail_from_def activityListing_def newestEntries_def findAll_def filter_desc_by filter_filter
    by (rule arg_cong[where f = "desc_by _"], rule filter_cong) auto
  moreover have "activityBase (vq_params q\<lparr>ac_before := c\<rparr>) = activityBase (vq_params q)"
    by (rule ext) (simp add: activityBase_def)
  moreover have "last (take l xs) = xs ! (l - 1)" if "l < length xs" "l \<noteq> 0" for l and xs :: "auditEntry list"
    using that by (subst last_conv_nth) auto
  ultimately show ?thesis
    by (auto simp: activityPage_def Let_def countDocuments_def activityListing_def newestEntries_def)
qed

lemma tail_member: "e \<in> set (tail_from q t) \<Longrightarrow> e \<in> set (vq_docs q)"
  by (auto simp: tail_from_def activityListing_def newestEntries_def findAll_def)

lemma fetch_first:
  "activityFetch q None = \<lparr>page_data = take (ac_limit (vq_params q)) (tail_from q None),
     nextCursor = ar_before (activityPage (vq_params q\<lparr>ac_before := None\<rparr>) None (vq_docs q)),
     hasMore = ac_limit (vq_params q) < length (tail_from q None)\<rparr>"
  by (simp add: activityFetch_def getActivityService_def activityPage_tail Let_def)

lemma fetch_older:
  assumes "vq_parse q (toISOString t) = Some t"
  shows "activityFetch q (Some (toISOString t)) = \<lparr>page_data = take (ac_limit (vq_params q)) (tail_from q (Some t)),
     nextCursor = ar_before (activityPage (vq_params q\<lparr>ac_before := Some (toISOString t)\<rparr>) (Some t) (vq_docs q)),
     hasMore = ac_limit (vq_params q) < length (tail_from q (Some t))\<rparr>"
  using assms by (simp add: activityFetch_def getActivityService_def activityPage_tail Let_def)

section \<open>Only ties are lost\<close>

lemma sorted_listing: "sorted_wrt (\<lambda>a b. al_timestamp b \<le> al_timestamp a) (activityListing q)"
proof -
  have "sorted_wrt (\<lambda>a b. created_key al_timestamp al_id b \<le> created_key al_timestamp al_id a) (activityListing q)"
    unfolding activityListing_def newestEntries_def by (rule desc_by_sorted)
  then show ?thesis by (rule sorted_wrt_mono_rel[rotated]) (auto simp: created_key_def)
qed

text \<open>After a page that ends at the instant \<open>t\<close>, the next one starts strictly below it.\<close>

lemma tail_step:
  assumes "l < length (tail_from q c)" and "0 < l" and t: "t = al_timestamp (tail_from q c ! (l - 1))"
  shows "\<exists>ties. drop l (tail_from q c) = ties @ tail_from q (Some t) \<and> (\<forall>e\<in>set ties. al_timestamp e = t)"
proof -
  let ?ts = "tail_from q c" and ?P = "\<lambda>e. al_timestamp e < t"
  have s: "sorted_wrt (\<lambda>a b. al_timestamp b \<le> al_timestamp a) ?ts"
    unfolding tail_from_def by (intro sorted_wrt_filter sorted_listing)
  have d: "?ts ! (l - 1) \<in> set ?ts" using assms(1) by simp
  have below: "\<not> ?P e" if "e \<in> set (take l ?ts)" for e
  proof -
    obtain i where i: "i < l" "e = ?ts ! i" "i < length ?ts" using \<open>e \<in> _\<close> by (auto simp: in_set_conv_nth)
    then have "i = l - 1 \<or> i < l - 1" by auto
    then have "t \<le> al_timestamp e"
      using i assms(1) sorted_wrt_nth_less[OF s, of i "l - 1"] by (auto simp: t)
    then show ?thesis by simp
  qed
  have all: "filter ?P ?ts = tail_from q (Some t)"
  proof -
    have "olderThan c x" if "al_timestamp x < t" for x
      using d that by (auto simp: t tail_from_def olderThan_def split: option.splits)
    then show ?thesis by (auto simp: tail_from_def olderThan_def intro!: filter_cong)
  qed
  have dr: "filter ?P (drop l ?ts) = tail_from q (Some t)"
    using below all by (metis append_take_drop_id filter_append filter_False append_Nil)
  have le: "al_timestamp e \<le> t" if e: "e \<in> set (drop l ?ts)" for e
  proof -
    obtain i where i: "e = ?ts ! (l + i)" "l + i < length ?ts" using e by (auto simp: in_set_conv_nth)
    then show ?thesis using sorted_wrt_nth_less[OF s, of "l - 1" "l + i"] assms(2) by (simp add: t)
  qed
  have split: "xs = filter (\<lambda>x. \<not> ?P x) xs @ filter ?P xs"
    if "sorted_wrt (\<lambda>a b. al_timestamp b \<le> al_timestamp a) xs" for xs
    using that
  proof (induction xs)
    case (Cons x xs)
    show ?case
    proof (cases "?P x")
      case True
      then have "filter (\<lambda>x. \<not> ?P x) xs = []" using Cons.prems by (force simp: filter_empty_conv)
      then show ?thesis using Cons True by simp
    qed (use Cons in simp)
  qed simp
  have "sorted_wrt (\<lambda>a b. al_timestamp b \<le> al_timestamp a) (drop l ?ts)" using s by (rule sorted_wrt_drop)
  then have "drop l ?ts = filter (\<lambda>x. \<not> ?P x) (drop l ?ts) @ tail_from q (Some t)"
    using split dr by metis
  moreover have "\<forall>e\<in>set (filter (\<lambda>x. \<not> ?P x) (drop l ?ts)). al_timestamp e = t" using le by force
  ultimately show ?thesis by blast
qed

lemma walk_activity:
  assumes "activity_ok q"
  shows "activityFetch q c = \<lparr>page_data = take (ac_limit (vq_params q)) (tail_from q t),
       nextCursor = ar_before (activityPage (vq_params q\<lparr>ac_before := c\<rparr>) t (vq_docs q)),
       hasMore = ac_limit (vq_params q) < length (tail_from q t)\<rparr>
    \<Longrightarrow> length (tail_from q t) < fuel
    \<Longrightarrow> \<exists>zs. walk fuel (activityFetch q) c = Some zs \<and> subseq zs (tail_from q t)
        \<and> al_timestamp ` set (tail_from q t) = al_timestamp ` set zs"
proof (induction fuel arbitrary: c t)
  case 0
  then show ?case by simp
next
  case (Suc fuel)
  let ?l = "ac_limit (vq_params q)" and ?ts = "tail_from q t"
  have l: "0 < ?l" using assms by (simp add: activity_ok_def)
  show ?case
  proof (cases "?l < length ?ts")
    case False
    then show ?thesis using Suc.prems l by (simp add: activityPage_tail Let_def)
  next
    case True
    define u where "u = al_timestamp (?ts ! (?l - 1))"
    obtain ties where ties: "drop ?l ?ts = ties @ tail_from q (Some u)" "\<forall>e\<in>set ties. al_timestamp e = u"
      using tail_step[OF True l u_def] by blast
    have "?ts ! (?l - 1) \<in> set (vq_docs q)" using True by (intro tail_member[where t = t]) simp
    then have "vq_parse q (toISOString u) = Some u" using assms by (auto simp: activity_ok_def u_def)
    moreover have "length (tail_from q (Some u)) < fuel"
    proof -
      have "length (drop ?l ?ts) = length ties + length (tail_from q (Some u))" by (simp add: ties(1))
      then show ?thesis using Suc.prems(2) l True by simp
    qed
    ultimately obtain zs where zs: "walk fuel (activityFetch q) (Some (toISOString u)) = Some zs"
      "subseq zs (tail_from q (Some u))" "al_timestamp ` set (tail_from q (Some u)) = al_timestamp ` set zs"
      using Suc.IH[OF fetch_older] by blast
    have nxt: "nextCursor (activityFetch q c) = Some (toISOString u)"
      "page_data (activityFetch q c) = take ?l ?ts"
      using Suc.prems(1) True l by (simp_all add: activityPage_tail Let_def u_def)
    have "subseq (take ?l ?ts @ zs) (take ?l ?ts @ drop ?l ?ts)"
      unfolding subseq_append' ties(1) using zs(2) by (rule list_emb_append2)
    then have sub: "subseq (take ?l ?ts @ zs) ?ts" by simp
    have mem: "?ts ! (?l - 1) \<in> set (take ?l ?ts)" using True l by (auto simp: in_set_conv_nth intro!: exI[of _ "?l - 1"])
    then have "u \<in> al_timestamp ` set (take ?l ?ts)" by (auto simp: u_def)
    moreover have "al_timestamp ` set ?ts
        = al_timestamp ` set (take ?l ?ts) \<union> al_timestamp ` set ties \<union> al_timestamp ` set zs"
      using ties(1) zs(3) by (metis append_take_drop_id image_Un set_append Un_assoc)
    moreover have "al_timestamp ` set ties \<subseteq> {u}" using ties(2) by auto
    ultimately have "al_timestamp ` set ?ts = al_timestamp ` set (take ?l ?ts @ zs)" by auto
    then show ?thesis using zs(1) nxt sub by simp
  qed
qed

lemma walk_activity_distinct:
  assumes "subseq zs xs" and "f ` set xs = f ` set zs" and "distinct (map f xs)"
  shows "zs = xs"
proof -
  have "set zs \<subseteq> set xs" using list_emb_set[OF assms(1)] by auto
  moreover have inj: "inj_on f (set xs)" using assms(3) by (simp add: distinct_map)
  ultimately have "set zs = set xs" using assms(2) by (metis inj_on_image_eq_iff order_refl)
  moreover have "distinct xs" using assms(3) by (simp add: distinct_map)
  ultimately have "length xs \<le> length zs" by (metis distinct_card card_length)
  then have "length zs = length xs" using list_emb_length[OF assms(1)] by simp
  then show ?thesis using assms(1) by (simp add: subseq_same_length)
qed

end
