(* ===== verification/Scoping.thy ===== *)
theory Scoping
  imports Collection
begin

text \<open>
  Services whose every query carries the caller's own id: notifications and their preferences
  (per user), shipment templates (per organization). The interface \<open>scoped_service\<close> states the two
  laws of such a service, that a command of an owner works on the owner's documents alone and leaves
  all others in place; what follows is noninterference: an owner sees, over any sequence of commands
  of any owners, exactly what they would see alone.
\<close>

definition ownedBy :: "('d \<Rightarrow> objectId) \<Rightarrow> objectId \<Rightarrow> 'd list \<Rightarrow> 'd list" where
  "ownedBy owner o' xs = filter (\<lambda>d. owner d = o') xs"

text \<open>Commands one after another, each with the owner who issued it and the answer they got.\<close>

fun runScoped ::
  "(objectId \<Rightarrow> 'c \<Rightarrow> 'd list \<Rightarrow> 'r \<times> 'd list) \<Rightarrow> (objectId \<times> 'c) list \<Rightarrow> 'd list
   \<Rightarrow> (objectId \<times> 'r) list \<times> 'd list" where
  "runScoped exec [] xs = ([], xs)"
| "runScoped exec ((o', c) # cs) xs =
     (let (r, ys) = exec o' c xs; (rs, zs) = runScoped exec cs ys in ((o', r) # rs, zs))"

definition ofOwner :: "objectId \<Rightarrow> (objectId \<times> 'a) list \<Rightarrow> (objectId \<times> 'a) list" where
  "ofOwner o' cs = filter (\<lambda>(p, c). p = o') cs"

locale scoped_service =
  fixes owner :: "'d \<Rightarrow> objectId"
    and exec :: "objectId \<Rightarrow> 'c \<Rightarrow> 'd list \<Rightarrow> 'r \<times> 'd list"
  assumes own: "fst (exec o' c (ownedBy owner o' xs)) = fst (exec o' c xs)
      \<and> snd (exec o' c (ownedBy owner o' xs)) = ownedBy owner o' (snd (exec o' c xs))"
    and others: "p \<noteq> o' \<Longrightarrow> ownedBy owner p (snd (exec o' c xs)) = ownedBy owner p xs"
begin

lemma noninterference:
  "ofOwner u (fst (runScoped exec cs xs)) = fst (runScoped exec (ofOwner u cs) (ownedBy owner u xs))
   \<and> ownedBy owner u (snd (runScoped exec cs xs)) = snd (runScoped exec (ofOwner u cs) (ownedBy owner u xs))"
proof (induction cs arbitrary: xs)
  case Nil
  then show ?case by (simp add: ofOwner_def)
next
  case (Cons oc cs)
  obtain o' c where oc: "oc = (o', c)" by (cases oc)
  show ?case
  proof (cases "o' = u")
    case True
    then show ?thesis
      using own[of u c xs] Cons.IH[of "snd (exec u c xs)"]
      by (simp add: oc ofOwner_def Let_def case_prod_unfold)
  next
    case False
    then show ?thesis
      using others[of u o' c xs] Cons.IH[of "snd (exec o' c xs)"]
      by (simp add: oc ofOwner_def Let_def case_prod_unfold)
  qed
qed

end

section \<open>Queries that carry the owner\<close>

lemma ownedBy_idem [simp]: "ownedBy owner o' (ownedBy owner o' xs) = ownedBy owner o' xs"
  by (simp add: ownedBy_def)

lemma ownedBy_append [simp]: "ownedBy owner o' (xs @ ys) = ownedBy owner o' xs @ ownedBy owner o' ys"
  by (simp add: ownedBy_def)

lemma filter_owned:
  "(\<And>d. P d \<Longrightarrow> owner d = o') \<Longrightarrow> filter P (ownedBy owner o' xs) = filter P xs"
  by (induction xs) (auto simp: ownedBy_def)

lemma findAll_owned:
  "(\<And>d. P d \<Longrightarrow> owner d = o') \<Longrightarrow> findAll alive P (ownedBy owner o' xs) = findAll alive P xs"
  unfolding findAll_def by (intro filter_owned) auto

lemma countDocuments_owned:
  "(\<And>d. P d \<Longrightarrow> owner d = o') \<Longrightarrow> countDocuments alive P (ownedBy owner o' xs) = countDocuments alive P xs"
  by (simp add: countDocuments_def findAll_owned)

lemma find_owned:
  "(\<And>d. P d \<Longrightarrow> owner d = o') \<Longrightarrow> List.find P (ownedBy owner o' xs) = List.find P xs"
  by (induction xs) (auto simp: ownedBy_def)

lemma findOne_owned:
  "(\<And>d. P d \<Longrightarrow> owner d = o') \<Longrightarrow> findOne alive P (ownedBy owner o' xs) = findOne alive P xs"
  unfolding findOne_def by (intro find_owned) auto

lemma update_first_owned:
  assumes "\<And>d. P d \<Longrightarrow> owner d = o'" and "\<And>d. owner (f d) = owner d"
  shows "fst (update_first P f (ownedBy owner o' xs)) = fst (update_first P f xs)"
    "snd (update_first P f (ownedBy owner o' xs)) = ownedBy owner o' (snd (update_first P f xs))"
  using assms by (induction xs) (auto simp: ownedBy_def)

lemma update_first_others:
  assumes "\<And>d. P d \<Longrightarrow> owner d = o'" and "\<And>d. owner (f d) = owner d" and "p \<noteq> o'"
  shows "ownedBy owner p (snd (update_first P f xs)) = ownedBy owner p xs"
  using assms by (induction xs) (auto simp: ownedBy_def)

lemma updateMany_owned:
  assumes "\<And>d. P d \<Longrightarrow> owner d = o'" and "\<And>d. owner (f d) = owner d"
  shows "updateMany P f (ownedBy owner o' xs) = ownedBy owner o' (updateMany P f xs)"
    "p \<noteq> o' \<Longrightarrow> ownedBy owner p (updateMany P f xs) = ownedBy owner p xs"
  using assms by (induction xs) (auto simp: ownedBy_def updateMany_def)

end
