(* ===== verification/Notifications.thy ===== *)
theory Notifications
  imports Scoping Pagination
begin

text \<open>
  Notifications of a user and the preferences of their channels
  (\<open>src/src/modules/notifications/notifications.service.ts\<close>, \<open>notification-preferences.service.ts\<close> and
  their controllers). The caller's id comes from a verified token; the id in the path is cast by
  \<open>oid\<close>, and \<open>regex\<close> is the server's compilation of a search pattern (\<open>None\<close>: it is not one).
\<close>

section \<open>Documents\<close>

datatype notificationType = N_SHIPMENTS | N_SETTLEMENTS | N_SYSTEM

record notification =
  nt_id :: objectId
  nt_userId :: objectId
  nt_type :: notificationType
  nt_icon :: "string option"
  nt_title :: string
  nt_badge :: "string option"
  nt_badgeColor :: "string option"
  nt_description :: string
  nt_timestamp :: millis
  nt_shipmentId :: "objectId option"
  nt_trackingNumber :: "string option"
  nt_actionLabel :: "string option"
  nt_isRead :: bool
  nt_link :: "string option"
  nt_deletedAt :: "millis option"
  nt_createdAt :: millis
  nt_updatedAt :: millis

definition notificationAlive :: "notification \<Rightarrow> bool" where
  "notificationAlive n \<longleftrightarrow> nt_deletedAt n = None"

section \<open>Services\<close>

record notificationsQuery =
  nq_page :: int
  nq_limit :: int
  nq_type :: "notificationType option"
  nq_q :: "string option"

record notificationsPage =
  np_data :: "notification list"
  np_page :: int
  np_limit :: int
  np_total :: nat

text \<open>The defaults and bounds of the query schema; the search text arrives trimmed.\<close>

definition GetNotificationsQuerySchema ::
  "int option \<Rightarrow> int option \<Rightarrow> notificationType option \<Rightarrow> string option \<Rightarrow> notificationsQuery option" where
  "GetNotificationsQuerySchema page limit ty q =
     (let p = nullish page 1; l = nullish limit 20
      in if 1 \<le> p \<and> 1 \<le> l \<and> l \<le> 100
         then Some \<lparr>nq_page = p, nq_limit = l, nq_type = ty, nq_q = map_option trim q\<rparr> else None)"

definition notificationMatches ::
  "objectId \<Rightarrow> notificationsQuery \<Rightarrow> (string \<Rightarrow> bool) option \<Rightarrow> notification \<Rightarrow> bool" where
  "notificationMatches userId query search n \<longleftrightarrow> nt_userId n = userId
     \<and> (case nq_type query of None \<Rightarrow> True | Some t \<Rightarrow> nt_type n = t)
     \<and> (case search of None \<Rightarrow> True | Some m \<Rightarrow> m (nt_title n) \<or> m (nt_description n))"

definition newestNotifications :: "notification list \<Rightarrow> notification list" where
  "newestNotifications ns = desc_by (created_key nt_timestamp nt_id) ns"

definition getNotificationsService ::
  "(string \<Rightarrow> (string \<Rightarrow> bool) option) \<Rightarrow> objectId \<Rightarrow> notificationsQuery \<Rightarrow> notification list
   \<Rightarrow> notificationsPage result" where
  "getNotificationsService regex userId query ns =
     (case (case keep_truthy (nq_q query) of None \<Rightarrow> Inr None
              | Some q \<Rightarrow> (case regex q of None \<Rightarrow> Inl (PlainError ''Regular expression is invalid'')
                  | Some m \<Rightarrow> Inr (Some m))) of
        Inl e \<Rightarrow> Inl e
      | Inr search \<Rightarrow> Inr \<lparr>np_data = offsetPage (newestNotifications
            (findAll notificationAlive (notificationMatches userId query search) ns)) (nq_page query) (nq_limit query),
          np_page = nq_page query, np_limit = nq_limit query,
          np_total = countDocuments notificationAlive (notificationMatches userId query search) ns\<rparr>)"

definition updateOwn ::
  "(string \<Rightarrow> objectId result) \<Rightarrow> string \<Rightarrow> objectId \<Rightarrow> (notification \<Rightarrow> notification) \<Rightarrow> notification list
   \<Rightarrow> notification result \<times> notification list" where
  "updateOwn oid notificationId userId f ns =
     (case oid notificationId of Inl e \<Rightarrow> (Inl e, ns) | Inr k \<Rightarrow>
      (case findOneAndUpdate notificationAlive (\<lambda>n. nt_id n = k \<and> nt_userId n = userId) f ns of
         (None, ns') \<Rightarrow> (throwApp 404 ''Notification not found'' (ErrorCodes NOT_FOUND), ns')
       | (Some n, ns') \<Rightarrow> (Inr n, ns')))"

definition markNotificationReadService ::
  "(string \<Rightarrow> objectId result) \<Rightarrow> millis \<Rightarrow> string \<Rightarrow> objectId \<Rightarrow> notification list
   \<Rightarrow> notification result \<times> notification list" where
  "markNotificationReadService oid now notificationId userId ns =
     updateOwn oid notificationId userId (\<lambda>n. n\<lparr>nt_isRead := True, nt_updatedAt := now\<rparr>) ns"

text \<open>\<open>updateMany\<close> has no soft-delete hook, so deleted notifications are marked and counted too.\<close>

definition unreadOf :: "objectId \<Rightarrow> notification \<Rightarrow> bool" where
  "unreadOf userId n \<longleftrightarrow> nt_userId n = userId \<and> \<not> nt_isRead n"

definition markAllNotificationsReadService ::
  "millis \<Rightarrow> objectId \<Rightarrow> notification list \<Rightarrow> nat \<times> notification list" where
  "markAllNotificationsReadService now userId ns =
     (length (filter (unreadOf userId) ns),
      updateMany (unreadOf userId) (\<lambda>n. n\<lparr>nt_isRead := True, nt_updatedAt := now\<rparr>) ns)"

definition deleteNotificationService ::
  "(string \<Rightarrow> objectId result) \<Rightarrow> millis \<Rightarrow> string \<Rightarrow> objectId \<Rightarrow> notification list
   \<Rightarrow> notification result \<times> notification list" where
  "deleteNotificationService oid now notificationId userId ns =
     updateOwn oid notificationId userId (\<lambda>n. n\<lparr>nt_deletedAt := Some now, nt_updatedAt := now\<rparr>) ns"

definition getUnreadCountService :: "objectId \<Rightarrow> notification list \<Rightarrow> nat" where
  "getUnreadCountService userId ns = countDocuments notificationAlive (unreadOf userId) ns"

section \<open>Controllers\<close>

datatype notificationRequest =
    GetNotifications notificationsQuery
  | MarkRead millis string
  | MarkAllRead millis
  | DeleteNotification millis string
  | GetUnreadCount

datatype notificationReply =
    NotificationPage notificationsPage | OneNotification notification | NotificationCount nat

definition handleNotification ::
  "(string \<Rightarrow> objectId result) \<Rightarrow> (string \<Rightarrow> (string \<Rightarrow> bool) option) \<Rightarrow> objectId \<Rightarrow> notificationRequest
   \<Rightarrow> notification list \<Rightarrow> notificationReply result \<times> notification list" where
  "handleNotification oid regex userId req ns =
     (case req of
        GetNotifications query \<Rightarrow> (map_sum id NotificationPage (getNotificationsService regex userId query ns), ns)
      | MarkRead now i \<Rightarrow> map_prod (map_sum id OneNotification) id (markNotificationReadService oid now i userId ns)
      | MarkAllRead now \<Rightarrow> map_prod (Inr \<circ> NotificationCount) id (markAllNotificationsReadService now userId ns)
      | DeleteNotification now i \<Rightarrow>
          map_prod (map_sum id OneNotification) id (deleteNotificationService oid now i userId ns)
      | GetUnreadCount \<Rightarrow> (Inr (NotificationCount (getUnreadCountService userId ns)), ns))"

section \<open>Preferences\<close>

datatype notificationEvent =
    Shipment_created | Status_changed | Delivery_confirmed | Payment_received | Dispute_opened | Dispute_resolved

datatype notificationChannel = Email | Sms

record notificationPreference =
  np_id :: objectId
  np_userId :: objectId
  np_event :: notificationEvent
  np_channel :: notificationChannel
  np_enabled :: bool
  np_createdAt :: millis
  np_updatedAt :: millis

definition prefKey :: "notificationPreference \<Rightarrow> objectId \<times> notificationEvent \<times> notificationChannel" where
  "prefKey p = (np_userId p, np_event p, np_channel p)"

definition getNotificationPreferencesService ::
  "objectId \<Rightarrow> notificationPreference list \<Rightarrow> notificationPreference list" where
  "getNotificationPreferencesService userId ps = filter (\<lambda>p. np_userId p = userId) ps"

text \<open>An upsert on the unique key; with \<open>new\<close> and \<open>upsert\<close> there always is a document to return.\<close>

definition updateNotificationPreferenceService ::
  "objectId \<Rightarrow> millis \<Rightarrow> objectId \<Rightarrow> notificationEvent \<Rightarrow> notificationChannel \<Rightarrow> bool
   \<Rightarrow> notificationPreference list \<Rightarrow> notificationPreference \<times> notificationPreference list" where
  "updateNotificationPreferenceService fresh now userId event channel enabled ps =
     (case update_first (\<lambda>p. np_userId p = userId \<and> np_event p = event \<and> np_channel p = channel)
             (\<lambda>p. p\<lparr>np_enabled := enabled, np_updatedAt := now\<rparr>) ps of
        (Some p, ps') \<Rightarrow> (p, ps')
      | (None, ps') \<Rightarrow> (let p = \<lparr>np_id = fresh, np_userId = userId, np_event = event, np_channel = channel,
            np_enabled = enabled, np_createdAt = now, np_updatedAt = now\<rparr> in (p, ps' @ [p])))"

definition DEFAULT_PREFERENCES :: "(notificationEvent \<times> notificationChannel \<times> bool) list" where
  "DEFAULT_PREFERENCES =
     [(Shipment_created, Email, True), (Status_changed, Email, True), (Delivery_confirmed, Email, True),
      (Payment_received, Email, True), (Dispute_opened, Email, True), (Dispute_resolved, Email, True),
      (Status_changed, Sms, False), (Delivery_confirmed, Sms, False)]"

text \<open>
  \<open>insertMany\<close> unordered: a document whose key is taken is refused, the others are stored, and the
  call rejects when any was refused.
\<close>

fun insertPrefs ::
  "notificationPreference list \<Rightarrow> notificationPreference list \<Rightarrow> bool \<times> notificationPreference list" where
  "insertPrefs [] ps = (True, ps)"
| "insertPrefs (d # ds) ps =
     (if prefKey d \<in> prefKey ` set ps then (False, snd (insertPrefs ds ps))
      else insertPrefs ds (ps @ [d]))"

definition seedDefaultPreferencesService ::
  "(nat \<Rightarrow> objectId) \<Rightarrow> millis \<Rightarrow> objectId \<Rightarrow> notificationPreference list
   \<Rightarrow> notificationPreference list result \<times> notificationPreference list" where
  "seedDefaultPreferencesService fresh now userId ps =
     (let docs = map (\<lambda>(k, ev, ch, en). \<lparr>np_id = fresh k, np_userId = userId, np_event = ev, np_channel = ch,
             np_enabled = en, np_createdAt = now, np_updatedAt = now\<rparr>)
             (zip [0..<length DEFAULT_PREFERENCES] DEFAULT_PREFERENCES);
          (ok, ps') = insertPrefs docs ps
      in (if ok then Inr docs else Inl (DuplicateKey (Some ''userId'')), ps'))"

datatype preferenceRequest =
    GetPreferences
  | UpdatePreference objectId millis notificationEvent notificationChannel bool

datatype preferenceReply = PreferenceList "notificationPreference list" | OnePreference notificationPreference

definition handlePreference ::
  "objectId \<Rightarrow> preferenceRequest \<Rightarrow> notificationPreference list
   \<Rightarrow> preferenceReply \<times> notificationPreference list" where
  "handlePreference userId req ps =
     (case req of
        GetPreferences \<Rightarrow> (PreferenceList (getNotificationPreferencesService userId ps), ps)
      | UpdatePreference fresh now event channel enabled \<Rightarrow>
          map_prod OnePreference id (updateNotificationPreferenceService fresh now userId event channel enabled ps))"

section \<open>One user at a time\<close>

lemma updateOwn_owned:
  assumes "\<And>n. nt_userId (f n) = nt_userId n"
  shows "fst (updateOwn oid i u f (ownedBy nt_userId u ns)) = fst (updateOwn oid i u f ns)"
    "snd (updateOwn oid i u f (ownedBy nt_userId u ns)) = ownedBy nt_userId u (snd (updateOwn oid i u f ns))"
    "p \<noteq> u \<Longrightarrow> ownedBy nt_userId p (snd (updateOwn oid i u f ns)) = ownedBy nt_userId p ns"
proof -
  let ?P = "\<lambda>k d. nt_id d = k \<and> nt_userId d = u \<and> notificationAlive d"
  have *: "fst (update_first (?P k) f (ownedBy nt_userId u ns)) = fst (update_first (?P k) f ns)"
    "snd (update_first (?P k) f (ownedBy nt_userId u ns)) = ownedBy nt_userId u (snd (update_first (?P k) f ns))"
    "p \<noteq> u \<Longrightarrow> ownedBy nt_userId p (snd (update_first (?P k) f ns)) = ownedBy nt_userId p ns" for k
    using update_first_owned[of "?P k" nt_userId u f ns] update_first_others[of "?P k" nt_userId u f p ns]
      assms by simp_all
  show "fst (updateOwn oid i u f (ownedBy nt_userId u ns)) = fst (updateOwn oid i u f ns)"
    "snd (updateOwn oid i u f (ownedBy nt_userId u ns)) = ownedBy nt_userId u (snd (updateOwn oid i u f ns))"
    "p \<noteq> u \<Longrightarrow> ownedBy nt_userId p (snd (updateOwn oid i u f ns)) = ownedBy nt_userId p ns"
    by (auto simp: updateOwn_def findOneAndUpdate_def case_prod_unfold * split: sum.split option.split)
qed

lemma getNotifications_owned:
  "getNotificationsService regex u q (ownedBy nt_userId u ns) = getNotificationsService regex u q ns"
proof -
  have "findAll notificationAlive (notificationMatches u q s) (ownedBy nt_userId u ns)
      = findAll notificationAlive (notificationMatches u q s) ns" for s
    by (rule findAll_owned) (simp add: notificationMatches_def)
  then show ?thesis by (simp only: getNotificationsService_def countDocuments_def)
qed

lemma markAll_owned:
  "fst (markAllNotificationsReadService now u (ownedBy nt_userId u ns)) = fst (markAllNotificationsReadService now u ns)"
  "snd (markAllNotificationsReadService now u (ownedBy nt_userId u ns))
     = ownedBy nt_userId u (snd (markAllNotificationsReadService now u ns))"
  "p \<noteq> u \<Longrightarrow> ownedBy nt_userId p (snd (markAllNotificationsReadService now u ns)) = ownedBy nt_userId p ns"
proof -
  have un: "nt_userId n = u" if "unreadOf u n" for n using that by (simp add: unreadOf_def)
  show "fst (markAllNotificationsReadService now u (ownedBy nt_userId u ns)) = fst (markAllNotificationsReadService now u ns)"
    by (simp add: markAllNotificationsReadService_def filter_owned un)
  show "snd (markAllNotificationsReadService now u (ownedBy nt_userId u ns))
     = ownedBy nt_userId u (snd (markAllNotificationsReadService now u ns))"
    unfolding markAllNotificationsReadService_def snd_conv
    by (rule updateMany_owned(1)[where owner = nt_userId]) (auto intro: un)
  show "ownedBy nt_userId p (snd (markAllNotificationsReadService now u ns)) = ownedBy nt_userId p ns" if "p \<noteq> u"
    unfolding markAllNotificationsReadService_def snd_conv
    by (rule updateMany_owned(2)[where owner = nt_userId and o' = u]) (use that in \<open>auto intro: un\<close>)
qed

lemma unread_owned: "getUnreadCountService u (ownedBy nt_userId u ns) = getUnreadCountService u ns"
  unfolding getUnreadCountService_def by (rule countDocuments_owned) (simp add: unreadOf_def)

interpretation notifications: scoped_service nt_userId "handleNotification oid regex" for oid regex
proof unfold_locales
  fix u p c and ns :: "notification list"
  show "fst (handleNotification oid regex u c (ownedBy nt_userId u ns)) = fst (handleNotification oid regex u c ns)
    \<and> snd (handleNotification oid regex u c (ownedBy nt_userId u ns))
      = ownedBy nt_userId u (snd (handleNotification oid regex u c ns))"
    by (cases c) (simp_all add: handleNotification_def getNotifications_owned markNotificationReadService_def
        deleteNotificationService_def updateOwn_owned markAll_owned unread_owned)
  show "ownedBy nt_userId p (snd (handleNotification oid regex u c ns)) = ownedBy nt_userId p ns" if "p \<noteq> u"
    using that by (cases c) (simp_all add: handleNotification_def markNotificationReadService_def
        deleteNotificationService_def updateOwn_owned markAll_owned)
qed

lemma updatePreference_owned:
  "fst (updateNotificationPreferenceService fresh now u ev ch en (ownedBy np_userId u ps))
     = fst (updateNotificationPreferenceService fresh now u ev ch en ps)"
  "snd (updateNotificationPreferenceService fresh now u ev ch en (ownedBy np_userId u ps))
     = ownedBy np_userId u (snd (updateNotificationPreferenceService fresh now u ev ch en ps))"
  "p \<noteq> u \<Longrightarrow> ownedBy np_userId p (snd (updateNotificationPreferenceService fresh now u ev ch en ps))
     = ownedBy np_userId p ps"
proof -
  let ?P = "\<lambda>p. np_userId p = u \<and> np_event p = ev \<and> np_channel p = ch"
    and ?f = "\<lambda>p. p\<lparr>np_enabled := en, np_updatedAt := now\<rparr>"
  have *: "fst (update_first ?P ?f (ownedBy np_userId u ps)) = fst (update_first ?P ?f ps)"
    "snd (update_first ?P ?f (ownedBy np_userId u ps)) = ownedBy np_userId u (snd (update_first ?P ?f ps))"
    "p \<noteq> u \<Longrightarrow> ownedBy np_userId p (snd (update_first ?P ?f ps)) = ownedBy np_userId p ps"
    using update_first_owned[of ?P np_userId u ?f ps] update_first_others[of ?P np_userId u ?f p ps] by simp_all
  show "fst (updateNotificationPreferenceService fresh now u ev ch en (ownedBy np_userId u ps))
     = fst (updateNotificationPreferenceService fresh now u ev ch en ps)"
    "snd (updateNotificationPreferenceService fresh now u ev ch en (ownedBy np_userId u ps))
     = ownedBy np_userId u (snd (updateNotificationPreferenceService fresh now u ev ch en ps))"
    "p \<noteq> u \<Longrightarrow> ownedBy np_userId p (snd (updateNotificationPreferenceService fresh now u ev ch en ps))
     = ownedBy np_userId p ps"
    by (auto simp: updateNotificationPreferenceService_def case_prod_unfold Let_def * split: option.split)
      (simp_all add: ownedBy_def)
qed

interpretation preferences: scoped_service np_userId handlePreference
proof unfold_locales
  fix u p c and ps :: "notificationPreference list"
  show "fst (handlePreference u c (ownedBy np_userId u ps)) = fst (handlePreference u c ps)
    \<and> snd (handlePreference u c (ownedBy np_userId u ps)) = ownedBy np_userId u (snd (handlePreference u c ps))"
    by (cases c) (simp_all add: handlePreference_def updatePreference_owned getNotificationPreferencesService_def
        filter_owned)
  show "ownedBy np_userId p (snd (handlePreference u c ps)) = ownedBy np_userId p ps" if "p \<noteq> u"
    using that by (cases c) (simp_all add: handlePreference_def updatePreference_owned)
qed

section \<open>What the operations do\<close>

text \<open>After marking all there is nothing unread; the number reported includes deleted notifications.\<close>

lemma mark_all_counts:
  "getUnreadCountService u (snd (markAllNotificationsReadService now u ns)) = 0"
  "fst (markAllNotificationsReadService now u ns) = getUnreadCountService u ns
     + length (filter (\<lambda>n. unreadOf u n \<and> \<not> notificationAlive n) ns)"
proof -
  show "getUnreadCountService u (snd (markAllNotificationsReadService now u ns)) = 0"
    by (simp add: getUnreadCountService_def countDocuments_def findAll_def markAllNotificationsReadService_def
        updateMany_def filter_empty_conv unreadOf_def)
  show "fst (markAllNotificationsReadService now u ns) = getUnreadCountService u ns
     + length (filter (\<lambda>n. unreadOf u n \<and> \<not> notificationAlive n) ns)"
    by (induction ns) (auto simp: getUnreadCountService_def countDocuments_def findAll_def
        markAllNotificationsReadService_def)
qed

text \<open>Marking one live unread notification lowers the count by one.\<close>

lemma mark_read_counts:
  assumes "distinct (map nt_id ns)" and "oid i = Inr k"
    and "findOne notificationAlive (\<lambda>n. nt_id n = k \<and> nt_userId n = u) ns = Some n" and "\<not> nt_isRead n"
  shows "Suc (getUnreadCountService u (snd (markNotificationReadService oid now i u ns))) = getUnreadCountService u ns"
proof -
  let ?P = "\<lambda>d. (nt_id d = k \<and> nt_userId d = u) \<and> notificationAlive d"
    and ?f = "\<lambda>n. n\<lparr>nt_isRead := True, nt_updatedAt := now\<rparr>"
  have al: "notificationAlive (?f x) = notificationAlive x" for x by (simp add: notificationAlive_def)
  have "Suc (length (filter (\<lambda>d. unreadOf u d \<and> notificationAlive d) (snd (update_first ?P ?f ns))))
      = length (filter (\<lambda>d. unreadOf u d \<and> notificationAlive d) ns)"
    using assms(3,4) unfolding findOne_def
    by (induction ns) (auto simp: unreadOf_def al split: if_splits)
  moreover have "snd (markNotificationReadService oid now i u ns) = snd (update_first ?P ?f ns)"
    using assms(2) by (simp add: markNotificationReadService_def updateOwn_def findOneAndUpdate_def
        case_prod_unfold split: option.split)
  ultimately show ?thesis by (simp add: getUnreadCountService_def countDocuments_def findAll_def)
qed

text \<open>Preferences stay one per user, event and channel, and an update is read back.\<close>

lemma preferences_unique:
  assumes "distinct (map prefKey ps)"
  shows "distinct (map prefKey (snd (updateNotificationPreferenceService fresh now u ev ch en ps)))"
proof -
  let ?P = "\<lambda>p. np_userId p = u \<and> np_event p = ev \<and> np_channel p = ch"
    and ?f = "\<lambda>p. p\<lparr>np_enabled := en, np_updatedAt := now\<rparr>"
  have k: "map prefKey (snd (update_first ?P ?f ps)) = map prefKey ps"
    by (rule update_first_keys) (simp add: prefKey_def)
  show ?thesis
  proof (cases "fst (update_first ?P ?f ps)")
    case None
    then have "\<not> (\<exists>p\<in>set ps. ?P p)" by (auto simp: update_first_fst find_None_iff)
    then have "(u, ev, ch) \<notin> prefKey ` set ps" by (auto simp: prefKey_def)
    then show ?thesis using assms k None update_first_missed[OF None]
      by (simp add: updateNotificationPreferenceService_def case_prod_unfold Let_def prefKey_def)
  next
    case (Some p)
    then show ?thesis using assms k by (simp add: updateNotificationPreferenceService_def case_prod_unfold)
  qed
qed

lemma seed_unique:
  "distinct (map prefKey ps) \<Longrightarrow> distinct (map prefKey (snd (insertPrefs ds ps)))"
  by (induction ds ps rule: insertPrefs.induct) auto

end
