(* ===== verification/Templates.thy ===== *)
theory Templates
  imports Scoping Complex_Main
begin

text \<open>
  Shipment templates (\<open>src/src/modules/shipment-templates\<close>): reusable presets of an organization,
  with the schemas of the bodies, the services and the controllers' organization check. The caller's
  organization comes from a verified token and is an id as the driver renders it; the id in the path
  is whatever the client sent, and \<open>oid\<close> is the driver's cast of it.
\<close>

section \<open>Documents and bodies\<close>

record templateFields =
  tf_origin :: "string option"
  tf_destination :: "string option"
  tf_itemDescription :: "string option"
  tf_weight :: "rat option"
  tf_recipientName :: "string option"
  tf_recipientContact :: "string option"

record template =
  tp_id :: objectId
  tp_name :: string
  tp_fields :: templateFields
  tp_organizationId :: objectId
  tp_deletedAt :: "millis option"
  tp_createdAt :: millis
  tp_updatedAt :: millis

record createTemplateBody =
  ct_name :: string
  ct_fields :: templateFields

record updateTemplateBody =
  ut_name :: "string option"
  ut_fields :: "templateFields option"

definition templateAlive :: "template \<Rightarrow> bool" where
  "templateAlive t \<longleftrightarrow> tp_deletedAt t = None"

definition nonEmptyIf :: "string option \<Rightarrow> bool" where
  "nonEmptyIf s \<longleftrightarrow> s \<noteq> Some []"

definition TemplateFieldsSchema :: "templateFields \<Rightarrow> bool" where
  "TemplateFieldsSchema f \<longleftrightarrow> nonEmptyIf (tf_origin f) \<and> nonEmptyIf (tf_destination f)
     \<and> nonEmptyIf (tf_itemDescription f) \<and> (case tf_weight f of None \<Rightarrow> True | Some w \<Rightarrow> 0 < w)
     \<and> nonEmptyIf (tf_recipientName f) \<and> nonEmptyIf (tf_recipientContact f)"

definition CreateTemplateBodySchema :: "createTemplateBody \<Rightarrow> bool" where
  "CreateTemplateBodySchema b \<longleftrightarrow> 1 \<le> length (ct_name b) \<and> length (ct_name b) \<le> 200
     \<and> TemplateFieldsSchema (ct_fields b)"

definition UpdateTemplateBodySchema :: "updateTemplateBody \<Rightarrow> bool" where
  "UpdateTemplateBodySchema b \<longleftrightarrow>
     (case ut_name b of None \<Rightarrow> True | Some n \<Rightarrow> 1 \<le> length n \<and> length n \<le> 200)
     \<and> (case ut_fields b of None \<Rightarrow> True | Some f \<Rightarrow> TemplateFieldsSchema f)
     \<and> (ut_name b \<noteq> None \<or> ut_fields b \<noteq> None)"

section \<open>Services\<close>

text \<open>The model trims the name, on creation as on update, and then requires it.\<close>

definition castName :: "string \<Rightarrow> string result" where
  "castName n = (if trim n = [] then Inl (MongooseValidation [''Path `name` is required.'']) else Inr (trim n))"

definition templateNotFound :: exn where
  "templateNotFound = App (AppError 404 ''Shipment template not found'' (ErrorCodes TEMPLATE_NOT_FOUND) None)"

definition createTemplateService ::
  "objectId \<Rightarrow> millis \<Rightarrow> objectId \<Rightarrow> createTemplateBody \<Rightarrow> template list \<Rightarrow> template result \<times> template list" where
  "createTemplateService fresh now organizationId dat ts =
     (case castName (ct_name dat) of
        Inl e \<Rightarrow> (Inl e, ts)
      | Inr n \<Rightarrow> (let t = \<lparr>tp_id = fresh, tp_name = n, tp_fields = ct_fields dat,
                     tp_organizationId = organizationId, tp_deletedAt = None,
                     tp_createdAt = now, tp_updatedAt = now\<rparr>
               in (Inr t, ts @ [t])))"

definition getTemplatesService :: "objectId \<Rightarrow> template list \<Rightarrow> template list" where
  "getTemplatesService organizationId ts =
     sort_key (\<lambda>t. - tp_createdAt t) (findAll templateAlive (\<lambda>t. tp_organizationId t = organizationId) ts)"

definition getTemplateByIdService ::
  "(string \<Rightarrow> objectId result) \<Rightarrow> string \<Rightarrow> objectId \<Rightarrow> template list \<Rightarrow> template result" where
  "getTemplateByIdService oid i organizationId ts =
     (case oid i of Inl e \<Rightarrow> Inl e | Inr k \<Rightarrow>
      (case findOne templateAlive (\<lambda>t. tp_id t = k \<and> tp_organizationId t = organizationId) ts of
         None \<Rightarrow> Inl templateNotFound
       | Some t \<Rightarrow> Inr t))"

definition scopedUpdate ::
  "(string \<Rightarrow> objectId result) \<Rightarrow> string \<Rightarrow> objectId \<Rightarrow> (template \<Rightarrow> template) \<Rightarrow> template list
   \<Rightarrow> template result \<times> template list" where
  "scopedUpdate oid i organizationId f ts =
     (case oid i of Inl e \<Rightarrow> (Inl e, ts) | Inr k \<Rightarrow>
      (case findOneAndUpdate templateAlive (\<lambda>t. tp_id t = k \<and> tp_organizationId t = organizationId) f ts of
         (None, ts') \<Rightarrow> (Inl templateNotFound, ts')
       | (Some t, ts') \<Rightarrow> (Inr t, ts')))"

definition updateTemplateService ::
  "(string \<Rightarrow> objectId result) \<Rightarrow> millis \<Rightarrow> string \<Rightarrow> objectId \<Rightarrow> updateTemplateBody \<Rightarrow> template list
   \<Rightarrow> template result \<times> template list" where
  "updateTemplateService oid now i organizationId dat ts =
     (case (case ut_name dat of None \<Rightarrow> Inr None | Some n \<Rightarrow> map_sum id Some (castName n)) of
        Inl e \<Rightarrow> (Inl e, ts)
      | Inr n \<Rightarrow> scopedUpdate oid i organizationId
          (\<lambda>t. t\<lparr>tp_name := nullish n (tp_name t), tp_fields := nullish (ut_fields dat) (tp_fields t),
                tp_updatedAt := now\<rparr>) ts)"

definition deleteTemplateService ::
  "(string \<Rightarrow> objectId result) \<Rightarrow> millis \<Rightarrow> string \<Rightarrow> objectId \<Rightarrow> template list
   \<Rightarrow> template result \<times> template list" where
  "deleteTemplateService oid now i organizationId ts =
     scopedUpdate oid i organizationId (\<lambda>t. t\<lparr>tp_deletedAt := Some now, tp_updatedAt := now\<rparr>) ts"

section \<open>Controllers\<close>

text \<open>A request with what it needs of the outside: the clock and the id of a new document.\<close>

datatype templateRequest =
    GetTemplates
  | GetTemplateById string
  | CreateTemplate millis objectId createTemplateBody
  | UpdateTemplate millis string updateTemplateBody
  | DeleteTemplate millis string

datatype templateReply = TemplateList "template list" | OneTemplate template

definition handleTemplate ::
  "(string \<Rightarrow> objectId result) \<Rightarrow> objectId option \<Rightarrow> templateRequest \<Rightarrow> template list
   \<Rightarrow> templateReply result \<times> template list" where
  "handleTemplate oid org req ts =
     (case keep_truthy org of
        None \<Rightarrow> (throwApp 403 ''Organization context required'' (ErrorCodes FORBIDDEN), ts)
      | Some organizationId \<Rightarrow>
          (case req of
             GetTemplates \<Rightarrow> (Inr (TemplateList (getTemplatesService organizationId ts)), ts)
           | GetTemplateById i \<Rightarrow> (map_sum id OneTemplate (getTemplateByIdService oid i organizationId ts), ts)
           | CreateTemplate now fresh body \<Rightarrow>
               map_prod (map_sum id OneTemplate) id (createTemplateService fresh now organizationId body ts)
           | UpdateTemplate now i body \<Rightarrow>
               map_prod (map_sum id OneTemplate) id (updateTemplateService oid now i organizationId body ts)
           | DeleteTemplate now i \<Rightarrow>
               map_prod (map_sum id OneTemplate) id (deleteTemplateService oid now i organizationId ts)))"

section \<open>One organization at a time\<close>

lemma scopedUpdate_owned:
  assumes "\<And>t. tp_organizationId (f t) = tp_organizationId t"
  shows "fst (scopedUpdate oid i o' f (ownedBy tp_organizationId o' ts)) = fst (scopedUpdate oid i o' f ts)"
    "snd (scopedUpdate oid i o' f (ownedBy tp_organizationId o' ts))
       = ownedBy tp_organizationId o' (snd (scopedUpdate oid i o' f ts))"
    "p \<noteq> o' \<Longrightarrow> ownedBy tp_organizationId p (snd (scopedUpdate oid i o' f ts)) = ownedBy tp_organizationId p ts"
proof -
  let ?P = "\<lambda>k d. tp_id d = k \<and> tp_organizationId d = o' \<and> templateAlive d"
  have *: "fst (update_first (?P k) f (ownedBy tp_organizationId o' ts)) = fst (update_first (?P k) f ts)"
    "snd (update_first (?P k) f (ownedBy tp_organizationId o' ts)) = ownedBy tp_organizationId o' (snd (update_first (?P k) f ts))"
    "p \<noteq> o' \<Longrightarrow> ownedBy tp_organizationId p (snd (update_first (?P k) f ts)) = ownedBy tp_organizationId p ts" for k
    using update_first_owned[of "?P k" tp_organizationId o' f ts] update_first_others[of "?P k" tp_organizationId o' f p ts]
      assms by simp_all
  show "fst (scopedUpdate oid i o' f (ownedBy tp_organizationId o' ts)) = fst (scopedUpdate oid i o' f ts)"
    "snd (scopedUpdate oid i o' f (ownedBy tp_organizationId o' ts))
       = ownedBy tp_organizationId o' (snd (scopedUpdate oid i o' f ts))"
    "p \<noteq> o' \<Longrightarrow> ownedBy tp_organizationId p (snd (scopedUpdate oid i o' f ts)) = ownedBy tp_organizationId p ts"
    by (auto simp: scopedUpdate_def findOneAndUpdate_def case_prod_unfold * split: sum.split option.split)
qed

lemma createTemplate_owned:
  "fst (createTemplateService fresh now o' b (ownedBy tp_organizationId o' ts)) = fst (createTemplateService fresh now o' b ts)"
  "snd (createTemplateService fresh now o' b (ownedBy tp_organizationId o' ts))
     = ownedBy tp_organizationId o' (snd (createTemplateService fresh now o' b ts))"
  "p \<noteq> o' \<Longrightarrow> ownedBy tp_organizationId p (snd (createTemplateService fresh now o' b ts)) = ownedBy tp_organizationId p ts"
  by (auto simp: createTemplateService_def Let_def ownedBy_def split: sum.split)

lemma updateTemplate_owned:
  "fst (updateTemplateService oid now i o' b (ownedBy tp_organizationId o' ts)) = fst (updateTemplateService oid now i o' b ts)"
  "snd (updateTemplateService oid now i o' b (ownedBy tp_organizationId o' ts))
     = ownedBy tp_organizationId o' (snd (updateTemplateService oid now i o' b ts))"
  "p \<noteq> o' \<Longrightarrow> ownedBy tp_organizationId p (snd (updateTemplateService oid now i o' b ts)) = ownedBy tp_organizationId p ts"
  by (auto simp: updateTemplateService_def scopedUpdate_owned split: sum.split)

lemma getTemplate_owned:
  "getTemplateByIdService oid i o' (ownedBy tp_organizationId o' ts) = getTemplateByIdService oid i o' ts"
proof -
  have "findOne templateAlive (\<lambda>t. tp_id t = k \<and> tp_organizationId t = o') (ownedBy tp_organizationId o' ts)
      = findOne templateAlive (\<lambda>t. tp_id t = k \<and> tp_organizationId t = o') ts" for k
    by (rule findOne_owned) simp
  then show ?thesis by (simp add: getTemplateByIdService_def split: sum.split)
qed

interpretation templates: scoped_service tp_organizationId "\<lambda>o'. handleTemplate oid (Some o')" for oid
proof unfold_locales
  fix o' p c and ts :: "template list"
  show "fst (handleTemplate oid (Some o') c (ownedBy tp_organizationId o' ts)) = fst (handleTemplate oid (Some o') c ts)
    \<and> snd (handleTemplate oid (Some o') c (ownedBy tp_organizationId o' ts))
      = ownedBy tp_organizationId o' (snd (handleTemplate oid (Some o') c ts))"
    by (cases c) (simp_all add: handleTemplate_def getTemplatesService_def getTemplate_owned
        findAll_owned createTemplate_owned updateTemplate_owned deleteTemplateService_def
        scopedUpdate_owned)
  show "ownedBy tp_organizationId p (snd (handleTemplate oid (Some o') c ts)) = ownedBy tp_organizationId p ts"
    if "p \<noteq> o'"
    using that by (cases c) (simp_all add: handleTemplate_def createTemplate_owned updateTemplate_owned
        deleteTemplateService_def scopedUpdate_owned)
qed

section \<open>A template's life\<close>

text \<open>What was created is read back; an update of the fields replaces them all, those it does not
  name included; what was deleted is not found again.\<close>

lemma created_template_reads_back:
  assumes "fst (createTemplateService fresh now o' b ts) = Inr t" and "fresh \<notin> tp_id ` set ts"
    and "oid i = Inr fresh"
  shows "getTemplateByIdService oid i o' (snd (createTemplateService fresh now o' b ts)) = Inr t"
proof -
  have "List.find (\<lambda>x. (tp_id x = fresh \<and> tp_organizationId x = o') \<and> templateAlive x) ts = None"
    using assms(2) by (auto simp: find_None_iff)
  then show ?thesis using assms(1,3)
    by (auto simp: createTemplateService_def getTemplateByIdService_def Let_def findOne_def find_append
        templateAlive_def split: sum.splits)
qed

lemma updated_fields_replaced:
  assumes "fst (updateTemplateService oid now i o' b ts) = Inr t" and "ut_fields b = Some f"
  shows "tp_fields t = f"
  using assms by (auto simp: updateTemplateService_def scopedUpdate_def findOneAndUpdate_def case_prod_unfold
      update_first_fst split: sum.splits option.splits)

lemma deleted_template_gone:
  assumes "distinct (map tp_id ts)"
  shows "\<nexists>t. getTemplateByIdService oid i o' (snd (deleteTemplateService oid now i o' ts)) = Inr t"
proof (cases "oid i")
  case (Inr k)
  let ?P = "\<lambda>t. (tp_id t = k \<and> tp_organizationId t = o') \<and> templateAlive t"
  let ?f = "\<lambda>t. t\<lparr>tp_deletedAt := Some now, tp_updatedAt := now\<rparr>"
  have "List.find ?P (snd (update_first ?P ?f ts)) = None"
    using assms
  proof (induction ts)
    case (Cons x xs)
    then show ?case by (auto simp: templateAlive_def find_None_iff image_iff)
  qed simp
  then show ?thesis using Inr
    by (simp add: deleteTemplateService_def getTemplateByIdService_def scopedUpdate_def findOneAndUpdate_def
        findOne_def case_prod_unfold split: option.split)
qed (simp add: getTemplateByIdService_def)

end
