(* ===== verification/Anomaly_Stats.thy ===== *)
theory Anomaly_Stats
  imports Analytics "HOL-Library.AList"
begin

text \<open>
  The anomaly statistics of the dashboard (\<open>getAnomalyStatsService\<close> of
  \<open>src/src/modules/anomaly/anomaly.service.ts\<close>) with their cache, and the maintenance worker that
  deletes resolved anomalies (\<open>src/src/workers/maintenance.worker.ts\<close>).
\<close>

section \<open>The statistics\<close>

record anomalyStats =
  st_totalActive :: nat
  st_bySeverity :: "(string \<times> nat) list"
  st_byType :: "(string \<times> nat) list"
  st_resolutionRate :: rat

text \<open>A stored anomaly, for the match stage: there is no organization field.\<close>

definition anomalyBson :: "anomalyDoc \<Rightarrow> bdoc" where
  "anomalyBson a =
     [(''_id'', B_str (am_id a)), (''shipmentId'', B_str (am_shipmentId a)),
      (''type'', B_str (anomaly_type_str (am_type a))), (''severity'', B_str (severity_str (am_severity a))),
      (''message'', B_str (am_message a)), (''timestamp'', B_date (am_timestamp a)),
      (''resolved'', B_bool (am_resolved a)),
      (''deletedAt'', case am_deletedAt a of None \<Rightarrow> B_null | Some t \<Rightarrow> B_date t)]"

definition statsMatch :: "string option \<Rightarrow> anomalyDoc \<Rightarrow> bool" where
  "statsMatch organizationId a \<longleftrightarrow> fieldOf (anomalyBson a) ''deletedAt'' \<in> {B_null, B_missing}
     \<and> (truthy organizationId \<longrightarrow> fieldOf (anomalyBson a) ''organizationId'' = B_str (the organizationId))"

definition countBy :: "(anomalyDoc \<Rightarrow> string) \<Rightarrow> anomalyDoc list \<Rightarrow> (string \<times> nat) list" where
  "countBy key as = map (\<lambda>(k, xs). (k, length xs)) (groupRows key as)"

definition severityName :: "anomalyDoc \<Rightarrow> string" where
  "severityName a = severity_str (am_severity a)"

definition typeName :: "anomalyDoc \<Rightarrow> string" where
  "typeName a = anomaly_type_str (am_type a)"

text \<open>\<open>for (const entry of rows) record[entry._id] = entry.count\<close>\<close>

definition assignRows :: "(string \<times> nat) list \<Rightarrow> (string \<times> nat) list \<Rightarrow> (string \<times> nat) list" where
  "assignRows rows obj = foldl (\<lambda>o' (k, n). AList.update k n o') obj rows"

definition freshStats :: "string option \<Rightarrow> anomalyDoc list \<Rightarrow> anomalyStats" where
  "freshStats organizationId as =
     (let docs = filter (statsMatch organizationId) as;
          active = filter (\<lambda>a. \<not> am_resolved a) docs;
          totalAll = length docs;
          resolvedCount = length (filter am_resolved docs)
      in \<lparr>st_totalActive = length active,
          st_bySeverity = assignRows (countBy severityName active)
             [(''CRITICAL'', 0), (''HIGH'', 0), (''MEDIUM'', 0), (''LOW'', 0)],
          st_byType = assignRows (countBy typeName active) [],
          st_resolutionRate = (if totalAll > 0
             then jsRound (of_nat resolvedCount / of_nat totalAll * 100) / 100 else 0)\<rparr>)"

definition STATS_CACHE_TTL :: int where
  "STATS_CACHE_TTL = 300"

definition statsCacheKey :: "string option \<Rightarrow> string" where
  "statsCacheKey organizationId = ''anomaly:stats:'' @ nullish organizationId ''global''"

text \<open>
  A failed read is ignored, and the result is written back whenever there is a client. \<open>dbUp\<close> tells
  whether the aggregation answers.
\<close>

definition getAnomalyStatsService ::
  "(anomalyStats \<Rightarrow> string) \<Rightarrow> (string \<Rightarrow> anomalyStats option) \<Rightarrow> conn \<Rightarrow> conn \<Rightarrow> bool
   \<Rightarrow> string option \<Rightarrow> anomalyDoc list \<Rightarrow> redis \<Rightarrow> anomalyStats result \<times> redis" where
  "getAnomalyStatsService enc dec cnR cnW dbUp organizationId as r =
     (let key = statsCacheKey organizationId;
          (cached, r') = (if cn_client cnR \<and> cn_cmd cnR then redis_get (cn_now cnR) key r else (None, r))
      in case Option.bind (keep_truthy cached) dec of
           Some stats \<Rightarrow> (Inr stats, r')
         | None \<Rightarrow>
             (if \<not> dbUp then (Inl (PlainError ''aggregation failed''), r')
              else let stats = freshStats organizationId as
                   in (Inr stats, if cn_client cnR \<and> cn_cmd cnW
                         then redis_set (cn_now cnW) key (enc stats) (Some (STATS_CACHE_TTL * 1000)) r' else r')))"

section \<open>Maintenance\<close>

definition RETENTION_DAYS :: int where
  "RETENTION_DAYS = 90"

text \<open>
  \<open>updatedAt\<close> is the \<open>timestamps\<close> field of a document, which nothing else reads; days are those of
  UTC. \<open>deleteMany\<close> removes documents for good and has no soft-delete hook.
\<close>

definition cleanupResolvedAnomalies ::
  "millis \<Rightarrow> (anomalyDoc \<Rightarrow> millis) \<Rightarrow> int \<Rightarrow> anomalyDoc list \<Rightarrow> anomalyDoc list" where
  "cleanupResolvedAnomalies now updatedAt retentionDays as =
     (let cutoffDate = now - retentionDays * MS_PER_DAY
      in filter (\<lambda>a. \<not> (am_resolved a \<and> updatedAt a < cutoffDate)) as)"

record maintenanceJob =
  mj_jobType :: string
  mj_retentionDays :: "int option"

definition processMaintenance ::
  "millis \<Rightarrow> (anomalyDoc \<Rightarrow> millis) \<Rightarrow> bool \<Rightarrow> maintenanceJob \<Rightarrow> anomalyDoc list
   \<Rightarrow> unit result \<times> anomalyDoc list" where
  "processMaintenance now updatedAt dbUp job as =
     (if mj_jobType job = ''cleanup_resolved_anomalies''
      then (if dbUp then (Inr (), cleanupResolvedAnomalies now updatedAt (nullish (mj_retentionDays job) RETENTION_DAYS) as)
            else (Inl (PlainError ''deleteMany failed''), as))
      else (Inl (PlainError (''Unknown maintenance job type: '' @ mj_jobType job)), as))"

section \<open>What is counted\<close>

lemma statsMatch_global: "\<not> truthy org \<Longrightarrow> statsMatch org a \<longleftrightarrow> anomalyAlive a"
  by (auto simp: statsMatch_def anomalyBson_def fieldOf_def anomalyAlive_def split: option.splits)

lemma statsMatch_org: "truthy org \<Longrightarrow> \<not> statsMatch org a"
  by (simp add: statsMatch_def anomalyBson_def fieldOf_def)

lemma assignRows_lookup:
  "distinct (map fst rows) \<Longrightarrow> map_of (assignRows rows obj) k =
     (case map_of rows k of Some n \<Rightarrow> Some n | None \<Rightarrow> map_of obj k)"
proof (induction rows arbitrary: obj)
  case (Cons r rows)
  obtain j n where r: "r = (j, n)" by (cases r)
  have "map_of (assignRows (r # rows) obj) k = map_of (assignRows rows (AList.update j n obj)) k"
    by (simp add: assignRows_def r)
  also have "\<dots> = (case map_of rows k of Some n \<Rightarrow> Some n | None \<Rightarrow> map_of (AList.update j n obj) k)"
    using Cons by (simp add: r)
  finally show ?case using Cons.prems
    by (auto simp: r AList.update_conv' split: option.split dest: map_of_SomeD intro: rev_image_eqI)
qed (simp add: assignRows_def)

lemma countBy_lookup:
  "map_of (countBy key as) k = (if k \<in> key ` set as then Some (length (filter (\<lambda>a. key a = k) as)) else None)"
proof -
  have "countBy key as = map (\<lambda>(k, xs). (k, length xs)) (groupRows key as)" by (simp add: countBy_def)
  then have "map_of (countBy key as) k = map_option length (map_of (groupRows key as) k)"
    by (simp only: map_of_map) (simp add: comp_def)
  then show ?thesis by (simp only: map_of_groupRows) (simp only: option.map if_distrib[of "map_option length"])
qed

lemma countBy_distinct: "distinct (map fst (countBy key as))"
  by (simp add: countBy_def comp_def case_prod_unfold flip: comp_def[of _ fst])

lemma countBy_total: "sum_list (map snd (countBy key as)) = length as"
proof -
  have "map snd (countBy key as) = map (\<lambda>(k, ys). length ys) (groupRows key as)"
    by (simp add: countBy_def case_prod_unfold comp_def)
  then show ?thesis by (simp add: groupRows_length)
qed

definition openAnomalies :: "anomalyDoc list \<Rightarrow> anomalyDoc list" where
  "openAnomalies as = filter (\<lambda>a. anomalyAlive a \<and> \<not> am_resolved a) as"

text \<open>
  Without an organization the statistics count the live anomalies: the open ones by severity (each
  of the four keys is there) and by type, and the share of those resolved, in hundredths.
\<close>

lemma global_stats:
  assumes "\<not> truthy org"
  shows "st_totalActive (freshStats org as) = length (openAnomalies as)"
    and "map_of (st_bySeverity (freshStats org as)) (severity_str s)
      = Some (length (filter (\<lambda>a. am_severity a = s) (openAnomalies as)))"
    and "nullish (map_of (st_byType (freshStats org as)) (anomaly_type_str ty)) 0
      = length (filter (\<lambda>a. am_type a = ty) (openAnomalies as))"
    and "0 \<le> st_resolutionRate (freshStats org as) \<and> st_resolutionRate (freshStats org as) \<le> 1"
proof -
  have d: "filter (statsMatch org) as = filter anomalyAlive as"
    by (rule filter_cong) (simp_all add: statsMatch_global[OF assms])
  have act: "filter (\<lambda>a. \<not> am_resolved a) (filter (statsMatch org) as) = openAnomalies as"
    unfolding d openAnomalies_def filter_filter by (rule filter_cong) auto
  show "st_totalActive (freshStats org as) = length (openAnomalies as)"
    unfolding freshStats_def Let_def act by simp
  have sev: "severity_str a = severity_str b \<longleftrightarrow> a = b" for a b by (cases a; cases b) simp_all
  have sevs: "severity_str s \<in> {''HIGH'', ''MEDIUM'', ''LOW''}" by (cases s) simp_all
  have lk: "map_of (st_bySeverity (freshStats org as)) (severity_str s)
      = (case map_of (countBy severityName (openAnomalies as)) (severity_str s) of Some n \<Rightarrow> Some n
         | None \<Rightarrow> map_of [(''CRITICAL'', 0), (''HIGH'', 0), (''MEDIUM'', 0), (''LOW'', 0)] (severity_str s))"
    unfolding freshStats_def Let_def act by (simp only: anomalyStats.simps assignRows_lookup[OF countBy_distinct])
  show "map_of (st_bySeverity (freshStats org as)) (severity_str s)
      = Some (length (filter (\<lambda>a. am_severity a = s) (openAnomalies as)))"
    using sevs unfolding lk countBy_lookup
    by (auto simp: severityName_def sev image_iff filter_empty_conv intro!: filter_False split: if_splits)
  have ty: "anomaly_type_str a = anomaly_type_str b \<longleftrightarrow> a = b" for a b by (cases a; cases b) simp_all
  have lt: "map_of (st_byType (freshStats org as)) (anomaly_type_str ty)
      = map_of (countBy typeName (openAnomalies as)) (anomaly_type_str ty)"
    unfolding freshStats_def Let_def act
    by (simp add: assignRows_lookup[OF countBy_distinct] split: option.split)
  show "nullish (map_of (st_byType (freshStats org as)) (anomaly_type_str ty)) 0
      = length (filter (\<lambda>a. am_type a = ty) (openAnomalies as))"
    unfolding lt countBy_lookup by (auto simp: typeName_def ty image_iff filter_empty_conv)
  let ?n = "length (filter am_resolved (filter (statsMatch org) as))" and ?m = "length (filter (statsMatch org) as)"
  have "?n \<le> ?m" by (rule length_filter_le)
  then have b: "0 \<le> (of_nat ?n / of_nat ?m * 100 :: rat)" "0 < ?m \<Longrightarrow> of_nat ?n / of_nat ?m * 100 \<le> (100 :: rat)"
    by (simp_all add: field_simps)
  have "0 \<le> jsRound x / 100 \<and> jsRound x / 100 \<le> 1" if "0 \<le> x" "x \<le> 100" for x :: rat
  proof -
    have "0 \<le> \<lfloor>x + 1 / 2\<rfloor>" using that by simp
    moreover have "\<lfloor>x + 1 / 2\<rfloor> < 101" using that by (subst floor_less_iff) simp
    ultimately show ?thesis by (simp add: jsRound_def)
  qed
  then show "0 \<le> st_resolutionRate (freshStats org as) \<and> st_resolutionRate (freshStats org as) \<le> 1"
    using b by (simp add: freshStats_def Let_def)
qed

text \<open>With one they count nothing, because anomalies carry no organization.\<close>

lemma organization_stats_empty:
  assumes "truthy org"
  shows "freshStats org as = \<lparr>st_totalActive = 0,
    st_bySeverity = [(''CRITICAL'', 0), (''HIGH'', 0), (''MEDIUM'', 0), (''LOW'', 0)],
    st_byType = [], st_resolutionRate = 0\<rparr>"
  using statsMatch_org[OF assms] by (simp add: freshStats_def Let_def countBy_def groupRows_def assignRows_def)

text \<open>Cleaning removes resolved anomalies only, and only old ones; cleaning again removes no more.\<close>

lemma cleanup_spec:
  "a \<in> set (cleanupResolvedAnomalies now updatedAt n as) \<longleftrightarrow>
     a \<in> set as \<and> (am_resolved a \<longrightarrow> now - n * MS_PER_DAY \<le> updatedAt a)"
  by (auto simp: cleanupResolvedAnomalies_def)

lemma cleanup_idem:
  "cleanupResolvedAnomalies now updatedAt n (cleanupResolvedAnomalies now updatedAt n as)
     = cleanupResolvedAnomalies now updatedAt n as"
  by (simp add: cleanupResolvedAnomalies_def Let_def)

lemma cleanup_keeps_open:
  "openAnomalies (cleanupResolvedAnomalies now updatedAt n as) = openAnomalies as"
  unfolding openAnomalies_def cleanupResolvedAnomalies_def Let_def filter_filter by (rule filter_cong) auto

end
