(* ===== verification/Request_Schemas.thy ===== *)
theory Request_Schemas
  imports Zod Shipment_Lists
begin

text \<open>
  The schemas of \<open>src/src/modules/shipments/shipments.validation.ts\<close>, with what they accept.
\<close>

section \<open>Text filters\<close>

fun splitOn :: "char \<Rightarrow> string \<Rightarrow> string list" where
  "splitOn c [] = [[]]"
| "splitOn c (x # xs) = (if x = c then [] # splitOn c xs
     else (case splitOn c xs of [] \<Rightarrow> [[x]] | w # ws \<Rightarrow> (x # w) # ws))"

definition to_upper :: "char \<Rightarrow> char" where
  "to_upper c = (let n = of_char c :: nat in if 97 \<le> n \<and> n \<le> 122 then char_of (n - 32) else c)"

definition commaList :: "(string \<Rightarrow> string) \<Rightarrow> string option \<Rightarrow> string list option" where
  "commaList f value = (case value of
     None \<Rightarrow> None
   | Some s \<Rightarrow> if trim s = [] then None
       else Some (filter (\<lambda>x. x \<noteq> []) (map (\<lambda>x. f (trim x)) (splitOn (CHR '','') s))))"

text \<open>\<open>.pipe(z.array(...).min(1).optional())\<close>\<close>

definition pipeList :: "'a schema \<Rightarrow> string list option \<Rightarrow> 'a list option option" where
  "pipeList p ss = (case ss of
     None \<Rightarrow> Some None
   | Some xs \<Rightarrow> if xs = [] then None else map_option Some (those (map (\<lambda>x. p (JStr x)) xs)))"

definition allStatuses :: "shipmentStatus list" where
  "allStatuses = [CREATED, PICKUP_CONFIRMED, IN_TRANSIT, CUSTOMS_CLEARED, OUT_FOR_DELIVERY, DELIVERED,
     SETTLEMENT_INITIATED, SETTLEMENT_COMPLETED, CANCELLED]"

definition statusEnum :: "shipmentStatus schema" where
  "statusEnum = zEnum status_str allStatuses"

definition statusFilterSchema :: "shipmentStatus list option schema" where
  "statusFilterSchema v = (case zOptional zString v of
     None \<Rightarrow> None | Some value \<Rightarrow> pipeList statusEnum (commaList id value))"

definition priorityFilterSchema :: "priority list option schema" where
  "priorityFilterSchema v = (case zOptional zString v of
     None \<Rightarrow> None
   | Some value \<Rightarrow> pipeList (zEnum priority_str [URGENT, STANDARD, ECONOMY]) (commaList (map to_upper) value))"

definition optionalNonEmptyString :: "string option schema" where
  "optionalNonEmptyString v = map_option (\<lambda>value. case value of
       None \<Rightarrow> None | Some s \<Rightarrow> if trim s = [] then None else Some (trim s)) (zOptional zString v)"

section \<open>Query schemas\<close>

record shipmentsQuery =
  gq_status :: "shipmentStatus list option"
  gq_priority :: "priority list option"
  gq_page :: jsNumber
  gq_limit :: rat
  gq_origin :: "string option"
  gq_destination :: "string option"
  gq_trackingNumber :: "string option"
  gq_q :: "string option"
  gq_from :: "millis option"
  gq_to :: "millis option"
  gq_sortBy :: "shipmentSort option"
  gq_ascending :: bool

primrec sort_str :: "shipmentSort \<Rightarrow> string" where
  "sort_str ByCreatedAt = ''createdAt''"
| "sort_str ByPriority = ''priority''"
| "sort_str ByExpectedDelivery = ''expectedDelivery''"

definition order_str :: "bool \<Rightarrow> string" where
  "order_str ascending = (if ascending then ''asc'' else ''desc'')"

definition queryKeys :: "string list" where
  "queryKeys = [''status'', ''priority'', ''page'', ''limit'', ''origin'', ''destination'',
     ''trackingNumber'', ''q'', ''from'', ''to'', ''sortBy'', ''sortOrder'']"

definition inverted :: "millis option \<Rightarrow> millis option \<Rightarrow> bool" where
  "inverted a b \<longleftrightarrow> (case (a, b) of (Some x, Some y) \<Rightarrow> y < x | _ \<Rightarrow> False)"

definition getShipmentsQuerySchema :: "conversions \<Rightarrow> shipmentsQuery schema" where
  "getShipmentsQuerySchema cv = zStrict queryKeys (zObject (\<lambda>field.
     Option.bind (statusFilterSchema (field ''status'')) (\<lambda>status.
     Option.bind (priorityFilterSchema (field ''priority'')) (\<lambda>priority.
     Option.bind (zDefault (Finite 1) (zAtLeast 1 (cv_number cv)) (field ''page'')) (\<lambda>page.
     Option.bind (zDefault 20 (zBetween 1 100 (cv_number cv)) (field ''limit'')) (\<lambda>limit.
     Option.bind (optionalNonEmptyString (field ''origin'')) (\<lambda>origin.
     Option.bind (optionalNonEmptyString (field ''destination'')) (\<lambda>destination.
     Option.bind (optionalNonEmptyString (field ''trackingNumber'')) (\<lambda>trackingNumber.
     Option.bind (optionalNonEmptyString (field ''q'')) (\<lambda>q.
     Option.bind (zOptional (cv_date cv) (field ''from'')) (\<lambda>a.
     Option.bind (zOptional (cv_date cv) (field ''to'')) (\<lambda>b.
     Option.bind (zOptional (zEnum sort_str [ByCreatedAt, ByPriority, ByExpectedDelivery]) (field ''sortBy'')) (\<lambda>sortBy.
     Option.bind (zDefault False (zEnum order_str [True, False]) (field ''sortOrder'')) (\<lambda>ascending.
       if inverted a b then None
       else Some \<lparr>gq_status = status, gq_priority = priority, gq_page = page, gq_limit = limit,
              gq_origin = origin, gq_destination = destination, gq_trackingNumber = trackingNumber,
              gq_q = q, gq_from = a, gq_to = b, gq_sortBy = sortBy, gq_ascending = ascending\<rparr>))))))))))))))"

definition ShipmentTimelineQuerySchema :: "conversions \<Rightarrow> (string option \<times> nat) schema" where
  "ShipmentTimelineQuerySchema cv = zObject (\<lambda>field.
     Option.bind (zOptional zString (field ''cursor'')) (\<lambda>cursor.
     Option.bind (zDefault 20 (zBetween 1 100 (cv_number cv)) (field ''limit'')) (\<lambda>limit.
       map_option (\<lambda>n. (map_option trim cursor, nat n)) (whole (Finite limit)))))"

datatype exportFormat = AsCsv | AsJson

record exportShipmentsQuery =
  eq_format :: exportFormat
  eq_status :: "string option"
  eq_origin :: "string option"
  eq_destination :: "string option"
  eq_startDate :: "millis option"
  eq_endDate :: "millis option"

primrec format_str :: "exportFormat \<Rightarrow> string" where
  "format_str AsCsv = ''csv''"
| "format_str AsJson = ''json''"

definition offsetDateTime :: "conversions \<Rightarrow> millis schema" where
  "offsetDateTime cv v = Option.bind (zString v) (cv_dateTime cv)"

definition ExportShipmentsQuerySchema :: "conversions \<Rightarrow> exportShipmentsQuery schema" where
  "ExportShipmentsQuerySchema cv = zObject (\<lambda>field.
     Option.bind (zDefault AsJson (zEnum format_str [AsCsv, AsJson]) (field ''format'')) (\<lambda>format.
     Option.bind (zOptional zString (field ''status'')) (\<lambda>status.
     Option.bind (zOptional zString (field ''origin'')) (\<lambda>origin.
     Option.bind (zOptional zString (field ''destination'')) (\<lambda>destination.
     Option.bind (zOptional (offsetDateTime cv) (field ''startDate'')) (\<lambda>startDate.
     Option.bind (zOptional (offsetDateTime cv) (field ''endDate'')) (\<lambda>endDate.
       Some \<lparr>eq_format = format, eq_status = status, eq_origin = origin, eq_destination = destination,
         eq_startDate = startDate, eq_endDate = endDate\<rparr>)))))))"

section \<open>Body schemas\<close>

definition BulkStatusUpdateBodySchema :: "(string list \<times> shipmentStatus) schema" where
  "BulkStatusUpdateBodySchema = zObject (\<lambda>field.
     Option.bind (zArray (zMin 1 zString) (field ''shipmentIds'')) (\<lambda>ids.
     Option.bind (statusEnum (field ''status'')) (\<lambda>status.
       if 1 \<le> length ids \<and> length ids \<le> 50 then Some (ids, status) else None)))"

definition CreateShipmentBodySchema :: "(string option \<Rightarrow> createInput) schema" where
  "CreateShipmentBodySchema = zObject (\<lambda>field.
     Option.bind (zOptional zString (field ''trackingNumber'')) (\<lambda>trackingNumber.
     Option.bind (zMin 1 zString (field ''origin'')) (\<lambda>origin.
     Option.bind (zMin 1 zString (field ''destination'')) (\<lambda>destination.
     Option.bind (zMin 1 zString (field ''enterpriseId'')) (\<lambda>enterpriseId.
     Option.bind (zMin 1 zString (field ''logisticsId'')) (\<lambda>logisticsId.
     Option.bind (zOptional zRecord (field ''offChainMetadata'')) (\<lambda>offChainMetadata.
       Some (\<lambda>actorUserId. \<lparr>cr_trackingNumber = trackingNumber, cr_origin = origin,
         cr_destination = destination, cr_enterpriseId = enterpriseId, cr_logisticsId = logisticsId,
         cr_offChainMetadata = offChainMetadata, cr_actorUserId = actorUserId\<rparr>))))))))"

definition ShipmentPatchBodySchema :: "jval option schema" where
  "ShipmentPatchBodySchema = zObject (\<lambda>field. zOptional zRecord (field ''offChainMetadata''))"

definition ShipmentStatusBodySchema :: "(shipmentStatus \<times> jval option) schema" where
  "ShipmentStatusBodySchema = zObject (\<lambda>field.
     Option.bind (statusEnum (field ''status'')) (\<lambda>status.
     Option.bind (zOptional zRecord (field ''milestoneData'')) (\<lambda>milestoneData.
       Some (status, milestoneData))))"

definition ShipmentProofBodySchema :: "(string option \<times> string option) schema" where
  "ShipmentProofBodySchema = zObject (\<lambda>field.
     Option.bind (zOptional zString (field ''recipientSignatureName'')) (\<lambda>recipient.
     Option.bind (zOptional zString (field ''notes'')) (\<lambda>notes. Some (recipient, notes))))"

definition CreateDisputeBodySchema :: "(disputeType \<times> string) schema" where
  "CreateDisputeBodySchema = zObject (\<lambda>field.
     Option.bind (zEnum dispute_type_str [WRONG_GOODS, DAMAGED, NOT_DELIVERED, PAYMENT_DISAGREEMENT, OTHER_DISPUTE]
        (field ''type'')) (\<lambda>type.
     Option.bind (zMin 1 zString (field ''description'')) (\<lambda>description. Some (type, description))))"

definition UploadDocumentBodySchema :: "documentType schema" where
  "UploadDocumentBodySchema = zObject (\<lambda>field.
     zEnum document_type_str [BILL_OF_LADING, CUSTOMS_DECLARATION, INSURANCE_CERTIFICATE, PACKING_LIST, INVOICE,
       OTHER_DOCUMENT] (field ''type''))"

definition UploadPhotoBodySchema :: "string option schema" where
  "UploadPhotoBodySchema = zObject (\<lambda>field. zOptional (zMax 500 zString) (field ''caption''))"


section \<open>What the schemas accept\<close>

text \<open>A listing asks for a page from 1 on, of 1 to 100 documents, and for a range that is not inverted.\<close>

lemma listing_bounds:
  assumes "getShipmentsQuerySchema cv v = Some q"
  shows "1 \<le> gq_limit q" "gq_limit q \<le> 100" "\<not> inverted (gq_from q) (gq_to q)"
    "gq_page q = PlusInfinity \<or> (\<exists>p\<ge>1. gq_page q = Finite p)"
proof -
  obtain kvs where v: "v = JObj kvs"
    using assms by (cases v) (simp_all add: getShipmentsQuerySchema_def zStrict_def)
  have l: "1 \<le> n \<and> n \<le> 100" if "zDefault 20 (zBetween 1 100 (cv_number cv)) x = Some n" for x n
    using that by (auto simp: zDefault_def zBetween_def split: if_splits jsNumber.splits)
  have p: "n = PlusInfinity \<or> (\<exists>p\<ge>1. n = Finite p)"
    if "zDefault (Finite 1) (zAtLeast 1 (cv_number cv)) x = Some n" for x n
    using that by (auto simp: zDefault_def zAtLeast_def split: if_splits jsNumber.splits)
  show "1 \<le> gq_limit q" "gq_limit q \<le> 100" "\<not> inverted (gq_from q) (gq_to q)"
    "gq_page q = PlusInfinity \<or> (\<exists>p\<ge>1. gq_page q = Finite p)"
    using assms by (auto simp: getShipmentsQuerySchema_def v zStrict_def zObject_def Option.bind_eq_Some_conv
        dest!: l p split: if_splits)
qed

lemma timeline_bounds:
  "ShipmentTimelineQuerySchema cv v = Some (c, n) \<Longrightarrow> 1 \<le> n \<and> n \<le> 100"
  by (auto simp: ShipmentTimelineQuerySchema_def zObject_def Option.bind_eq_Some_conv zDefault_def zBetween_def
      whole_def split: jval.splits if_splits jsNumber.splits)

lemma bulk_bounds:
  "BulkStatusUpdateBodySchema v = Some (ids, st) \<Longrightarrow> 1 \<le> length ids \<and> length ids \<le> 50"
  by (auto simp: BulkStatusUpdateBodySchema_def zObject_def Option.bind_eq_Some_conv split: jval.splits if_splits)

text \<open>The filter of a client that lists statuses, separated by commas, is read back as that list.\<close>

lemma splitOn_plain: "c \<notin> set w \<Longrightarrow> splitOn c w = [w]"
  by (induction w) auto

lemma splitOn_word: "c \<notin> set w \<Longrightarrow> splitOn c (w @ c # s) = w # splitOn c s"
  by (induction w) auto

lemma splitOn_join:
  "ws \<noteq> [] \<Longrightarrow> \<forall>w\<in>set ws. c \<notin> set w \<Longrightarrow> splitOn c (join [c] ws) = ws"
  by (induction "[c]" ws rule: join.induct) (auto simp: splitOn_plain splitOn_word)

lemma status_str_plain: "CHR '','' \<notin> set (status_str st)" "trim (status_str st) = status_str st" "status_str st \<noteq> []"
  by (cases st; simp add: trim_def is_space_def)+

lemma statusEnum_str [simp]: "statusEnum (JStr (status_str st)) = Some st"
  by (cases st) (simp_all add: statusEnum_def zEnum_def allStatuses_def)

lemma those_map_Some: "(\<And>x. x \<in> set xs \<Longrightarrow> f (g x) = Some x) \<Longrightarrow> those (map f (map g xs)) = Some xs"
  by (induction xs) simp_all


lemma trim_Nil: "trim s = [] \<longleftrightarrow> (\<forall>c\<in>set s. is_space c)"
proof -
  have "(\<forall>c\<in>set (dropWhile is_space s). is_space c) \<longleftrightarrow> (\<forall>c\<in>set s. is_space c)"
    by (induction s) auto
  then show ?thesis by (simp add: trim_def)
qed

lemma statusFilter_reads_back:
  assumes "ss \<noteq> []"
  shows "statusFilterSchema (JStr (join '','' (map status_str ss))) = Some (Some ss)"
proof -
  let ?s = "join '','' (map status_str ss)"
  have words: "splitOn (CHR '','') ?s = map status_str ss"
    using assms status_str_plain(1) by (intro splitOn_join) auto
  obtain st rest where ss: "ss = st # rest" using assms by (cases ss) auto
  have "\<exists>c\<in>set (status_str st). \<not> is_space c" by (cases st) (simp_all add: is_space_def)
  then have "\<exists>c\<in>set ?s. \<not> is_space c" unfolding ss by (cases rest) auto
  then have "trim ?s \<noteq> []" by (auto simp: trim_Nil)
  then have "commaList id (Some ?s) = Some (map status_str ss)"
    by (simp add: commaList_def words status_str_plain comp_def)
  then show ?thesis using assms
    by (simp add: statusFilterSchema_def zOptional_def zString_def pipeList_def
        those_map_Some[where f = "\<lambda>x. statusEnum (JStr x)" and g = status_str] del: map_map)
qed

end
