(* ===== verification/Shipment_Http.thy ===== *)
theory Shipment_Http
  imports Http Request_Schemas Shipment_System Shipment_Timeline Shipment_Eta
begin

text \<open>
  The HTTP interface of the shipments module: the routes of
  \<open>src/src/modules/shipments/shipments.routes.ts\<close> in their order, with their roles, uploads and
  schemas, and the handlers of \<open>shipments.controller.ts\<close>.
\<close>

section \<open>Replies\<close>

datatype payload =
    OneShipment shipment
  | Shipments "shipment list"
  | Timeline "timelineEvent list"
  | StatusOutcome statusOutcome
  | BulkOutcome bulkResult
  | Document shipmentDocument
  | Photo shipmentPhoto
  | Dispute dispute
  | Eta etaPayload

definition missing404 :: "payload reply" where
  "missing404 = Envelope 404 False ''Shipment not found'' None None"

text \<open>
  \<open>hx_env k\<close> is the environment of the k-th iteration of a bulk update; the other handlers use the
  first. \<open>hx_fraction\<close> is the answer of the driver to a page number that is not whole, \<open>hx_oversize\<close>
  multer's reading of a size limit and \<open>hx_invalid\<close> the messages of the model's validation.
\<close>

record httpEnv = serverEnv +
  hx_env :: "nat \<Rightarrow> env"
  hx_fraction :: "shipmentsQuery \<Rightarrow> payload reply result"
  hx_oversize :: "nat \<Rightarrow> uploadedFile \<Rightarrow> bool"
  hx_invalid :: "createInput \<Rightarrow> string list"
  hx_text :: "string \<Rightarrow> shipment \<Rightarrow> bool"
  hx_locale :: "string \<Rightarrow> string \<Rightarrow> bool"
  hx_dateText :: "millis \<Rightarrow> string"
  hx_etaNumber :: "string \<Rightarrow> real option"
  hx_etaEncode :: "etaPayload \<Rightarrow> string"
  hx_etaDecode :: "string \<Rightarrow> etaPayload option"
  hx_etaRead :: conn
  hx_etaWrite :: conn

section \<open>Uploads\<close>

definition upload :: "string \<Rightarrow> request \<Rightarrow> uploadedFile option result" where
  "upload name rq = multerSingle name (\<lambda>_. None) (\<lambda>_. False) (rq_files rq)"

definition documentUpload :: "httpEnv \<Rightarrow> request \<Rightarrow> uploadedFile option result" where
  "documentUpload hx rq = multerSingle ''file'' (mimeFilter DOCUMENT_MIME_TYPES)
     (hx_oversize hx (10 * 1024 * 1024)) (rq_files rq)"

definition photoUpload :: "httpEnv \<Rightarrow> request \<Rightarrow> uploadedFile option result" where
  "photoUpload hx rq = multerSingle ''file'' (mimeFilter PHOTO_MIME_TYPES)
     (hx_oversize hx (5 * 1024 * 1024)) (rq_files rq)"

section \<open>Handlers\<close>

definition accessOf :: "claims \<Rightarrow> accessContext" where
  "accessOf user = \<lparr>cx_organizationId = cl_organizationId user, cx_role = cl_role user\<rparr>"

definition actorOf :: "claims \<Rightarrow> actor" where
  "actorOf user = \<lparr>ac_userId = Some (cl_userId user)\<rparr>"

definition getShipments :: "httpEnv \<Rightarrow> claims \<Rightarrow> shipmentsQuery \<Rightarrow> world \<Rightarrow> payload reply result" where
  "getShipments hx user query w =
     (case (whole (gq_page query), whole (Finite (gq_limit query))) of
        (Some page, Some limit) \<Rightarrow>
          (let r = getShipmentsService (hx_text hx)
                 \<lparr>lp_status = gq_status query, lp_priority = gq_priority query, lp_page_no = page,
                  lp_limit = limit, lp_origin = gq_origin query, lp_destination = gq_destination query,
                  lp_trackingNumber = gq_trackingNumber query, lp_q = gq_q query, lp_from = gq_from query,
                  lp_to = gq_to query, lp_sortBy = gq_sortBy query, lp_ascending = gq_ascending query,
                  lp_organizationId = keep_truthy (cl_organizationId user)\<rparr> (w_shipments w)
           in Inr (Envelope 200 True ''Shipments retrieved'' (Some (Shipments (lr_data r)))
                (Some (PageMeta (lr_page r) (lr_limit r) (lr_total r)))))
      | _ \<Rightarrow> hx_fraction hx query)"

definition getShipmentById :: "claims \<Rightarrow> string \<Rightarrow> world \<Rightarrow> payload reply result" where
  "getShipmentById user i w = map_sum id (\<lambda>sh. ok200 ''Shipment retrieved'' (OneShipment sh))
     (getShipmentByIdService i (accessOf user) (w_shipments w))"

definition getShipmentTimeline ::
  "httpEnv \<Rightarrow> claims \<Rightarrow> string \<Rightarrow> string option \<times> nat \<Rightarrow> world \<Rightarrow> payload reply result" where
  "getShipmentTimeline hx user i query w = map_sum id
     (\<lambda>p. let (dat, nxt, more) = timelineResponse p
          in Envelope 200 True ''Shipment timeline retrieved'' (Some (Timeline dat)) (Some (CursorMeta nxt more)))
     (getShipmentTimelineService (hx_locale hx) i (fst query) (snd query) (accessOf user) w)"

definition createShipment ::
  "httpEnv \<Rightarrow> claims \<Rightarrow> (string option \<Rightarrow> createInput) \<Rightarrow> world \<Rightarrow> payload reply result \<times> world" where
  "createShipment hx user body w =
     (let input = body (Some (cl_userId user))
      in map_prod (map_sum id (\<lambda>sh. created201 ''Shipment created'' (OneShipment sh))) id
           (createShipmentService (hx_env hx 0) (hx_invalid hx input) input w))"

definition foundOr404 :: "string \<Rightarrow> ('a \<Rightarrow> payload) \<Rightarrow> 'a option \<Rightarrow> payload reply" where
  "foundOr404 message f r = (case r of None \<Rightarrow> missing404 | Some x \<Rightarrow> ok200 message (f x))"

definition patchShipment :: "httpEnv \<Rightarrow> string \<Rightarrow> jval option \<Rightarrow> world \<Rightarrow> payload reply result \<times> world" where
  "patchShipment hx i offChainMetadata w =
     map_prod (\<lambda>r. Inr (foundOr404 ''Shipment updated'' OneShipment r)) id
       (patchShipmentService (hx_env hx 0) i offChainMetadata w)"

text \<open>\<open>milestoneData\<close> is validated and never used; the status has been checked by the schema.\<close>

definition patchShipmentStatus ::
  "httpEnv \<Rightarrow> claims \<Rightarrow> string \<Rightarrow> shipmentStatus \<times> jval option \<Rightarrow> world \<Rightarrow> payload reply result \<times> world" where
  "patchShipmentStatus hx user i body w =
     map_prod (map_sum id (foundOr404 ''Shipment status updated'' StatusOutcome)) id
       (updateShipmentStatusService (hx_env hx 0) i (fst body) (actorOf user) w)"

definition bulkUpdateShipmentStatus ::
  "httpEnv \<Rightarrow> claims \<Rightarrow> string list \<times> shipmentStatus \<Rightarrow> world \<Rightarrow> payload reply result \<times> world" where
  "bulkUpdateShipmentStatus hx user body w =
     map_prod (\<lambda>r. Inr (ok200 ''Bulk status update completed'' (BulkOutcome r))) id
       (bulkUpdateShipmentStatusService (hx_env hx) (fst body) (snd body)
          (nullish (cl_organizationId user) []) (actorOf user) w)"

definition postProof ::
  "httpEnv \<Rightarrow> claims \<Rightarrow> string \<Rightarrow> uploadedFile option \<Rightarrow> string option \<times> string option \<Rightarrow> world
   \<Rightarrow> payload reply result \<times> world" where
  "postProof hx user i file body w =
     map_prod (map_sum id (\<lambda>sh. ok200 ''Proof uploaded'' (OneShipment sh))) id
       (uploadShipmentProof (hx_env hx 0) i file
          \<lparr>px_recipientSignatureName = fst body, px_notes = snd body,
           px_actorUserId = Some (cl_userId user)\<rparr> w)"

definition postDocument ::
  "httpEnv \<Rightarrow> claims \<Rightarrow> string \<Rightarrow> uploadedFile option \<Rightarrow> documentType \<Rightarrow> world \<Rightarrow> payload reply result \<times> world" where
  "postDocument hx user i file type w =
     map_prod (map_sum id (\<lambda>d. created201 ''Document uploaded'' (Document d))) id
       (uploadShipmentDocument (hx_env hx 0) i file type (Some (cl_userId user)) w)"

definition postPhoto ::
  "httpEnv \<Rightarrow> claims \<Rightarrow> string \<Rightarrow> uploadedFile option \<Rightarrow> string option \<Rightarrow> world \<Rightarrow> payload reply result \<times> world" where
  "postPhoto hx user i file caption w =
     map_prod (map_sum id (\<lambda>p. created201 ''Photo uploaded'' (Photo p))) id
       (uploadShipmentPhoto (hx_env hx 0) i file caption (Some (cl_userId user)) w)"

definition createDispute ::
  "httpEnv \<Rightarrow> claims \<Rightarrow> string \<Rightarrow> uploadedFile option \<Rightarrow> disputeType \<times> string \<Rightarrow> world \<Rightarrow> payload reply result \<times> world" where
  "createDispute hx user i file body w =
     map_prod (map_sum id (\<lambda>d. created201 ''Dispute created'' (Dispute d))) id
       (createDisputeService (hx_env hx 0) i file
          \<lparr>di_type = fst body, di_description = snd body, di_actorUserId = Some (cl_userId user)\<rparr> w)"

definition exportShipments :: "httpEnv \<Rightarrow> claims \<Rightarrow> exportShipmentsQuery \<Rightarrow> world \<Rightarrow> payload reply result" where
  "exportShipments hx user query w =
     (let name = ''shipments-export-'' @ take 10 (toISOString (en_now (hx_env hx 0) 0))
      in map_sum id (\<lambda>shipments. case eq_format query of
              AsCsv \<Rightarrow> TextDownload (name @ ''.csv'') (shipmentsToCSV (hx_dateText hx) shipments)
            | AsJson \<Rightarrow> DataDownload (name @ ''.json'') (Shipments shipments))
           (exportShipmentsService
              \<lparr>ex_organizationId = cl_organizationId user, ex_status = eq_status query,
               ex_origin = eq_origin query, ex_destination = eq_destination query,
               ex_startDate = eq_startDate query, ex_endDate = eq_endDate query\<rparr> (w_shipments w)))"

definition deleteShipment :: "httpEnv \<Rightarrow> string \<Rightarrow> world \<Rightarrow> payload reply result \<times> world" where
  "deleteShipment hx i w =
     map_prod (\<lambda>r. Inr (foundOr404 ''Shipment deleted successfully'' OneShipment r)) id
       (deleteShipmentService (hx_env hx 0) i w)"

definition getShipmentEta :: "httpEnv \<Rightarrow> string \<Rightarrow> world \<Rightarrow> payload reply result \<times> world" where
  "getShipmentEta hx i w =
     map_prod (map_sum id (\<lambda>p. ok200 ''Shipment ETA retrieved'' (Eta p))) id
       (getShipmentEtaService (hx_etaNumber hx) (hx_etaEncode hx) (hx_etaDecode hx) (hx_etaRead hx)
          (hx_etaWrite hx) (en_now (hx_env hx 0) 0) i w)"

section \<open>Routes\<close>

datatype route =
    ExportRoute | ListRoute | BulkStatusRoute | GetRoute string | CreateRoute | PatchRoute string
  | StatusRoute string | ProofRoute string | DocumentsRoute string | PhotosRoute string
  | DisputesRoute string | DeleteRoute string | EtaRoute string | TimelineRoute string

text \<open>Express tries the routes in the order of their registration, literals without regard to case.\<close>

definition routeOf :: "httpMethod \<Rightarrow> string list \<Rightarrow> route option" where
  "routeOf m path =
     (case (m, path) of
        (GET, []) \<Rightarrow> Some ListRoute
      | (POST, []) \<Rightarrow> Some CreateRoute
      | (GET, [i]) \<Rightarrow> Some (if toLowerCase i = ''export'' then ExportRoute else GetRoute i)
      | (PATCH, [i]) \<Rightarrow> Some (PatchRoute i)
      | (DELETE, [i]) \<Rightarrow> Some (DeleteRoute i)
      | (PATCH, [i, a]) \<Rightarrow>
          (if toLowerCase a = ''status''
           then Some (if toLowerCase i = ''bulk'' then BulkStatusRoute else StatusRoute i) else None)
      | (POST, [i, a]) \<Rightarrow> map_of [(''proof'', ProofRoute i), (''documents'', DocumentsRoute i),
            (''photos'', PhotosRoute i), (''disputes'', DisputesRoute i)] (toLowerCase a)
      | (GET, [i, a]) \<Rightarrow> map_of [(''eta'', EtaRoute i), (''timeline'', TimelineRoute i)] (toLowerCase a)
      | _ \<Rightarrow> None)"

text \<open>The arguments of \<open>requireRole\<close>; the route of the estimate has no such guard.\<close>

primrec rolesOf :: "route \<Rightarrow> userRole list option" where
  "rolesOf ExportRoute = Some [ADMIN, MANAGER]"
| "rolesOf ListRoute = Some [ADMIN, MANAGER, VIEWER]"
| "rolesOf BulkStatusRoute = Some [ADMIN, MANAGER]"
| "rolesOf (GetRoute i) = Some [SUPER_ADMIN, ADMIN, MANAGER, VIEWER]"
| "rolesOf CreateRoute = Some [MANAGER, ADMIN]"
| "rolesOf (PatchRoute i) = Some [ADMIN, MANAGER]"
| "rolesOf (StatusRoute i) = Some [ADMIN, MANAGER]"
| "rolesOf (ProofRoute i) = Some [ADMIN, MANAGER]"
| "rolesOf (DocumentsRoute i) = Some [ADMIN, MANAGER]"
| "rolesOf (PhotosRoute i) = Some [ADMIN, MANAGER]"
| "rolesOf (DisputesRoute i) = Some [ADMIN, MANAGER]"
| "rolesOf (DeleteRoute i) = Some [ADMIN, MANAGER]"
| "rolesOf (EtaRoute i) = None"
| "rolesOf (TimelineRoute i) = Some [ADMIN, MANAGER, VIEWER]"


section \<open>The pipeline of a route\<close>

text \<open>What follows the guards of each route: upload, validation (body, query, params), handler.\<close>

primrec serve :: "httpEnv \<Rightarrow> claims \<Rightarrow> request \<Rightarrow> world \<Rightarrow> route \<Rightarrow> payload reply result \<times> world" where
  "serve hx user rq w ExportRoute =
     andThen (queryOf hx ExportShipmentsQuerySchema rq) w (\<lambda>query. (exportShipments hx user query w, w))"
| "serve hx user rq w ListRoute =
     andThen (queryOf hx getShipmentsQuerySchema rq) w (\<lambda>query. (getShipments hx user query w, w))"
| "serve hx user rq w BulkStatusRoute =
     andThen (bodyOf hx BulkStatusUpdateBodySchema rq) w (\<lambda>body. bulkUpdateShipmentStatus hx user body w)"
| "serve hx user rq w (GetRoute i) =
     andThen (paramId hx i) w (\<lambda>i. (getShipmentById user i w, w))"
| "serve hx user rq w CreateRoute =
     andThen (bodyOf hx CreateShipmentBodySchema rq) w (\<lambda>body. createShipment hx user body w)"
| "serve hx user rq w (PatchRoute i) =
     andThen (bodyOf hx ShipmentPatchBodySchema rq) w (\<lambda>body.
     andThen (paramId hx i) w (\<lambda>i. patchShipment hx i body w))"
| "serve hx user rq w (StatusRoute i) =
     andThen (bodyOf hx ShipmentStatusBodySchema rq) w (\<lambda>body.
     andThen (paramId hx i) w (\<lambda>i. patchShipmentStatus hx user i body w))"
| "serve hx user rq w (ProofRoute i) =
     andThen (upload ''file'' rq) w (\<lambda>file.
     andThen (bodyOf hx ShipmentProofBodySchema rq) w (\<lambda>body.
     andThen (paramId hx i) w (\<lambda>i. postProof hx user i file body w)))"
| "serve hx user rq w (DocumentsRoute i) =
     andThen (documentUpload hx rq) w (\<lambda>file.
     andThen (bodyOf hx UploadDocumentBodySchema rq) w (\<lambda>body.
     andThen (paramId hx i) w (\<lambda>i. postDocument hx user i file body w)))"
| "serve hx user rq w (PhotosRoute i) =
     andThen (photoUpload hx rq) w (\<lambda>file.
     andThen (bodyOf hx UploadPhotoBodySchema rq) w (\<lambda>body.
     andThen (paramId hx i) w (\<lambda>i. postPhoto hx user i file body w)))"
| "serve hx user rq w (DisputesRoute i) =
     andThen (upload ''evidence'' rq) w (\<lambda>file.
     andThen (bodyOf hx CreateDisputeBodySchema rq) w (\<lambda>body.
     andThen (paramId hx i) w (\<lambda>i. createDispute hx user i file body w)))"
| "serve hx user rq w (DeleteRoute i) =
     andThen (paramId hx i) w (\<lambda>i. deleteShipment hx i w)"
| "serve hx user rq w (EtaRoute i) =
     andThen (paramId hx i) w (\<lambda>i. getShipmentEta hx i w)"
| "serve hx user rq w (TimelineRoute i) =
     andThen (queryOf hx ShipmentTimelineQuerySchema rq) w (\<lambda>query.
     andThen (paramId hx i) w (\<lambda>i. (getShipmentTimeline hx user i query w, w)))"

definition shipmentsRouter ::
  "httpEnv \<Rightarrow> httpMethod \<Rightarrow> string list \<Rightarrow> request \<Rightarrow> world \<Rightarrow> payload reply \<times> world" where
  "shipmentsRouter hx m path rq w = dispatch hx False rolesOf (serve hx) (w_redis w) (routeOf m path) rq w"

section \<open>Guards\<close>

text \<open>
  Every route but that of the estimate asks for a role, and every route that writes asks for
  \<open>ADMIN\<close> or \<open>MANAGER\<close>.
\<close>

primrec writing :: "route \<Rightarrow> bool" where
  "writing ExportRoute = False"
| "writing ListRoute = False"
| "writing BulkStatusRoute = True"
| "writing (GetRoute i) = False"
| "writing CreateRoute = True"
| "writing (PatchRoute i) = True"
| "writing (StatusRoute i) = True"
| "writing (ProofRoute i) = True"
| "writing (DocumentsRoute i) = True"
| "writing (PhotosRoute i) = True"
| "writing (DisputesRoute i) = True"
| "writing (DeleteRoute i) = True"
| "writing (EtaRoute i) = False"
| "writing (TimelineRoute i) = False"

definition mayWrite :: "claims \<Rightarrow> bool" where
  "mayWrite c \<longleftrightarrow> cl_role c = Some ADMIN \<or> cl_role c = Some MANAGER"

text \<open>An estimate is computed behind a cache; nothing else of the world moves.\<close>

definition cachesOnly :: "world \<Rightarrow> world \<Rightarrow> bool" where
  "cachesOnly w w' \<longleftrightarrow> w' = w\<lparr>w_redis := w_redis w', w_etaDown := w_etaDown w'\<rparr>"

lemma cachesOnly_refl [simp]: "cachesOnly w w"
  by (simp add: cachesOnly_def)

lemma cachesOnly_shipments: "cachesOnly w w' \<Longrightarrow> w_shipments w' = w_shipments w"
  unfolding cachesOnly_def by (metis world.ext_inject world.surjective world.update_convs(9,10))


section \<open>Writing\<close>

text \<open>
  What the step relation of the services asks of one request: the id that a creation would get is
  new, and a bulk update lists no shipment twice.
\<close>

definition requestFresh :: "httpEnv \<Rightarrow> request \<Rightarrow> world \<Rightarrow> bool" where
  "requestFresh hx rq w \<longleftrightarrow> en_fresh (hx_env hx 0) 0 \<notin> sh_id ` set (w_shipments w)
     \<and> (\<forall>ids st. BulkStatusUpdateBodySchema (rq_body rq) = Some (ids, st) \<longrightarrow> distinct ids)"

lemma eta_cachesOnly: "cachesOnly w (snd (getShipmentEtaService num enc dec cnR cnW now i w))"
  by (auto simp: cachesOnly_def getShipmentEtaService_def Let_def case_prod_beta split: option.split)

lemma serve_reads:
  assumes "\<not> writing rt"
  shows "cachesOnly w (snd (serve hx c rq w rt))"
  using assms by (cases rt) (simp_all add: andThen_def getShipmentEta_def eta_cachesOnly split: sum.split)

lemma serve_writes:
  assumes "writing rt" and "requestFresh hx rq w"
  shows "snd (serve hx c rq w rt) = w \<or> shipment_step w (snd (serve hx c rq w rt))"
proof (cases rt)
  case BulkStatusRoute
  have "distinct (fst body)" if "bodyOf hx BulkStatusUpdateBodySchema rq = Inr body" for body
    using that assms(2) by (cases body) (auto simp: bodyOf_def validatePart_Inr requestFresh_def)
  then show ?thesis using BulkStatusRoute
    by (auto simp: andThen_def bulkUpdateShipmentStatus_def intro: step_bulk split: sum.split)
next
  case CreateRoute
  then show ?thesis using assms(2)
    by (auto simp: andThen_def createShipment_def Let_def requestFresh_def intro: step_create split: sum.split)
qed (use assms(1) in \<open>auto simp: andThen_def patchShipment_def patchShipmentStatus_def postProof_def
       uploadShipmentProof_def postDocument_def postPhoto_def createDispute_def deleteShipment_def
       intro: shipment_step.intros split: sum.split option.split\<close>)

interpretation shipment_routes: guarded_routes rolesOf "serve env" writing "[ADMIN, MANAGER]" cachesOnly for env
proof unfold_locales
  fix rt
  show "writing rt \<Longrightarrow> \<exists>rs. rolesOf rt = Some rs \<and> set rs \<subseteq> set [ADMIN, MANAGER]"
    by (cases rt) auto
qed (simp_all add: serve_reads)

lemma router_guarded:
  assumes "requestFresh hx rq w"
  shows "cachesOnly w (snd (shipmentsRouter hx m path rq w))
    \<or> shipment_step w (snd (shipmentsRouter hx m path rq w))
      \<and> (\<exists>c. authenticated hx rq (w_redis w) = Inr c \<and> mayWrite c)"
proof -
  have same: "cachesOnly w w" by simp
  have role: "mayWrite c" if "\<exists>x\<in>set [ADMIN, MANAGER]. cl_role c = Some x" for c
    using that by (auto simp: mayWrite_def)
  from shipment_routes.guarded[where env = hx and hx = hx and w = w and guardAll = False and r = "w_redis w"
      and route = "routeOf m path" and rq = rq] show ?thesis
    unfolding shipmentsRouter_def using serve_writes[OF _ assms] role same by metis
qed

lemma router_keeps_ok:
  assumes "requestFresh hx rq w" and "shipments_ok (w_shipments w)"
  shows "shipments_ok (w_shipments (snd (shipmentsRouter hx m path rq w)))"
proof -
  consider "cachesOnly w (snd (shipmentsRouter hx m path rq w))"
    | "shipment_step w (snd (shipmentsRouter hx m path rq w))" using router_guarded[OF assms(1)] by blast
  then show ?thesis
  proof cases
    case 1
    then show ?thesis using assms(2) cachesOnly_shipments by simp
  next
    case 2
    show ?thesis using evolves_ok[OF shipment_step_refines[OF 2 assms(2)] assms(2)] .
  qed
qed

section \<open>Tenants\<close>

text \<open>
  Among the writing routes only the bulk update looks at the organization of the caller: the reply
  and the effect of every other are those of any other organization.
\<close>

lemma writes_ignore_the_tenant:
  "writing rt \<Longrightarrow> rt \<noteq> BulkStatusRoute
   \<Longrightarrow> serve hx (c\<lparr>cl_organizationId := org\<rparr>) rq w rt = serve hx c rq w rt"
  by (cases rt) (simp_all add: createShipment_def patchShipmentStatus_def actorOf_def postProof_def postDocument_def
      postPhoto_def createDispute_def)

lemma statusBody_ok:
  "rq_body rq = JObj [(''status'', JStr (status_str st))]
   \<Longrightarrow> bodyOf hx ShipmentStatusBodySchema rq = Inr (st, None)"
  by (simp add: bodyOf_def validatePart_def ShipmentStatusBodySchema_def zObject_def propOf_def zOptional_def)

text \<open>A viewer of one of a shipment's organizations reads it.\<close>

lemma member_reads:
  assumes "authenticated hx rq (w_redis w) = Inr c" and "cl_role c = Some VIEWER"
    and "cl_organizationId c = Some org" and "org \<noteq> []" and "org \<in> {sh_enterpriseId sh, sh_logisticsId sh}"
    and "findShipmentById i (w_shipments w) = Some sh" and "i \<noteq> []" and "toLowerCase i \<noteq> ''export''"
  shows "fst (shipmentsRouter hx GET [i] rq w) = ok200 ''Shipment retrieved'' (OneShipment sh)"
proof -
  have "admitted hx (rolesOf (GetRoute i)) rq (w_redis w) = Inr c"
    using admitted_role[OF assms(1,2)] by simp
  moreover have "getShipmentByIdService i (accessOf c) (w_shipments w) = Inr sh"
    using assms by (auto simp: getShipmentByIdService_def isAuthorizedForShipment_def accessOf_def)
  ultimately show ?thesis using assms(7,8)
    by (simp add: shipmentsRouter_def routeOf_def dispatch_admitted andThen_def getShipmentById_def)
qed

text \<open>
  A manager of an organization that is neither the enterprise nor the carrier of a shipment cannot
  read it and cannot move it in bulk, yet moves it alone and deletes it.
\<close>

lemma outsider:
  assumes auth: "authenticated hx rq (w_redis w) = Inr c" "mayWrite c"
    and org: "cl_organizationId c = Some org" "org \<noteq> sh_enterpriseId sh" "org \<noteq> sh_logisticsId sh"
    and sh: "findShipmentById i (w_shipments w) = Some sh" "distinct (map sh_id (w_shipments w))"
    and i: "i \<noteq> []" "toLowerCase i \<noteq> ''export''" "toLowerCase i \<noteq> ''bulk''"
  shows outsider_reads: "fst (shipmentsRouter hx GET [i] rq w)
      = Failure (respond 403 ''Forbidden: insufficient access to shipment'' (ErrorCodes FORBIDDEN) None)"
    and outsider_bulk: "findShipmentById i (w_shipments (snd (shipmentsRouter hx PATCH [''bulk'', ''status''] rq w))) = Some sh"
    and outsider_moves: "rq_body rq = JObj [(''status'', JStr (status_str st))]
      \<Longrightarrow> st \<in> set (ALLOWED_TRANSITIONS (sh_status sh))
      \<Longrightarrow> findShipmentById i (w_shipments (snd (shipmentsRouter hx PATCH [i, ''status''] rq w)))
        = Some (updatedDoc (hx_env hx 0) st (actorOf c) sh)"
    and outsider_deletes: "findShipmentById i (w_shipments (snd (shipmentsRouter hx DELETE [i] rq w))) = None"
proof -
  have serve: "shipmentsRouter hx m path rq w = answered hx (serve hx c rq w rt)"
    if "routeOf m path = Some rt" "writing rt \<or> rt = GetRoute i" for m path rt
  proof -
    obtain x where x: "cl_role c = Some x" "x = ADMIN \<or> x = MANAGER" using auth(2) by (auto simp: mayWrite_def)
    have "admitted hx (rolesOf rt) rq (w_redis w) = Inr c"
      using that(2) admitted_role[OF auth(1) x(1)] x(2) by (cases rt) auto
    then show ?thesis using that(1) by (simp add: shipmentsRouter_def dispatch_admitted)
  qed
  have "cl_role c \<noteq> Some SUPER_ADMIN" using auth(2) by (auto simp: mayWrite_def)
  then have "getShipmentByIdService i (accessOf c) (w_shipments w)
      = throwApp 403 ''Forbidden: insufficient access to shipment'' (ErrorCodes FORBIDDEN)"
    using sh(1) org i(1) by (simp add: getShipmentByIdService_def isAuthorizedForShipment_def accessOf_def)
  then show "fst (shipmentsRouter hx GET [i] rq w)
      = Failure (respond 403 ''Forbidden: insufficient access to shipment'' (ErrorCodes FORBIDDEN) None)"
    using i by (simp add: serve[of GET "[i]" "GetRoute i"] routeOf_def andThen_def getShipmentById_def throwApp_def
        errorMiddleware_def)
  show "findShipmentById i (w_shipments (snd (shipmentsRouter hx PATCH [''bulk'', ''status''] rq w))) = Some sh"
  proof -
    have r: "routeOf PATCH [''bulk'', ''status''] = Some BulkStatusRoute" by (simp add: routeOf_def toLowerCase_def to_lower_def)
    show ?thesis unfolding serve[OF r, simplified]
      using bulk_other_orgs[OF sh, of org] org sh(1)
      by (auto simp: andThen_def bulkUpdateShipmentStatus_def split: sum.split)
  qed
  have st: "routeOf PATCH [i, ''status''] = Some (StatusRoute i)"
    using i(3) by (simp add: routeOf_def) (simp add: toLowerCase_def to_lower_def)
  show "findShipmentById i (w_shipments (snd (shipmentsRouter hx PATCH [i, ''status''] rq w)))
      = Some (updatedDoc (hx_env hx 0) st (actorOf c) sh)"
    if b: "rq_body rq = JObj [(''status'', JStr (status_str st))]" and "st \<in> set (ALLOWED_TRANSITIONS (sh_status sh))"
  proof -
    have "applies i st w = Some sh" using that(2) sh(1) by (simp add: applies_def)
    from update_reads_back[OF this] show ?thesis
      unfolding serve[OF st, simplified]
      by (simp add: andThen_def statusBody_ok[OF b] i(1) patchShipmentStatus_def)
  qed
  have "routeOf DELETE [i] = Some (DeleteRoute i)" by (simp add: routeOf_def)
  from serve[OF this] show "findShipmentById i (w_shipments (snd (shipmentsRouter hx DELETE [i] rq w))) = None"
    using i(1) deleteShipment_gone[OF sh(2)] by (simp add: andThen_def deleteShipment_def)
qed


section \<open>Listings and uploads\<close>

text \<open>An accepted listing with a whole page number answers with at most 100 documents, and says which page it is.\<close>

lemma listing_reply:
  assumes "queryOf hx getShipmentsQuerySchema rq = Inr q"
    and "whole (gq_page q) = Some page" and "whole (Finite (gq_limit q)) = Some limit"
  shows "\<exists>xs n. getShipments hx c q w = Inr (Envelope 200 True ''Shipments retrieved'' (Some (Shipments xs))
       (Some (PageMeta page limit n))) \<and> int (length xs) \<le> limit \<and> limit \<le> 100 \<and> 1 \<le> page"
proof -
  have q: "getShipmentsQuerySchema (hx_conversions hx) (JObj (rq_query rq)) = Some q"
    using assms(1) by (simp add: queryOf_def validatePart_Inr)
  note b = listing_bounds[OF q]
  have "1 \<le> limit" "limit \<le> 100" using b(1,2) assms(3) by (auto simp: whole_def split: if_splits)
  moreover have "1 \<le> page" using b(4) assms(2) by (auto simp: whole_def split: if_splits)
  ultimately show ?thesis using assms(2,3)
    by (auto simp: getShipments_def Let_def getShipmentsService_def offsetPage_def)
qed

text \<open>
  multer's filter and limit are those of the handler's guard, and come first: a file that reaches the
  handler passes its guard, so the 415 and 413 of the handler are never answered. A file of another
  type is refused with 400.
\<close>

lemma handler_guard_is_idle:
  assumes "refusesOversize (hx_oversize hx)"
  shows "documentUpload hx rq = Inr (Some f) \<Longrightarrow> guardFile DOCUMENT_MIME_TYPES DOCUMENT_MAX_SIZE (Some f) = Inr f"
    and "photoUpload hx rq = Inr (Some f) \<Longrightarrow> guardFile PHOTO_MIME_TYPES PHOTO_MAX_SIZE (Some f) = Inr f"
  using assms unfolding documentUpload_def photoUpload_def multerSingle_Some guardFile_ok
  by (auto simp: mimeFilter_def refusesOversize_def DOCUMENT_MAX_SIZE_def PHOTO_MAX_SIZE_def
      not_less[symmetric] split: if_splits)

lemma wrong_type_is_400:
  "rq_files rq = [(''file'', f)] \<Longrightarrow> uf_mimetype f \<notin> set DOCUMENT_MIME_TYPES
   \<Longrightarrow> documentUpload hx rq = throwApp 400 ''Invalid MIME type'' (ErrorCodes INVALID_MIME_TYPE)"
  by (simp add: documentUpload_def multerSingle_def mimeFilter_def throwApp_def)

end
