(* ===== verification/Payment_Http.thy ===== *)
theory Payment_Http
  imports Http Payments
begin

text \<open>
  The HTTP interface of the payments module, mounted under \<open>/api/payments\<close> and \<open>/api/settlements\<close>:
  \<open>src/src/modules/payments/payments.routes.ts\<close>, \<open>payments.controller.ts\<close> and
  \<open>payments.validation.ts\<close>. The router asks for a token before it looks for a route. An amount is a
  finite number.
\<close>

section \<open>Schemas\<close>

definition zPositive :: "rat schema \<Rightarrow> rat schema" where
  "zPositive p v = (case p v of None \<Rightarrow> None | Some q \<Rightarrow> if 0 < q then Some q else None)"

primrec token_str :: "token \<Rightarrow> string" where
  "token_str XLMN = ''XLMN''"
| "token_str USDC = ''USDC''"
| "token_str OtherToken = ''Other''"

definition TokenEnum :: "token schema" where
  "TokenEnum = zEnum token_str [XLMN, USDC, OtherToken]"

definition paymentStatusEnum :: "paymentStatus schema" where
  "paymentStatusEnum = zEnum payment_status_str [PENDING, ESCROWED, RELEASED, FAILED, DISPUTED]"

text \<open>The body carries no organization: the handler adds the caller's.\<close>

definition CreatePaymentBodySchema :: "conversions \<Rightarrow> (string \<Rightarrow> paymentInput) schema" where
  "CreatePaymentBodySchema cv = zObject (\<lambda>field.
     Option.bind (zMin 1 zString (field ''shipmentId'')) (\<lambda>shipmentId.
     Option.bind (zPositive (zNumber (cv_number cv)) (field ''amount'')) (\<lambda>amount.
     Option.bind (zOptional TokenEnum (field ''token'')) (\<lambda>token.
     Option.bind (zOptional TokenEnum (field ''tokenType'')) (\<lambda>tokenType.
     Option.bind (zOptional zString (field ''payerAddress'')) (\<lambda>payerAddress.
     Option.bind (zOptional zString (field ''payeeAddress'')) (\<lambda>payeeAddress.
     Option.bind (zDefault PENDING paymentStatusEnum (field ''status'')) (\<lambda>status.
       let coalesced = (case token of Some t \<Rightarrow> Some t | None \<Rightarrow> tokenType) in
       if coalesced = None then None
       else Some (\<lambda>organizationId. \<lparr>pi_shipmentId = shipmentId, pi_organizationId = organizationId,
              pi_amount = amount, pi_token = coalesced, pi_tokenType = tokenType, pi_payerAddress = payerAddress,
              pi_payeeAddress = payeeAddress, pi_status = Some status\<rparr>)))))))))"

definition UpdatePaymentStatusBodySchema :: "(paymentStatus \<times> string option) schema" where
  "UpdatePaymentStatusBodySchema = zObject (\<lambda>field.
     Option.bind (paymentStatusEnum (field ''status'')) (\<lambda>status.
     Option.bind (zOptional zString (field ''stellarTxHash'')) (\<lambda>hash. Some (status, hash))))"

primrec payment_sort_str :: "paymentSort \<Rightarrow> string" where
  "payment_sort_str SortAmount = ''amount''"
| "payment_sort_str SortStatus = ''status''"
| "payment_sort_str SortCreatedAt = ''createdAt''"

record getPaymentsQuery =
  gp_status :: "paymentStatus option"
  gp_organizationId :: "string option"
  gp_shipmentId :: "string option"
  gp_sortBy :: paymentSort
  gp_ascending :: bool
  gp_cursor :: "string option"
  gp_limit :: rat
  gp_page :: "jsNumber option"

definition GetPaymentsQuerySchema :: "conversions \<Rightarrow> getPaymentsQuery schema" where
  "GetPaymentsQuerySchema cv = zObject (\<lambda>field.
     Option.bind (zOptional paymentStatusEnum (field ''status'')) (\<lambda>status.
     Option.bind (zOptional zString (field ''organizationId'')) (\<lambda>organizationId.
     Option.bind (zOptional zString (field ''shipmentId'')) (\<lambda>shipmentId.
     Option.bind (zDefault SortCreatedAt (zEnum payment_sort_str [SortAmount, SortStatus, SortCreatedAt])
        (field ''sortBy'')) (\<lambda>sortBy.
     Option.bind (zDefault False (zEnum (\<lambda>asc. if asc then ''asc'' else ''desc'') [True, False])
        (field ''sortOrder'')) (\<lambda>ascending.
     Option.bind (zOptional zString (field ''cursor'')) (\<lambda>cursor.
     Option.bind (zDefault 20 (zBetween 1 100 (cv_number cv)) (field ''limit'')) (\<lambda>limit.
     Option.bind (zOptional (zAtLeast 1 (cv_number cv)) (field ''page'')) (\<lambda>page.
       Some \<lparr>gp_status = status, gp_organizationId = organizationId, gp_shipmentId = shipmentId,
         gp_sortBy = sortBy, gp_ascending = ascending, gp_cursor = cursor, gp_limit = limit,
         gp_page = page\<rparr>)))))))))"

definition DisputeSettlementBodySchema :: "(string \<times> string option) schema" where
  "DisputeSettlementBodySchema = zObject (\<lambda>field.
     Option.bind (zMin 1 zString (field ''reason'')) (\<lambda>reason.
     Option.bind (zOptional zString (field ''notes'')) (\<lambda>notes. Some (reason, notes))))"

definition SummaryQuerySchema :: "string schema" where
  "SummaryQuerySchema = zObject (\<lambda>field.
     zDefault ''week'' (zEnum id [''week'', ''month'', ''quarter'']) (field ''period''))"

section \<open>Handlers\<close>

datatype paymentPayload =
    OnePayment augmentedPayment
  | PaymentList "augmentedPayment list"
  | Summary settlementSummary

text \<open>
  The state of the module with the cache of its summaries, which lives in the same Redis as the
  blocked tokens. \<open>py_fraction\<close> is the answer of the driver to a page or a limit that is not whole.
\<close>

type_synonym payWorld = "paySystem \<times> cacheState"

record payServer = serverEnv +
  py_env :: payEnv
  py_fraction :: "getPaymentsQuery \<Rightarrow> paymentPayload reply result"
  py_encode :: "settlementSummary \<Rightarrow> string"
  py_decode :: "string \<Rightarrow> settlementSummary option"
  py_read :: conn
  py_write :: conn
  py_now :: millis

definition callerOrganization :: "claims \<Rightarrow> string" where
  "callerOrganization user = nullish (cl_organizationId user) []"

definition createPaymentController ::
  "payServer \<Rightarrow> claims \<Rightarrow> (string \<Rightarrow> paymentInput) \<Rightarrow> payWorld \<Rightarrow> paymentPayload reply result \<times> payWorld" where
  "createPaymentController py user body w =
     (let (r, s) = createPaymentService (py_env py) (body (callerOrganization user)) (fst w)
      in (map_sum id (\<lambda>p. created201 ''Payment created successfully'' (OnePayment p)) r, (s, snd w)))"

definition getPaymentsController ::
  "payServer \<Rightarrow> claims \<Rightarrow> getPaymentsQuery \<Rightarrow> payWorld \<Rightarrow> paymentPayload reply result" where
  "getPaymentsController py user query w =
     (case (whole (Finite (gp_limit query)), map_option whole (gp_page query)) of
        (None, _) \<Rightarrow> py_fraction py query
      | (_, Some None) \<Rightarrow> py_fraction py query
      | (Some limit, page) \<Rightarrow>
          map_sum id (\<lambda>(dat, tot, more, nxt). Envelope 200 True ''Payments retrieved successfully'' (Some (PaymentList dat))
               (Some (case page of Some (Some pg) \<Rightarrow> TotalPage tot pg limit | _ \<Rightarrow> TotalCursor tot more nxt)))
            (getPaymentsService (py_env py) (callerOrganization user)
               \<lparr>pf_status = gp_status query, pf_shipmentId = gp_shipmentId query, pf_sortBy = Some (gp_sortBy query),
                pf_ascending = gp_ascending query, pf_limit = Some (nat limit)\<rparr>
               (case page of Some pg \<Rightarrow> pg | None \<Rightarrow> None) (gp_cursor query) (fst w)))"

definition getSettlementByIdController :: "payServer \<Rightarrow> string \<Rightarrow> payWorld \<Rightarrow> paymentPayload reply result" where
  "getSettlementByIdController py i w =
     map_sum id (\<lambda>p. ok200 ''Settlement retrieved successfully'' (OnePayment p))
       (getPaymentByIdService (py_env py) i (fst w))"

definition updatePaymentStatusController ::
  "payServer \<Rightarrow> string \<Rightarrow> paymentStatus \<times> string option \<Rightarrow> payWorld \<Rightarrow> paymentPayload reply result \<times> payWorld" where
  "updatePaymentStatusController py i body w =
     (let (r, s) = updatePaymentStatusService (py_env py) i (fst body) (snd body) (fst w)
      in (map_sum id (\<lambda>p. ok200 ''Payment status updated successfully'' (OnePayment p)) r, (s, snd w)))"

definition disputeSettlementController ::
  "payServer \<Rightarrow> string \<Rightarrow> string \<times> string option \<Rightarrow> payWorld \<Rightarrow> paymentPayload reply result \<times> payWorld" where
  "disputeSettlementController py i body w =
     (let (r, s) = disputeSettlementService (py_env py) i (fst body) (snd body) (fst w)
      in (map_sum id (\<lambda>p. ok200 ''Settlement disputed successfully'' (OnePayment p)) r, (s, snd w)))"

definition getSettlementSummaryController ::
  "payServer \<Rightarrow> claims \<Rightarrow> string \<Rightarrow> payWorld \<Rightarrow> paymentPayload reply result \<times> payWorld" where
  "getSettlementSummaryController py user period w =
     (let (r, cs) = getSettlementSummaryService (pe_oid (py_env py)) (py_encode py) (py_decode py) (py_read py)
            (py_write py) (py_now py) (callerOrganization user) period (ps_payments (fst w)) (snd w)
      in (map_sum id (\<lambda>s. ok200 ''Settlement summary retrieved successfully'' (Summary s)) r, (fst w, cs)))"

section \<open>Routes\<close>

datatype payRoute =
    SummaryRoute | CreatePaymentRoute | PaymentsRoute | PaymentRoute string | PaymentStatusRoute string
  | DisputeRoute string

definition payRouteOf :: "httpMethod \<Rightarrow> string list \<Rightarrow> payRoute option" where
  "payRouteOf m path =
     (case (m, path) of
        (GET, []) \<Rightarrow> Some PaymentsRoute
      | (POST, []) \<Rightarrow> Some CreatePaymentRoute
      | (GET, [i]) \<Rightarrow> Some (if toLowerCase i = ''summary'' then SummaryRoute else PaymentRoute i)
      | (PATCH, [i, a]) \<Rightarrow> (if toLowerCase a = ''status'' then Some (PaymentStatusRoute i) else None)
      | (POST, [i, a]) \<Rightarrow> (if toLowerCase a = ''dispute'' then Some (DisputeRoute i) else None)
      | _ \<Rightarrow> None)"

primrec payRoles :: "payRoute \<Rightarrow> userRole list option" where
  "payRoles SummaryRoute = None"
| "payRoles CreatePaymentRoute = Some [ADMIN, SUPER_ADMIN]"
| "payRoles PaymentsRoute = None"
| "payRoles (PaymentRoute i) = None"
| "payRoles (PaymentStatusRoute i) = Some [ADMIN, SUPER_ADMIN]"
| "payRoles (DisputeRoute i) = Some [ADMIN, MANAGER]"

primrec payServe ::
  "payServer \<Rightarrow> claims \<Rightarrow> request \<Rightarrow> payWorld \<Rightarrow> payRoute \<Rightarrow> paymentPayload reply result \<times> payWorld" where
  "payServe py user rq w SummaryRoute =
     andThen (queryOf py (\<lambda>_. SummaryQuerySchema) rq) w (\<lambda>period. getSettlementSummaryController py user period w)"
| "payServe py user rq w CreatePaymentRoute =
     andThen (bodyOf py (CreatePaymentBodySchema (hx_conversions py)) rq) w (\<lambda>body.
       createPaymentController py user body w)"
| "payServe py user rq w PaymentsRoute =
     andThen (queryOf py GetPaymentsQuerySchema rq) w (\<lambda>query. (getPaymentsController py user query w, w))"
| "payServe py user rq w (PaymentRoute i) =
     andThen (paramId py i) w (\<lambda>i. (getSettlementByIdController py i w, w))"
| "payServe py user rq w (PaymentStatusRoute i) =
     andThen (bodyOf py UpdatePaymentStatusBodySchema rq) w (\<lambda>body.
     andThen (paramId py i) w (\<lambda>i. updatePaymentStatusController py i body w))"
| "payServe py user rq w (DisputeRoute i) =
     andThen (bodyOf py DisputeSettlementBodySchema rq) w (\<lambda>body.
     andThen (paramId py i) w (\<lambda>i. disputeSettlementController py i body w))"

definition paymentsRouter ::
  "payServer \<Rightarrow> httpMethod \<Rightarrow> string list \<Rightarrow> request \<Rightarrow> payWorld \<Rightarrow> paymentPayload reply \<times> payWorld" where
  "paymentsRouter py m path rq w =
     dispatch py True payRoles (payServe py) (snd (snd w)) (payRouteOf m path) rq w"


section \<open>Who changes a payment\<close>

primrec payWriting :: "payRoute \<Rightarrow> bool" where
  "payWriting SummaryRoute = False"
| "payWriting CreatePaymentRoute = True"
| "payWriting PaymentsRoute = False"
| "payWriting (PaymentRoute i) = False"
| "payWriting (PaymentStatusRoute i) = True"
| "payWriting (DisputeRoute i) = True"

definition samePayments :: "payWorld \<Rightarrow> payWorld \<Rightarrow> bool" where
  "samePayments w w' \<longleftrightarrow> fst w' = fst w"

interpretation payment_routes: guarded_routes payRoles "payServe env" payWriting "[ADMIN, SUPER_ADMIN, MANAGER]" samePayments for env
proof unfold_locales
  fix rt c rq and w :: payWorld
  show "payWriting rt \<Longrightarrow> \<exists>rs. payRoles rt = Some rs \<and> set rs \<subseteq> set [ADMIN, SUPER_ADMIN, MANAGER]"
    by (cases rt) auto
  show "\<not> payWriting rt \<Longrightarrow> samePayments w (snd (payServe env c rq w rt))"
    by (cases rt) (auto simp: samePayments_def andThen_def getSettlementSummaryController_def split: sum.split prod.split)
qed (simp add: samePayments_def)

lemma payments_guarded:
  "fst (snd (paymentsRouter py m path rq w)) = fst w
   \<or> (\<exists>c. authenticated py rq (snd (snd w)) = Inr c \<and> cl_role c \<in> {Some ADMIN, Some SUPER_ADMIN, Some MANAGER})"
  using payment_routes.guarded[where env = py and hx = py and w = w and guardAll = True and r = "snd (snd w)"
      and route = "payRouteOf m path" and rq = rq]
  by (auto simp: paymentsRouter_def samePayments_def)

text \<open>Whatever is written, amounts stay positive and ids unique.\<close>

lemma payServe_wf:
  assumes "wf_payments (ps_payments (fst w))" and "pe_fresh (py_env py) \<notin> pm_id ` set (ps_payments (fst w))"
  shows "wf_payments (ps_payments (fst (snd (payServe py c rq w rt))))"
proof (cases rt)
  case CreatePaymentRoute
  then show ?thesis using assms
    by (auto simp: andThen_def createPaymentController_def createPaymentService_def Let_def case_prod_beta
        intro!: createPayment_wf split: sum.split)
next
  case (PaymentStatusRoute i)
  then show ?thesis using assms(1) updatePaymentStatus_wf
    by (auto simp: andThen_def updatePaymentStatusController_def case_prod_beta updatePaymentStatusService_payments
        split: sum.split)
next
  case (DisputeRoute i)
  have "wf_payments (ps_payments (snd (disputeSettlementService env j reason n s)))"
    if "wf_payments (ps_payments s)" for env j reason n s
    using that disputePayment_wf[OF that, of "pe_updateNow env" j reason n]
    by (auto simp: disputeSettlementService_def split: option.split prod.split)
  then show ?thesis using assms(1) DisputeRoute
    by (auto simp: andThen_def disputeSettlementController_def case_prod_beta split: sum.split)
qed (use assms(1) in \<open>auto simp: andThen_def getSettlementSummaryController_def case_prod_beta split: sum.split\<close>)

section \<open>Tenants\<close>

lemma paymentStatusEnum_str [simp]: "paymentStatusEnum (JStr (payment_status_str st)) = Some st"
  by (cases st) (simp_all add: paymentStatusEnum_def zEnum_def)

lemma paymentStatusBody_ok:
  "rq_body rq = JObj [(''status'', JStr (payment_status_str st))]
   \<Longrightarrow> bodyOf hx UpdatePaymentStatusBodySchema rq = Inr (st, None)"
  by (simp add: bodyOf_def validatePart_def UpdatePaymentStatusBodySchema_def zObject_def propOf_def zOptional_def)

text \<open>The page of a settlement asks for nothing but a token.\<close>

lemma any_token_reads:
  assumes "authenticated py rq (snd (snd w)) = Inr c" and "getPaymentById i (ps_payments (fst w)) = Some p"
    and "i \<noteq> []" and "toLowerCase i \<noteq> ''summary''"
  shows "fst (paymentsRouter py GET [i] rq w) = ok200 ''Settlement retrieved successfully''
     (OnePayment (augmentPayment (pe_stellarNetwork (py_env py)) p))"
  using assms by (simp add: paymentsRouter_def payRouteOf_def dispatch_admitted admitted_any andThen_def
      getSettlementByIdController_def getPaymentByIdService_def)

text \<open>An administrator of any organization sets any status, whatever the status was.\<close>

lemma any_admin_sets_status:
  assumes "authenticated py rq (snd (snd w)) = Inr c" and "cl_role c = Some ADMIN"
    and "getPaymentById i (ps_payments (fst w)) = Some p" and "i \<noteq> []"
    and "rq_body rq = JObj [(''status'', JStr (payment_status_str st))]"
  shows "\<exists>p'. getPaymentById i (ps_payments (fst (snd (paymentsRouter py PATCH [i, ''status''] rq w)))) = Some p'
     \<and> pm_status p' = st \<and> pm_amount p' = pm_amount p"
proof -
  have route: "payRouteOf PATCH [i, ''status''] = Some (PaymentStatusRoute i)"
    by (simp add: payRouteOf_def toLowerCase_def to_lower_def)
  have "admitted py (payRoles (PaymentStatusRoute i)) rq (snd (snd w)) = Inr c"
    using admitted_role[OF assms(1,2)] by simp
  then show ?thesis
    unfolding paymentsRouter_def route
    using updatePaymentStatusService_ok[OF assms(3), of "py_env py" st None]
    by (auto simp: dispatch_admitted andThen_def paymentStatusBody_ok[OF assms(5)] assms(4)
        updatePaymentStatusController_def case_prod_beta)
qed

text \<open>The listing, in contrast, shows the payments of the caller's organization only.\<close>

lemma mem_sortPayments [simp]: "set (sortPayments k asc ps) = set ps"
  by (cases k) (auto simp: sortPayments_def directed_def desc_by_def)

lemma cursor_page_subset: "payments_cursor_page limit dat = Inr pg \<Longrightarrow> set (page_data pg) \<subseteq> set dat"
  by (auto simp: payments_cursor_page_def Let_def dest: in_set_butlastD split: if_splits)

lemma matches_own:
  "x \<in> set (findAll paymentAlive (\<lambda>p. payment_matches o' st sid p \<and> P p) ps) \<Longrightarrow> pm_organizationId x = o'"
  "x \<in> set (findAll paymentAlive (payment_matches o' st sid) ps) \<Longrightarrow> pm_organizationId x = o'"
  by (simp_all add: findAll_def payment_matches_def)

lemma organization_pages_own:
  assumes "getPaymentsByOrganization oid org f page cursor ps = Inr r" and "x \<in> set (page_data (pp_page r))"
  shows "oid org = Inr (pm_organizationId x)"
proof -
  obtain o' where o': "oid org = Inr o'" using assms(1) by (auto simp: getPaymentsByOrganization_def Let_def split: sum.splits)
  obtain sid where sid: "optionalId oid (pf_shipmentId f) = Inr sid"
    using assms(1) o' by (auto simp: getPaymentsByOrganization_def Let_def split: sum.splits)
  have "pm_organizationId x = o'"
  proof (cases page)
    case (Some pg)
    then show ?thesis using assms o' sid
      by (auto simp: getPaymentsByOrganization_def Let_def dest!: in_set_takeD in_set_dropD matches_own(2))
  next
    case None
    then obtain c pg where c: "optionalId oid cursor = Inr c" and pg: "pp_page r = pg"
      "payments_cursor_page (nullish (pf_limit f) 20) (take (nullish (pf_limit f) 20 + 1)
         (sortPayments (nullish (pf_sortBy f) SortCreatedAt) (pf_ascending f) (findAll paymentAlive
            (\<lambda>p. payment_matches o' (pf_status f) sid p \<and> (case c of None \<Rightarrow> True | Some i \<Rightarrow> pm_id p < i)) ps))) = Inr pg"
      using assms(1) o' sid by (auto simp: getPaymentsByOrganization_def Let_def map_sum_def split: sum.splits)
    have "x \<in> set (findAll paymentAlive
        (\<lambda>p. payment_matches o' (pf_status f) sid p \<and> (case c of None \<Rightarrow> True | Some i \<Rightarrow> pm_id p < i)) ps)"
      using cursor_page_subset[OF pg(2)] assms(2) unfolding pg(1) by (auto dest!: in_set_takeD)
    then show ?thesis by (rule matches_own(1))
  qed
  then show ?thesis using o' by simp
qed

lemma listed_own:
  assumes "fst (paymentsRouter py GET [] rq w) = Envelope st ok msg (Some (PaymentList dat)) m"
    and "authenticated py rq (snd (snd w)) = Inr c" and "\<And>q. \<exists>e. py_fraction py q = Inl e" and "x \<in> set dat"
  shows "pe_oid (py_env py) (callerOrganization c) = Inr (pm_organizationId (ag_payment x))"
proof -
  obtain query where query: "getPaymentsController py c query w = Inr (Envelope st ok msg (Some (PaymentList dat)) m)"
    using assms(1,2) by (auto simp: paymentsRouter_def payRouteOf_def dispatch_admitted admitted_any andThen_def
        answered_def split: sum.splits)
  have "\<not> (\<exists>a. py_fraction py query = Inr a)" using assms(3)[of query] by auto
  then obtain org f page cursor r where "getPaymentsByOrganization (pe_oid (py_env py)) (callerOrganization c) f page cursor
        (ps_payments (fst w)) = Inr r" "dat = map (augmentPayment (pe_stellarNetwork (py_env py))) (page_data (pp_page r))"
    using query by (auto simp: getPaymentsController_def getPaymentsService_def map_sum_def split: option.splits sum.splits prod.splits)
  then show ?thesis using organization_pages_own assms(4) by (fastforce simp: augmentPayment_def)
qed

end
