(* ===== verification/Sensor_Http.thy ===== *)
theory Sensor_Http
  imports Http Ingestion Anomaly_Stats
begin

text \<open>
  The HTTP interfaces of telemetry and anomalies: routes, schemas and handlers of
  \<open>src/src/modules/telemetry\<close> and \<open>src/src/modules/anomaly\<close> (\<open>*.routes.ts\<close>, \<open>*.validation.ts\<close>,
  \<open>*.controller.ts\<close>). The route of the bulk ingestion asks for a token and nothing else.
\<close>

section \<open>Schemas\<close>

definition zNullable :: "'a schema \<Rightarrow> 'a option schema" where
  "zNullable p v = (if v = JNull then Some None else map_option Some (p v))"

definition zRange :: "rat \<Rightarrow> rat \<Rightarrow> rat schema \<Rightarrow> rat schema" where
  "zRange a b p v = (case p v of None \<Rightarrow> None | Some q \<Rightarrow> if a \<le> q \<and> q \<le> b then Some q else None)"

definition utcDateString :: "conversions \<Rightarrow> millis schema" where
  "utcDateString cv v = Option.bind (zString v) (cv_utcDate cv)"

record telemetryListQuery =
  tl_cursor :: "string option"
  tl_page :: "int option"
  tl_limit :: "int option"
  tl_shipmentId :: "string option"
  tl_from :: "millis option"
  tl_to :: "millis option"

definition TelemetryQuerySchema :: "conversions \<Rightarrow> telemetryListQuery schema" where
  "TelemetryQuerySchema cv = zObject (\<lambda>field.
     Option.bind (zOptional (zTrim zString) (field ''cursor'')) (\<lambda>cursor.
     Option.bind (zOptional (zInt (zAtLeast 1 (cv_number cv))) (field ''page'')) (\<lambda>page.
     Option.bind (zOptional (intRange 1 100 (cv_number cv)) (field ''limit'')) (\<lambda>limit.
     Option.bind (zOptional (zTrim zString) (field ''shipmentId'')) (\<lambda>shipmentId.
     Option.bind (zOptional (utcDateString cv) (field ''from'')) (\<lambda>a.
     Option.bind (zOptional (utcDateString cv) (field ''to'')) (\<lambda>b.
       if truthy cursor \<and> page \<noteq> None then None
       else if (case (a, b) of (Some x, Some y) \<Rightarrow> y < x | _ \<Rightarrow> False) then None
       else Some \<lparr>tl_cursor = cursor, tl_page = page, tl_limit = limit, tl_shipmentId = shipmentId,
         tl_from = a, tl_to = b\<rparr>)))))))"

text \<open>
  The parsed item, which is also what the data hash is computed from: \<open>z.object\<close> builds it from the
  fields of the shape.
\<close>

definition BulkTelemetryItemSchema :: "conversions \<Rightarrow> bulkTelemetryItem schema" where
  "BulkTelemetryItemSchema cv = zObject (\<lambda>field.
     Option.bind (trimmedId (field ''shipmentId'')) (\<lambda>shipmentId.
     Option.bind (zRange (-50) 100 (zNumber (cv_number cv)) (field ''temperature'')) (\<lambda>temperature.
     Option.bind (zNumber (cv_number cv) (field ''humidity'')) (\<lambda>humidity.
     Option.bind (zNumber (cv_number cv) (field ''latitude'')) (\<lambda>latitude.
     Option.bind (zNumber (cv_number cv) (field ''longitude'')) (\<lambda>longitude.
     Option.bind (zRange 0 100 (zNumber (cv_number cv)) (field ''batteryLevel'')) (\<lambda>batteryLevel.
     Option.bind (cv_date cv (field ''timestamp'')) (\<lambda>timestamp.
     Option.bind (zOptional (zTrim zString) (field ''sensorId'')) (\<lambda>sensorId.
       Some \<lparr>bi_shipmentId = Some shipmentId, bi_sensorId = sensorId, bi_temperature = temperature,
         bi_humidity = humidity, bi_latitude = latitude, bi_longitude = longitude,
         bi_batteryLevel = Some batteryLevel, bi_timestamp = timestamp,
         bi_item = JObj ([(''shipmentId'', JStr shipmentId), (''temperature'', field ''temperature''),
            (''humidity'', field ''humidity''), (''latitude'', field ''latitude''), (''longitude'', field ''longitude''),
            (''batteryLevel'', field ''batteryLevel''), (''timestamp'', JDate timestamp)]
            @ (case sensorId of None \<Rightarrow> [] | Some s \<Rightarrow> [(''sensorId'', JStr s)]))\<rparr>)))))))))"

definition BulkTelemetryBodySchema :: "conversions \<Rightarrow> bulkTelemetryItem list schema" where
  "BulkTelemetryBodySchema cv = zObject (\<lambda>field.
     Option.bind (zArray (BulkTelemetryItemSchema cv) (field ''items'')) (\<lambda>items.
       if 1 \<le> length items \<and> length items \<le> 1000 then Some items else None))"

definition TelemetryThresholdsQuerySchema :: "string option schema" where
  "TelemetryThresholdsQuerySchema = zObject (\<lambda>field. zOptional trimmedId (field ''shipmentType''))"

text \<open>A limit that is absent and one that is null are stored alike.\<close>

definition limitSchema :: "conversions \<Rightarrow> rat option schema" where
  "limitSchema cv v = map_option (\<lambda>x. nullish x None) (zOptional (zNullable (zNumber (cv_number cv))) v)"

definition UpdateTelemetryThresholdsBodySchema :: "conversions \<Rightarrow> (string option \<times> thresholds) schema" where
  "UpdateTelemetryThresholdsBodySchema cv = zObject (\<lambda>field.
     Option.bind (zOptional trimmedId (field ''shipmentType'')) (\<lambda>shipmentType.
     Option.bind (limitSchema cv (field ''maxTemp'')) (\<lambda>maxTemp.
     Option.bind (limitSchema cv (field ''minTemp'')) (\<lambda>minTemp.
     Option.bind (limitSchema cv (field ''maxHumidity'')) (\<lambda>maxHumidity.
     Option.bind (limitSchema cv (field ''minHumidity'')) (\<lambda>minHumidity.
     Option.bind (limitSchema cv (field ''minBatteryLevel'')) (\<lambda>minBatteryLevel.
       Some (shipmentType, \<lparr>th_maxTemp = maxTemp, th_minTemp = minTemp, th_maxHumidity = maxHumidity,
         th_minHumidity = minHumidity, th_minBatteryLevel = minBatteryLevel\<rparr>))))))))"

record anomalyListQuery =
  al_cursor :: "string option"
  al_limit :: "int option"
  al_shipmentId :: "string option"
  al_severity :: "anomalySeverity option"
  al_type :: "anomalyType option"
  al_resolved :: "bool option"

text \<open>\<open>z.coerce.boolean\<close> is the truthiness of the value: of a string, whether it is non-empty.\<close>

definition zBoolean :: "bool schema" where
  "zBoolean v = Some (case v of JStr s \<Rightarrow> s \<noteq> [] | JNull \<Rightarrow> False | JUndef \<Rightarrow> False | JBool b \<Rightarrow> b | _ \<Rightarrow> True)"

definition AnomalyQuerySchema :: "conversions \<Rightarrow> anomalyListQuery schema" where
  "AnomalyQuerySchema cv = zObject (\<lambda>field.
     Option.bind (zOptional (zTrim zString) (field ''cursor'')) (\<lambda>cursor.
     Option.bind (zOptional (intRange 1 100 (cv_number cv)) (field ''limit'')) (\<lambda>limit.
     Option.bind (zOptional (zTrim zString) (field ''shipmentId'')) (\<lambda>shipmentId.
     Option.bind (zOptional (zEnum severity_str [LOW, MEDIUM, HIGH]) (field ''severity'')) (\<lambda>severity.
     Option.bind (zOptional (zEnum anomaly_type_str [TEMPERATURE_EXCEEDED, TEMPERATURE_BELOW_MIN,
        HUMIDITY_EXCEEDED, HUMIDITY_BELOW_MIN, BATTERY_LOW]) (field ''type'')) (\<lambda>ty.
     Option.bind (zOptional zBoolean (field ''resolved'')) (\<lambda>resolved.
       Some \<lparr>al_cursor = cursor, al_limit = limit, al_shipmentId = shipmentId, al_severity = severity,
         al_type = ty, al_resolved = resolved\<rparr>)))))))"

definition ResolveAnomalyParamsSchema :: "string schema" where
  "ResolveAnomalyParamsSchema = zObject (\<lambda>field. trimmedId (field ''id''))"

definition ResolveAnomalyBodySchema :: "string option schema" where
  "ResolveAnomalyBodySchema = zObject (\<lambda>field. zOptional (zMax 1000 (zTrim zString)) (field ''note''))"

section \<open>Handlers\<close>

datatype sensorPayload =
    Readings "telemetryDoc list"
  | Ingested nat "objectId list"
  | Limits string thresholds
  | Anomalies "anomalyDoc list"
  | Stats anomalyStats
  | Resolved anomalyDoc

record sensorServer = serverEnv +
  so_env :: sensingEnv
  so_encode :: "anomalyStats \<Rightarrow> string"
  so_decode :: "string \<Rightarrow> anomalyStats option"
  so_read :: conn
  so_write :: conn
  so_dbUp :: bool

definition getTelemetry :: "claims \<Rightarrow> telemetryListQuery \<Rightarrow> sensing \<Rightarrow> sensorPayload reply" where
  "getTelemetry user query s =
     (let page = tl_page query;
          p = getTelemetryService
                \<lparr>tq_page_no = (if truthy (tl_cursor query) then None else page),
                 tq_limit_no = nat (nullish (tl_limit query) 20), tq_shipmentId = tl_shipmentId query,
                 tq_organizationId = cl_organizationId user, tq_from = tl_from query, tq_to = tl_to query,
                 tq_docs = w_telemetry (sn_world s), tq_shipments = w_shipments (sn_world s)\<rparr> (tl_cursor query)
      in Envelope 200 True ''Telemetry retrieved'' (Some (Readings (page_data p)))
           (Some (case page of
                Some pg \<Rightarrow> if truthy (tl_cursor query) then CursorMeta (nextCursor p) (hasMore p)
                  else CursorPageMeta (nextCursor p) (hasMore p) pg
              | None \<Rightarrow> CursorMeta (nextCursor p) (hasMore p))))"

definition bulkIngest :: "sensorServer \<Rightarrow> bulkTelemetryItem list \<Rightarrow> sensing \<Rightarrow> sensorPayload reply result \<times> sensing" where
  "bulkIngest so items s =
     map_prod (map_sum id (\<lambda>(n, ids). created201 ''Bulk telemetry ingested'' (Ingested n ids))) id
       (bulkIngestTelemetry (so_env so) items s)"

definition organizationContext :: "claims \<Rightarrow> string result" where
  "organizationContext user = (case keep_truthy (cl_organizationId user) of
     None \<Rightarrow> throwApp 403 ''Organization context required'' (ErrorCodes FORBIDDEN)
   | Some org \<Rightarrow> Inr org)"

definition getTelemetryThresholds :: "claims \<Rightarrow> string option \<Rightarrow> sensing \<Rightarrow> sensorPayload reply result" where
  "getTelemetryThresholds user shipmentType s = map_sum id
     (\<lambda>org. let (ty, t) = getOrgTelemetryThresholdsService org shipmentType (sn_thresholds s)
            in ok200 ''Telemetry thresholds retrieved'' (Limits ty t)) (organizationContext user)"

definition putTelemetryThresholds ::
  "claims \<Rightarrow> string option \<times> thresholds \<Rightarrow> sensing \<Rightarrow> sensorPayload reply result \<times> sensing" where
  "putTelemetryThresholds user body s =
     (case organizationContext user of
        Inl e \<Rightarrow> (Inl e, s)
      | Inr org \<Rightarrow>
          (let ((ty, t), ds) = updateOrgTelemetryThresholdsService org (fst body) (snd body) (sn_thresholds s)
           in (Inr (ok200 ''Telemetry thresholds updated'' (Limits ty t)), s\<lparr>sn_thresholds := ds\<rparr>)))"

text \<open>The parsed \<open>resolved\<close> is a boolean, never a string, so the handler drops it.\<close>

definition getAnomalies :: "anomalyListQuery \<Rightarrow> sensing \<Rightarrow> sensorPayload reply" where
  "getAnomalies query s =
     (let p = getAnomaliesService
            \<lparr>aq_limit = nat (nullish (al_limit query) 20), aq_shipmentId = al_shipmentId query,
             aq_severity = map_option severity_str (al_severity query),
             aq_type = map_option anomaly_type_str (al_type query), aq_resolved = None,
             aq_docs = w_anomalies (sn_world s)\<rparr> (al_cursor query)
      in Envelope 200 True ''Anomalies retrieved'' (Some (Anomalies (page_data p)))
           (Some (CursorMeta (nextCursor p) (hasMore p))))"

definition getAnomalyStats :: "sensorServer \<Rightarrow> claims \<Rightarrow> sensing \<Rightarrow> sensorPayload reply result \<times> sensing" where
  "getAnomalyStats so user s =
     (let w = sn_world s;
          (r, redis') = getAnomalyStatsService (so_encode so) (so_decode so) (so_read so) (so_write so) (so_dbUp so)
             (cl_organizationId user) (w_anomalies w) (w_redis w)
      in (map_sum id (\<lambda>st. ok200 ''Anomaly stats retrieved'' (Stats st)) r, s\<lparr>sn_world := w\<lparr>w_redis := redis'\<rparr>\<rparr>))"

definition resolveAnomaly ::
  "sensorServer \<Rightarrow> claims \<Rightarrow> string \<Rightarrow> string option \<Rightarrow> sensing \<Rightarrow> sensorPayload reply result \<times> sensing" where
  "resolveAnomaly so user i note s =
     (let w = sn_world s;
          (r, xs) = resolveAnomalyService (en_now (se_env (so_env so)) 0) i (cl_userId user) note (w_anomalies w)
      in (map_sum id (\<lambda>a. ok200 ''Anomaly resolved'' (Resolved a)) r, s\<lparr>sn_world := w\<lparr>w_anomalies := xs\<rparr>\<rparr>))"

section \<open>Routes\<close>

datatype telemetryRoute = ThresholdsRoute | PutThresholdsRoute | TelemetryRoute | BulkTelemetryRoute

definition telemetryRouteOf :: "httpMethod \<Rightarrow> string list \<Rightarrow> telemetryRoute option" where
  "telemetryRouteOf m path = (case (m, map toLowerCase path) of
     (GET, p) \<Rightarrow> if p = [''thresholds''] then Some ThresholdsRoute else if p = [] then Some TelemetryRoute else None
   | (PUT, p) \<Rightarrow> if p = [''thresholds''] then Some PutThresholdsRoute else None
   | (POST, p) \<Rightarrow> if p = [''bulk''] then Some BulkTelemetryRoute else None
   | _ \<Rightarrow> None)"

primrec telemetryRoles :: "telemetryRoute \<Rightarrow> userRole list option" where
  "telemetryRoles ThresholdsRoute = Some [SUPER_ADMIN, ADMIN, MANAGER, VIEWER]"
| "telemetryRoles PutThresholdsRoute = Some [SUPER_ADMIN, ADMIN]"
| "telemetryRoles TelemetryRoute = None"
| "telemetryRoles BulkTelemetryRoute = None"

primrec telemetryServe ::
  "sensorServer \<Rightarrow> claims \<Rightarrow> request \<Rightarrow> sensing \<Rightarrow> telemetryRoute \<Rightarrow> sensorPayload reply result \<times> sensing" where
  "telemetryServe so user rq s ThresholdsRoute =
     andThen (queryOf so (\<lambda>_. TelemetryThresholdsQuerySchema) rq) s (\<lambda>ty. (getTelemetryThresholds user ty s, s))"
| "telemetryServe so user rq s PutThresholdsRoute =
     andThen (bodyOf so (UpdateTelemetryThresholdsBodySchema (hx_conversions so)) rq) s (\<lambda>body.
       putTelemetryThresholds user body s)"
| "telemetryServe so user rq s TelemetryRoute =
     andThen (queryOf so TelemetryQuerySchema rq) s (\<lambda>query. (Inr (getTelemetry user query s), s))"
| "telemetryServe so user rq s BulkTelemetryRoute =
     andThen (bodyOf so (BulkTelemetryBodySchema (hx_conversions so)) rq) s (\<lambda>items. bulkIngest so items s)"

definition telemetryRouter ::
  "sensorServer \<Rightarrow> httpMethod \<Rightarrow> string list \<Rightarrow> request \<Rightarrow> sensing \<Rightarrow> sensorPayload reply \<times> sensing" where
  "telemetryRouter so m path rq s =
     dispatch so False telemetryRoles (telemetryServe so) (w_redis (sn_world s)) (telemetryRouteOf m path) rq s"

datatype anomalyRoute = StatsRoute | AnomaliesRoute | ResolveRoute string

definition anomalyRouteOf :: "httpMethod \<Rightarrow> string list \<Rightarrow> anomalyRoute option" where
  "anomalyRouteOf m path = (case (m, path) of
     (GET, []) \<Rightarrow> Some AnomaliesRoute
   | (GET, [a]) \<Rightarrow> if toLowerCase a = ''stats'' then Some StatsRoute else None
   | (PATCH, [i, a]) \<Rightarrow> if toLowerCase a = ''resolve'' then Some (ResolveRoute i) else None
   | _ \<Rightarrow> None)"

primrec anomalyRoles :: "anomalyRoute \<Rightarrow> userRole list option" where
  "anomalyRoles StatsRoute = Some [ADMIN, MANAGER]"
| "anomalyRoles AnomaliesRoute = Some [ADMIN, MANAGER]"
| "anomalyRoles (ResolveRoute i) = Some [ADMIN, MANAGER]"

primrec anomalyServe ::
  "sensorServer \<Rightarrow> claims \<Rightarrow> request \<Rightarrow> sensing \<Rightarrow> anomalyRoute \<Rightarrow> sensorPayload reply result \<times> sensing" where
  "anomalyServe so user rq s StatsRoute = getAnomalyStats so user s"
| "anomalyServe so user rq s AnomaliesRoute =
     andThen (queryOf so AnomalyQuerySchema rq) s (\<lambda>query. (Inr (getAnomalies query s), s))"
| "anomalyServe so user rq s (ResolveRoute i) =
     andThen (bodyOf so ResolveAnomalyBodySchema rq) s (\<lambda>note.
     andThen (validatePart (hx_issues so) ResolveAnomalyParamsSchema (JObj [(''id'', JStr i)])) s (\<lambda>i.
       resolveAnomaly so user i note s))"

definition anomaliesRouter ::
  "sensorServer \<Rightarrow> httpMethod \<Rightarrow> string list \<Rightarrow> request \<Rightarrow> sensing \<Rightarrow> sensorPayload reply \<times> sensing" where
  "anomaliesRouter so m path rq s =
     dispatch so False anomalyRoles (anomalyServe so) (w_redis (sn_world s)) (anomalyRouteOf m path) rq s"


section \<open>Who changes what\<close>

primrec putsThresholds :: "telemetryRoute \<Rightarrow> bool" where
  "putsThresholds ThresholdsRoute = False"
| "putsThresholds PutThresholdsRoute = True"
| "putsThresholds TelemetryRoute = False"
| "putsThresholds BulkTelemetryRoute = False"

lemma announceReading_thresholds: "sn_thresholds (snd (announceReading senv k i t task s)) = sn_thresholds s"
  by (auto simp: announceReading_def pushStellarAnchorJob_def Let_def split: sum.splits prod.splits)

lemma ingestItem_thresholds: "sn_thresholds (snd (ingestItem senv k it s)) = sn_thresholds s"
proof (cases "resolveShipment (ErrorCodes NOT_FOUND) (bi_shipmentId it) (bi_sensorId it) (w_shipments (sn_world s))")
  case (Inr i)
  let ?t = "bulkRecord senv k i it"
  let ?s = "s\<lparr>sn_world := dropEta (se_env senv) i ((sn_world s)\<lparr>w_telemetry := w_telemetry (sn_world s) @ [?t]\<rparr>)\<rparr>"
  show ?thesis using announceReading_thresholds[of senv k i ?t "AfterBulk ?t" ?s] Inr
    by (auto simp: ingestItem_def Let_def split: prod.splits sum.splits)
qed (simp add: ingestItem_def)

lemma ingestItems_thresholds: "sn_thresholds (snd (ingestItems senv k its s)) = sn_thresholds s"
proof (induction its arbitrary: k s)
  case (Cons it its)
  then show ?case using ingestItem_thresholds[of senv k it s] Cons.IH
    by (auto split: prod.splits sum.splits) (metis snd_conv)+
qed simp

lemma bulk_thresholds: "sn_thresholds (snd (bulkIngestTelemetry senv its s)) = sn_thresholds s"
  using ingestItems_thresholds[of senv 0 its s] by (auto simp: bulkIngestTelemetry_def split: prod.splits sum.splits)

definition sameThresholds :: "sensing \<Rightarrow> sensing \<Rightarrow> bool" where
  "sameThresholds s s' \<longleftrightarrow> sn_thresholds s' = sn_thresholds s"

interpretation threshold_routes: guarded_routes telemetryRoles "telemetryServe env" putsThresholds "[SUPER_ADMIN, ADMIN]"
  sameThresholds for env
proof unfold_locales
  fix rt c rq s
  show "putsThresholds rt \<Longrightarrow> \<exists>rs. telemetryRoles rt = Some rs \<and> set rs \<subseteq> set [SUPER_ADMIN, ADMIN]"
    by (cases rt) auto
  show "\<not> putsThresholds rt \<Longrightarrow> sameThresholds s (snd (telemetryServe env c rq s rt))"
    by (cases rt) (simp_all add: sameThresholds_def andThen_def bulkIngest_def bulk_thresholds split: sum.split)
qed (simp add: sameThresholds_def)

primrec resolves :: "anomalyRoute \<Rightarrow> bool" where
  "resolves StatsRoute = False"
| "resolves AnomaliesRoute = False"
| "resolves (ResolveRoute i) = True"

definition sameAnomalies :: "sensing \<Rightarrow> sensing \<Rightarrow> bool" where
  "sameAnomalies s s' \<longleftrightarrow> w_anomalies (sn_world s') = w_anomalies (sn_world s)"

interpretation anomaly_routes: guarded_routes anomalyRoles "anomalyServe env" resolves "[ADMIN, MANAGER]" sameAnomalies for env
proof unfold_locales
  fix rt c rq s
  show "resolves rt \<Longrightarrow> \<exists>rs. anomalyRoles rt = Some rs \<and> set rs \<subseteq> set [ADMIN, MANAGER]"
    by (cases rt) auto
  show "\<not> resolves rt \<Longrightarrow> sameAnomalies s (snd (anomalyServe env c rq s rt))"
    by (cases rt) (simp_all add: sameAnomalies_def andThen_def getAnomalyStats_def Let_def case_prod_beta split: sum.split)
qed (simp add: sameAnomalies_def)

text \<open>An organization's thresholds are changed for that organization alone.\<close>

lemma threshold_update_other:
  assumes ne: "o' \<noteq> org"
  shows "findThreshold org ty (snd (updateOrgTelemetryThresholdsService o' shipmentType input ds)) = findThreshold org ty ds"
proof -
  let ?ty = "nullish shipmentType DEFAULT_SHIPMENT_TYPE"
  let ?doc = "\<lparr>td_organizationId = o', td_shipmentType = ?ty, td_thresholds = input\<rparr>"
  let ?u = "update_first (\<lambda>d. td_organizationId d = o' \<and> td_shipmentType d = ?ty) (\<lambda>_. ?doc) ds"
  have replaced: "findThreshold org ty (snd ?u) = findThreshold org ty ds"
    unfolding findThreshold_def using ne by (intro update_first_find_other) auto
  have appended: "findThreshold org ty (ds @ [?doc]) = findThreshold org ty ds"
    using ne by (induction ds) (simp_all add: findThreshold_def)
  show ?thesis
  proof (cases "fst ?u")
    case None
    then show ?thesis using appended
      by (simp add: updateOrgTelemetryThresholdsService_def Let_def case_prod_beta)
  next
    case (Some d)
    then show ?thesis using replaced
      by (simp add: updateOrgTelemetryThresholdsService_def Let_def case_prod_beta)
  qed
qed

lemma thresholds_of_others:
  assumes "cl_organizationId c \<noteq> Some org"
  shows "findThreshold org ty (sn_thresholds (snd (putTelemetryThresholds c body s))) = findThreshold org ty (sn_thresholds s)"
proof (cases "organizationContext c")
  case (Inl e)
  then show ?thesis by (simp add: putTelemetryThresholds_def)
next
  case (Inr o')
  then have "o' \<noteq> org" using assms
    by (cases "cl_organizationId c") (auto simp: organizationContext_def split: if_splits)
  then show ?thesis using Inr
    by (simp add: putTelemetryThresholds_def case_prod_beta threshold_update_other)
qed

text \<open>
  Any live token, of whatever role and organization, stores readings of any shipment: the schema's
  items are ingested as they are. Each names its shipment, so the sensor is never looked up.
\<close>

lemma any_token_ingests:
  assumes "authenticated so rq (w_redis (sn_world s)) = Inr c"
    and "bodyOf so (BulkTelemetryBodySchema (hx_conversions so)) rq = Inr items"
  shows "telemetryRouter so POST [''bulk''] rq s = answered so (bulkIngest so items s)"
  using assms by (simp add: telemetryRouter_def telemetryRouteOf_def toLowerCase_def to_lower_def
      dispatch_admitted admitted_any andThen_def)

lemma item_names_shipment:
  assumes "BulkTelemetryItemSchema cv v = Some it"
  shows "truthy (bi_shipmentId it)"
proof -
  obtain kvs where "v = JObj kvs" using assms
    by (cases v) (simp_all add: BulkTelemetryItemSchema_def zObject_def)
  with assms show ?thesis
    by (clarsimp simp: BulkTelemetryItemSchema_def zObject_def Option.bind_eq_Some_conv trimmedId_nonempty)
qed

lemma batch_bounds: "BulkTelemetryBodySchema cv v = Some its \<Longrightarrow> 1 \<le> length its \<and> length its \<le> 1000"
  by (auto simp: BulkTelemetryBodySchema_def zObject_def Option.bind_eq_Some_conv split: jval.splits if_splits)

text \<open>The listing of anomalies is the same whatever \<open>resolved\<close> asks for.\<close>

lemma resolved_filter_is_dropped: "getAnomalies (query\<lparr>al_resolved := b\<rparr>) s = getAnomalies query s"
  by (simp add: getAnomalies_def)

end
