(* ===== verification/Webhook_Http.thy ===== *)
theory Webhook_Http
  imports Http Ingestion Api_Keys Two_Factor
begin

text \<open>
  The HTTP interface of machine callers: \<open>src/src/modules/webhooks\<close> (\<open>iot.routes.ts\<close>, the schemas
  \<open>iot.validation.ts\<close> and \<open>stellar.webhook.validation.ts\<close>, both controllers) and
  \<open>src/src/shared/middleware/verifyStellarSignature.ts\<close>. A device shows an API key, the settlement
  service signs the bytes of its body. HMAC-SHA256 is a parameter. Ids in a body are ids as the driver
  renders them, and its numbers are finite.
\<close>

section \<open>Schemas\<close>

definition zCoerced :: "(jval \<Rightarrow> jsNumber) \<Rightarrow> rat schema" where
  "zCoerced num v = (case num v of Finite q \<Rightarrow> Some q | _ \<Rightarrow> None)"

definition zFloor :: "rat \<Rightarrow> rat schema \<Rightarrow> rat schema" where
  "zFloor a p v = (case p v of None \<Rightarrow> None | Some q \<Rightarrow> if a \<le> q then Some q else None)"

definition zUnion :: "'a schema \<Rightarrow> 'a schema \<Rightarrow> 'a schema" where
  "zUnion p q v = (case p v of Some x \<Rightarrow> Some x | None \<Rightarrow> q v)"

text \<open>A key of the parsed body, absent when the schema left it out; \<open>num\<close> renders a number.\<close>

definition presentKey :: "string \<Rightarrow> ('a \<Rightarrow> jval) \<Rightarrow> 'a option \<Rightarrow> (string \<times> jval) list" where
  "presentKey k render x = (case x of None \<Rightarrow> [] | Some y \<Rightarrow> [(k, render y)])"

definition numOf :: "(rat \<Rightarrow> string) \<Rightarrow> rat \<Rightarrow> jval" where
  "numOf num q = JNum (num q)"

definition normalizedTelemetrySchema :: "conversions \<Rightarrow> (rat \<Rightarrow> string) \<Rightarrow> iotWebhookBody schema" where
  "normalizedTelemetrySchema cv num = zStrict [''sensorId'', ''shipmentId'', ''temperature'', ''humidity'', ''latitude'',
      ''longitude'', ''batteryLevel'', ''timestamp'', ''shockMagnitude'', ''gpsLost''] (zObject (\<lambda>field.
     Option.bind (zOptional (zMin 1 zString) (field ''sensorId'')) (\<lambda>sensorId.
     Option.bind (zMin 1 zString (field ''shipmentId'')) (\<lambda>shipmentId.
     Option.bind (zBetween (-50) 100 (cv_number cv) (field ''temperature'')) (\<lambda>temperature.
     Option.bind (zCoerced (cv_number cv) (field ''humidity'')) (\<lambda>humidity.
     Option.bind (zCoerced (cv_number cv) (field ''latitude'')) (\<lambda>latitude.
     Option.bind (zCoerced (cv_number cv) (field ''longitude'')) (\<lambda>longitude.
     Option.bind (zOptional (zBetween 0 100 (cv_number cv)) (field ''batteryLevel'')) (\<lambda>batteryLevel.
     Option.bind (cv_date cv (field ''timestamp'')) (\<lambda>timestamp.
     Option.bind (zOptional (zFloor 0 (zCoerced (cv_number cv))) (field ''shockMagnitude'')) (\<lambda>shock.
     Option.bind (zOptional zFlag (field ''gpsLost'')) (\<lambda>gpsLost.
       Some (ByShipment shipmentId sensorId temperature latitude longitude
         \<lparr>io_humidity = humidity, io_batteryLevel = batteryLevel, io_timestamp = timestamp,
          io_shockMagnitude = shock, io_gpsLost = gpsLost,
          io_body = JObj (presentKey ''sensorId'' JStr sensorId @ [(''shipmentId'', JStr shipmentId),
            (''temperature'', numOf num temperature), (''humidity'', numOf num humidity),
            (''latitude'', numOf num latitude), (''longitude'', numOf num longitude)]
            @ presentKey ''batteryLevel'' (numOf num) batteryLevel @ [(''timestamp'', JDate timestamp)]
            @ presentKey ''shockMagnitude'' (numOf num) shock @ presentKey ''gpsLost'' JBool gpsLost)\<rparr>)))))))))))))"

definition locationSchema :: "conversions \<Rightarrow> (rat \<times> rat) schema" where
  "locationSchema cv = zStrict [''lat'', ''lng''] (zObject (\<lambda>field.
     Option.bind (zCoerced (cv_number cv) (field ''lat'')) (\<lambda>lat.
     Option.bind (zCoerced (cv_number cv) (field ''lng'')) (\<lambda>lng. Some (lat, lng)))))"

definition sensorTelemetrySchema :: "conversions \<Rightarrow> (rat \<Rightarrow> string) \<Rightarrow> iotWebhookBody schema" where
  "sensorTelemetrySchema cv num = zStrict [''sensorId'', ''temp'', ''humidity'', ''location'', ''batteryLevel'', ''timestamp'',
      ''shockMagnitude'', ''gpsLost''] (zObject (\<lambda>field.
     Option.bind (zMin 1 zString (field ''sensorId'')) (\<lambda>sensorId.
     Option.bind (zBetween (-50) 100 (cv_number cv) (field ''temp'')) (\<lambda>temp.
     Option.bind (zCoerced (cv_number cv) (field ''humidity'')) (\<lambda>humidity.
     Option.bind (locationSchema cv (field ''location'')) (\<lambda>(lat, lng).
     Option.bind (zOptional (zBetween 0 100 (cv_number cv)) (field ''batteryLevel'')) (\<lambda>batteryLevel.
     Option.bind (cv_date cv (field ''timestamp'')) (\<lambda>timestamp.
     Option.bind (zOptional (zFloor 0 (zCoerced (cv_number cv))) (field ''shockMagnitude'')) (\<lambda>shock.
     Option.bind (zOptional zFlag (field ''gpsLost'')) (\<lambda>gpsLost.
       Some (BySensor sensorId temp lat lng
         \<lparr>io_humidity = humidity, io_batteryLevel = batteryLevel, io_timestamp = timestamp,
          io_shockMagnitude = shock, io_gpsLost = gpsLost,
          io_body = JObj ([(''sensorId'', JStr sensorId), (''temp'', numOf num temp), (''humidity'', numOf num humidity),
            (''location'', JObj [(''lat'', numOf num lat), (''lng'', numOf num lng)])]
            @ presentKey ''batteryLevel'' (numOf num) batteryLevel @ [(''timestamp'', JDate timestamp)]
            @ presentKey ''shockMagnitude'' (numOf num) shock @ presentKey ''gpsLost'' JBool gpsLost)\<rparr>)))))))))))"

definition IotWebhookBodySchema :: "conversions \<Rightarrow> (rat \<Rightarrow> string) \<Rightarrow> iotWebhookBody schema" where
  "IotWebhookBodySchema cv num = zUnion (normalizedTelemetrySchema cv num) (sensorTelemetrySchema cv num)"

record stellarPayload =
  sp_id :: string
  sp_type :: webhookType
  sp_paymentId :: string
  sp_transactionHash :: string
  sp_amount :: rat
  sp_timestamp :: string
  sp_signature :: "string option"

primrec webhook_type_str :: "webhookType \<Rightarrow> string" where
  "webhook_type_str Release = ''release''"
| "webhook_type_str Escrow = ''escrow''"
| "webhook_type_str Failed = ''failed''"

definition StellarWebhookPayloadSchema :: "conversions \<Rightarrow> stellarPayload schema" where
  "StellarWebhookPayloadSchema cv = zObject (\<lambda>field.
     Option.bind (zString (field ''id'')) (\<lambda>i.
     Option.bind (zEnum webhook_type_str [Release, Escrow, Failed] (field ''type'')) (\<lambda>ty.
     Option.bind (zString (field ''paymentId'')) (\<lambda>paymentId.
     Option.bind (zString (field ''transactionHash'')) (\<lambda>transactionHash.
     Option.bind (zNumber (cv_number cv) (field ''amount'')) (\<lambda>amount.
     Option.bind (Option.bind (zString (field ''timestamp'')) (\<lambda>s. map_option (\<lambda>_. s) (cv_dateTime cv s))) (\<lambda>timestamp.
     Option.bind (zOptional zString (field ''signature'')) (\<lambda>signature.
       Some \<lparr>sp_id = i, sp_type = ty, sp_paymentId = paymentId, sp_transactionHash = transactionHash,
         sp_amount = amount, sp_timestamp = timestamp, sp_signature = signature\<rparr>))))))))"

section \<open>Requests of machines\<close>

text \<open>\<open>rawBody\<close> is what the JSON parser of the application read, and is absent when it read nothing.\<close>

record hookRequest =
  hr_apiKey :: "string option"
  hr_signature :: "string option"
  hr_rawBody :: "byte list option"
  hr_body :: jval

record hookServer = serverEnv +
  ho_sensing :: sensingEnv
  ho_keys :: keyEnv
  ho_pay :: payEnv
  ho_blockNow :: millis
  ho_blockUp :: bool
  ho_secret :: "string option"
    \<comment> \<open>\<open>STELLAR_WEBHOOK_SECRET\<close>\<close>
  ho_hmac :: "string \<Rightarrow> byte list \<Rightarrow> byte list"

definition verifyStellarSignature :: "hookServer \<Rightarrow> hookRequest \<Rightarrow> unit result" where
  "verifyStellarSignature ho rq =
     (if \<not> truthy (ho_secret ho)
      then throwApp 500 ''Stellar webhook secret not configured'' (ErrorCodes STELLAR_CONFIG)
      else if \<not> truthy (hr_signature rq)
      then throwApp 401 ''Missing X-Stellar-Signature header'' (ErrorCodes UNAUTHORIZED)
      else case hr_rawBody rq of
          None \<Rightarrow> throwApp 400 ''Missing request body'' (ErrorCodes BAD_REQUEST)
        | Some rawBody \<Rightarrow>
            (let expected = to_hex (ho_hmac ho (the (ho_secret ho)) rawBody);
                 sigBuffer = from_hex (the (hr_signature rq));
                 expectedBuffer = from_hex expected
             in if length sigBuffer \<noteq> length expectedBuffer \<or> sigBuffer \<noteq> expectedBuffer
                then throwApp 401 ''Invalid webhook signature'' (ErrorCodes UNAUTHORIZED)
                else Inr ()))"

section \<open>Handlers\<close>

datatype hookPayload = Accepted telemetryDoc | Processed webhookResult

text \<open>The state: the collections of the sensors and of the world, and the API keys.\<close>

type_synonym hookWorld = "sensing \<times> apiKey list"

definition payPart :: "world \<Rightarrow> paySystem" where
  "payPart w = \<lparr>ps_payments = w_payments w, ps_blocks = w_blocks w, ps_sent = w_sent w, ps_audit = w_audit w\<rparr>"

definition withPay :: "paySystem \<Rightarrow> hookWorld \<Rightarrow> hookWorld" where
  "withPay p w = ((fst w)\<lparr>sn_world := (sn_world (fst w))\<lparr>w_payments := ps_payments p, w_blocks := ps_blocks p,
     w_sent := ps_sent p, w_audit := ps_audit p\<rparr>\<rparr>, snd w)"

definition iotWebhookController ::
  "hookServer \<Rightarrow> iotWebhookBody \<Rightarrow> hookWorld \<Rightarrow> hookPayload reply result \<times> hookWorld" where
  "iotWebhookController ho body w =
     (let (r, s) = processIotWebhook (ho_sensing ho) body (fst w)
      in (map_sum id (\<lambda>t. Envelope 202 True ''Telemetry received and queued for Stellar anchoring''
            (Some (Accepted t)) None) r, (s, snd w)))"

definition handleStellarWebhookController ::
  "hookServer \<Rightarrow> stellarPayload \<Rightarrow> hookWorld \<Rightarrow> hookPayload reply result \<times> hookWorld" where
  "handleStellarWebhookController ho payload w =
     (let (r, p) = handleStellarWebhookEvent (ho_pay ho) (ho_blockNow ho) (ho_blockUp ho) (sp_type payload)
            (sp_paymentId payload) (sp_transactionHash payload) (payPart (sn_world (fst w)))
      in (map_sum id (\<lambda>x. ok200 ''Webhook processed successfully'' (Processed x)) r, withPay p w))"

section \<open>Routes\<close>

datatype hookRoute = IotRoute | StellarRoute

definition hookRouteOf :: "httpMethod \<Rightarrow> string list \<Rightarrow> hookRoute option" where
  "hookRouteOf m path =
     (case (m, path) of
        (POST, [p]) \<Rightarrow> (if toLowerCase p = ''iot'' then Some IotRoute
           else if toLowerCase p = ''stellar'' then Some StellarRoute else None)
      | _ \<Rightarrow> None)"

text \<open>The identity of the key is attached to the request and read by nothing after it.\<close>

definition keyPassed :: "hookServer \<Rightarrow> hookRequest \<Rightarrow> hookWorld \<Rightarrow> apiKeyIdentity result \<times> hookWorld" where
  "keyPassed ho rq w =
     (let (r, ks) = requireApiKey (ho_keys ho) (hr_apiKey rq)
            \<lparr>ks_keys = snd w, ks_audit = w_audit (sn_world (fst w))\<rparr>
      in (r, (fst w, ks_keys ks)))"

primrec hookServe :: "hookServer \<Rightarrow> hookRequest \<Rightarrow> hookWorld \<Rightarrow> hookRoute \<Rightarrow> hookPayload reply result \<times> hookWorld" where
  "hookServe ho rq w IotRoute =
     (let (k, w1) = keyPassed ho rq w
      in andThen k w1 (\<lambda>identity.
         andThen (validatePart (hx_issues ho) (IotWebhookBodySchema (hx_conversions ho) (se_num (ho_sensing ho)))
                    (hr_body rq)) w1 (\<lambda>body. iotWebhookController ho body w1)))"
| "hookServe ho rq w StellarRoute =
     andThen (verifyStellarSignature ho rq) w (\<lambda>u.
     andThen (validatePart (hx_issues ho) (StellarWebhookPayloadSchema (hx_conversions ho)) (hr_body rq)) w (\<lambda>payload.
       handleStellarWebhookController ho payload w))"

definition webhooksRouter ::
  "hookServer \<Rightarrow> httpMethod \<Rightarrow> string list \<Rightarrow> hookRequest \<Rightarrow> hookWorld \<Rightarrow> hookPayload reply \<times> hookWorld" where
  "webhooksRouter ho m path rq w = answered ho
     (case hookRouteOf m path of None \<Rightarrow> (Inr RouteNotFound, w) | Some rt \<Rightarrow> hookServe ho rq w rt)"


section \<open>Who gets through\<close>

text \<open>The signature is compared as the bytes it decodes to; what follows the first bad pair is ignored.\<close>

lemma verifyStellar_iff:
  "verifyStellarSignature ho rq = Inr () \<longleftrightarrow>
     (\<exists>secret signature rawBody. ho_secret ho = Some secret \<and> secret \<noteq> [] \<and> hr_signature rq = Some signature
        \<and> signature \<noteq> [] \<and> hr_rawBody rq = Some rawBody \<and> from_hex signature = ho_hmac ho secret rawBody)"
  by (cases "ho_secret ho"; cases "hr_signature rq"; cases "hr_rawBody rq")
    (auto simp: verifyStellarSignature_def Let_def throwApp_def)

lemma requireApiKey_keys:
  "ks_keys s' = ks_keys s \<Longrightarrow> fst (requireApiKey env h s') = fst (requireApiKey env h s)"
  by (auto simp: requireApiKey_def validateApiKey_def split: option.split)

lemma requireApiKey_refused: "fst (requireApiKey env h s) = Inl e \<Longrightarrow> snd (requireApiKey env h s) = s"
  by (auto simp: requireApiKey_def validateApiKey_def split: option.splits if_splits)

lemma requireApiKey_accepted:
  "fst (requireApiKey env h s) = Inr d \<Longrightarrow>
   \<exists>raw k. h = Some raw \<and> k \<in> set (ks_keys s) \<and> ak_isActive k \<and> ke_compare env raw (ak_keyHash k) \<and> ai_id d = ak_id k"
  using validateApiKey_sound[of env "the h" s]
  by (cases h) (auto simp: requireApiKey_def split: option.splits prod.splits if_splits)

lemma keyPassed_refused: "fst (keyPassed ho rq w) = Inl e \<Longrightarrow> snd (keyPassed ho rq w) = w"
  by (auto simp: keyPassed_def case_prod_beta dest: requireApiKey_refused)

lemma keyPassed_sensing [simp]: "fst (snd (keyPassed ho rq w)) = fst w"
  by (simp add: keyPassed_def case_prod_beta)

lemma keyPassed_accepted:
  "fst (keyPassed ho rq w) = Inr d \<Longrightarrow>
   \<exists>raw k. hr_apiKey rq = Some raw \<and> k \<in> set (snd w) \<and> ak_isActive k \<and> ke_compare (ho_keys ho) raw (ak_keyHash k)"
  by (auto simp: keyPassed_def case_prod_beta dest!: requireApiKey_accepted)

lemma hook_routes [simp]:
  "hookRouteOf POST [''iot''] = Some IotRoute" "hookRouteOf POST [''stellar''] = Some StellarRoute"
  by (simp_all add: hookRouteOf_def toLowerCase_def to_lower_def)

text \<open>Nothing changes without a live device key or the signature of the body.\<close>

lemma hooks_guarded:
  assumes "snd (webhooksRouter ho m path rq w) \<noteq> w"
  shows "verifyStellarSignature ho rq = Inr ()
    \<or> (\<exists>raw k. hr_apiKey rq = Some raw \<and> k \<in> set (snd w) \<and> ak_isActive k \<and> ke_compare (ho_keys ho) raw (ak_keyHash k))"
proof (cases "hookRouteOf m path")
  case None
  then show ?thesis using assms by (simp add: webhooksRouter_def)
next
  case (Some rt)
  show ?thesis
  proof (cases rt)
    case StellarRoute
    then show ?thesis using assms Some
      by (cases "verifyStellarSignature ho rq") (auto simp: webhooksRouter_def andThen_def)
  next
    case IotRoute
    show ?thesis
    proof (cases "fst (keyPassed ho rq w)")
      case (Inl e)
      then show ?thesis using assms Some IotRoute keyPassed_refused[OF Inl]
        by (simp add: webhooksRouter_def andThen_def case_prod_beta)
    qed (use keyPassed_accepted in blast)
  qed
qed

text \<open>A refused key stores no reading.\<close>

lemma refused_key:
  assumes "fst (requireApiKey (ho_keys ho) (hr_apiKey rq) s) = Inl e" and "ks_keys s = snd w"
  shows "webhooksRouter ho POST [''iot''] rq w = (Failure (errorMiddleware (hx_parse ho) e), w)"
proof -
  have "fst (keyPassed ho rq w) = Inl e"
    using assms requireApiKey_keys[of "\<lparr>ks_keys = snd w, ks_audit = w_audit (sn_world (fst w))\<rparr>" s "ho_keys ho" "hr_apiKey rq"]
    by (simp add: keyPassed_def case_prod_beta)
  then show ?thesis using keyPassed_refused[of ho rq w e]
    by (simp add: webhooksRouter_def andThen_def answered_def case_prod_beta)
qed

section \<open>What a device reports\<close>

text \<open>
  A key of any organization, bound to any shipment or to none, stores a reading for the shipment the
  body names, which need not exist.
\<close>

lemma any_key_feeds_any_shipment:
  assumes "k \<in> set (snd w)" and "ak_isActive k" and "hr_apiKey rq = Some raw" and "raw \<noteq> []"
    and "ke_compare (ho_keys ho) raw (ak_keyHash k)"
    and "IotWebhookBodySchema (hx_conversions ho) (se_num (ho_sensing ho)) (hr_body rq) = Some (ByShipment i sensor tmp lat lng fs)"
    and "i \<noteq> []"
  shows "\<exists>t. w_telemetry (sn_world (fst (snd (webhooksRouter ho POST [''iot''] rq w))))
        = w_telemetry (sn_world (fst w)) @ [t] \<and> te_shipmentId t = i \<and> te_temperature t = tmp"
proof -
  let ?ks = "\<lparr>ks_keys = snd w, ks_audit = w_audit (sn_world (fst w))\<rparr>"
  have "fst (validateApiKey (ho_keys ho) raw ?ks) \<noteq> None"
    using validateApiKey_complete[of k ?ks "ho_keys ho" raw] assms by simp
  then obtain d where d: "fst (keyPassed ho rq w) = Inr d"
    using assms(3,4) by (auto simp: keyPassed_def requireApiKey_def case_prod_beta split: option.splits prod.splits)
  let ?t = "webhookRecord (ho_sensing ho) i (normalizeIotWebhookBody (ByShipment i sensor tmp lat lng fs))"
  have "w_telemetry (sn_world (snd (processIotWebhook (ho_sensing ho) (ByShipment i sensor tmp lat lng fs) (fst w))))
      = w_telemetry (sn_world (fst w)) @ [?t]"
    using assms(7)
    by (auto simp: processIotWebhook_def resolveShipment_def announceReading_def pushStellarAnchorJob_def Let_def
        split: sum.splits prod.splits)
  moreover have "te_shipmentId ?t = i \<and> te_temperature ?t = tmp"
    by (simp add: webhookRecord_def createTelemetryRecord_def)
  ultimately show ?thesis using d assms(6)
    by (auto simp: webhooksRouter_def andThen_def validatePart_def iotWebhookController_def case_prod_beta)
qed

text \<open>A null is coerced to zero: a reading without a temperature is a reading of 0 degrees.\<close>

lemma null_reads_as_zero:
  "cv_number cv JNull = Finite 0 \<Longrightarrow> zBetween (-50) 100 (cv_number cv) JNull = Some 0 \<and> zCoerced (cv_number cv) JNull = Some 0"
  by (simp add: zBetween_def zCoerced_def)

section \<open>What a settlement callback does\<close>

lemma signed_callback:
  assumes "verifyStellarSignature ho rq = Inr ()"
    and "StellarWebhookPayloadSchema (hx_conversions ho) (hr_body rq) = Some payload"
  shows "snd (webhooksRouter ho POST [''stellar''] rq w) = withPay (snd (handleStellarWebhookEvent (ho_pay ho)
     (ho_blockNow ho) (ho_blockUp ho) (sp_type payload) (sp_paymentId payload) (sp_transactionHash payload)
     (payPart (sn_world (fst w))))) w"
  using assms by (simp add: webhooksRouter_def andThen_def validatePart_def handleStellarWebhookController_def case_prod_beta)

lemma payPart_simps [simp]:
  "w_payments (sn_world (fst (withPay p w))) = ps_payments p" "w_blocks (sn_world (fst (withPay p w))) = ps_blocks p"
  "ps_payments (payPart v) = w_payments v" "ps_blocks (payPart v) = w_blocks v"
  by (simp_all add: withPay_def payPart_def)

lemma unsigned_callback: "verifyStellarSignature ho rq \<noteq> Inr () \<Longrightarrow> snd (webhooksRouter ho POST [''stellar''] rq w) = w"
  by (cases "verifyStellarSignature ho rq") (simp_all add: webhooksRouter_def andThen_def)

text \<open>One signed release; nothing of the payment's earlier status is asked, nor whether it came before.\<close>

lemma signed_release:
  assumes "verifyStellarSignature ho rq = Inr ()"
    and "StellarWebhookPayloadSchema (hx_conversions ho) (hr_body rq) = Some payload" and "sp_type payload = Release"
    and "getPaymentById (sp_paymentId payload) (w_payments (sn_world (fst w))) = Some p"
    and "sp_transactionHash payload \<noteq> []" and "pe_socketReady (ho_pay ho)" and "ho_blockUp ho"
    and "pe_oid (ho_pay ho) (pm_shipmentId p) = Inr (pm_shipmentId p)"
    and "w' = snd (webhooksRouter ho POST [''stellar''] rq w)"
  shows "(\<exists>p'. getPaymentById (sp_paymentId payload) (w_payments (sn_world (fst w'))) = Some p' \<and> pm_status p' = RELEASED
       \<and> pm_stellarTxHash p' = Some (sp_transactionHash payload) \<and> pm_amount p' = pm_amount p
       \<and> pm_shipmentId p' = pm_shipmentId p)
     \<and> (\<forall>j. j \<noteq> sp_paymentId payload \<longrightarrow> getPaymentById j (w_payments (sn_world (fst w')))
          = getPaymentById j (w_payments (sn_world (fst w))))
     \<and> (\<exists>b. w_blocks (sn_world (fst w')) = w_blocks (sn_world (fst w)) @ [b]
          \<and> lb_milestoneEvent b = OfStatus SETTLEMENT_COMPLETED \<and> lb_shipmentId b = pm_shipmentId p
          \<and> lb_transactionHash b = Some (sp_transactionHash payload))"
  unfolding assms(9) signed_callback[OF assms(1,2)] payPart_simps assms(3) webhook_payments
    webhook_blocks[where s = "payPart (sn_world (fst w))", unfolded payPart_simps, OF assms(4,6,8,5,7)]
  using updatePaymentStatus_read[OF assms(4)] updatePaymentStatus_frame assms(5)
  by (simp add: webhookStatus_def webhookHash_def)


text \<open>The next delivery of the same request, at another time, is a release again.\<close>

lemma release_repeats:
  assumes "verifyStellarSignature ho rq = Inr ()"
    and "StellarWebhookPayloadSchema (hx_conversions ho) (hr_body rq) = Some payload" and "sp_type payload = Release"
    and "getPaymentById (sp_paymentId payload) (w_payments (sn_world (fst w))) = Some p"
    and "sp_transactionHash payload \<noteq> []" and "pe_socketReady (ho_pay ho)" and "ho_blockUp ho"
    and "pe_oid (ho_pay ho) (pm_shipmentId p) = Inr (pm_shipmentId p)"
    and "w1 = snd (webhooksRouter ho POST [''stellar''] rq w)"
    and "pe_socketReady env" and "pe_oid env (pm_shipmentId p) = Inr (pm_shipmentId p)"
    and "w2 = snd (webhooksRouter (ho\<lparr>ho_pay := env, ho_blockNow := later\<rparr>) POST [''stellar''] rq w1)"
  shows "\<exists>b1 b2. w_blocks (sn_world (fst w1)) = w_blocks (sn_world (fst w)) @ [b1]
     \<and> w_blocks (sn_world (fst w2)) = w_blocks (sn_world (fst w)) @ [b1, b2]
     \<and> (\<forall>b\<in>{b1, b2}. lb_milestoneEvent b = OfStatus SETTLEMENT_COMPLETED \<and> lb_shipmentId b = pm_shipmentId p
          \<and> lb_transactionHash b = Some (sp_transactionHash payload))"
proof -
  note one = signed_release[OF assms(1-9)]
  then obtain p1 where p1: "getPaymentById (sp_paymentId payload) (w_payments (sn_world (fst w1))) = Some p1"
    "pm_shipmentId p1 = pm_shipmentId p" by blast
  let ?ho = "ho\<lparr>ho_pay := env, ho_blockNow := later\<rparr>"
  have v: "verifyStellarSignature ?ho rq = Inr ()" using assms(1) unfolding verifyStellar_iff by simp
  from signed_release[OF v _ assms(3) p1(1) assms(5) _ _ _ assms(12)] one show ?thesis
    using assms(2,7,10,11) p1(2) by auto
qed

end
