(* ===== verification/Application.thy ===== *)
theory Application
  imports Auth_Http Rate_Limiter Request_Schemas
begin

text \<open>
  The application of \<open>src/src/app.ts\<close>: what a request meets before a router, in the order of the
  code. \<open>src/src/config/cors.ts\<close> judges its origin, the body parsers read it, the limiters of
  \<open>rateLimiter.ts\<close> count it, and the first mounted prefix that fits hands the rest of the path to
  its router. The routers are an argument, and so is the place of Redis in their state. A preflight
  request is answered by the cors package and is not in \<open>httpMethod\<close>.
\<close>

section \<open>Origins\<close>

text \<open>\<open>ALLOWED_ORIGINS\<close> is read from the process environment at every request.\<close>

definition getAllowedOrigins :: "string option \<Rightarrow> string list" where
  "getAllowedOrigins raw = filter (\<lambda>o'. o' \<noteq> []) (map trim (splitOn (CHR '','') (nullish raw [])))"

definition isAllowedOrigin :: "string \<Rightarrow> string list \<Rightarrow> bool" where
  "isAllowedOrigin origin allowedOrigins \<longleftrightarrow> origin \<in> set allowedOrigins"

record corsOptions =
  co_origin :: bool
  co_credentials :: bool

definition corsOptionsDelegate :: "string option \<Rightarrow> string option \<Rightarrow> corsOptions result" where
  "corsOptionsDelegate raw requestOrigin =
     (let allowedOrigins = getAllowedOrigins raw in
      if \<not> truthy requestOrigin then Inr \<lparr>co_origin = True, co_credentials = True\<rparr>
      else if allowedOrigins = [] \<or> isAllowedOrigin (the requestOrigin) allowedOrigins
      then Inr \<lparr>co_origin = True, co_credentials = True\<rparr>
      else Inl (PlainError ''Not allowed by CORS''))"

section \<open>Prefixes\<close>

datatype mount =
    HealthMount | AuthMount | UsersMount | OrganizationsMount | InvitationsMount | ApiKeysMount
  | ShipmentsMount | PaymentsMount | PublicTrackingMount | WebhooksMount | AnalyticsMount
  | AnomaliesMount | TelemetryMount | AuditLogsMount | ActivityMount | TemplatesMount | LedgerMount
  | EventsMount | NotificationsMount | DocsMount

text \<open>\<open>app.use\<close> compares segments without regard to case and hands on what follows the prefix.\<close>

definition afterPrefix :: "string list \<Rightarrow> string list \<Rightarrow> string list option" where
  "afterPrefix prefix path =
     (if length prefix \<le> length path \<and> map toLowerCase (take (length prefix) path) = prefix
      then Some (drop (length prefix) path) else None)"

definition mounts :: "bool \<Rightarrow> (string list \<times> mount) list" where
  "mounts production =
     [([''api'', ''health''], HealthMount), ([''api'', ''auth''], AuthMount), ([''api'', ''users''], UsersMount),
      ([''api'', ''organizations''], OrganizationsMount), ([''api'', ''company'', ''invitations''], InvitationsMount),
      ([''api'', ''company'', ''api-keys''], ApiKeysMount), ([''api'', ''shipments''], ShipmentsMount),
      ([''api'', ''payments''], PaymentsMount), ([''api'', ''settlements''], PaymentsMount),
      ([''api'', ''public'', ''tracking''], PublicTrackingMount), ([''api'', ''webhooks''], WebhooksMount),
      ([''api'', ''analytics''], AnalyticsMount), ([''api'', ''anomalies''], AnomaliesMount),
      ([''api'', ''telemetry''], TelemetryMount), ([''api'', ''audit-logs''], AuditLogsMount),
      ([''api'', ''activity''], ActivityMount), ([''api'', ''shipment-templates''], TemplatesMount),
      ([''api'', ''ledger''], LedgerMount), ([''api'', ''events''], EventsMount),
      ([''api'', ''notifications''], NotificationsMount)]
     @ (if production then [] else [([''api-docs''], DocsMount)])"

fun firstMount :: "(string list \<times> mount) list \<Rightarrow> string list \<Rightarrow> (mount \<times> string list) option" where
  "firstMount [] path = None"
| "firstMount ((prefix, m) # ms) path =
     (case afterPrefix prefix path of Some rest \<Rightarrow> Some (m, rest) | None \<Rightarrow> firstMount ms path)"

definition mountOf :: "bool \<Rightarrow> string list \<Rightarrow> (mount \<times> string list) option" where
  "mountOf production path = firstMount (mounts production) path"

section \<open>Limiters\<close>

datatype limiter = Standard | Strict | Login | Otp

definition limiterConfigOf :: "bool \<Rightarrow> limiter \<Rightarrow> limiterConfig" where
  "limiterConfigOf production k = (case k of
     Standard \<Rightarrow> standardLimiter (\<not> production) | Strict \<Rightarrow> strictLimiter | Login \<Rightarrow> loginLimiter | Otp \<Rightarrow> otpLimiter)"

primrec limiterMessage :: "limiter \<Rightarrow> string" where
  "limiterMessage Standard = ''Too many requests, please try again later.''"
| "limiterMessage Strict = ''Too many requests, please slow down.''"
| "limiterMessage Login = ''Too many login attempts from this IP, please try again after 15 minutes.''"
| "limiterMessage Otp = ''Too many OTP requests, please try again later.''"

definition pathLimiters :: "(string list \<times> limiter) list" where
  "pathLimiters =
     [([''api'', ''auth'', ''login''], Login), ([''api'', ''auth'', ''signup''], Strict),
      ([''api'', ''auth'', ''forgot-password''], Otp), ([''api'', ''auth'', ''reset-password''], Otp),
      ([''api'', ''auth'', ''2fa'', ''verify''], Otp),
      ([''api'', ''auth'', ''2fa'', ''backup-codes'', ''regenerate''], Strict),
      ([''api'', ''public'', ''tracking''], Strict)]"

definition limitersOf :: "string list \<Rightarrow> limiter list" where
  "limitersOf path = Standard # map snd (filter (\<lambda>(prefix, k). afterPrefix prefix path \<noteq> None) pathLimiters)"

text \<open>
  Each limiter has a store of its own; the Redis behind them is the one of the routers' state, so the
  \<open>ls_redis\<close> of a store is read from there and written back.
\<close>

record 'w appState =
  ap_stores :: "limiter \<Rightarrow> limiterState"
  ap_world :: 'w

record 'w appServer =
  as_production :: bool
  as_allowedOrigins :: "string option"
  as_redis :: "'w \<Rightarrow> redis"
  as_withRedis :: "redis \<Rightarrow> 'w \<Rightarrow> 'w"
  as_parseError :: "exn \<Rightarrow> http_error"
    \<comment> \<open>the error middleware\<close>

definition storeOf :: "'w appServer \<Rightarrow> limiter \<Rightarrow> 'w appState \<Rightarrow> limiterState" where
  "storeOf srv k s = (ap_stores s k)\<lparr>ls_redis := as_redis srv (ap_world s)\<rparr>"

definition putStore :: "'w appServer \<Rightarrow> limiter \<Rightarrow> limiterState \<Rightarrow> 'w appState \<Rightarrow> 'w appState" where
  "putStore srv k st s = s\<lparr>ap_stores := (ap_stores s)(k := st),
     ap_world := as_withRedis srv (ls_redis st) (ap_world s)\<rparr>"

text \<open>
  What a request brings: the id and the origin it names, the address the limiters count, what the
  body parsers make of it, and what each limiter meets.
\<close>

record appRequest =
  aq_requestId :: "string option"
  aq_uuid :: string
  aq_origin :: "string option"
  aq_address :: string
  aq_parsed :: "unit result"
  aq_met :: "limiter \<Rightarrow> limiterEnv"

record 'd appResponse =
  ar_requestId :: string
  ar_reply :: "'d reply"

definition requestId :: "appRequest \<Rightarrow> string" where
  "requestId rq = nullish (aq_requestId rq) (aq_uuid rq)"

text \<open>The limiters in their order; the first that refuses answers with the seconds to wait.\<close>

fun throttle ::
  "'w appServer \<Rightarrow> appRequest \<Rightarrow> limiter list \<Rightarrow> 'w appState \<Rightarrow> (string \<times> int) option \<times> 'w appState" where
  "throttle srv rq [] s = (None, s)"
| "throttle srv rq (k # ks) s =
     (let cfg = limiterConfigOf (as_production srv) k;
          ((totalHits, resetTime), st) = limiter_increment cfg (aq_met rq k) (aq_address rq) (storeOf srv k s);
          s' = putStore srv k st s
      in if passes cfg totalHits then throttle srv rq ks s'
         else (Some (limiterMessage k, retryAfter (\<not> as_production srv) (le_now (aq_met rq k)) (Some resetTime)), s'))"

primrec replyStatus :: "'d reply \<Rightarrow> nat" where
  "replyStatus (Envelope st ok msg dat meta) = st"
| "replyStatus (TextDownload name body) = 200"
| "replyStatus (DataDownload name dat) = 200"
| "replyStatus (Failure e) = he_status e"
| "replyStatus (Throttled message wait) = 429"
| "replyStatus RouteNotFound = 404"

text \<open>\<open>skipSuccessfulRequests\<close>: the login limiter takes its hit back when the answer is no failure.\<close>

definition takeBack :: "'w appServer \<Rightarrow> appRequest \<Rightarrow> string list \<Rightarrow> 'd reply \<Rightarrow> 'w appState \<Rightarrow> 'w appState" where
  "takeBack srv rq path reply s =
     (if Login \<in> set (limitersOf path) \<and> replyStatus reply < 400
      then putStore srv Login (limiter_decrement loginLimiter (aq_met rq Login) (aq_address rq) (storeOf srv Login s)) s
      else s)"

definition routed ::
  "'w appServer \<Rightarrow> (mount \<Rightarrow> string list \<Rightarrow> 'w \<Rightarrow> 'd reply \<times> 'w) \<Rightarrow> string list \<Rightarrow> 'w appState \<Rightarrow> 'd reply \<times> 'w appState" where
  "routed srv routers path s =
     (case mountOf (as_production srv) path of
        None \<Rightarrow> (RouteNotFound, s)
      | Some (m, rest) \<Rightarrow> (let (reply, w) = routers m rest (ap_world s) in (reply, s\<lparr>ap_world := w\<rparr>)))"

definition handleRequest ::
  "'w appServer \<Rightarrow> (mount \<Rightarrow> string list \<Rightarrow> 'w \<Rightarrow> 'd reply \<times> 'w) \<Rightarrow> string list \<Rightarrow> appRequest \<Rightarrow> 'w appState
   \<Rightarrow> 'd appResponse \<times> 'w appState" where
  "handleRequest srv routers path rq s =
     (let answer = (\<lambda>reply s. (\<lparr>ar_requestId = requestId rq, ar_reply = reply\<rparr>, s))
      in case corsOptionsDelegate (as_allowedOrigins srv) (aq_origin rq) of
           Inl e \<Rightarrow> answer (Failure (as_parseError srv e)) s
         | Inr options \<Rightarrow>
             (case aq_parsed rq of
                Inl e \<Rightarrow> answer (Failure (as_parseError srv e)) s
              | Inr u \<Rightarrow>
                  (case throttle srv rq (limitersOf path) s of
                     (Some (message, wait), s1) \<Rightarrow> answer (Throttled message wait) s1
                   | (None, s1) \<Rightarrow>
                       (let (reply, s2) = routed srv routers path s1
                        in answer reply (takeBack srv rq path reply s2)))))"


section \<open>Which limiters a path meets\<close>

lemma login_path [simp]:
  "limitersOf [''api'', ''auth'', ''login''] = [Standard, Login]"
  "mountOf production [''api'', ''auth'', ''login''] = Some (AuthMount, [''login''])"
  by (simp_all add: limitersOf_def pathLimiters_def mountOf_def mounts_def afterPrefix_def toLowerCase_def to_lower_def)

text \<open>
  The change of a password, the switching-off of the second factor and the registration of a company
  meet the standard limiter only.
\<close>

lemma unguarded_paths:
  "limitersOf [''api'', ''auth'', ''password''] = [Standard]" "limitersOf [''api'', ''auth'', ''2fa''] = [Standard]"
  "limitersOf [''api'', ''auth'', ''register'', ''company''] = [Standard]"
  by (simp_all add: limitersOf_def pathLimiters_def afterPrefix_def toLowerCase_def to_lower_def)

text \<open>A list that names no origin, the default, lets every origin in, with credentials.\<close>

lemma empty_list_allows_all:
  "nullish raw [] = [] \<Longrightarrow> corsOptionsDelegate raw origin = Inr \<lparr>co_origin = True, co_credentials = True\<rparr>"
  by (simp add: corsOptionsDelegate_def getAllowedOrigins_def trim_def)

text \<open>A refused origin is answered before any limiter counts it.\<close>

lemma foreign_origin_refused:
  assumes "truthy (aq_origin rq)" and "the (aq_origin rq) \<notin> set (getAllowedOrigins (as_allowedOrigins srv))"
    and "getAllowedOrigins (as_allowedOrigins srv) \<noteq> []"
  shows "handleRequest srv routers path rq s
    = (\<lparr>ar_requestId = requestId rq, ar_reply = Failure (as_parseError srv (PlainError ''Not allowed by CORS''))\<rparr>, s)"
  using assms by (simp add: handleRequest_def corsOptionsDelegate_def isAllowedOrigin_def)

section \<open>Counters of one address\<close>

text \<open>What one more hit makes of a window.\<close>

definition nextWindow :: "int \<Rightarrow> millis \<Rightarrow> (int \<times> millis) option \<Rightarrow> int \<times> millis" where
  "nextWindow len now win = (case win of
     Some (h, r) \<Rightarrow> if now < r then (h + 1, r) else (1, now + len) | None \<Rightarrow> (1, now + len))"

definition wholeSeconds :: "limiterConfig \<Rightarrow> bool" where
  "wholeSeconds cfg \<longleftrightarrow> windowSeconds cfg * 1000 = lc_windowMs cfg"

lemma wholeSeconds_limiters [simp]: "wholeSeconds (limiterConfigOf production k)"
  by (cases k) (simp_all add: wholeSeconds_def limiterConfigOf_def windowSeconds_def ceil_div_def standardLimiter_def
      strictLimiter_def loginLimiter_def otpLimiter_def)

lemma increment_window:
  assumes "limiter_ok cfg key st" and "wholeSeconds cfg"
  shows "limiter_ok cfg key (snd (limiter_increment cfg (allUp now) key st))
    \<and> fst (fst (limiter_increment cfg (allUp now) key st)) = fst (nextWindow (lc_windowMs cfg) now (limiter_window cfg key st))
    \<and> limiter_window cfg key (snd (limiter_increment cfg (allUp now) key st))
      = Some (nextWindow (lc_windowMs cfg) now (limiter_window cfg key st))"
proof (cases "ls_client st")
  case False
  then show ?thesis using assms
    by (auto simp: increment_fallback limiter_ok_def limiter_window_def nextWindow_def incrementFallback_def Let_def
        split: option.split)
next
  case True
  have ok: "counter_ok cfg key (ls_redis st)" "ls_checked st" using assms(1) True by (auto simp: limiter_ok_def)
  obtain t where i: "limiter_increment cfg (allUp now) key st
      = ((fst (redisCount cfg key now (ls_redis st)), t), st\<lparr>ls_redis := snd (redisCount cfg key now (ls_redis st))\<rparr>)"
    using increment_redis[OF ok(2) True] by blast
  have keeps: "counter_ok cfg key (snd (redisCount cfg key now (ls_redis st)))" by (rule redisCount_ok[OF ok(1)])
  show ?thesis
  proof (cases "\<exists>h e. counter_window cfg key (ls_redis st) = Some (h, e) \<and> now < e")
    case live: True
    then obtain h e where w: "counter_window cfg key (ls_redis st) = Some (h, e)" "now < e" by blast
    from redis_window.hit_live[OF ok(1) w] show ?thesis
      using True i keeps w assms(1) by (simp add: limiter_ok_def limiter_window_def nextWindow_def)
  next
    case dead: False
    then have "\<And>h r. counter_window cfg key (ls_redis st) = Some (h, r) \<Longrightarrow> r \<le> now" by fastforce
    from redis_window.hit_fresh[OF ok(1) this] show ?thesis
      using True i keeps dead assms
      by (auto simp: limiter_ok_def limiter_window_def nextWindow_def wholeSeconds_def split: option.split)
  qed
qed


section \<open>Counters side by side\<close>

lemma memGetEntry_other: "k' \<noteq> k \<Longrightarrow> map_of (memStrings (snd (memGetEntry now k r))) k' = map_of (memStrings r) k'"
  by (auto simp: memGetEntry_def delete_conv' split: option.split)

lemma redis_incr_other: "k' \<noteq> k \<Longrightarrow> map_of (memStrings (snd (redis_incr now k r))) k' = map_of (memStrings r) k'"
  by (simp add: redis_incr_def redis_add_def case_prod_beta Let_def update_conv' memGetEntry_other)

lemma redis_expire_other: "k' \<noteq> k \<Longrightarrow> map_of (memStrings (snd (redis_expire now k sec r))) k' = map_of (memStrings r) k'"
  using memGetEntry_other[of k' k now r]
  by (auto simp: redis_expire_def update_conv' split: option.split prod.split)

lemma redis_pttl_other: "k' \<noteq> k \<Longrightarrow> map_of (memStrings (snd (redis_pttl now k r))) k' = map_of (memStrings r) k'"
  by (auto simp: redis_pttl_def delete_conv' split: option.split)

lemma redisCount_other:
  assumes "k' \<noteq> lc_keyPrefix cfg @ key"
  shows "map_of (memStrings (snd (redisCount cfg key now r))) k' = map_of (memStrings r) k'"
  using assms redis_incr_other redis_expire_other redis_pttl_other
  by (simp add: redisCount_def redisHit_def allUp_def Let_def case_prod_beta)

lemma increment_other:
  assumes "limiter_ok cfg key st" and "k' \<noteq> lc_keyPrefix cfg @ key"
  shows "map_of (memStrings (ls_redis (snd (limiter_increment cfg (allUp now) key st)))) k'
    = map_of (memStrings (ls_redis st)) k'"
proof (cases "ls_client st")
  case True
  then show ?thesis using increment_redis[of st cfg now key] assms redisCount_other by (auto simp: limiter_ok_def)
next
  case False
  then show ?thesis using assms(1)
    by (auto simp: limiter_ok_def increment_fallback incrementFallback_def Let_def split: option.split)
qed

lemma same_counter:
  assumes "map_of (memStrings r') (lc_keyPrefix cfg @ key) = map_of (memStrings r) (lc_keyPrefix cfg @ key)"
  shows "counter_ok cfg key r' = counter_ok cfg key r" and "counter_window cfg key r' = counter_window cfg key r"
  using assms by (simp_all add: counter_ok_def counter_window_def)

lemma prefixes_differ: "k \<noteq> k' \<Longrightarrow> lc_keyPrefix (limiterConfigOf p k) @ a \<noteq> lc_keyPrefix (limiterConfigOf p k') @ b"
  by (cases k; cases k') (simp_all add: limiterConfigOf_def standardLimiter_def strictLimiter_def loginLimiter_def otpLimiter_def)

text \<open>The place of Redis in the state is one that is read back as it was written.\<close>

definition redis_lens :: "'w appServer \<Rightarrow> bool" where
  "redis_lens srv \<longleftrightarrow> (\<forall>r w. as_redis srv (as_withRedis srv r w) = r)"

definition windowOf :: "'w appServer \<Rightarrow> string \<Rightarrow> limiter \<Rightarrow> 'w appState \<Rightarrow> (int \<times> millis) option" where
  "windowOf srv key k s = limiter_window (limiterConfigOf (as_production srv) k) key (storeOf srv k s)"

definition limitersOk :: "'w appServer \<Rightarrow> string \<Rightarrow> 'w appState \<Rightarrow> bool" where
  "limitersOk srv key s \<longleftrightarrow> (\<forall>k. limiter_ok (limiterConfigOf (as_production srv) k) key (storeOf srv k s))"

text \<open>One limiter counts; the others do not notice.\<close>

lemma one_counts:
  assumes "redis_lens srv" and "limitersOk srv key s"
    and "cfg = limiterConfigOf (as_production srv) k"
    and "inc = limiter_increment cfg (allUp now) key (storeOf srv k s)"
    and "s' = putStore srv k (snd inc) s"
  shows "limitersOk srv key s'"
    and "fst (fst inc) = fst (nextWindow (lc_windowMs cfg) now (windowOf srv key k s))"
    and "windowOf srv key k s' = Some (nextWindow (lc_windowMs cfg) now (windowOf srv key k s))"
    and "k' \<noteq> k \<Longrightarrow> windowOf srv key k' s' = windowOf srv key k' s"
proof -
  have ok: "limiter_ok cfg key (storeOf srv k s)" and w: "wholeSeconds cfg"
    using assms(2,3) by (auto simp: limitersOk_def)
  note mine = increment_window[OF ok w, of now, folded assms(4)]
  have self: "storeOf srv k s' = snd inc"
    using assms(1) by (simp add: assms(5) storeOf_def putStore_def redis_lens_def)
  have other: "storeOf srv j s' = (storeOf srv j s)\<lparr>ls_redis := ls_redis (snd inc)\<rparr>" if "j \<noteq> k" for j
    using assms(1) that by (simp add: assms(5) storeOf_def putStore_def redis_lens_def)
  have same: "map_of (memStrings (ls_redis (snd inc))) (lc_keyPrefix (limiterConfigOf (as_production srv) j) @ key)
      = map_of (memStrings (ls_redis (storeOf srv j s))) (lc_keyPrefix (limiterConfigOf (as_production srv) j) @ key)" if "j \<noteq> k" for j
    unfolding assms(4) increment_other[OF ok prefixes_differ[OF that, of "as_production srv" key key, folded assms(3)]]
    by (simp add: storeOf_def)
  show "fst (fst inc) = fst (nextWindow (lc_windowMs cfg) now (windowOf srv key k s))"
    using mine assms(3) by (simp add: windowOf_def)
  show "windowOf srv key k s' = Some (nextWindow (lc_windowMs cfg) now (windowOf srv key k s))"
    using mine self assms(3) by (simp add: windowOf_def)
  show "k' \<noteq> k \<Longrightarrow> windowOf srv key k' s' = windowOf srv key k' s"
    using other[of k'] same_counter[OF same, of k'] by (simp add: windowOf_def limiter_window_def)
  have "limiter_ok (limiterConfigOf (as_production srv) j) key (storeOf srv j s')" for j
  proof (cases "j = k")
    case True
    then show ?thesis using mine self assms(3) by simp
  next
    case False
    then show ?thesis using other[of j] same_counter[OF same[OF False]] assms(2)
      by (auto simp: limitersOk_def limiter_ok_def)
  qed
  then show "limitersOk srv key s'" by (simp add: limitersOk_def)
qed


section \<open>Guessing a password\<close>

text \<open>The accounts behind the application; the routers of the other mounts are \<open>others\<close>.\<close>

definition accountServer :: "bool \<Rightarrow> string option \<Rightarrow> (exn \<Rightarrow> http_error) \<Rightarrow> authSystem appServer" where
  "accountServer production origins parseError =
     \<lparr>as_production = production, as_allowedOrigins = origins, as_redis = (\<lambda>w. at_redis (ax_auth w)),
      as_withRedis = (\<lambda>r w. w\<lparr>ax_auth := (ax_auth w)\<lparr>at_redis := r\<rparr>\<rparr>), as_parseError = parseError\<rparr>"

definition accountRouters ::
  "authServer \<Rightarrow> httpMethod \<Rightarrow> request \<Rightarrow> (mount \<Rightarrow> string list \<Rightarrow> authSystem \<Rightarrow> authPayload reply \<times> authSystem)
   \<Rightarrow> mount \<Rightarrow> string list \<Rightarrow> authSystem \<Rightarrow> authPayload reply \<times> authSystem" where
  "accountRouters ah m rq others mt rest w =
     (case mt of
        AuthMount \<Rightarrow> authRouter ah m rest rq w
      | ApiKeysMount \<Rightarrow> apiKeysRouter ah m rest rq w
      | _ \<Rightarrow> others mt rest w)"

text \<open>A sequence of requests to the login route, each with what the application meets it with.\<close>

fun loginReplies ::
  "authSystem appServer \<Rightarrow> authServer \<Rightarrow> (mount \<Rightarrow> string list \<Rightarrow> authSystem \<Rightarrow> authPayload reply \<times> authSystem)
   \<Rightarrow> (appRequest \<times> request) list \<Rightarrow> authSystem appState \<Rightarrow> authPayload reply list \<times> authSystem appState" where
  "loginReplies srv ah others [] s = ([], s)"
| "loginReplies srv ah others ((a, rq) # xs) s =
     (let (resp, s1) = handleRequest srv (accountRouters ah POST rq others) [''api'', ''auth'', ''login''] a s;
          (replies, s2) = loginReplies srv ah others xs s1
      in (ar_reply resp # replies, s2))"

definition wasServed :: "'d reply \<Rightarrow> bool" where
  "wasServed r \<longleftrightarrow> (case r of Throttled m n \<Rightarrow> False | _ \<Rightarrow> True)"

text \<open>A body without the password of the account it names.\<close>

definition wrongLogin :: "authServer \<Rightarrow> user list \<Rightarrow> request \<Rightarrow> bool" where
  "wrongLogin ah us rq \<longleftrightarrow> (\<forall>email pw u. bodyOf ah (LoginBodySchema (ah_isEmail ah)) rq = Inr (email, pw) \<longrightarrow>
     findUserByEmail email us = Some u \<longrightarrow> \<not> ae_compare (hx_auth ah) pw (us_passwordHash u))"

lemma wrong_login:
  assumes "wrongLogin ah (at_users (ax_auth w)) rq"
  shows "\<exists>e. authRouter ah POST [''login''] rq w = (Failure e, w) \<and> 400 \<le> he_status e"
proof -
  have route: "authRouteOf POST [''login''] = Some (Inl LoginRoute)"
    by (simp add: authRouteOf_def toLowerCase_def to_lower_def)
  have app: "400 \<le> he_status (errorMiddleware (hx_parse ah) (App (AppError st msg cd d)))" if "400 \<le> st" for st msg cd d
    using that errorMiddleware_app[of "hx_parse ah" "AppError st msg cd d"] by simp
  show ?thesis
  proof (cases "bodyOf ah (LoginBodySchema (ah_isEmail ah)) rq")
    case (Inl e)
    then show ?thesis using route app
      by (auto simp: authRouter_def andThen_def answered_def bodyOf_def validatePart_def throwApp_def split: option.splits)
  next
    case (Inr b)
    obtain email pw where b: "b = (email, pw)" by (cases b)
    have "login (hx_auth ah) email pw (ah_context ah) (ax_auth w)
        = (throwApp 401 ''Invalid credentials'' ''INVALID_CREDENTIALS'', ax_auth w)"
      using assms Inr b by (auto simp: wrongLogin_def login_def split: option.split)
    then show ?thesis using route app Inr b
      by (simp add: authRouter_def andThen_def answered_def loginController_def onAuth_def throwApp_def)
  qed
qed

text \<open>What the request of a series brings: the address it comes from, an origin that may ask, a clock.\<close>

definition attempt :: "'w appServer \<Rightarrow> string \<Rightarrow> millis \<Rightarrow> appRequest \<Rightarrow> bool" where
  "attempt srv key t a \<longleftrightarrow> aq_address a = key \<and> aq_parsed a = Inr () \<and> aq_met a = (\<lambda>_. allUp t)
     \<and> (\<exists>opts. corsOptionsDelegate (as_allowedOrigins srv) (aq_origin a) = Inr opts)"

lemma putStore_users [simp]:
  "at_users (ax_auth (ap_world (putStore (accountServer p o' pe) k st s))) = at_users (ax_auth (ap_world s))"
  by (simp add: putStore_def accountServer_def)

lemma account_lens [simp]: "redis_lens (accountServer p o' pe)" "as_production (accountServer p o' pe) = p"
  by (simp_all add: redis_lens_def accountServer_def)

lemma login_attempt_counted:
  fixes s :: "authSystem appState"
  assumes srv: "srv = accountServer p o' pe" and ok: "limitersOk srv key s" and a: "attempt srv key t a"
    and wrong: "wrongLogin ah (at_users (ax_auth (ap_world s))) rq"
    and std: "nextWindow (lc_windowMs (standardLimiter (\<not> p))) t (windowOf srv key Standard s) = (hs, rs)" and few: "hs \<le> 100"
    and lgn: "nextWindow (lc_windowMs loginLimiter) t (windowOf srv key Login s) = (hl, rl)"
  shows "\<exists>reply s'. handleRequest srv (accountRouters ah POST rq others) [''api'', ''auth'', ''login''] a s
       = (\<lparr>ar_requestId = requestId a, ar_reply = reply\<rparr>, s')
     \<and> (wasServed reply \<longleftrightarrow> hl \<le> 5) \<and> limitersOk srv key s'
     \<and> windowOf srv key Standard s' = Some (hs, rs) \<and> windowOf srv key Login s' = Some (hl, rl)
     \<and> at_users (ax_auth (ap_world s')) = at_users (ax_auth (ap_world s))"
proof -
  have lens: "redis_lens srv" and prod: "as_production srv = p" by (simp_all add: srv)
  let ?i1 = "limiter_increment (standardLimiter (\<not> p)) (allUp t) key (storeOf srv Standard s)"
  let ?s1 = "putStore srv Standard (snd ?i1) s"
  have cS: "standardLimiter (\<not> p) = limiterConfigOf (as_production srv) Standard"
    and cL: "loginLimiter = limiterConfigOf (as_production srv) Login"
    by (simp_all add: limiterConfigOf_def prod)
  note f1 = one_counts[OF lens ok cS HOL.refl HOL.refl, where now = t]
  let ?i2 = "limiter_increment loginLimiter (allUp t) key (storeOf srv Login ?s1)"
  let ?s2 = "putStore srv Login (snd ?i2) ?s1"
  note f2 = one_counts[OF lens f1(1) cL HOL.refl HOL.refl, where now = t]
  have wl: "windowOf srv key Login ?s1 = windowOf srv key Login s" by (rule f1(4)) simp
  have ws: "windowOf srv key Standard ?s2 = windowOf srv key Standard ?s1" by (rule f2(4)) simp
  have pass1: "passes (standardLimiter (\<not> p)) (fst (fst ?i1))"
    using f1(2) std few by (simp add: passes_def standardLimiter_def)
  have pass2: "passes loginLimiter (fst (fst ?i2)) \<longleftrightarrow> hl \<le> 5"
    using f2(2) lgn unfolding wl by (simp add: passes_def loginLimiter_def)
  obtain opts where cors: "corsOptionsDelegate (as_allowedOrigins srv) (aq_origin a) = Inr opts"
    using a by (auto simp: attempt_def)
  have parts: "aq_address a = key" "aq_parsed a = Inr ()" "aq_met a = (\<lambda>_. allUp t)" using a by (auto simp: attempt_def)
  have users: "at_users (ax_auth (ap_world ?s2)) = at_users (ax_auth (ap_world s))" by (simp add: srv)
  have thr: "throttle srv a [Standard, Login] s = (if hl \<le> 5 then None else Some (limiterMessage Login,
      retryAfter (\<not> p) t (Some (snd (fst ?i2)))), ?s2)"
    using pass1 pass2 by (simp add: Let_def case_prod_beta parts cS[symmetric] cL[symmetric] prod[symmetric])
      (simp add: prod allUp_def)
  obtain e where e: "authRouter ah POST [''login''] rq (ap_world ?s2) = (Failure e, ap_world ?s2)" "400 \<le> he_status e"
    using wrong_login[of ah "ap_world ?s2" rq] wrong users by auto
  have "\<exists>reply. handleRequest srv (accountRouters ah POST rq others) [''api'', ''auth'', ''login''] a s
       = (\<lparr>ar_requestId = requestId a, ar_reply = reply\<rparr>, ?s2) \<and> (wasServed reply \<longleftrightarrow> hl \<le> 5)"
    using e by (cases "hl \<le> 5")
      (simp_all add: handleRequest_def cors parts(2) thr routed_def accountRouters_def takeBack_def wasServed_def Let_def prod
        del: throttle.simps)
  then show ?thesis
    using f2(1,3) ws f1(3) std lgn users wl by auto
qed


text \<open>The rest of a series, while the windows of both limiters last.\<close>

lemma later_attempts:
  assumes "srv = accountServer p o' pe" and "limitersOk srv key s"
    and "windowOf srv key Standard s = Some (hs, rs)" and "hs + int (length xs) \<le> 100"
    and "windowOf srv key Login s = Some (hl, rl)"
    and "\<forall>(a, rq)\<in>set xs. (\<exists>t. attempt srv key t a \<and> t < rs \<and> t < rl) \<and> wrongLogin ah (at_users (ax_auth (ap_world s))) rq"
  shows "length (filter wasServed (fst (loginReplies srv ah others xs s))) = min (length xs) (nat (5 - hl))
    \<and> at_users (ax_auth (ap_world (snd (loginReplies srv ah others xs s)))) = at_users (ax_auth (ap_world s))"
  using assms(2-6)
proof (induction xs arbitrary: s hs hl)
  case (Cons x xs)
  obtain a rq where x: "x = (a, rq)" by (cases x)
  obtain t where t: "attempt srv key t a" "t < rs" "t < rl" using Cons.prems(5) x by auto
  have std: "nextWindow (lc_windowMs (standardLimiter (\<not> p))) t (windowOf srv key Standard s) = (hs + 1, rs)"
    and lgn: "nextWindow (lc_windowMs loginLimiter) t (windowOf srv key Login s) = (hl + 1, rl)"
    using Cons.prems(2,4) t by (simp_all add: nextWindow_def)
  have "wrongLogin ah (at_users (ax_auth (ap_world s))) rq" and few: "hs + 1 \<le> 100" using Cons.prems(3,5) x by auto
  from login_attempt_counted[OF assms(1) Cons.prems(1) t(1) this(1) std few lgn, of others] obtain reply s' where
    h: "handleRequest srv (accountRouters ah POST rq others) [''api'', ''auth'', ''login''] a s
        = (\<lparr>ar_requestId = requestId a, ar_reply = reply\<rparr>, s')"
    and r: "wasServed reply \<longleftrightarrow> hl + 1 \<le> 5" "limitersOk srv key s'" "windowOf srv key Standard s' = Some (hs + 1, rs)"
      "windowOf srv key Login s' = Some (hl + 1, rl)" "at_users (ax_auth (ap_world s')) = at_users (ax_auth (ap_world s))"
    by blast
  have "hs + 1 + int (length xs) \<le> 100" using Cons.prems(3) by simp
  from Cons.IH[OF r(2,3) this r(4)] Cons.prems(5) r(5)
  have "length (filter wasServed (fst (loginReplies srv ah others xs s'))) = min (length xs) (nat (5 - (hl + 1)))
      \<and> at_users (ax_auth (ap_world (snd (loginReplies srv ah others xs s')))) = at_users (ax_auth (ap_world s))"
    by auto
  then show ?case using h r(1) x by (auto simp: case_prod_beta min_def)
qed simp

text \<open>From the first attempt of a quiet address to the end of the shorter window, five are answered.\<close>

lemma login_attempts:
  assumes "srv = accountServer p o' pe" and "limitersOk srv key s"
    and "\<And>k h r. windowOf srv key k s = Some (h, r) \<Longrightarrow> r \<le> t0"
    and "attempt srv key t0 a0" and "length xs < 100"
    and "\<forall>(a, rq)\<in>set xs. \<exists>t. attempt srv key t a \<and> t < t0 + lc_windowMs (standardLimiter (\<not> p))"
    and "\<forall>rq\<in>insert rq0 (snd ` set xs). wrongLogin ah (at_users (ax_auth (ap_world s))) rq"
  shows "length (filter wasServed (fst (loginReplies srv ah others ((a0, rq0) # xs) s))) = min 5 (Suc (length xs))
    \<and> at_users (ax_auth (ap_world (snd (loginReplies srv ah others ((a0, rq0) # xs) s)))) = at_users (ax_auth (ap_world s))"
proof -
  have fresh: "nextWindow len t0 (windowOf srv key k s) = (1, t0 + len)" for len k
    using assms(3)[of k] by (fastforce simp: nextWindow_def split: option.split)
  have wrong: "wrongLogin ah (at_users (ax_auth (ap_world s))) rq0" using assms(7) by blast
  have few: "(1 :: int) \<le> 100" by simp
  from login_attempt_counted[OF assms(1,2,4) wrong fresh few fresh, of others] obtain reply s' where
    h: "handleRequest srv (accountRouters ah POST rq0 others) [''api'', ''auth'', ''login''] a0 s
        = (\<lparr>ar_requestId = requestId a0, ar_reply = reply\<rparr>, s')" and served: "wasServed reply \<longleftrightarrow> (1 :: int) \<le> 5"
    and r: "limitersOk srv key s'"
      "windowOf srv key Standard s' = Some (1, t0 + lc_windowMs (standardLimiter (\<not> p)))"
      "windowOf srv key Login s' = Some (1, t0 + lc_windowMs loginLimiter)"
      "at_users (ax_auth (ap_world s')) = at_users (ax_auth (ap_world s))"
    by (elim exE conjE) (rule that)
  have r: "wasServed reply" "limitersOk srv key s'"
      "windowOf srv key Standard s' = Some (1, t0 + lc_windowMs (standardLimiter (\<not> p)))"
      "windowOf srv key Login s' = Some (1, t0 + lc_windowMs loginLimiter)"
      "at_users (ax_auth (ap_world s')) = at_users (ax_auth (ap_world s))"
    using served r by simp_all
  have shorter: "lc_windowMs (standardLimiter (\<not> p)) \<le> lc_windowMs loginLimiter"
    by (simp add: standardLimiter_def loginLimiter_def)
  have "(\<exists>t. attempt srv key t a \<and> t < t0 + lc_windowMs (standardLimiter (\<not> p)) \<and> t < t0 + lc_windowMs loginLimiter)
      \<and> wrongLogin ah (at_users (ax_auth (ap_world s'))) rq" if mem: "(a, rq) \<in> set xs" for a rq
  proof -
    obtain t where "attempt srv key t a" "t < t0 + lc_windowMs (standardLimiter (\<not> p))" using bspec[OF assms(6) mem] by auto
    moreover have "wrongLogin ah (at_users (ax_auth (ap_world s))) rq"
      using assms(7) imageI[OF mem, of snd] by auto
    ultimately show ?thesis using r(5) shorter by (metis order_less_le_trans add_left_mono)
  qed
  then have "length (filter wasServed (fst (loginReplies srv ah others xs s'))) = min (length xs) (nat (5 - 1))
      \<and> at_users (ax_auth (ap_world (snd (loginReplies srv ah others xs s')))) = at_users (ax_auth (ap_world s'))"
    using assms(5) by (intro later_attempts[OF assms(1) r(2,3) _ r(4)]) auto
  then show ?thesis using h r(1,5) by (auto simp: case_prod_beta min_def)
qed

end
