(* ===== verification/Tenant_Http.thy ===== *)
theory Tenant_Http
  imports Application Notifications Templates Phone_Otp
begin

text \<open>
  The HTTP interfaces of notifications and shipment templates: routes, schemas and controllers of
  \<open>src/src/modules/notifications\<close> and \<open>src/src/modules/shipment-templates\<close>. Every request is at most
  one command of the caller on the caller's own documents, which ties the isolation of the services
  to what clients send.
\<close>

section \<open>Schemas\<close>

definition zNotificationType :: "notificationType schema" where
  "zNotificationType = zEnum (\<lambda>t. case t of N_SHIPMENTS \<Rightarrow> ''shipments'' | N_SETTLEMENTS \<Rightarrow> ''settlements''
     | N_SYSTEM \<Rightarrow> ''system'') [N_SHIPMENTS, N_SETTLEMENTS, N_SYSTEM]"

record noticesQuery =
  wq_page :: jsNumber
  wq_limit :: jsNumber
  wq_type :: "notificationType option"
  wq_q :: "string option"

definition noticesQuerySchema :: "conversions \<Rightarrow> noticesQuery schema" where
  "noticesQuerySchema cv = zObject (\<lambda>field.
     Option.bind (zDefault (Finite 1) (zAtLeast 1 (cv_number cv)) (field ''page'')) (\<lambda>page.
     Option.bind (zDefault 20 (zBetween 1 100 (cv_number cv)) (field ''limit'')) (\<lambda>limit.
     Option.bind (zOptional zNotificationType (field ''type'')) (\<lambda>ty.
     Option.bind (zOptional (zTrim zString) (field ''q'')) (\<lambda>q.
       Some \<lparr>wq_page = page, wq_limit = Finite limit, wq_type = ty, wq_q = q\<rparr>)))))"

primrec notice_event_str :: "notificationEvent \<Rightarrow> string" where
  "notice_event_str Shipment_created = ''shipment_created''"
| "notice_event_str Status_changed = ''status_changed''"
| "notice_event_str Delivery_confirmed = ''delivery_confirmed''"
| "notice_event_str Payment_received = ''payment_received''"
| "notice_event_str Dispute_opened = ''dispute_opened''"
| "notice_event_str Dispute_resolved = ''dispute_resolved''"

definition UpdateNotificationPreferenceBodySchema :: "(notificationEvent \<times> notificationChannel \<times> bool) schema" where
  "UpdateNotificationPreferenceBodySchema = zObject (\<lambda>field.
     Option.bind (zEnum notice_event_str [Shipment_created, Status_changed, Delivery_confirmed, Payment_received,
         Dispute_opened, Dispute_resolved] (field ''event'')) (\<lambda>event.
     Option.bind (zEnum (\<lambda>c. case c of Email \<Rightarrow> ''email'' | Sms \<Rightarrow> ''sms'') [Email, Sms] (field ''channel'')) (\<lambda>channel.
     Option.bind (zFlag (field ''enabled'')) (\<lambda>enabled. Some (event, channel, enabled)))))"

text \<open>\<open>/^\+?[1-9]\d{9,14}$/\<close>, of ten to fifteen characters.\<close>

definition phonePattern :: "string \<Rightarrow> bool" where
  "phonePattern s \<longleftrightarrow>
     (let d = (case s of c # t \<Rightarrow> if c = CHR ''+'' then t else s | [] \<Rightarrow> [])
      in list_all is_digit d \<and> (case d of c # t \<Rightarrow> c \<noteq> CHR ''0'' \<and> 9 \<le> length t \<and> length t \<le> 14 | [] \<Rightarrow> False))"

definition zPhone :: "string schema" where
  "zPhone v = (case zMax 15 (zMin 10 zString) v of None \<Rightarrow> None | Some s \<Rightarrow> if phonePattern s then Some s else None)"

definition SendOtpBodySchema :: "string schema" where
  "SendOtpBodySchema = zObject (\<lambda>field. zPhone (field ''phone''))"

definition VerifyOtpBodySchema :: "(string \<times> string) schema" where
  "VerifyOtpBodySchema = zObject (\<lambda>field.
     Option.bind (zPhone (field ''phone'')) (\<lambda>phone.
     Option.bind (zString (field ''otp'')) (\<lambda>otp.
       if length otp = 6 \<and> list_all is_digit otp then Some (phone, otp) else None)))"

section \<open>Notifications\<close>

datatype noticePayload =
    Notices "notification list"
  | OneNotice notification
  | CountOf nat
  | PreferenceDocs "notificationPreference list"
  | PreferenceDoc notificationPreference
  | NoticeNull
  | WholeUser user

text \<open>\<open>nh_fraction\<close> is the answer to a page or a limit that is no whole number.\<close>

record noticeServer = serverEnv +
  nh_oid :: "string \<Rightarrow> objectId result"
  nh_regex :: "string \<Rightarrow> (string \<Rightarrow> bool) option"
  nh_now :: millis
  nh_fresh :: objectId
  nh_otp :: otpEnv
  nh_production :: bool
  nh_address :: string
  nh_met :: limiterEnv
  nh_fraction :: "noticesQuery \<Rightarrow> noticePayload reply result"

record noticeWorld =
  nw_notifications :: "notification list"
  nw_preferences :: "notificationPreference list"
  nw_phones :: otpState
  nw_otpStore :: limiterState
    \<comment> \<open>the store of \<open>otpLimiter\<close>, whose Redis is that of \<open>nw_phones\<close>\<close>

definition onNotices ::
  "noticeServer \<Rightarrow> claims \<Rightarrow> notificationRequest \<Rightarrow> (notificationReply \<Rightarrow> noticePayload reply) \<Rightarrow> noticeWorld
   \<Rightarrow> noticePayload reply result \<times> noticeWorld" where
  "onNotices nh user c k w =
     (let (r, ns) = handleNotification (nh_oid nh) (nh_regex nh) (cl_userId user) c (nw_notifications w)
      in (map_sum id k r, w\<lparr>nw_notifications := ns\<rparr>))"

definition onPreferences ::
  "claims \<Rightarrow> preferenceRequest \<Rightarrow> (preferenceReply \<Rightarrow> noticePayload reply) \<Rightarrow> noticeWorld
   \<Rightarrow> noticePayload reply result \<times> noticeWorld" where
  "onPreferences user c k w =
     (let (r, ps) = handlePreference (cl_userId user) c (nw_preferences w)
      in (Inr (k r), w\<lparr>nw_preferences := ps\<rparr>))"

definition oneNotice :: "string \<Rightarrow> notificationReply \<Rightarrow> noticePayload reply" where
  "oneNotice message r = (case r of
     OneNotification n \<Rightarrow> ok200 message (OneNotice n)
   | NotificationCount k \<Rightarrow> ok200 message (CountOf k)
   | NotificationPage p \<Rightarrow> Envelope 200 True message (Some (Notices (np_data p)))
       (Some (PageMeta (np_page p) (np_limit p) (np_total p))))"

definition getNotificationsController ::
  "noticeServer \<Rightarrow> claims \<Rightarrow> noticesQuery \<Rightarrow> noticeWorld \<Rightarrow> noticePayload reply result \<times> noticeWorld" where
  "getNotificationsController nh user query w =
     (case (whole (wq_page query), whole (wq_limit query)) of
        (Some page, Some limit) \<Rightarrow>
          onNotices nh user (GetNotifications \<lparr>nq_page = page, nq_limit = limit, nq_type = wq_type query, nq_q = wq_q query\<rparr>)
            (oneNotice ''Notifications retrieved successfully'') w
      | _ \<Rightarrow> (nh_fraction nh query, w))"

definition markAllNotificationsReadController ::
  "noticeServer \<Rightarrow> claims \<Rightarrow> noticeWorld \<Rightarrow> noticePayload reply result \<times> noticeWorld" where
  "markAllNotificationsReadController nh user w = onNotices nh user (MarkAllRead (nh_now nh))
     (\<lambda>r. oneNotice ((case r of NotificationCount k \<Rightarrow> nat_str k | _ \<Rightarrow> []) @ '' notifications marked as read'') r) w"

definition onPhones ::
  "('a \<Rightarrow> noticePayload reply) \<Rightarrow> 'a result \<times> otpState \<Rightarrow> noticeWorld \<Rightarrow> noticePayload reply result \<times> noticeWorld" where
  "onPhones k p w = (map_sum id k (fst p), w\<lparr>nw_phones := snd p\<rparr>)"

text \<open>The document of the account is read lean, so its hash and secrets are in the answer.\<close>

definition verifyOtpController ::
  "noticeServer \<Rightarrow> claims \<Rightarrow> string \<times> string \<Rightarrow> noticeWorld \<Rightarrow> noticePayload reply result \<times> noticeWorld" where
  "verifyOtpController nh user body w = onPhones (\<lambda>u. ok200 ''Phone verified successfully'' (WholeUser u))
     (verifyOtpService (nh_otp nh) (cl_userId user) (fst body) (snd body) (nw_phones w)) w"

definition sendOtpController ::
  "noticeServer \<Rightarrow> claims \<Rightarrow> string \<Rightarrow> noticeWorld \<Rightarrow> noticePayload reply result \<times> noticeWorld" where
  "sendOtpController nh user phone w = onPhones (\<lambda>_. ok200 ''OTP sent successfully'' NoticeNull)
     (sendOtpService (nh_otp nh) (cl_userId user) phone (nw_phones w)) w"

datatype noticeRoute =
    NoticesRoute | UnreadRoute | ReadRoute string | ReadAllRoute | DropNoticeRoute string
  | PreferencesRoute | PutPreferenceRoute | SendOtpRoute | VerifyOtpRoute

definition noticeRouteOf :: "httpMethod \<Rightarrow> string list \<Rightarrow> noticeRoute option" where
  "noticeRouteOf m path =
     (case (m, path) of
        (GET, []) \<Rightarrow> Some NoticesRoute
      | (GET, [p]) \<Rightarrow> (if toLowerCase p = ''unread-count'' then Some UnreadRoute
           else if toLowerCase p = ''preferences'' then Some PreferencesRoute else None)
      | (PATCH, [i, p]) \<Rightarrow> (if toLowerCase p = ''read'' then Some (ReadRoute i) else None)
      | (PATCH, [p]) \<Rightarrow> (if toLowerCase p = ''preferences'' then Some PutPreferenceRoute else None)
      | (POST, [p]) \<Rightarrow> (if toLowerCase p = ''read-all'' then Some ReadAllRoute else None)
      | (POST, [p, q]) \<Rightarrow> (if map toLowerCase [p, q] = [''phone'', ''send-otp''] then Some SendOtpRoute
           else if map toLowerCase [p, q] = [''phone'', ''verify-otp''] then Some VerifyOtpRoute else None)
      | (DELETE, [i]) \<Rightarrow> Some (DropNoticeRoute i)
      | _ \<Rightarrow> None)"

text \<open>The limiter on the two phone routes is the one of the reset of a password.\<close>

definition limitedOtp ::
  "noticeServer \<Rightarrow> noticeWorld \<Rightarrow> (noticeWorld \<Rightarrow> noticePayload reply result \<times> noticeWorld)
   \<Rightarrow> noticePayload reply result \<times> noticeWorld" where
  "limitedOtp nh w k =
     (let ((hits, resetTime), st) = limiter_increment otpLimiter (nh_met nh) (nh_address nh)
            ((nw_otpStore w)\<lparr>ls_redis := os_redis (nw_phones w)\<rparr>);
          w' = w\<lparr>nw_otpStore := st, nw_phones := (nw_phones w)\<lparr>os_redis := ls_redis st\<rparr>\<rparr>
      in if passes otpLimiter hits then k w'
         else (Inr (Throttled (limiterMessage Otp)
                 (retryAfter (\<not> nh_production nh) (le_now (nh_met nh)) (Some resetTime))), w'))"

primrec noticeServe ::
  "noticeServer \<Rightarrow> claims \<Rightarrow> request \<Rightarrow> noticeWorld \<Rightarrow> noticeRoute \<Rightarrow> noticePayload reply result \<times> noticeWorld" where
  "noticeServe nh user rq w NoticesRoute =
     andThen (queryOf nh noticesQuerySchema rq) w (\<lambda>query. getNotificationsController nh user query w)"
| "noticeServe nh user rq w UnreadRoute =
     onNotices nh user GetUnreadCount (oneNotice ''Unread count retrieved successfully'') w"
| "noticeServe nh user rq w (ReadRoute i) =
     andThen (paramId nh i) w (\<lambda>i. onNotices nh user (MarkRead (nh_now nh) i) (oneNotice ''Notification marked as read'') w)"
| "noticeServe nh user rq w ReadAllRoute = markAllNotificationsReadController nh user w"
| "noticeServe nh user rq w (DropNoticeRoute i) =
     andThen (paramId nh i) w (\<lambda>i.
       onNotices nh user (DeleteNotification (nh_now nh) i) (oneNotice ''Notification deleted successfully'') w)"
| "noticeServe nh user rq w PreferencesRoute = onPreferences user GetPreferences
     (\<lambda>r. ok200 ''Notification preferences retrieved successfully''
        (case r of PreferenceList ps \<Rightarrow> PreferenceDocs ps | OnePreference p \<Rightarrow> PreferenceDoc p)) w"
| "noticeServe nh user rq w PutPreferenceRoute =
     andThen (bodyOf nh UpdateNotificationPreferenceBodySchema rq) w (\<lambda>(event, channel, enabled).
       onPreferences user (UpdatePreference (nh_fresh nh) (nh_now nh) event channel enabled)
         (\<lambda>r. ok200 ''Notification preference updated successfully''
            (case r of PreferenceList ps \<Rightarrow> PreferenceDocs ps | OnePreference p \<Rightarrow> PreferenceDoc p)) w)"
| "noticeServe nh user rq w SendOtpRoute = limitedOtp nh w (\<lambda>w1.
     andThen (bodyOf nh SendOtpBodySchema rq) w1 (\<lambda>phone. sendOtpController nh user phone w1))"
| "noticeServe nh user rq w VerifyOtpRoute = limitedOtp nh w (\<lambda>w1.
     andThen (bodyOf nh VerifyOtpBodySchema rq) w1 (\<lambda>body. verifyOtpController nh user body w1))"

definition notificationsRouter ::
  "noticeServer \<Rightarrow> httpMethod \<Rightarrow> string list \<Rightarrow> request \<Rightarrow> noticeWorld \<Rightarrow> noticePayload reply \<times> noticeWorld" where
  "notificationsRouter nh m path rq w =
     dispatch nh True (\<lambda>_. None) (noticeServe nh) (os_redis (nw_phones w)) (noticeRouteOf m path) rq w"


section \<open>Shipment templates\<close>

text \<open>The bounds on the fields are the predicates of \<open>Templates\<close>.\<close>

definition templateFieldsSchema :: "conversions \<Rightarrow> templateFields schema" where
  "templateFieldsSchema cv = zStrict [''origin'', ''destination'', ''itemDescription'', ''weight'', ''recipientName'',
      ''recipientContact''] (zObject (\<lambda>field.
     Option.bind (zOptional zString (field ''origin'')) (\<lambda>origin.
     Option.bind (zOptional zString (field ''destination'')) (\<lambda>destination.
     Option.bind (zOptional zString (field ''itemDescription'')) (\<lambda>itemDescription.
     Option.bind (zOptional (zNumber (cv_number cv)) (field ''weight'')) (\<lambda>weight.
     Option.bind (zOptional zString (field ''recipientName'')) (\<lambda>recipientName.
     Option.bind (zOptional zString (field ''recipientContact'')) (\<lambda>recipientContact.
       let f = \<lparr>tf_origin = origin, tf_destination = destination, tf_itemDescription = itemDescription,
             tf_weight = weight, tf_recipientName = recipientName, tf_recipientContact = recipientContact\<rparr>
       in if TemplateFieldsSchema f then Some f else None))))))))"

definition createTemplateSchema :: "conversions \<Rightarrow> createTemplateBody schema" where
  "createTemplateSchema cv = zStrict [''name'', ''fields''] (zObject (\<lambda>field.
     Option.bind (zString (field ''name'')) (\<lambda>name.
     Option.bind (templateFieldsSchema cv (field ''fields'')) (\<lambda>fs.
       let b = \<lparr>ct_name = name, ct_fields = fs\<rparr> in if CreateTemplateBodySchema b then Some b else None))))"

definition updateTemplateSchema :: "conversions \<Rightarrow> updateTemplateBody schema" where
  "updateTemplateSchema cv = zStrict [''name'', ''fields''] (zObject (\<lambda>field.
     Option.bind (zOptional zString (field ''name'')) (\<lambda>name.
     Option.bind (zOptional (templateFieldsSchema cv) (field ''fields'')) (\<lambda>fs.
       let b = \<lparr>ut_name = name, ut_fields = fs\<rparr> in if UpdateTemplateBodySchema b then Some b else None))))"

record templateServer = serverEnv +
  th_oid :: "string \<Rightarrow> objectId result"
  th_now :: millis
  th_fresh :: objectId

text \<open>The documents and the Redis that \<open>requireAuth\<close> asks.\<close>

type_synonym templateWorld = "template list \<times> redis"

definition onTemplates ::
  "templateServer \<Rightarrow> claims \<Rightarrow> templateRequest \<Rightarrow> (templateReply \<Rightarrow> templateReply reply) \<Rightarrow> templateWorld
   \<Rightarrow> templateReply reply result \<times> templateWorld" where
  "onTemplates th user c k w =
     (let (r, ts) = handleTemplate (th_oid th) (cl_organizationId user) c (fst w)
      in (map_sum id k r, (ts, snd w)))"

datatype templateRoute =
    TemplatesRoute | TemplateRoute string | NewTemplateRoute | PatchTemplateRoute string | DropTemplateRoute string

definition templateRouteOf :: "httpMethod \<Rightarrow> string list \<Rightarrow> templateRoute option" where
  "templateRouteOf m path =
     (case (m, path) of
        (GET, []) \<Rightarrow> Some TemplatesRoute | (GET, [i]) \<Rightarrow> Some (TemplateRoute i)
      | (POST, []) \<Rightarrow> Some NewTemplateRoute | (PATCH, [i]) \<Rightarrow> Some (PatchTemplateRoute i)
      | (DELETE, [i]) \<Rightarrow> Some (DropTemplateRoute i) | _ \<Rightarrow> None)"

primrec templateRoles :: "templateRoute \<Rightarrow> userRole list option" where
  "templateRoles TemplatesRoute = Some [ADMIN, MANAGER, VIEWER]"
| "templateRoles (TemplateRoute i) = Some [ADMIN, MANAGER, VIEWER]"
| "templateRoles NewTemplateRoute = Some [ADMIN, MANAGER]"
| "templateRoles (PatchTemplateRoute i) = Some [ADMIN, MANAGER]"
| "templateRoles (DropTemplateRoute i) = Some [ADMIN, MANAGER]"

primrec templateServe ::
  "templateServer \<Rightarrow> claims \<Rightarrow> request \<Rightarrow> templateWorld \<Rightarrow> templateRoute \<Rightarrow> templateReply reply result \<times> templateWorld" where
  "templateServe th user rq w TemplatesRoute = onTemplates th user GetTemplates (ok200 ''Templates retrieved'') w"
| "templateServe th user rq w (TemplateRoute i) =
     andThen (paramId th i) w (\<lambda>i. onTemplates th user (GetTemplateById i) (ok200 ''Template retrieved'') w)"
| "templateServe th user rq w NewTemplateRoute =
     andThen (bodyOf th (createTemplateSchema (hx_conversions th)) rq) w (\<lambda>body.
       onTemplates th user (CreateTemplate (th_now th) (th_fresh th) body) (created201 ''Template created'') w)"
| "templateServe th user rq w (PatchTemplateRoute i) =
     andThen (bodyOf th (updateTemplateSchema (hx_conversions th)) rq) w (\<lambda>body.
     andThen (paramId th i) w (\<lambda>i.
       onTemplates th user (UpdateTemplate (th_now th) i body) (ok200 ''Template updated'') w))"
| "templateServe th user rq w (DropTemplateRoute i) =
     andThen (paramId th i) w (\<lambda>i.
       onTemplates th user (DeleteTemplate (th_now th) i) (ok200 ''Template deleted'') w)"

definition shipmentTemplatesRouter ::
  "templateServer \<Rightarrow> httpMethod \<Rightarrow> string list \<Rightarrow> request \<Rightarrow> templateWorld \<Rightarrow> templateReply reply \<times> templateWorld" where
  "shipmentTemplatesRouter th m path rq w =
     dispatch th False templateRoles (templateServe th) (snd w) (templateRouteOf m path) rq w"


section \<open>A request is at most one command of its caller\<close>

lemma limitedOtp_keeps:
  assumes "\<And>v. nw_notifications (snd (k v)) = nw_notifications v \<and> nw_preferences (snd (k v)) = nw_preferences v"
  shows "nw_notifications (snd (limitedOtp nh w k)) = nw_notifications w
    \<and> nw_preferences (snd (limitedOtp nh w k)) = nw_preferences w"
  using assms by (simp add: limitedOtp_def Let_def case_prod_beta)

lemma phone_routes_keep:
  assumes "rt \<in> {SendOtpRoute, VerifyOtpRoute}"
  shows "nw_notifications (snd (noticeServe nh c rq w rt)) = nw_notifications w
    \<and> nw_preferences (snd (noticeServe nh c rq w rt)) = nw_preferences w"
proof (cases "rt = SendOtpRoute")
  case True
  then show ?thesis unfolding True noticeServe.simps
    by (intro limitedOtp_keeps) (simp add: andThen_def sendOtpController_def onPhones_def split: sum.split)
next
  case False
  then have rt: "rt = VerifyOtpRoute" using assms by simp
  show ?thesis unfolding rt noticeServe.simps
    by (intro limitedOtp_keeps) (simp add: andThen_def verifyOtpController_def onPhones_def split: sum.split)
qed

lemma notice_command:
  "nw_notifications (snd (noticeServe nh c rq w rt)) = nw_notifications w
   \<or> (\<exists>cmd. nw_notifications (snd (noticeServe nh c rq w rt))
        = snd (handleNotification (nh_oid nh) (nh_regex nh) (cl_userId c) cmd (nw_notifications w)))"
proof (cases "rt \<in> {SendOtpRoute, VerifyOtpRoute}")
  case True
  then show ?thesis using phone_routes_keep by blast
next
  case False
  then show ?thesis
    by (cases rt) (auto simp: andThen_def onNotices_def onPreferences_def case_prod_beta getNotificationsController_def
        markAllNotificationsReadController_def split: sum.split option.split)
qed

lemma preference_command:
  "nw_preferences (snd (noticeServe nh c rq w rt)) = nw_preferences w
   \<or> (\<exists>cmd. nw_preferences (snd (noticeServe nh c rq w rt))
        = snd (handlePreference (cl_userId c) cmd (nw_preferences w)))"
proof (cases "rt \<in> {SendOtpRoute, VerifyOtpRoute}")
  case True
  then show ?thesis using phone_routes_keep by blast
next
  case False
  then show ?thesis
    by (cases rt) (auto simp: andThen_def onNotices_def onPreferences_def case_prod_beta getNotificationsController_def
        markAllNotificationsReadController_def split: sum.split option.split)
qed

lemma template_command:
  "fst (snd (templateServe th c rq w rt)) = fst w
   \<or> (\<exists>cmd. fst (snd (templateServe th c rq w rt)) = snd (handleTemplate (th_oid th) (cl_organizationId c) cmd (fst w)))"
  by (cases rt) (auto simp: andThen_def onTemplates_def case_prod_beta split: sum.split)

text \<open>What is served is served to the bearer of a live token.\<close>

lemma served_to:
  "snd (dispatch hx g roles serve r route rq w) = w
   \<or> (\<exists>rt c. authenticated hx rq r = Inr c \<and> snd (dispatch hx g roles serve r route rq w) = snd (serve c rq w rt))"
proof (cases route)
  case None
  then show ?thesis by (auto simp: dispatch_def andThen_def split: sum.split)
next
  case (Some rt)
  then show ?thesis using admitted_sound[of hx "roles rt" rq r]
    by (cases "admitted hx (roles rt) rq r") (auto simp: dispatch_def andThen_def)
qed

lemma notices_router_command:
  "nw_notifications (snd (notificationsRouter nh m path rq w)) = nw_notifications w
   \<or> (\<exists>c cmd. authenticated nh rq (os_redis (nw_phones w)) = Inr c
      \<and> nw_notifications (snd (notificationsRouter nh m path rq w))
        = snd (handleNotification (nh_oid nh) (nh_regex nh) (cl_userId c) cmd (nw_notifications w)))"
  using served_to[of nh True "\<lambda>_. None" "noticeServe nh" "os_redis (nw_phones w)" "noticeRouteOf m path" rq w]
    notice_command[of nh _ rq w]
  unfolding notificationsRouter_def by metis

lemma preferences_router_command:
  "nw_preferences (snd (notificationsRouter nh m path rq w)) = nw_preferences w
   \<or> (\<exists>c cmd. authenticated nh rq (os_redis (nw_phones w)) = Inr c
      \<and> nw_preferences (snd (notificationsRouter nh m path rq w))
        = snd (handlePreference (cl_userId c) cmd (nw_preferences w)))"
  using served_to[of nh True "\<lambda>_. None" "noticeServe nh" "os_redis (nw_phones w)" "noticeRouteOf m path" rq w]
    preference_command[of nh _ rq w]
  unfolding notificationsRouter_def by metis

lemma templates_router_command:
  "fst (snd (shipmentTemplatesRouter th m path rq v)) = fst v
   \<or> (\<exists>c cmd. authenticated th rq (snd v) = Inr c
      \<and> fst (snd (shipmentTemplatesRouter th m path rq v))
        = snd (handleTemplate (th_oid th) (cl_organizationId c) cmd (fst v)))"
  using served_to[of th False templateRoles "templateServe th" "snd v" "templateRouteOf m path" rq v]
    template_command[of th _ rq v]
  unfolding shipmentTemplatesRouter_def by metis

text \<open>So the documents of anybody else stay as they are.\<close>

lemma notices_of_others:
  assumes "authenticated nh rq (os_redis (nw_phones w)) = Inr c" and "u \<noteq> cl_userId c"
  shows "ownedBy nt_userId u (nw_notifications (snd (notificationsRouter nh m path rq w))) = ownedBy nt_userId u (nw_notifications w)"
    and "ownedBy np_userId u (nw_preferences (snd (notificationsRouter nh m path rq w))) = ownedBy np_userId u (nw_preferences w)"
  using notices_router_command[of nh m path rq w] preferences_router_command[of nh m path rq w] assms
    notifications.others[OF assms(2)] preferences.others[OF assms(2)] by auto

section \<open>Templates are written by administrators and managers\<close>

primrec writesTemplates :: "templateRoute \<Rightarrow> bool" where
  "writesTemplates TemplatesRoute = False"
| "writesTemplates (TemplateRoute i) = False"
| "writesTemplates NewTemplateRoute = True"
| "writesTemplates (PatchTemplateRoute i) = True"
| "writesTemplates (DropTemplateRoute i) = True"

definition sameTemplates :: "templateWorld \<Rightarrow> templateWorld \<Rightarrow> bool" where
  "sameTemplates w w' \<longleftrightarrow> fst w' = fst w"

interpretation template_routes: guarded_routes templateRoles "templateServe env" writesTemplates "[ADMIN, MANAGER]"
  sameTemplates for env
proof unfold_locales
  fix rt c rq and w :: templateWorld
  show "writesTemplates rt \<Longrightarrow> \<exists>rs. templateRoles rt = Some rs \<and> set rs \<subseteq> set [ADMIN, MANAGER]"
    by (cases rt) auto
  show "\<not> writesTemplates rt \<Longrightarrow> sameTemplates w (snd (templateServe env c rq w rt))"
    by (cases rt) (auto simp: sameTemplates_def andThen_def onTemplates_def handleTemplate_def case_prod_beta
        split: sum.split option.split)
qed (simp add: sameTemplates_def)

lemma templates_of_others:
  assumes "snd (shipmentTemplatesRouter th m path rq w) = w'"
  shows "fst w' = fst w \<or> (\<exists>c. authenticated th rq (snd w) = Inr c \<and> cl_role c \<in> {Some ADMIN, Some MANAGER}
     \<and> (\<forall>org. Some org \<noteq> cl_organizationId c \<longrightarrow>
          ownedBy tp_organizationId org (fst w') = ownedBy tp_organizationId org (fst w)))"
proof -
  have scoped: "ownedBy tp_organizationId org (snd (handleTemplate oid o' cmd ts)) = ownedBy tp_organizationId org ts"
    if "Some org \<noteq> o'" for org oid o' cmd ts
  proof (cases o')
    case None
    then show ?thesis by (simp add: handleTemplate_def)
  next
    case (Some x)
    then show ?thesis using templates.others[of org x oid cmd ts] that by simp
  qed
  consider "fst w' = fst w"
    | rt c where "authenticated th rq (snd w) = Inr c" "cl_role c \<in> {Some ADMIN, Some MANAGER}"
      "w' = snd (templateServe th c rq w rt)"
    using template_routes.guarded[where env = th and hx = th and w = w and guardAll = False and r = "snd w"
        and route = "templateRouteOf m path" and rq = rq] assms
    by (auto simp: shipmentTemplatesRouter_def sameTemplates_def)
  then show ?thesis
  proof cases
    case 2
    then show ?thesis using template_command[of th c rq w rt] scoped by auto
  qed simp
qed

section \<open>What a verified phone discloses\<close>

text \<open>The answer is the lean document of the account: password hash, secrets and backup codes included.\<close>

lemma verification_discloses:
  assumes "verifyOtpService (nh_otp nh) (cl_userId c) (fst body) (snd body) (nw_phones w) = (Inr u, s)"
  shows "fst (verifyOtpController nh c body w) = Inr (ok200 ''Phone verified successfully'' (WholeUser u))"
    and "\<exists>x\<in>set (os_users (nw_phones w)). us_passwordHash u = us_passwordHash x \<and> us_totpSecret u = us_totpSecret x"
proof -
  show "fst (verifyOtpController nh c body w) = Inr (ok200 ''Phone verified successfully'' (WholeUser u))"
    using assms by (simp add: verifyOtpController_def onPhones_def)
  obtain r where "fst (findUserAndUpdate (cl_userId c) (\<lambda>x. x\<lparr>us_phoneVerified := True, us_phone := Some (fst body)\<rparr>)
      (os_users (nw_phones w))) = Some u"
    using assms by (auto simp: verifyOtpService_def Let_def split: prod.splits if_splits option.splits)
  then show "\<exists>x\<in>set (os_users (nw_phones w)). us_passwordHash u = us_passwordHash x \<and> us_totpSecret u = us_totpSecret x"
    by (auto simp: findUserAndUpdate_def findOneAndUpdate_def dest!: update_first_hit)
qed

end
