(* ===== verification/Spec2Isabelle.thy ===== *)
theory Spec2Isabelle
  imports Samples Account_Http Two_Factor Api_Keys Serializer Invitations Ingestion Rate_Limiter Realtime
    Analytics Accounts Phone_Otp Indexer Public_Tracking Activity Notifications Templates Anomaly_Stats
    Shipment_Http Payment_Http Sensor_Http Webhook_Http Application Tenant_Http
begin

text \<open>
  The backend of a freight platform: shipments that move through a lifecycle, payments held in escrow
  and released on the Stellar chain when a shipment is delivered, a ledger of milestone blocks, and
  the accounts and tokens of the people who do this. Paths below are relative to \<open>src/src\<close> of the
  repository.

  \<^bold>\<open>How the program is modelled.\<close> A service function is a HOL function that takes the inputs of the
  code, an environment record and the state it works on, and returns the result and the new state. A
  thrown error is the left value of a sum (\<open>Errors.result\<close>), so every throw and early return is a
  branch. A MongoDB collection is a list of documents in insertion order; reads go through the
  soft-delete hooks of its model (\<open>Collection.soft_collection\<close>, interpreted for shipments, payments,
  ledger blocks, telemetry, invitations and users). Clock readings, fresh ids, hashes, signatures and
  the answers of the database, the chain, the store and the socket are fields of the environment; the
  k-th clock reading of an operation is \<open>en_now k\<close>, so the order of readings is kept. The laws assumed
  of the libraries are \<open>libs_ok\<close> (a signed token verifies to its claims until it expires, a password
  matches its hash), \<open>secret_usable\<close>, \<open>clock_sleeps\<close>; \<open>documented_mongo\<close> (what the aggregation operators of MongoDB compute),
  \<open>documented_updates\<close> (what its scoped updates store) and \<open>horizon_history\<close> (how Horizon pages its
  history); each has a
  concrete instance in \<open>Samples\<close> or in a witness. So have \<open>cipher_ok\<close> (AES-GCM opens what it sealed), \<open>codes_told_apart\<close> and
  \<open>same_secret\<close> (invitation and session tokens are signed with one key). Operations of one request
  run to completion: interleavings are sequences of operations, as in the step relations \<open>shipment_step\<close>, \<open>twoFactor_step\<close>, \<open>key_step\<close>,
  \<open>invite_step\<close>, \<open>account_step\<close>, \<open>hub_step\<close> and, promise by promise, \<open>serializer_step\<close>.

  \<^bold>\<open>Theories and code.\<close>
  \<^item> \<open>Prelude\<close>: types and list, string and arithmetic lemmas shared by all; JavaScript truthiness.
  \<^item> \<open>Errors\<close>: \<open>shared/http/errors.ts\<close> and \<open>errorMiddleware.ts\<close>.
  \<^item> \<open>Json\<close>: \<open>shared/utils/crypto.ts\<close>: normal form, \<open>JSON.stringify\<close> and the data hash.
  \<^item> \<open>Pagination\<close>: \<open>shared/utils/pagination.ts\<close>, and \<open>walk\<close>, a client that follows cursors; the
    locale \<open>cursor_listing\<close> states when such a walk visits a listing exactly once and is interpreted
    for the ledger, the payments and the timeline; \<open>newest_first\<close> is the case of a listing sorted by
    time with a cursor on ids, interpreted for telemetry, anomalies and invitations.
  \<^item> \<open>Collection\<close>: the model methods and hooks of the collections.
  \<^item> \<open>Effects\<close>: \<open>shared/utils/auditLog.ts\<close>, \<open>infra/socket/io.ts\<close>.
  \<^item> \<open>Redis\<close>, \<open>Caches\<close>: the in-memory client of \<open>infra/redis/connection.ts\<close> and the three caches.
  \<^item> \<open>Ledger\<close>, \<open>Payments\<close>, \<open>Storage\<close>, \<open>Chain\<close>: \<open>modules/ledger\<close>, \<open>modules/payments\<close> with
    \<open>modules/webhooks/stellar.webhook.service.ts\<close>, \<open>services/storage\<close>, \<open>services/chain\<close> with
    \<open>shared/types/chain.ts\<close>.
  \<^item> \<open>Sensor_Docs\<close>: the telemetry and anomaly documents.
  \<^item> \<open>Shipment_Status\<close>: \<open>shared/constants/shipments.ts\<close> and \<open>shipmentStateMachine.ts\<close>.
  \<^item> \<open>Shipments_Model\<close>, \<open>Shipment_Updates\<close>, \<open>Shipment_Services\<close>, \<open>Shipment_Lists\<close>,
    \<open>Shipment_Timeline\<close>, \<open>Shipment_Eta\<close>: \<open>modules/shipments/shipments.service.ts\<close>, its model and the
    guards of its controller.
  \<^item> \<open>Shipment_System\<close>: the shipment operations as one step relation, the abstract evolution of a
    collection (\<open>evolve\<close>) and one refinement lemma per operation.
  \<^item> \<open>Auth\<close>: \<open>modules/auth/auth.service.ts\<close>, \<open>session.service.ts\<close>, \<open>infra/redis/tokenBlocklist.ts\<close>
    and the middlewares \<open>requireAuth\<close> and \<open>requireRole\<close>.
  \<^item> \<open>Two_Factor\<close>, \<open>Api_Keys\<close>, \<open>Invitations\<close>: \<open>modules/auth/twoFactor.service.ts\<close> and
    \<open>totp.utils.ts\<close>; \<open>modules/auth/apiKey.service.ts\<close> with its controllers and
    \<open>shared/middleware/requireApiKey.ts\<close>; \<open>modules/invitations\<close>.
  \<^item> \<open>Sensing\<close>, \<open>Ingestion\<close>: thresholds and the two anomaly detectors
    (\<open>modules/telemetry/telemetryThreshold.*.ts\<close>, \<open>services/anomaly.service.ts\<close>,
    \<open>gpsLossDetection.ts\<close>, \<open>telemetryAnomalyDetection.ts\<close>); the bulk and webhook ingestion of
    readings, their anomalies and the anchoring worker (\<open>modules/telemetry/telemetry.service.ts\<close>,
    \<open>modules/webhooks/iot.service.ts\<close>, \<open>modules/anomaly/anomaly.service.ts\<close>, \<open>workers/stellar.worker.ts\<close>).
  \<^item> \<open>Serializer\<close>: \<open>services/chain/serializer.ts\<close>, one step per promise that settles.
  \<^item> \<open>Rate_Limiter\<close>: \<open>shared/middleware/rateLimiter.ts\<close>; its locale \<open>window_counter\<close> is interpreted for
    the Redis store and for the in-process fallback.
  \<^item> \<open>Realtime\<close>: \<open>infra/socket/shipmentRooms.ts\<close>, \<open>infra/sse\<close>, \<open>infra/redis/recentEvents.ts\<close> and the
    authentication of streams and sockets.
  \<^item> \<open>Analytics\<close>: \<open>modules/analytics/analytics.service.ts\<close>: its aggregation pipelines as functions
    on stored documents, over a record of the database's operators, and the payloads built from
    their rows.
  \<^item> \<open>Accounts\<close>, \<open>Phone_Otp\<close>: \<open>modules/users\<close> and \<open>modules/organizations\<close> with the guards of their
    routes; \<open>modules/notifications/sms-otp.service.ts\<close>.
  \<^item> \<open>Chain_Stream\<close>, \<open>Indexer\<close>: the event streams of both adapters
    (\<open>services/chain/simulated.adapter.ts\<close>, \<open>soroban.adapter.ts\<close>, \<open>services/stellar.service.ts\<close>) and the worker that
    indexes what they yield (\<open>workers/stellar-indexer.worker.ts\<close>).
  \<^item> \<open>Public_Tracking\<close>, \<open>Activity\<close>: the unauthenticated tracking page (\<open>modules/public-tracking\<close>); the
    activity feed and the audit trail (\<open>modules/audit-logs\<close>).
  \<^item> \<open>Scoping\<close>, \<open>Templates\<close>, \<open>Notifications\<close>: the locale \<open>scoped_service\<close> of services whose documents
    belong to one owner, interpreted for \<open>modules/shipment-templates\<close> and for the notifications and
    the preferences of \<open>modules/notifications\<close>.
  \<^item> \<open>Anomaly_Stats\<close>: the statistics of \<open>modules/anomaly\<close> and the clean-up of the maintenance worker.
  \<^item> \<open>Zod\<close>, \<open>Http\<close>: the schema combinators with \<open>shared/validation/validate.ts\<close>; requests, replies and
    the dispatch of a router. Its locale \<open>guarded_routes\<close> states when a table of roles protects a
    state, and is interpreted for the routers of shipments, payments, thresholds, anomalies, API keys,
    users, organizations, invitations and templates.
  \<^item> \<open>Request_Schemas\<close>, \<open>Shipment_Http\<close>, \<open>Payment_Http\<close>, \<open>Sensor_Http\<close>: routes, schemas and controllers
    of \<open>modules/shipments\<close>, \<open>modules/payments\<close>, \<open>modules/telemetry\<close> and \<open>modules/anomaly\<close>.
  \<^item> \<open>Auth_Http\<close>, \<open>Account_Http\<close>: the same for \<open>modules/auth\<close> with its API keys, and for
    \<open>modules/users\<close>, \<open>modules/organizations\<close> and \<open>modules/invitations\<close>.
  \<^item> \<open>Webhook_Http\<close>, \<open>Tenant_Http\<close>: the same for \<open>modules/webhooks\<close> with
    \<open>shared/middleware/verifyStellarSignature.ts\<close>, and for \<open>modules/notifications\<close> and
    \<open>modules/shipment-templates\<close>.
  \<^item> \<open>Application\<close>: \<open>app.ts\<close> and \<open>config/cors.ts\<close>: what a request meets before a router, the
    limiters of its path and the mounted prefixes.
  \<^item> \<open>Samples\<close>: the concrete data of the witnesses.

  \<^bold>\<open>What the lemmas show.\<close> C1 to C6: the shipment state machine, alone and under every sequence of
  operations, with its escrow, ledger blocks and bulk updates. C7 to C9: timeline, listings, export,
  the public tracking page. C10 and C11: who changes a shipment through the routes. C12 to C14: the
  cursors of payments, the signed release callback, who changes a payment through the routes. C15 and C16:
  the dashboards, computed by MongoDB pipelines, against a count written down directly. C17: the
  activity feed and the ties it loses. C18: no request of a tenant changes or reads a document of
  another. C19 to C24: hashing, the chain boundary and its adapters, the event stream and its indexer,
  the serializer of submissions. C25: how many passwords can be
  guessed through the application. C26 to C28: sensor data and the events that reach a
  client. C29 and C30: tokens and passwords. C31 and C32: what requests to the account routes leave
  alone, and what signing up without an invitation opens. C33 to C36: user administration and
  organizations. C37 to C40: second factors, API keys, invitations. Where the code does not do what it
  means to, the property states what it does (C6, C8, C11, C12, C13, C14, C15, C16, C17, C22, C27, C28, C30,
  C32, C35, C36, C40).

  \<^bold>\<open>Bounds and fuel.\<close> \<open>poll_loop\<close> takes fuel because the code polls until a clock passes a deadline;
  32 rounds are enough when each round advances the clock by its second of sleep (C23). \<open>walk\<close> takes
  fuel for the number of pages; more fuel than listed items is enough, as each page shows at least
  one. All other loops are structural or have a measure.

  \<^bold>\<open>Not modelled.\<close> The routes and controllers of the modules that only forward; zod schemas apart
  from those of the chain boundary and of the modules shipments, payments, telemetry, anomaly, auth,
  users, organizations, invitations, webhooks, notifications and shipment-templates; the headers of helmet, the access log;
  environment parsing, the S3, Cloudinary, e-mail and SMS clients, the seed and report scripts, BullMQ
  wiring.
  Numbers of the code are unbounded integers, rationals or reals here; no modelled operation relies on the 53-bit limit or on rounding.
\<close>

section \<open>The shipment lifecycle\<close>









text \<open>
  C5. Delivery and escrow: when the chain adapter releases the escrow, the shipment's payment is
  \<open>Released\<close> with the transaction of the receipt; when it rejects the release, the payments stay
  exactly as they were and the shipment is delivered all the same.
\<close>

theorem delivery_releases_payment:
  assumes "applies i DELIVERED w = Some sh" and "shipmentPayment env i w = Some p"
    and "wf_payments (w_payments w)" and "en_paymentsUp env 1"
    and "w' = snd (updateShipmentStatusService env i DELIVERED ac w)"
  shows "(case releaseEscrowOnDelivery env (updatedDoc env DELIVERED ac sh) (pm_id p) of
       Inr r \<Rightarrow> er_txHash r \<noteq> [] \<longrightarrow> (\<exists>p'. getPaymentById (pm_id p) (w_payments w') = Some p'
          \<and> pm_status p' = RELEASED \<and> pm_stellarTxHash p' = Some (er_txHash r))
     | Inl e \<Rightarrow> w_payments w' = w_payments w)
     \<and> findShipmentById i (w_shipments w') = Some (updatedDoc env DELIVERED ac sh)"
  unfolding assms(5)
  using delivery_releases[OF assms(1-4), where ac = ac] failed_release_keeps_payment[OF _ assms(1,2)]
    update_reads_back[OF assms(1)]
  by (simp split: sum.split)

lemma delivery_releases_payment_witness:
  "\<exists>p'. getPaymentById ''p1'' (w_payments (snd (updateShipmentStatusService sample_env ''s1'' DELIVERED
      \<lparr>ac_userId = None\<rparr> sample_world))) = Some p' \<and> pm_status p' = RELEASED \<and> pm_stellarTxHash p' = Some ''abc''"
proof -
  have up: "en_paymentsUp sample_env 1" by (simp add: sample_env_def)
  have r: "releaseEscrowOnDelivery sample_env (updatedDoc sample_env DELIVERED \<lparr>ac_userId = None\<rparr> sample_shipment) (pm_id sample_payment)
      = Inr \<lparr>er_txHash = ''abc'', er_ledger = 7, er_simulated = True, er_paymentId = pm_id sample_payment\<rparr>"
    by (simp add: releaseEscrowOnDelivery_def) (simp add: sample_env_def sample_release_def)
  have p: "pm_id sample_payment = ''p1''" by (simp add: sample_payment_def)
  from delivery_releases_payment[OF sample_applies sample_shipmentPayment sample_wf_payments up HOL.refl, of "\<lparr>ac_userId = None\<rparr>"]
  show ?thesis unfolding p r[unfolded p] by simp
qed

text \<open>
  C6. The bulk update answers for every id it was given, as updated or as failed, and never touches
  a shipment in which the caller's organization is neither the enterprise nor the carrier. But an id
  listed twice is applied twice, because both turns consult the snapshot taken before the loop: the
  milestone is pushed twice and the document leaves the lifecycle.
\<close>

theorem bulk_update_contract:
  assumes "findShipmentById j (w_shipments w) = Some sh" and "distinct (map sh_id (w_shipments w))"
  shows "br_updated (fst (bulkUpdateShipmentStatusService en ids st org ac w))
       + length (br_failed (fst (bulkUpdateShipmentStatusService en ids st org ac w))) = length ids
     \<and> (sh_enterpriseId sh \<noteq> org \<and> sh_logisticsId sh \<noteq> org \<longrightarrow>
        findShipmentById j (w_shipments (snd (bulkUpdateShipmentStatusService en ids st org ac w))) = Some sh)
     \<and> (sh_enterpriseId sh = org \<and> st \<in> set (ALLOWED_TRANSITIONS (sh_status sh)) \<and> (\<forall>k. en_updateUp (en k) j) \<longrightarrow>
        (\<exists>sh'. findShipmentById j (w_shipments (snd (bulkUpdateShipmentStatusService en [j, j] st org ac w))) = Some sh'
           \<and> length (sh_milestones sh') = length (sh_milestones sh) + 2 \<and> \<not> consistent sh'))"
proof (intro conjI impI)
  assume h: "sh_enterpriseId sh = org \<and> st \<in> set (ALLOWED_TRANSITIONS (sh_status sh)) \<and> (\<forall>k. en_updateUp (en k) j)"
  then show "\<exists>sh'. findShipmentById j (w_shipments (snd (bulkUpdateShipmentStatusService en [j, j] st org ac w))) = Some sh'
      \<and> length (sh_milestones sh') = length (sh_milestones sh) + 2 \<and> \<not> consistent sh'"
    using bulk_repeated_id[OF assms, where org = org and st = st and en = en and ac = ac] repeated_inconsistent
    by (simp add: updatedDoc_def)
qed (use bulk_other_orgs[OF assms] bulk_counts in blast)+

lemma bulk_update_contract_witness:
  "\<exists>sh'. findShipmentById ''s1'' (w_shipments (snd (bulkUpdateShipmentStatusService (\<lambda>_. sample_env) [''s1'', ''s1''] DELIVERED
      ''e1'' \<lparr>ac_userId = None\<rparr> sample_world))) = Some sh' \<and> \<not> consistent sh'"
proof -
  have h: "distinct (map sh_id (w_shipments sample_world))" "sh_enterpriseId sample_shipment = ''e1''"
    "DELIVERED \<in> set (ALLOWED_TRANSITIONS (sh_status sample_shipment))" "\<And>k::nat. en_updateUp sample_env ''s1''"
    by (simp_all add: sample_world_def sample_shipment_def sample_env_def)
  from bulk_update_contract[OF sample_find h(1), of "\<lambda>_. sample_env" "[]" DELIVERED "''e1''" "\<lparr>ac_userId = None\<rparr>"] h(2-4)
  show ?thesis by blast
qed

section \<open>Reading shipments\<close>

text \<open>
  C7. Reading a timeline page by page with the returned cursors yields every event exactly once
  and in order: the sorted union of milestones, proof, anchored telemetry and anomalies.
\<close>

theorem timeline_pages_cover_timeline:
  assumes "getShipmentByIdService i cx (w_shipments w) = Inr sh" and "consistent sh"
    and "distinct (map te_id (w_telemetry w))" and "distinct (map am_id (w_anomalies w))" and "0 < limit"
    and "length (timelineEntries i sh (w_telemetry w) (w_anomalies w)) < fuel"
  shows "walk fuel (fetchTimeline lc i limit cx w) None
    = Some (sort_by (entryLe lc) (timelineEntries i sh (w_telemetry w) (w_anomalies w)))"
  using assms by (rule timeline_walk)

lemma timeline_pages_cover_timeline_witness:
  "walk 5 (fetchTimeline (\<le>) ''s1'' 1 \<lparr>cx_organizationId = None, cx_role = Some SUPER_ADMIN\<rparr> sample_world) None
    = Some [statusEntry sample_milestone]"
proof -
  have "getShipmentByIdService ''s1'' \<lparr>cx_organizationId = None, cx_role = Some SUPER_ADMIN\<rparr> (w_shipments sample_world)
      = Inr sample_shipment"
    by (rule getShipmentById_grants_admin) simp_all
  moreover have "timelineEntries ''s1'' sample_shipment (w_telemetry sample_world) (w_anomalies sample_world)
      = [statusEntry sample_milestone]"
    by (simp add: timelineEntries_def sample_world_def sample_shipment_def proofEntries_def findAll_def)
  ultimately show ?thesis
    using timeline_pages_cover_timeline[of "''s1''" "\<lparr>cx_organizationId = None, cx_role = Some SUPER_ADMIN\<rparr>" sample_world
        sample_shipment 1 5 "(\<le>)"]
    by (simp add: sample_world_def sort_by_def)
qed

text \<open>
  C8. The pages of the shipment list tile the matching shipments: concatenated, they are a
  permutation of what the query selects, each document once. A caller's organization, however, is
  filtered through \<open>organizationId\<close>, a field no shipment has: such a caller is told that there are no
  shipments, whatever is stored.
\<close>

theorem list_pages_tile_the_matches:
  assumes "0 < lp_limit p" and "lr_total (getShipmentsService text p xs) \<le> n * nat (lp_limit p)"
  shows "mset (concat (map (\<lambda>k. lr_data (getShipmentsService text (p\<lparr>lp_page_no := int k + 1\<rparr>) xs)) [0..<n]))
     = mset (findAll shipmentAlive (listQuery text p) xs)
     \<and> (truthy (lp_organizationId p) \<longrightarrow>
        lr_data (getShipmentsService text p xs) = [] \<and> lr_total (getShipmentsService text p xs) = 0)"
  using list_pages_tile[OF assms] org_filter_empty by blast

definition sample_list :: listParams where
  "sample_list = \<lparr>lp_status = Some [IN_TRANSIT], lp_priority = None, lp_page_no = 1, lp_limit = 10,
     lp_origin = Some ''LAG'', lp_destination = None, lp_trackingNumber = None, lp_q = None, lp_from = None,
     lp_to = None, lp_sortBy = None, lp_ascending = False, lp_organizationId = Some ''e1''\<rparr>"

lemma list_pages_tile_the_matches_witness:
  "mset (lr_data (getShipmentsService (\<lambda>_ _. True) (sample_list\<lparr>lp_organizationId := None\<rparr>) [sample_shipment]))
    = mset (findAll shipmentAlive (listQuery (\<lambda>_ _. True) (sample_list\<lparr>lp_organizationId := None\<rparr>)) [sample_shipment])"
proof -
  let ?p = "sample_list\<lparr>lp_organizationId := None\<rparr>"
  have t: "lr_total (getShipmentsService (\<lambda>_ _. True) ?p [sample_shipment]) \<le> 1 * nat (lp_limit ?p)"
    by (simp add: getShipmentsService_def sample_list_def countDocuments_def findAll_def Let_def)
  have "?p\<lparr>lp_page_no := 1\<rparr> = ?p" by (simp add: sample_list_def)
  with list_pages_tile_the_matches[OF _ t] show ?thesis by (simp add: sample_list_def)
qed



section \<open>The HTTP interface of shipments\<close>


definition http_claims :: "userRole \<Rightarrow> claims" where
  "http_claims role = \<lparr>cl_userId = ''u9'', cl_role = Some role, cl_persona = None, cl_organizationId = Some ''x9'',
     cl_organizationType = None, cl_jti = [], cl_type = None, cl_iat = 0, cl_exp = 100000\<rparr>"

definition sample_http :: httpEnv where
  "sample_http = \<lparr>hx_auth = sample_auth,
     hx_conversions = \<lparr>cv_number = (\<lambda>_. JsNaN), cv_date = (\<lambda>_. None), cv_dateTime = (\<lambda>_. None),
       cv_utcDate = (\<lambda>_. None)\<rparr>,
     hx_issues = (\<lambda>_. ''issues''), hx_parse = (\<lambda>_. None), hx_env = (\<lambda>_. sample_env),
     hx_fraction = (\<lambda>_. Inl (PlainError ''skip'')), hx_oversize = (\<lambda>n f. n < uf_size f),
     hx_invalid = (\<lambda>_. []), hx_text = (\<lambda>_ _. True), hx_locale = (\<le>),
     hx_dateText = (\<lambda>_. []), hx_etaNumber = (\<lambda>_. None), hx_etaEncode = (\<lambda>_. []), hx_etaDecode = (\<lambda>_. None),
     hx_etaRead = sample_conn 2000, hx_etaWrite = sample_conn 2000\<rparr>"

definition sample_request :: "userRole \<Rightarrow> request" where
  "sample_request role = \<lparr>rq_authorization = Some (''Bearer '' @ sample_sign (http_claims role)), rq_query = [],
     rq_body = JObj [(''status'', JStr (status_str DELIVERED))], rq_files = []\<rparr>"







section \<open>Ledger and payments\<close>





text \<open>
  C13. A signed release callback for a known payment marks that payment released with the given hash,
  leaves the others alone, and records the settlement in one ledger block that cites the transaction.
  An unsigned callback changes nothing. Deliveries are not told apart: the same request delivered
  again at another time is accepted and records the settlement a second time.
\<close>

theorem release_webhook_settles:
  assumes "verifyStellarSignature ho rq = Inr ()"
    and "StellarWebhookPayloadSchema (hx_conversions ho) (hr_body rq) = Some payload" and "sp_type payload = Release"
    and "getPaymentById (sp_paymentId payload) (w_payments (sn_world (fst w))) = Some p"
    and "sp_transactionHash payload \<noteq> []" and "pe_socketReady (ho_pay ho)" and "ho_blockUp ho"
    and "pe_oid (ho_pay ho) (pm_shipmentId p) = Inr (pm_shipmentId p)"
    and "w1 = snd (webhooksRouter ho POST [''stellar''] rq w)"
    and "pe_socketReady env" and "pe_oid env (pm_shipmentId p) = Inr (pm_shipmentId p)"
    and "w2 = snd (webhooksRouter (ho\<lparr>ho_pay := env, ho_blockNow := later\<rparr>) POST [''stellar''] rq w1)"
  shows "(\<exists>p'. getPaymentById (sp_paymentId payload) (w_payments (sn_world (fst w1))) = Some p' \<and> pm_status p' = RELEASED
       \<and> pm_stellarTxHash p' = Some (sp_transactionHash payload) \<and> pm_amount p' = pm_amount p)
     \<and> (\<forall>j. j \<noteq> sp_paymentId payload \<longrightarrow> getPaymentById j (w_payments (sn_world (fst w1)))
          = getPaymentById j (w_payments (sn_world (fst w))))
     \<and> (\<forall>rq'. verifyStellarSignature ho rq' \<noteq> Inr () \<longrightarrow> snd (webhooksRouter ho POST [''stellar''] rq' w) = w)
     \<and> (\<exists>b1 b2. w_blocks (sn_world (fst w1)) = w_blocks (sn_world (fst w)) @ [b1]
          \<and> w_blocks (sn_world (fst w2)) = w_blocks (sn_world (fst w)) @ [b1, b2]
          \<and> (\<forall>b\<in>{b1, b2}. lb_milestoneEvent b = OfStatus SETTLEMENT_COMPLETED \<and> lb_shipmentId b = pm_shipmentId p
               \<and> lb_transactionHash b = Some (sp_transactionHash payload)))"
  using signed_release[OF assms(1-9)] release_repeats[OF assms] unsigned_callback by blast

definition sample_payEnv :: payEnv where
  "sample_payEnv = \<lparr>pe_oid = Inr, pe_fresh = ''b1'', pe_updateNow = 50, pe_eventNow = 51, pe_auditNow = 52,
     pe_socketReady = True, pe_isValidObjectId = (\<lambda>_. True), pe_auditUp = True, pe_stellarNetwork = ''testnet''\<rparr>"

definition sample_keyEnv :: keyEnv where
  "sample_keyEnv = \<lparr>ke_random = ''raw2'', ke_hash = (\<lambda>r. r), ke_compare = (=), ke_fresh = ''k2'', ke_now = 9,
     ke_isValidObjectId = (\<lambda>_. True), ke_auditUp = True\<rparr>"

definition sample_sensing :: sensing where
  "sample_sensing = \<lparr>sn_world = sample_world, sn_thresholds = [], sn_jobs = [], sn_alerts = [], sn_pending = []\<rparr>"

definition sample_sensingEnv :: sensingEnv where
  "sample_sensingEnv = \<lparr>se_env = sample_env, se_num = (\<lambda>x. ''n''), se_queueUp = (\<lambda>k. k = 0), se_storeUp = True\<rparr>"

definition sample_hooks :: hookServer where
  "sample_hooks = \<lparr>hx_auth = sample_auth,
     hx_conversions = \<lparr>cv_number = (\<lambda>_. Finite 5), cv_date = (\<lambda>_. Some 0), cv_dateTime = (\<lambda>_. Some 0),
       cv_utcDate = (\<lambda>_. None)\<rparr>,
     hx_issues = (\<lambda>_. ''issues''), hx_parse = (\<lambda>_. None), ho_sensing = sample_sensingEnv, ho_keys = sample_keyEnv,
     ho_pay = sample_payEnv, ho_blockNow = 60, ho_blockUp = True, ho_secret = Some ''0123456789abcdef'',
     ho_hmac = (\<lambda>key bs. [17])\<rparr>"

definition sample_callback :: hookRequest where
  "sample_callback = \<lparr>hr_apiKey = None, hr_signature = Some ''11'', hr_rawBody = Some [],
     hr_body = JObj [(''id'', JStr ''e1''), (''type'', JStr ''release''), (''paymentId'', JStr ''p1''),
       (''transactionHash'', JStr ''hash''), (''amount'', JNum ''5''), (''timestamp'', JStr ''2026-01-01T00:00:00Z'')]\<rparr>"

lemma release_webhook_settles_witness:
  "\<exists>p'. getPaymentById ''p1'' (w_payments (sn_world (fst (snd (webhooksRouter sample_hooks POST [''stellar''] sample_callback
      (sample_sensing, [])))))) = Some p' \<and> pm_status p' = RELEASED"
proof -
  let ?y = "\<lparr>sp_id = ''e1'', sp_type = Release, sp_paymentId = ''p1'', sp_transactionHash = ''hash'', sp_amount = 5,
      sp_timestamp = ''2026-01-01T00:00:00Z'', sp_signature = None\<rparr>"
  have sig: "verifyStellarSignature sample_hooks sample_callback = Inr ()"
    unfolding verifyStellar_iff sample_hooks_def sample_callback_def by (simp add: nibble_of_def)
  have body: "StellarWebhookPayloadSchema (hx_conversions sample_hooks) (hr_body sample_callback) = Some ?y"
    by (simp add: StellarWebhookPayloadSchema_def sample_callback_def sample_hooks_def zObject_def propOf_def zString_def
        zEnum_def zNumber_def zOptional_def)
  have pay: "getPaymentById (sp_paymentId ?y) (w_payments (sn_world (fst (sample_sensing, [])))) = Some sample_payment"
    by (simp add: getPaymentById_def findOne_def sample_sensing_def sample_world_def sample_payment_def paymentAlive_def)
  have en: "pe_socketReady (ho_pay sample_hooks)" "ho_blockUp sample_hooks" "pe_oid (ho_pay sample_hooks) = Inr"
    by (simp_all add: sample_hooks_def sample_payEnv_def)
  have "pe_oid (ho_pay sample_hooks) x = Inr x" for x by (simp add: en(3))
  from release_webhook_settles[OF sig body _ pay _ en(1,2) this HOL.refl en(1) this HOL.refl] show ?thesis
    by simp blast
qed




section \<open>Dashboards\<close>

text \<open>
  C15. A dashboard that is not answered from the cache counts the shipments created in the window: by
  status, in the buckets of the time series, and with each carrier's average time to delivery. But
  the count of delayed shipments is always 0, since the stage in front drops \<open>expectedDelivery\<close>, and
  every bucket reports all its shipments as delivered, since a missing timestamp is not null.
\<close>

theorem dashboard_counts:
  assumes "documented_mongo m" and "getAnalyticsPerformance m enc dec env q shs as cs = (Inr db, cs')"
    and "fst (readAnalyticsPerformanceCache dec (an_connR env) (performanceKey q) cs) = None"
  shows "let xs = createdBetween (q_startDate q) (q_endDate q) shs in (\<forall>st. nullish (map_of (db_shipmentsByStatus db) (status_str st)) 0 = length (filter (\<lambda>sh. sh_status sh = st) xs))
     \<and> sum_list (map tb_shipmentCount (db_timeSeries db)) = length xs
     \<and> (\<forall>l ds. ds = filter (\<lambda>sh. sh_logisticsId sh = l \<and> deliveredAt sh \<noteq> None) xs \<and> ds \<noteq> [] \<longrightarrow>
          map_of (db_averageDeliveryTimeByLogisticsId db) l
            = Some (sum_list (map (\<lambda>sh. of_int (the (deliveredAt sh) - sh_createdAt sh)) ds) / of_nat (length ds)))
     \<and> db_totalDelayedShipments db = 0
     \<and> (\<forall>b\<in>set (db_timeSeries db). tb_deliveredCount b = tb_shipmentCount b)"
  unfolding performance_cases[OF assms(2,3)]
  using fresh_status_count[OF assms(1)] fresh_series_total fresh_delayed[OF assms(1)] fresh_delivered[OF assms(1)]
    fresh_average[OF assms(1) HOL.refl]
  by (simp add: Let_def)

fun numbersOf :: "bson list \<Rightarrow> rat list" where
  "numbersOf [] = []"
| "numbersOf (B_num x # bs) = x # numbersOf bs"
| "numbersOf (b # bs) = numbersOf bs"

definition sample_mongo :: mongo where
  "sample_mongo = \<lparr>
     mg_project = (\<lambda>keep new d. map (\<lambda>(k, f). (k, f d)) new @ filter (\<lambda>(k, v). k = ''_id'' \<or> k \<in> set keep) d),
     mg_addFields = (\<lambda>new d. map (\<lambda>(k, f). (k, f d)) new @ d), mg_eq = (=),
     mg_lte = (\<lambda>a b. case (a, b) of (B_missing, _) \<Rightarrow> True | (B_date s, B_date t) \<Rightarrow> s \<le> t | _ \<Rightarrow> False),
     mg_subtract = (\<lambda>a b. case (a, b) of (B_date s, B_date t) \<Rightarrow> B_num (of_int (s - t)) | _ \<Rightarrow> B_null),
     mg_divide = (\<lambda>a b. case (a, b) of (B_num x, B_num y) \<Rightarrow> B_num (x / y) | _ \<Rightarrow> B_null),
     mg_first = (\<lambda>xs. if xs = [] then B_missing else hd xs),
     mg_avg = (\<lambda>bs. let ns = numbersOf bs in if ns = [] then None else Some (sum_list ns / of_nat (length ns))),
     mg_qlt = (\<lambda>a b. case (a, b) of (B_date s, B_date t) \<Rightarrow> s < t | _ \<Rightarrow> False),
     mg_qnull = (\<lambda>b. b \<in> {B_null, B_missing}), mg_floor = (\<lambda>u t. t div MS_PER_DAY * MS_PER_DAY)\<rparr>"

lemma sample_mongo_documented: "documented_mongo sample_mongo"
proof -
  have calc: "map_of (map (\<lambda>(k, f). (k, f d)) new) k = map_option (\<lambda>f. f d) (map_of new k)"
    for new :: "(string \<times> (bdoc \<Rightarrow> bson)) list" and d k
    by (simp add: map_of_map)
  have keep: "map_of (filter (\<lambda>(k, v). Q k) d) k = (if Q k then map_of d k else None)" for Q and d :: bdoc and k
    by (induction d) auto
  have none: "\<forall>b\<in>set bs. b \<in> {B_null, B_missing} \<Longrightarrow> numbersOf bs = []" for bs
    by (induction bs rule: numbersOf.induct) auto
  have nums: "numbersOf (map B_num xs) = xs" for xs by (induction xs) auto
  show ?thesis
    unfolding documented_mongo_def
    by (intro conjI allI)
      (simp_all add: sample_mongo_def fieldOf_def map_add_def calc keep none nums split: option.splits)
qed

definition sample_analytics :: analyticsEnv where
  "sample_analytics = \<lparr>an_now = 1000, an_lastUpdated = 1000, an_connR = sample_conn 1000, an_connW = sample_conn 1000,
     an_shipmentsUp = True, an_anomaliesUp = True, an_error = PlainError ''timeout''\<rparr>"

definition sample_window :: performanceQuery where
  "sample_window = \<lparr>q_startDate = 0, q_endDate = 1000, q_granularity = None\<rparr>"

lemma cache_empty: "fst (cacheRead dec (sample_conn t) k (False, emptyRedis)) = None"
  by (simp add: cacheRead_fst redis_value_conv emptyRedis_def)

lemma dashboard_counts_witness:
  "\<exists>db cs'. getAnalyticsPerformance sample_mongo (\<lambda>_. []) (\<lambda>_. None) sample_analytics sample_window [sample_shipment] []
       (False, emptyRedis) = (Inr db, cs')
     \<and> nullish (map_of (db_shipmentsByStatus db) (status_str IN_TRANSIT)) 0 = 1 \<and> db_totalDelayedShipments db = 0
     \<and> sum_list (map tb_deliveredCount (db_timeSeries db)) = 1"
proof -
  have miss: "fst (readAnalyticsPerformanceCache (\<lambda>_. None) (an_connR sample_analytics) (performanceKey sample_window) (False, emptyRedis)) = None"
    by (simp add: readAnalyticsPerformanceCache_def sample_analytics_def cache_empty)
  let ?g = "getAnalyticsPerformance sample_mongo (\<lambda>_. []) (\<lambda>_. None) sample_analytics sample_window [sample_shipment] []
       (False, emptyRedis)"
  have "\<exists>db. fst ?g = Inr db"
    using performance_fresh[OF miss] by (simp add: sample_analytics_def)
  then obtain db cs' where g: "?g = (Inr db, cs')" by (cases ?g) auto
  have xs: "createdBetween (q_startDate sample_window) (q_endDate sample_window) [sample_shipment] = [sample_shipment]"
    by (simp add: createdBetween_def sample_window_def shipmentAlive_def sample_shipment_def)
  have st: "sh_status sample_shipment = IN_TRANSIT" by (simp add: sample_shipment_def)
  note dashboard_counts[OF sample_mongo_documented g miss, unfolded xs Let_def]
  then have f: "nullish (map_of (db_shipmentsByStatus db) (status_str IN_TRANSIT)) 0
        = length (filter (\<lambda>sh. sh_status sh = IN_TRANSIT) [sample_shipment])"
    "sum_list (map tb_shipmentCount (db_timeSeries db)) = length [sample_shipment]"
    "db_totalDelayedShipments db = 0" "\<forall>b\<in>set (db_timeSeries db). tb_deliveredCount b = tb_shipmentCount b"
    by blast+
  have eq: "map tb_deliveredCount (db_timeSeries db) = map tb_shipmentCount (db_timeSeries db)" using f(4) by simp
  have "sum_list (map tb_deliveredCount (db_timeSeries db)) = 1" unfolding eq f(2) by simp
  moreover have "nullish (map_of (db_shipmentsByStatus db) (status_str IN_TRANSIT)) 0 = 1" unfolding f(1) by (simp add: st)
  ultimately show ?thesis using g f(3) by blast
qed



section \<open>Feeds and tenants\<close>

text \<open>
  C17. Following the activity feed by its dates ends, and shows matching entries newest first, none
  twice, with at least one for every instant at which there are any: the only entries it can miss are
  those that share an instant with one it shows. With distinct instants it shows them all.
\<close>

theorem activity_feed_loses_only_ties:
  assumes "activity_ok q" and "length (activityListing q) < fuel"
  shows "\<exists>zs. walk fuel (activityFetch q) None = Some zs \<and> subseq zs (activityListing q)
     \<and> al_timestamp ` set (activityListing q) = al_timestamp ` set zs
     \<and> (distinct (map al_timestamp (activityListing q)) \<longrightarrow> zs = activityListing q)"
proof -
  obtain zs where "walk fuel (activityFetch q) None = Some zs" "subseq zs (activityListing q)"
    "al_timestamp ` set (activityListing q) = al_timestamp ` set zs"
    using walk_activity[OF assms(1) fetch_first, of fuel] assms(2) unfolding tail_from_None by blast
  then show ?thesis using walk_activity_distinct by blast
qed

definition sample_entry :: "objectId \<Rightarrow> auditEntry" where
  "sample_entry i = \<lparr>al_id = i, al_userId = ''u9'', al_action = ''SHIPMENT_CREATED'', al_resource = ''SHIPMENT'',
     al_resourceId = ''s1'', al_timestamp = 5000, al_metadata = [], al_deletedAt = None\<rparr>"

definition sample_feed :: activityQuery where
  "sample_feed = \<lparr>vq_parse = (\<lambda>s. Some 5000), vq_params = \<lparr>ac_before = None, ac_limit = 1, ac_user = None,
     ac_action = None, ac_resource = None\<rparr>, vq_docs = [sample_entry ''a1'', sample_entry ''a2'']\<rparr>"

lemma activity_feed_loses_only_ties_witness:
  "\<exists>zs. walk 3 (activityFetch sample_feed) None = Some zs \<and> al_timestamp ` set zs = {5000}
     \<and> walk 3 (activityFetch sample_feed) None = Some [sample_entry ''a2'']"
proof -
  have base: "filter (\<lambda>e. activityBase (vq_params sample_feed) e \<and> auditAlive e) (vq_docs sample_feed)
      = [sample_entry ''a1'', sample_entry ''a2'']"
    by (simp add: sample_feed_def sample_entry_def activityBase_def wanted_def auditAlive_def)
  have l: "activityListing sample_feed = [sample_entry ''a2'', sample_entry ''a1'']"
    unfolding activityListing_def newestEntries_def findAll_def base
    by (simp add: desc_by_def created_key_def sample_entry_def)
  have ok: "activity_ok sample_feed" by (simp add: activity_ok_def sample_feed_def sample_entry_def)
  have tail: "tail_from sample_feed (Some 5000) = []" by (simp add: tail_from_def l olderThan_def sample_entry_def)
  have p: "ac_limit (vq_params sample_feed) = 1" "vq_parse sample_feed (toISOString 5000) = Some 5000"
    by (simp_all add: sample_feed_def)
  have "walk 3 (activityFetch sample_feed) None = Some [sample_entry ''a2'']"
    by (simp add: numeral_3_eq_3 fetch_first fetch_older p activityPage_tail Let_def l tail sample_entry_def)
  moreover obtain zs where "walk 3 (activityFetch sample_feed) None = Some zs"
    "al_timestamp ` set (activityListing sample_feed) = al_timestamp ` set zs"
    using activity_feed_loses_only_ties[OF ok, of 3] l by auto
  ultimately show ?thesis using l by (auto simp: sample_entry_def)
qed


section \<open>Hashes and the chain\<close>

text \<open>
  C19. The data hash does not depend on the order in which an object's fields were written, at any
  depth.
\<close>

theorem data_hash_ignores_field_order:
  assumes "same_json v w"
  shows "generateDataHash sha256 v = generateDataHash sha256 w"
  using assms by (rule generateDataHash_same)

lemma data_hash_ignores_field_order_witness:
  "generateDataHash id (JObj [(''a'', JStr ''z''), (''b'', JObj [(''x'', JNull), (''y'', JBool True)])])
    = generateDataHash id (JObj [(''b'', JObj [(''y'', JBool True), (''x'', JNull)]), (''a'', JStr ''z'')])"
proof (rule data_hash_ignores_field_order)
  have inner: "same_json (JObj [(''x'', JNull), (''y'', JBool True)]) (JObj [(''y'', JBool True), (''x'', JNull)])"
    by (rule same_json.obj[where kvs' = "[(''y'', JBool True), (''x'', JNull)]"]) (simp_all add: same_json.refl)
  show "same_json (JObj [(''a'', JStr ''z''), (''b'', JObj [(''x'', JNull), (''y'', JBool True)])])
     (JObj [(''b'', JObj [(''y'', JBool True), (''x'', JNull)]), (''a'', JStr ''z'')])"
    by (rule same_json.obj[where kvs' = "[(''b'', JObj [(''x'', JNull), (''y'', JBool True)]), (''a'', JStr ''z'')]"])
      (simp_all add: same_json.refl inner)
qed





text \<open>
  C21. The simulated adapter's event stream over an account history: it ends, with the anchor of every
  transaction that holds one, in ledger order and under distinct ids; and a stream resumed from any
  of its events yields exactly the events after that one.
\<close>

theorem chain_stream_resumes:
  assumes "horizon_history env hist" and "signer (st_horizon env) = Inr pk" and "length hist < fuel * PAGE_SIZE"
  shows "\<exists>es. simulated_streamEvents fuel env None = Some (es, None) \<and> es = List.map_filter (anchorOf env) hist
     \<and> distinct (map (\<lambda>e. ev_id (event_envelope e)) es)
     \<and> (\<forall>ps e qs. es = ps @ e # qs \<longrightarrow>
          simulated_streamEvents fuel env (Some (ev_id (event_envelope e))) = Some (qs, None))"
proof -
  have "distinct (map tr_paging_token hist)" using assms(1) by (simp add: horizon_history_def)
  then have "distinct (map (\<lambda>e. ev_id (event_envelope e)) (List.map_filter (anchorOf env) hist))" by (rule stream_ids)
  moreover have "streamPages fuel env None = Some (List.map_filter (anchorOf env) hist, None)"
    using streamPages_all[OF assms(1), of None fuel] assms(3) by (simp add: historyCursor_def afterToken_def)
  ultimately show ?thesis
    using stream_resume[OF assms(1) _ assms(3)] assms(2) by (simp add: simulated_streamEvents_def)
qed

definition sample_record :: horizonTxRecord where
  "sample_record = \<lparr>tr_paging_token = ''11'', tr_hash = replicate 64 CHR ''a'', tr_ledger_attr = 7,
     tr_created_at = ''2024-01-01T00:00:00Z'', tr_envelope_xdr = ''x'', tr_successful = True\<rparr>"

definition sample_stream :: streamEnv where
  "sample_stream = \<lparr>st_horizon = \<lparr>secretKey = Some ''k'', fromSecret = Some, loadAccount = (\<lambda>_. None),
       submitTransaction = (\<lambda>_ _ _. Inr \<lparr>tx_hash = ''h'', tx_ledger = 1\<rparr>)\<rparr>,
     st_transactions = (\<lambda>c n. Inr (if c = None then take n [sample_record] else [])),
     st_fromXDR = (\<lambda>_. Some (PlainTx [\<lparr>op_type = ''manageData'', op_name = ''telemetry:s1'',
       op_value = Some (replicate 64 CHR ''b'')\<rparr>])), st_isDatetime = (\<lambda>_. True),
     SIMULATED_CONTRACT_ID = CHR ''C'' # replicate 55 CHR ''A''\<rparr>"

lemma sample_history: "horizon_history sample_stream [sample_record]"
  by (simp add: horizon_history_def sample_stream_def sample_record_def wf_record_def TxHashSchema_def
      is_lower_hex_def U32_MAX_def ContractAddressSchema_def is_base32_def is_upper_def afterToken_def list_all_iff)

lemma sample_signer: "signer (st_horizon sample_stream) = Inr ''k''"
  by (simp add: signer_def sample_stream_def)

lemma sample_anchor: "\<exists>e. anchorOf sample_stream sample_record = Some e"
proof -
  have "firstAnchor (operations (PlainTx [\<lparr>op_type = ''manageData'', op_name = ''telemetry:s1'',
      op_value = Some (replicate 64 CHR ''b'')\<rparr>])) = Some (''s1'', replicate 64 CHR ''b'')"
    by (simp add: operations_def anchorWrite_def ANCHOR_KEY_PREFIX_def startsWith_def SymbolSchema_def is_lower_def
        is_upper_def is_digit_def Bytes32HexSchema_def is_lower_hex_def list_all_iff)
  moreover have "toAnchorEvent sample_stream sample_record = Inr (anchorOf sample_stream sample_record)"
    using sample_history by (intro toAnchorEvent_wf) (simp_all add: horizon_history_def)
  ultimately show ?thesis
    by (cases "anchorOf sample_stream sample_record")
      (auto simp: toAnchorEvent_def sample_stream_def sample_record_def map_sum_def split: sum.splits)
qed

lemma chain_stream_resumes_witness:
  "\<exists>e. simulated_streamEvents 1 sample_stream None = Some ([e], None)
     \<and> simulated_streamEvents 1 sample_stream (Some (ev_id (event_envelope e))) = Some ([], None)"
proof -
  obtain e where e: "List.map_filter (anchorOf sample_stream) [sample_record] = [] @ e # []"
    using sample_anchor by (auto simp: List.map_filter_simps)
  have f: "length [sample_record] < 1 * PAGE_SIZE" by (simp add: PAGE_SIZE_def)
  show ?thesis using chain_stream_resumes[OF sample_history sample_signer f] e by auto
qed

text \<open>
  C22. The indexer never indexes anything (a flaw of the code): its update names the milestone both
  under \<open>$set\<close> and under \<open>$setOnInsert\<close>, which the database refuses, so every cycle whose stream has
  an event to offer fails at the first one; over any number of cycles no block is stored and the
  cursor never moves.
\<close>

theorem indexer_never_stores:
  assumes "\<forall>(env, stream)\<in>set cs. documented_updates env"
  shows "snd (indexerCycles cs st) = st
     \<and> (\<forall>k<length cs. fst (snd (cs ! k) (getStoredCursor (fst (cs ! k)) st)) \<noteq> [] \<longrightarrow>
          (\<exists>m. fst (indexerCycles cs st) ! k = Inl (PlainError m)))"
  using cycles_store_nothing[of cs st] cycles_fail[of cs _ st] assms by blast

definition sample_indexer :: indexerEnv where
  "sample_indexer = \<lparr>ix_now = (\<lambda>k. int k), ix_readable = True, ix_writable = (\<lambda>_. True),
     ix_updateOne = (\<lambda>h u bs. if conflicting u then (Inl (PlainError ''conflict at milestoneEvent''), bs)
       else (Inr True, bs))\<rparr>"

lemma indexer_never_stores_witness:
  "\<exists>stream m. fst (stream None) \<noteq> []
     \<and> (let (rs, st) = indexerCycles [(sample_indexer, stream), (sample_indexer, stream)]
              \<lparr>is_cursors = (\<lambda>_. None), is_blocks = []\<rparr>
        in st = \<lparr>is_cursors = (\<lambda>_. None), is_blocks = []\<rparr> \<and> rs ! 1 = Inl (PlainError m))"
proof -
  let ?stream = "\<lambda>c. the (simulated_streamEvents 1 sample_stream c)"
    and ?st = "\<lparr>is_cursors = (\<lambda>_. None), is_blocks = []\<rparr>"
  let ?cs = "[(sample_indexer, ?stream), (sample_indexer, ?stream)]"
  obtain e where e: "simulated_streamEvents 1 sample_stream None = Some ([e], None)"
  proof -
    obtain e where "anchorOf sample_stream sample_record = Some e" using sample_anchor by blast
    then have "streamPages 1 sample_stream None = Some ([e], None)"
      using streamPages_all[OF sample_history, of None 1]
      by (simp add: historyCursor_def afterToken_def PAGE_SIZE_def List.map_filter_simps)
    then show ?thesis using that sample_signer by (simp add: simulated_streamEvents_def)
  qed
  have d: "\<forall>(env, stream)\<in>set ?cs. documented_updates env"
    by (simp add: documented_updates_def sample_indexer_def)
  have "getStoredCursor sample_indexer ?st = None" by (simp add: getStoredCursor_def sample_indexer_def)
  then have "fst (snd (?cs ! 1) (getStoredCursor (fst (?cs ! 1)) ?st)) \<noteq> []" using e by simp
  then obtain m where "fst (indexerCycles ?cs ?st) ! 1 = Inl (PlainError m)" "snd (indexerCycles ?cs ?st) = ?st"
    using indexer_never_stores[OF d, of ?st] by (metis (no_types, lifting) One_nat_def Suc_eq_plus1 lessI list.size(3,4) plus_1_eq_Suc)
  then show ?thesis using e by (intro exI[of _ ?stream] exI[of _ m]) (simp add: case_prod_unfold Let_def)
qed




section \<open>Ordering and limits\<close>

text \<open>
  C24. The per-key serializer, under every interleaving of calls, starts, settlements and cleanups:
  two tasks of a key never run at once; a task begins only when all earlier ones of its key have
  settled; the first unsettled task of a key is running or may start; and when all have been cleaned
  up, the map is empty again.
\<close>

theorem serializer_runs_in_order:
  assumes "serializer_step\<^sup>*\<^sup>* emptySerializer s" and "i < length (sz_tasks s)"
  shows "(\<forall>j<length (sz_tasks s). keyOf s i = keyOf s j \<and> statusOf s i = Running \<and> statusOf s j = Running \<longrightarrow> i = j)
     \<and> (\<forall>j<i. keyOf s j = keyOf s i \<and> statusOf s i \<noteq> Waiting \<longrightarrow> statusOf s j = Settled)
     \<and> (statusOf s i \<noteq> Settled \<and> (\<forall>j<i. keyOf s j = keyOf s i \<longrightarrow> statusOf s j = Settled) \<longrightarrow> statusOf s i = Running \<or> canStart s i)
     \<and> ((\<forall>j<length (sz_tasks s). tk_cleaned (sz_tasks s ! j)) \<longrightarrow> sz_tails s = (\<lambda>_. None))"
proof -
  have ok: "serializer_ok s" by (rule steps_ok[OF assms(1)]) simp
  then have "in_order s" by (simp add: serializer_ok_def)
  then show ?thesis
    using one_at_a_time[OF ok assms(2)] first_can_go[OF ok assms(2)] no_leak[OF ok] in_orderD[OF _ _ assms(2)] by blast
qed

lemma serializer_runs_in_order_witness:
  "canStart (serializer_run ''k'' emptySerializer) 0"
proof -
  let ?s = "serializer_run ''k'' emptySerializer"
  have st: "serializer_step\<^sup>*\<^sup>* emptySerializer ?s" by (rule r_into_rtranclp[where r = serializer_step, OF called])
  have "statusOf ?s 0 = Waiting" "length (sz_tasks ?s) = 1"
    by (simp_all add: serializer_run_def emptySerializer_def statusOf_def)
  with serializer_runs_in_order[OF st, of 0] show ?thesis by simp
qed

text \<open>
  C25. Guessing a password is limited: of the attempts with wrong credentials that come from one
  address, exactly five are answered by the login route from the first of them until the window of the
  limiters ends, and the rest are refused before it, with Redis as with the in-process fallback; the
  accounts stay as they are. (The hit of a successful login is taken back. The request passes the
  application: origin, body, standard limiter, login limiter, router.)
\<close>

theorem failed_logins_are_limited:
  assumes "srv = accountServer p o' pe" and "limitersOk srv key s"
    and "\<And>k h r. windowOf srv key k s = Some (h, r) \<Longrightarrow> r \<le> t0"
    and "attempt srv key t0 a0" and "length xs < 100"
    and "\<forall>(a, rq)\<in>set xs. \<exists>t. attempt srv key t a \<and> t < t0 + lc_windowMs (standardLimiter (\<not> p))"
    and "\<forall>rq\<in>insert rq0 (snd ` set xs). wrongLogin ah (at_users (ax_auth (ap_world s))) rq"
  shows "length (filter wasServed (fst (loginReplies srv ah others ((a0, rq0) # xs) s))) = min 5 (Suc (length xs))
    \<and> at_users (ax_auth (ap_world (snd (loginReplies srv ah others ((a0, rq0) # xs) s)))) = at_users (ax_auth (ap_world s))"
  using assms by (rule login_attempts)

definition sample_authServer :: authServer where
  "sample_authServer = \<lparr>hx_auth = sample_auth,
     hx_conversions = \<lparr>cv_number = (\<lambda>_. JsNaN), cv_date = (\<lambda>_. None), cv_dateTime = (\<lambda>_. None),
       cv_utcDate = (\<lambda>_. None)\<rparr>,
     hx_issues = (\<lambda>_. ''issues''), hx_parse = (\<lambda>_. None),
     ah_twoFactor = \<lparr>tf_secret = ''S'', tf_uri = (\<lambda>l i s. l), tf_verify = (=),
       tf_random = (\<lambda>k. replicate k CHR ''a''), tf_hash = (\<lambda>c. c), tf_compare = (=)\<rparr>,
     ah_keys = \<lparr>ke_random = ''raw2'', ke_hash = (\<lambda>r. r), ke_compare = (=), ke_fresh = ''k2'', ke_now = 9,
       ke_isValidObjectId = (\<lambda>_. True), ke_auditUp = True\<rparr>,
     ah_mailUp = True, ah_isEmail = (\<lambda>s. CHR ''@'' \<in> set s), ah_context = \<lparr>rc_ip = None, rc_userAgent = None\<rparr>\<rparr>"

definition sample_authSystem :: authSystem where
  "sample_authSystem = \<lparr>ax_auth = sample_state, ax_keys = \<lparr>ks_keys = [], ks_audit = \<lparr>as_logged = [], as_persisted = []\<rparr>\<rparr>\<rparr>"

definition sample_appState :: "authSystem appState" where
  "sample_appState = \<lparr>ap_stores = (\<lambda>_. \<lparr>ls_redis = emptyRedis, ls_checked = True, ls_client = True, ls_fallback = (\<lambda>_. None)\<rparr>),
     ap_world = sample_authSystem\<rparr>"

definition sample_guess :: "appRequest \<times> request" where
  "sample_guess = (\<lparr>aq_requestId = None, aq_uuid = ''r'', aq_origin = None, aq_address = ''10.0.0.1'', aq_parsed = Inr (),
       aq_met = (\<lambda>_. allUp 1000)\<rparr>,
     \<lparr>rq_authorization = None, rq_query = [], rq_body = JObj [(''email'', JStr ''a@b''), (''password'', JStr ''guess'')],
      rq_files = []\<rparr>)"

lemma failed_logins_are_limited_witness:
  "length (filter wasServed (fst (loginReplies (accountServer True None (errorMiddleware (\<lambda>_. None))) sample_authServer
     (\<lambda>mt rest w. (RouteNotFound, w)) (replicate 8 sample_guess) sample_appState))) = 5"
proof -
  let ?srv = "accountServer True None (errorMiddleware (\<lambda>_. None))"
  have store: "storeOf ?srv k sample_appState
      = \<lparr>ls_redis = emptyRedis, ls_checked = True, ls_client = True, ls_fallback = (\<lambda>_. None)\<rparr>" for k
    by (simp add: storeOf_def sample_appState_def accountServer_def sample_authSystem_def sample_state_def)
  have ok: "limitersOk ?srv ''10.0.0.1'' sample_appState"
    by (simp add: limitersOk_def store limiter_ok_def counter_ok_def emptyRedis_def limiterConfigOf_def
        standardLimiter_def strictLimiter_def loginLimiter_def otpLimiter_def split: limiter.split)
  have fresh: "windowOf ?srv ''10.0.0.1'' k sample_appState = Some (h, r) \<Longrightarrow> r \<le> 1000" for k h r
    by (simp add: windowOf_def store limiter_window_def counter_window_def emptyRedis_def)
  have guess: "attempt ?srv ''10.0.0.1'' 1000 (fst sample_guess)"
    by (simp add: attempt_def sample_guess_def corsOptionsDelegate_def)
  have wrong: "wrongLogin sample_authServer (at_users (ax_auth (ap_world sample_appState))) (snd sample_guess)"
    by (auto simp: wrongLogin_def sample_guess_def sample_appState_def sample_authSystem_def sample_state_def sample_user_def
        sample_authServer_def sample_auth_def bodyOf_def validatePart_def LoginBodySchema_def zObject_def propOf_def
        zEmail_def zString_def findUserByEmail_def findOne_def split: if_splits)
  have list: "replicate 8 sample_guess = (fst sample_guess, snd sample_guess) # replicate 7 sample_guess"
    by (simp add: numeral_eq_Suc)
  have soon: "\<forall>(a, rq)\<in>set (replicate 7 sample_guess). \<exists>t. attempt ?srv ''10.0.0.1'' t a
      \<and> t < 1000 + lc_windowMs (standardLimiter (\<not> True))"
    using guess by (auto simp: case_prod_beta standardLimiter_def intro!: exI[of _ 1000])
  have all_wrong: "\<forall>rq\<in>insert (snd sample_guess) (snd ` set (replicate 7 sample_guess)).
      wrongLogin sample_authServer (at_users (ax_auth (ap_world sample_appState))) rq"
    using wrong by auto
  from failed_logins_are_limited[OF HOL.refl ok fresh guess _ soon all_wrong] show ?thesis unfolding list
    by (simp del: loginReplies.simps)
qed

section \<open>Sensor data\<close>







section \<open>Events\<close>

text \<open>
  C28. Server-sent events and Redis: from the start of the process, without pub/sub an event reaches
  each open stream of its user once and no other stream; with pub/sub up it is published to a channel
  that the hub never subscribes to, and no stream changes at all.
\<close>

theorem sse_events_need_a_missing_redis:
  assumes "(hub_step json parse)\<^sup>*\<^sup>* emptyHub h"
  shows "if hb_redisPubSubReady h \<and> hb_publisher h \<and> pubUp
     then publishToUser json parse pubUp userId ev h = h
     else hb_written (publishToUser json parse pubUp userId ev h) c
       = hb_written h c @ (if c \<in> set (clientsOf userId h) \<and> \<not> hb_ended h c then [formatSseMessage json ev] else [])"
  using publish_lost[OF hub_reachable_ok[OF assms]] publish_local[OF hub_reachable_ok[OF assms]] by simp

lemma sse_events_need_a_missing_redis_witness:
  "publishToUser (\<lambda>_. ''{}'') (\<lambda>_. None) True ''u1'' (ShipmentStatusRealtimeEvent ''s1'' EV_DELIVERED ''t'')
      (initSseHub True True (registerSseClient ''u1'' 1 emptyHub))
    = initSseHub True True (registerSseClient ''u1'' 1 emptyHub)"
proof -
  have "(hub_step (\<lambda>_. ''{}'') (\<lambda>_. None))\<^sup>*\<^sup>* emptyHub (initSseHub True True (registerSseClient ''u1'' 1 emptyHub))"
    using hub_step.opened hub_step.started by (meson converse_rtranclp_into_rtranclp r_into_rtranclp)
  moreover have "hb_redisPubSubReady (initSseHub True True (registerSseClient ''u1'' 1 emptyHub))"
    and "hb_publisher (initSseHub True True (registerSseClient ''u1'' 1 emptyHub))"
    by (simp_all add: initSseHub_def registerSseClient_def emptyHub_def writeStream_def Let_def)
  ultimately show ?thesis using sse_events_need_a_missing_redis[where pubUp = True and userId = "''u1''"] by presburger
qed

section \<open>Authentication\<close>

text \<open>
  C29. Logging out, revoking a session and refreshing are permanent: afterwards no request, at any
  later or earlier clock reading, passes \<open>requireAuth\<close> with that token, even though its signature is
  good, and a refreshed token is never refreshed again, at first because it is blocked and then
  because it is too old.
\<close>

theorem revocation_is_permanent:
  assumes "libs_ok env" and "isValidJti (cl_jti c)" and "0 < cl_exp c" and "seconds (ae_now env) < cl_exp c"
    and "cl_exp c \<le> seconds (ae_now env) + TOKEN_TTL_SECONDS" and "cl_iat c \<le> seconds (ae_now env)"
  shows "dead_token env c (at_redis (snd (logout env (ae_sign env c) s)))
     \<and> (fst (revokeSession env uid (cl_jti c) s) = Inr () \<longrightarrow>
          dead_token env c (at_redis (snd (revokeSession env uid (cl_jti c) s)))
          \<and> (\<exists>x\<in>set (at_sessions s). se_jti x = cl_jti c \<and> se_userId x = uid))
     \<and> (\<forall>u t s'. refreshable env c u s \<and> ae_now env \<le> t
          \<and> at_redis s' = at_redis (snd (refreshToken env (ae_sign env c) s)) \<longrightarrow>
          dead_token env c (at_redis s') \<and> (\<exists>e. fst (refreshToken (at_time t env) (ae_sign env c) s') = Inl e))"
  using logout_revokes(2)[OF assms(1-4)] revokeSession_revokes(1)[OF assms(1,2,5)] revokeSession_owner
    refresh_revokes[OF assms(1)] refresh_once[OF assms(1) _ _ assms(6)] assms(4,6) by fastforce

definition sample_claims :: claims where
  "sample_claims = tokenClaims sample_auth sample_user None"

lemma sample_claims_simps [simp]:
  "cl_jti sample_claims = ''0f8fad5b-d9cb-469f-a165-70867728950e''" "cl_exp sample_claims = 609800"
  "cl_iat sample_claims = 5000" "cl_userId sample_claims = ''u9''" "seconds (ae_now sample_auth) = 5000"
  by (simp_all add: sample_claims_def tokenClaims_def sample_auth_def seconds_def TOKEN_TTL_SECONDS_def sample_user_def)

lemma revocation_is_permanent_witness:
  "(\<exists>e. requireAuth sample_auth (Some (''Bearer '' @ ae_sign sample_auth sample_claims))
      (at_redis (snd (logout sample_auth (ae_sign sample_auth sample_claims) sample_state))) = Inl e)
   \<and> (\<exists>e. fst (refreshToken (at_time 9000000 sample_auth) (ae_sign sample_auth sample_claims)
      (snd (refreshToken sample_auth (ae_sign sample_auth sample_claims) sample_state))) = Inl e)"
proof -
  have r: "refreshable sample_auth sample_claims sample_user sample_state"
    by (simp add: refreshable_def sample_uuid_valid isTokenBlocked_def redis_value_conv)
      (simp add: sample_state_def emptyRedis_def)
  have t: "ae_now sample_auth \<le> 9000000" by (simp add: sample_auth_def)
  note all = revocation_is_permanent[OF sample_libs, of sample_claims sample_state, simplified sample_uuid_valid sample_claims_simps
      TOKEN_TTL_SECONDS_def, simplified]
  have "dead_token sample_auth sample_claims (at_redis (snd (logout sample_auth (ae_sign sample_auth sample_claims) sample_state)))"
    using all by blast
  moreover have "at_time (ae_now sample_auth) sample_auth = sample_auth" by (simp add: at_time_def)
  ultimately have "\<exists>e. requireAuth sample_auth (Some (''Bearer '' @ ae_sign sample_auth sample_claims))
      (at_redis (snd (logout sample_auth (ae_sign sample_auth sample_claims) sample_state))) = Inl e"
    unfolding dead_token_def by metis
  then show ?thesis using all r t by blast
qed

text \<open>
  C30. A password-reset token is neither single-use nor confined to its purpose: until it expires it
  sets the password a second time, although the first reset blocked it; and for seven days, expired
  or not, \<open>refreshToken\<close> trades an unused one for an access token with the user's full role.
\<close>

theorem reset_token_is_a_credential:
  assumes "libs_ok env" and "findUserById (us_id u) (at_users s) = Some x" and "0 \<le> ae_now env"
    and "seconds t < seconds (ae_now env) + 3600" and "seconds t' < seconds (ae_now env) + 3600"
    and "s1 = snd (resetPassword (at_time t env) (ae_sign env (resetClaims env u)) pw s)"
    and "s2 = snd (resetPassword (at_time t' env) (ae_sign env (resetClaims env u)) pw' s1)"
    and "seconds t'' - seconds (ae_now env) \<le> 604800" and "\<not> isTokenBlocked t'' (ae_uuid env) (at_redis s)"
  shows "findUserById (us_id u) (at_users s2) = Some (x\<lparr>us_passwordHash := ae_hash env pw'\<rparr>)
     \<and> (\<exists>c. fst (refreshToken (at_time t'' env) (ae_sign env (resetClaims env u)) s) = Inr (ae_sign env c, 604800)
          \<and> cl_role c = Some (us_role x) \<and> cl_userId c = us_id x)"
  using resetPassword_twice[OF assms(1,2,4,5,3,6,7)] refresh_reset_token[OF assms(1,2,8,9)]
  by (auto simp: tokenClaims_def)

lemma reset_token_is_a_credential_witness:
  "\<exists>c. fst (refreshToken (at_time 400000000 sample_auth) (ae_sign sample_auth (resetClaims sample_auth sample_user)) sample_state)
     = Inr (ae_sign sample_auth c, 604800) \<and> cl_role c = Some ADMIN"
proof -
  have f: "findUserById (us_id sample_user) (at_users sample_state) = Some sample_user"
    using sample_user_found by (simp add: sample_user_def)
  have n: "0 \<le> ae_now sample_auth" "seconds 5000000 < seconds (ae_now sample_auth) + 3600"
    "seconds 400000000 - seconds (ae_now sample_auth) \<le> 604800"
    by (simp_all add: sample_auth_def seconds_def)
  have b: "\<not> isTokenBlocked 400000000 (ae_uuid sample_auth) (at_redis sample_state)"
    by (simp add: isTokenBlocked_def redis_value_conv sample_state_def emptyRedis_def)
  have r: "us_role sample_user = ADMIN" by (simp add: sample_user_def)
  show ?thesis
    using reset_token_is_a_credential[OF sample_libs f n(1) n(2) n(2) HOL.refl HOL.refl n(3) b] unfolding r by blast
qed

section \<open>The HTTP interface of accounts\<close>

text \<open>
  C31. No request to the authentication routes changes the email, role, organization or deletion of an
  account. The accounts that appear are viewers, or the administrator of a company that appears with
  them. API keys change only for administrators, and what a token does reaches no account but its
  owner's.
\<close>

theorem auth_requests_keep_standing:
  "(\<exists>new. map standing (at_users (ax_auth (snd (authRouter ah m path rq w))))
        = map standing (at_users (ax_auth w)) @ map standing new
      \<and> (\<forall>u\<in>set new. us_role u = VIEWER \<or> (us_role u = ADMIN
           \<and> (\<exists>g. at_orgs (ax_auth (snd (authRouter ah m path rq w))) = at_orgs (ax_auth w) @ [g]
                \<and> us_organizationId u = Some (og_id g)))))
   \<and> (ax_keys (snd (authRouter ah m path rq w)) \<noteq> ax_keys w \<longrightarrow>
        (\<exists>c. authenticated ah rq (at_redis (ax_auth w)) = Inr c \<and> cl_role c \<in> {Some ADMIN, Some SUPER_ADMIN}))
   \<and> (\<forall>rt u. authRouteOf m path = Some (Inr rt) \<and> u \<in> set (at_users (ax_auth w))
        \<and> (\<forall>c. authenticated ah rq (at_redis (ax_auth w)) = Inr c \<longrightarrow> us_id u \<noteq> cl_userId c) \<longrightarrow>
        u \<in> set (at_users (ax_auth (snd (authRouter ah m path rq w)))))"
  using authRouter_joins[of w ah m path rq] authRouter_keys[of ah m path rq w] authRouter_bystander[of m path _ _ w ah rq]
  unfolding joins_def newcomer_def by blast

text \<open>
  C32. Nobody is asked whether a stranger may join: signing up with the id of an organization gives a
  token that reads every shipment of that organization.
\<close>

theorem strangers_read_shipments:
  assumes "libs_ok (hx_auth ah)" and "hx_auth hx = hx_auth ah" and "ah_isEmail ah email"
    and "email \<notin> us_email ` set (at_users (ax_auth a))" and "name \<noteq> []" and "8 \<le> length pw"
    and "rq_body rq = JObj [(''email'', JStr email), (''name'', JStr name), (''password'', JStr pw),
          (''organizationId'', JStr org)]"
    and "findShipmentById i (w_shipments w) = Some sh" and "org \<noteq> []" and "org \<in> {sh_enterpriseId sh, sh_logisticsId sh}"
    and "i \<noteq> []" and "toLowerCase i \<noteq> ''export''"
    and "\<not> isTokenBlocked (ae_now (hx_auth ah)) (ae_uuid (hx_auth ah)) (w_redis w)"
  shows "\<exists>v token. fst (authRouter ah POST [''signup''] rq a) = created201 ''Account created successfully'' (Account v token)
     \<and> av_role v = VIEWER
     \<and> (\<forall>rq'. rq_authorization rq' = Some (''Bearer '' @ token) \<longrightarrow>
          fst (shipmentsRouter hx GET [i] rq' w) = ok200 ''Shipment retrieved'' (OneShipment sh))"
proof -
  obtain v token c where v: "fst (authRouter ah POST [''signup''] rq a) = created201 ''Account created successfully'' (Account v token)"
      "av_role v = VIEWER"
    and c: "verifyToken (hx_auth ah) token = Some c" "cl_role c = Some VIEWER" "cl_organizationId c = Some org"
      "cl_jti c = ae_uuid (hx_auth ah)"
    using stranger_joins[OF assms(1,3-6,9,7)] by blast
  have "authenticated hx rq' (w_redis w) = Inr c" if "rq_authorization rq' = Some (''Bearer '' @ token)" for rq'
    unfolding authenticated_def that requireAuth_bearer assms(2) using c(1,4) assms(13) by simp
  then show ?thesis using v member_reads[OF _ c(2,3) assms(9,10,8,11,12)] by blast
qed

definition sample_signup :: request where
  "sample_signup = \<lparr>rq_authorization = None, rq_query = [], rq_body = JObj [(''email'', JStr ''b@b''), (''name'', JStr ''B''),
     (''password'', JStr ''password''), (''organizationId'', JStr (sh_enterpriseId sample_shipment))], rq_files = []\<rparr>"

lemma strangers_read_shipments_witness:
  "\<exists>token. fst (shipmentsRouter sample_http GET [''s1'']
      (sample_request VIEWER\<lparr>rq_authorization := Some (''Bearer '' @ token)\<rparr>) sample_world)
     = ok200 ''Shipment retrieved'' (OneShipment sample_shipment)"
proof -
  have "libs_ok (hx_auth sample_authServer)" "hx_auth sample_http = hx_auth sample_authServer"
    "ah_isEmail sample_authServer ''b@b''" "''b@b'' \<notin> us_email ` set (at_users (ax_auth sample_authSystem))"
    "''B'' \<noteq> []" "8 \<le> length ''password''" "sh_enterpriseId sample_shipment \<noteq> []" "''s1'' \<noteq> []"
    "toLowerCase ''s1'' \<noteq> ''export''"
    "\<not> isTokenBlocked (ae_now (hx_auth sample_authServer)) (ae_uuid (hx_auth sample_authServer)) (w_redis sample_world)"
    by (simp_all add: sample_authServer_def sample_http_def sample_authSystem_def sample_state_def sample_user_def
        sample_shipment_def toLowerCase_def to_lower_def isTokenBlocked_def redis_value_conv sample_world_def emptyRedis_def)
  moreover have "rq_body sample_signup = JObj [(''email'', JStr ''b@b''), (''name'', JStr ''B''),
     (''password'', JStr ''password''), (''organizationId'', JStr (sh_enterpriseId sample_shipment))]"
    by (simp add: sample_signup_def)
  ultimately obtain token where "\<forall>rq'. rq_authorization rq' = Some (''Bearer '' @ token) \<longrightarrow>
      fst (shipmentsRouter sample_http GET [''s1''] rq' sample_world) = ok200 ''Shipment retrieved'' (OneShipment sample_shipment)"
    using strangers_read_shipments[of sample_authServer sample_http "''b@b''" sample_authSystem "''B''" "''password''" sample_signup
        "sh_enterpriseId sample_shipment" "''s1''" sample_world sample_shipment] sample_find by blast
  then show ?thesis by (intro exI[of _ token]) simp
qed

lemma auth_requests_keep_standing_witness:
  "sample_user \<in> set (at_users (ax_auth (snd (authRouter sample_authServer POST [''logout''] sample_signup sample_authSystem))))"
proof -
  have "authRouteOf POST [''logout''] = Some (Inr LogoutRoute)" by (simp add: authRouteOf_def toLowerCase_def to_lower_def)
  moreover have "sample_user \<in> set (at_users (ax_auth sample_authSystem))" by (simp add: sample_authSystem_def sample_state_def)
  moreover have "authenticated sample_authServer sample_signup r \<noteq> Inr c" for r c
    by (simp add: authenticated_def requireAuth_def throwApp_def sample_signup_def)
  ultimately show ?thesis
    using auth_requests_keep_standing[of sample_authServer POST "[''logout'']" sample_signup sample_authSystem] by blast
qed

section \<open>User administration\<close>

text \<open>
  C33. No sequence of operations of the users and organizations modules ever makes two accounts
  share an email or two organizations a name, deleted ones included; and any request to the routes of
  users and organizations is such an operation or changes nothing.
\<close>

theorem accounts_stay_unique:
  assumes "account_step\<^sup>*\<^sup>* s s'" and "wf_accounts s"
  shows "distinct (map us_email (ac_users s')) \<and> distinct (map og_name (ac_orgs s'))
     \<and> distinct (map us_id (ac_users s')) \<and> distinct (map og_id (ac_orgs s'))
     \<and> (unused_ids (userEnv uh) s' \<longrightarrow>
          account_step\<^sup>*\<^sup>* s (snd (usersRouter uh m path rq s'))
          \<and> account_step\<^sup>*\<^sup>* s (snd (organizationsRouter uh m path rq s')))"
  using run_wf[OF assms] assms(1) usersRouter_step[of uh s' m path rq] organizationsRouter_step[of uh s' m path rq]
  by (auto simp: wf_accounts_def)

definition sample_accounts :: accounts where
  "sample_accounts = \<lparr>ac_auth = sample_state, ac_audit = \<lparr>as_logged = [], as_persisted = []\<rparr>, ac_invites = []\<rparr>"

definition sample_acEnv :: acEnv where
  "sample_acEnv = \<lparr>acEnv_auth = sample_auth, acEnv_random = ''0f'', acEnv_oid = Inr,
     acEnv_regex = (\<lambda>p. Some (\<lambda>x. p = x)), acEnv_signInvite = (\<lambda>_. ''t''), acEnv_verifyInvite = (\<lambda>_ _. None),
     acEnv_mailUp = True, acEnv_isValidObjectId = (\<lambda>_. True), acEnv_auditUp = True,
     acEnv_frontendUrl = ''https://navin'', acEnv_encode = (\<lambda>x. x)\<rparr>"

lemma sample_accounts_simps [simp]:
  "ac_users sample_accounts = [sample_user]" "ac_orgs sample_accounts = []" "ac_auth sample_accounts = sample_state"
  "acEnv_auth sample_acEnv = sample_auth" "acEnv_oid sample_acEnv = Inr" "at_redis sample_state = emptyRedis"
  by (simp_all add: sample_accounts_def sample_acEnv_def ac_users_def ac_orgs_def sample_state_def del: accounts_simps)

lemma sample_accounts_wf: "wf_accounts sample_accounts" "unused_ids sample_acEnv sample_accounts"
  by (simp_all add: wf_accounts_def unused_ids_def sample_auth_def sample_user_def nat_str.simps)
    code_simp

lemma accounts_stay_unique_witness:
  "distinct (map us_email (ac_users (snd (registerUser sample_acEnv ''b@b'' ''B'' None None sample_accounts))))"
  using accounts_stay_unique[OF r_into_rtranclp[where r = account_step, OF on_register[OF sample_accounts_wf(2)]] sample_accounts_wf(1)] by blast

text \<open>
  C34. Organizations are told apart: an update that goes through is a platform administrator's, or an
  administrator's of that very organization, who cannot change its type; it changes no other
  organization and no account, a refused one changes nothing, and the same rule guards reading.
\<close>

theorem organization_isolation:
  "(case updateOrganizationService i p role org s of
      (Inl e, s') \<Rightarrow> s' = s
    | (Inr g', s') \<Rightarrow>
        (role = Some SUPER_ADMIN \<or> role = Some ADMIN \<and> org = Some i
           \<and> Some (og_type g') = map_option og_type (findOrganizationById i (ac_orgs s)))
        \<and> findOrganizationById i (ac_orgs s') = Some g' \<and> ac_users s' = ac_users s
        \<and> (\<forall>j. j \<noteq> i \<longrightarrow> findOrganizationById j (ac_orgs s') = findOrganizationById j (ac_orgs s)))
   \<and> (\<forall>g. getOrganizationService i role org s = Inr g \<longrightarrow>
        (role = Some SUPER_ADMIN \<or> role = Some ADMIN \<and> org = Some i) \<and> findOrganizationById i (ac_orgs s) = Some g)"
proof -
  have "getOrganizationService i role org s = Inr g \<Longrightarrow>
      (role = Some SUPER_ADMIN \<or> role = Some ADMIN \<and> org = Some i) \<and> findOrganizationById i (ac_orgs s) = Some g" for g
    by (rule organization_admin_only(4))
  moreover note organization_update_refused[of i p role org s] organization_update_guard[of i p role org s]
  ultimately show ?thesis by (cases "updateOrganizationService i p role org s") (auto split: sum.splits)
qed

definition sample_org :: organization where
  "sample_org = \<lparr>og_id = ''o1'', og_name = ''Acme'', og_type = ENTERPRISE, og_settings = JObj [], og_createdAt = 0,
     og_deleted = False\<rparr>"

lemma organization_isolation_witness:
  "findOrganizationById ''o1'' (ac_orgs (withOrgs [sample_org] sample_accounts)) = Some sample_org"
proof -
  let ?s = "withOrgs [sample_org] sample_accounts"
  have "getOrganizationService ''o1'' (Some ADMIN) (Some ''o1'') ?s = Inr sample_org"
    by (simp add: getOrganizationService_def findOrganizationById_def findOne_def organizationAlive_def sample_org_def)
  with organization_isolation[where i = "''o1''" and role = "Some ADMIN" and org = "Some ''o1''" and s = ?s] show ?thesis by blast
qed

text \<open>
  C35. The route for team members does not have the check of the route for users: an administrator
  of any organization creates a platform administrator there, and whoever reads that mailbox resets
  its password and logs in with the platform administrator's role.
\<close>

theorem team_member_escalation:
  assumes "libs_ok (acEnv_auth env)" and "requireAuth (acEnv_auth env) h (at_redis (ac_auth s)) = Inr c"
    and "cl_role c = Some ADMIN" and "acEnv_oid env (nullish (cl_organizationId c) []) = Inr org"
    and "email \<notin> us_email ` set (ac_users s)" and "unused_ids env s"
  shows "registerUser env email name (Some SUPER_ADMIN) o' s
      = (throwApp 400 ''Cannot create SUPER_ADMIN users via this endpoint'' ''INVALID_ROLE'', s)
   \<and> (\<exists>u. fst (createTeamMemberRoute env h email name (Some SUPER_ADMIN) s) = Inr u \<and> us_role u = SUPER_ADMIN)
   \<and> (let s1 = snd (createTeamMemberRoute env h email name (Some SUPER_ADMIN) s);
          a1 = forgotPassword (acEnv_auth env) True email (ac_auth s1);
          a2 = snd (resetPassword (acEnv_auth env) (snd (last (at_mails a1))) pw a1)
      in \<exists>u token c'. fst (login (acEnv_auth env) email pw cx a2) = Inr (u, token)
           \<and> verifyToken (acEnv_auth env) token = Some c' \<and> cl_role c' = Some SUPER_ADMIN)"
  unfolding Let_def
  using createTeamMemberRoute_creates[OF assms(2-5), of name SUPER_ADMIN]
    team_member_claims[OF assms HOL.refl HOL.refl, where name = name and role = SUPER_ADMIN and pw = pw and cx = cx]
  by (simp add: registerUser_def)

lemma sample_admin_passes:
  "requireAuth (acEnv_auth sample_acEnv) (Some (''Bearer '' @ ae_sign sample_auth sample_claims))
     (at_redis (ac_auth sample_accounts)) = Inr sample_claims"
proof -
  have "requireAuth sample_auth (Some (''Bearer '' @ ae_sign sample_auth sample_claims)) emptyRedis = Inr sample_claims"
    unfolding requireAuth_bearer verify_signed[OF sample_libs]
    by (simp add: isTokenBlocked_def redis_value_conv emptyRedis_def)
  then show ?thesis by (simp only: sample_accounts_simps)
qed

lemma sample_admin_role: "cl_role sample_claims = Some ADMIN"
  by (simp add: sample_claims_def tokenClaims_def sample_user_def)

lemma team_member_escalation_witness:
  "\<exists>u. fst (createTeamMemberRoute sample_acEnv (Some (''Bearer '' @ ae_sign sample_auth sample_claims)) ''x@y'' ''X''
     (Some SUPER_ADMIN) sample_accounts) = Inr u \<and> us_role u = SUPER_ADMIN"
proof -
  have "acEnv_oid sample_acEnv (nullish (cl_organizationId sample_claims) []) = Inr (nullish (cl_organizationId sample_claims) [])"
    by simp
  moreover have "''x@y'' \<notin> us_email ` set (ac_users sample_accounts)" by (simp add: sample_user_def)
  ultimately show ?thesis
    using team_member_escalation[where env = sample_acEnv and name = "''X''", OF _ sample_admin_passes sample_admin_role _ _ sample_accounts_wf(2)] by simp
qed

text \<open>
  C36. Any administrator deletes any account, of whatever organization and role. The account is then
  locked out of logging in and of refreshing its tokens, and its email can never be used again; but
  no token is revoked, so those it holds pass \<open>requireAuth\<close> until they expire.
\<close>

theorem deletion_locks_out_later:
  assumes "libs_ok (acEnv_auth env)" and "wf_accounts s"
    and "requireAuth (acEnv_auth env) h (at_redis (ac_auth s)) = Inr c" and "cl_role c = Some ADMIN"
    and "acEnv_oid env i = Inr j" and "findUserById j (ac_users s) = Some u"
  shows "let (r, s') = deleteUserRoute env h i s in
     r = Inr (u\<lparr>us_deletedAt := Some (ac_now env)\<rparr>) \<and> findUserById j (ac_users s') = None
   \<and> (\<forall>pw cx. fst (login (acEnv_auth env) (us_email u) pw cx (ac_auth s')) = throwApp 401 ''Invalid credentials'' ''INVALID_CREDENTIALS'')
   \<and> (\<forall>c'. cl_userId c' = j \<longrightarrow> (\<exists>e. fst (refreshToken (acEnv_auth env) (ae_sign (acEnv_auth env) c') (ac_auth s')) = Inl e))
   \<and> (\<forall>name role o'. \<exists>e. registerUser env (us_email u) name role o' s' = (Inl e, s'))
   \<and> (\<forall>t h'. requireAuth (at_time t (acEnv_auth env)) h' (at_redis (ac_auth s')) = requireAuth (at_time t (acEnv_auth env)) h' (at_redis (ac_auth s)))"
proof -
  obtain s' where s': "s' = snd (markDeleted (ac_now env) j s)" by blast
  have route: "deleteUserRoute env h i s = (Inr (u\<lparr>us_deletedAt := Some (ac_now env)\<rparr>), s')"
    using deleteUserRoute_passes[OF assms(3,4)] deleteUser_any[OF assms(5,6)] s' by simp
  note gone = deleted_account[OF assms(2,6) s']
  have "\<exists>e. registerUser env (us_email u) name role o' s' = (Inl e, s')" for name role o'
    using createLocked_deleted_email[OF gone(2,3)] by (simp add: registerUser_def throwApp_def)
  then show ?thesis
    unfolding route using gone login_unknown[of "us_email u" "ac_auth s'"] refresh_unknown[OF assms(1), of _ "ac_auth s'"]
    by (auto simp: fst_conv) (metis fst_conv)
qed

lemma deletion_locks_out_later_witness:
  "findUserById ''u9'' (ac_users (snd (deleteUserRoute sample_acEnv
     (Some (''Bearer '' @ ae_sign sample_auth sample_claims)) ''u9'' sample_accounts))) = None"
proof -
  have "findUserById ''u9'' (ac_users sample_accounts) = Some sample_user"
    using sample_user_found by (simp add: sample_state_def)
  moreover have "acEnv_oid sample_acEnv ''u9'' = Inr ''u9''" "libs_ok (acEnv_auth sample_acEnv)" by simp_all
  ultimately show ?thesis
    using deletion_locks_out_later[OF _ sample_accounts_wf(1) sample_admin_passes sample_admin_role]
    unfolding case_prod_unfold Let_def by blast
qed

section \<open>Second factors and API keys\<close>

text \<open>
  C37. Of the backup codes handed out, each works once: a client that presents any list of codes gets
  through with exactly the issued codes in it, each a single time however often it is presented.
\<close>

theorem backup_codes_work_once:
  assumes "fst (regenerateBackupCodes env i s) = Inr plain" and "codes_told_apart env plain"
  shows "length plain = BACKUP_CODE_COUNT
     \<and> mset (fst (consumeAll env i cs (snd (regenerateBackupCodes env i s)))) = mset_set (set cs \<inter> set plain)"
  using regenerate_stores[OF assms(1)] consumeAll_accepted[OF _ _ assms(2)] by (auto simp: BACKUP_CODE_COUNT_def)

definition sample_twoFactor :: twoFactorEnv where
  "sample_twoFactor = \<lparr>tf_secret = ''S'', tf_uri = (\<lambda>l i s. l), tf_verify = (=),
     tf_random = (\<lambda>k. replicate k CHR ''a''), tf_hash = (\<lambda>c. c), tf_compare = (=)\<rparr>"

lemma backup_codes_work_once_witness:
  "mset (fst (consumeAll sample_twoFactor ''u9'' [''a'', ''zz'', ''a''] (snd (regenerateBackupCodes sample_twoFactor ''u9'' sample_state))))
    = {#''a''#}"
proof -
  let ?plain = "fst (generateBackupCodes sample_twoFactor)"
  have plain: "?plain = map (\<lambda>k. replicate k CHR ''a'') [0..<10]"
    by (simp add: generateBackupCodes_def BACKUP_CODE_COUNT_def sample_twoFactor_def Let_def)
  have en: "us_totpEnabled sample_user" by (simp add: sample_user_def)
  have ok: "fst (regenerateBackupCodes sample_twoFactor ''u9'' sample_state) = Inr ?plain"
    by (simp add: regenerateBackupCodes_def en split: prod.split)
  have "inj_on (\<lambda>k. replicate k CHR ''a'') {0..<10}" by (rule inj_onI) (metis length_replicate)
  then have apart: "codes_told_apart sample_twoFactor ?plain"
    unfolding codes_told_apart_def plain by (simp add: distinct_map sample_twoFactor_def)
  have "set [''a'', ''zz'', ''a''] \<inter> set ?plain = {''a''}"
    unfolding plain by (simp add: upt_rec)
  with backup_codes_work_once[OF ok apart, of "[''a'', ''zz'', ''a'']"] show ?thesis by simp
qed

text \<open>
  C38. A revoked API key opens nothing any more, whatever keys are created, used and revoked after it,
  and the reading of a device that still shows it is not stored.
\<close>

theorem revoked_api_key_stays_out:
  assumes "fst (revokeApiKey i s) = Inr ()" and "distinct (map ak_id (ks_keys s))" and "distinct (map ak_keyHash (ks_keys s))"
    and "k \<in> set (ks_keys s)" and "ak_id k = i" and "key_step\<^sup>*\<^sup>* (snd (revokeApiKey i s)) s'"
    and "\<And>h. ke_compare env raw h \<Longrightarrow> h = ak_keyHash k"
    and "ho_keys ho = env" and "hr_apiKey rq = Some raw" and "ks_keys s' = snd w"
  shows "(requireApiKey env (Some raw) s' = (throwApp 401 ''Invalid API key'' ''UNAUTHORIZED'', s')
     \<or> requireApiKey env (Some raw) s' = (throwApp 401 ''Missing x-api-key header'' ''UNAUTHORIZED'', s'))
     \<and> (\<exists>e. webhooksRouter ho POST [''iot''] rq w = (Failure e, w))"
proof -
  have refused: "requireApiKey env (Some raw) s' = (throwApp 401 ''Invalid API key'' ''UNAUTHORIZED'', s')
     \<or> requireApiKey env (Some raw) s' = (throwApp 401 ''Missing x-api-key header'' ''UNAUTHORIZED'', s')"
    using revoked_key_refused[OF assms(1-7)] by blast
  then obtain e where "fst (requireApiKey (ho_keys ho) (hr_apiKey rq) s') = Inl e"
    by (auto simp: assms(8,9) throwApp_def)
  from refused_key[OF this assms(10)] refused show ?thesis by blast
qed

definition sample_key :: apiKey where
  "sample_key = \<lparr>ak_id = ''k1'', ak_name = ''scanner'', ak_keyHash = ''raw1'', ak_organizationId = ''e1'',
     ak_shipmentId = None, ak_isActive = True, ak_lastUsedAt = None, ak_createdAt = 1\<rparr>"

lemma revoked_api_key_stays_out_witness:
  "\<exists>e. webhooksRouter sample_hooks POST [''iot''] (sample_callback\<lparr>hr_apiKey := Some ''raw1''\<rparr>)
     (sample_sensing, [sample_key\<lparr>ak_isActive := False\<rparr>])
     = (Failure e, (sample_sensing, [sample_key\<lparr>ak_isActive := False\<rparr>]))"
proof -
  let ?s = "\<lparr>ks_keys = [sample_key], ks_audit = \<lparr>as_logged = [], as_persisted = []\<rparr>\<rparr>"
  have r: "fst (revokeApiKey ''k1'' ?s) = Inr ()" by (simp add: revokeApiKey_def sample_key_def)
  have k: "ak_id sample_key = ''k1''" by (simp add: sample_key_def)
  have c: "\<And>h. ke_compare sample_keyEnv ''raw1'' h \<Longrightarrow> h = ak_keyHash sample_key"
    by (simp add: sample_keyEnv_def sample_key_def)
  have after: "ks_keys (snd (revokeApiKey ''k1'' ?s)) = snd (sample_sensing, [sample_key\<lparr>ak_isActive := False\<rparr>])"
    by (simp add: revokeApiKey_def sample_key_def)
  have "ho_keys sample_hooks = sample_keyEnv" by (simp add: sample_hooks_def)
  from revoked_api_key_stays_out[OF r _ _ _ k rtranclp.rtrancl_refl c this _ after,
      where rq = "sample_callback\<lparr>hr_apiKey := Some ''raw1''\<rparr>"] show ?thesis
    by simp
qed

section \<open>Invitations\<close>

text \<open>
  C39. An invitation is accepted at most once. An acceptance creates one account, with the invited
  address, role and organization; afterwards every token for that invitation is refused and changes
  nothing, whatever invitations are created, resent, revoked or looked up in between.
\<close>

theorem invitation_accepted_once:
  assumes "fst (acceptInvitationWithPassword env token name pw s) = Inr u" and "verifyInvitationToken env token = Inr p"
    and "distinct (map iv_id (is_invitations s))" and "distinct (map iv_tokenHash (is_invitations s))"
    and "invite_step\<^sup>*\<^sup>* (snd (acceptInvitationWithPassword env token name pw s)) s'"
    and "verifyInvitationToken env' token' = Inr p'" and "it_invitationId p' = it_invitationId p"
  shows "(\<exists>iv. findInvitationById (it_invitationId p) (is_invitations s) = Some iv \<and> us_email u = iv_email iv
        \<and> us_role u = iv_role iv \<and> us_organizationId u = Some (iv_organizationId iv))
     \<and> is_users (snd (acceptInvitationWithPassword env token name pw s)) = is_users s @ [u]
     \<and> (\<exists>e. acceptInvitationWithPassword env' token' name' pw' s' = (Inl e, s'))"
proof -
  from accept_closes[OF assms(1-4)] have "closed (it_invitationId p) s'" by (rule closed_steps[OF assms(5)])
  from closed_refused[OF this assms(6,7)] accept_sound[OF assms(1)] assms(2) show ?thesis by auto
qed

definition sample_invitation :: invitation where
  "sample_invitation = \<lparr>iv_id = ''v1'', iv_email = ''n@x'', iv_role = DRIVER, iv_status = INV_PENDING, iv_tokenHash = ''h'',
     iv_expiresAt = 9000000, iv_message = None, iv_invitedBy = ''u9'', iv_organizationId = ''e1'', iv_createdAt = 1,
     iv_updatedAt = 1, iv_deletedAt = None\<rparr>"

definition sample_payload :: inviteTokenPayload where
  "sample_payload = \<lparr>it_invitationId = ''v1'', it_email = ''n@x'', it_role = DRIVER, it_organizationId = ''e1'',
     it_nonce = ''n'', it_exp = 9000\<rparr>"

definition sample_invite :: inviteEnv where
  "sample_invite = \<lparr>in_sign = (\<lambda>p. sample_sign (asTokenPayload p)),
     in_verify = (\<lambda>t tok. Some (Some ''COMPANY_INVITATION'', sample_payload)),
     in_sha256 = (\<lambda>s. s), in_hash = (\<lambda>s. s), in_uuid = (\<lambda>k. replicate k CHR ''n''), in_fresh = (\<lambda>k. ''v2''), in_now = 5000000,
     in_mailUp = True\<rparr>"

definition sample_invites :: inviteState where
  "sample_invites = \<lparr>is_invitations = [sample_invitation], is_users = [sample_user], is_orgs = [], is_mails = []\<rparr>"

lemma invitation_accepted_once_witness:
  "\<exists>e. fst (acceptInvitationWithPassword sample_invite ''t'' ''N'' ''pw''
      (snd (acceptInvitationWithPassword sample_invite ''t'' ''N'' ''pw'' sample_invites))) = Inl e"
proof -
  have v: "verifyInvitationToken sample_invite ''t'' = Inr sample_payload"
    by (simp add: verifyInvitationToken_def sample_invite_def)
  have "openInvitation sample_invite ''t'' sample_invites = (Inr sample_invitation, sample_invites)"
    unfolding openInvitation_def v
    by (simp add: findInvitationById_def findOne_def invitationAlive_def sample_invites_def)
      (simp add: sample_payload_def sample_invitation_def sample_invite_def)
  moreover have "findUserByEmail (iv_email sample_invitation) (is_users sample_invites) = None"
    "iv_email sample_invitation \<notin> us_email ` set (is_users sample_invites)"
    by (simp_all add: findUserByEmail_def findOne_def sample_invites_def sample_invitation_def sample_user_def)
  ultimately obtain u where "fst (acceptInvitationWithPassword sample_invite ''t'' ''N'' ''pw'' sample_invites) = Inr u"
    by (simp add: acceptInvitationWithPassword_def Let_def)
  from invitation_accepted_once[OF this v _ _ rtranclp.rtrancl_refl v HOL.refl, where name' = "''N''" and pw' = "''pw''"]
  show ?thesis by (simp add: sample_invites_def) (metis fst_conv)
qed

text \<open>
  C40. The token mailed with an invitation is a credential before it is accepted: signed with the
  secret of the session tokens, it authenticates for 48 hours with the invited role and organization,
  and it has no \<open>jti\<close> by which it could be revoked (\<open>s\<close> may hold any blocklist).
\<close>

theorem invitation_token_is_a_session:
  assumes "fst (createAndSendInvitation ie input s) = Inr x" and "same_secret ae ie"
    and "seconds (ae_now ae) < seconds (in_now ie) + 172800"
  shows "\<exists>c. requireAuth ae (Some (''Bearer '' @ sn_token x)) r = Inr c \<and> cl_role c = Some (ii_role input)
     \<and> cl_organizationId c = Some (ii_organizationId input) \<and> cl_jti c = []"
proof -
  note t = created_token[OF assms(1), THEN conjunct1]
  from assms(3) show ?thesis
    unfolding t generateInvitationToken_def
    using invitation_passes_requireAuth[OF assms(2), where r = r]
    by (auto simp: asTokenPayload_def INVITE_EXPIRY_SECONDS_def)
qed

lemma invitation_token_is_a_session_witness:
  "\<exists>x c. fst (createAndSendInvitation sample_invite \<lparr>ii_email = ''m@x'', ii_role = MANAGER, ii_message = None, ii_inviterId = ''u9'',
        ii_inviterRole = Some ADMIN, ii_organizationId = ''e1''\<rparr> sample_invites) = Inr x
     \<and> requireAuth sample_auth (Some (''Bearer '' @ sn_token x)) emptyRedis = Inr c \<and> cl_role c = Some MANAGER"
proof -
  let ?i = "\<lparr>ii_email = ''m@x'', ii_role = MANAGER, ii_message = None, ii_inviterId = ''u9'',
        ii_inviterRole = Some ADMIN, ii_organizationId = ''e1''\<rparr>"
  have sec: "same_secret sample_auth sample_invite"
    by (simp add: same_secret_def sample_auth_def sample_invite_def sample_verify_def sample_sign_def claims_tuple_def)
      (simp add: asTokenPayload_def)
  have n: "findUserByEmail ''m@x'' (is_users sample_invites) = None"
    "\<And>P. findOne invitationAlive (\<lambda>iv. iv_email iv = ''m@x'' \<and> P iv) (is_invitations sample_invites) = None"
    by (simp_all add: findUserByEmail_def findOne_def sample_invites_def sample_invitation_def sample_user_def)
  have c: "createInvitation iv sample_invites = (Inr (), sample_invites\<lparr>is_invitations := is_invitations sample_invites @ [iv]\<rparr>)"
    if "iv_tokenHash iv \<noteq> ''h''" for iv
    using that by (simp add: createInvitation_def sample_invites_def sample_invitation_def)
  have h: "in_sha256 sample_invite (in_sign sample_invite p) \<noteq> ''h''" for p
    by (cases "to_nat (claims_tuple (asTokenPayload p))") (simp_all add: sample_invite_def sample_sign_def)
  obtain x where x: "fst (createAndSendInvitation sample_invite ?i sample_invites) = Inr x"
    by (simp add: createAndSendInvitation_def allowedByRole_def n c h newInvitation_def generateInvitationToken_def Let_def)
  have "seconds (ae_now sample_auth) < seconds (in_now sample_invite) + 172800"
    by (simp add: sample_auth_def sample_invite_def seconds_def)
  from invitation_token_is_a_session[OF x sec this, of emptyRedis] x show ?thesis by auto
qed

end
